(* ===== verification/Prelude.thy ===== *)
theory Prelude
  imports Main "HOL-Library.List_Lexorder" "HOL-Library.Char_ord"
begin

text \<open>
  Shared vocabulary of the development: results (\<open>Result<T, E>\<close> of the source as the sum
  type), text building (\<open>format!\<close>), the machine integers of the kernel (\<open>i64\<close>, \<open>u64\<close>,
  \<open>usize\<close>, as \<open>int\<close> and \<open>nat\<close> with saturation written out), finite \<open>f64\<close> values as
  dyadic numbers, and the list facts several components use.
\<close>

named_theorems name_neqs
  \<open>distinctness of the constant names (event fields, kinds) of the source\<close>
named_theorems envelope_simps
  \<open>field lookups in events the kernel builds\<close>
named_theorems ledger_simps
  \<open>how one ledger entry moves the balance\<close>

section \<open>Results\<close>

type_synonym ('e, 'a) result = "'e + 'a"

abbreviation Err :: "'e \<Rightarrow> 'e + 'a" where
  "Err \<equiv> Inl"

abbreviation Ok :: "'a \<Rightarrow> 'e + 'a" where
  "Ok \<equiv> Inr"

text \<open>The \<open>?\<close> operator and \<open>map_err\<close> of the source.\<close>

definition and_then :: "'e + 'a \<Rightarrow> ('a \<Rightarrow> 'e + 'b) \<Rightarrow> 'e + 'b" where
  "and_then r f = (case r of Err e \<Rightarrow> Err e | Ok a \<Rightarrow> f a)"

lemma and_then_simps [simp]:
  "and_then (Err e) f = Err e"
  "and_then (Ok a) f = f a"
  by (simp_all add: and_then_def)

lemma and_then_Ok_iff: "and_then r f = Ok b \<longleftrightarrow> (\<exists>a. r = Ok a \<and> f a = Ok b)"
  by (cases r) simp_all

definition map_err :: "('e \<Rightarrow> 'f) \<Rightarrow> 'e + 'a \<Rightarrow> 'f + 'a" where
  "map_err g r = (case r of Err e \<Rightarrow> Err (g e) | Ok a \<Rightarrow> Ok a)"

lemma map_err_simps [simp]:
  "map_err g (Err e) = Err (g e)"
  "map_err g (Ok a) = Ok a"
  by (simp_all add: map_err_def)

definition result_map :: "('a \<Rightarrow> 'b) \<Rightarrow> 'e + 'a \<Rightarrow> 'e + 'b" where
  "result_map g r = (case r of Err e \<Rightarrow> Err e | Ok a \<Rightarrow> Ok (g a))"

lemma result_map_simps [simp]:
  "result_map g (Err e) = Err e"
  "result_map g (Ok a) = Ok (g a)"
  by (simp_all add: result_map_def)

text \<open>\<open>iter().map(f).collect::<Result<Vec<_>, _>>()\<close>: the first failure wins.\<close>

fun collect_results :: "('a \<Rightarrow> 'e + 'b) \<Rightarrow> 'a list \<Rightarrow> 'e + 'b list" where
  "collect_results f [] = Ok []"
| "collect_results f (x # xs) =
     and_then (f x) (\<lambda>y. and_then (collect_results f xs) (\<lambda>ys. Ok (y # ys)))"

lemma collect_results_Ok:
  "(\<And>x. x \<in> set xs \<Longrightarrow> f x = Ok (g x)) \<Longrightarrow> collect_results f xs = Ok (map g xs)"
  by (induction xs) auto

section \<open>Text\<close>

text \<open>
  \<open>format!\<close> with its pieces listed; kept folded in proofs, since no theorem looks inside a
  message except those about the message itself.
\<close>

definition fmt :: "string list \<Rightarrow> string" where
  "fmt ps = concat ps"

fun digits_of_nat :: "nat \<Rightarrow> string" where
  "digits_of_nat n =
     (if n < 10 then [char_of (48 + n)] else digits_of_nat (n div 10) @ [char_of (48 + n mod 10)])"

declare digits_of_nat.simps [simp del]

definition string_of_nat :: "nat \<Rightarrow> string" where
  "string_of_nat n = digits_of_nat n"

definition string_of_int :: "int \<Rightarrow> string" where
  "string_of_int i = (if i < 0 then CHR ''-'' # string_of_nat (nat (- i)) else string_of_nat (nat i))"

text \<open>
  \<open>{:?}\<close> of a string: quoted, with the escapes \<open>str::escape_debug\<close> writes for the
  characters below 128 (a byte above is copied).
\<close>

definition hex_digit :: "nat \<Rightarrow> char" where
  "hex_digit n = (if n < 10 then char_of (48 + n) else char_of (87 + n))"

definition escape_char :: "char \<Rightarrow> string" where
  "escape_char c =
     (let n = of_char c :: nat in
      if n = 0 then [CHR 0x5C, CHR ''0'']
      else if n = 9 then [CHR 0x5C, CHR ''t'']
      else if n = 10 then [CHR 0x5C, CHR ''n'']
      else if n = 13 then [CHR 0x5C, CHR ''r'']
      else if n = 34 then [CHR 0x5C, CHR 0x22]
      else if n = 92 then [CHR 0x5C, CHR 0x5C]
      else if n < 16 then [CHR 0x5C, CHR ''u'', CHR 0x7B, hex_digit n, CHR 0x7D]
      else if n < 32 \<or> n = 127
        then [CHR 0x5C, CHR ''u'', CHR 0x7B, hex_digit (n div 16), hex_digit (n mod 16), CHR 0x7D]
      else [c])"

definition debug_string :: "string \<Rightarrow> string" where
  "debug_string s = [CHR 0x22] @ concat (map escape_char s) @ [CHR 0x22]"

text \<open>\<open>contains\<close>, \<open>strip_prefix\<close> and \<open>split_once\<close> of \<open>str\<close>.\<close>

fun starts_with :: "string \<Rightarrow> string \<Rightarrow> bool" where
  "starts_with [] s = True"
| "starts_with (p # ps) [] = False"
| "starts_with (p # ps) (c # cs) = (p = c \<and> starts_with ps cs)"

fun str_contains :: "string \<Rightarrow> string \<Rightarrow> bool" where
  "str_contains pat [] = starts_with pat []"
| "str_contains pat (c # cs) = (starts_with pat (c # cs) \<or> str_contains pat cs)"

fun split_once :: "string \<Rightarrow> string \<Rightarrow> (string \<times> string) option" where
  "split_once sep [] = (if starts_with sep [] then Some ([], []) else None)"
| "split_once sep (c # cs) =
     (if starts_with sep (c # cs) then Some ([], drop (length sep) (c # cs))
      else map_option (\<lambda>(a, b). (c # a, b)) (split_once sep cs))"

lemma starts_with_iff: "starts_with p s \<longleftrightarrow> (\<exists>t. s = p @ t)"
  by (induction p s rule: starts_with.induct) auto

lemma starts_with_append [simp]: "starts_with p (p @ t)"
  by (simp add: starts_with_iff)

lemma split_once_Some: "split_once sep s = Some (a, b) \<Longrightarrow> s = a @ sep @ b"
proof (induction s arbitrary: a)
  case Nil
  then show ?case by (auto simp: starts_with_iff split: if_splits)
next
  case (Cons c cs)
  then show ?case by (auto simp: starts_with_iff split: if_splits)
qed

lemma split_once_None: "split_once sep s = None \<longleftrightarrow> \<not> str_contains sep s"
  by (induction s) auto

section \<open>Machine integers\<close>

definition i64_max :: int where
  "i64_max = 9223372036854775807"

definition i64_min :: int where
  "i64_min = -9223372036854775808"

definition u64_max :: nat where
  "u64_max = 18446744073709551615"

definition is_i64 :: "int \<Rightarrow> bool" where
  "is_i64 n \<longleftrightarrow> i64_min \<le> n \<and> n \<le> i64_max"

text \<open>Clamping to the range of \<open>i64\<close>: what its saturating operations and its casts do.\<close>

definition i64_sat :: "int \<Rightarrow> int" where
  "i64_sat n = max i64_min (min i64_max n)"

definition i64_saturating_add :: "int \<Rightarrow> int \<Rightarrow> int" where
  "i64_saturating_add a b = i64_sat (a + b)"

definition i64_saturating_sub :: "int \<Rightarrow> int \<Rightarrow> int" where
  "i64_saturating_sub a b = i64_sat (a - b)"

definition u64_saturating_add :: "nat \<Rightarrow> nat \<Rightarrow> nat" where
  "u64_saturating_add a b = min u64_max (a + b)"

text \<open>\<open>usize\<close> is 64 bits wide on every target the workspace is built for.\<close>

definition usize_of_int :: "int \<Rightarrow> nat" where
  "usize_of_int n = (if n < 0 then 0 else min u64_max (nat n))"

lemma i64_bounds: "i64_min < 0" "0 < i64_max"
  by (simp_all add: i64_min_def i64_max_def)

lemma i64_sat_is_i64 [simp]: "is_i64 (i64_sat n)"
  by (simp add: is_i64_def i64_sat_def i64_min_def i64_max_def)

lemma i64_sat_id: "is_i64 n \<Longrightarrow> i64_sat n = n"
  by (simp add: is_i64_def i64_sat_def)

text \<open>
  A \<open>limit: usize\<close> argument. \<open>None\<close> is \<open>usize::MAX\<close>: a \<open>Vec\<close> cannot hold more
  elements, so cutting at it is no cut.
\<close>

type_synonym limit = "nat option"

definition truncate_to :: "limit \<Rightarrow> 'a list \<Rightarrow> 'a list" where
  "truncate_to n xs = (case n of None \<Rightarrow> xs | Some k \<Rightarrow> take k xs)"

lemma truncate_to_simps [simp]:
  "truncate_to None xs = xs"
  "truncate_to (Some k) xs = take k xs"
  by (simp_all add: truncate_to_def)

section \<open>Finite binary64 values\<close>

text \<open>
  \<open>F64 m e\<close> is the value \<open>m * 2 ^ e\<close>. JSON has no NaN and no infinity, so every \<open>f64\<close> a
  \<open>serde_json::Number\<close> holds is one of these; the sign of a zero is not kept, since no
  operation of the source used here tells \<open>-0.0\<close> from \<open>0.0\<close>.
\<close>

datatype f64 = F64 (mantissa: int) (exponent: int)

definition f64_fract_is_zero :: "f64 \<Rightarrow> bool" where
  "f64_fract_is_zero x = (0 \<le> exponent x \<or> mantissa x mod 2 ^ nat (- exponent x) = 0)"

definition f64_trunc :: "f64 \<Rightarrow> int" where
  "f64_trunc x =
     (if 0 \<le> exponent x then mantissa x * 2 ^ nat (exponent x)
      else sgn (mantissa x) * (\<bar>mantissa x\<bar> div 2 ^ nat (- exponent x)))"

definition f64_nonneg :: "f64 \<Rightarrow> bool" where
  "f64_nonneg x \<longleftrightarrow> 0 \<le> mantissa x"

fun bit_length :: "nat \<Rightarrow> nat" where
  "bit_length n = (if n = 0 then 0 else Suc (bit_length (n div 2)))"

declare bit_length.simps [simp del]

text \<open>\<open>n as f64\<close> for an integer: exact up to 53 bits, else rounded to the nearest, ties to even.\<close>

definition f64_of_nat :: "nat \<Rightarrow> f64" where
  "f64_of_nat n =
     (if n < 2 ^ 53 then F64 (int n) 0
      else let k = bit_length n - 53; q = n div 2 ^ k; r = n mod 2 ^ k; h = 2 ^ (k - 1);
               q' = (if h < r \<or> (r = h \<and> odd q) then q + 1 else q)
           in F64 (int q') (int k))"

definition f64_of_int :: "int \<Rightarrow> f64" where
  "f64_of_int i =
     (if 0 \<le> i then f64_of_nat (nat i)
      else let x = f64_of_nat (nat (- i)) in F64 (- mantissa x) (exponent x))"

lemma f64_of_nat_nonneg [simp]: "f64_nonneg (f64_of_nat n)"
  by (simp add: f64_of_nat_def f64_nonneg_def Let_def)

lemma f64_of_nat_whole [simp]: "f64_fract_is_zero (f64_of_nat n)"
  by (simp add: f64_of_nat_def f64_fract_is_zero_def Let_def)

lemma f64_of_nat_exact: "n < 2 ^ 53 \<Longrightarrow> f64_trunc (f64_of_nat n) = int n"
  by (simp add: f64_of_nat_def f64_trunc_def)

section \<open>Lists\<close>

lemma takeWhile_length_partition:
  assumes "sorted (map f xs)"
  shows "drop (length (takeWhile (\<lambda>x. f x < (k::nat)) xs)) xs = filter (\<lambda>x. k \<le> f x) xs"
proof -
  have "dropWhile (\<lambda>x. f x < k) xs = filter (\<lambda>x. k \<le> f x) xs"
    using assms
  proof (induction xs)
    case (Cons x xs)
    show ?case
    proof (cases "f x < k")
      case True
      with Cons show ?thesis by simp
    next
      case False
      with Cons.prems have "\<forall>y \<in> set xs. k \<le> f y"
        by (auto simp: not_less dest: order_trans)
      with False show ?thesis by (simp add: filter_id_conv)
    qed
  qed simp
  then show ?thesis by (simp flip: dropWhile_eq_drop)
qed

lemma filter_filter_same: "filter P (filter P xs) = filter P xs"
  by (induction xs) auto

lemma last_drop_take: "drop (length xs - n) xs = rev (take n (rev xs))"
  by (simp add: rev_take)

end
