(* ===== verification/Json.thy ===== *)
theory Json
  imports Prelude
begin

text \<open>
  The part of \<open>serde_json\<close> the kernel computes with: \<open>Value\<close>, \<open>Number\<close> and
  \<open>Map<String, Value>\<close>. The workspace builds \<open>serde_json\<close> without \<open>preserve_order\<close> and
  without \<open>arbitrary_precision\<close> (its entry in \<open>Cargo.lock\<close> names neither \<open>indexmap\<close> nor the
  feature), so a map is a \<open>BTreeMap\<close> and iterates in key order: here an association list kept
  in that order, and a number is one of \<open>PosInt(u64)\<close>, \<open>NegInt(i64)\<close> and \<open>Float(f64)\<close>.
\<close>

section \<open>Values\<close>

datatype json_number = PosInt nat | NegInt int | Float f64

datatype json =
    JNull
  | JBool bool
  | JNumber json_number
  | JString string
  | JArray "json list"
  | JObject "(string \<times> json) list"

type_synonym json_map = "(string \<times> json) list"

text \<open>\<open>Value::from(i64)\<close> and \<open>Value::from(u64)\<close>.\<close>

definition json_of_i64 :: "int \<Rightarrow> json" where
  "json_of_i64 n = JNumber (if n < 0 then NegInt n else PosInt (nat n))"

definition json_of_u64 :: "nat \<Rightarrow> json" where
  "json_of_u64 n = JNumber (PosInt n)"

fun as_str :: "json \<Rightarrow> string option" where
  "as_str (JString s) = Some s"
| "as_str _ = None"

fun as_object :: "json \<Rightarrow> json_map option" where
  "as_object (JObject m) = Some m"
| "as_object _ = None"

fun as_u64 :: "json \<Rightarrow> nat option" where
  "as_u64 (JNumber (PosInt n)) = Some n"
| "as_u64 _ = None"

fun as_i64 :: "json \<Rightarrow> int option" where
  "as_i64 (JNumber (PosInt n)) = (if int n \<le> i64_max then Some (int n) else None)"
| "as_i64 (JNumber (NegInt i)) = Some i"
| "as_i64 _ = None"

fun as_f64 :: "json \<Rightarrow> f64 option" where
  "as_f64 (JNumber (PosInt n)) = Some (f64_of_nat n)"
| "as_f64 (JNumber (NegInt i)) = Some (f64_of_int i)"
| "as_f64 (JNumber (Float x)) = Some x"
| "as_f64 _ = None"

fun is_string :: "json \<Rightarrow> bool" where
  "is_string (JString s) = True"
| "is_string _ = False"

fun is_null :: "json \<Rightarrow> bool" where
  "is_null JNull = True"
| "is_null _ = False"

lemma as_object_iff: "as_object v = Some m \<longleftrightarrow> v = JObject m"
  by (cases v) auto

lemma as_str_iff: "as_str v = Some s \<longleftrightarrow> v = JString s"
  by (cases v) auto

lemma as_i64_of_i64 [simp]: "is_i64 n \<Longrightarrow> as_i64 (json_of_i64 n) = Some n"
  by (simp add: json_of_i64_def is_i64_def)

lemma as_u64_of_u64 [simp]: "as_u64 (json_of_u64 n) = Some n"
  by (simp add: json_of_u64_def)

section \<open>Maps\<close>

text \<open>\<open>Map::get\<close>, \<open>insert\<close>, \<open>remove\<close> and \<open>entry(..).or_insert(..)\<close>, on the ordered list.\<close>

definition map_get :: "(string \<times> 'v) list \<Rightarrow> string \<Rightarrow> 'v option" where
  "map_get m k = map_of m k"

fun map_insert :: "string \<Rightarrow> 'v \<Rightarrow> (string \<times> 'v) list \<Rightarrow> (string \<times> 'v) list" where
  "map_insert k v [] = [(k, v)]"
| "map_insert k v ((k', v') # m) =
     (if k < k' then (k, v) # (k', v') # m
      else if k = k' then (k, v) # m
      else (k', v') # map_insert k v m)"

definition map_remove :: "string \<Rightarrow> (string \<times> 'v) list \<Rightarrow> (string \<times> 'v) list" where
  "map_remove k m = filter (\<lambda>kv. fst kv \<noteq> k) m"

definition map_or_insert :: "string \<Rightarrow> 'v \<Rightarrow> (string \<times> 'v) list \<Rightarrow> (string \<times> 'v) list" where
  "map_or_insert k v m = (case map_get m k of None \<Rightarrow> map_insert k v m | Some _ \<Rightarrow> m)"

definition map_keys :: "(string \<times> 'v) list \<Rightarrow> string list" where
  "map_keys m = map fst m"

text \<open>\<open>Map::extend\<close>: the later entries win.\<close>

definition map_extend :: "(string \<times> 'v) list \<Rightarrow> (string \<times> 'v) list \<Rightarrow> (string \<times> 'v) list" where
  "map_extend m more = fold (\<lambda>(k, v) acc. map_insert k v acc) more m"

text \<open>What a \<open>BTreeMap\<close> guarantees of its keys.\<close>

definition ordered :: "(string \<times> 'v) list \<Rightarrow> bool" where
  "ordered m \<longleftrightarrow> sorted_wrt (<) (map fst m)"

subsection \<open>What the operations do to lookups, keys and order\<close>

lemma map_get_Nil [simp]: "map_get [] k = None"
  by (simp add: map_get_def)

lemma map_of_map_insert: "map_of (map_insert k v m) = (map_of m)(k \<mapsto> v)"
  by (induction m) (auto simp: fun_eq_iff)

lemma map_get_insert [simp]: "map_get (map_insert k v m) k' = (if k' = k then Some v else map_get m k')"
  by (simp add: map_get_def map_of_map_insert)

lemma map_of_map_remove: "map_of (map_remove k m) = (map_of m)(k := None)"
  by (induction m) (auto simp: map_remove_def fun_eq_iff)

lemma map_get_remove [simp]: "map_get (map_remove k m) k' = (if k' = k then None else map_get m k')"
  by (simp add: map_get_def map_of_map_remove)

lemma map_get_or_insert [simp]:
  "map_get (map_or_insert k v m) k' =
     (if k' = k then Some (case map_get m k of None \<Rightarrow> v | Some x \<Rightarrow> x) else map_get m k')"
  by (simp add: map_or_insert_def split: option.splits)

lemma map_keys_simps [simp]:
  "map_keys [] = []"
  "map_keys (kv # m) = fst kv # map_keys m"
  by (simp_all add: map_keys_def)

lemma set_keys_insert [simp]: "set (map_keys (map_insert k v m)) = insert k (set (map_keys m))"
  by (induction k v m rule: map_insert.induct) auto

lemma set_keys_remove [simp]: "set (map_keys (map_remove k m)) = set (map_keys m) - {k}"
  by (auto simp: map_keys_def map_remove_def)

lemma map_get_None_iff: "map_get m k = None \<longleftrightarrow> k \<notin> set (map_keys m)"
  by (simp add: map_get_def map_keys_def map_of_eq_None_iff)

lemma map_get_Some_key: "map_get m k = Some v \<Longrightarrow> k \<in> set (map_keys m)"
  using map_get_None_iff [of m k] by simp

lemma set_keys_or_insert [simp]: "set (map_keys (map_or_insert k v m)) = insert k (set (map_keys m))"
  by (auto simp: map_or_insert_def split: option.splits dest: map_get_Some_key)

lemma ordered_Nil [simp]: "ordered []"
  by (simp add: ordered_def)

lemma ordered_Cons: "ordered (kv # m) \<longleftrightarrow> (\<forall>k \<in> set (map_keys m). fst kv < k) \<and> ordered m"
  by (auto simp: ordered_def map_keys_def)

lemma ordered_insert [simp]: "ordered m \<Longrightarrow> ordered (map_insert k v m)"
  by (induction k v m rule: map_insert.induct) (auto simp: ordered_Cons intro: less_trans)

lemma ordered_remove [simp]: "ordered m \<Longrightarrow> ordered (map_remove k m)"
  by (induction m) (auto simp: ordered_Cons map_remove_def map_keys_def)

lemma ordered_or_insert [simp]: "ordered m \<Longrightarrow> ordered (map_or_insert k v m)"
  by (simp add: map_or_insert_def split: option.splits)

text \<open>Two ordered maps with the same lookups are the same map.\<close>

lemma map_eqI:
  assumes "ordered m" and "ordered n" and same: "\<And>k. map_get m k = map_get n k"
  shows "m = n"
  using assms
proof (induction m arbitrary: n)
  case Nil
  then show ?case
    by (cases n) (simp, metis map_get_None_iff list.set_intros(1) map_get_Nil map_keys_simps(2))
next
  case (Cons kv m)
  obtain k v where kv: "kv = (k, v)" by (cases kv)
  have keys: "set (map_keys (kv # m)) = set (map_keys n)"
    using map_get_None_iff [of "kv # m"] map_get_None_iff [of n] Cons.prems(3)
    by (simp only: set_eq_iff) (metis (no_types))
  then obtain k' v' n' where n: "n = (k', v') # n'" by (cases n) (auto simp: kv)
  have "k = k'"
    using keys Cons.prems(1,2) unfolding kv n ordered_Cons
    by (simp add: set_eq_iff) (metis less_asym)
  moreover have "v = v'"
    using Cons.prems(3) [of k] \<open>k = k'\<close> by (simp add: kv n map_get_def)
  moreover have "m = n'"
  proof (rule Cons.IH)
    show "ordered m" "ordered n'" using Cons.prems(1,2) by (simp_all add: n ordered_Cons)
    fix x
    have fresh: "map_get m k = None" "map_get n' k = None"
      using Cons.prems(1,2) \<open>k = k'\<close> by (auto simp: kv n ordered_Cons map_get_None_iff)
    show "map_get m x = map_get n' x"
      using Cons.prems(3) [of x] fresh \<open>k = k'\<close>
      by (cases "x = k") (simp_all add: kv n map_get_def)
  qed
  ultimately show ?case by (simp add: kv n)
qed

text \<open>From here on an insertion is read through its lookups and keys, not unfolded.\<close>

declare map_insert.simps [simp del]

end
