(* ===== verification/Knl_Error.thy ===== *)
theory Knl_Error
  imports Prelude
begin

text \<open>
  The kernel's error classification, \<open>crates/agent-block-core/src/knl/mod.rs\<close>: eight
  classes, the stable name of each, and the one class another attempt can clear.
\<close>

datatype knl_error =
    Busy string
  | Storage string
  | Corruption string
  | Closed string
  | Validation string
  | Unsupported string
  | Timeout string
  | Refused string

type_synonym 'a knl_result = "knl_error + 'a"

definition BUSY :: string where "BUSY = ''busy''"
definition STORAGE :: string where "STORAGE = ''storage''"
definition CORRUPTION :: string where "CORRUPTION = ''corruption''"
definition CLOSED_KIND :: string where "CLOSED_KIND = ''closed''"
definition VALIDATION :: string where "VALIDATION = ''validation''"
definition UNSUPPORTED :: string where "UNSUPPORTED = ''unsupported''"
definition TIMEOUT :: string where "TIMEOUT = ''timeout''"
definition REFUSED :: string where "REFUSED = ''refused''"

definition KINDS :: "string list" where
  "KINDS = [BUSY, STORAGE, CORRUPTION, CLOSED_KIND, VALIDATION, UNSUPPORTED, TIMEOUT, REFUSED]"

lemmas error_kind_defs =
  BUSY_def STORAGE_def CORRUPTION_def CLOSED_KIND_def VALIDATION_def UNSUPPORTED_def
  TIMEOUT_def REFUSED_def

fun error_kind :: "knl_error \<Rightarrow> string" where
  "error_kind (Busy _) = BUSY"
| "error_kind (Storage _) = STORAGE"
| "error_kind (Corruption _) = CORRUPTION"
| "error_kind (Closed _) = CLOSED_KIND"
| "error_kind (Validation _) = VALIDATION"
| "error_kind (Unsupported _) = UNSUPPORTED"
| "error_kind (Timeout _) = TIMEOUT"
| "error_kind (Refused _) = REFUSED"

definition is_retryable :: "knl_error \<Rightarrow> bool" where
  "is_retryable e = (case e of Busy _ \<Rightarrow> True | _ \<Rightarrow> False)"

definition kind_is_retryable :: "string \<Rightarrow> bool" where
  "kind_is_retryable k = (k = BUSY)"

fun reason :: "knl_error \<Rightarrow> string" where
  "reason (Busy r) = r"
| "reason (Storage r) = r"
| "reason (Corruption r) = r"
| "reason (Closed r) = r"
| "reason (Validation r) = r"
| "reason (Unsupported r) = r"
| "reason (Timeout r) = r"
| "reason (Refused r) = r"

text \<open>The \<open>Display\<close> the \<open>thiserror\<close> attributes derive, variant by variant.\<close>

fun display_error :: "knl_error \<Rightarrow> string" where
  "display_error (Busy r) = ''busy: '' @ r"
| "display_error (Storage r) = ''storage: '' @ r"
| "display_error (Corruption r) = ''corruption: '' @ r"
| "display_error (Closed r) = ''closed: '' @ r"
| "display_error (Validation r) = ''validation: '' @ r"
| "display_error (Unsupported r) = ''unsupported: '' @ r"
| "display_error (Timeout r) = ''timeout: '' @ r"
| "display_error (Refused r) = ''refused: '' @ r"

lemma error_kind_in_KINDS: "error_kind e \<in> set KINDS"
  by (cases e) (simp_all add: KINDS_def)

lemma KINDS_distinct: "distinct KINDS"
  by (simp add: KINDS_def error_kind_defs)

lemma retryable_by_kind: "is_retryable e = kind_is_retryable (error_kind e)"
  by (cases e) (simp_all add: is_retryable_def kind_is_retryable_def error_kind_defs)

lemma display_error_split: "display_error e = error_kind e @ '': '' @ reason e"
  by (cases e) (simp_all add: error_kind_defs)

text \<open>
  A class carries its whole vocabulary: the published list names every class once, and the
  rendered error is the class, a separator and the reason.
\<close>

lemma error_class_complete:
  "set KINDS = range error_kind"
proof -
  have "set KINDS \<subseteq> range error_kind"
    by (auto simp: KINDS_def image_iff
        intro: exI [of _ "Busy r" for r] exI [of _ "Storage r" for r] exI [of _ "Corruption r" for r]
          exI [of _ "Closed r" for r] exI [of _ "Validation r" for r] exI [of _ "Unsupported r" for r]
          exI [of _ "Timeout r" for r] exI [of _ "Refused r" for r])
  then show ?thesis using error_kind_in_KINDS by auto
qed

end
