(* ===== verification/Event.thy ===== *)
theory Event
  imports Json Knl_Error
begin

text \<open>
  The event envelope and the kernel's kinds, \<open>knl/event.rs\<close>: the field and kind names, the
  required \<open>data\<close> of the six kinds the kernel writes, the validator every write passes, and
  the stamp that completes the envelope of a stored event. An event is a JSON object, so its
  type is \<open>json_map\<close>.
\<close>

type_synonym event = json_map

section \<open>Names\<close>

definition FIELD_SEQ :: string where "FIELD_SEQ = ''seq''"
definition FIELD_EPOCH_MS :: string where "FIELD_EPOCH_MS = ''epoch_ms''"
definition FIELD_KIND :: string where "FIELD_KIND = ''kind''"
definition FIELD_BEAT :: string where "FIELD_BEAT = ''beat''"
definition FIELD_META :: string where "FIELD_META = ''meta''"
definition FIELD_DATA :: string where "FIELD_DATA = ''data''"
definition SCHEMA_VERSION_FIELD :: string where "SCHEMA_VERSION_FIELD = ''_schema_version''"

definition ENVELOPE_FIELDS :: "string list" where
  "ENVELOPE_FIELDS =
     [FIELD_KIND, FIELD_META, FIELD_DATA, FIELD_SEQ, FIELD_EPOCH_MS, SCHEMA_VERSION_FIELD]"

definition KIND_SESSION_OPENED :: string where "KIND_SESSION_OPENED = ''session_opened''"
definition KIND_SESSION_CLOSED :: string where "KIND_SESSION_CLOSED = ''session_closed''"
definition KIND_BUDGET_GRANTED :: string where "KIND_BUDGET_GRANTED = ''budget_granted''"
definition KIND_BUDGET_RESERVED :: string where "KIND_BUDGET_RESERVED = ''budget_reserved''"
definition KIND_BUDGET_REFUSED :: string where "KIND_BUDGET_REFUSED = ''budget_refused''"
definition KIND_BUDGET_SPENT :: string where "KIND_BUDGET_SPENT = ''budget_spent''"

definition BUDGET_KINDS :: "string list" where
  "BUDGET_KINDS =
     [KIND_BUDGET_GRANTED, KIND_BUDGET_RESERVED, KIND_BUDGET_REFUSED, KIND_BUDGET_SPENT]"

definition FIELD_REASON :: string where "FIELD_REASON = ''reason''"
definition FIELD_DETAIL :: string where "FIELD_DETAIL = ''detail''"
definition FIELD_AMOUNT :: string where "FIELD_AMOUNT = ''amount''"
definition FIELD_TAG :: string where "FIELD_TAG = ''tag''"
definition FIELD_DESC :: string where "FIELD_DESC = ''desc''"
definition FIELD_REMAINING :: string where "FIELD_REMAINING = ''remaining''"
definition FIELD_OWNER :: string where "FIELD_OWNER = ''owner''"
definition FIELD_SCOPE_ID :: string where "FIELD_SCOPE_ID = ''scope_id''"
definition FIELD_PARENT :: string where "FIELD_PARENT = ''parent''"
definition FIELD_CHILD :: string where "FIELD_CHILD = ''child''"
definition FIELD_OPEN_CHILDREN :: string where "FIELD_OPEN_CHILDREN = ''open_children''"

lemmas field_defs =
  FIELD_SEQ_def FIELD_EPOCH_MS_def FIELD_KIND_def FIELD_BEAT_def FIELD_META_def FIELD_DATA_def
  SCHEMA_VERSION_FIELD_def FIELD_REASON_def FIELD_DETAIL_def FIELD_AMOUNT_def FIELD_TAG_def
  FIELD_DESC_def FIELD_REMAINING_def FIELD_OWNER_def FIELD_SCOPE_ID_def FIELD_PARENT_def
  FIELD_CHILD_def FIELD_OPEN_CHILDREN_def

lemmas kind_defs =
  KIND_SESSION_OPENED_def KIND_SESSION_CLOSED_def KIND_BUDGET_GRANTED_def
  KIND_BUDGET_RESERVED_def KIND_BUDGET_REFUSED_def KIND_BUDGET_SPENT_def

text \<open>The names are pairwise different, in both directions an equation can be written.\<close>

lemma envelope_names_distinct:
  "distinct [FIELD_KIND, FIELD_META, FIELD_DATA, FIELD_SEQ, FIELD_EPOCH_MS, SCHEMA_VERSION_FIELD,
     FIELD_BEAT]"
  by (simp add: field_defs)

lemma data_names_distinct:
  "distinct [FIELD_REASON, FIELD_DETAIL, FIELD_AMOUNT, FIELD_TAG, FIELD_DESC, FIELD_REMAINING,
     FIELD_OWNER, FIELD_SCOPE_ID, FIELD_PARENT, FIELD_CHILD, FIELD_OPEN_CHILDREN]"
  by (simp add: field_defs)

lemma kinds_distinct:
  "distinct [KIND_SESSION_OPENED, KIND_SESSION_CLOSED, KIND_BUDGET_GRANTED, KIND_BUDGET_RESERVED,
     KIND_BUDGET_REFUSED, KIND_BUDGET_SPENT]"
  by (simp add: kind_defs)

lemmas envelope_neqs [simp, name_neqs] =
  envelope_names_distinct [simplified]
  envelope_names_distinct [THEN distinct_rev [THEN iffD2], simplified]

lemmas data_neqs [simp, name_neqs] =
  data_names_distinct [simplified] data_names_distinct [THEN distinct_rev [THEN iffD2], simplified]

lemmas kind_neqs [simp, name_neqs] =
  kinds_distinct [simplified] kinds_distinct [THEN distinct_rev [THEN iffD2], simplified]


lemma budget_kinds_set:
  "k \<in> set BUDGET_KINDS \<longleftrightarrow> k = KIND_BUDGET_GRANTED \<or> k = KIND_BUDGET_RESERVED
     \<or> k = KIND_BUDGET_REFUSED \<or> k = KIND_BUDGET_SPENT"
  by (auto simp: BUDGET_KINDS_def)

section \<open>Shapes\<close>

datatype shape = Shape_Str | Shape_Integer

fun shape_name :: "shape \<Rightarrow> string" where
  "shape_name Shape_Str = ''a string''"
| "shape_name Shape_Integer = ''a whole number''"

fun is_whole_number :: "json \<Rightarrow> bool" where
  "is_whole_number (JNumber (PosInt n)) = True"
| "is_whole_number (JNumber (NegInt n)) = True"
| "is_whole_number (JNumber (Float x)) = f64_fract_is_zero x"
| "is_whole_number _ = False"

fun shape_accepts :: "shape \<Rightarrow> json \<Rightarrow> bool" where
  "shape_accepts Shape_Str v = is_string v"
| "shape_accepts Shape_Integer v = is_whole_number v"

definition SESSION_OPENED_DATA :: "(string \<times> shape) list" where
  "SESSION_OPENED_DATA = [(FIELD_SCOPE_ID, Shape_Str), (FIELD_OWNER, Shape_Str)]"

definition SESSION_CLOSED_DATA :: "(string \<times> shape) list" where
  "SESSION_CLOSED_DATA = [(FIELD_REASON, Shape_Str)]"

definition BUDGET_GRANTED_DATA :: "(string \<times> shape) list" where
  "BUDGET_GRANTED_DATA = [(FIELD_AMOUNT, Shape_Integer)]"

definition BUDGET_MOVE_DATA :: "(string \<times> shape) list" where
  "BUDGET_MOVE_DATA = [(FIELD_AMOUNT, Shape_Integer)]"

definition BUDGET_REFUSED_DATA :: "(string \<times> shape) list" where
  "BUDGET_REFUSED_DATA = [(FIELD_AMOUNT, Shape_Integer), (FIELD_REMAINING, Shape_Integer)]"

definition required_data :: "string \<Rightarrow> (string \<times> shape) list option" where
  "required_data kind =
     (if kind = KIND_SESSION_OPENED then Some SESSION_OPENED_DATA
      else if kind = KIND_SESSION_CLOSED then Some SESSION_CLOSED_DATA
      else if kind = KIND_BUDGET_GRANTED then Some BUDGET_GRANTED_DATA
      else if kind = KIND_BUDGET_RESERVED \<or> kind = KIND_BUDGET_SPENT then Some BUDGET_MOVE_DATA
      else if kind = KIND_BUDGET_REFUSED then Some BUDGET_REFUSED_DATA
      else None)"

definition is_reserved :: "string \<Rightarrow> bool" where
  "is_reserved kind = (required_data kind \<noteq> None)"

definition is_kernel_only :: "string \<Rightarrow> bool" where
  "is_kernel_only kind =
     (kind = KIND_SESSION_OPENED \<or> kind = KIND_SESSION_CLOSED \<or> kind = KIND_BUDGET_GRANTED
      \<or> kind = KIND_BUDGET_RESERVED \<or> kind = KIND_BUDGET_REFUSED \<or> kind = KIND_BUDGET_SPENT)"

fun json_type_name :: "json \<Rightarrow> string" where
  "json_type_name JNull = ''nil''"
| "json_type_name (JBool _) = ''boolean''"
| "json_type_name (JNumber _) = ''number''"
| "json_type_name (JString _) = ''string''"
| "json_type_name (JArray _) = ''array''"
| "json_type_name (JObject _) = ''table''"

section \<open>Reading an event\<close>

definition data_field :: "event \<Rightarrow> string \<Rightarrow> json option" where
  "data_field event name =
     Option.bind (map_get event FIELD_DATA)
       (\<lambda>d. Option.bind (as_object d) (\<lambda>data. map_get data name))"

text \<open>\<open>Value::get\<close> with a key: nothing on a value that is not an object.\<close>

definition json_get :: "json \<Rightarrow> string \<Rightarrow> json option" where
  "json_get v k = Option.bind (as_object v) (\<lambda>m. map_get m k)"

definition seq_of :: "json \<Rightarrow> nat" where
  "seq_of v = (case Option.bind (json_get v FIELD_SEQ) as_u64 of None \<Rightarrow> 0 | Some n \<Rightarrow> n)"

definition kind_of :: "json \<Rightarrow> string" where
  "kind_of v = (case Option.bind (json_get v FIELD_KIND) as_str of None \<Rightarrow> [] | Some k \<Rightarrow> k)"

section \<open>Validation\<close>

text \<open>The three loops of the validator: the top-level keys, the labels of \<open>meta\<close>, the fields of a kernel kind.\<close>

fun check_keys :: "string list \<Rightarrow> unit knl_result" where
  "check_keys [] = Ok ()"
| "check_keys (key # keys) =
     (if key \<in> set ENVELOPE_FIELDS then check_keys keys
      else Err (Validation (fmt [debug_string key,
        '' is not part of the envelope (kind / meta / data); '',
        if key = FIELD_BEAT
          then ''the beat is a correlation key, so it goes under meta.beat''
          else fmt [''a kind'', [CHR 0x27], ''s own fields go under data'']])))"

fun is_meta_scalar :: "json \<Rightarrow> bool" where
  "is_meta_scalar (JString _) = True"
| "is_meta_scalar (JNumber _) = True"
| "is_meta_scalar (JBool _) = True"
| "is_meta_scalar _ = False"

fun check_meta :: "json_map \<Rightarrow> unit knl_result" where
  "check_meta [] = Ok ()"
| "check_meta ((name, v) # meta) =
     (if is_meta_scalar v then check_meta meta
      else Err (Validation (fmt [''meta is shallow: '', debug_string name,
        '' must be a string, a number or a boolean, got '', json_type_name v,
        '' (nest it under data)''])))"

fun check_data :: "string \<Rightarrow> (string \<times> shape) list \<Rightarrow> json_map \<Rightarrow> unit knl_result" where
  "check_data kind [] data = Ok ()"
| "check_data kind ((name, shp) # fields) data =
     (case map_get data name of
        None \<Rightarrow> Err (Validation (fmt [''kernel kind '', debug_string kind, '' requires data.'', name,
          '' ('', shape_name shp, '')'']))
      | Some v \<Rightarrow>
          if \<not> shape_accepts shp v
          then Err (Validation (fmt [''kernel kind '', debug_string kind, '': data.'', name,
            '' must be '', shape_name shp, '', got '', json_type_name v]))
          else check_data kind fields data)"

definition validate_event :: "event \<Rightarrow> unit knl_result" where
  "validate_event obj =
     (case map_get obj FIELD_KIND of
        Some (JString kind) \<Rightarrow>
          and_then (check_keys (map_keys obj)) (\<lambda>_.
          and_then (case map_get obj FIELD_META of
              None \<Rightarrow> Ok ()
            | Some (JObject meta) \<Rightarrow> check_meta meta
            | Some other \<Rightarrow>
                Err (Validation (fmt [''meta must be a table, got '', json_type_name other]))) (\<lambda>_.
          and_then (case map_get obj FIELD_DATA of
              None \<Rightarrow> Ok None
            | Some (JObject data) \<Rightarrow> Ok (Some data)
            | Some other \<Rightarrow>
                Err (Validation (fmt [''data must be a table, got '', json_type_name other]))) (\<lambda>data.
          case required_data kind of
            None \<Rightarrow> Ok ()
          | Some fields \<Rightarrow> check_data kind fields (case data of None \<Rightarrow> [] | Some d \<Rightarrow> d))))
      | Some other \<Rightarrow> Err (Validation (fmt [''kind must be a string, got '', json_type_name other]))
      | None \<Rightarrow> Err (Validation ''kind is required (string)''))"

section \<open>Stamping and building\<close>

definition empty_object :: json where
  "empty_object = JObject []"

definition stamp :: "event \<Rightarrow> nat \<Rightarrow> nat \<Rightarrow> event" where
  "stamp obj seq epoch_ms =
     map_or_insert FIELD_DATA empty_object
       (map_or_insert FIELD_META empty_object
         (map_insert FIELD_EPOCH_MS (json_of_u64 epoch_ms)
           (map_insert FIELD_SEQ (json_of_u64 seq) obj)))"

definition kernel_event :: "string \<Rightarrow> json_map \<Rightarrow> event" where
  "kernel_event kind data =
     map_insert FIELD_DATA (JObject data) (map_insert FIELD_KIND (JString kind) [])"

section \<open>What validation accepts\<close>

text \<open>The rules of the module's header, as one predicate.\<close>

definition meta_is_shallow :: "event \<Rightarrow> bool" where
  "meta_is_shallow obj =
     (case map_get obj FIELD_META of
        None \<Rightarrow> True
      | Some m \<Rightarrow> (case as_object m of None \<Rightarrow> False | Some meta \<Rightarrow> list_all (is_meta_scalar \<circ> snd) meta))"

definition data_is_object :: "event \<Rightarrow> bool" where
  "data_is_object obj =
     (case map_get obj FIELD_DATA of None \<Rightarrow> True | Some d \<Rightarrow> as_object d \<noteq> None)"

definition data_has_shape :: "event \<Rightarrow> string \<times> shape \<Rightarrow> bool" where
  "data_has_shape obj f =
     (case data_field obj (fst f) of None \<Rightarrow> False | Some v \<Rightarrow> shape_accepts (snd f) v)"

definition well_formed :: "event \<Rightarrow> bool" where
  "well_formed obj =
     (case map_get obj FIELD_KIND of
        Some (JString kind) \<Rightarrow>
          list_all (\<lambda>k. k \<in> set ENVELOPE_FIELDS) (map_keys obj)
          \<and> meta_is_shallow obj \<and> data_is_object obj
          \<and> (case required_data kind of None \<Rightarrow> True
             | Some fields \<Rightarrow> list_all (data_has_shape obj) fields)
      | _ \<Rightarrow> False)"

lemma check_keys_Ok: "check_keys ks = Ok u \<longleftrightarrow> list_all (\<lambda>k. k \<in> set ENVELOPE_FIELDS) ks"
  by (induction ks) auto

lemma check_meta_Ok: "check_meta m = Ok u \<longleftrightarrow> list_all (is_meta_scalar \<circ> snd) m"
  by (induction m rule: check_meta.induct) auto

lemma check_data_Ok:
  "check_data kind fields data = Ok u \<longleftrightarrow>
     list_all (\<lambda>f. case map_get data (fst f) of None \<Rightarrow> False | Some v \<Rightarrow> shape_accepts (snd f) v) fields"
  by (induction kind fields data rule: check_data.induct) (auto split: option.splits)

lemma check_classes:
  "check_keys ks = Err e \<Longrightarrow> error_kind e = VALIDATION"
  "check_meta m = Err e \<Longrightarrow> error_kind e = VALIDATION"
  "check_data kind fields data = Err e \<Longrightarrow> error_kind e = VALIDATION"
proof -
  show "check_keys ks = Err e \<Longrightarrow> error_kind e = VALIDATION"
    by (induction ks) (auto split: if_splits)
  show "check_meta m = Err e \<Longrightarrow> error_kind e = VALIDATION"
    by (induction m rule: check_meta.induct) (auto split: if_splits)
  show "check_data kind fields data = Err e \<Longrightarrow> error_kind e = VALIDATION"
    by (induction kind fields data rule: check_data.induct) (auto split: option.splits if_splits)
qed

lemma validate_iff_well_formed: "validate_event obj = Ok u \<longleftrightarrow> well_formed obj"
  by (auto simp: validate_event_def well_formed_def and_then_Ok_iff check_keys_Ok check_meta_Ok
      check_data_Ok meta_is_shallow_def data_is_object_def data_has_shape_def data_field_def list_all_iff
      split: option.splits json.splits)

lemma validate_class: "validate_event obj = Err e \<Longrightarrow> error_kind e = VALIDATION"
  by (auto simp: validate_event_def and_then_def dest: check_classes
      split: option.splits json.splits sum.splits)

lemma stamp_get [simp]:
  "map_get (stamp obj seq ms) k =
     (if k = FIELD_SEQ then Some (json_of_u64 seq)
      else if k = FIELD_EPOCH_MS then Some (json_of_u64 ms)
      else if k = FIELD_META \<or> k = FIELD_DATA
        then Some (case map_get obj k of None \<Rightarrow> empty_object | Some v \<Rightarrow> v)
      else map_get obj k)"
  by (auto simp: stamp_def)

lemma stamp_keys:
  "set (map_keys (stamp obj seq ms)) =
     set (map_keys obj) \<union> {FIELD_SEQ, FIELD_EPOCH_MS, FIELD_META, FIELD_DATA}"
  by (auto simp: stamp_def)

lemma data_field_stamp [simp]: "data_field (stamp obj seq ms) name = data_field obj name"
  by (simp add: data_field_def empty_object_def split: option.splits)

text \<open>Well-formedness read field by field: what a proof about one stored event needs.\<close>

lemma well_formed_iff:
  "well_formed obj \<longleftrightarrow>
     (\<exists>kind. map_get obj FIELD_KIND = Some (JString kind)
        \<and> (case required_data kind of None \<Rightarrow> True | Some fs \<Rightarrow> list_all (data_has_shape obj) fs))
     \<and> set (map_keys obj) \<subseteq> set ENVELOPE_FIELDS \<and> meta_is_shallow obj \<and> data_is_object obj"
  by (auto simp: well_formed_def list_all_iff split: option.splits json.splits)

lemma well_formed_transfer:
  assumes "well_formed obj" and "map_get obj' FIELD_KIND = map_get obj FIELD_KIND"
    and "data_field obj' = data_field obj" and "set (map_keys obj') \<subseteq> set ENVELOPE_FIELDS"
    and "meta_is_shallow obj'" and "data_is_object obj'"
  shows "well_formed obj'"
proof -
  have "data_has_shape obj' = data_has_shape obj"
    using assms(3) by (simp add: data_has_shape_def fun_eq_iff)
  with assms show ?thesis by (simp add: well_formed_iff cong: option.case_cong)
qed

lemma well_formed_stamp:
  assumes wf: "well_formed obj" shows "well_formed (stamp obj seq ms)"
proof (rule well_formed_transfer [OF wf])
  show "meta_is_shallow (stamp obj seq ms)" "data_is_object (stamp obj seq ms)"
    using wf by (auto simp: well_formed_iff meta_is_shallow_def data_is_object_def empty_object_def
        split: option.splits)
  show "set (map_keys (stamp obj seq ms)) \<subseteq> set ENVELOPE_FIELDS"
    using wf unfolding stamp_keys by (auto simp: well_formed_iff ENVELOPE_FIELDS_def)
qed (simp_all add: fun_eq_iff)

lemma well_formed_insert_version:
  assumes "well_formed obj" shows "well_formed (map_insert SCHEMA_VERSION_FIELD v obj)"
  using assms
  by (intro well_formed_transfer [OF assms])
     (auto simp: well_formed_iff meta_is_shallow_def data_is_object_def data_field_def fun_eq_iff
       ENVELOPE_FIELDS_def)

lemma kernel_event_get [simp]:
  "map_get (kernel_event kind data) k =
     (if k = FIELD_DATA then Some (JObject data)
      else if k = FIELD_KIND then Some (JString kind) else None)"
  by (simp add: kernel_event_def)

lemma data_field_kernel_event [simp]: "data_field (kernel_event kind data) name = map_get data name"
  by (simp add: data_field_def)

lemma well_formed_kernel_event:
  assumes "required_data kind = Some fs"
    and "list_all (\<lambda>f. case map_get data (fst f) of None \<Rightarrow> False | Some v \<Rightarrow> shape_accepts (snd f) v) fs"
  shows "well_formed (kernel_event kind data)"
  using assms
  by (simp add: well_formed_iff meta_is_shallow_def data_is_object_def data_has_shape_def [abs_def])
     (simp add: kernel_event_def ENVELOPE_FIELDS_def)

section \<open>Properties\<close>

text \<open>
  C38: the validator accepts exactly the events the envelope's rules describe (\<open>kind\<close> a string,
  no key outside the envelope, \<open>meta\<close> a shallow table of scalars, \<open>data\<close> a table, and the
  required fields of a kernel kind present with their shapes), and every refusal is a
  validation error.
\<close>

theorem validate_event_correct:
  "case validate_event obj of
     Ok _ \<Rightarrow> well_formed obj
   | Err e \<Rightarrow> \<not> well_formed obj \<and> error_kind e = VALIDATION"
proof (cases "validate_event obj")
  case (Inl e)
  then have "\<not> well_formed obj"
    using validate_iff_well_formed [of obj "()"] by simp
  with Inl validate_class show ?thesis by simp
next
  case (Inr u)
  then show ?thesis using validate_iff_well_formed [of obj u] by simp
qed

text \<open>
  The kinds a caller's append is refused for are exactly the kinds whose \<open>data\<close> the
  validator knows, so no kernel kind can be written by a caller and no caller kind is checked
  against a kernel table.
\<close>

theorem kernel_only_is_reserved: "is_kernel_only kind = is_reserved kind"
  by (auto simp: is_kernel_only_def is_reserved_def required_data_def)

end
