(* ===== verification/Upcast.thy ===== *)
theory Upcast
  imports Event
begin

text \<open>
  Schema versions and read-time upcasting, the first half of \<open>knl/event_store.rs\<close>: the version
  an event is stamped with, the one registered step (\<open>BeatIntoMeta\<close>, shape 1 to shape 2), the
  chain, and \<open>Current\<close>, the event a fold is allowed to see. \<open>Current\<close> wraps an event object,
  so it is the same type here. \<open>from_upcasted\<close> is the release build: its version check is a
  \<open>debug_assert\<close>, which a release build does not run.
\<close>

section \<open>Versions and the chain\<close>

definition CURRENT_SCHEMA_VERSION :: nat where
  "CURRENT_SCHEMA_VERSION = 2"

type_synonym upcaster = "json \<Rightarrow> json"

definition schema_version :: "event \<Rightarrow> nat option" where
  "schema_version m = Option.bind (map_get m SCHEMA_VERSION_FIELD) as_u64"

text \<open>The beat of a shape-1 event, moved under \<open>meta\<close> (or put back when \<open>meta\<close> is no object).\<close>

definition move_beat :: "event \<Rightarrow> event" where
  "move_beat m =
     (case map_get m FIELD_BEAT of
        None \<Rightarrow> m
      | Some beat \<Rightarrow>
          (let m' = map_or_insert FIELD_META empty_object (map_remove FIELD_BEAT m) in
           case Option.bind (map_get m' FIELD_META) as_object of
             Some meta \<Rightarrow> map_insert FIELD_META (JObject (map_insert FIELD_BEAT beat meta)) m'
           | None \<Rightarrow> map_insert FIELD_BEAT beat m'))"

definition BeatIntoMeta :: upcaster where
  "BeatIntoMeta event =
     (case event of
        JObject m \<Rightarrow>
          if schema_version m \<noteq> Some 1 then event
          else JObject (map_insert SCHEMA_VERSION_FIELD (json_of_u64 2) (move_beat m))
      | _ \<Rightarrow> event)"

definition kernel_upcasters :: "upcaster list" where
  "kernel_upcasters = [BeatIntoMeta]"

definition stamp_schema_version :: "event \<Rightarrow> event" where
  "stamp_schema_version event =
     map_insert SCHEMA_VERSION_FIELD (json_of_u64 CURRENT_SCHEMA_VERSION) event"

text \<open>Each event is folded through the chain front to back; the empty chain is the identity.\<close>

definition apply_upcasters :: "upcaster list \<Rightarrow> json list \<Rightarrow> json list" where
  "apply_upcasters chain events = map (\<lambda>e. fold (\<lambda>u v. u v) chain e) events"

section \<open>Current events\<close>

type_synonym current = event

text \<open>\<open>shown\<close> is \<open>serde_json\<close>'s rendering of a value, which only the message uses.\<close>

definition from_upcasted :: "(json \<Rightarrow> string) \<Rightarrow> json \<Rightarrow> current knl_result" where
  "from_upcasted shown event =
     (case event of
        JObject m \<Rightarrow> Ok m
      | _ \<Rightarrow> Err (Corruption (fmt [''stored event is not an object: '', shown event])))"

definition cur_kind :: "current \<Rightarrow> string" where
  "cur_kind e = (case Option.bind (map_get e FIELD_KIND) as_str of None \<Rightarrow> [] | Some k \<Rightarrow> k)"

definition cur_seq :: "current \<Rightarrow> nat" where
  "cur_seq e = (case Option.bind (map_get e FIELD_SEQ) as_u64 of None \<Rightarrow> 0 | Some n \<Rightarrow> n)"

definition project :: "(json \<Rightarrow> string) \<Rightarrow> upcaster list \<Rightarrow> json list \<Rightarrow> current list knl_result" where
  "project shown chain events = collect_results (from_upcasted shown) (apply_upcasters chain events)"

subsection \<open>Basic facts\<close>

lemma kind_of_JObject [simp]: "kind_of (JObject m) = cur_kind m"
  by (simp add: kind_of_def cur_kind_def json_get_def)

lemma seq_of_JObject [simp]: "seq_of (JObject m) = cur_seq m"
  by (simp add: seq_of_def cur_seq_def json_get_def)

lemma apply_upcasters_Nil [simp]: "apply_upcasters [] events = events"
  by (simp add: apply_upcasters_def)

lemma from_upcasted_Ok_iff [simp]: "from_upcasted shown v = Ok m \<longleftrightarrow> v = JObject m"
  by (auto simp: from_upcasted_def split: json.splits)

lemma from_upcasted_object [simp]: "from_upcasted shown (JObject m) = Ok m"
  by simp

lemma from_upcasted_class: "from_upcasted shown v = Err x \<Longrightarrow> error_kind x = CORRUPTION"
  by (auto simp: from_upcasted_def split: json.splits)

lemma project_objects [simp]: "project shown [] (map JObject es) = Ok es"
  unfolding project_def apply_upcasters_Nil by (induction es) simp_all

lemma project_Ok_iff: "project shown [] vs = Ok es \<longleftrightarrow> vs = map JObject es"
proof
  show "project shown [] vs = Ok es \<Longrightarrow> vs = map JObject es"
    unfolding project_def apply_upcasters_Nil
    by (induction vs arbitrary: es) (auto simp: and_then_Ok_iff)
qed simp

lemma project_Err_class:
  assumes "project shown chain vs = Err x" shows "error_kind x = CORRUPTION"
proof -
  have "collect_results (from_upcasted shown) us = Err x \<Longrightarrow> error_kind x = CORRUPTION" for us
  proof (induction us)
    case (Cons u us)
    then show ?case
      by (cases "from_upcasted shown u"; cases "collect_results (from_upcasted shown) us")
         (auto dest: from_upcasted_class)
  qed simp
  with assms show ?thesis by (simp add: project_def)
qed

lemma stamp_schema_version_get [simp]:
  "map_get (stamp_schema_version e) k =
     (if k = SCHEMA_VERSION_FIELD then Some (json_of_u64 CURRENT_SCHEMA_VERSION) else map_get e k)"
  by (simp add: stamp_schema_version_def)

section \<open>What the step keeps and what it moves\<close>

lemma map_get_move_beat:
  "k \<noteq> FIELD_BEAT \<Longrightarrow> k \<noteq> FIELD_META \<Longrightarrow> map_get (move_beat m) k = map_get m k"
  by (simp add: move_beat_def Let_def split: option.splits)

lemma upcast_not_1: "schema_version m \<noteq> Some 1 \<Longrightarrow> BeatIntoMeta (JObject m) = JObject m"
  by (simp add: BeatIntoMeta_def)

lemma upcast_1:
  "schema_version m = Some 1 \<Longrightarrow>
     BeatIntoMeta (JObject m) = JObject (map_insert SCHEMA_VERSION_FIELD (json_of_u64 2) (move_beat m))"
  by (simp add: BeatIntoMeta_def)

lemma upcast_object: "\<exists>m'. BeatIntoMeta (JObject m) = JObject m'"
  by (simp add: BeatIntoMeta_def)

lemma upcast_get:
  assumes "BeatIntoMeta (JObject m) = JObject m'" "k \<notin> {FIELD_BEAT, FIELD_META, SCHEMA_VERSION_FIELD}"
  shows "map_get m' k = map_get m k"
  using assms by (auto simp: BeatIntoMeta_def map_get_move_beat split: if_splits)

lemma upcast_kind_seq:
  assumes "BeatIntoMeta (JObject m) = JObject m'"
  shows "cur_kind m' = cur_kind m" "cur_seq m' = cur_seq m" "data_field m' = data_field m"
  using upcast_get [OF assms]
  by (simp_all add: cur_kind_def cur_seq_def data_field_def fun_eq_iff)

section \<open>The stored form of an event\<close>

text \<open>
  \<open>prepared\<close> of \<open>knl/sqlite_store.rs\<close>: coordinates a caller put there are dropped and the version
  is stamped. \<open>recorded\<close> is what a backend then keeps, with the coordinates it assigned.
\<close>

definition prepared :: "event \<Rightarrow> event" where
  "prepared e = stamp_schema_version (map_remove FIELD_EPOCH_MS (map_remove FIELD_SEQ e))"

definition recorded :: "event \<Rightarrow> nat \<Rightarrow> nat \<Rightarrow> event" where
  "recorded e seq ms = stamp (prepared e) seq ms"

lemma prepared_get:
  "map_get (prepared e) k =
     (if k = SCHEMA_VERSION_FIELD then Some (json_of_u64 CURRENT_SCHEMA_VERSION)
      else if k = FIELD_SEQ \<or> k = FIELD_EPOCH_MS then None else map_get e k)"
  by (simp add: prepared_def)

lemma recorded_get:
  "map_get (recorded e seq ms) k =
     (if k = FIELD_SEQ then Some (json_of_u64 seq)
      else if k = FIELD_EPOCH_MS then Some (json_of_u64 ms)
      else if k = SCHEMA_VERSION_FIELD then Some (json_of_u64 CURRENT_SCHEMA_VERSION)
      else if k = FIELD_META \<or> k = FIELD_DATA
        then Some (case map_get e k of None \<Rightarrow> empty_object | Some v \<Rightarrow> v)
      else map_get e k)"
  by (simp add: recorded_def prepared_get)

lemma data_field_prepared [simp]: "data_field (prepared e) = data_field e"
  by (simp add: data_field_def prepared_get fun_eq_iff)

lemma recorded_fields [simp]:
  "cur_kind (recorded e seq ms) = cur_kind e"
  "cur_seq (recorded e seq ms) = seq"
  "data_field (recorded e seq ms) = data_field e"
  "schema_version (recorded e seq ms) = Some CURRENT_SCHEMA_VERSION"
proof -
  show "data_field (recorded e seq ms) = data_field e"
    by (simp add: recorded_def fun_eq_iff)
qed (simp_all add: cur_kind_def cur_seq_def schema_version_def recorded_get)

lemma upcast_recorded [simp]: "BeatIntoMeta (JObject (recorded e seq ms)) = JObject (recorded e seq ms)"
  by (simp add: upcast_not_1 CURRENT_SCHEMA_VERSION_def)

lemma well_formed_recorded:
  assumes "well_formed e" shows "well_formed (recorded e seq ms)"
proof -
  have "well_formed (prepared e)"
  proof (rule well_formed_transfer [OF assms])
    show "set (map_keys (prepared e)) \<subseteq> set ENVELOPE_FIELDS"
      using assms by (auto simp: prepared_def stamp_schema_version_def well_formed_iff ENVELOPE_FIELDS_def)
    show "meta_is_shallow (prepared e)" "data_is_object (prepared e)"
      using assms by (simp_all add: well_formed_iff meta_is_shallow_def data_is_object_def prepared_get)
  qed (simp_all add: prepared_get)
  then show ?thesis by (simp add: recorded_def well_formed_stamp)
qed

section \<open>Properties\<close>

text \<open>
  A shape-1 event as the first release validated it: the rules of today with a scalar \<open>beat\<close>
  allowed as one more key of the envelope.
\<close>

definition well_formed_1 :: "event \<Rightarrow> bool" where
  "well_formed_1 m =
     (well_formed (map_remove FIELD_BEAT m)
      \<and> (case map_get m FIELD_BEAT of None \<Rightarrow> True | Some b \<Rightarrow> is_meta_scalar b))"

definition meta_label :: "event \<Rightarrow> string \<Rightarrow> json option" where
  "meta_label m name =
     Option.bind (map_get m FIELD_META) (\<lambda>v. Option.bind (as_object v) (\<lambda>meta. map_get meta name))"

lemma list_all_map_insert:
  "list_all (P \<circ> snd) m \<Longrightarrow> P v \<Longrightarrow> list_all (P \<circ> snd) (map_insert k v m)"
  by (induction k v m rule: map_insert.induct) (auto simp: map_insert.simps)

lemma move_beat_shape:
  assumes "well_formed_1 m"
  shows "well_formed (move_beat m)" and "meta_label (move_beat m) FIELD_BEAT =
    (case map_get m FIELD_BEAT of None \<Rightarrow> meta_label m FIELD_BEAT | Some b \<Rightarrow> Some b)"
proof -
  let ?r = "map_remove FIELD_BEAT m"
  from assms have r: "well_formed ?r" by (simp add: well_formed_1_def)
  have same: "map_get m FIELD_BEAT = None \<Longrightarrow> ?r = m"
    by (force simp: map_remove_def map_get_None_iff map_keys_def filter_id_conv)
  have data: "data_field (move_beat m) = data_field ?r"
    by (simp add: data_field_def map_get_move_beat fun_eq_iff)
  have meta: "\<exists>meta. map_get m FIELD_META = Some (JObject meta) \<and> list_all (is_meta_scalar \<circ> snd) meta"
    if "map_get m FIELD_META \<noteq> None"
    using r that by (auto simp: well_formed_iff meta_is_shallow_def as_object_iff split: option.splits)
  have "meta_is_shallow (move_beat m)
    \<and> set (map_keys (move_beat m)) \<subseteq> set ENVELOPE_FIELDS
    \<and> meta_label (move_beat m) FIELD_BEAT =
        (case map_get m FIELD_BEAT of None \<Rightarrow> meta_label m FIELD_BEAT | Some b \<Rightarrow> Some b)"
  proof (cases "map_get m FIELD_BEAT")
    case None
    with r same show ?thesis by (simp add: move_beat_def well_formed_iff)
  next
    case (Some b)
    have keys: "set (map_keys m) - {FIELD_BEAT} \<subseteq> set ENVELOPE_FIELDS"
      using r by (simp add: well_formed_iff)
    have "is_meta_scalar b" using assms Some by (simp add: well_formed_1_def)
    with Some meta keys show ?thesis
      by (cases "map_get m FIELD_META")
         (auto simp: move_beat_def meta_is_shallow_def empty_object_def meta_label_def
           list_all_map_insert ENVELOPE_FIELDS_def)
  qed
  moreover have "data_is_object (move_beat m)"
    using r by (simp add: well_formed_iff data_is_object_def map_get_move_beat)
  ultimately show "well_formed (move_beat m)" "meta_label (move_beat m) FIELD_BEAT =
    (case map_get m FIELD_BEAT of None \<Rightarrow> meta_label m FIELD_BEAT | Some b \<Rightarrow> Some b)"
    using well_formed_transfer [OF r _ data] by (simp_all add: map_get_move_beat)
qed

text \<open>
  The registered step brings every event the first release could have written to today's
  shape: the result validates, carries version 2, has its beat under \<open>meta\<close> and nowhere else,
  keeps kind, seq and data, and going through the step again changes nothing.
\<close>

theorem upcast_to_current:
  assumes "schema_version m = Some 1" and "well_formed_1 m" and "map_get m FIELD_BEAT = Some beat"
  shows "\<exists>m'. BeatIntoMeta (JObject m) = JObject m' \<and> well_formed m'
    \<and> schema_version m' = Some CURRENT_SCHEMA_VERSION
    \<and> meta_label m' FIELD_BEAT = Some beat \<and> map_get m' FIELD_BEAT = None
    \<and> cur_kind m' = cur_kind m \<and> cur_seq m' = cur_seq m \<and> data_field m' = data_field m
    \<and> BeatIntoMeta (JObject m') = JObject m'"
proof -
  let ?m = "map_insert SCHEMA_VERSION_FIELD (json_of_u64 2) (move_beat m)"
  have up: "BeatIntoMeta (JObject m) = JObject ?m" using assms by (simp add: upcast_1)
  have wf: "well_formed ?m"
    by (intro well_formed_insert_version move_beat_shape assms)
  then have "map_get ?m FIELD_BEAT = None"
    using envelope_neqs by (auto simp: well_formed_iff map_get_None_iff ENVELOPE_FIELDS_def)
  moreover have "meta_label ?m FIELD_BEAT = Some beat"
    using move_beat_shape(2) [OF assms(2)] assms(3) by (simp add: meta_label_def)
  moreover have "schema_version ?m = Some CURRENT_SCHEMA_VERSION"
    by (simp add: schema_version_def CURRENT_SCHEMA_VERSION_def)
  ultimately show ?thesis
    using up wf upcast_kind_seq [OF up] upcast_not_1 [of ?m] by (simp add: CURRENT_SCHEMA_VERSION_def)
qed

definition beat_1_example :: event where
  "beat_1_example =
     map_insert SCHEMA_VERSION_FIELD (json_of_u64 1)
       (map_insert FIELD_BEAT (json_of_u64 7) (map_insert FIELD_KIND (JString ''note'') []))"

theorem upcast_to_current_witness:
  "\<exists>m'. BeatIntoMeta (JObject beat_1_example) = JObject m' \<and> well_formed m'
    \<and> meta_label m' FIELD_BEAT = Some (json_of_u64 7)"
proof -
  have "well_formed_1 beat_1_example"
    by (simp add: beat_1_example_def well_formed_1_def) code_simp
  then show ?thesis
    using upcast_to_current [of beat_1_example "json_of_u64 7"]
    by (auto simp: beat_1_example_def schema_version_def)
qed

text \<open>
  A valid event is stored complete and stays valid: all six envelope fields are there and no
  other, the coordinates and the version are the store's whatever the caller had put there,
  and kind and data are the caller's.
\<close>

theorem recorded_complete:
  assumes "well_formed e"
  shows "well_formed (recorded e seq ms)
    \<and> set (map_keys (recorded e seq ms)) = set ENVELOPE_FIELDS
    \<and> map_get (recorded e seq ms) FIELD_SEQ = Some (json_of_u64 seq)
    \<and> map_get (recorded e seq ms) FIELD_EPOCH_MS = Some (json_of_u64 ms)
    \<and> schema_version (recorded e seq ms) = Some CURRENT_SCHEMA_VERSION
    \<and> map_get (recorded e seq ms) FIELD_KIND = map_get e FIELD_KIND
    \<and> data_field (recorded e seq ms) = data_field e"
proof -
  have wf: "well_formed (recorded e seq ms)" using assms by (rule well_formed_recorded)
  have "k \<in> set (map_keys (recorded e seq ms))" if "k \<in> set ENVELOPE_FIELDS" for k
  proof -
    from assms obtain kind where "map_get e FIELD_KIND = Some kind" by (auto simp: well_formed_iff)
    with that have "map_get (recorded e seq ms) k \<noteq> None"
      by (auto simp: ENVELOPE_FIELDS_def recorded_get)
    then show ?thesis by (simp add: map_get_None_iff)
  qed
  with wf have "set (map_keys (recorded e seq ms)) = set ENVELOPE_FIELDS"
    by (auto simp: well_formed_iff)
  with wf show ?thesis by (simp add: recorded_get)
qed

theorem recorded_complete_witness:
  "well_formed (recorded (kernel_event KIND_SESSION_CLOSED [(FIELD_REASON, JString ''done'')]) 3 99)"
proof -
  have "well_formed (kernel_event KIND_SESSION_CLOSED [(FIELD_REASON, JString ''done'')])"
    by code_simp
  then show ?thesis using recorded_complete by blast
qed

end
