(* ===== verification/Query.thy ===== *)
theory Query
  imports Upcast
begin

text \<open>
  The query planner, \<open>knl/query.rs\<close>: the walk that finds a statement's first word and its
  parameters, and the rewrite of every parameter to a bare \<open>?\<close> with the list of values they
  bind to. A statement is its UTF-8 bytes (a \<open>char\<close> is a byte), and the cursor of the source's
  walk is a position together with the bytes from there on.
\<close>

section \<open>Requests, plans and rows\<close>

datatype query_params = QP_None | QP_Positional "json list" | QP_Named json_map

definition DEFAULT_TIMEOUT_MS :: nat where "DEFAULT_TIMEOUT_MS = 5000"
definition DEFAULT_LIMIT :: nat where "DEFAULT_LIMIT = 1000"
definition STREAM_PARAM :: string where "STREAM_PARAM = ''$stream''"
definition SESSIONS_TOKEN :: string where "SESSIONS_TOKEN = ''$sessions''"
definition READ_KEYWORDS :: "string list" where "READ_KEYWORDS = [''SELECT'', ''WITH'']"

record query_opts =
  qo_sessions :: "string list option"
  qo_timeout_ms :: nat
  qo_limit :: nat

definition query_opts_default :: query_opts where
  "query_opts_default =
     \<lparr>qo_sessions = None, qo_timeout_ms = DEFAULT_TIMEOUT_MS, qo_limit = DEFAULT_LIMIT\<rparr>"

record query_plan =
  qp_sql :: string
  qp_values :: "json list"
  qp_stream :: string
  qp_sessions :: "string list"
  qp_params :: query_params
  qp_timeout_ms :: nat
  qp_limit :: nat

record query_rows =
  qr_rows :: "json_map list"
  qr_truncated :: bool

datatype param = P_Stream | P_Sessions | P_Positional | P_Numbered | P_Named string

record token =
  tok_start :: nat
  tok_end :: nat
  tok_param :: param

record scanned =
  sn_keyword :: string
  sn_params :: "token list"

section \<open>The walk\<close>

text \<open>\<open>u8::is_ascii_whitespace\<close> and its relatives.\<close>

definition is_ascii_whitespace :: "char \<Rightarrow> bool" where
  "is_ascii_whitespace c \<longleftrightarrow> of_char c \<in> {9, 10, 12, 13, 32 :: nat}"

definition is_ascii_digit :: "char \<Rightarrow> bool" where
  "is_ascii_digit c \<longleftrightarrow> 48 \<le> (of_char c :: nat) \<and> of_char c \<le> (57 :: nat)"

definition is_ascii_alphabetic :: "char \<Rightarrow> bool" where
  "is_ascii_alphabetic c \<longleftrightarrow>
     65 \<le> (of_char c :: nat) \<and> of_char c \<le> (90 :: nat)
     \<or> 97 \<le> (of_char c :: nat) \<and> of_char c \<le> (122 :: nat)"

definition to_ascii_uppercase :: "char \<Rightarrow> char" where
  "to_ascii_uppercase c =
     (if 97 \<le> (of_char c :: nat) \<and> of_char c \<le> (122 :: nat) then char_of (of_char c - 32 :: nat) else c)"

definition is_ident_byte :: "char \<Rightarrow> bool" where
  "is_ident_byte c \<longleftrightarrow> is_ascii_alphabetic c \<or> is_ascii_digit c \<or> c = CHR ''_'' \<or> c = CHR ''$''"

text \<open>\<open>ident_end\<close> and \<open>skip_quoted\<close>, as the number of bytes from the cursor to the end they return.\<close>

definition ident_len :: "string \<Rightarrow> nat" where
  "ident_len bytes = length (takeWhile is_ident_byte bytes)"

fun quoted_run :: "char \<Rightarrow> bool \<Rightarrow> string \<Rightarrow> nat" where
  "quoted_run close doubles [] = 0"
| "quoted_run close doubles (b # bs) =
     (if b = close then
        (case bs of
           b' # bs' \<Rightarrow> if doubles \<and> b' = close then 2 + quoted_run close doubles bs' else 1
         | [] \<Rightarrow> 1)
      else 1 + quoted_run close doubles bs)"

definition skip_quoted :: "char \<Rightarrow> string \<Rightarrow> nat" where
  "skip_quoted open bs =
     1 + quoted_run (if open = CHR ''['' then CHR '']'' else open) (open \<noteq> CHR ''['') bs"

fun block_comment_len :: "string \<Rightarrow> nat" where
  "block_comment_len [] = 0"
| "block_comment_len (b # bs) =
     (if b = CHR ''*'' \<and> take 1 bs = ''/'' then 2 else 1 + block_comment_len bs)"

definition digits_len :: "string \<Rightarrow> nat" where
  "digits_len bytes = length (takeWhile is_ascii_digit bytes)"

definition is_quote :: "char \<Rightarrow> bool" where
  "is_quote c \<longleftrightarrow> c = CHR 0x27 \<or> c = CHR 0x22 \<or> c = CHR 0x60 \<or> c = CHR ''[''"

definition is_prefix_byte :: "char \<Rightarrow> bool" where
  "is_prefix_byte c \<longleftrightarrow> c = CHR ''$'' \<or> c = CHR '':'' \<or> c = CHR ''@''"

definition param_of_name :: "string \<Rightarrow> param" where
  "param_of_name name =
     (if name = STREAM_PARAM then P_Stream
      else if name = SESSIONS_TOKEN then P_Sessions
      else P_Named name)"

function scan_loop ::
  "nat \<Rightarrow> string \<Rightarrow> string option \<Rightarrow> token list \<Rightarrow> bool \<Rightarrow> (string option \<times> token list) knl_result" where
  "scan_loop at [] keyword params ended = Ok (keyword, params)"
| "scan_loop at (b # bs) keyword params ended =
     (if is_ascii_whitespace b then scan_loop (at + 1) bs keyword params ended
      else if b = CHR ''-'' \<and> take 1 bs = ''-'' then
        (let n = 2 + length (takeWhile (\<lambda>c. c \<noteq> CHR 0x0A) (drop 1 bs)) in
         scan_loop (at + n) (drop (n - 1) bs) keyword params ended)
      else if b = CHR ''/'' \<and> take 1 bs = ''*'' then
        (let n = 2 + block_comment_len (drop 1 bs) in
         scan_loop (at + n) (drop (n - 1) bs) keyword params ended)
      else if ended then Err (Validation ''a query is one statement: there is SQL after the `;`'')
      else if b = CHR '';'' then scan_loop (at + 1) bs keyword params True
      else if is_quote b then
        (let n = skip_quoted b bs in scan_loop (at + n) (drop (n - 1) bs) keyword params ended)
      else if b = CHR ''?'' then
        (let n = 1 + digits_len bs;
             p = (if n = 1 then P_Positional else P_Numbered) in
         scan_loop (at + n) (drop (n - 1) bs) keyword
           (params @ [\<lparr>tok_start = at, tok_end = at + n, tok_param = p\<rparr>]) ended)
      else if is_prefix_byte b then
        (let n = 1 + ident_len bs in
         scan_loop (at + n) (drop (n - 1) bs) keyword
           (if 1 < n then params @ [\<lparr>tok_start = at, tok_end = at + n,
              tok_param = param_of_name (b # take (n - 1) bs)\<rparr>] else params) ended)
      else if is_ascii_alphabetic b \<or> b = CHR ''_'' then
        (let n = 1 + ident_len bs in
         scan_loop (at + n) (drop (n - 1) bs)
           (case keyword of Some k \<Rightarrow> Some k
            | None \<Rightarrow> Some (map to_ascii_uppercase (b # take (n - 1) bs))) params ended)
      else scan_loop (at + 1) bs keyword params ended)"
  by pat_completeness auto
termination by (relation "measure (\<lambda>(at, bytes, _). length bytes)") auto

definition scan :: "string \<Rightarrow> scanned knl_result" where
  "scan sql =
     and_then (scan_loop 0 sql None [] False) (\<lambda>(keyword, params).
       case keyword of
         None \<Rightarrow> Err (Validation ''a query needs a statement; the SQL is empty'')
       | Some k \<Rightarrow> Ok \<lparr>sn_keyword = k, sn_params = params\<rparr>)"

section \<open>The rewrite\<close>

fun type_name_of :: "json \<Rightarrow> string" where
  "type_name_of JNull = ''null''"
| "type_name_of (JBool _) = ''boolean''"
| "type_name_of (JNumber _) = ''number''"
| "type_name_of (JString _) = ''string''"
| "type_name_of (JArray _) = ''list''"
| "type_name_of (JObject _) = ''table''"

fun is_sql_scalar :: "json \<Rightarrow> bool" where
  "is_sql_scalar JNull = True"
| "is_sql_scalar (JBool _) = True"
| "is_sql_scalar (JNumber _) = True"
| "is_sql_scalar (JString _) = True"
| "is_sql_scalar _ = False"

definition scalar :: "json \<Rightarrow> json knl_result" where
  "scalar v =
     (if is_sql_scalar v then Ok v
      else Err (Validation (fmt [''a '', type_name_of v, '' is not a SQLite value''])))"

text \<open>The values a caller gave positionally, \<open>given\<close> of the source.\<close>

fun given_of :: "query_params \<Rightarrow> json list" where
  "given_of (QP_Positional vs) = vs"
| "given_of _ = []"

text \<open>\<open>&sql[a..b]\<close> with byte offsets.\<close>

definition slice :: "string \<Rightarrow> nat \<Rightarrow> nat \<Rightarrow> string" where
  "slice s a b = take (b - a) (drop a s)"

text \<open>The text of \<open>(?, ?, ...)\<close>, one placeholder per id.\<close>

fun placeholders :: "nat \<Rightarrow> string" where
  "placeholders 0 = []"
| "placeholders (Suc 0) = ''?''"
| "placeholders (Suc n) = ''?, '' @ placeholders n"

text \<open>One token: the text that replaces it, the values it binds, and how many \<open>?\<close> it took.\<close>

definition resolve_token ::
  "string \<Rightarrow> query_params \<Rightarrow> string \<Rightarrow> string list \<Rightarrow> nat \<Rightarrow> token \<Rightarrow> (string \<times> json list \<times> nat) knl_result" where
  "resolve_token sql params stream sessions taken tok =
     (case tok_param tok of
        P_Stream \<Rightarrow> Ok (''?'', [JString stream], taken)
      | P_Sessions \<Rightarrow> Ok (''('' @ placeholders (length sessions) @ '')'', map JString sessions, taken)
      | P_Positional \<Rightarrow>
          (if taken < length (given_of params)
           then and_then (scalar (given_of params ! taken)) (\<lambda>v. Ok (''?'', [v], taken + 1))
           else Err (Validation (fmt [''the query has more `?` parameters than the '',
             string_of_nat (length (given_of params)), '' value(s) given''])))
      | P_Numbered \<Rightarrow>
          Err (Validation (fmt [debug_string (slice sql (tok_start tok) (tok_end tok)),
            '' is a numbered parameter, and the kernel assigns the positions: '',
            ''number your parameters by position (a bare `?`) or name them'']))
      | P_Named name \<Rightarrow>
          (case params of
             QP_Named named \<Rightarrow>
               (case (case map_get named (drop 1 name) of Some v \<Rightarrow> Some v | None \<Rightarrow> map_get named name) of
                  Some v \<Rightarrow> and_then (scalar v) (\<lambda>v. Ok (''?'', [v], taken))
                | None \<Rightarrow> Err (Validation (fmt [''no value was given for the parameter '', debug_string name])))
           | _ \<Rightarrow> Err (Validation (fmt [''the query names the parameter '', debug_string name,
               '', so params must be a table of names to values'']))))"

fun resolve_loop ::
  "string \<Rightarrow> query_params \<Rightarrow> string \<Rightarrow> string list \<Rightarrow> token list \<Rightarrow> string \<Rightarrow> json list \<Rightarrow> nat \<Rightarrow> nat
     \<Rightarrow> (string \<times> json list \<times> nat \<times> nat) knl_result" where
  "resolve_loop sql params stream sessions [] out vals cursor taken = Ok (out, vals, cursor, taken)"
| "resolve_loop sql params stream sessions (tok # toks) out vals cursor taken =
     and_then (resolve_token sql params stream sessions taken tok) (\<lambda>(text, vs, taken').
       resolve_loop sql params stream sessions toks
         (out @ slice sql cursor (tok_start tok) @ text) (vals @ vs) (tok_end tok) taken')"

definition resolve ::
  "string \<Rightarrow> token list \<Rightarrow> query_params \<Rightarrow> string \<Rightarrow> string list \<Rightarrow> (string \<times> json list) knl_result" where
  "resolve sql toks params stream sessions =
     and_then (resolve_loop sql params stream sessions toks [] [] 0 0) (\<lambda>(out, values, cursor, taken).
       if taken < length (given_of params)
       then Err (Validation (fmt [string_of_nat (length (given_of params)),
         '' value(s) were given for '', string_of_nat taken, '' `?` parameter(s)'']))
       else Ok (out @ drop cursor sql, values))"

section \<open>The plan\<close>

definition plan :: "string \<Rightarrow> query_params \<Rightarrow> query_opts \<Rightarrow> string \<Rightarrow> query_plan knl_result" where
  "plan sql params opts stream =
     and_then (case qo_sessions opts of
         None \<Rightarrow> Ok [stream]
       | Some [] \<Rightarrow> Err (Validation (fmt [
           ''opts.sessions is empty; a set that selects no stream is not a request '',
           ''(omit it to read this session'', [CHR 0x27], ''s own)'']))
       | Some ids \<Rightarrow> Ok ids) (\<lambda>sessions.
     if qo_timeout_ms opts = 0
     then Err (Validation ''opts.timeout_ms must be a positive whole number of milliseconds'')
     else and_then (scan sql) (\<lambda>sn.
     if sn_keyword sn \<notin> set READ_KEYWORDS
     then Err (Validation (fmt [''a query reads: it must start with SELECT or WITH, got '',
       debug_string (sn_keyword sn)]))
     else and_then (resolve sql (sn_params sn) params stream sessions) (\<lambda>(rewritten, values).
     Ok \<lparr>qp_sql = rewritten, qp_values = values, qp_stream = stream, qp_sessions = sessions,
         qp_params = params, qp_timeout_ms = qo_timeout_ms opts, qp_limit = qo_limit opts\<rparr>)))"

section \<open>What one token becomes\<close>

fun token_text :: "nat \<Rightarrow> param \<Rightarrow> string" where
  "token_text n P_Sessions = ''('' @ placeholders n @ '')''"
| "token_text n _ = ''?''"

fun token_slots :: "nat \<Rightarrow> param \<Rightarrow> nat" where
  "token_slots n P_Sessions = n"
| "token_slots n _ = 1"

lemma resolve_token_Ok:
  assumes "resolve_token sql params stream sessions taken tok = Ok (text, vs, taken')"
  shows "text = token_text (length sessions) (tok_param tok)"
    and "length vs = token_slots (length sessions) (tok_param tok)"
    and "list_all is_sql_scalar vs" and "tok_param tok \<noteq> P_Numbered"
    and "taken \<le> taken'" and "taken' \<le> max taken (length (given_of params))"
  using assms
  by (auto simp: resolve_token_def and_then_Ok_iff scalar_def list_all_iff
      split: param.splits if_splits query_params.splits option.splits)

text \<open>The rewritten text, as a function of the tokens and the number of streams only.\<close>

fun rendered :: "string \<Rightarrow> nat \<Rightarrow> token list \<Rightarrow> nat \<Rightarrow> string" where
  "rendered sql n [] cursor = drop cursor sql"
| "rendered sql n (tok # toks) cursor =
     slice sql cursor (tok_start tok) @ token_text n (tok_param tok) @ rendered sql n toks (tok_end tok)"

lemma resolve_loop_Ok:
  assumes "resolve_loop sql params stream sessions toks out vals cursor taken = Ok (out', vals', cursor', taken')"
  shows "out' @ drop cursor' sql = out @ rendered sql (length sessions) toks cursor"
    and "length vals' = length vals + sum_list (map (token_slots (length sessions) \<circ> tok_param) toks)"
    and "list_all is_sql_scalar vals \<Longrightarrow> list_all is_sql_scalar vals'"
    and "list_all (\<lambda>t. tok_param t \<noteq> P_Numbered) toks"
  using assms
proof (induction toks arbitrary: out vals cursor taken)
  case (Cons tok toks)
  { case 1 with Cons.IH(1) show ?case
      by (auto simp: and_then_Ok_iff dest!: resolve_token_Ok(1))
  next
    case 2 with Cons.IH(2) show ?case
      by (auto simp: and_then_Ok_iff dest!: resolve_token_Ok(2))
  next
    case 3
    then obtain piece vs t where "resolve_token sql params stream sessions taken tok = Ok (piece, vs, t)"
      and "resolve_loop sql params stream sessions toks (out @ slice sql cursor (tok_start tok) @ piece)
        (vals @ vs) (tok_end tok) t = Ok (out', vals', cursor', taken')"
      by (auto simp: and_then_Ok_iff)
    with 3(1) show ?case by (intro Cons.IH(3)) (auto dest: resolve_token_Ok(3))
  next
    case 4 with Cons.IH(4) show ?case
      by (auto simp: and_then_Ok_iff dest!: resolve_token_Ok(4)) }
qed auto

lemma resolve_Ok:
  assumes "resolve sql toks params stream sessions = Ok (text, vs)"
  shows "text = rendered sql (length sessions) toks 0"
    and "length vs = sum_list (map (token_slots (length sessions) \<circ> tok_param) toks)"
    and "list_all is_sql_scalar vs" and "list_all (\<lambda>t. tok_param t \<noteq> P_Numbered) toks"
  using assms resolve_loop_Ok [where out = "[]" and vals = "[]" and cursor = 0 and taken = 0]
  by (auto simp: resolve_def and_then_Ok_iff split: if_splits)

lemma plan_Ok_iff:
  "plan sql params opts stream = Ok q \<longleftrightarrow>
     (\<exists>sessions sn text vs.
        sessions = (case qo_sessions opts of None \<Rightarrow> [stream] | Some ids \<Rightarrow> ids) \<and> sessions \<noteq> []
        \<and> 0 < qo_timeout_ms opts \<and> scan sql = Ok sn \<and> sn_keyword sn \<in> set READ_KEYWORDS
        \<and> resolve sql (sn_params sn) params stream sessions = Ok (text, vs)
        \<and> q = \<lparr>qp_sql = text, qp_values = vs, qp_stream = stream, qp_sessions = sessions,
              qp_params = params, qp_timeout_ms = qo_timeout_ms opts, qp_limit = qo_limit opts\<rparr>)"
  by (cases "qo_sessions opts")
     (auto simp: plan_def and_then_Ok_iff split: list.splits if_splits)

section \<open>Properties\<close>

text \<open>
  C39: nothing a caller passes as a value reaches the statement's text: two accepted plans of the
  same SQL that read the same number of streams carry the same text, whatever the parameters,
  the stream names and the other options are.
\<close>

theorem plan_text_ignores_values:
  assumes "plan sql params opts stream = Ok q" and "plan sql params' opts' stream' = Ok q'"
    and "length (qp_sessions q) = length (qp_sessions q')"
  shows "qp_sql q = qp_sql q'"
  using assms by (auto simp: plan_Ok_iff dest!: resolve_Ok(1))

theorem plan_text_ignores_values_witness:
  "\<exists>q q'. plan ''SELECT ?'' (QP_Positional [JNull]) query_opts_default ''a'' = Ok q
     \<and> plan ''SELECT ?'' (QP_Positional [JString ''x'']) query_opts_default ''b'' = Ok q'
     \<and> qp_sql q = qp_sql q'"
proof -
  obtain q where q: "plan ''SELECT ?'' (QP_Positional [JNull]) query_opts_default ''a'' = Ok q"
    "length (qp_sessions q) = 1"
    by (rule that) (code_simp+)
  obtain q' where q': "plan ''SELECT ?'' (QP_Positional [JString ''x'']) query_opts_default ''b'' = Ok q'"
    "length (qp_sessions q') = 1"
    by (rule that) (code_simp+)
  show ?thesis using plan_text_ignores_values [OF q(1) q'(1)] q q' by auto
qed

text \<open>
  An accepted plan reads and binds: its first word is \<open>SELECT\<close> or \<open>WITH\<close>, no numbered
  parameter is left, it holds exactly one value for each placeholder of its text, every value
  is one SQLite has (null, boolean, number or string), and the deadline is positive.
\<close>

theorem plan_binds_every_slot:
  assumes "plan sql params opts stream = Ok q"
  shows "\<exists>sn. scan sql = Ok sn \<and> sn_keyword sn \<in> {''SELECT'', ''WITH''}
    \<and> list_all (\<lambda>t. tok_param t \<noteq> P_Numbered) (sn_params sn)
    \<and> qp_sql q = rendered sql (length (qp_sessions q)) (sn_params sn) 0
    \<and> length (qp_values q) =
        sum_list (map (token_slots (length (qp_sessions q)) \<circ> tok_param) (sn_params sn))
    \<and> list_all is_sql_scalar (qp_values q) \<and> qp_sessions q \<noteq> [] \<and> 0 < qp_timeout_ms q"
  using assms by (auto simp: plan_Ok_iff READ_KEYWORDS_def dest: resolve_Ok)

theorem plan_binds_every_slot_witness:
  "\<exists>q sn. plan ''SELECT 1 FROM t WHERE s IN $sessions AND k = :k'' (QP_Named [(''k'', JString ''v'')])
        query_opts_default ''me'' = Ok q
     \<and> scan ''SELECT 1 FROM t WHERE s IN $sessions AND k = :k'' = Ok sn \<and> length (sn_params sn) = 2
     \<and> list_all is_sql_scalar (qp_values q)"
proof -
  let ?sql = "''SELECT 1 FROM t WHERE s IN $sessions AND k = :k''"
  obtain q where q: "plan ?sql (QP_Named [(''k'', JString ''v'')]) query_opts_default ''me'' = Ok q"
    by (rule that) code_simp
  have two: "case scan ?sql of Ok sn \<Rightarrow> length (sn_params sn) = 2 | Err _ \<Rightarrow> False" by code_simp
  show ?thesis using plan_binds_every_slot [OF q] q two by auto
qed

section \<open>Two facts the module's documentation does not say\<close>

text \<open>A trailing \<open>;\<close> is accepted and kept, so the text is not always usable as a subquery.\<close>

lemma plan_keeps_semicolon:
  "case plan ''SELECT 1;'' QP_None query_opts_default ''s'' of
     Ok q \<Rightarrow> qp_sql q = ''SELECT 1;'' | Err _ \<Rightarrow> False"
  by code_simp

text \<open>A named value no parameter asks for is accepted in silence; only positional values are counted.\<close>

lemma plan_accepts_unused_name:
  "case plan ''SELECT 1'' (QP_Named [(''unused'', JNull)]) query_opts_default ''s'' of
     Ok q \<Rightarrow> qp_values q = [] | Err _ \<Rightarrow> False"
  by code_simp

end
