(* ===== verification/Event_Store.thy ===== *)
theory Event_Store
  imports Upcast Query
begin

text \<open>
  The store interface and the upcasting seam, the second half of \<open>knl/event_store.rs\<close>. A
  \<open>Box<dyn EventStore>\<close> is a record of its methods; each method takes the world \<open>'w\<close> the
  store lives in (the databases, the clock, the faults to come) and returns it changed. A
  decision travels into the store with the cells it reports through (\<open>AtomicBool\<close>,
  \<open>AtomicI64\<close>, \<open>Mutex<Option<KnlError>>\<close> of the source): here one record of cells, threaded.
  What every store promises is the locale \<open>lawful_store\<close>.
\<close>

section \<open>Data\<close>

record committed =
  c_seq :: nat
  c_epoch_ms :: nat

record 't split =
  own :: "'t list"
  other :: "'t list"

definition split_own :: "'t list \<Rightarrow> 't split" where
  "split_own xs = \<lparr>own = xs, other = []\<rparr>"

record child_scan =
  cs_opened :: string
  cs_closed :: string
  cs_parent_field :: string

record cells =
  cell_refused :: bool
  cell_ended :: bool
  cell_occupied :: bool
  cell_measured :: int
  cell_fault :: "knl_error option"
  cell_refusal :: "knl_error option"

definition cells_new :: cells where
  "cells_new = \<lparr>cell_refused = False, cell_ended = False, cell_occupied = False, cell_measured = 0,
     cell_fault = None, cell_refusal = None\<rparr>"

type_synonym kinds = "string list option"
type_synonym decision = "json list \<Rightarrow> cells \<Rightarrow> event option \<times> cells"
type_synonym split_decision = "json split \<Rightarrow> cells \<Rightarrow> event split option \<times> cells"
type_synonym current_decision = "current list \<Rightarrow> cells \<Rightarrow> event option \<times> cells"
type_synonym current_split_decision = "current split \<Rightarrow> cells \<Rightarrow> event split option \<times> cells"
type_synonym children_decision = "string list \<Rightarrow> event"

record 'w event_store =
  es_append :: "event \<Rightarrow> 'w \<Rightarrow> committed knl_result \<times> 'w"
  es_append_many :: "event list \<Rightarrow> 'w \<Rightarrow> committed list knl_result \<times> 'w"
  es_append_if :: "kinds \<Rightarrow> decision \<Rightarrow> cells \<Rightarrow> 'w \<Rightarrow> committed option knl_result \<times> cells \<times> 'w"
  es_append_if_many ::
    "string \<Rightarrow> kinds \<Rightarrow> split_decision \<Rightarrow> cells \<Rightarrow> 'w \<Rightarrow> committed split option knl_result \<times> cells \<times> 'w"
  es_append_with_open_children ::
    "child_scan \<Rightarrow> children_decision \<Rightarrow> 'w \<Rightarrow> committed knl_result \<times> 'w"
  es_database :: "string option"
  es_read_kinds :: "kinds \<Rightarrow> nat \<Rightarrow> limit \<Rightarrow> 'w \<Rightarrow> json list knl_result \<times> 'w"
  es_read_last :: "nat \<Rightarrow> 'w \<Rightarrow> json list knl_result \<times> 'w"
  es_head :: "'w \<Rightarrow> nat option knl_result \<times> 'w"
  es_len :: "'w \<Rightarrow> nat knl_result \<times> 'w"
  es_query :: "query_plan \<Rightarrow> 'w \<Rightarrow> query_rows knl_result \<times> 'w"
  es_detach_append :: "event \<Rightarrow> 'w \<Rightarrow> 'w"

section \<open>The seam\<close>

record 'w current_store =
  inner :: "'w event_store"
  chain :: "upcaster list"
  shown :: "json \<Rightarrow> string"

definition cur_append :: "'w current_store \<Rightarrow> event \<Rightarrow> 'w \<Rightarrow> committed knl_result \<times> 'w" where
  "cur_append st e = es_append (inner st) e"

definition cur_append_many :: "'w current_store \<Rightarrow> event list \<Rightarrow> 'w \<Rightarrow> committed list knl_result \<times> 'w" where
  "cur_append_many st es = es_append_many (inner st) es"

text \<open>A projection that fails parks its fault and decides nothing; the caller raises it.\<close>

definition upcasted :: "'w current_store \<Rightarrow> current_decision \<Rightarrow> decision" where
  "upcasted st decide events c =
     (case project (shown st) (chain st) events of
        Ok cur \<Rightarrow> decide cur c
      | Err fault \<Rightarrow> (None, c\<lparr>cell_fault := Some fault\<rparr>))"

definition raise_parked :: "'a knl_result \<Rightarrow> knl_error option \<Rightarrow> 'a knl_result" where
  "raise_parked r parked = (case parked of Some fault \<Rightarrow> Err fault | None \<Rightarrow> r)"

definition cur_append_if ::
  "'w current_store \<Rightarrow> kinds \<Rightarrow> current_decision \<Rightarrow> cells \<Rightarrow> 'w \<Rightarrow> committed option knl_result \<times> cells \<times> 'w" where
  "cur_append_if st kinds decide c w =
     (case es_append_if (inner st) kinds (upcasted st decide) (c\<lparr>cell_fault := None\<rparr>) w of
        (r, c', w') \<Rightarrow> (raise_parked r (cell_fault c'), c', w'))"

definition upcasted_split :: "'w current_store \<Rightarrow> current_split_decision \<Rightarrow> split_decision" where
  "upcasted_split st decide events c =
     (case and_then (project (shown st) (chain st) (own events)) (\<lambda>o1.
             and_then (project (shown st) (chain st) (other events)) (\<lambda>o2.
               Ok \<lparr>own = o1, other = o2\<rparr>)) of
        Ok cur \<Rightarrow> decide cur c
      | Err fault \<Rightarrow> (None, c\<lparr>cell_fault := Some fault\<rparr>))"

definition cur_append_if_many ::
  "'w current_store \<Rightarrow> string \<Rightarrow> kinds \<Rightarrow> current_split_decision \<Rightarrow> cells \<Rightarrow> 'w
     \<Rightarrow> committed split option knl_result \<times> cells \<times> 'w" where
  "cur_append_if_many st elsewhere kinds decide c w =
     (case es_append_if_many (inner st) elsewhere kinds (upcasted_split st decide) (c\<lparr>cell_fault := None\<rparr>) w of
        (r, c', w') \<Rightarrow> (raise_parked r (cell_fault c'), c', w'))"

definition cur_append_with_open_children ::
  "'w current_store \<Rightarrow> child_scan \<Rightarrow> children_decision \<Rightarrow> 'w \<Rightarrow> committed knl_result \<times> 'w" where
  "cur_append_with_open_children st scn decide = es_append_with_open_children (inner st) scn decide"

definition cur_database :: "'w current_store \<Rightarrow> string option" where
  "cur_database st = es_database (inner st)"

definition cur_read_kinds :: "'w current_store \<Rightarrow> kinds \<Rightarrow> nat \<Rightarrow> limit \<Rightarrow> 'w \<Rightarrow> current list knl_result \<times> 'w" where
  "cur_read_kinds st kinds from n w =
     (case es_read_kinds (inner st) kinds from n w of
        (r, w') \<Rightarrow> (and_then r (project (shown st) (chain st)), w'))"

definition cur_read :: "'w current_store \<Rightarrow> nat \<Rightarrow> limit \<Rightarrow> 'w \<Rightarrow> current list knl_result \<times> 'w" where
  "cur_read st from n = cur_read_kinds st None from n"

definition cur_read_last :: "'w current_store \<Rightarrow> nat \<Rightarrow> 'w \<Rightarrow> current list knl_result \<times> 'w" where
  "cur_read_last st n w =
     (case es_read_last (inner st) n w of
        (r, w') \<Rightarrow> (and_then r (project (shown st) (chain st)), w'))"

definition cur_head :: "'w current_store \<Rightarrow> 'w \<Rightarrow> nat option knl_result \<times> 'w" where
  "cur_head st = es_head (inner st)"

definition cur_len :: "'w current_store \<Rightarrow> 'w \<Rightarrow> nat knl_result \<times> 'w" where
  "cur_len st = es_len (inner st)"

definition cur_is_empty :: "'w current_store \<Rightarrow> 'w \<Rightarrow> bool knl_result \<times> 'w" where
  "cur_is_empty st w = (case es_len (inner st) w of (r, w') \<Rightarrow> (result_map (\<lambda>n. n = 0) r, w'))"

definition cur_query :: "'w current_store \<Rightarrow> query_plan \<Rightarrow> 'w \<Rightarrow> query_rows knl_result \<times> 'w" where
  "cur_query st q = es_query (inner st) q"

definition cur_detach_append :: "'w current_store \<Rightarrow> event \<Rightarrow> 'w \<Rightarrow> 'w" where
  "cur_detach_append st e = es_detach_append (inner st) e"

section \<open>What a store promises\<close>

text \<open>
  \<open>view w s\<close> is stream \<open>s\<close> of the store's database as a read shows it. Selection is on the
  kind; appended events land under the next numbers, stamped by \<open>recorded\<close>.
\<close>

type_synonym streams = "string \<Rightarrow> current list"

definition of_kinds :: "kinds \<Rightarrow> current list \<Rightarrow> current list" where
  "of_kinds kinds es = (case kinds of None \<Rightarrow> es | Some ks \<Rightarrow> filter (\<lambda>e. cur_kind e \<in> set ks) es)"

definition landed :: "event list \<Rightarrow> committed list \<Rightarrow> current list" where
  "landed es cs = map2 (\<lambda>e c. recorded e (c_seq c) (c_epoch_ms c)) es cs"

definition placed :: "current list \<Rightarrow> event list \<Rightarrow> committed list \<Rightarrow> bool" where
  "placed log es cs =
     (list_all well_formed es \<and> length cs = length es
      \<and> map c_seq cs = [Suc (length log)..<Suc (length log) + length es])"

definition land :: "streams \<Rightarrow> string \<Rightarrow> event list \<Rightarrow> committed list \<Rightarrow> streams" where
  "land v s es cs = v(s := v s @ landed es cs)"

definition numbered :: "current list \<Rightarrow> bool" where
  "numbered log = (map cur_seq log = [Suc 0..<Suc (length log)])"

text \<open>A stream that names \<open>parent\<close> in an opening and carries no ending.\<close>

definition is_open_child :: "child_scan \<Rightarrow> string \<Rightarrow> current list \<Rightarrow> bool" where
  "is_open_child scn parent log =
     (list_ex (\<lambda>e. cur_kind e = cs_opened scn
        \<and> data_field e (cs_parent_field scn) = Some (JString parent)) log
      \<and> \<not> list_ex (\<lambda>e. cur_kind e = cs_closed scn) log)"

text \<open>
  A scan the SQL of a backend reads as it is meant: the field is one plain word, and openings name
  their parent by a string or not at all (the kernel writes no other, and the SQL compares text).
\<close>

definition plain_parents :: "child_scan \<Rightarrow> streams \<Rightarrow> bool" where
  "plain_parents scn v \<longleftrightarrow>
     cs_parent_field scn \<noteq> [] \<and> list_all is_ascii_alphabetic (cs_parent_field scn) \<and>
     (\<forall>s. \<forall>e \<in> set (v s). cur_kind e = cs_opened scn \<longrightarrow>
        (case data_field e (cs_parent_field scn) of None \<Rightarrow> True | Some p \<Rightarrow> is_string p))"

text \<open>
  The cell a backend parks its own refusal in is the backend's: a decision is not handed it, so it
  leaves it as it finds it.
\<close>

definition keeps_refusal :: "('a \<Rightarrow> cells \<Rightarrow> 'b \<times> cells) \<Rightarrow> bool" where
  "keeps_refusal d \<longleftrightarrow> (\<forall>x c. cell_refusal (snd (d x c)) = cell_refusal c)"

locale lawful_store =
  fixes st :: "'w event_store" and view :: "'w \<Rightarrow> streams" and me :: string
  assumes numbered: "numbered (view w s)"
    and append: "es_append st e w = (r, w') \<Longrightarrow>
      (case r of
         Ok c \<Rightarrow> placed (view w me) [e] [c] \<and> view w' = land (view w) me [e] [c]
       | Err x \<Rightarrow> view w' = view w)"
    and append_many: "es_append_many st es w = (rs, w') \<Longrightarrow>
      (case rs of
         Ok cs \<Rightarrow> placed (view w me) es cs \<and> view w' = land (view w) me es cs
       | Err x \<Rightarrow> view w' = view w)"
    and append_if: "cell_refusal c = None \<Longrightarrow> keeps_refusal decide \<Longrightarrow>
      es_append_if st kinds decide c w = (ri, c', w') \<Longrightarrow>
      (case ri of
         Ok (Some cm) \<Rightarrow> (\<exists>e. decide (map JObject (of_kinds kinds (view w me))) c = (Some e, c')
           \<and> placed (view w me) [e] [cm] \<and> view w' = land (view w) me [e] [cm])
       | Ok None \<Rightarrow> decide (map JObject (of_kinds kinds (view w me))) c = (None, c')
           \<and> view w' = view w
       | Err x \<Rightarrow> view w' = view w)"
    and append_if_many: "cell_refusal c = None \<Longrightarrow> keeps_refusal sdecide \<Longrightarrow>
      es_append_if_many st elsewhere kinds sdecide c w = (rm, c', w') \<Longrightarrow>
      (case rm of
         Ok (Some cms) \<Rightarrow> (\<exists>es.
           sdecide \<lparr>own = map JObject (of_kinds kinds (view w me)),
             other = map JObject (take 1 (view w elsewhere))\<rparr> c = (Some es, c')
           \<and> placed (view w me) (own es) (own cms)
           \<and> placed (land (view w) me (own es) (own cms) elsewhere) (other es) (other cms)
           \<and> view w' = land (land (view w) me (own es) (own cms)) elsewhere (other es) (other cms))
       | Ok None \<Rightarrow>
           sdecide \<lparr>own = map JObject (of_kinds kinds (view w me)),
             other = map JObject (take 1 (view w elsewhere))\<rparr> c = (None, c')
           \<and> view w' = view w
       | Err x \<Rightarrow> view w' = view w)"
    and append_with_open_children: "es_append_with_open_children st scn close w = (r, w') \<Longrightarrow>
      (case r of
         Ok cm \<Rightarrow> (\<exists>ids. (plain_parents scn (view w) \<longrightarrow> set ids = {s. is_open_child scn me (view w s)})
           \<and> placed (view w me) [close ids] [cm] \<and> view w' = land (view w) me [close ids] [cm])
       | Err x \<Rightarrow> view w' = view w)"
    and read_kinds: "es_read_kinds st kinds from n w = (rr, w') \<Longrightarrow> view w' = view w \<and>
      (case rr of
         Ok vs \<Rightarrow> vs = map JObject (truncate_to n (filter (\<lambda>e. from \<le> cur_seq e) (of_kinds kinds (view w me))))
       | Err x \<Rightarrow> True)"
    and read_last: "es_read_last st k w = (rr, w') \<Longrightarrow> view w' = view w \<and>
      (case rr of
         Ok vs \<Rightarrow> vs = map JObject (drop (length (view w me) - k) (view w me))
       | Err x \<Rightarrow> True)"
    and head: "es_head st w = (rh, w') \<Longrightarrow> view w' = view w \<and>
      (case rh of
         Ok h \<Rightarrow> h = (if view w me = [] then None else Some (length (view w me)))
       | Err x \<Rightarrow> True)"
    and len: "es_len st w = (rl, w') \<Longrightarrow> view w' = view w \<and>
      (case rl of Ok k \<Rightarrow> k = length (view w me) | Err x \<Rightarrow> True)"
    and query: "es_query st q w = (rq, w') \<Longrightarrow> view w' = view w"
    and detach: "es_detach_append st e w = w' \<Longrightarrow>
      view w' = view w \<or> (\<exists>c. placed (view w me) [e] [c] \<and> view w' = land (view w) me [e] [c])"

end
