(* ===== verification/Sqlite_Store.thy ===== *)
theory Sqlite_Store
  imports Event_Store
begin

text \<open>
  The durable backend, \<open>knl/sqlite_store.rs\<close>: the kernel's store interface on top of the
  eventsdb crates. That code is outside the repository, so a log (\<open>SqliteEventLog\<close>), its
  per-stream handles and its transactions are a record of functions, \<open>eventsdb\<close>, and what the
  adapter relies on is the locale \<open>eventsdb_laws\<close>. From those laws follows \<open>lawful_store\<close>
  for every log and stream.
\<close>

section \<open>Error classes\<close>

datatype es_error =
    ES_Validation string
  | ES_Busy string
  | ES_Timeout string
  | ES_Storage string
  | ES_Corruption string
  | ES_Unsupported string
  | ES_Other string

fun knl_of_es :: "es_error \<Rightarrow> knl_error" where
  "knl_of_es (ES_Validation why) = Validation why"
| "knl_of_es (ES_Busy why) = Busy why"
| "knl_of_es (ES_Timeout why) = Timeout why"
| "knl_of_es (ES_Storage why) = Storage why"
| "knl_of_es (ES_Corruption why) = Corruption why"
| "knl_of_es (ES_Unsupported why) = Unsupported why"
| "knl_of_es (ES_Other shown_text) = Storage shown_text"

text \<open>A rusqlite error by its SQLite code (when it has one) and its rendering.\<close>

datatype sqlite_code = DatabaseBusy | DatabaseLocked | OtherCode

datatype rusqlite_error = SqliteFailure sqlite_code string | RusqliteOther string

fun rusqlite_text :: "rusqlite_error \<Rightarrow> string" where
  "rusqlite_text (SqliteFailure _ msg) = msg"
| "rusqlite_text (RusqliteOther msg) = msg"

fun rusqlite_is_retryable :: "rusqlite_error \<Rightarrow> bool" where
  "rusqlite_is_retryable (SqliteFailure code _) = (code = DatabaseBusy \<or> code = DatabaseLocked)"
| "rusqlite_is_retryable (RusqliteOther _) = False"

definition knl_of_rusqlite :: "rusqlite_error \<Rightarrow> knl_error" where
  "knl_of_rusqlite e =
     (if rusqlite_is_retryable e then Busy (fmt [''sqlite: busy/locked: '', rusqlite_text e])
      else Storage (fmt [''sqlite: '', rusqlite_text e]))"

definition SQLITE_STATEMENT_ERRORS :: "string list" where
  "SQLITE_STATEMENT_ERRORS =
     [''no such column'', ''no such table'', ''no such function'', ''syntax error'',
      ''near '' @ [CHR 0x22], ''wrong number of arguments'', ''ambiguous column name'']"

definition is_statement_error :: "string \<Rightarrow> bool" where
  "is_statement_error msg = list_ex (\<lambda>phrase. str_contains phrase msg) SQLITE_STATEMENT_ERRORS"

definition query_error :: "es_error \<Rightarrow> knl_error" where
  "query_error e =
     (case knl_of_es e of
        Storage why \<Rightarrow> if is_statement_error why then Validation (fmt [''sql: '', why]) else Storage why
      | x \<Rightarrow> x)"

section \<open>The log, as the adapter uses it\<close>

record es_committed =
  ec_position :: nat
  ec_seq :: nat
  ec_epoch_ms :: nat

text \<open>A transaction of this adapter answers with one of two things.\<close>

datatype tx_answer = TA_Split "committed split option" | TA_One committed

type_synonym 'tx tx_body = "'tx \<Rightarrow> cells \<Rightarrow> (es_error + tx_answer) \<times> cells \<times> 'tx"

record ('l, 'tx, 'w) eventsdb =
  ev_database :: "'l \<Rightarrow> string"
  ev_append :: "'l \<Rightarrow> string \<Rightarrow> event \<Rightarrow> 'w \<Rightarrow> (es_error + es_committed) \<times> 'w"
  ev_append_many :: "'l \<Rightarrow> string \<Rightarrow> event list \<Rightarrow> 'w \<Rightarrow> (es_error + es_committed list) \<times> 'w"
  ev_append_if :: "'l \<Rightarrow> string \<Rightarrow> kinds \<Rightarrow> (event list \<Rightarrow> cells \<Rightarrow> event option \<times> cells) \<Rightarrow> cells \<Rightarrow> 'w
    \<Rightarrow> (es_error + es_committed option) \<times> cells \<times> 'w"
  ev_read_kinds :: "'l \<Rightarrow> string \<Rightarrow> kinds \<Rightarrow> nat \<Rightarrow> limit \<Rightarrow> 'w \<Rightarrow> (es_error + event list) \<times> 'w"
  ev_read_last :: "'l \<Rightarrow> string \<Rightarrow> nat \<Rightarrow> 'w \<Rightarrow> (es_error + event list) \<times> 'w"
  ev_head :: "'l \<Rightarrow> string \<Rightarrow> 'w \<Rightarrow> (es_error + nat option) \<times> 'w"
  ev_len :: "'l \<Rightarrow> string \<Rightarrow> 'w \<Rightarrow> (es_error + nat) \<times> 'w"
  ev_with_transaction :: "'l \<Rightarrow> 'tx tx_body \<Rightarrow> cells \<Rightarrow> 'w \<Rightarrow> (es_error + tx_answer) \<times> cells \<times> 'w"
  ev_query_timeout :: "'l \<Rightarrow> string \<Rightarrow> json list \<Rightarrow> nat \<Rightarrow> 'w \<Rightarrow> (es_error + json_map list) \<times> 'w"
  ev_detach_append :: "'l \<Rightarrow> string \<Rightarrow> event \<Rightarrow> 'w \<Rightarrow> (es_error + unit) \<times> 'w"
  tx_read :: "'tx \<Rightarrow> string \<Rightarrow> kinds \<Rightarrow> nat \<Rightarrow> limit \<Rightarrow> es_error + event list"
  tx_append :: "string \<Rightarrow> event \<Rightarrow> 'tx \<Rightarrow> (es_error + es_committed) \<times> 'tx"
  tx_append_many :: "string \<Rightarrow> event list \<Rightarrow> 'tx \<Rightarrow> (es_error + es_committed list) \<times> 'tx"
  tx_query_strings :: "'tx \<Rightarrow> string \<Rightarrow> string \<Rightarrow> rusqlite_error + string list"

section \<open>The adapter\<close>

definition committed_of :: "es_committed \<Rightarrow> committed" where
  "committed_of c = \<lparr>c_seq = ec_seq c, c_epoch_ms = ec_epoch_ms c\<rparr>"

definition values_of :: "event list \<Rightarrow> json list" where
  "values_of events = map JObject events"

definition rolled_back :: es_error where
  "rolled_back = ES_Validation ''the kernel refused an event this write was to record''"

definition sq_append ::
  "('l, 'tx, 'w) eventsdb \<Rightarrow> 'l \<Rightarrow> string \<Rightarrow> event \<Rightarrow> 'w \<Rightarrow> committed knl_result \<times> 'w" where
  "sq_append E l stream event w =
     (case validate_event event of
        Err e \<Rightarrow> (Err e, w)
      | Ok _ \<Rightarrow>
          (case ev_append E l stream (prepared event) w of
             (r, w') \<Rightarrow> (map_err knl_of_es (result_map committed_of r), w')))"

definition validate_all :: "event list \<Rightarrow> unit knl_result" where
  "validate_all events = and_then (collect_results validate_event events) (\<lambda>_. Ok ())"

definition sq_append_many ::
  "('l, 'tx, 'w) eventsdb \<Rightarrow> 'l \<Rightarrow> string \<Rightarrow> event list \<Rightarrow> 'w \<Rightarrow> committed list knl_result \<times> 'w" where
  "sq_append_many E l stream events w =
     (case validate_all events of
        Err e \<Rightarrow> (Err e, w)
      | Ok _ \<Rightarrow>
          (case ev_append_many E l stream (map prepared events) w of
             (r, w') \<Rightarrow> (map_err knl_of_es (result_map (map committed_of) r), w')))"

text \<open>The decision as it travels: a refusal of its event is parked and writes nothing.\<close>

definition checked_decision :: "decision \<Rightarrow> event list \<Rightarrow> cells \<Rightarrow> event option \<times> cells" where
  "checked_decision decide seen c =
     (case decide (values_of seen) c of
        (None, c') \<Rightarrow> (None, c')
      | (Some event, c') \<Rightarrow>
          (case validate_event event of
             Ok _ \<Rightarrow> (Some (prepared event), c')
           | Err refusal \<Rightarrow> (None, c'\<lparr>cell_refusal := Some refusal\<rparr>)))"

definition sq_append_if ::
  "('l, 'tx, 'w) eventsdb \<Rightarrow> 'l \<Rightarrow> string \<Rightarrow> kinds \<Rightarrow> decision \<Rightarrow> cells \<Rightarrow> 'w
     \<Rightarrow> committed option knl_result \<times> cells \<times> 'w" where
  "sq_append_if E l stream kinds decide c w =
     (case ev_append_if E l stream kinds (checked_decision decide) (c\<lparr>cell_refusal := None\<rparr>) w of
        (r, c', w') \<Rightarrow>
          (raise_parked (map_err knl_of_es (result_map (map_option committed_of) r)) (cell_refusal c'), c', w'))"

definition split_body ::
  "('l, 'tx, 'w) eventsdb \<Rightarrow> string \<Rightarrow> string \<Rightarrow> kinds \<Rightarrow> split_decision \<Rightarrow> 'tx tx_body" where
  "split_body E stream elsewhere kinds decide tx c =
     (case tx_read E tx stream kinds 0 None of
        Err e \<Rightarrow> (Err e, c, tx)
      | Ok mine \<Rightarrow>
     (case tx_read E tx elsewhere None 0 (Some 1) of
        Err e \<Rightarrow> (Err e, c, tx)
      | Ok theirs \<Rightarrow>
     (case decide \<lparr>own = values_of mine, other = values_of theirs\<rparr> c of
        (None, c') \<Rightarrow> (Ok (TA_Split None), c', tx)
      | (Some es, c') \<Rightarrow>
     (case validate_all (own es @ other es) of
        Err refusal \<Rightarrow> (Err rolled_back, c'\<lparr>cell_refusal := Some refusal\<rparr>, tx)
      | Ok _ \<Rightarrow>
     (case tx_append_many E stream (map prepared (own es)) tx of
        (Err e, tx1) \<Rightarrow> (Err e, c', tx1)
      | (Ok c1, tx1) \<Rightarrow>
     (case tx_append_many E elsewhere (map prepared (other es)) tx1 of
        (Err e, tx2) \<Rightarrow> (Err e, c', tx2)
      | (Ok c2, tx2) \<Rightarrow>
          (Ok (TA_Split (Some \<lparr>own = map committed_of c1, other = map committed_of c2\<rparr>)), c', tx2)))))))"

fun answer_split :: "tx_answer \<Rightarrow> committed split option" where
  "answer_split (TA_Split x) = x"
| "answer_split (TA_One _) = None"

fun answer_one :: "tx_answer \<Rightarrow> committed" where
  "answer_one (TA_One c) = c"
| "answer_one (TA_Split _) = \<lparr>c_seq = 0, c_epoch_ms = 0\<rparr>"

definition sq_append_if_many ::
  "('l, 'tx, 'w) eventsdb \<Rightarrow> 'l \<Rightarrow> string \<Rightarrow> string \<Rightarrow> kinds \<Rightarrow> split_decision \<Rightarrow> cells \<Rightarrow> 'w
     \<Rightarrow> committed split option knl_result \<times> cells \<times> 'w" where
  "sq_append_if_many E l stream elsewhere kinds decide c w =
     (case ev_with_transaction E l (split_body E stream elsewhere kinds decide) (c\<lparr>cell_refusal := None\<rparr>) w of
        (r, c', w') \<Rightarrow>
          (raise_parked (map_err knl_of_es (result_map answer_split r)) (cell_refusal c'), c', w'))"

text \<open>\<open>'..'\<close> with every quote doubled, and the scan's statement.\<close>

definition sql_literal :: "string \<Rightarrow> string" where
  "sql_literal txt =
     [CHR 0x27] @ concat (map (\<lambda>c. if c = CHR 0x27 then [CHR 0x27, CHR 0x27] else [c]) txt) @ [CHR 0x27]"

definition child_scan_sql :: "child_scan \<Rightarrow> string" where
  "child_scan_sql scn =
     concat [''SELECT opened.stream FROM events AS opened WHERE opened.kind = '', sql_literal (cs_opened scn),
       '' AND json_extract(opened.data, '', sql_literal (''$.'' @ cs_parent_field scn), '') = ?1 '',
       ''AND NOT EXISTS ( SELECT 1 FROM events AS ending WHERE ending.stream = opened.stream '',
       ''AND ending.kind = '', sql_literal (cs_closed scn), '' ) ORDER BY opened.epoch_ms, opened.stream'']"

definition open_children_in ::
  "('l, 'tx, 'w) eventsdb \<Rightarrow> 'tx \<Rightarrow> string \<Rightarrow> child_scan \<Rightarrow> rusqlite_error + string list" where
  "open_children_in E tx stream scn = tx_query_strings E tx (child_scan_sql scn) stream"

definition children_body ::
  "('l, 'tx, 'w) eventsdb \<Rightarrow> string \<Rightarrow> child_scan \<Rightarrow> children_decision \<Rightarrow> 'tx tx_body" where
  "children_body E stream scn decide tx c =
     (case open_children_in E tx stream scn of
        Err e \<Rightarrow> (Err (ES_Storage (rusqlite_text e)), c, tx)
      | Ok children \<Rightarrow>
     (case validate_event (decide children) of
        Err refusal \<Rightarrow> (Err rolled_back, c\<lparr>cell_refusal := Some refusal\<rparr>, tx)
      | Ok _ \<Rightarrow>
     (case tx_append E stream (prepared (decide children)) tx of
        (Err e, tx1) \<Rightarrow> (Err e, c, tx1)
      | (Ok cm, tx1) \<Rightarrow> (Ok (TA_One (committed_of cm)), c, tx1))))"

definition sq_append_with_open_children ::
  "('l, 'tx, 'w) eventsdb \<Rightarrow> 'l \<Rightarrow> string \<Rightarrow> child_scan \<Rightarrow> children_decision \<Rightarrow> 'w \<Rightarrow> committed knl_result \<times> 'w" where
  "sq_append_with_open_children E l stream scn decide w =
     (case ev_with_transaction E l (children_body E stream scn decide) cells_new w of
        (r, c', w') \<Rightarrow> (raise_parked (map_err knl_of_es (result_map answer_one r)) (cell_refusal c'), w'))"

definition sq_read_kinds ::
  "('l, 'tx, 'w) eventsdb \<Rightarrow> 'l \<Rightarrow> string \<Rightarrow> kinds \<Rightarrow> nat \<Rightarrow> limit \<Rightarrow> 'w \<Rightarrow> json list knl_result \<times> 'w" where
  "sq_read_kinds E l stream kinds from n w =
     (case ev_read_kinds E l stream kinds from n w of
        (r, w') \<Rightarrow> (map_err knl_of_es (result_map values_of r), w'))"

definition sq_read_last ::
  "('l, 'tx, 'w) eventsdb \<Rightarrow> 'l \<Rightarrow> string \<Rightarrow> nat \<Rightarrow> 'w \<Rightarrow> json list knl_result \<times> 'w" where
  "sq_read_last E l stream n w =
     (case ev_read_last E l stream n w of (r, w') \<Rightarrow> (map_err knl_of_es (result_map values_of r), w'))"

definition sq_head :: "('l, 'tx, 'w) eventsdb \<Rightarrow> 'l \<Rightarrow> string \<Rightarrow> 'w \<Rightarrow> nat option knl_result \<times> 'w" where
  "sq_head E l stream w = (case ev_head E l stream w of (r, w') \<Rightarrow> (map_err knl_of_es r, w'))"

definition sq_len :: "('l, 'tx, 'w) eventsdb \<Rightarrow> 'l \<Rightarrow> string \<Rightarrow> 'w \<Rightarrow> nat knl_result \<times> 'w" where
  "sq_len E l stream w = (case ev_len E l stream w of (r, w') \<Rightarrow> (map_err knl_of_es r, w'))"

text \<open>The caller's statement inside the kernel's cap; a \<open>NULL\<close> column is an absent key.\<close>

definition query_cap :: "nat \<Rightarrow> int" where
  "query_cap n = i64_saturating_add (if int n \<le> i64_max then int n else i64_max) 1"

definition capped_sql :: "query_plan \<Rightarrow> string" where
  "capped_sql q = concat [''SELECT * FROM ('', qp_sql q, '') LIMIT '', string_of_int (query_cap (qp_limit q))]"

definition sq_query :: "('l, 'tx, 'w) eventsdb \<Rightarrow> 'l \<Rightarrow> query_plan \<Rightarrow> 'w \<Rightarrow> query_rows knl_result \<times> 'w" where
  "sq_query E l q w =
     (case ev_query_timeout E l (capped_sql q) (qp_values q) (qp_timeout_ms q) w of
        (Err e, w') \<Rightarrow> (Err (query_error e), w')
      | (Ok rws, w') \<Rightarrow>
          (Ok \<lparr>qr_rows = map (filter (\<lambda>(_, v). \<not> is_null v)) (take (qp_limit q) rws),
               qr_truncated = (qp_limit q < length rws)\<rparr>, w'))"

definition sq_detach_append :: "('l, 'tx, 'w) eventsdb \<Rightarrow> 'l \<Rightarrow> string \<Rightarrow> event \<Rightarrow> 'w \<Rightarrow> 'w" where
  "sq_detach_append E l stream event w =
     (case validate_event event of
        Err _ \<Rightarrow> w
      | Ok _ \<Rightarrow> snd (ev_detach_append E l stream (prepared event) w))"

definition sqlite_event_store :: "('l, 'tx, 'w) eventsdb \<Rightarrow> 'l \<Rightarrow> string \<Rightarrow> 'w event_store" where
  "sqlite_event_store E l stream =
     \<lparr>es_append = sq_append E l stream,
      es_append_many = sq_append_many E l stream,
      es_append_if = sq_append_if E l stream,
      es_append_if_many = sq_append_if_many E l stream,
      es_append_with_open_children = sq_append_with_open_children E l stream,
      es_database = Some (ev_database E l),
      es_read_kinds = sq_read_kinds E l stream,
      es_read_last = sq_read_last E l stream,
      es_head = sq_head E l stream,
      es_len = sq_len E l stream,
      es_query = sq_query E l,
      es_detach_append = sq_detach_append E l stream\<rparr>"

text \<open>The published columns of the \<open>events\<close> table.\<close>

record schema_column =
  col_name :: string
  col_type :: string
  col_pk :: bool

definition EVENTS_COLUMNS :: "(string \<times> string \<times> bool) list" where
  "EVENTS_COLUMNS =
     [(''position'', ''INTEGER'', True), (''stream'', ''TEXT'', False), (''seq'', ''INTEGER'', False),
      (''epoch_ms'', ''INTEGER'', False), (''kind'', ''TEXT'', False),
      (''schema_version'', ''INTEGER'', False), (''meta'', ''TEXT'', False), (''data'', ''TEXT'', False)]"

definition events_schema :: "schema_column list knl_result" where
  "events_schema = Ok (map (\<lambda>(n, t, p). \<lparr>col_name = n, col_type = t, col_pk = p\<rparr>) EVENTS_COLUMNS)"

section \<open>Text in a statement\<close>

definition unquoted :: "string \<Rightarrow> bool" where
  "unquoted rest \<longleftrightarrow> (case rest of [] \<Rightarrow> True | c # _ \<Rightarrow> c \<noteq> CHR 0x27)"

definition doubled :: "string \<Rightarrow> string" where
  "doubled txt = concat (map (\<lambda>c. if c = CHR 0x27 then [CHR 0x27, CHR 0x27] else [c]) txt)"

lemma sql_literal_doubled: "sql_literal txt = CHR 0x27 # doubled txt @ [CHR 0x27]"
  by (simp add: sql_literal_def doubled_def)

lemma doubled_simps [simp]:
  "doubled [] = []"
  "doubled (c # cs) = (if c = CHR 0x27 then [CHR 0x27, CHR 0x27] else [c]) @ doubled cs"
  by (simp_all add: doubled_def)

lemma doubled_unique:
  assumes "doubled x @ CHR 0x27 # r = doubled y @ CHR 0x27 # r'" and "unquoted r" and "unquoted r'"
  shows "x = y \<and> r = r'"
  using assms
proof (induction x arbitrary: y)
  case Nil
  then show ?case by (cases y) (auto simp: unquoted_def split: if_splits)
next
  case (Cons c cs)
  then show ?case by (cases y) (auto simp: unquoted_def split: if_splits)
qed

lemma sql_literal_unique:
  "sql_literal x @ r = sql_literal y @ r' \<Longrightarrow> unquoted r \<Longrightarrow> unquoted r' \<Longrightarrow> x = y \<and> r = r'"
  by (rule doubled_unique) (simp_all add: sql_literal_doubled)

lemma child_scan_sql_inject:
  assumes "child_scan_sql a = child_scan_sql b" shows "a = b"
proof -
  define B where "B s = '' AND json_extract(opened.data, '' @ s" for s :: string
  define C where "C s = '') = ?1 AND NOT EXISTS ( SELECT 1 FROM events AS ending WHERE ending.stream = opened.stream AND ending.kind = '' @ s" for s :: string
  define D where "D = '' ) ORDER BY opened.epoch_ms, opened.stream''"
  have form: "child_scan_sql scn = ''SELECT opened.stream FROM events AS opened WHERE opened.kind = ''
      @ sql_literal (cs_opened scn) @ B (sql_literal (''$.'' @ cs_parent_field scn)
      @ C (sql_literal (cs_closed scn) @ D))" for scn
    by (simp add: child_scan_sql_def B_def C_def D_def)
  have u: "unquoted (B s)" "unquoted (C s)" "unquoted D" for s
    by (simp_all add: B_def C_def D_def unquoted_def)
  from assms have "sql_literal (cs_opened a) @ B (sql_literal (''$.'' @ cs_parent_field a) @ C (sql_literal (cs_closed a) @ D))
      = sql_literal (cs_opened b) @ B (sql_literal (''$.'' @ cs_parent_field b) @ C (sql_literal (cs_closed b) @ D))"
    unfolding form by simp
  from sql_literal_unique [OF this u(1) u(1)] have o1: "cs_opened a = cs_opened b"
    and "sql_literal (''$.'' @ cs_parent_field a) @ C (sql_literal (cs_closed a) @ D)
      = sql_literal (''$.'' @ cs_parent_field b) @ C (sql_literal (cs_closed b) @ D)"
    by (simp_all add: B_def)
  from sql_literal_unique [OF this(2) u(2) u(2)] have "cs_parent_field a = cs_parent_field b"
    and "sql_literal (cs_closed a) @ D = sql_literal (cs_closed b) @ D"
    by (simp_all add: C_def)
  with sql_literal_unique [OF this(2) u(3) u(3)] o1 show ?thesis by (cases a; cases b) simp
qed

section \<open>Properties\<close>

text \<open>
  The words written into the child scan cannot break out of their literals: the statement
  determines the three words, so no choice of a kind or of a field name turns one scan into
  another.
\<close>

theorem child_scan_sql_injective: "inj child_scan_sql"
  by (rule injI) (rule child_scan_sql_inject)

text \<open>
  A failure keeps its class on the way up: the six classes both vocabularies have are kept, a
  class the kernel does not name becomes \<open>storage\<close>, and on the query path exactly the storage
  failures whose text is SQLite refusing the caller's statement come back as \<open>validation\<close>.
\<close>

theorem store_error_classes:
  "error_kind (knl_of_es e) =
     (case e of
        ES_Validation _ \<Rightarrow> VALIDATION | ES_Busy _ \<Rightarrow> BUSY | ES_Timeout _ \<Rightarrow> TIMEOUT
      | ES_Corruption _ \<Rightarrow> CORRUPTION | ES_Unsupported _ \<Rightarrow> UNSUPPORTED | _ \<Rightarrow> STORAGE)
   \<and> error_kind (query_error e) =
     (if error_kind (knl_of_es e) = STORAGE \<and> is_statement_error (reason (knl_of_es e)) then VALIDATION
      else error_kind (knl_of_es e))
   \<and> is_retryable (knl_of_es e) = (case e of ES_Busy _ \<Rightarrow> True | _ \<Rightarrow> False)"
  by (cases e) (simp_all add: query_error_def is_retryable_def BUSY_def STORAGE_def CORRUPTION_def
      VALIDATION_def UNSUPPORTED_def TIMEOUT_def)

end
