(* ===== verification/Eventsdb.thy ===== *)
theory Eventsdb
  imports Sqlite_Store "HOL-Library.Product_Lexorder"
begin

text \<open>
  What the adapter relies on of the eventsdb crates, as the locale \<open>eventsdb_laws\<close>, and that the
  adapter then keeps the kernel's own store contract. \<open>rows w l\<close> are the rows of log \<open>l\<close> in
  global order, each with its stream and the event as it is stored. The laws are the behaviour
  the comments of \<open>knl/sqlite_store.rs\<close>, \<open>knl/event_store.rs\<close> and \<open>knl/logs.rs\<close> state of the
  store: dense numbering per stream, reads through the chain the log was opened with
  (\<open>kernel_upcasters\<close>), selection by the stored kind, one transaction per write, and no trace of a
  write that failed.
\<close>

section \<open>Rows and what a read shows of them\<close>

type_synonym row = "string \<times> event"

definition stream_rows :: "row list \<Rightarrow> string \<Rightarrow> event list" where
  "stream_rows rs s = map snd (filter (\<lambda>r. fst r = s) rs)"

text \<open>A stored event as a read hands it over: through the kernel's chain.\<close>

definition as_read :: "event \<Rightarrow> current" where
  "as_read e =
     (case apply_upcasters kernel_upcasters [JObject e] of [JObject m] \<Rightarrow> m | _ \<Rightarrow> e)"

definition stream_view :: "row list \<Rightarrow> streams" where
  "stream_view rs s = map as_read (stream_rows rs s)"

definition selected :: "kinds \<Rightarrow> nat \<Rightarrow> limit \<Rightarrow> event list \<Rightarrow> event list" where
  "selected kinds from n es = truncate_to n (filter (\<lambda>e. from \<le> cur_seq e) (of_kinds kinds es))"

definition new_rows :: "string \<Rightarrow> event list \<Rightarrow> es_committed list \<Rightarrow> row list" where
  "new_rows s es cs = map2 (\<lambda>e c. (s, stamp e (ec_seq c) (ec_epoch_ms c))) es cs"

definition next_numbers :: "row list \<Rightarrow> string \<Rightarrow> event list \<Rightarrow> es_committed list \<Rightarrow> bool" where
  "next_numbers rs s es cs =
     (length cs = length es
      \<and> map ec_seq cs = [Suc (length (stream_rows rs s))..<Suc (length (stream_rows rs s)) + length es])"

definition epoch_of :: "event \<Rightarrow> nat" where
  "epoch_of e = (case Option.bind (map_get e FIELD_EPOCH_MS) as_u64 of None \<Rightarrow> 0 | Some n \<Rightarrow> n)"

text \<open>The rows of the scan's statement: \<open>WHERE\<close> and \<open>NOT EXISTS\<close>.\<close>

definition scan_hit :: "child_scan \<Rightarrow> string \<Rightarrow> row list \<Rightarrow> row \<Rightarrow> bool" where
  "scan_hit scn parent rs r =
     (cur_kind (snd r) = cs_opened scn
      \<and> data_field (snd r) (cs_parent_field scn) = Some (JString parent)
      \<and> \<not> list_ex (\<lambda>r'. fst r' = fst r \<and> cur_kind (snd r') = cs_closed scn) rs)"

locale eventsdb_laws =
  fixes E :: "('l, 'tx, 'w) eventsdb" and rows :: "'w \<Rightarrow> 'l \<Rightarrow> row list" and tx_rows :: "'tx \<Rightarrow> row list"
  assumes dense: "numbered (stream_rows (rows w l) s)"
    and append_es: "ev_append E l s e w = (r, w') \<Longrightarrow>
      (case r of
         Ok c \<Rightarrow> next_numbers (rows w l) s [e] [c] \<and> rows w' = (rows w)(l := rows w l @ new_rows s [e] [c])
       | Err x \<Rightarrow> rows w' = rows w)"
    and append_many_es: "ev_append_many E l s es w = (rs, w') \<Longrightarrow>
      (case rs of
         Ok cs \<Rightarrow> next_numbers (rows w l) s es cs \<and> rows w' = (rows w)(l := rows w l @ new_rows s es cs)
       | Err x \<Rightarrow> rows w' = rows w)"
    and append_if_es: "ev_append_if E l s kinds d c w = (ri, c', w') \<Longrightarrow>
      (case ri of
         Ok (Some cm) \<Rightarrow> (\<exists>e. d (map as_read (of_kinds kinds (stream_rows (rows w l) s))) c = (Some e, c')
           \<and> next_numbers (rows w l) s [e] [cm] \<and> rows w' = (rows w)(l := rows w l @ new_rows s [e] [cm]))
       | Ok None \<Rightarrow> d (map as_read (of_kinds kinds (stream_rows (rows w l) s))) c = (None, c')
           \<and> rows w' = rows w
       | Err x \<Rightarrow> rows w' = rows w)"
    and read_kinds_es: "ev_read_kinds E l s kinds from n w = (rr, w') \<Longrightarrow> rows w' = rows w \<and>
      (case rr of
         Ok es \<Rightarrow> es = map as_read (selected kinds from n (stream_rows (rows w l) s))
       | Err x \<Rightarrow> True)"
    and read_last_es: "ev_read_last E l s k w = (rr, w') \<Longrightarrow> rows w' = rows w \<and>
      (case rr of
         Ok es \<Rightarrow> es = map as_read (drop (length (stream_rows (rows w l) s) - k) (stream_rows (rows w l) s))
       | Err x \<Rightarrow> True)"
    and head_es: "ev_head E l s w = (rh, w') \<Longrightarrow> rows w' = rows w \<and>
      (case rh of
         Ok h \<Rightarrow> h = (if stream_rows (rows w l) s = [] then None else Some (length (stream_rows (rows w l) s)))
       | Err x \<Rightarrow> True)"
    and len_es: "ev_len E l s w = (rl, w') \<Longrightarrow> rows w' = rows w \<and>
      (case rl of Ok k \<Rightarrow> k = length (stream_rows (rows w l) s) | Err x \<Rightarrow> True)"
    and with_transaction_es: "ev_with_transaction E l body c w = (ra, c', w') \<Longrightarrow>
      (case ra of
         Ok a \<Rightarrow> (\<exists>tx tx'. tx_rows tx = rows w l \<and> body tx c = (Ok a, c', tx')
           \<and> rows w' = (rows w)(l := tx_rows tx'))
       | Err x \<Rightarrow> rows w' = rows w)"
    and query_es: "ev_query_timeout E l sql vs ms w = (rq, w') \<Longrightarrow> rows w' = rows w"
    and detach_es: "ev_detach_append E l s e w = (rd, w') \<Longrightarrow> rows w' = rows w
      \<or> (\<exists>c. next_numbers (rows w l) s [e] [c] \<and> rows w' = (rows w)(l := rows w l @ new_rows s [e] [c]))"
    and tx_read_es: "tx_read E tx s kinds from n = Ok es \<Longrightarrow>
      es = map as_read (selected kinds from n (stream_rows (tx_rows tx) s))"
    and tx_append_es: "tx_append E s e tx = (Ok cm, tx') \<Longrightarrow>
      next_numbers (tx_rows tx) s [e] [cm] \<and> tx_rows tx' = tx_rows tx @ new_rows s [e] [cm]"
    and tx_append_many_es: "tx_append_many E s es tx = (Ok cs, tx') \<Longrightarrow>
      next_numbers (tx_rows tx) s es cs \<and> tx_rows tx' = tx_rows tx @ new_rows s es cs"
    and tx_scan_es: "plain_parents scn (stream_view (tx_rows tx)) \<Longrightarrow>
      tx_query_strings E tx (child_scan_sql scn) parent = Ok ids \<Longrightarrow>
      ids = map fst (sort_key (\<lambda>r. (epoch_of (snd r), fst r)) (filter (scan_hit scn parent (tx_rows tx)) (tx_rows tx)))"

section \<open>From rows to streams\<close>

lemma as_read_JObject: "BeatIntoMeta (JObject e) = JObject (as_read e)"
  using upcast_object [of e] by (auto simp: as_read_def apply_upcasters_def kernel_upcasters_def)

lemma as_read_reads [simp]:
  "cur_kind (as_read e) = cur_kind e" "cur_seq (as_read e) = cur_seq e" "data_field (as_read e) = data_field e"
  using upcast_kind_seq [OF as_read_JObject] by simp_all

lemma as_read_recorded [simp]: "as_read (recorded e seq ms) = recorded e seq ms"
  using as_read_JObject [of "recorded e seq ms"] by simp

lemma length_stream_view [simp]: "length (stream_view rs s) = length (stream_rows rs s)"
  by (simp add: stream_view_def)

lemma of_kinds_as_read: "of_kinds kinds (map as_read es) = map as_read (of_kinds kinds es)"
  by (simp add: of_kinds_def filter_map comp_def split: option.split)

lemma selected_as_read:
  "map as_read (selected kinds from n es) =
     truncate_to n (filter (\<lambda>e. from \<le> cur_seq e) (of_kinds kinds (map as_read es)))"
  by (cases n) (simp_all add: selected_def of_kinds_as_read filter_map comp_def take_map)

lemma stream_rows_append: "stream_rows (rs @ rs') s = stream_rows rs s @ stream_rows rs' s"
  by (simp add: stream_rows_def)

lemma stream_rows_new:
  "length cs = length es \<Longrightarrow>
     stream_rows (new_rows s es cs) s' = (if s' = s then map2 (\<lambda>e c. stamp e (ec_seq c) (ec_epoch_ms c)) es cs else [])"
  by (induction es cs rule: list_induct2') (auto simp: new_rows_def stream_rows_def)

text \<open>Rows a write adds, seen as the streams' growth.\<close>

lemma map2_stamp_as_read:
  "length cs = length es \<Longrightarrow>
     map as_read (map2 (\<lambda>e c. stamp e (ec_seq c) (ec_epoch_ms c)) (map prepared es) cs) = landed es (map committed_of cs)"
  by (induction es cs rule: list_induct2')
     (simp_all add: landed_def committed_of_def flip: recorded_def)

lemma stream_view_new:
  assumes "next_numbers rs s (map prepared es) cs"
  shows "stream_view (rs @ new_rows s (map prepared es) cs) = land (stream_view rs) s es (map committed_of cs)"
    and "list_all well_formed es \<Longrightarrow> placed (stream_view rs s) es (map committed_of cs)"
proof -
  have len: "length cs = length es" using assms by (simp add: next_numbers_def)
  show "stream_view (rs @ new_rows s (map prepared es) cs) = land (stream_view rs) s es (map committed_of cs)"
    using len map2_stamp_as_read [OF len]
    by (auto simp: fun_eq_iff stream_view_def land_def stream_rows_append stream_rows_new)
  have "map c_seq (map committed_of cs) = map ec_seq cs" by (simp add: committed_of_def)
  then show "placed (stream_view rs s) es (map committed_of cs)" if "list_all well_formed es"
    using assms that by (simp only: placed_def next_numbers_def length_stream_view length_map)
qed

lemmas stream_view_new_1 = stream_view_new [of _ _ "[e]" "[c]" for e c, simplified]

lemma numbered_stream_view: "numbered (stream_rows rs s) \<Longrightarrow> numbered (stream_view rs s)"
  by (simp add: numbered_def stream_view_def comp_def)

lemma validate_all_Ok: "validate_all es = Ok u \<longleftrightarrow> list_all well_formed es"
proof -
  have "(\<exists>us. collect_results validate_event es = Ok us) \<longleftrightarrow> list_all well_formed es"
    by (induction es) (auto simp: and_then_Ok_iff validate_iff_well_formed)
  then show ?thesis by (auto simp: validate_all_def and_then_Ok_iff)
qed

lemma scan_hit_view:
  "s \<in> fst ` set (filter (scan_hit scn parent rs) rs) \<longleftrightarrow> is_open_child scn parent (stream_view rs s)"
  by (force simp: scan_hit_def is_open_child_def stream_view_def stream_rows_def list_ex_iff)

section \<open>The adapter keeps the contract\<close>

definition db_view :: "('w \<Rightarrow> 'l \<Rightarrow> row list) \<Rightarrow> 'l \<Rightarrow> 'w \<Rightarrow> streams" where
  "db_view rows l w = stream_view (rows w l)"

context eventsdb_laws
begin

lemma sq_append_law:
  assumes "sq_append E l s e w = (r, w')"
  shows "case r of
      Ok c \<Rightarrow> placed (db_view rows l w s) [e] [c] \<and> db_view rows l w' = land (db_view rows l w) s [e] [c]
    | Err x \<Rightarrow> db_view rows l w' = db_view rows l w"
proof (cases "validate_event e")
  case (Inl x)
  with assms show ?thesis by (auto simp: sq_append_def)
next
  case (Inr u)
  then have wf: "well_formed e" by (simp add: validate_iff_well_formed)
  obtain r0 where r0: "ev_append E l s (prepared e) w = (r0, w')"
    "r = map_err knl_of_es (result_map committed_of r0)"
    using assms Inr by (auto simp: sq_append_def split: prod.splits)
  with append_es [OF r0(1)] wf show ?thesis
    by (cases r0) (auto simp: db_view_def stream_view_new_1)
qed

lemma sq_append_many_law:
  assumes "sq_append_many E l s es w = (r, w')"
  shows "case r of
      Ok cs \<Rightarrow> placed (db_view rows l w s) es cs \<and> db_view rows l w' = land (db_view rows l w) s es cs
    | Err x \<Rightarrow> db_view rows l w' = db_view rows l w"
proof (cases "validate_all es")
  case (Inl x)
  with assms show ?thesis by (auto simp: sq_append_many_def)
next
  case (Inr u)
  then have wf: "list_all well_formed es" by (simp add: validate_all_Ok)
  obtain r0 where r0: "ev_append_many E l s (map prepared es) w = (r0, w')"
    "r = map_err knl_of_es (result_map (map committed_of) r0)"
    using assms Inr by (auto simp: sq_append_many_def split: prod.splits)
  with append_many_es [OF r0(1)] wf show ?thesis
    by (cases r0) (auto simp: db_view_def stream_view_new)
qed

lemma checked_decision_Some:
  assumes "checked_decision decide es c = (Some e', c')" and "cell_refusal c' = None"
  shows "\<exists>e. decide (map JObject es) c = (Some e, c') \<and> e' = prepared e \<and> well_formed e"
  using assms
  by (auto simp: checked_decision_def values_of_def validate_iff_well_formed
      split: prod.splits option.splits sum.splits)

lemma checked_decision_None:
  assumes "checked_decision decide es c = (None, c')" and "cell_refusal c' = None"
  shows "decide (map JObject es) c = (None, c')"
  using assms by (auto simp: checked_decision_def values_of_def split: prod.splits option.splits sum.splits)

lemma checked_keeps:
  assumes "keeps_refusal decide" and "cell_refusal c = None"
    and "checked_decision decide es c = (Some e', c')"
  shows "cell_refusal c' = None"
  using assms unfolding keeps_refusal_def
  by (auto simp: checked_decision_def split: prod.splits option.splits sum.splits) (metis snd_conv)

lemma sq_append_if_law:
  assumes c: "cell_refusal c = None" and keep: "keeps_refusal decide"
    and run: "sq_append_if E l s kinds decide c w = (r, c', w')"
  shows "case r of
      Ok (Some cm) \<Rightarrow> (\<exists>e. decide (map JObject (of_kinds kinds (db_view rows l w s))) c = (Some e, c')
        \<and> placed (db_view rows l w s) [e] [cm] \<and> db_view rows l w' = land (db_view rows l w) s [e] [cm])
    | Ok None \<Rightarrow> decide (map JObject (of_kinds kinds (db_view rows l w s))) c = (None, c')
        \<and> db_view rows l w' = db_view rows l w
    | Err x \<Rightarrow> db_view rows l w' = db_view rows l w"
proof -
  have c0: "c\<lparr>cell_refusal := None\<rparr> = c" using c by (cases c) simp
  obtain ri where ri: "ev_append_if E l s kinds (checked_decision decide) c w = (ri, c', w')"
    and r: "r = raise_parked (map_err knl_of_es (result_map (map_option committed_of) ri)) (cell_refusal c')"
    using run by (auto simp: sq_append_if_def c0 split: prod.splits)
  note law = append_if_es [OF ri]
  let ?seen = "map as_read (of_kinds kinds (stream_rows (rows w l) s))"
  have seen: "of_kinds kinds (db_view rows l w s) = ?seen"
    by (simp add: db_view_def stream_view_def of_kinds_as_read)
  show ?thesis
  proof (cases ri)
    case (Inl x)
    with law r show ?thesis by (auto simp: raise_parked_def db_view_def split: option.splits)
  next
    case (Inr committed)
    show ?thesis
    proof (cases committed)
      case None
      with law Inr have "checked_decision decide ?seen c = (None, c')" "rows w' = rows w" by simp_all
      with r Inr None show ?thesis
        by (auto simp: raise_parked_def db_view_def seen [unfolded db_view_def]
            dest: checked_decision_None split: option.splits)
    next
      case (Some cm)
      with law Inr obtain e' where e': "checked_decision decide ?seen c = (Some e', c')"
        "next_numbers (rows w l) s [e'] [cm]" "rows w' = (rows w)(l := rows w l @ new_rows s [e'] [cm])"
        by auto
      have park: "cell_refusal c' = None" by (rule checked_keeps [OF keep c e'(1)])
      with checked_decision_Some [OF e'(1)] obtain e where
        e: "decide (map JObject ?seen) c = (Some e, c')" "e' = prepared e" "well_formed e" by auto
      with r Inr Some park e' show ?thesis
        by (simp add: raise_parked_def seen) (auto simp: db_view_def stream_view_new_1)
    qed
  qed
qed

lemma sq_append_if_many_law:
  assumes c: "cell_refusal c = None" and keep: "keeps_refusal decide"
    and run: "sq_append_if_many E l s elsewhere kinds decide c w = (r, c', w')"
  shows "case r of
      Ok (Some cms) \<Rightarrow> (\<exists>es.
        decide \<lparr>own = map JObject (of_kinds kinds (db_view rows l w s)),
          other = map JObject (take 1 (db_view rows l w elsewhere))\<rparr> c = (Some es, c')
        \<and> placed (db_view rows l w s) (own es) (own cms)
        \<and> placed (land (db_view rows l w) s (own es) (own cms) elsewhere) (other es) (other cms)
        \<and> db_view rows l w' = land (land (db_view rows l w) s (own es) (own cms)) elsewhere (other es) (other cms))
    | Ok None \<Rightarrow>
        decide \<lparr>own = map JObject (of_kinds kinds (db_view rows l w s)),
          other = map JObject (take 1 (db_view rows l w elsewhere))\<rparr> c = (None, c')
        \<and> db_view rows l w' = db_view rows l w
    | Err x \<Rightarrow> db_view rows l w' = db_view rows l w"
proof -
  have c0: "c\<lparr>cell_refusal := None\<rparr> = c" using c by (cases c) simp
  let ?body = "split_body E s elsewhere kinds decide"
  obtain ra where ra: "ev_with_transaction E l ?body c w = (ra, c', w')"
    and r: "r = raise_parked (map_err knl_of_es (result_map answer_split ra)) (cell_refusal c')"
    using run by (auto simp: sq_append_if_many_def c0 split: prod.splits)
  note law = with_transaction_es [OF ra]
  show ?thesis
  proof (cases ra)
    case (Inl x)
    with law r show ?thesis by (auto simp: raise_parked_def db_view_def split: option.splits)
  next
    case (Inr a)
    with law obtain tx tx' where tx: "tx_rows tx = rows w l" and body: "?body tx c = (Ok a, c', tx')"
      and rows': "rows w' = (rows w)(l := tx_rows tx')" by auto
    let ?seen = "\<lparr>own = map JObject (of_kinds kinds (db_view rows l w s)),
          other = map JObject (take 1 (db_view rows l w elsewhere))\<rparr>"
    obtain mine theirs where rd: "tx_read E tx s kinds 0 None = Ok mine"
      "tx_read E tx elsewhere None 0 (Some 1) = Ok theirs"
      using body by (auto simp: split_body_def split: sum.splits)
    have seen: "\<lparr>own = values_of mine, other = values_of theirs\<rparr> = ?seen"
      using tx_read_es [OF rd(1)] tx_read_es [OF rd(2)]
      by (simp add: values_of_def tx db_view_def stream_view_def selected_as_read of_kinds_as_read)
         (simp add: of_kinds_def take_map)
    obtain d c1 where d: "decide ?seen c = (d, c1)" by fastforce
    then have keep1: "cell_refusal c1 = None" using keep c unfolding keeps_refusal_def by (metis snd_conv)
    show ?thesis
    proof (cases d)
      case None
      with body rd seen d have "a = TA_Split None" "c' = c1" "tx' = tx" by (auto simp: split_body_def)
      with r Inr keep1 None d rows' tx show ?thesis
        by (simp add: raise_parked_def db_view_def)
    next
      case (Some es)
      with body rd seen d obtain k1 tx1 k2 where
        wf: "list_all well_formed (own es @ other es)"
        and k1: "tx_append_many E s (map prepared (own es)) tx = (Ok k1, tx1)"
        and k2: "tx_append_many E elsewhere (map prepared (other es)) tx1 = (Ok k2, tx')"
        and a: "a = TA_Split (Some \<lparr>own = map committed_of k1, other = map committed_of k2\<rparr>)" "c' = c1"
        by (auto simp: split_body_def validate_all_Ok split: sum.splits prod.splits)
      note n1 = tx_append_many_es [OF k1] and n2 = tx_append_many_es [OF k2]
      have v1: "stream_view (tx_rows tx1) = land (db_view rows l w) s (own es) (map committed_of k1)"
        "placed (db_view rows l w s) (own es) (map committed_of k1)"
        using n1 stream_view_new [of "tx_rows tx" s "own es" k1] wf by (auto simp: db_view_def tx)
      have v2: "stream_view (tx_rows tx') = land (stream_view (tx_rows tx1)) elsewhere (other es) (map committed_of k2)"
        "placed (stream_view (tx_rows tx1) elsewhere) (other es) (map committed_of k2)"
        using n2 stream_view_new [of "tx_rows tx1" elsewhere "other es" k2] wf by auto
      from r Inr a keep1 Some d v1 v2 rows' show ?thesis
        by (simp add: raise_parked_def db_view_def)
    qed
  qed
qed

lemma sq_append_with_open_children_law:
  assumes run: "sq_append_with_open_children E l s scn decide w = (r, w')"
  shows "case r of
      Ok cm \<Rightarrow> (\<exists>ids. (plain_parents scn (db_view rows l w) \<longrightarrow> set ids = {x. is_open_child scn s (db_view rows l w x)})
        \<and> placed (db_view rows l w s) [decide ids] [cm] \<and> db_view rows l w' = land (db_view rows l w) s [decide ids] [cm])
    | Err x \<Rightarrow> db_view rows l w' = db_view rows l w"
proof -
  let ?body = "children_body E s scn decide"
  obtain ra c' where ra: "ev_with_transaction E l ?body cells_new w = (ra, c', w')"
    and r: "r = raise_parked (map_err knl_of_es (result_map answer_one ra)) (cell_refusal c')"
    using run by (auto simp: sq_append_with_open_children_def split: prod.splits)
  note law = with_transaction_es [OF ra]
  show ?thesis
  proof (cases ra)
    case (Inl x)
    with law r show ?thesis by (auto simp: raise_parked_def db_view_def split: option.splits)
  next
    case (Inr a)
    with law obtain tx tx' where tx: "tx_rows tx = rows w l" and body: "?body tx cells_new = (Ok a, c', tx')"
      and rows': "rows w' = (rows w)(l := tx_rows tx')" by auto
    from body obtain ids cm where
      ids: "tx_query_strings E tx (child_scan_sql scn) s = Ok ids"
      and wf: "well_formed (decide ids)" and ap: "tx_append E s (prepared (decide ids)) tx = (Ok cm, tx')"
      and a: "a = TA_One (committed_of cm)" "c' = cells_new"
      by (auto simp: children_body_def open_children_in_def validate_iff_well_formed
          split: sum.splits prod.splits)
    have kids: "set ids = {x. is_open_child scn s (db_view rows l w x)}" if "plain_parents scn (db_view rows l w)"
    proof -
      from that have "plain_parents scn (stream_view (tx_rows tx))" by (simp add: db_view_def tx)
      from tx_scan_es [OF this ids] show ?thesis
        by (auto simp: db_view_def tx simp flip: scan_hit_view)
    qed
    from tx_append_es [OF ap] wf have "stream_view (tx_rows tx') = land (db_view rows l w) s [decide ids] [committed_of cm]"
      "placed (db_view rows l w s) [decide ids] [committed_of cm]"
      using stream_view_new [of "tx_rows tx" s "[decide ids]" "[cm]"] by (simp_all add: db_view_def tx)
    with r Inr a kids rows' show ?thesis
      by (auto simp: raise_parked_def cells_new_def db_view_def)
  qed
qed

lemma sq_read_kinds_law:
  assumes "sq_read_kinds E l s kinds from n w = (r, w')"
  shows "db_view rows l w' = db_view rows l w \<and>
    (case r of
       Ok vs \<Rightarrow> vs = map JObject (truncate_to n (filter (\<lambda>e. from \<le> cur_seq e) (of_kinds kinds (db_view rows l w s))))
     | Err x \<Rightarrow> True)"
proof -
  obtain rr where rr: "ev_read_kinds E l s kinds from n w = (rr, w')" "r = map_err knl_of_es (result_map values_of rr)"
    using assms by (auto simp: sq_read_kinds_def split: prod.splits)
  with read_kinds_es [OF rr(1)] show ?thesis
    by (cases rr) (auto simp: db_view_def values_of_def stream_view_def selected_as_read)
qed

lemma sq_read_last_law:
  assumes "sq_read_last E l s k w = (r, w')"
  shows "db_view rows l w' = db_view rows l w \<and>
    (case r of
       Ok vs \<Rightarrow> vs = map JObject (drop (length (db_view rows l w s) - k) (db_view rows l w s))
     | Err x \<Rightarrow> True)"
proof -
  obtain rr where rr: "ev_read_last E l s k w = (rr, w')" "r = map_err knl_of_es (result_map values_of rr)"
    using assms by (auto simp: sq_read_last_def split: prod.splits)
  with read_last_es [OF rr(1)] show ?thesis
    by (cases rr) (auto simp: db_view_def values_of_def stream_view_def drop_map)
qed

lemma sq_counts_law:
  assumes "sq_head E l s w = (rh, w1)" and "sq_len E l s w = (rl, w2)"
  shows "db_view rows l w1 = db_view rows l w \<and>
    (case rh of Ok h \<Rightarrow> h = (if db_view rows l w s = [] then None else Some (length (db_view rows l w s))) | Err x \<Rightarrow> True)"
    and "db_view rows l w2 = db_view rows l w \<and> (case rl of Ok k \<Rightarrow> k = length (db_view rows l w s) | Err x \<Rightarrow> True)"
proof -
  obtain r1 where r1: "ev_head E l s w = (r1, w1)" "rh = map_err knl_of_es r1"
    using assms(1) by (auto simp: sq_head_def split: prod.splits)
  with head_es [OF r1(1)] show "db_view rows l w1 = db_view rows l w \<and>
      (case rh of Ok h \<Rightarrow> h = (if db_view rows l w s = [] then None else Some (length (db_view rows l w s))) | Err x \<Rightarrow> True)"
    by (cases r1) (auto simp: db_view_def stream_view_def)
  obtain r2 where r2: "ev_len E l s w = (r2, w2)" "rl = map_err knl_of_es r2"
    using assms(2) by (auto simp: sq_len_def split: prod.splits)
  with len_es [OF r2(1)] show
    "db_view rows l w2 = db_view rows l w \<and> (case rl of Ok k \<Rightarrow> k = length (db_view rows l w s) | Err x \<Rightarrow> True)"
    by (cases r2) (auto simp: db_view_def)
qed

lemma sq_query_law: "sq_query E l q w = (r, w') \<Longrightarrow> db_view rows l w' = db_view rows l w"
  using query_es by (fastforce simp: sq_query_def db_view_def split: prod.splits sum.splits)

lemma sq_detach_law:
  assumes "sq_detach_append E l s e w = w'"
  shows "db_view rows l w' = db_view rows l w
    \<or> (\<exists>c. placed (db_view rows l w s) [e] [c] \<and> db_view rows l w' = land (db_view rows l w) s [e] [c])"
proof (cases "validate_event e")
  case (Inl x)
  with assms show ?thesis by (simp add: sq_detach_append_def)
next
  case (Inr u)
  then have wf: "well_formed e" by (simp add: validate_iff_well_formed)
  obtain rd where rd: "ev_detach_append E l s (prepared e) w = (rd, w')"
    using assms Inr by (cases "ev_detach_append E l s (prepared e) w") (simp add: sq_detach_append_def)
  from detach_es [OF rd] show ?thesis
  proof (elim disjE exE conjE)
    fix c
    assume c: "next_numbers (rows w l) s [prepared e] [c]"
      "rows w' = (rows w)(l := rows w l @ new_rows s [prepared e] [c])"
    then show ?thesis
      using wf stream_view_new [of "rows w l" s "[e]" "[c]"]
      by (intro disjI2 exI [of _ "committed_of c"]) (auto simp: db_view_def)
  qed (simp add: db_view_def)
qed

end

sublocale eventsdb_laws < sq: lawful_store "sqlite_event_store E l s" "db_view rows l" s for l s
proof (unfold_locales, goal_cases)
  case (1 w x) then show ?case using dense by (simp add: db_view_def numbered_stream_view)
next
  case (2 e w r w') then show ?case using sq_append_law by (simp add: sqlite_event_store_def)
next
  case (3 es w rs w') then show ?case using sq_append_many_law by (simp add: sqlite_event_store_def)
next
  case (4 c decide kinds w ri c' w')
  then show ?case using sq_append_if_law by (simp add: sqlite_event_store_def)
next
  case (5 c sdecide elsewhere kinds w rm c' w')
  then show ?case using sq_append_if_many_law by (simp add: sqlite_event_store_def)
next
  case (6 scn close w r w')
  then show ?case using sq_append_with_open_children_law by (simp add: sqlite_event_store_def)
next
  case (7 kinds fm n w rr w') then show ?case using sq_read_kinds_law by (simp add: sqlite_event_store_def)
next
  case (8 k w rr w') then show ?case using sq_read_last_law by (simp add: sqlite_event_store_def)
next
  case (9 w rh w') then show ?case
    using sq_counts_law(1) [of l s w rh w' "fst (sq_len E l s w)" "snd (sq_len E l s w)"]
    by (simp add: sqlite_event_store_def)
next
  case (10 w rl w') then show ?case
    using sq_counts_law(2) [of l s w "fst (sq_head E l s w)" "snd (sq_head E l s w)" rl w']
    by (simp add: sqlite_event_store_def)
next
  case (11 q w rq w') then show ?case using sq_query_law by (simp add: sqlite_event_store_def)
next
  case (12 e w w') then show ?case using sq_detach_law [of l s e w w'] by (simp add: sqlite_event_store_def)
qed

context eventsdb_laws
begin

lemma adapter_lawful: "lawful_store (sqlite_event_store E l s) (db_view rows l) s"
  by (rule sq.lawful_store_axioms)

end

text \<open>The side condition of the child scan, checked row by row.\<close>

definition plain_rows :: "child_scan \<Rightarrow> row list \<Rightarrow> bool" where
  "plain_rows scn rs =
     (cs_parent_field scn \<noteq> [] \<and> list_all is_ascii_alphabetic (cs_parent_field scn)
      \<and> list_all (\<lambda>r. cur_kind (snd r) = cs_opened scn \<longrightarrow>
          (case data_field (snd r) (cs_parent_field scn) of None \<Rightarrow> True | Some p \<Rightarrow> is_string p)) rs)"

lemma plain_rows_parents: "plain_rows scn rs \<Longrightarrow> plain_parents scn (stream_view rs)"
  by (auto simp: plain_rows_def plain_parents_def stream_view_def stream_rows_def list_all_iff)

end
