(* ===== verification/Budget.thy ===== *)
theory Budget
  imports Upcast
begin

text \<open>
  The budget ledger, \<open>knl/budget.rs\<close>, and the scope that carries a grant's words,
  \<open>knl/scope.rs\<close>. The balance is a fold over the log and nothing keeps it beside the log;
  \<open>None\<close> is a stream with no grant. Identifiers the kernel mints (\<open>uuid::Uuid::new_v4\<close>) are
  arguments.
\<close>

section \<open>Reading amounts\<close>

text \<open>\<open>f.trunc() as i64\<close> saturates at the ends of the range.\<close>

definition whole :: "json \<Rightarrow> int" where
  "whole v =
     (case as_i64 v of
        Some n \<Rightarrow> n
      | None \<Rightarrow> (case as_f64 v of Some f \<Rightarrow> i64_sat (f64_trunc f) | None \<Rightarrow> 0))"

definition check_amount :: "int \<Rightarrow> unit knl_result" where
  "check_amount amount =
     (if amount < 0
      then Err (Validation (fmt [''amount must be a non-negative whole number, got '',
        string_of_int amount]))
      else Ok ())"

text \<open>\<open>data_field(event, FIELD_AMOUNT).map_or(0, whole).max(0)\<close>.\<close>

definition ledger_amount :: "current \<Rightarrow> int" where
  "ledger_amount e = max 0 (case data_field e FIELD_AMOUNT of None \<Rightarrow> 0 | Some v \<Rightarrow> whole v)"

section \<open>The fold\<close>

definition ledger_step :: "int option \<Rightarrow> current \<Rightarrow> int option" where
  "ledger_step balance e =
     (let amount = ledger_amount e in
      if cur_kind e = KIND_BUDGET_GRANTED
        then Some (i64_saturating_add (case balance of None \<Rightarrow> 0 | Some b \<Rightarrow> b) amount)
      else if cur_kind e = KIND_BUDGET_RESERVED \<or> cur_kind e = KIND_BUDGET_SPENT
        then map_option (\<lambda>b. max 0 (i64_saturating_sub b amount)) balance
      else balance)"

definition fold_balance :: "current list \<Rightarrow> int option" where
  "fold_balance events = foldl ledger_step None events"

record budget_grant =
  amount :: int
  tag :: "string option"
  desc :: "string option"

definition grant_new :: "int \<Rightarrow> budget_grant" where
  "grant_new n = \<lparr>amount = n, tag = None, desc = None\<rparr>"

record allocation =
  alloc_amount :: int
  alloc_tag :: "string option"

definition string_field :: "current \<Rightarrow> string \<Rightarrow> string option" where
  "string_field e field = Option.bind (data_field e field) as_str"

definition last_grant :: "current list \<Rightarrow> budget_grant option" where
  "last_grant events =
     map_option (\<lambda>e. \<lparr>amount = ledger_amount e, tag = string_field e FIELD_TAG,
         desc = string_field e FIELD_DESC\<rparr>)
       (List.find (\<lambda>e. cur_kind e = KIND_BUDGET_GRANTED) (rev events))"

section \<open>The scope\<close>

record scope =
  sc_id :: string
  sc_owner :: string
  sc_grant :: "budget_grant option"

definition scope_new :: "string \<Rightarrow> string \<Rightarrow> budget_grant option \<Rightarrow> scope" where
  "scope_new minted own g = \<lparr>sc_id = minted, sc_owner = own, sc_grant = g\<rparr>"

definition scope_restore :: "string \<Rightarrow> string option \<Rightarrow> string \<Rightarrow> budget_grant option \<Rightarrow> scope" where
  "scope_restore minted sid own g =
     \<lparr>sc_id = (case sid of Some i \<Rightarrow> i | None \<Rightarrow> minted), sc_owner = own, sc_grant = g\<rparr>"

definition scope_grant_more :: "scope \<Rightarrow> budget_grant \<Rightarrow> unit knl_result \<times> scope" where
  "scope_grant_more sc g =
     (case check_amount (amount g) of
        Err e \<Rightarrow> (Err e, sc)
      | Ok _ \<Rightarrow> (Ok (), sc\<lparr>sc_grant := Some g\<rparr>))"

section \<open>How one entry moves the balance\<close>

lemma ledger_amount_nonneg [simp]: "0 \<le> ledger_amount e"
  by (simp add: ledger_amount_def)

lemma check_amount_Ok [simp]: "check_amount n = Ok u \<longleftrightarrow> 0 \<le> n"
  by (auto simp: check_amount_def)

lemma fold_balance_Nil [simp]: "fold_balance [] = None"
  by (simp add: fold_balance_def)

lemma fold_balance_snoc [simp]: "fold_balance (es @ [e]) = ledger_step (fold_balance es) e"
  by (simp add: fold_balance_def)

lemma fold_balance_append: "fold_balance (es @ fs) = foldl ledger_step (fold_balance es) fs"
  by (simp add: fold_balance_def)

lemma ledger_step_other [ledger_simps]:
  "cur_kind e \<notin> {KIND_BUDGET_GRANTED, KIND_BUDGET_RESERVED, KIND_BUDGET_SPENT} \<Longrightarrow> ledger_step b e = b"
  by (simp add: ledger_step_def Let_def)

lemma ledger_step_granted [ledger_simps]:
  "cur_kind e = KIND_BUDGET_GRANTED \<Longrightarrow>
     ledger_step b e = Some (i64_saturating_add (case b of None \<Rightarrow> 0 | Some b \<Rightarrow> b) (ledger_amount e))"
  by (simp add: ledger_step_def Let_def)

lemma ledger_step_moved [ledger_simps]:
  "cur_kind e = KIND_BUDGET_RESERVED \<or> cur_kind e = KIND_BUDGET_SPENT \<Longrightarrow>
     ledger_step b e = map_option (\<lambda>b. max 0 (i64_saturating_sub b (ledger_amount e))) b"
  by (auto simp: ledger_step_def Let_def)

definition balance_ok :: "int option \<Rightarrow> bool" where
  "balance_ok b = (case b of None \<Rightarrow> True | Some n \<Rightarrow> 0 \<le> n \<and> n \<le> i64_max)"

lemma saturating_in_range:
  "0 \<le> a \<Longrightarrow> 0 \<le> b \<Longrightarrow> 0 \<le> i64_saturating_add a b \<and> i64_saturating_add a b \<le> i64_max
     \<and> i64_saturating_add a b \<le> a + b"
  "0 \<le> a \<Longrightarrow> a \<le> i64_max \<Longrightarrow> 0 \<le> b \<Longrightarrow> max 0 (i64_saturating_sub a b) = max 0 (a - b)"
  "i64_saturating_sub a b \<le> i64_max"
  using i64_bounds by (auto simp: i64_saturating_add_def i64_saturating_sub_def i64_sat_def)

lemma balance_ok_step: "balance_ok b \<Longrightarrow> balance_ok (ledger_step b e)"
  using saturating_in_range(1) [of _ "ledger_amount e"] saturating_in_range(3) i64_bounds
  by (auto simp: balance_ok_def ledger_step_def Let_def split: option.splits)

lemma balance_ok_fold: "balance_ok (fold_balance es)"
  by (induction es rule: rev_induct) (simp_all add: balance_ok_step, simp add: balance_ok_def)

lemma fold_balance_range: "fold_balance es = Some b \<Longrightarrow> 0 \<le> b \<and> b \<le> i64_max"
  using balance_ok_fold [of es] by (simp add: balance_ok_def)

text \<open>The moves without saturation: the floor is the only thing left of it.\<close>

lemma fold_balance_moved:
  assumes "cur_kind e = KIND_BUDGET_RESERVED \<or> cur_kind e = KIND_BUDGET_SPENT"
  shows "fold_balance (es @ [e]) = map_option (\<lambda>b. max 0 (b - ledger_amount e)) (fold_balance es)"
  using fold_balance_range [of es] saturating_in_range(2)
  by (cases "fold_balance es") (simp_all add: ledger_step_moved [OF assms])

lemma is_granted_find:
  "last_grant es = None \<longleftrightarrow> (\<forall>e \<in> set es. cur_kind e \<noteq> KIND_BUDGET_GRANTED)"
  by (auto simp: last_grant_def find_None_iff)

lemma fold_balance_None_iff:
  "fold_balance es = None \<longleftrightarrow> (\<forall>e \<in> set es. cur_kind e \<noteq> KIND_BUDGET_GRANTED)"
  by (induction es rule: rev_induct) (auto simp: ledger_step_def Let_def)

lemma last_grant_iff_balance: "last_grant es = None \<longleftrightarrow> fold_balance es = None"
  by (simp add: is_granted_find fold_balance_None_iff)

lemma fold_balance_filter:
  assumes "{KIND_BUDGET_GRANTED, KIND_BUDGET_RESERVED, KIND_BUDGET_SPENT} \<subseteq> set kinds"
  shows "fold_balance (filter (\<lambda>e. cur_kind e \<in> set kinds) es) = fold_balance es"
proof (induction es rule: rev_induct)
  case (snoc e es)
  show ?case
  proof (cases "cur_kind e \<in> set kinds")
    case False
    with assms have "ledger_step (fold_balance es) e = fold_balance es"
      by (intro ledger_step_other) auto
    with snoc False show ?thesis by simp
  qed (simp add: snoc)
qed simp

lemma last_grant_filter:
  "KIND_BUDGET_GRANTED \<in> set kinds \<Longrightarrow>
     last_grant (filter (\<lambda>e. cur_kind e \<in> set kinds) es) = last_grant es"
proof (induction es rule: rev_induct)
  case (snoc e es)
  then show ?case by (auto simp: last_grant_def)
qed simp

section \<open>Reservations and what was granted\<close>

text \<open>
  \<open>covered\<close>: every reservation of the log was within the balance at its own position (one with
  no grant before it is not measured). \<open>granted_total\<close> and \<open>reserved_total\<close> are the two
  sides of the account.
\<close>

definition reservation_covered :: "int option \<Rightarrow> current \<Rightarrow> bool" where
  "reservation_covered balance e =
     (cur_kind e = KIND_BUDGET_RESERVED \<longrightarrow>
        (case balance of None \<Rightarrow> True | Some b \<Rightarrow> ledger_amount e \<le> b))"

definition covered :: "current list \<Rightarrow> bool" where
  "covered es =
     list_all (\<lambda>i. reservation_covered (fold_balance (take i es)) (es ! i)) [0..<length es]"

definition granted_total :: "current list \<Rightarrow> int" where
  "granted_total es = sum_list (map ledger_amount (filter (\<lambda>e. cur_kind e = KIND_BUDGET_GRANTED) es))"

definition measured_amount :: "int option \<Rightarrow> current \<Rightarrow> int" where
  "measured_amount balance e =
     (if cur_kind e = KIND_BUDGET_RESERVED \<and> balance \<noteq> None then ledger_amount e else 0)"

definition reserved_total :: "current list \<Rightarrow> int" where
  "reserved_total es =
     sum_list (map (\<lambda>i. measured_amount (fold_balance (take i es)) (es ! i)) [0..<length es])"

lemma covered_Nil [simp]: "covered []"
  by (simp add: covered_def)

lemma covered_snoc [simp]:
  "covered (es @ [e]) \<longleftrightarrow> covered es \<and> reservation_covered (fold_balance es) e"
  by (auto simp: covered_def list_all_iff nth_append)

lemma granted_total_snoc [simp]:
  "granted_total (es @ [e]) =
     granted_total es + (if cur_kind e = KIND_BUDGET_GRANTED then ledger_amount e else 0)"
  by (simp add: granted_total_def)

lemma reserved_total_snoc [simp]:
  "reserved_total (es @ [e]) = reserved_total es + measured_amount (fold_balance es) e"
proof -
  have "map (\<lambda>i. measured_amount (fold_balance (take i (es @ [e]))) ((es @ [e]) ! i)) [0..<length es]
      = map (\<lambda>i. measured_amount (fold_balance (take i es)) (es ! i)) [0..<length es]"
    by (simp add: nth_append)
  then show ?thesis by (simp only: reserved_total_def length_append_singleton upt_Suc_append map_append
      sum_list_append) simp
qed

lemma covered_account:
  "covered es \<Longrightarrow>
     reserved_total es + (case fold_balance es of None \<Rightarrow> 0 | Some b \<Rightarrow> b) \<le> granted_total es"
proof (induction es rule: rev_induct)
  case (snoc e es)
  let ?b = "case fold_balance es of None \<Rightarrow> 0 | Some b \<Rightarrow> b"
  have IH: "reserved_total es + ?b \<le> granted_total es" and cov: "reservation_covered (fold_balance es) e"
    using snoc by simp_all
  have nn: "0 \<le> ?b" using fold_balance_range [of es] by (cases "fold_balance es") simp_all
  consider (grant) "cur_kind e = KIND_BUDGET_GRANTED" | (reserve) "cur_kind e = KIND_BUDGET_RESERVED"
    | (spent) "cur_kind e = KIND_BUDGET_SPENT"
    | (other) "cur_kind e \<notin> {KIND_BUDGET_GRANTED, KIND_BUDGET_RESERVED, KIND_BUDGET_SPENT}"
    by auto
  then show ?case
  proof cases
    case grant
    then show ?thesis
      using IH saturating_in_range(1) [OF nn, of "ledger_amount e"]
      by (simp add: ledger_step_granted measured_amount_def)
  next
    case reserve
    then show ?thesis
      using IH cov fold_balance_moved [of e es]
      by (cases "fold_balance es") (simp_all add: measured_amount_def reservation_covered_def)
  next
    case spent
    then show ?thesis
      using IH nn fold_balance_moved [of e es]
      by (cases "fold_balance es")
         (simp_all add: measured_amount_def max_def, insert ledger_amount_nonneg [of e], linarith)
  next
    case other
    then show ?thesis using IH by (simp add: ledger_step_other measured_amount_def)
  qed
qed (simp add: granted_total_def reserved_total_def)

section \<open>Properties\<close>

text \<open>
  Folding only the \<open>budget_*\<close> events of a log gives the balance of the whole log, and the
  words of the last grant too: a reserve that reads the ledger decides as one that reads
  everything would.
\<close>

theorem ledger_fold_exact:
  "fold_balance (filter (\<lambda>e. cur_kind e \<in> set BUDGET_KINDS) es) = fold_balance es
   \<and> last_grant (filter (\<lambda>e. cur_kind e \<in> set BUDGET_KINDS) es) = last_grant es"
  by (intro conjI fold_balance_filter last_grant_filter) (simp_all add: BUDGET_KINDS_def)

text \<open>
  The balance exists exactly when the log holds a grant, and then it is between zero and the
  largest \<open>i64\<close> whatever the amounts in the log are.
\<close>

theorem balance_range:
  "case fold_balance es of
     None \<Rightarrow> last_grant es = None \<and> list_all (\<lambda>e. cur_kind e \<noteq> KIND_BUDGET_GRANTED) es
   | Some b \<Rightarrow> last_grant es \<noteq> None \<and> 0 \<le> b \<and> b \<le> i64_max"
  using last_grant_iff_balance [of es] fold_balance_None_iff [of es] fold_balance_range [of es]
  by (auto simp: list_all_iff split: option.splits)

end
