(* ===== verification/Session_Events.thy ===== *)
theory Session_Events
  imports Budget Event_Store
begin

text \<open>
  The events a session writes, \<open>knl/session.rs\<close>: one builder per record, each under
  \<open>kernel_event\<close>. The lemmas read the fields back, and every builder's event passes the
  validator, so a session is never refused its own record.
\<close>

section \<open>Constants\<close>

definition DEFAULT_CLOSE_REASON :: string where "DEFAULT_CLOSE_REASON = ''closed''"
definition CLOSE_REASON_SCOPE_EXIT :: string where "CLOSE_REASON_SCOPE_EXIT = ''scope_exit''"
definition CLOSE_REASON_ERROR :: string where "CLOSE_REASON_ERROR = ''error''"
definition CLOSE_REASON_DROPPED :: string where "CLOSE_REASON_DROPPED = ''dropped''"
definition CLOSED_TEXT :: string where "CLOSED_TEXT = ''session is closed''"
definition ANON :: string where "ANON = ''anon''"
definition SYSTEM :: string where "SYSTEM = ''system''"

definition ALLOCATION_KINDS :: "string list" where
  "ALLOCATION_KINDS =
     [KIND_BUDGET_GRANTED, KIND_BUDGET_RESERVED, KIND_BUDGET_REFUSED, KIND_BUDGET_SPENT,
      KIND_SESSION_CLOSED]"

definition kernel_only_hint :: "string \<Rightarrow> string" where
  "kernel_only_hint kind =
     (if kind = KIND_SESSION_OPENED then ''a session records its own opening''
      else if kind = KIND_SESSION_CLOSED then ''use close''
      else ''use reserve / spend'')"

definition session_child_scan :: child_scan where
  "session_child_scan =
     \<lparr>cs_opened = KIND_SESSION_OPENED, cs_closed = KIND_SESSION_CLOSED, cs_parent_field = FIELD_PARENT\<rparr>"

section \<open>Builders\<close>

text \<open>\<open>if let Some(x) = v { data.insert(key, x) }\<close>.\<close>

definition insert_opt :: "string \<Rightarrow> string option \<Rightarrow> json_map \<Rightarrow> json_map" where
  "insert_opt k v m = (case v of None \<Rightarrow> m | Some s \<Rightarrow> map_insert k (JString s) m)"

definition granted_event :: "budget_grant \<Rightarrow> string \<Rightarrow> event" where
  "granted_event g sid =
     kernel_event KIND_BUDGET_GRANTED
       (insert_opt FIELD_DESC (desc g) (insert_opt FIELD_TAG (tag g)
         (map_insert FIELD_AMOUNT (json_of_i64 (amount g))
           (map_insert FIELD_SCOPE_ID (JString sid) []))))"

definition budget_move_data :: "int \<Rightarrow> string option \<Rightarrow> string \<Rightarrow> json_map" where
  "budget_move_data n t sid =
     insert_opt FIELD_TAG t
       (map_insert FIELD_AMOUNT (json_of_i64 n) (map_insert FIELD_SCOPE_ID (JString sid) []))"

definition budget_move_event :: "string \<Rightarrow> int \<Rightarrow> string option \<Rightarrow> string \<Rightarrow> event" where
  "budget_move_event kind n t sid = kernel_event kind (budget_move_data n t sid)"

definition refused_event :: "int \<Rightarrow> int \<Rightarrow> string option \<Rightarrow> string \<Rightarrow> event" where
  "refused_event n left t sid =
     kernel_event KIND_BUDGET_REFUSED
       (map_insert FIELD_REMAINING (json_of_i64 left) (budget_move_data n t sid))"

definition allocated_event :: "int \<Rightarrow> string option \<Rightarrow> string \<Rightarrow> string \<Rightarrow> event" where
  "allocated_event n t sid child =
     kernel_event KIND_BUDGET_RESERVED
       (map_insert FIELD_CHILD (JString child) (budget_move_data n t sid))"

definition allocation_refused_event :: "int \<Rightarrow> int \<Rightarrow> string option \<Rightarrow> string \<Rightarrow> string \<Rightarrow> event" where
  "allocation_refused_event n left t sid child =
     (let event = refused_event n left t sid in
      case map_get event FIELD_DATA of
        Some (JObject data) \<Rightarrow>
          map_insert FIELD_DATA (JObject (map_insert FIELD_CHILD (JString child) data)) event
      | _ \<Rightarrow> event)"

definition with_meta :: "event \<Rightarrow> json_map option \<Rightarrow> event" where
  "with_meta event meta =
     (case meta of
        None \<Rightarrow> event
      | Some m \<Rightarrow> if m = [] then event else map_insert FIELD_META (JObject m) event)"

definition opened_event :: "string \<Rightarrow> string \<Rightarrow> json_map option \<Rightarrow> event" where
  "opened_event own_id sid meta =
     with_meta (kernel_event KIND_SESSION_OPENED
       (map_insert FIELD_SCOPE_ID (JString sid) (map_insert FIELD_OWNER (JString own_id) []))) meta"

definition child_opened_event :: "string \<Rightarrow> string \<Rightarrow> string \<Rightarrow> json_map option \<Rightarrow> event" where
  "child_opened_event own_id sid parent meta =
     with_meta (kernel_event KIND_SESSION_OPENED
       (map_insert FIELD_PARENT (JString parent)
         (map_insert FIELD_SCOPE_ID (JString sid) (map_insert FIELD_OWNER (JString own_id) [])))) meta"

definition child_granted_event :: "int \<Rightarrow> string option \<Rightarrow> string \<Rightarrow> string \<Rightarrow> event" where
  "child_granted_event n t sid parent =
     kernel_event KIND_BUDGET_GRANTED
       (map_insert FIELD_PARENT (JString parent) (budget_move_data n t sid))"

definition closing_event :: "string option \<Rightarrow> string option \<Rightarrow> string list \<Rightarrow> event" where
  "closing_event why detail children =
     (let data = insert_opt FIELD_DETAIL detail
           (map_insert FIELD_REASON (JString (case why of None \<Rightarrow> DEFAULT_CLOSE_REASON | Some r \<Rightarrow> r)) []) in
      kernel_event KIND_SESSION_CLOSED
        (if children = [] then data
         else map_insert FIELD_OPEN_CHILDREN (JArray (map JString children)) data))"

section \<open>Reading the builders back\<close>

lemmas builder_defs =
  granted_event_def budget_move_event_def budget_move_data_def refused_event_def allocated_event_def
  allocation_refused_event_def opened_event_def child_opened_event_def child_granted_event_def
  closing_event_def

lemma insert_opt_get [simp]:
  "map_get (insert_opt k v m) k' =
     (if k' = k \<and> v \<noteq> None then map_option JString v else map_get m k')"
  by (auto simp: insert_opt_def split: option.splits)

lemma cur_kind_kernel_event [simp]: "cur_kind (kernel_event kind data) = kind"
  by (simp add: cur_kind_def)

lemma with_meta_get [simp]: "k \<noteq> FIELD_META \<Longrightarrow> map_get (with_meta e meta) k = map_get e k"
  by (simp add: with_meta_def split: option.splits)

lemma with_meta_reads [simp]:
  "cur_kind (with_meta e meta) = cur_kind e"
  "data_field (with_meta e meta) = data_field e"
  by (simp_all add: cur_kind_def data_field_def fun_eq_iff)

lemma allocation_refused_event_eq:
  "allocation_refused_event n left t sid child =
     map_insert FIELD_DATA (JObject (map_insert FIELD_CHILD (JString child)
       (map_insert FIELD_REMAINING (json_of_i64 left) (budget_move_data n t sid))))
       (refused_event n left t sid)"
  by (simp add: allocation_refused_event_def refused_event_def)

lemma builder_kinds [simp, envelope_simps]:
  "cur_kind (granted_event g sid) = KIND_BUDGET_GRANTED"
  "cur_kind (budget_move_event kind n t sid) = kind"
  "cur_kind (refused_event n left t sid) = KIND_BUDGET_REFUSED"
  "cur_kind (allocated_event n t sid child) = KIND_BUDGET_RESERVED"
  "cur_kind (allocation_refused_event n left t sid child) = KIND_BUDGET_REFUSED"
  "cur_kind (opened_event own_id sid meta) = KIND_SESSION_OPENED"
  "cur_kind (child_opened_event own_id sid parent meta) = KIND_SESSION_OPENED"
  "cur_kind (child_granted_event n t sid parent) = KIND_BUDGET_GRANTED"
  "cur_kind (closing_event why detail children) = KIND_SESSION_CLOSED"
proof -
  show "cur_kind (allocation_refused_event n left t sid child) = KIND_BUDGET_REFUSED"
    by (simp add: allocation_refused_event_eq cur_kind_def refused_event_def)
qed (simp_all add: builder_defs Let_def)

lemma builder_amounts [simp, envelope_simps]:
  "data_field (granted_event g sid) FIELD_AMOUNT = Some (json_of_i64 (amount g))"
  "data_field (budget_move_event kind n t sid) FIELD_AMOUNT = Some (json_of_i64 n)"
  "data_field (allocated_event n t sid child) FIELD_AMOUNT = Some (json_of_i64 n)"
  "data_field (child_granted_event n t sid parent) FIELD_AMOUNT = Some (json_of_i64 n)"
  by (simp_all add: builder_defs)

lemma is_whole_number_i64 [simp]: "is_whole_number (json_of_i64 n)"
  by (simp add: json_of_i64_def)

lemma whole_i64 [simp]: "is_i64 n \<Longrightarrow> whole (json_of_i64 n) = n"
  by (simp add: whole_def)

lemma ledger_amount_of:
  "is_i64 n \<Longrightarrow> data_field e FIELD_AMOUNT = Some (json_of_i64 n) \<Longrightarrow> ledger_amount e = max 0 n"
  by (simp add: ledger_amount_def)

lemma ledger_amount_recorded [simp]: "ledger_amount (recorded e seq ms) = ledger_amount e"
  by (simp add: ledger_amount_def)

lemma ledger_step_recorded [simp]: "ledger_step b (recorded e seq ms) = ledger_step b e"
  by (simp add: ledger_step_def Let_def)

lemma reservation_covered_recorded [simp]:
  "reservation_covered b (recorded e seq ms) = reservation_covered b e"
  by (simp add: reservation_covered_def split: option.split)

text \<open>The labels of an opening are the caller's, so they are the one part that can be refused.\<close>

definition meta_ok :: "json_map option \<Rightarrow> bool" where
  "meta_ok meta = (case meta of None \<Rightarrow> True | Some m \<Rightarrow> list_all (is_meta_scalar \<circ> snd) m)"

lemma well_formed_with_meta:
  assumes "well_formed (kernel_event kind data)"
  shows "well_formed (with_meta (kernel_event kind data) meta) \<longleftrightarrow> meta_ok meta"
proof (cases "meta = None \<or> meta = Some []")
  case True
  with assms show ?thesis by (auto simp: with_meta_def meta_ok_def)
next
  case False
  then obtain m where m: "meta = Some m" "m \<noteq> []" by (cases meta) auto
  let ?e = "map_insert FIELD_META (JObject m) (kernel_event kind data)"
  have e: "with_meta (kernel_event kind data) meta = ?e" using m by (simp add: with_meta_def)
  have shallow: "meta_is_shallow ?e \<longleftrightarrow> meta_ok meta" by (simp add: meta_is_shallow_def meta_ok_def m)
  show ?thesis
  proof
    assume "meta_ok meta"
    with assms show "well_formed (with_meta (kernel_event kind data) meta)"
      unfolding e by (intro well_formed_transfer [OF assms])
        (auto simp: shallow data_field_def fun_eq_iff data_is_object_def well_formed_iff ENVELOPE_FIELDS_def)
  qed (simp add: e well_formed_iff shallow)
qed

section \<open>Properties\<close>

lemmas required_tables =
  required_data_def SESSION_OPENED_DATA_def SESSION_CLOSED_DATA_def BUDGET_GRANTED_DATA_def
  BUDGET_MOVE_DATA_def BUDGET_REFUSED_DATA_def

lemma kernel_builders_valid:
  "well_formed (granted_event g sid)"
  "well_formed (budget_move_event KIND_BUDGET_RESERVED n t sid)"
  "well_formed (budget_move_event KIND_BUDGET_SPENT n t sid)"
  "well_formed (refused_event n left t sid)"
  "well_formed (allocated_event n t sid child)"
  "well_formed (allocation_refused_event n left t sid child)"
  "well_formed (child_granted_event n t sid parent)"
  "well_formed (closing_event why detail children)"
proof -
  show "well_formed (allocation_refused_event n left t sid child)"
  proof -
    have "allocation_refused_event n left t sid child =
        kernel_event KIND_BUDGET_REFUSED (map_insert FIELD_CHILD (JString child)
          (map_insert FIELD_REMAINING (json_of_i64 left) (budget_move_data n t sid)))"
      by (simp add: allocation_refused_event_eq refused_event_def kernel_event_def map_insert.simps)
    then show ?thesis
      by (simp only:) (rule well_formed_kernel_event, simp add: required_tables, simp add: budget_move_data_def)
  qed
qed (unfold builder_defs Let_def,
     (rule well_formed_kernel_event, simp add: required_tables, simp)+)

lemma opening_builders_valid:
  "well_formed (opened_event own_id sid meta) \<longleftrightarrow> meta_ok meta"
  "well_formed (child_opened_event own_id sid parent meta) \<longleftrightarrow> meta_ok meta"
  unfolding opened_event_def child_opened_event_def
  by (rule well_formed_with_meta, rule well_formed_kernel_event, simp add: required_tables,
      simp)+

text \<open>
  C40: every event the kernel builds for itself passes the validator; an opening does exactly when
  the caller's labels are scalars, the one part of it the kernel does not choose.
\<close>

theorem kernel_events_validate:
  "list_all (\<lambda>e. validate_event e = Ok ())
     [granted_event g sid, budget_move_event KIND_BUDGET_RESERVED n t sid,
      budget_move_event KIND_BUDGET_SPENT n t sid, refused_event n left t sid,
      allocated_event n t sid child, allocation_refused_event n left t sid child,
      child_granted_event n t sid parent, closing_event why detail children]
   \<and> (validate_event (opened_event own_id sid meta) = Ok () \<longleftrightarrow> meta_ok meta)
   \<and> (validate_event (child_opened_event own_id sid parent meta) = Ok () \<longleftrightarrow> meta_ok meta)"
  by (simp add: validate_iff_well_formed kernel_builders_valid opening_builders_valid)

end
