(* ===== verification/History.thy ===== *)
theory History
  imports Upcast
begin

text \<open>
  The in-memory append-only history, \<open>knl/history.rs\<close>, and the one named projection of the
  kernel, the tail, \<open>knl/projection.rs\<close>. \<open>partition_point\<close> of a slice is the length of the
  longest prefix on which the predicate holds, which is what the standard library's binary
  search returns on a slice the predicate partitions; the invariant below says it does. The
  wall clock is an argument.
\<close>

section \<open>The history\<close>

definition FIRST_SEQ :: nat where
  "FIRST_SEQ = 1"

record history =
  hist_events :: "json list"
  hist_next_seq :: nat

definition history_new :: history where
  "history_new = \<lparr>hist_events = [], hist_next_seq = FIRST_SEQ\<rparr>"

definition history_append :: "nat \<Rightarrow> event \<Rightarrow> history \<Rightarrow> nat knl_result \<times> history" where
  "history_append now_ms obj h =
     (case validate_event obj of
        Err e \<Rightarrow> (Err e, h)
      | Ok _ \<Rightarrow>
          let seq = hist_next_seq h in
          (Ok seq,
           h\<lparr>hist_events := hist_events h @ [JObject (stamp obj seq now_ms)],
             hist_next_seq := u64_saturating_add seq 1\<rparr>))"

definition history_len :: "history \<Rightarrow> nat" where
  "history_len h = length (hist_events h)"

definition partition_point :: "('a \<Rightarrow> bool) \<Rightarrow> 'a list \<Rightarrow> nat" where
  "partition_point P xs = length (takeWhile P xs)"

definition history_since :: "history \<Rightarrow> nat \<Rightarrow> json list" where
  "history_since h from =
     drop (partition_point (\<lambda>e. seq_of e < from) (hist_events h)) (hist_events h)"

definition history_slice_after :: "history \<Rightarrow> nat \<Rightarrow> json list" where
  "history_slice_after h seq =
     drop (partition_point (\<lambda>e. seq_of e \<le> seq) (hist_events h)) (hist_events h)"

definition history_tail :: "history \<Rightarrow> nat \<Rightarrow> json list" where
  "history_tail h n = drop (length (hist_events h) - n) (hist_events h)"

section \<open>The tail projection\<close>

definition VIEW_TAIL :: string where "VIEW_TAIL = ''tail''"
definition OPT_N :: string where "OPT_N = ''n''"

definition DEFAULT_TAIL_N :: nat where
  "DEFAULT_TAIL_N = 20"

definition tail_of :: "current list \<Rightarrow> nat \<Rightarrow> json" where
  "tail_of events n = JArray (map JObject (drop (length events - n) events))"

definition tail_count :: "json_map option \<Rightarrow> nat knl_result" where
  "tail_count opts =
     (case Option.bind opts (\<lambda>m. map_get m OPT_N) of
        None \<Rightarrow> Ok DEFAULT_TAIL_N
      | Some v \<Rightarrow>
          if is_null v then Ok DEFAULT_TAIL_N
          else (case as_f64 v of
              Some n \<Rightarrow>
                if f64_nonneg n \<and> f64_fract_is_zero n then Ok (usize_of_int (f64_trunc n))
                else Err (Validation (fmt [''n must be a non-negative whole number, got '', json_type_name v]))
            | None \<Rightarrow>
                Err (Validation (fmt [''n must be a non-negative whole number, got '', json_type_name v]))))"

section \<open>The invariant\<close>

text \<open>
  Every entry is an object, entry number \<open>i\<close> (from 0) carries seq \<open>i + 1\<close>, and the counter is
  one past the last. At the end of \<open>u64\<close> the counter saturates, so both are cut there.
\<close>

definition nth_seq :: "nat \<Rightarrow> nat" where
  "nth_seq i = min u64_max (i + 1)"

definition history_ok :: "history \<Rightarrow> bool" where
  "history_ok h =
     (list_all (\<lambda>i. as_object (hist_events h ! i) \<noteq> None \<and> seq_of (hist_events h ! i) = nth_seq i)
        [0..<length (hist_events h)]
      \<and> hist_next_seq h = nth_seq (length (hist_events h)))"

lemma history_ok_new: "history_ok history_new"
  by (simp add: history_ok_def history_new_def nth_seq_def FIRST_SEQ_def u64_max_def)

lemma cur_seq_stamp [simp]: "cur_seq (stamp obj seq ms) = seq"
  by (simp add: cur_seq_def)

lemma history_ok_append:
  assumes "history_ok h"
  shows "history_ok (snd (history_append ms obj h))"
proof (cases "validate_event obj")
  case (Inr u)
  from assms show ?thesis
    by (auto simp: history_append_def Inr history_ok_def list_all_iff nth_append less_Suc_eq
        nth_seq_def u64_saturating_add_def Let_def)
qed (use assms in \<open>simp add: history_append_def\<close>)

lemma history_sorted:
  assumes "history_ok h" shows "sorted (map seq_of (hist_events h))"
  unfolding sorted_iff_nth_mono
proof (intro allI impI)
  fix i j
  assume "i \<le> j" and j: "j < length (map seq_of (hist_events h))"
  with assms show "map seq_of (hist_events h) ! i \<le> map seq_of (hist_events h) ! j"
    by (auto simp: history_ok_def list_all_iff nth_seq_def min_def)
qed

lemma history_reads:
  assumes "history_ok h"
  shows "history_since h from = filter (\<lambda>e. from \<le> seq_of e) (hist_events h)"
    and "history_slice_after h seq = filter (\<lambda>e. seq < seq_of e) (hist_events h)"
proof -
  note cut = takeWhile_length_partition [OF history_sorted [OF assms]]
  show "history_since h from = filter (\<lambda>e. from \<le> seq_of e) (hist_events h)"
    by (simp add: history_since_def partition_point_def cut)
  show "history_slice_after h seq = filter (\<lambda>e. seq < seq_of e) (hist_events h)"
    using cut [of "Suc seq"]
    by (simp add: history_slice_after_def partition_point_def less_Suc_eq_le Suc_le_eq)
qed

section \<open>Properties\<close>

text \<open>Histories as a session builds them: appends, from the empty one.\<close>

inductive built :: "history \<Rightarrow> bool" where
  built_new: "built history_new"
| built_append: "built h \<Longrightarrow> built (snd (history_append ms obj h))"

lemma built_ok: "built h \<Longrightarrow> history_ok h"
  by (induction rule: built.induct) (simp_all add: history_ok_new history_ok_append)

text \<open>
  In every history built by appends, sequence numbers start at 1 and have no gap, a valid
  event lands at the end under the next number, and a rejected one leaves no trace and uses no
  number.
\<close>

theorem history_gap_free:
  assumes "built h"
  shows "map seq_of (hist_events h) = map nth_seq [0..<history_len h]
    \<and> (case history_append ms obj h of
         (Ok seq, h') \<Rightarrow> well_formed obj \<and> seq = nth_seq (history_len h)
           \<and> hist_events h' = hist_events h @ [JObject (stamp obj seq ms)]
       | (Err e, h') \<Rightarrow> \<not> well_formed obj \<and> error_kind e = VALIDATION \<and> h' = h)"
proof -
  have ok: "history_ok h" using assms by (rule built_ok)
  then have "map seq_of (hist_events h) = map nth_seq [0..<history_len h]"
    by (intro nth_equalityI) (simp_all add: history_ok_def history_len_def list_all_iff)
  moreover have "validate_event obj = Err e \<Longrightarrow> \<not> well_formed obj" for e
    using validate_iff_well_formed [of obj "()"] by simp
  ultimately show ?thesis
    using ok validate_class [of obj] validate_iff_well_formed [of obj]
    by (simp add: history_append_def history_ok_def history_len_def Let_def split: sum.splits)
qed

theorem history_gap_free_witness:
  "map seq_of (hist_events (snd (history_append 5 (kernel_event ''note'' []) history_new))) = [1]"
proof -
  let ?h = "snd (history_append 5 (kernel_event ''note'' []) history_new)"
  have "built ?h" by (intro built_new built_append)
  moreover have "validate_event (kernel_event ''note'' []) = Ok ()" by code_simp
  then have "history_len ?h = 1"
    by (simp add: history_append_def history_len_def history_new_def Let_def)
  ultimately show ?thesis
    using history_gap_free [of ?h] by (simp add: nth_seq_def u64_max_def)
qed

text \<open>
  The reads of a built history are what their names say, although they cut at a binary
  search: from a number on, after a number, and the last \<open>n\<close> in order.
\<close>

theorem history_reads_correct:
  assumes "built h"
  shows "history_since h from = filter (\<lambda>e. from \<le> seq_of e) (hist_events h)
    \<and> history_slice_after h seq = filter (\<lambda>e. seq < seq_of e) (hist_events h)
    \<and> history_tail h n = rev (take n (rev (hist_events h)))"
  using history_reads [OF built_ok [OF assms]] by (simp add: history_tail_def last_drop_take)

theorem history_reads_correct_witness: "history_since history_new 1 = []"
  using history_reads_correct [OF built_new, of 1] by (simp add: history_new_def)

end
