(* ===== verification/Session.thy ===== *)
theory Session
  imports Session_Events History
begin

text \<open>
  One session handle and its operations, \<open>knl/session.rs\<close>. An operation takes the handle and
  the world and returns its answer, the handle and the world. Every \<open>.await\<close> on the store is a
  point where other handles may run: an operation with more than one takes the interference as
  an argument \<open>env\<close>, \<open>env k\<close> being what happens before its store call number \<open>k\<close>
  (the first is number 0 and happens at once). Minted ids (\<open>uuid::Uuid::new_v4\<close>) are arguments.
\<close>

section \<open>The handle\<close>

record 'w session =
  s_id :: string
  s_scope :: scope
  s_store :: "'w current_store"
  s_balance :: "nat \<times> int option"
  s_closed :: bool

type_synonym 'w interference = "nat \<Rightarrow> 'w \<Rightarrow> 'w"

definition has_ended :: "'w current_store \<Rightarrow> 'w \<Rightarrow> bool knl_result \<times> 'w" where
  "has_ended st w =
     (case cur_read_kinds st (Some [KIND_SESSION_CLOSED]) 0 (Some 1) w of
        (r, w') \<Rightarrow> (result_map (\<lambda>ending. ending \<noteq> []) r, w'))"

section \<open>Opening\<close>

definition session_open_on ::
  "(json \<Rightarrow> string) \<Rightarrow> string \<Rightarrow> string \<Rightarrow> string \<Rightarrow> budget_grant option \<Rightarrow> json_map option \<Rightarrow> 'w event_store \<Rightarrow> 'w
     \<Rightarrow> 'w session knl_result \<times> 'w" where
  "session_open_on shw minted_id minted_scope own_id g meta store w =
     (let s = \<lparr>s_id = minted_id, s_scope = scope_new minted_scope own_id g,
               s_store = \<lparr>inner = store, chain = [], shown = shw\<rparr>,
               s_balance = (0, None), s_closed = False\<rparr>;
          started = opened_event (sc_owner (s_scope s)) (sc_id (s_scope s)) meta;
          opening = (case sc_grant (s_scope s) of
              None \<Rightarrow> [started]
            | Some gr \<Rightarrow> [started, granted_event gr (sc_id (s_scope s))]) in
      case cur_append_many (s_store s) opening w of
        (Err e, w') \<Rightarrow> (Err e, w')
      | (Ok _, w') \<Rightarrow> (Ok s, w'))"

section \<open>Budget grants on an open handle\<close>

definition grant_decision :: "budget_grant \<Rightarrow> string \<Rightarrow> current_decision" where
  "grant_decision g sid events c =
     (case last_grant events of None \<Rightarrow> (None, c) | Some _ \<Rightarrow> (Some (granted_event g sid), c))"

definition session_grant_on_resume ::
  "budget_grant \<Rightarrow> 'w session \<Rightarrow> 'w \<Rightarrow> unit knl_result \<times> 'w session \<times> 'w" where
  "session_grant_on_resume g s w =
     (case check_amount (amount g) of
        Err e \<Rightarrow> (Err e, s, w)
      | Ok _ \<Rightarrow>
          (case cur_append_if (s_store s) (Some BUDGET_KINDS) (grant_decision g (sc_id (s_scope s))) cells_new w of
             (Err e, _, w') \<Rightarrow> (Err e, s, w')
           | (Ok None, _, w') \<Rightarrow>
               (Err (Validation (fmt [
                  ''this stream opened with no budget, and a resume does not give one: a session'',
                  [CHR 0x27], ''s quota is settled when it opens (open a new session with the grant, '',
                  ''or resume without one)''])), s, w')
           | (Ok (Some _), _, w') \<Rightarrow>
               (case scope_grant_more (s_scope s) g of (r, sc) \<Rightarrow> (r, s\<lparr>s_scope := sc\<rparr>, w'))))"

definition session_append_kernel :: "event \<Rightarrow> 'w session \<Rightarrow> 'w \<Rightarrow> nat knl_result \<times> 'w" where
  "session_append_kernel event s w =
     (if s_closed s then (Err (Closed CLOSED_TEXT), w)
      else (case cur_append (s_store s) event w of (r, w') \<Rightarrow> (result_map c_seq r, w')))"

definition session_grant_more ::
  "budget_grant \<Rightarrow> 'w session \<Rightarrow> 'w \<Rightarrow> unit knl_result \<times> 'w session \<times> 'w" where
  "session_grant_more g s w =
     (case session_append_kernel (granted_event g (sc_id (s_scope s))) s w of
        (Err e, w') \<Rightarrow> (Err e, s, w')
      | (Ok _, w') \<Rightarrow>
          (case scope_grant_more (s_scope s) g of (r, sc) \<Rightarrow> (r, s\<lparr>s_scope := sc\<rparr>, w')))"

section \<open>Resuming\<close>

text \<open>What a resume restores from the log it read.\<close>

definition restored ::
  "string \<Rightarrow> string \<Rightarrow> 'w current_store \<Rightarrow> current list \<Rightarrow> current \<Rightarrow> 'w session" where
  "restored minted_id minted_scope store log opened =
     \<lparr>s_id = minted_id,
      s_scope = scope_restore minted_scope (string_field opened FIELD_SCOPE_ID)
        (case string_field opened FIELD_OWNER of None \<Rightarrow> ANON | Some own_id \<Rightarrow> own_id) (last_grant log),
      s_store = store,
      s_balance = (if log = [] then 0 else cur_seq (last log), fold_balance log),
      s_closed = False\<rparr>"

definition session_resume_on ::
  "string \<Rightarrow> string \<Rightarrow> 'w interference \<Rightarrow> budget_grant option \<Rightarrow> 'w current_store \<Rightarrow> 'w
     \<Rightarrow> 'w session knl_result \<times> 'w" where
  "session_resume_on minted_id minted_scope env g store w =
     (case cur_read store 0 None w of
        (Err e, w1) \<Rightarrow> (Err e, w1)
      | (Ok log, w1) \<Rightarrow>
          (case List.find (\<lambda>e. cur_kind e = KIND_SESSION_OPENED) log of
             None \<Rightarrow> (Err (Validation ''stream has no session to resume (no session_opened event)''), w1)
           | Some opened \<Rightarrow>
               (case has_ended store (env 1 w1) of
                  (Err e, w2) \<Rightarrow> (Err e, w2)
                | (Ok True, w2) \<Rightarrow>
                    (Err (Closed (fmt [CLOSED_TEXT, '' (disposable; open a new session)''])), w2)
                | (Ok False, w2) \<Rightarrow>
                    (let s = restored minted_id minted_scope store log opened in
                     case g of
                       None \<Rightarrow> (Ok s, w2)
                     | Some gr \<Rightarrow>
                         (case session_grant_on_resume gr s (env 2 w2) of
                            (Err e, _, w3) \<Rightarrow> (Err e, w3)
                          | (Ok _, s', w3) \<Rightarrow> (Ok s', w3))))))"

definition session_resume ::
  "(json \<Rightarrow> string) \<Rightarrow> string \<Rightarrow> string \<Rightarrow> 'w interference \<Rightarrow> budget_grant option \<Rightarrow> 'w event_store \<Rightarrow> 'w
     \<Rightarrow> 'w session knl_result \<times> 'w" where
  "session_resume shw minted_id minted_scope env g store w =
     session_resume_on minted_id minted_scope env g \<lparr>inner = store, chain = [], shown = shw\<rparr> w"

definition session_adopt_id :: "string \<Rightarrow> 'w session \<Rightarrow> 'w session" where
  "session_adopt_id new_id s = s\<lparr>s_id := new_id\<rparr>"

section \<open>Allocation to a child\<close>

definition allocation_decision ::
  "int \<Rightarrow> string option \<Rightarrow> string option \<Rightarrow> string \<Rightarrow> string \<Rightarrow> string \<Rightarrow> string \<Rightarrow> string
     \<Rightarrow> json_map option \<Rightarrow> current_split_decision" where
  "allocation_decision n parent_tag child_tag parent_scope parent_id child_id own_id child_scope meta seen c =
     (if other seen \<noteq> [] then (None, c\<lparr>cell_occupied := True\<rparr>)
      else if list_ex (\<lambda>e. cur_kind e = KIND_SESSION_CLOSED) (own seen)
        then (None, c\<lparr>cell_ended := True\<rparr>)
      else
        (let allowed = \<lparr>own = [allocated_event n parent_tag parent_scope child_id],
               other = [child_opened_event own_id child_scope parent_id meta,
                        child_granted_event n child_tag child_scope parent_id]\<rparr> in
         case fold_balance (own seen) of
           None \<Rightarrow> (Some allowed, c)
         | Some balance \<Rightarrow>
             if balance < n
             then (Some (split_own [allocation_refused_event n balance parent_tag parent_scope child_id]),
                   c\<lparr>cell_refused := True, cell_measured := balance\<rparr>)
             else (Some allowed, c)))"

text \<open>What the caller is told once the transaction answered, and the resume of the new stream.\<close>

definition allocation_outcome ::
  "(json \<Rightarrow> string) \<Rightarrow> string \<Rightarrow> string \<Rightarrow> 'w interference \<Rightarrow> string \<Rightarrow> int \<Rightarrow> 'w event_store
     \<Rightarrow> committed split option \<Rightarrow> cells \<Rightarrow> 'w \<Rightarrow> 'w session knl_result \<times> 'w" where
  "allocation_outcome shw minted_id minted_scope env child_stream n child_store committed c w =
     (if cell_occupied c
      then (Err (Validation (fmt [''a child opens on a stream of its own, and '',
        debug_string child_stream, '' already has events on it: pass a stream nothing has '',
        ''been written to (nothing was written here, on either side)''])), w)
      else if committed = None \<or> cell_ended c
      then (Err (Closed (fmt [CLOSED_TEXT, '' (the parent'', [CHR 0x27],
        ''s log already carries its ending)''])), w)
      else if cell_refused c
      then (Err (Refused (fmt [''the parent'', [CHR 0x27], ''s balance is '',
        string_of_int (cell_measured c), '', which does not cover an allocation of '',
        string_of_int n, ''; the refusal is in the log and no child was opened''])), w)
      else
       (case session_resume shw minted_id minted_scope (\<lambda>k. env (k + 1)) None child_store (env 0 w) of
          (Err e, w') \<Rightarrow> (Err e, w')
        | (Ok child_session, w') \<Rightarrow> (Ok (session_adopt_id child_stream child_session), w')))"

definition session_open_child ::
  "(json \<Rightarrow> string) \<Rightarrow> string \<Rightarrow> string \<Rightarrow> string \<Rightarrow> 'w interference \<Rightarrow> string \<Rightarrow> string \<Rightarrow> allocation
     \<Rightarrow> json_map option \<Rightarrow> 'w event_store \<Rightarrow> 'w session \<Rightarrow> 'w \<Rightarrow> 'w session knl_result \<times> 'w" where
  "session_open_child shw child_scope minted_id minted_scope env child_stream own_id alloc meta child_store s w =
     (if s_closed s
      then (Err (Closed (fmt [CLOSED_TEXT, '' (a child is opened from an open parent)''])), w)
      else case check_amount (alloc_amount alloc) of
        Err e \<Rightarrow> (Err e, w)
      | Ok _ \<Rightarrow>
      (case (cur_database (s_store s), es_database child_store) of
         (Some parent, Some child) \<Rightarrow>
           (if parent \<noteq> child
            then (Err (Validation (fmt [''a child opens on its parent'', [CHR 0x27],
              ''s database, and a tree is one log: the parent is on '', debug_string parent,
              '' and the child was given '', debug_string child])), w)
            else
             (let n = alloc_amount alloc;
                  parent_tag = Option.bind (sc_grant (s_scope s)) tag;
                  child_tag = (case alloc_tag alloc of Some t \<Rightarrow> Some t | None \<Rightarrow> parent_tag) in
              case cur_append_if_many (s_store s) child_stream (Some ALLOCATION_KINDS)
                     (allocation_decision n parent_tag child_tag (sc_id (s_scope s)) (s_id s) child_stream
                        own_id child_scope meta) cells_new w of
                (Err e, _, w1) \<Rightarrow> (Err e, w1)
              | (Ok committed, c, w1) \<Rightarrow>
                  allocation_outcome shw minted_id minted_scope env child_stream n child_store committed c w1))
       | _ \<Rightarrow> (Err (Validation (fmt [''a child opens on its parent'', [CHR 0x27],
           ''s database, and one of the two stores keeps a single stream with no database to share''])), w)))"

section \<open>Writing\<close>

definition session_append :: "event \<Rightarrow> 'w session \<Rightarrow> 'w \<Rightarrow> nat knl_result \<times> 'w" where
  "session_append event s w =
     (let kind = cur_kind event in
      if is_kernel_only kind
      then (Err (Validation (fmt [debug_string kind, '' is written by the kernel only ('',
        kernel_only_hint kind, '')''])), w)
      else session_append_kernel event s w)"

definition reserve_decision :: "int \<Rightarrow> string \<Rightarrow> current_decision" where
  "reserve_decision n sid events c =
     (case last_grant events of
        None \<Rightarrow> (None, c)
      | Some g \<Rightarrow>
          (let balance = (case fold_balance events of None \<Rightarrow> 0 | Some b \<Rightarrow> b) in
           if n \<le> balance then (Some (budget_move_event KIND_BUDGET_RESERVED n (tag g) sid), c)
           else (Some (refused_event n balance (tag g) sid), c\<lparr>cell_refused := True\<rparr>)))"

definition session_reserve :: "int \<Rightarrow> 'w session \<Rightarrow> 'w \<Rightarrow> bool knl_result \<times> 'w" where
  "session_reserve n s w =
     (if s_closed s then (Err (Closed CLOSED_TEXT), w)
      else case check_amount n of
        Err e \<Rightarrow> (Err e, w)
      | Ok _ \<Rightarrow>
          (case cur_append_if (s_store s) (Some BUDGET_KINDS) (reserve_decision n (sc_id (s_scope s))) cells_new w of
             (Err e, _, w') \<Rightarrow> (Err e, w')
           | (Ok committed, c, w') \<Rightarrow> (Ok (\<not> (committed \<noteq> None \<and> cell_refused c)), w')))"

definition spend_decision :: "int \<Rightarrow> string \<Rightarrow> current_decision" where
  "spend_decision n sid events c =
     (case last_grant events of
        None \<Rightarrow> (None, c)
      | Some g \<Rightarrow> (Some (budget_move_event KIND_BUDGET_SPENT n (tag g) sid), c))"

definition session_spend :: "int \<Rightarrow> 'w session \<Rightarrow> 'w \<Rightarrow> unit knl_result \<times> 'w" where
  "session_spend n s w =
     (if s_closed s then (Err (Closed CLOSED_TEXT), w)
      else case check_amount n of
        Err e \<Rightarrow> (Err e, w)
      | Ok _ \<Rightarrow>
          (case cur_append_if (s_store s) (Some BUDGET_KINDS) (spend_decision n (sc_id (s_scope s))) cells_new w of
             (r, _, w') \<Rightarrow> (result_map (\<lambda>_. ()) r, w')))"

section \<open>Reading\<close>

definition session_events :: "nat \<Rightarrow> limit \<Rightarrow> 'w session \<Rightarrow> 'w \<Rightarrow> current list knl_result \<times> 'w" where
  "session_events from n s = cur_read (s_store s) from n"

definition session_len :: "'w session \<Rightarrow> 'w \<Rightarrow> nat knl_result \<times> 'w" where
  "session_len s = cur_len (s_store s)"

definition session_is_empty :: "'w session \<Rightarrow> 'w \<Rightarrow> bool knl_result \<times> 'w" where
  "session_is_empty s = cur_is_empty (s_store s)"

definition session_remaining ::
  "'w interference \<Rightarrow> 'w session \<Rightarrow> 'w \<Rightarrow> int option knl_result \<times> 'w session \<times> 'w" where
  "session_remaining env s w =
     (case s_balance s of (folded_head_seq, cached) \<Rightarrow>
      case cur_head (s_store s) w of
        (Err e, w1) \<Rightarrow> (Err e, s, w1)
      | (Ok h, w1) \<Rightarrow>
          (let head = (case h of None \<Rightarrow> 0 | Some n \<Rightarrow> n) in
           if head \<le> folded_head_seq then (Ok cached, s, w1)
           else (case cur_read_kinds (s_store s) (Some BUDGET_KINDS) 0 None (env 1 w1) of
               (Err e, w2) \<Rightarrow> (Err e, s, w2)
             | (Ok ledger, w2) \<Rightarrow>
                 (Ok (fold_balance ledger), s\<lparr>s_balance := (head, fold_balance ledger)\<rparr>, w2))))"

definition session_exhausted ::
  "'w interference \<Rightarrow> 'w session \<Rightarrow> 'w \<Rightarrow> bool knl_result \<times> 'w session \<times> 'w" where
  "session_exhausted env s w =
     (case session_remaining env s w of
        (r, s', w') \<Rightarrow> (result_map (\<lambda>left. case left of Some n \<Rightarrow> n \<le> 0 | None \<Rightarrow> False) r, s', w'))"

definition session_view ::
  "string \<Rightarrow> json_map option \<Rightarrow> 'w session \<Rightarrow> 'w \<Rightarrow> json knl_result \<times> 'w" where
  "session_view name opts s w =
     (if name = VIEW_TAIL then
        (case tail_count opts of
           Err e \<Rightarrow> (Err e, w)
         | Ok n \<Rightarrow> (case cur_read_last (s_store s) n w of (r, w') \<Rightarrow> (result_map (\<lambda>es. tail_of es n) r, w')))
      else (Err (Validation (fmt [''unknown view '', debug_string name])), w))"

definition session_query ::
  "string \<Rightarrow> query_params \<Rightarrow> query_opts \<Rightarrow> 'w session \<Rightarrow> 'w \<Rightarrow> query_rows knl_result \<times> 'w" where
  "session_query sql params opts s w =
     (case plan sql params opts (s_id s) of
        Err e \<Rightarrow> (Err e, w)
      | Ok q \<Rightarrow> cur_query (s_store s) q w)"

section \<open>Closing\<close>

definition session_close_with ::
  "string option \<Rightarrow> string option \<Rightarrow> 'w session \<Rightarrow> 'w \<Rightarrow> unit knl_result \<times> 'w session \<times> 'w" where
  "session_close_with why detail s w =
     (if s_closed s then (Ok (), s, w)
      else (case cur_append_with_open_children (s_store s) session_child_scan
                   (\<lambda>children. closing_event why detail children) w of
          (Err e, w') \<Rightarrow> (Err e, s, w')
        | (Ok _, w') \<Rightarrow> (Ok (), s\<lparr>s_closed := True\<rparr>, w')))"

definition session_close :: "string option \<Rightarrow> 'w session \<Rightarrow> 'w \<Rightarrow> unit knl_result \<times> 'w session \<times> 'w" where
  "session_close why = session_close_with why None"

definition session_close_detached :: "string \<Rightarrow> 'w session \<Rightarrow> 'w \<Rightarrow> 'w session \<times> 'w" where
  "session_close_detached why s w =
     (if s_closed s then (s, w)
      else (s\<lparr>s_closed := True\<rparr>, cur_detach_append (s_store s) (closing_event (Some why) None []) w))"

end
