(* ===== verification/Session_Laws.thy ===== *)
theory Session_Laws
  imports Session
begin

text \<open>
  What the operations of a session do, on any store that keeps the laws of \<open>lawful_store\<close>. The
  lemmas are proved inside the locale, so they serve every backend; the properties at the end
  name the laws as their hypothesis.
\<close>

section \<open>The seam over a lawful store\<close>

text \<open>A handle on the store, reading through an empty chain, as opening and resuming build it.\<close>

definition seam_on :: "'w event_store \<Rightarrow> 'w current_store \<Rightarrow> bool" where
  "seam_on st cst \<longleftrightarrow> inner cst = st \<and> chain cst = []"

definition keeps_fault :: "('a \<Rightarrow> cells \<Rightarrow> 'b \<times> cells) \<Rightarrow> bool" where
  "keeps_fault d \<longleftrightarrow> (\<forall>x c. cell_fault c = None \<longrightarrow> cell_fault (snd (d x c)) = None)"

lemma keeps_fault_decisions [simp]:
  "keeps_fault (grant_decision g sid)" "keeps_fault (reserve_decision n sid)"
  "keeps_fault (spend_decision n sid)"
  "keeps_fault (allocation_decision n pt ct ps pid cid own_id csc meta)"
  by (simp_all add: keeps_fault_def grant_decision_def reserve_decision_def spend_decision_def
      allocation_decision_def Let_def split: option.split)

lemma keeps_refusal_decisions [simp]:
  "keeps_refusal (grant_decision g sid)" "keeps_refusal (reserve_decision n sid)"
  "keeps_refusal (spend_decision n sid)"
  "keeps_refusal (allocation_decision n pt ct ps pid cid own_id csc meta)"
  by (simp_all add: keeps_refusal_def grant_decision_def reserve_decision_def spend_decision_def
      allocation_decision_def Let_def split: option.split)

lemma keeps_refusal_upcasted:
  "keeps_refusal decide \<Longrightarrow> keeps_refusal (upcasted cst decide)"
  "keeps_refusal sdecide \<Longrightarrow> keeps_refusal (upcasted_split cst sdecide)"
  by (simp_all add: keeps_refusal_def upcasted_def upcasted_split_def split: sum.split)

lemma cells_new_fault [simp]: "cell_fault cells_new = None" "cell_refusal cells_new = None"
  "cells_new\<lparr>cell_fault := None\<rparr> = cells_new"
  by (simp_all add: cells_new_def)

lemma upcasted_objects:
  "chain cst = [] \<Longrightarrow> upcasted cst decide (map JObject es) c = decide es c"
  by (simp add: upcasted_def)

lemma upcasted_split_objects:
  "chain cst = [] \<Longrightarrow>
     upcasted_split cst sdecide \<lparr>own = map JObject es, other = map JObject fs\<rparr> c
       = sdecide \<lparr>own = es, other = fs\<rparr> c"
  by (simp add: upcasted_split_def)

lemma raise_parked_Ok: "raise_parked r p = Ok x \<longleftrightarrow> p = None \<and> r = Ok x"
  by (simp add: raise_parked_def split: option.split)

text \<open>One event landing, and the ledger after it.\<close>

lemma placed_1 [simp]: "placed log [e] [c] \<longleftrightarrow> well_formed e \<and> c_seq c = Suc (length log)"
  by (auto simp: placed_def)

lemma land_1: "land v s [e] [c] = v(s := v s @ [recorded e (c_seq c) (c_epoch_ms c)])"
  by (simp add: land_def landed_def)

lemma land_other [simp]: "s' \<noteq> s \<Longrightarrow> land v s es cs s' = v s'"
  by (simp add: land_def)

lemma land_self: "land v s es cs s = v s @ landed es cs"
  by (simp add: land_def)

lemma fold_balance_budget_kinds [simp]: "fold_balance (of_kinds (Some BUDGET_KINDS) es) = fold_balance es"
  by (simp only: of_kinds_def option.case) (rule fold_balance_filter, simp add: BUDGET_KINDS_def)

lemma last_grant_budget_kinds [simp]: "last_grant (of_kinds (Some BUDGET_KINDS) es) = last_grant es"
  by (simp only: of_kinds_def option.case) (rule last_grant_filter, simp add: BUDGET_KINDS_def)

lemma fold_balance_allocation_kinds [simp]:
  "fold_balance (of_kinds (Some ALLOCATION_KINDS) es) = fold_balance es"
  by (simp only: of_kinds_def option.case) (rule fold_balance_filter, simp add: ALLOCATION_KINDS_def)

lemma ended_allocation_kinds [simp]:
  "list_ex (\<lambda>e. cur_kind e = KIND_SESSION_CLOSED) (of_kinds (Some ALLOCATION_KINDS) es)
     = list_ex (\<lambda>e. cur_kind e = KIND_SESSION_CLOSED) es"
  by (auto simp: of_kinds_def list_ex_iff ALLOCATION_KINDS_def)

text \<open>How the kernel's own entries move the balance.\<close>

lemma ledger_step_kernel:
  assumes "is_i64 n" and "0 \<le> n" and b: "fold_balance log = Some b"
  shows "ledger_step (Some b) (budget_move_event KIND_BUDGET_RESERVED n t sid) = Some (max 0 (b - n))"
    and "ledger_step (Some b) (budget_move_event KIND_BUDGET_SPENT n t sid) = Some (max 0 (b - n))"
    and "ledger_step (Some b) (allocated_event n t sid child) = Some (max 0 (b - n))"
proof -
  have "ledger_step (Some b) e = Some (max 0 (b - n))"
    if "data_field e FIELD_AMOUNT = Some (json_of_i64 n)"
      and "cur_kind e = KIND_BUDGET_RESERVED \<or> cur_kind e = KIND_BUDGET_SPENT" for e
  proof -
    have "ledger_amount e = n" using assms that by (simp add: ledger_amount_of)
    with saturating_in_range(2) [of b n] fold_balance_range [OF b] assms that show ?thesis
      by (simp add: ledger_step_moved)
  qed
  then show "ledger_step (Some b) (budget_move_event KIND_BUDGET_RESERVED n t sid) = Some (max 0 (b - n))"
    and "ledger_step (Some b) (budget_move_event KIND_BUDGET_SPENT n t sid) = Some (max 0 (b - n))"
    and "ledger_step (Some b) (allocated_event n t sid child) = Some (max 0 (b - n))"
    by simp_all
qed

lemma ledger_step_refusals [simp]:
  "ledger_step b (refused_event n left t sid) = b"
  "ledger_step b (allocation_refused_event n left t sid child) = b"
  by (simp_all add: ledger_step_other)

lemma balance_after_grant:
  assumes "is_i64 (amount g)" and "0 \<le> amount g"
  shows "fold_balance (log @ [recorded (granted_event g sid) sq ms])
    = Some (i64_saturating_add (case fold_balance log of None \<Rightarrow> 0 | Some b \<Rightarrow> b) (amount g))"
  using assms by (simp add: ledger_step_granted ledger_amount_of)

context lawful_store
begin

lemma cur_append_if_law:
  assumes "seam_on st cst" and "keeps_fault decide" and "keeps_refusal decide"
    and c: "cell_fault c = None" "cell_refusal c = None"
    and run: "cur_append_if cst kinds decide c w = (r, c', w')"
  shows "case r of
      Ok (Some cm) \<Rightarrow> (\<exists>e. decide (of_kinds kinds (view w me)) c = (Some e, c')
        \<and> placed (view w me) [e] [cm] \<and> view w' = land (view w) me [e] [cm])
    | Ok None \<Rightarrow> decide (of_kinds kinds (view w me)) c = (None, c') \<and> view w' = view w
    | Err x \<Rightarrow> view w' = view w"
proof -
  have cst: "inner cst = st" "chain cst = []" using assms(1) by (simp_all add: seam_on_def)
  have c0: "c\<lparr>cell_fault := None\<rparr> = c" using c(1) by (cases c) simp
  obtain ri where ri: "es_append_if st kinds (upcasted cst decide) c w = (ri, c', w')"
    and r: "r = raise_parked ri (cell_fault c')"
    using run by (auto simp: cur_append_if_def cst(1) c0 split: prod.splits)
  note law = append_if [OF c(2) keeps_refusal_upcasted(1) [OF assms(3)] ri, unfolded upcasted_objects [OF cst(2)]]
  show ?thesis
  proof (cases ri)
    case (Inl x)
    with law r show ?thesis by (auto simp: raise_parked_def split: option.splits)
  next
    case (Inr a)
    with law have "decide (of_kinds kinds (view w me)) c = (fst (decide (of_kinds kinds (view w me)) c), c')"
      by (auto split: option.splits)
    with assms(2) c(1) have "cell_fault c' = None" unfolding keeps_fault_def by (metis snd_conv)
    with law Inr r show ?thesis by (simp add: raise_parked_def)
  qed
qed

lemma cur_append_if_many_law:
  assumes "seam_on st cst" and "keeps_fault sdecide" and "keeps_refusal sdecide"
    and c: "cell_fault c = None" "cell_refusal c = None"
    and run: "cur_append_if_many cst elsewhere kinds sdecide c w = (r, c', w')"
  shows "case r of
      Ok (Some cms) \<Rightarrow> (\<exists>es.
        sdecide \<lparr>own = of_kinds kinds (view w me), other = take 1 (view w elsewhere)\<rparr> c = (Some es, c')
        \<and> placed (view w me) (own es) (own cms)
        \<and> placed (land (view w) me (own es) (own cms) elsewhere) (other es) (other cms)
        \<and> view w' = land (land (view w) me (own es) (own cms)) elsewhere (other es) (other cms))
    | Ok None \<Rightarrow>
        sdecide \<lparr>own = of_kinds kinds (view w me), other = take 1 (view w elsewhere)\<rparr> c = (None, c')
        \<and> view w' = view w
    | Err x \<Rightarrow> view w' = view w"
proof -
  have cst: "inner cst = st" "chain cst = []" using assms(1) by (simp_all add: seam_on_def)
  have c0: "c\<lparr>cell_fault := None\<rparr> = c" using c(1) by (cases c) simp
  let ?seen = "\<lparr>own = of_kinds kinds (view w me), other = take 1 (view w elsewhere)\<rparr>"
  obtain ri where ri: "es_append_if_many st elsewhere kinds (upcasted_split cst sdecide) c w = (ri, c', w')"
    and r: "r = raise_parked ri (cell_fault c')"
    using run by (auto simp: cur_append_if_many_def cst(1) c0 split: prod.splits)
  note law = append_if_many [OF c(2) keeps_refusal_upcasted(2) [OF assms(3)] ri, unfolded upcasted_split_objects [OF cst(2)]]
  show ?thesis
  proof (cases ri)
    case (Inl x)
    with law r show ?thesis by (auto simp: raise_parked_def split: option.splits)
  next
    case (Inr a)
    with law have "sdecide ?seen c = (fst (sdecide ?seen c), c')" by (auto split: option.splits)
    with assms(2) c(1) have "cell_fault c' = None" unfolding keeps_fault_def by (metis snd_conv)
    with law Inr r show ?thesis by (simp add: raise_parked_def)
  qed
qed

lemma cur_read_kinds_law:
  assumes "seam_on st cst" and "cur_read_kinds cst kinds from n w = (r, w')"
  shows "view w' = view w" and "r = Ok es \<Longrightarrow>
    es = truncate_to n (filter (\<lambda>e. from \<le> cur_seq e) (of_kinds kinds (view w me)))"
proof -
  obtain rr where rr: "es_read_kinds st kinds from n w = (rr, w')" "r = and_then rr (project (shown cst) [])"
    using assms by (auto simp: cur_read_kinds_def seam_on_def split: prod.splits)
  from read_kinds [OF rr(1)] rr(2) show "view w' = view w"
    and "r = Ok es \<Longrightarrow> es = truncate_to n (filter (\<lambda>e. from \<le> cur_seq e) (of_kinds kinds (view w me)))"
    by (auto simp: and_then_Ok_iff)
qed

lemma cur_read_last_law:
  assumes "seam_on st cst" and "cur_read_last cst k w = (r, w')"
  shows "view w' = view w" and "r = Ok es \<Longrightarrow> es = drop (length (view w me) - k) (view w me)"
proof -
  obtain rr where rr: "es_read_last st k w = (rr, w')" "r = and_then rr (project (shown cst) [])"
    using assms by (auto simp: cur_read_last_def seam_on_def split: prod.splits)
  from read_last [OF rr(1)] rr(2) show "view w' = view w"
    and "r = Ok es \<Longrightarrow> es = drop (length (view w me) - k) (view w me)"
    by (auto simp: and_then_Ok_iff)
qed

lemma seq_range: "e \<in> set (view w s) \<Longrightarrow> 1 \<le> cur_seq e \<and> cur_seq e \<le> length (view w s)"
proof -
  assume "e \<in> set (view w s)"
  then have "cur_seq e \<in> set (map cur_seq (view w s))" by simp
  also have "set (map cur_seq (view w s)) = {Suc 0..<Suc (length (view w s))}"
    using numbered [of w s] unfolding numbered_def by (simp only: set_upt)
  finally show ?thesis by simp
qed

section \<open>The ledger operations\<close>

lemma reserve_law:
  assumes at: "seam_on st (s_store s)" and i: "is_i64 n"
    and run: "session_reserve n s w = (Ok answer, w')"
  shows "\<not> s_closed s \<and> 0 \<le> n \<and>
    (case fold_balance (view w me) of
       None \<Rightarrow> answer \<and> view w' = view w
     | Some b \<Rightarrow> answer = (n \<le> b) \<and>
         (\<exists>t cm. c_seq cm = Suc (length (view w me)) \<and> view w' = land (view w) me
            [if answer then budget_move_event KIND_BUDGET_RESERVED n t (sc_id (s_scope s))
             else refused_event n b t (sc_id (s_scope s))] [cm])
         \<and> fold_balance (view w' me) = Some (if answer then b - n else b))"
proof -
  have open_: "\<not> s_closed s" and n: "0 \<le> n"
    using run by (auto simp: session_reserve_def check_amount_def split: if_splits)
  obtain committed c where c: "cur_append_if (s_store s) (Some BUDGET_KINDS)
      (reserve_decision n (sc_id (s_scope s))) cells_new w = (Ok committed, c, w')"
    and answer: "answer = (\<not> (committed \<noteq> None \<and> cell_refused c))"
    using run open_ n
    by (auto simp: session_reserve_def check_amount_def split: prod.splits sum.splits if_splits)
  note law = cur_append_if_law [OF at _ _ _ _ c, simplified]
  show ?thesis
  proof (cases "last_grant (view w me)")
    case None
    then have "fold_balance (view w me) = None" by (simp add: last_grant_iff_balance)
    with None law open_ n answer show ?thesis
      by (auto simp: reserve_decision_def split: option.splits)
  next
    case (Some g)
    then obtain b where b: "fold_balance (view w me) = Some b"
      using last_grant_iff_balance [of "view w me"] by (cases "fold_balance (view w me)") auto
    obtain cm where cm: "committed = Some cm"
      using law Some by (cases committed) (auto simp: reserve_decision_def b Let_def split: if_splits)
    show ?thesis
    proof (cases "n \<le> b")
      case True
      then show ?thesis
        using law Some b cm answer open_ n ledger_step_kernel(1) [OF i n b]
        by (auto simp: reserve_decision_def cells_new_def land_1 intro!: exI [of _ "tag g"] exI [of _ cm])
    next
      case False
      then show ?thesis
        using law Some b cm answer open_ n kernel_builders_valid
        by (auto simp: reserve_decision_def cells_new_def land_1 intro!: exI [of _ "tag g"] exI [of _ cm])
    qed
  qed
qed

lemma reserve_error:
  assumes at: "seam_on st (s_store s)" and run: "session_reserve n s w = (Err x, w')"
  shows "view w' = view w"
  using run cur_append_if_law [OF at, of "reserve_decision n (sc_id (s_scope s))" cells_new]
  by (fastforce simp: session_reserve_def split: if_splits sum.splits prod.splits)

lemma spend_law:
  assumes at: "seam_on st (s_store s)" and i: "is_i64 n"
    and run: "session_spend n s w = (Ok u, w')"
  shows "\<not> s_closed s \<and> 0 \<le> n \<and>
    (case fold_balance (view w me) of
       None \<Rightarrow> view w' = view w
     | Some b \<Rightarrow> (\<exists>t cm. c_seq cm = Suc (length (view w me)) \<and> view w' = land (view w) me
            [budget_move_event KIND_BUDGET_SPENT n t (sc_id (s_scope s))] [cm])
         \<and> fold_balance (view w' me) = Some (max 0 (b - n)))"
proof -
  have open_: "\<not> s_closed s" and n: "0 \<le> n"
    using run by (auto simp: session_spend_def check_amount_def split: if_splits)
  obtain committed c where c: "cur_append_if (s_store s) (Some BUDGET_KINDS)
      (spend_decision n (sc_id (s_scope s))) cells_new w = (Ok committed, c, w')"
    using run open_ n
    by (auto simp: session_spend_def check_amount_def result_map_def split: prod.splits sum.splits if_splits)
  note law = cur_append_if_law [OF at _ _ _ _ c, simplified]
  show ?thesis
  proof (cases "last_grant (view w me)")
    case None
    then have "fold_balance (view w me) = None" by (simp add: last_grant_iff_balance)
    with None law open_ n show ?thesis by (auto simp: spend_decision_def split: option.splits)
  next
    case (Some g)
    then obtain b where b: "fold_balance (view w me) = Some b"
      using last_grant_iff_balance [of "view w me"] by (cases "fold_balance (view w me)") auto
    then show ?thesis
      using law Some open_ n ledger_step_kernel(2) [OF i n b]
      by (cases committed)
         (auto simp: spend_decision_def land_1 intro!: exI [of _ "tag g"] exI [of _ "the committed"])
  qed
qed

lemma spend_error:
  assumes at: "seam_on st (s_store s)" and run: "session_spend n s w = (Err x, w')"
  shows "view w' = view w"
  using run cur_append_if_law [OF at, of "spend_decision n (sc_id (s_scope s))" cells_new]
  by (fastforce simp: session_spend_def result_map_def split: if_splits sum.splits prod.splits)

lemma append_kernel_law:
  assumes at: "seam_on st (s_store s)" and run: "session_append_kernel e s w = (r, w')"
  shows "case r of
      Ok seq \<Rightarrow> \<not> s_closed s \<and> well_formed e \<and> seq = Suc (length (view w me))
        \<and> (\<exists>cm. c_seq cm = seq \<and> view w' = land (view w) me [e] [cm])
    | Err x \<Rightarrow> view w' = view w"
proof (cases "s_closed s")
  case False
  then obtain r0 where r0: "es_append st e w = (r0, w')" "r = result_map c_seq r0"
    using run at by (auto simp: session_append_kernel_def cur_append_def seam_on_def split: prod.splits)
  with append [OF r0(1)] False show ?thesis by (cases r0) auto
qed (use run in \<open>auto simp: session_append_kernel_def\<close>)

lemma append_law:
  assumes at: "seam_on st (s_store s)" and run: "session_append e s w = (r, w')"
  shows "case r of
      Ok seq \<Rightarrow> \<not> s_closed s \<and> well_formed e \<and> \<not> is_kernel_only (cur_kind e)
        \<and> seq = Suc (length (view w me)) \<and> (\<exists>cm. c_seq cm = seq \<and> view w' = land (view w) me [e] [cm])
        \<and> fold_balance (view w' me) = fold_balance (view w me)
    | Err x \<Rightarrow> view w' = view w"
proof (cases "is_kernel_only (cur_kind e)")
  case False
  then have run': "session_append_kernel e s w = (r, w')" using run by (simp add: session_append_def)
  have "ledger_step b e = b" for b
    using False by (intro ledger_step_other) (auto simp: is_kernel_only_def)
  with append_kernel_law [OF at run'] False show ?thesis
    by (cases r) (auto simp: land_1)
qed (use run in \<open>auto simp: session_append_def Let_def\<close>)

end

end
