(* ===== verification/Session_Lifecycle.thy ===== *)
theory Session_Lifecycle
  imports Session_Laws
begin

text \<open>
  Opening, resuming, allocating to a child, reading the balance and closing, on a lawful store.
  What other handles do between two store calls of one operation is any world change that only
  adds to the streams (\<open>only_adds\<close>): the interface has no call that removes or rewrites.
\<close>

section \<open>Streams that grow\<close>

definition grows :: "current list \<Rightarrow> current list \<Rightarrow> bool" where
  "grows log log' \<longleftrightarrow> (\<exists>ext. log' = log @ ext)"

definition streams_grow :: "streams \<Rightarrow> streams \<Rightarrow> bool" where
  "streams_grow v v' \<longleftrightarrow> (\<forall>s. grows (v s) (v' s))"

definition only_adds :: "('w \<Rightarrow> streams) \<Rightarrow> 'w interference \<Rightarrow> bool" where
  "only_adds view env \<longleftrightarrow> (\<forall>k w. streams_grow (view w) (view (env k w)))"

lemma grows_refl [simp]: "grows log log"
  by (simp add: grows_def)

lemma grows_append [simp]: "grows log (log @ ext)"
  by (simp add: grows_def)

lemma grows_trans: "grows a b \<Longrightarrow> grows b c \<Longrightarrow> grows a c"
  by (auto simp: grows_def)

lemma grows_length: "grows a b \<Longrightarrow> length a \<le> length b"
  by (auto simp: grows_def)

lemma grows_take: "grows a b \<Longrightarrow> k \<le> length a \<Longrightarrow> take k b = take k a"
  by (auto simp: grows_def)

lemma streams_grow_refl [simp]: "streams_grow v v"
  by (simp add: streams_grow_def)

lemma streams_grow_trans: "streams_grow a b \<Longrightarrow> streams_grow b c \<Longrightarrow> streams_grow a c"
  by (auto simp: streams_grow_def intro: grows_trans)

lemma streams_grow_land [simp]: "streams_grow v (land v s es cs)"
  by (simp add: streams_grow_def land_def)

lemma only_adds_id [simp]: "only_adds view (\<lambda>k w. w)"
  by (simp add: only_adds_def)

lemma only_addsD: "only_adds view env \<Longrightarrow> streams_grow (view w) (view (env k w))"
  by (simp add: only_adds_def)

section \<open>The balance cache\<close>

text \<open>
  A handle keeps the last fold and the head it was taken at. The fold may be newer than the head
  (the ledger is read after it), never older.
\<close>

definition cache_ok :: "'w session \<Rightarrow> current list \<Rightarrow> bool" where
  "cache_ok s log \<longleftrightarrow>
     (\<exists>k. fst (s_balance s) \<le> k \<and> k \<le> length log \<and> snd (s_balance s) = fold_balance (take k log))"

lemma cache_ok_grows: "cache_ok s log \<Longrightarrow> grows log log' \<Longrightarrow> cache_ok s log'"
  unfolding cache_ok_def by (metis grows_length grows_take le_trans)

lemma cache_ok_fresh: "s_balance s = (0, None) \<Longrightarrow> cache_ok s log"
  by (auto simp: cache_ok_def intro!: exI [of _ 0])

lemma cache_ok_whole: "s_balance s = (h, fold_balance log) \<Longrightarrow> h \<le> length log \<Longrightarrow> cache_ok s log"
  by (auto simp: cache_ok_def intro!: exI [of _ "length log"])

lemma cache_exact: "cache_ok s log \<Longrightarrow> length log \<le> fst (s_balance s) \<Longrightarrow> snd (s_balance s) = fold_balance log"
  by (auto simp: cache_ok_def)

text \<open>The opening_events write, with its events spelled out.\<close>

definition opening_events :: "string \<Rightarrow> string \<Rightarrow> budget_grant option \<Rightarrow> json_map option \<Rightarrow> event list" where
  "opening_events own_id sid g meta =
     opened_event own_id sid meta # (case g of None \<Rightarrow> [] | Some gr \<Rightarrow> [granted_event gr sid])"

lemma open_on_eq:
  "session_open_on shw mid msc own_id g meta store w =
     (case es_append_many store (opening_events own_id msc g meta) w of
        (Err e, w') \<Rightarrow> (Err e, w')
      | (Ok cs, w') \<Rightarrow> (Ok \<lparr>s_id = mid, s_scope = scope_new msc own_id g,
          s_store = \<lparr>inner = store, chain = [], shown = shw\<rparr>, s_balance = (0, None), s_closed = False\<rparr>, w'))"
  by (cases g) (simp_all add: session_open_on_def scope_new_def opening_events_def cur_append_many_def Let_def
      split: prod.split sum.split)

context lawful_store
begin

lemma remaining_law:
  assumes at: "seam_on st (s_store s)" and cache: "cache_ok s (view w me)" and env: "only_adds view env"
    and run: "session_remaining env s w = (r, s', w')"
  shows "streams_grow (view w) (view w')" and "cache_ok s' (view w' me)"
    and "s' = s\<lparr>s_balance := s_balance s'\<rparr>"
    and "r = Ok b \<Longrightarrow> b = fold_balance (view w me) \<or> b = fold_balance (view w' me)"
proof -
  obtain h0 b0 where bal: "s_balance s = (h0, b0)" by (cases "s_balance s")
  obtain rh w1 where hd: "es_head st w = (rh, w1)" by (cases "es_head st w")
  have w1: "view w1 = view w" using head [OF hd] by simp
  have hd': "cur_head (s_store s) w = (rh, w1)" using at hd by (simp add: cur_head_def seam_on_def)
  consider (fault) x where "rh = Err x"
    | (hit) hh where "rh = Ok hh" "length (view w me) \<le> h0"
    | (miss) hh where "rh = Ok hh" "\<not> length (view w me) \<le> h0"
    by (cases rh) auto
  then have "streams_grow (view w) (view w') \<and> cache_ok s' (view w' me) \<and> s' = s\<lparr>s_balance := s_balance s'\<rparr>
      \<and> (r = Ok b \<longrightarrow> b = fold_balance (view w me) \<or> b = fold_balance (view w' me))"
  proof cases
    case fault
    then have "r = Err x" "s' = s" "w' = w1" using run hd' bal by (simp_all add: session_remaining_def)
    then show ?thesis using w1 cache by simp
  next
    case hit
    have "(case hh of None \<Rightarrow> 0 | Some n \<Rightarrow> n) = length (view w me)"
      using head [OF hd] hit(1) by simp
    then have "r = Ok b0" "s' = s" "w' = w1"
      using run hd' bal hit by (simp_all add: session_remaining_def Let_def)
    then show ?thesis using w1 cache cache_exact [OF cache] hit bal by auto
  next
    case miss
    let ?L = "view w me"
    have head_is: "(case hh of None \<Rightarrow> 0 | Some n \<Rightarrow> n) = length ?L"
      using head [OF hd] miss(1) by simp
    obtain rr w2 where rd: "cur_read_kinds (s_store s) (Some BUDGET_KINDS) 0 None (env 1 w1) = (rr, w2)"
      by fastforce
    have v2: "view w2 = view (env 1 w1)" using cur_read_kinds_law(1) [OF at rd] .
    have grow: "streams_grow (view w) (view w2)" using only_addsD [OF env, of w1 1] w1 v2 by simp
    then have g: "grows ?L (view w2 me)" by (simp add: streams_grow_def)
    show ?thesis
    proof (cases rr)
      case (Inl x)
      then have "r = Err x" "s' = s" "w' = w2"
        using run hd' bal miss head_is rd by (simp_all add: session_remaining_def Let_def)
      then show ?thesis using grow cache_ok_grows [OF cache g] by simp
    next
      case (Inr ledger)
      then have led: "fold_balance ledger = fold_balance (view w2 me)"
        using cur_read_kinds_law(2) [OF at rd, of ledger] v2 by simp
      have "r = Ok (fold_balance ledger)" "s' = s\<lparr>s_balance := (length ?L, fold_balance ledger)\<rparr>" "w' = w2"
        using run hd' bal miss head_is rd Inr by (simp_all add: session_remaining_def Let_def)
      then show ?thesis
        using grow led cache_ok_whole [of s' "length ?L" "view w2 me"] grows_length [OF g] by simp
    qed
  qed
  then show "streams_grow (view w) (view w')" and "cache_ok s' (view w' me)"
    and "s' = s\<lparr>s_balance := s_balance s'\<rparr>"
    and "r = Ok b \<Longrightarrow> b = fold_balance (view w me) \<or> b = fold_balance (view w' me)"
    by blast+
qed

section \<open>Opening\<close>

lemma open_on_law:
  assumes run: "session_open_on shw mid msc own_id g meta st w = (r, w')"
  shows "case r of
      Ok s \<Rightarrow> seam_on st (s_store s) \<and> s_id s = mid \<and> s_scope s = scope_new msc own_id g
        \<and> \<not> s_closed s \<and> cache_ok s (view w' me) \<and> meta_ok meta
        \<and> (\<exists>cs. placed (view w me) (opening_events own_id msc g meta) cs
             \<and> view w' = land (view w) me (opening_events own_id msc g meta) cs)
    | Err x \<Rightarrow> view w' = view w"
proof -
  obtain rs where rs: "es_append_many st (opening_events own_id msc g meta) w = (rs, w')"
    using run by (auto simp: open_on_eq split: prod.splits sum.splits)
  note law = append_many [OF rs]
  show ?thesis
  proof (cases rs)
    case (Inl x)
    with run rs law show ?thesis by (auto simp: open_on_eq)
  next
    case (Inr cs)
    with law have "meta_ok meta"
      using opening_builders_valid(1) by (auto simp: placed_def opening_events_def)
    with run rs law Inr show ?thesis by (auto simp: open_on_eq seam_on_def intro!: cache_ok_fresh exI [of _ cs])
  qed
qed

section \<open>Granting\<close>

lemma grant_on_resume_law:
  assumes at: "seam_on st (s_store s)" and i: "is_i64 (amount g)"
    and run: "session_grant_on_resume g s w = (r, s', w')"
  shows "case r of
      Ok u \<Rightarrow> 0 \<le> amount g \<and> last_grant (view w me) \<noteq> None
        \<and> (\<exists>cm. c_seq cm = Suc (length (view w me))
             \<and> view w' = land (view w) me [granted_event g (sc_id (s_scope s))] [cm])
        \<and> fold_balance (view w' me) =
            Some (i64_saturating_add (the (fold_balance (view w me))) (amount g))
        \<and> s' = s\<lparr>s_scope := (s_scope s)\<lparr>sc_grant := Some g\<rparr>\<rparr>
    | Err x \<Rightarrow> view w' = view w \<and> s' = s"
proof (cases "0 \<le> amount g")
  case False
  with run show ?thesis by (auto simp: session_grant_on_resume_def check_amount_def)
next
  case True
  obtain rc c where rc: "cur_append_if (s_store s) (Some BUDGET_KINDS)
      (grant_decision g (sc_id (s_scope s))) cells_new w = (rc, c, w')"
    using run True by (auto simp: session_grant_on_resume_def check_amount_def
        split: prod.splits sum.splits option.splits)
  note law = cur_append_if_law [OF at _ _ _ _ rc, simplified]
  show ?thesis
  proof (cases rc)
    case (Inl x)
    with run rc True law show ?thesis by (auto simp: session_grant_on_resume_def check_amount_def)
  next
    case (Inr committed)
    show ?thesis
    proof (cases committed)
      case None
      with run rc True law Inr show ?thesis
        by (auto simp: session_grant_on_resume_def check_amount_def)
    next
      case (Some cm)
      with law Inr obtain g0 where g0: "last_grant (view w me) = Some g0"
        by (auto simp: grant_decision_def split: option.splits)
      then obtain b where b: "fold_balance (view w me) = Some b"
        using last_grant_iff_balance [of "view w me"] by (cases "fold_balance (view w me)") auto
      from run rc True Inr Some have "r = Ok ()" "s' = s\<lparr>s_scope := (s_scope s)\<lparr>sc_grant := Some g\<rparr>\<rparr>"
        by (auto simp: session_grant_on_resume_def check_amount_def scope_grant_more_def)
      moreover have "ledger_amount (granted_event g (sc_id (s_scope s))) = amount g"
        using i True by (simp add: ledger_amount_of)
      ultimately show ?thesis
        using law Inr Some g0 b True
        by (auto simp: grant_decision_def land_1 ledger_step_granted)
    qed
  qed
qed

lemma grant_more_law:
  assumes at: "seam_on st (s_store s)" and run: "session_grant_more g s w = (r, s', w')"
  shows "(view w' = view w \<and> s' = s \<and> (\<exists>x. r = Err x))
    \<or> ((\<exists>cm. c_seq cm = Suc (length (view w me))
          \<and> view w' = land (view w) me [granted_event g (sc_id (s_scope s))] [cm])
       \<and> (r, s_scope s') = scope_grant_more (s_scope s) g \<and> s' = s\<lparr>s_scope := s_scope s'\<rparr>)"
proof -
  obtain ra w1 where ra: "session_append_kernel (granted_event g (sc_id (s_scope s))) s w = (ra, w1)"
    by fastforce
  note law = append_kernel_law [OF at ra]
  show ?thesis
  proof (cases ra)
    case (Inl x)
    with run ra law show ?thesis by (auto simp: session_grant_more_def)
  next
    case (Inr seq)
    with run ra have "w' = w1" "(r, s_scope s') = scope_grant_more (s_scope s) g"
      "s' = s\<lparr>s_scope := s_scope s'\<rparr>"
      by (auto simp: session_grant_more_def split: prod.splits)
    with law Inr show ?thesis by auto
  qed
qed

section \<open>Resuming\<close>

lemma has_ended_law:
  assumes at: "seam_on st cst" and run: "has_ended cst w = (r, w')"
  shows "view w' = view w" and "r = Ok e \<Longrightarrow> e = list_ex (\<lambda>e. cur_kind e = KIND_SESSION_CLOSED) (view w me)"
proof -
  obtain rr where rr: "cur_read_kinds cst (Some [KIND_SESSION_CLOSED]) 0 (Some 1) w = (rr, w')"
    "r = result_map (\<lambda>ending. ending \<noteq> []) rr"
    using run by (auto simp: has_ended_def split: prod.splits)
  show "view w' = view w" using cur_read_kinds_law(1) [OF at rr(1)] .
  show "e = list_ex (\<lambda>e. cur_kind e = KIND_SESSION_CLOSED) (view w me)" if "r = Ok e"
  proof -
    from that rr(2) obtain es where es: "rr = Ok es" "e = (es \<noteq> [])" by (cases rr) auto
    with cur_read_kinds_law(2) [OF at rr(1)] have "es = take 1 (filter (\<lambda>e. cur_kind e = KIND_SESSION_CLOSED) (view w me))"
      by (simp add: of_kinds_def)
    with es show ?thesis by (auto simp: list_ex_iff filter_empty_conv)
  qed
qed

lemma last_seq: "view w s \<noteq> [] \<Longrightarrow> cur_seq (last (view w s)) = length (view w s)"
proof -
  assume ne: "view w s \<noteq> []"
  have "cur_seq (last (view w s)) = last (map cur_seq (view w s))" using ne by (simp add: last_map)
  also have "\<dots> = last [Suc 0..<Suc (length (view w s))]"
    using numbered [of w s] by (simp only: numbered_def)
  finally show ?thesis using ne by (simp del: upt_Suc add: last_conv_nth)
qed

lemma restored_ok:
  assumes "log = view w me"
  shows "cache_ok (restored mid msc cst log opened) log"
proof -
  have "(if log = [] then 0 else cur_seq (last log)) = length log"
    using last_seq [of w me] assms by auto
  then show ?thesis
    by (intro cache_ok_whole [of _ "length log"]) (simp_all add: restored_def)
qed

lemma resume_law:
  assumes at: "seam_on st cst" and env: "only_adds view env"
    and run: "session_resume_on mid msc env None cst w = (Ok s, w')"
  shows "\<exists>opened. List.find (\<lambda>e. cur_kind e = KIND_SESSION_OPENED) (view w me) = Some opened
    \<and> s = restored mid msc cst (view w me) opened
    \<and> \<not> list_ex (\<lambda>e. cur_kind e = KIND_SESSION_CLOSED) (view w' me)
    \<and> streams_grow (view w) (view w') \<and> cache_ok s (view w' me)"
proof -
  obtain rr w1 where rd: "cur_read cst 0 None w = (rr, w1)" by fastforce
  note rk = cur_read_kinds_law [OF at rd [unfolded cur_read_def]]
  from run rd obtain log where log: "rr = Ok log" by (cases rr) (auto simp: session_resume_on_def)
  have logw: "log = view w me" using rk(2) [OF log] by (simp add: of_kinds_def)
  from run rd log obtain opened where
    op: "List.find (\<lambda>e. cur_kind e = KIND_SESSION_OPENED) log = Some opened"
    by (cases "List.find (\<lambda>e. cur_kind e = KIND_SESSION_OPENED) log") (auto simp: session_resume_on_def)
  obtain re w2 where en: "has_ended cst (env 1 w1) = (re, w2)" by fastforce
  note el = has_ended_law [OF at en]
  from run rd log op en have re: "re = Ok False" and s: "s = restored mid msc cst log opened" and w': "w' = w2"
    by (auto simp: session_resume_on_def Let_def split: sum.splits bool.splits)
  have grow: "streams_grow (view w) (view w')"
    using only_addsD [OF env, of w1 1] rk(1) el(1) w' by simp
  then have "grows log (view w' me)" by (simp add: logw streams_grow_def)
  then have "cache_ok s (view w' me)"
    unfolding s by (rule cache_ok_grows [OF restored_ok [OF logw]])
  with grow op s logw el(2) [OF re] el(1) w' show ?thesis by auto
qed

section \<open>Closing\<close>

lemma close_law:
  assumes at: "seam_on st (s_store s)" and run: "session_close_with why detail s w = (r, s', w')"
    and opn: "\<not> s_closed s"
  shows "case r of
      Ok u \<Rightarrow> s' = s\<lparr>s_closed := True\<rparr> \<and> (\<exists>ids cm.
          (plain_parents session_child_scan (view w) \<longrightarrow>
             set ids = {c. is_open_child session_child_scan me (view w c)})
        \<and> c_seq cm = Suc (length (view w me))
        \<and> view w' = land (view w) me [closing_event why detail ids] [cm])
    | Err x \<Rightarrow> s' = s \<and> view w' = view w"
proof -
  obtain rc where rc: "es_append_with_open_children st session_child_scan (closing_event why detail) w = (rc, w')"
    using run opn at by (auto simp: session_close_with_def cur_append_with_open_children_def seam_on_def
        split: prod.splits sum.splits)
  with run opn at have "r = result_map (\<lambda>_. ()) rc" "s' = (case rc of Ok _ \<Rightarrow> s\<lparr>s_closed := True\<rparr> | Err _ \<Rightarrow> s)"
    by (auto simp: session_close_with_def cur_append_with_open_children_def seam_on_def split: sum.splits)
  with append_with_open_children [OF rc] show ?thesis by (cases rc) auto
qed

section \<open>Allocation\<close>

lemma allocation_step:
  assumes at: "seam_on st cst"
    and run: "cur_append_if_many cst child (Some ALLOCATION_KINDS)
      (allocation_decision n pt ct psc pid child own_id csc meta) cells_new w = (r, c, w')"
  shows "case r of
      Err x \<Rightarrow> view w' = view w
    | Ok None \<Rightarrow> view w' = view w \<and> cell_occupied c = (view w child \<noteq> [])
        \<and> (view w child = [] \<longrightarrow> list_ex (\<lambda>e. cur_kind e = KIND_SESSION_CLOSED) (view w me))
    | Ok (Some cms) \<Rightarrow> \<not> cell_occupied c \<and> \<not> cell_ended c \<and> view w child = []
        \<and> \<not> list_ex (\<lambda>e. cur_kind e = KIND_SESSION_CLOSED) (view w me)
        \<and> (if cell_refused c
           then (\<exists>b cm. fold_balance (view w me) = Some b \<and> b < n \<and> cell_measured c = b
                  \<and> view w' = land (view w) me [allocation_refused_event n b pt psc child] [cm])
           else (case fold_balance (view w me) of None \<Rightarrow> True | Some b \<Rightarrow> n \<le> b)
             \<and> (\<exists>cm cs. view w' = land (land (view w) me [allocated_event n pt psc child] [cm]) child
                  [child_opened_event own_id csc pid meta, child_granted_event n ct csc pid] cs
                \<and> c_seq cm = Suc (length (view w me)) \<and> length cs = 2 \<and> meta_ok meta))"
proof -
  note law = cur_append_if_many_law [OF at _ _ _ _ run, simplified]
  show ?thesis
  proof (cases r)
    case (Inl x)
    with law show ?thesis by simp
  next
    case (Inr committed)
    show ?thesis
    proof (cases committed)
      case None
      with law Inr show ?thesis
        by (auto simp: allocation_decision_def cells_new_def Let_def split: if_splits option.splits)
    next
      case (Some cms)
      with law Inr obtain es where
        d: "allocation_decision n pt ct psc pid child own_id csc meta
              \<lparr>own = of_kinds (Some ALLOCATION_KINDS) (view w me), other = take 1 (view w child)\<rparr> cells_new = (Some es, c)"
        and p: "placed (view w me) (own es) (own cms)"
          "placed (land (view w) me (own es) (own cms) child) (other es) (other cms)"
        and v: "view w' = land (land (view w) me (own es) (own cms)) child (other es) (other cms)"
        by auto
      obtain cm where cm: "own cms = [cm]"
        using d p(1) by (cases "own cms"; cases "tl (own cms)")
          (auto simp: allocation_decision_def placed_def Let_def split_own_def split: if_splits option.splits)
      show ?thesis
        using d p v Inr Some cm opening_builders_valid(2) [of own_id csc pid meta]
        by (auto simp: allocation_decision_def placed_def cells_new_def Let_def split_own_def land_def [of _ _ "[]"]
            landed_def [of "[]"] split: if_splits option.splits
            intro!: exI [of _ cm] exI [of _ "other cms"])
    qed
  qed
qed

text \<open>An allocation is its guards, then the one transaction, then the outcome.\<close>

lemma open_child_cases:
  assumes at: "seam_on st (s_store s)"
    and run: "session_open_child shw csc mid msc env child own_id alloc meta child_st s w = (r, w')"
  obtains (guard) x where "r = Err x" "w' = w"
  | (transaction) pt ct r0 cl w1 where "\<not> s_closed s" "0 \<le> alloc_amount alloc"
    "es_database st = es_database child_st"
    "cur_append_if_many (s_store s) child (Some ALLOCATION_KINDS)
      (allocation_decision (alloc_amount alloc) pt ct (sc_id (s_scope s)) (s_id s) child own_id csc meta)
      cells_new w = (r0, cl, w1)"
    "case r0 of Err x \<Rightarrow> r = Err x \<and> w' = w1
     | Ok committed \<Rightarrow>
         allocation_outcome shw mid msc env child (alloc_amount alloc) child_st committed cl w1 = (r, w')"
proof -
  obtain r0 cl w1 where tx: "cur_append_if_many (s_store s) child (Some ALLOCATION_KINDS)
      (allocation_decision (alloc_amount alloc) (Option.bind (sc_grant (s_scope s)) tag)
        (case alloc_tag alloc of Some t \<Rightarrow> Some t | None \<Rightarrow> Option.bind (sc_grant (s_scope s)) tag)
        (sc_id (s_scope s)) (s_id s) child own_id csc meta)
      cells_new w = (r0, cl, w1)" by (metis prod_cases3)
  have "inner (s_store s) = st" using at by (simp add: seam_on_def)
  with run show ?thesis
    using that(1) that(2) [OF _ _ _ tx]
    by (auto simp: session_open_child_def check_amount_def cur_database_def Let_def tx
        split: if_splits option.splits sum.splits)
qed

lemma outcome_Ok:
  assumes "allocation_outcome shw mid msc env child n child_st committed cl w1 = (Ok c, w')"
  shows "\<not> cell_occupied cl" "\<not> cell_refused cl" "committed \<noteq> None" "s_id c = child"
    and "session_resume shw mid msc (\<lambda>k. env (k + 1)) None child_st (env 0 w1) = (Ok (c\<lparr>s_id := mid\<rparr>), w')"
proof -
  from assms obtain c0 where c0: "\<not> cell_occupied cl" "\<not> cell_refused cl" "committed \<noteq> None"
    "session_resume shw mid msc (\<lambda>k. env (k + 1)) None child_st (env 0 w1) = (Ok c0, w')" "c = session_adopt_id child c0"
    by (auto simp: allocation_outcome_def split: if_splits prod.splits sum.splits)
  have "s_id c0 = mid"
    using c0(4) by (auto simp: session_resume_def session_resume_on_def restored_def Let_def
        split: prod.splits sum.splits option.splits bool.splits)
  with c0 show "\<not> cell_occupied cl" "\<not> cell_refused cl" "committed \<noteq> None" "s_id c = child"
    "session_resume shw mid msc (\<lambda>k. env (k + 1)) None child_st (env 0 w1) = (Ok (c\<lparr>s_id := mid\<rparr>), w')"
    by (simp_all add: session_adopt_id_def)
qed

text \<open>A successful transaction: the covered amount leaves the parent and arrives in the child.\<close>

lemma allocation_moves:
  assumes i: "is_i64 n" and n: "0 \<le> n" and ne: "view w me \<noteq> []" and empty: "view w child = []"
    and cov: "case fold_balance (view w me) of None \<Rightarrow> True | Some b \<Rightarrow> n \<le> b" and len: "length cs = 2"
    and v: "v = land (land (view w) me [allocated_event n pt psc child] [cm]) child
      [child_opened_event own_id csc pid meta, child_granted_event n ct csc pid] cs"
  shows "fold_balance (v me) = map_option (\<lambda>b. b - n) (fold_balance (view w me))"
    and "fold_balance (v child) = Some n" and "is_open_child session_child_scan pid (v child)"
    and "\<exists>sq ms ext. v child = recorded (child_opened_event own_id csc pid meta) sq ms # ext"
proof -
  let ?op = "child_opened_event own_id csc pid meta" and ?gr = "child_granted_event n ct csc pid"
  obtain c1 c2 where cs: "cs = [c1, c2]" using len by (auto simp: length_Suc_conv numeral_2_eq_2)
  have neq: "child \<noteq> me" using empty ne by auto
  have logc: "v child = [recorded ?op (c_seq c1) (c_epoch_ms c1), recorded ?gr (c_seq c2) (c_epoch_ms c2)]"
    using v cs empty neq by (simp add: land_def landed_def)
  have logm: "v me = view w me @ [recorded (allocated_event n pt psc child) (c_seq cm) (c_epoch_ms cm)]"
    using v neq by (simp add: land_1)
  show "fold_balance (v me) = map_option (\<lambda>b. b - n) (fold_balance (view w me))"
  proof (cases "fold_balance (view w me)")
    case None
    then show ?thesis by (simp add: logm ledger_step_moved)
  next
    case (Some b)
    with cov show ?thesis using ledger_step_kernel(3) [OF i n Some] by (simp add: logm)
  qed
  have "ledger_step None ?gr = Some (i64_saturating_add 0 n)"
    using i n by (simp add: ledger_step_granted ledger_amount_of)
  then show "fold_balance (v child) = Some n"
    using i by (simp add: fold_balance_def logc ledger_step_other i64_saturating_add_def i64_sat_id)
  show "is_open_child session_child_scan pid (v child)"
    by (simp add: is_open_child_def session_child_scan_def logc) (simp add: child_opened_event_def)
  show "\<exists>sq ms ext. v child = recorded ?op sq ms # ext" by (simp add: logc) blast
qed

text \<open>
  What the operations that only read leave of the streams: nothing changed, or exactly what the
  interference between their two store calls did.
\<close>

lemma resume_effect:
  assumes at: "seam_on st cst" and run: "session_resume_on mid msc env None cst w = (r, w')"
  shows "view w' = view w \<or> (\<exists>w1. view w1 = view w \<and> view w' = view (env 1 w1))"
proof -
  obtain rr w1 where rd: "cur_read cst 0 None w = (rr, w1)" by fastforce
  obtain re w2 where en: "has_ended cst (env 1 w1) = (re, w2)" by fastforce
  have "view w1 = view w" using cur_read_kinds_law(1) [OF at rd [unfolded cur_read_def]] .
  moreover have "view w2 = view (env 1 w1)" by (rule has_ended_law(1) [OF at en])
  moreover have "w' = w1 \<or> w' = w2"
    using run rd en by (auto simp: session_resume_on_def Let_def
        split: sum.splits option.splits bool.splits)
  ultimately show ?thesis by auto
qed

lemma resume_Ok_effect:
  assumes at: "seam_on st cst" and run: "session_resume_on mid msc env None cst w = (Ok s, w')"
  shows "\<exists>w1. view w1 = view w \<and> view w' = view (env 1 w1)"
proof -
  obtain rr w1 where rd: "cur_read cst 0 None w = (rr, w1)" by fastforce
  obtain re w2 where en: "has_ended cst (env 1 w1) = (re, w2)" by fastforce
  have "view w1 = view w" using cur_read_kinds_law(1) [OF at rd [unfolded cur_read_def]] .
  moreover have "view w2 = view (env 1 w1)" by (rule has_ended_law(1) [OF at en])
  moreover have "w' = w2"
    using run rd en by (auto simp: session_resume_on_def Let_def
        split: sum.splits option.splits bool.splits)
  ultimately show ?thesis by auto
qed

lemma resume_grows:
  assumes "seam_on st cst" and env: "only_adds view env"
    and "session_resume_on mid msc env None cst w = (r, w')"
  shows "streams_grow (view w) (view w')"
  using resume_effect [OF assms(1,3)] only_addsD [OF env] by (metis streams_grow_refl)

lemma open_child_law:
  assumes at: "seam_on st (s_store s)" and child: "lawful_store child_st view child"
    and env: "only_adds view env" and i: "is_i64 (alloc_amount alloc)" and ne: "view w me \<noteq> []"
    and run: "session_open_child shw csc mid msc env child own_id alloc meta child_st s w = (Ok c, w')"
  shows "\<exists>v wt we. v = view wt \<and> view we = view (env 0 wt) \<and> view w' = view (env 2 we)
    \<and> streams_grow v (view w') \<and> view w child = [] \<and> child \<noteq> me
    \<and> \<not> list_ex (\<lambda>e. cur_kind e = KIND_SESSION_CLOSED) (view w me)
    \<and> (case fold_balance (view w me) of None \<Rightarrow> True | Some b \<Rightarrow> alloc_amount alloc \<le> b)
    \<and> 0 \<le> alloc_amount alloc
    \<and> fold_balance (v me) = map_option (\<lambda>b. b - alloc_amount alloc) (fold_balance (view w me))
    \<and> fold_balance (v child) = Some (alloc_amount alloc)
    \<and> length (v me) = Suc (length (view w me)) \<and> length (v child) = 2
    \<and> (\<forall>x. x \<noteq> me \<longrightarrow> x \<noteq> child \<longrightarrow> v x = view w x)
    \<and> is_open_child session_child_scan (s_id s) (v child)
    \<and> s_id c = child \<and> sc_owner (s_scope c) = own_id \<and> sc_id (s_scope c) = csc
    \<and> \<not> s_closed c \<and> seam_on child_st (s_store c) \<and> cache_ok c (view w' child)"
proof -
  let ?n = "alloc_amount alloc" and ?cst = "\<lparr>inner = child_st, chain = [], shown = shw\<rparr>"
  from open_child_cases [OF at run] obtain pt ct r0 cl w1 where n: "0 \<le> ?n"
    and tx: "cur_append_if_many (s_store s) child (Some ALLOCATION_KINDS)
      (allocation_decision ?n pt ct (sc_id (s_scope s)) (s_id s) child own_id csc meta) cells_new w = (r0, cl, w1)"
    and r0: "case r0 of Err x \<Rightarrow> Ok c = (Err x :: 'w session knl_result) \<and> w' = w1
      | Ok committed \<Rightarrow> allocation_outcome shw mid msc env child ?n child_st committed cl w1 = (Ok c, w')"
    by (metis Inl_Inr_False)
  from r0 obtain committed where cmt: "r0 = Ok committed"
    and out: "allocation_outcome shw mid msc env child ?n child_st committed cl w1 = (Ok c, w')" by (cases r0) auto
  note ok = outcome_Ok [OF out]
  from allocation_step [OF at tx] cmt ok obtain cm cs where
    empty: "view w child = []" and live: "\<not> list_ex (\<lambda>e. cur_kind e = KIND_SESSION_CLOSED) (view w me)"
    and cov: "case fold_balance (view w me) of None \<Rightarrow> True | Some b \<Rightarrow> ?n \<le> b"
    and v: "view w1 = land (land (view w) me [allocated_event ?n pt (sc_id (s_scope s)) child] [cm]) child
      [child_opened_event own_id csc (s_id s) meta, child_granted_event ?n ct csc (s_id s)] cs" and len: "length cs = 2"
    by (cases committed) auto
  note moved = allocation_moves [OF i n ne empty cov len v]
  have env': "only_adds view (\<lambda>k. env (k + 1))" using env by (simp add: only_adds_def)
  have grow0: "streams_grow (view w1) (view (env 0 w1))" by (rule only_addsD [OF env])
  have cseam: "seam_on child_st ?cst" by (simp add: seam_on_def)
  from lawful_store.resume_Ok_effect [OF child cseam ok(5) [unfolded session_resume_def]]
  obtain we where we: "view we = view (env 0 w1)" "view w' = view (env 2 we)"
    by (auto simp: numeral_2_eq_2)
  have sizes: "length (view w1 me) = Suc (length (view w me))" "length (view w1 child) = 2"
    using v empty ne len by (auto simp: land_def landed_def)
  from lawful_store.resume_law [OF child cseam env' ok(5) [unfolded session_resume_def]]
  obtain opened_ev where
    find: "List.find (\<lambda>e. cur_kind e = KIND_SESSION_OPENED) (view (env 0 w1) child) = Some opened_ev"
    and c0: "c\<lparr>s_id := mid\<rparr> = restored mid msc ?cst (view (env 0 w1) child) opened_ev"
    and grow1: "streams_grow (view (env 0 w1)) (view w')"
    and cache: "cache_ok (c\<lparr>s_id := mid\<rparr>) (view w' child)" by blast
  from moved(4) grow0 obtain sq ms ext where
    "view (env 0 w1) child = recorded (child_opened_event own_id csc (s_id s) meta) sq ms # ext"
    unfolding streams_grow_def grows_def by (metis append_Cons)
  with find have oe: "opened_ev = recorded (child_opened_event own_id csc (s_id s) meta) sq ms" by simp
  have fields: "s_scope c = s_scope (c\<lparr>s_id := mid\<rparr>)" "s_store c = s_store (c\<lparr>s_id := mid\<rparr>)"
    "s_closed c = s_closed (c\<lparr>s_id := mid\<rparr>)" by simp_all
  have sc: "sc_owner (s_scope c) = own_id \<and> sc_id (s_scope c) = csc \<and> \<not> s_closed c \<and> seam_on child_st (s_store c)"
    unfolding fields c0 oe
    by (simp add: restored_def scope_restore_def string_field_def child_opened_event_def seam_on_def)
  have "cache_ok c (view w' child)" using cache by (simp add: cache_ok_def)
  moreover have "child \<noteq> me" using empty ne by auto
  moreover have "\<forall>x. x \<noteq> me \<longrightarrow> x \<noteq> child \<longrightarrow> view w1 x = view w x" using v by simp
  ultimately show ?thesis
    using we sizes streams_grow_trans [OF grow0 grow1] empty live cov n moved(1-3) ok(4) sc by blast
qed

lemma remaining_effect:
  assumes at: "seam_on st (s_store s)" and run: "session_remaining env s w = (r, s', w')"
  shows "view w' = view w \<or> (\<exists>w1. view w1 = view w \<and> view w' = view (env 1 w1))"
proof -
  obtain rh w1 where hd: "es_head st w = (rh, w1)" by (cases "es_head st w")
  obtain rr w2 where rd: "cur_read_kinds (s_store s) (Some BUDGET_KINDS) 0 None (env 1 w1) = (rr, w2)"
    by fastforce
  have "view w1 = view w" using head [OF hd] by simp
  moreover have "view w2 = view (env 1 w1)" by (rule cur_read_kinds_law(1) [OF at rd])
  moreover have "w' = w1 \<or> w' = w2"
    using run rd hd at by (auto simp: session_remaining_def cur_head_def seam_on_def Let_def
        split: prod.splits sum.splits if_splits)
  ultimately show ?thesis by auto
qed

text \<open>A refused, ended or occupied allocation: no child, and at most the refusal on the parent.\<close>

lemma open_child_refused:
  assumes at: "seam_on st (s_store s)"
    and no: "view w child \<noteq> [] \<or> list_ex (\<lambda>e. cur_kind e = KIND_SESSION_CLOSED) (view w me)
      \<or> (\<exists>b. fold_balance (view w me) = Some b \<and> b < alloc_amount alloc)"
    and run: "session_open_child shw csc mid msc env child own_id alloc meta child_st s w = (r, w')"
  shows "(\<exists>x. r = Err x) \<and> (view w' = view w
    \<or> (\<exists>b t cm. fold_balance (view w me) = Some b \<and> b < alloc_amount alloc \<and> view w' = land (view w) me
          [allocation_refused_event (alloc_amount alloc) b t (sc_id (s_scope s)) child] [cm]))"
  using at run
proof (cases rule: open_child_cases)
  case (transaction pt ct r0 cl w1)
  note law = allocation_step [OF at transaction(4)]
  show ?thesis
  proof (cases r0)
    case (Inl x)
    with transaction(5) law show ?thesis by simp
  next
    case (Inr committed)
    with law no have "cell_occupied cl \<or> committed = None \<or> cell_ended cl \<or> cell_refused cl"
      by (auto split: option.splits if_splits)
    with transaction(5) Inr have "(\<exists>x. r = Err x)" "w' = w1"
      by (auto simp: allocation_outcome_def split: if_splits)
    with law Inr no show ?thesis by (cases committed) (auto split: if_splits)
  qed
qed auto

end

end
