(* ===== verification/Reference_Log.thy ===== *)
theory Reference_Log
  imports Eventsdb Session_Lifecycle
begin

text \<open>
  A log kept as plain lists that satisfies every law of \<open>eventsdb_laws\<close>: the hypotheses of the
  session theorems can hold, and the witnesses run on it. It stands for no code of the
  repository. A database is the list of what was appended to it, in order, with the millisecond
  of each append (here the number of rows before it); the numbers a row carries are its place in
  its stream. The SQL a caller writes is answered with \<open>Unsupported\<close>; the one statement of the
  kernel's own, the child scan, is recognised by its text.
\<close>

type_synonym entry = "string \<times> event \<times> nat"
type_synonym ref_world = "string \<Rightarrow> entry list"

definition count_of :: "string \<Rightarrow> entry list \<Rightarrow> nat" where
  "count_of s xs = length (filter (\<lambda>x. fst x = s) xs)"

definition number_row :: "entry list \<Rightarrow> entry \<Rightarrow> row" where
  "number_row before x = (fst x, stamp (fst (snd x)) (Suc (count_of (fst x) before)) (snd (snd x)))"

definition number_rows :: "entry list \<Rightarrow> row list" where
  "number_rows xs = map (\<lambda>i. number_row (take i xs) (xs ! i)) [0..<length xs]"

definition ref_rows :: "ref_world \<Rightarrow> string \<Rightarrow> row list" where
  "ref_rows w l = number_rows (w l)"

section \<open>Operations\<close>

definition ref_tx_append :: "string \<Rightarrow> event \<Rightarrow> entry list \<Rightarrow> (es_error + es_committed) \<times> entry list" where
  "ref_tx_append s e tx =
     (Ok \<lparr>ec_position = Suc (length tx), ec_seq = Suc (count_of s tx), ec_epoch_ms = length tx\<rparr>,
      tx @ [(s, e, length tx)])"

fun ref_append_all :: "string \<Rightarrow> event list \<Rightarrow> entry list \<Rightarrow> es_committed list \<times> entry list" where
  "ref_append_all s [] tx = ([], tx)"
| "ref_append_all s (e # es) tx =
     (case ref_append_all s es (tx @ [(s, e, length tx)]) of
        (cs, tx') \<Rightarrow>
          (\<lparr>ec_position = Suc (length tx), ec_seq = Suc (count_of s tx), ec_epoch_ms = length tx\<rparr> # cs, tx'))"

definition ref_tx_append_many :: "string \<Rightarrow> event list \<Rightarrow> entry list \<Rightarrow> (es_error + es_committed list) \<times> entry list" where
  "ref_tx_append_many s es tx = (case ref_append_all s es tx of (cs, tx') \<Rightarrow> (Ok cs, tx'))"

definition ref_tx_read :: "entry list \<Rightarrow> string \<Rightarrow> kinds \<Rightarrow> nat \<Rightarrow> limit \<Rightarrow> es_error + event list" where
  "ref_tx_read tx s kinds from n = Ok (map as_read (selected kinds from n (stream_rows (number_rows tx) s)))"

definition ref_tx_query_strings :: "entry list \<Rightarrow> string \<Rightarrow> string \<Rightarrow> rusqlite_error + string list" where
  "ref_tx_query_strings tx sql parent =
     (if sql = child_scan_sql session_child_scan
      then Ok (map fst (sort_key (\<lambda>r. (epoch_of (snd r), fst r))
             (filter (scan_hit session_child_scan parent (number_rows tx)) (number_rows tx))))
      else Err (RusqliteOther ''only the child scan is answered''))"

definition ref_append :: "string \<Rightarrow> string \<Rightarrow> event \<Rightarrow> ref_world \<Rightarrow> (es_error + es_committed) \<times> ref_world" where
  "ref_append l s e w = (case ref_tx_append s e (w l) of (r, tx) \<Rightarrow> (r, w(l := tx)))"

definition ref_append_many ::
  "string \<Rightarrow> string \<Rightarrow> event list \<Rightarrow> ref_world \<Rightarrow> (es_error + es_committed list) \<times> ref_world" where
  "ref_append_many l s es w = (case ref_tx_append_many s es (w l) of (r, tx) \<Rightarrow> (r, w(l := tx)))"

definition ref_append_if ::
  "string \<Rightarrow> string \<Rightarrow> kinds \<Rightarrow> (event list \<Rightarrow> cells \<Rightarrow> event option \<times> cells) \<Rightarrow> cells \<Rightarrow> ref_world
     \<Rightarrow> (es_error + es_committed option) \<times> cells \<times> ref_world" where
  "ref_append_if l s kinds d c w =
     (case d (map as_read (of_kinds kinds (stream_rows (ref_rows w l) s))) c of
        (None, c') \<Rightarrow> (Ok None, c', w)
      | (Some e, c') \<Rightarrow> (case ref_append l s e w of (r, w') \<Rightarrow> (result_map Some r, c', w')))"

definition ref_with_transaction ::
  "string \<Rightarrow> entry list tx_body \<Rightarrow> cells \<Rightarrow> ref_world \<Rightarrow> (es_error + tx_answer) \<times> cells \<times> ref_world" where
  "ref_with_transaction l body c w =
     (case body (w l) c of
        (Err e, c', tx') \<Rightarrow> (Err e, c', w)
      | (Ok a, c', tx') \<Rightarrow> (Ok a, c', w(l := tx')))"

definition ref_log :: "(string, entry list, ref_world) eventsdb" where
  "ref_log =
     \<lparr>ev_database = (\<lambda>l. l),
      ev_append = ref_append,
      ev_append_many = ref_append_many,
      ev_append_if = ref_append_if,
      ev_read_kinds = (\<lambda>l s kinds from n w. (ref_tx_read (w l) s kinds from n, w)),
      ev_read_last = (\<lambda>l s k w. let es = stream_rows (ref_rows w l) s in
        (Ok (map as_read (drop (length es - k) es)), w)),
      ev_head = (\<lambda>l s w. let k = length (stream_rows (ref_rows w l) s) in
        (Ok (if k = 0 then None else Some k), w)),
      ev_len = (\<lambda>l s w. (Ok (length (stream_rows (ref_rows w l) s)), w)),
      ev_with_transaction = ref_with_transaction,
      ev_query_timeout = (\<lambda>l sql vs ms w. (Err (ES_Unsupported ''no SQL here''), w)),
      ev_detach_append = (\<lambda>l s e w. (case ref_append l s e w of (r, w') \<Rightarrow> (result_map (\<lambda>_. ()) r, w'))),
      tx_read = ref_tx_read,
      tx_append = ref_tx_append,
      tx_append_many = ref_tx_append_many,
      tx_query_strings = ref_tx_query_strings\<rparr>"

section \<open>The numbering\<close>

lemma number_rows_snoc: "number_rows (xs @ [x]) = number_rows xs @ [number_row xs x]"
  by (simp add: number_rows_def nth_append)

lemma length_stream_rows: "length (stream_rows (number_rows xs) s) = count_of s xs"
proof (induction xs rule: rev_induct)
  case (snoc x xs)
  then show ?case
    by (simp add: number_rows_snoc stream_rows_append) (simp add: stream_rows_def number_row_def count_of_def)
qed (simp add: number_rows_def stream_rows_def count_of_def)

lemma numbered_snoc: "numbered log \<Longrightarrow> cur_seq e = Suc (length log) \<Longrightarrow> numbered (log @ [e])"
  by (simp add: numbered_def)

lemma number_rows_dense: "numbered (stream_rows (number_rows xs) s)"
proof (induction xs rule: rev_induct)
  case (snoc x xs)
  have "stream_rows [number_row xs x] s =
      (if fst x = s then [stamp (fst (snd x)) (Suc (count_of s xs)) (snd (snd x))] else [])"
    by (auto simp: stream_rows_def number_row_def)
  with snoc show ?case
    by (auto simp: number_rows_snoc stream_rows_append length_stream_rows intro!: numbered_snoc)
qed (simp add: number_rows_def stream_rows_def numbered_def)

lemma ref_append_all_rows:
  "ref_append_all s es tx = (cs, tx') \<Longrightarrow>
     next_numbers (number_rows tx) s es cs \<and> number_rows tx' = number_rows tx @ new_rows s es cs"
proof (induction s es tx arbitrary: cs tx' rule: ref_append_all.induct)
  case (2 s e es tx)
  obtain cs1 where cs1: "ref_append_all s es (tx @ [(s, e, length tx)]) = (cs1, tx')"
    and cs: "cs = \<lparr>ec_position = Suc (length tx), ec_seq = Suc (count_of s tx), ec_epoch_ms = length tx\<rparr> # cs1"
    using "2.prems" by (auto split: prod.splits)
  let ?n = "count_of s tx"
  have n1: "count_of s (tx @ [(s, e, length tx)]) = Suc ?n" by (simp add: count_of_def)
  have "Suc ?n # [Suc (Suc ?n)..<Suc (Suc ?n) + length es] = [Suc ?n..<Suc ?n + length (e # es)]"
    by (simp add: upt_conv_Cons del: upt_Suc)
  moreover have "number_rows (tx @ [(s, e, length tx)]) = number_rows tx @ [(s, stamp e (Suc ?n) (length tx))]"
    by (simp add: number_rows_snoc number_row_def)
  ultimately show ?case
    using "2.IH" [OF cs1] unfolding next_numbers_def length_stream_rows n1
    by (simp add: cs new_rows_def del: upt_Suc)
qed (simp add: next_numbers_def new_rows_def)

lemma ref_tx_append_rows:
  "ref_tx_append s e tx = (Ok c, tx') \<Longrightarrow>
     next_numbers (number_rows tx) s [e] [c] \<and> number_rows tx' = number_rows tx @ new_rows s [e] [c]"
  by (auto simp: ref_tx_append_def next_numbers_def new_rows_def number_rows_snoc number_row_def length_stream_rows)

section \<open>The laws hold\<close>

lemma ref_rows_upd: "ref_rows (w(l := tx)) = (ref_rows w)(l := number_rows tx)"
  by (simp add: ref_rows_def fun_eq_iff)

lemma ref_rows_at: "number_rows (w l) = ref_rows w l"
  by (simp add: ref_rows_def)

lemma ref_append_law:
  "ref_append l s e w = (r, w') \<Longrightarrow>
     (case r of
        Ok c \<Rightarrow> next_numbers (ref_rows w l) s [e] [c]
          \<and> ref_rows w' = (ref_rows w)(l := ref_rows w l @ new_rows s [e] [c])
      | Err x \<Rightarrow> ref_rows w' = ref_rows w)"
  using ref_tx_append_rows [of s e "w l"]
  by (auto simp: ref_append_def ref_rows_upd ref_rows_at ref_tx_append_def)

lemma ref_append_many_law:
  "ref_append_many l s es w = (r, w') \<Longrightarrow>
     (case r of
        Ok cs \<Rightarrow> next_numbers (ref_rows w l) s es cs
          \<and> ref_rows w' = (ref_rows w)(l := ref_rows w l @ new_rows s es cs)
      | Err x \<Rightarrow> ref_rows w' = ref_rows w)"
  using ref_append_all_rows [of s es "w l"]
  by (auto simp: ref_append_many_def ref_tx_append_many_def ref_rows_upd ref_rows_at split: prod.splits)

lemma ref_append_if_law:
  assumes "ref_append_if l s kinds d c w = (r, c', w')"
  shows "case r of
      Ok (Some cm) \<Rightarrow> (\<exists>e. d (map as_read (of_kinds kinds (stream_rows (ref_rows w l) s))) c = (Some e, c')
        \<and> next_numbers (ref_rows w l) s [e] [cm]
        \<and> ref_rows w' = (ref_rows w)(l := ref_rows w l @ new_rows s [e] [cm]))
    | Ok None \<Rightarrow> d (map as_read (of_kinds kinds (stream_rows (ref_rows w l) s))) c = (None, c')
        \<and> ref_rows w' = ref_rows w
    | Err x \<Rightarrow> ref_rows w' = ref_rows w"
proof -
  obtain ans c1 where ans: "d (map as_read (of_kinds kinds (stream_rows (ref_rows w l) s))) c = (ans, c1)"
    by fastforce
  show ?thesis
  proof (cases ans)
    case None
    with assms ans show ?thesis by (auto simp: ref_append_if_def)
  next
    case (Some e)
    obtain ra wa where ra: "ref_append l s e w = (ra, wa)" by fastforce
    with assms ans Some ref_append_law [OF ra] show ?thesis
      by (cases ra) (auto simp: ref_append_if_def)
  qed
qed

lemma ref_with_transaction_law:
  "ref_with_transaction l body c w = (r, c', w') \<Longrightarrow>
     (case r of
        Ok a \<Rightarrow> (\<exists>tx tx'. number_rows tx = ref_rows w l \<and> body tx c = (Ok a, c', tx')
          \<and> ref_rows w' = (ref_rows w)(l := number_rows tx'))
      | Err x \<Rightarrow> ref_rows w' = ref_rows w)"
  by (auto simp: ref_with_transaction_def ref_rows_upd ref_rows_at split: prod.splits sum.splits)
     (metis ref_rows_at)

interpretation rl: eventsdb_laws ref_log ref_rows number_rows
proof (unfold_locales, goal_cases)
  case 1 show ?case by (simp add: ref_rows_def number_rows_dense)
next
  case 2 then show ?case using ref_append_law by (simp add: ref_log_def)
next
  case 3 then show ?case using ref_append_many_law by (simp add: ref_log_def)
next
  case 4 then show ?case using ref_append_if_law by (simp add: ref_log_def)
next
  case 5 then show ?case by (auto simp: ref_log_def ref_tx_read_def ref_rows_def)
next
  case 6 then show ?case by (auto simp: ref_log_def Let_def)
next
  case 7 then show ?case by (auto simp: ref_log_def Let_def)
next
  case 8 then show ?case by (auto simp: ref_log_def)
next
  case 9 then show ?case using ref_with_transaction_law by (simp add: ref_log_def)
next
  case 10 then show ?case by (auto simp: ref_log_def)
next
  case (11 l s e w rd w')
  then obtain r where r: "ref_append l s e w = (r, w')" by (auto simp: ref_log_def split: prod.splits)
  from ref_append_law [OF r] show ?case by (cases r) auto
next
  case 12 then show ?case by (auto simp: ref_log_def ref_tx_read_def)
next
  case 13 then show ?case using ref_tx_append_rows by (simp add: ref_log_def)
next
  case (14 s es tx cs tx')
  then show ?case using ref_append_all_rows [of s es tx] by (auto simp: ref_log_def ref_tx_append_many_def split: prod.splits)
next
  case (15 scn tx parent ids)
  then have "child_scan_sql scn = child_scan_sql session_child_scan"
    by (auto simp: ref_log_def ref_tx_query_strings_def split: if_splits)
  then have "scn = session_child_scan" by (rule child_scan_sql_inject)
  with 15 show ?case by (simp add: ref_log_def ref_tx_query_strings_def)
qed

end
