(* ===== verification/Session_Properties.thy ===== *)
theory Session_Properties
  imports Reference_Log
begin

text \<open>
  The properties of one session's operations, for every lawful store, each with a run on the
  reference log as its witness. The example session opens stream \<open>a\<close> of database \<open>db\<close> for
  \<open>alice\<close> with a grant of ten.
\<close>

section \<open>The example\<close>

definition demo_store :: "string \<Rightarrow> ref_world event_store" where
  "demo_store x = sqlite_event_store ref_log ''db'' x"

definition demo_view :: "ref_world \<Rightarrow> streams" where
  "demo_view = db_view ref_rows ''db''"

definition demo_shown :: "json \<Rightarrow> string" where
  "demo_shown v = []"

definition demo_session :: "ref_world session" where
  "demo_session =
     \<lparr>s_id = ''a'', s_scope = scope_new ''scope'' ''alice'' (Some (grant_new 10)),
      s_store = \<lparr>inner = demo_store ''a'', chain = [], shown = demo_shown\<rparr>,
      s_balance = (0, None), s_closed = False\<rparr>"

definition demo_world :: ref_world where
  "demo_world =
     snd (session_open_on demo_shown ''a'' ''scope'' ''alice'' (Some (grant_new 10)) None (demo_store ''a'') (\<lambda>_. []))"

lemma demo_lawful: "lawful_store (demo_store x) demo_view x"
  unfolding demo_store_def demo_view_def by (rule rl.sq.lawful_store_axioms)

lemma demo_seam: "seam_on (demo_store ''a'') (s_store demo_session)"
  by (simp add: demo_session_def seam_on_def)

lemma small_i64 [simp]: "is_i64 7" "is_i64 4" "is_i64 12" "is_i64 0" "is_i64 (-1)"
  by (simp_all add: is_i64_def i64_min_def i64_max_def)

section \<open>Reservations\<close>

text \<open>
  C1: a reservation is granted exactly when the balance of the log, at the moment the entry lands,
  covers it: then the balance falls by the amount, otherwise a refusal is recorded and the balance
  stays; with no grant in the log everything is allowed and nothing is written. A call that fails
  writes nothing.
\<close>

theorem reserve_exact:
  assumes "lawful_store st view me" and "seam_on st (s_store s)" and "is_i64 n"
    and "session_reserve n s w = (r, w')"
  shows "case r of
      Ok answer \<Rightarrow>
        (case fold_balance (view w me) of
           None \<Rightarrow> answer \<and> view w' = view w
         | Some b \<Rightarrow> answer = (n \<le> b)
             \<and> (\<exists>t cm. view w' = land (view w) me
                  [if answer then budget_move_event KIND_BUDGET_RESERVED n t (sc_id (s_scope s))
                   else refused_event n b t (sc_id (s_scope s))] [cm])
             \<and> fold_balance (view w' me) = Some (if answer then b - n else b))
    | Err x \<Rightarrow> view w' = view w"
proof (cases r)
  case (Inl x)
  with lawful_store.reserve_error [OF assms(1,2)] assms(4) show ?thesis by auto
next
  case (Inr answer)
  with lawful_store.reserve_law [OF assms(1,2,3)] assms(4) show ?thesis
    by (fastforce split: option.splits)
qed

theorem reserve_exact_witness:
  "fold_balance (demo_view (snd (session_reserve 7 demo_session demo_world)) ''a'') = Some 3
   \<and> fold_balance (demo_view (snd (session_reserve 12 demo_session demo_world)) ''a'') = Some 10"
proof -
  have bal: "fold_balance (demo_view demo_world ''a'') = Some 10" by code_simp
  have yes: "session_reserve 7 demo_session demo_world = (Ok True, snd (session_reserve 7 demo_session demo_world))"
    by (rule prod_eqI) (code_simp, simp)
  have no: "session_reserve 12 demo_session demo_world = (Ok False, snd (session_reserve 12 demo_session demo_world))"
    by (rule prod_eqI) (code_simp, simp)
  show ?thesis
    using reserve_exact [OF demo_lawful demo_seam _ yes] reserve_exact [OF demo_lawful demo_seam _ no] bal
    by simp
qed

text \<open>
  A spend records what was used and never refuses: the balance falls by the amount down to zero
  and no further; without a ledger nothing is written.
\<close>

theorem spend_exact:
  assumes "lawful_store st view me" and "seam_on st (s_store s)" and "is_i64 n"
    and "session_spend n s w = (r, w')"
  shows "case r of
      Ok u \<Rightarrow> 0 \<le> n \<and>
        (case fold_balance (view w me) of
           None \<Rightarrow> view w' = view w
         | Some b \<Rightarrow>
             (\<exists>t cm. view w' = land (view w) me [budget_move_event KIND_BUDGET_SPENT n t (sc_id (s_scope s))] [cm])
             \<and> fold_balance (view w' me) = Some (max 0 (b - n)))
    | Err x \<Rightarrow> view w' = view w"
proof (cases r)
  case (Inl x)
  with lawful_store.spend_error [OF assms(1,2)] assms(4) show ?thesis by auto
next
  case (Inr u)
  with lawful_store.spend_law [OF assms(1,2,3)] assms(4) show ?thesis
    by (fastforce split: option.splits)
qed

theorem spend_exact_witness:
  "fold_balance (demo_view (snd (session_spend 12 demo_session demo_world)) ''a'') = Some 0"
proof -
  have bal: "fold_balance (demo_view demo_world ''a'') = Some 10" by code_simp
  have run: "session_spend 12 demo_session demo_world = (Ok (), snd (session_spend 12 demo_session demo_world))"
    by (rule prod_eqI) (code_simp, simp)
  show ?thesis using spend_exact [OF demo_lawful demo_seam _ run] bal by simp
qed

section \<open>Appends\<close>

text \<open>
  A caller's event lands only when its kind is not the kernel's, it is well formed and the handle
  is open; it takes the next number and moves no balance. Everything else leaves the streams as they
  were.
\<close>

theorem append_guarded:
  assumes "lawful_store st view me" and "seam_on st (s_store s)" and "session_append e s w = (r, w')"
  shows "case r of
      Ok seq \<Rightarrow> \<not> s_closed s \<and> well_formed e \<and> \<not> is_kernel_only (cur_kind e)
        \<and> seq = Suc (length (view w me)) \<and> (\<exists>cm. c_seq cm = seq \<and> view w' = land (view w) me [e] [cm])
        \<and> fold_balance (view w' me) = fold_balance (view w me)
    | Err x \<Rightarrow> view w' = view w"
  by (rule lawful_store.append_law [OF assms])

theorem append_guarded_witness:
  "fst (session_append (kernel_event ''note'' []) demo_session demo_world) = Ok 3
   \<and> fold_balance (demo_view (snd (session_append (kernel_event ''note'' []) demo_session demo_world)) ''a'') = Some 10"
proof -
  let ?run = "session_append (kernel_event ''note'' []) demo_session demo_world"
  have bal: "fold_balance (demo_view demo_world ''a'') = Some 10" by code_simp
  have val: "fst ?run = Ok 3" by code_simp
  have run: "?run = (fst ?run, snd ?run)" by simp
  show ?thesis using append_guarded [OF demo_lawful demo_seam run] bal unfolding val by simp
qed

section \<open>Reading the balance\<close>

text \<open>
  C5: the cached balance is never stale: whatever other handles add while the call waits, the answer
  is the balance of the log at the beginning of the call or at its end, and the cache stays one a
  later call can trust.
\<close>

theorem remaining_fresh:
  assumes "lawful_store st view me" and "seam_on st (s_store s)" and "cache_ok s (view w me)"
    and "only_adds view env" and "session_remaining env s w = (r, s', w')"
  shows "streams_grow (view w) (view w') \<and> cache_ok s' (view w' me)
    \<and> (case r of Ok b \<Rightarrow> b = fold_balance (view w me) \<or> b = fold_balance (view w' me) | Err x \<Rightarrow> True)"
proof -
  note law = lawful_store.remaining_law [OF assms]
  show ?thesis
  proof (cases r)
    case (Inr b)
    with law(1,2) law(4) [OF Inr] show ?thesis by simp
  qed (use law(1,2) in simp)
qed

theorem remaining_fresh_witness:
  "fst (session_remaining (\<lambda>k w. w) demo_session demo_world) = Ok (Some 10)
   \<and> cache_ok (fst (snd (session_remaining (\<lambda>k w. w) demo_session demo_world)))
       (demo_view (snd (snd (session_remaining (\<lambda>k w. w) demo_session demo_world))) ''a'')"
proof -
  let ?run = "session_remaining (\<lambda>k w. w) demo_session demo_world"
  have cache: "cache_ok demo_session (demo_view demo_world ''a'')"
    by (rule cache_ok_fresh) (simp add: demo_session_def)
  have val: "fst ?run = Ok (Some 10)" by code_simp
  have run: "?run = (fst ?run, fst (snd ?run), snd (snd ?run))" by simp
  show ?thesis using remaining_fresh [OF demo_lawful demo_seam cache only_adds_id run] val by simp
qed

section \<open>Opening and resuming\<close>

text \<open>
  An opening is one write: either the stream gains the opening and, right behind it, the grant it
  was opened under, or nothing at all; the handle it returns is open, owns what it was given, and
  reads the new balance.
\<close>

theorem open_is_one_write:
  assumes "lawful_store st view me" and "session_open_on shw mid msc own_id g meta st w = (r, w')"
  shows "case r of
      Ok s \<Rightarrow> seam_on st (s_store s) \<and> s_scope s = scope_new msc own_id g \<and> \<not> s_closed s
        \<and> cache_ok s (view w' me)
        \<and> (\<exists>cs. placed (view w me) (opening_events own_id msc g meta) cs
             \<and> view w' = land (view w) me (opening_events own_id msc g meta) cs)
    | Err x \<Rightarrow> view w' = view w"
  using lawful_store.open_on_law [OF assms] by (cases r) auto

theorem open_is_one_write_witness:
  "length (demo_view demo_world ''a'') = 2"
proof -
  let ?run = "session_open_on demo_shown ''a'' ''scope'' ''alice'' (Some (grant_new 10)) None (demo_store ''a'') (\<lambda>_. [])"
  have val: "case fst ?run of Ok _ \<Rightarrow> True | Err _ \<Rightarrow> False" by code_simp
  have run: "?run = (fst ?run, snd ?run)" by simp
  have "length (demo_view (\<lambda>_. []) ''a'') = 0" by code_simp
  with open_is_one_write [OF demo_lawful run] val show ?thesis
    by (auto simp: demo_world_def land_def landed_def placed_def opening_events_def split: sum.splits)
qed



text \<open>
  C7: an opening and a resume of it are a round trip: whatever fresh ids the resume is given, the
  session that comes back has the scope that was opened (id, owner, and grant with its words) and the
  granted amount as its balance.
\<close>

theorem open_resume_roundtrip:
  assumes law: "lawful_store st view me" and empty: "view w me = []"
    and amt: "case g of None \<Rightarrow> True | Some gr \<Rightarrow> is_i64 (amount gr) \<and> 0 \<le> amount gr"
    and opn: "session_open_on shw mid msc own_id g meta st w = (Ok s, w1)"
    and res: "session_resume shw mid' msc' (\<lambda>k w. w) None st w1 = (Ok s', w2)"
  shows "s_scope s' = s_scope s \<and> snd (s_balance s') = map_option amount g"
proof -
  let ?cst = "\<lparr>inner = st, chain = [], shown = shw\<rparr>"
  have at: "seam_on st ?cst" by (simp add: seam_on_def)
  from lawful_store.open_on_law [OF law opn] empty obtain cs where
    sc: "s_scope s = scope_new msc own_id g" and cs: "length cs = length (opening_events own_id msc g meta)"
    and log: "view w1 me = landed (opening_events own_id msc g meta) cs"
    by (auto simp: placed_def land_def)
  from lawful_store.resume_law [OF law at only_adds_id res [unfolded session_resume_def]] obtain opened where
    find: "List.find (\<lambda>e. cur_kind e = KIND_SESSION_OPENED) (view w1 me) = Some opened"
    and s': "s' = restored mid' msc' ?cst (view w1 me) opened" by blast
  obtain c1 cs1 where cs1: "cs = c1 # cs1" using cs by (cases cs) (auto simp: opening_events_def)
  have opened: "opened = recorded (opened_event own_id msc meta) (c_seq c1) (c_epoch_ms c1)"
    using find by (simp add: log cs1 landed_def opening_events_def)
  have words: "string_field opened FIELD_SCOPE_ID = Some msc" "string_field opened FIELD_OWNER = Some own_id"
    by (simp_all add: opened string_field_def opened_event_def)
  have "last_grant (view w1 me) = g \<and> fold_balance (view w1 me) = map_option amount g"
  proof (cases g)
    case None
    then show ?thesis
      by (simp add: log cs1 landed_def opening_events_def last_grant_def fold_balance_def ledger_step_other)
  next
    case (Some gr)
    then obtain c2 where c2: "cs1 = [c2]" using cs cs1 by (cases cs1) (auto simp: opening_events_def)
    have amt': "ledger_amount (granted_event gr msc) = amount gr" "i64_saturating_add 0 (amount gr) = amount gr"
      using amt Some ledger_amount_of [of "amount gr"] by (simp_all add: i64_saturating_add_def i64_sat_id)
    have "string_field (recorded (granted_event gr msc) sq ms) FIELD_TAG = tag gr"
      "string_field (recorded (granted_event gr msc) sq ms) FIELD_DESC = desc gr" for sq ms
      by (cases "tag gr"; cases "desc gr"; simp add: string_field_def granted_event_def)+
    with amt' Some show ?thesis
      by (simp add: log cs1 c2 landed_def opening_events_def last_grant_def fold_balance_def ledger_step_other
          ledger_step_granted)
  qed
  then show ?thesis by (simp add: s' restored_def scope_restore_def words sc scope_new_def)
qed

theorem open_resume_roundtrip_witness:
  "\<exists>s s' w2. session_open_on demo_shown ''a'' ''scope'' ''alice'' (Some (grant_new 10)) None (demo_store ''a'') (\<lambda>_. [])
       = (Ok s, demo_world)
     \<and> session_resume demo_shown ''x'' ''y'' (\<lambda>k w. w) None (demo_store ''a'') demo_world = (Ok s', w2)
     \<and> s_scope s' = s_scope s"
proof -
  let ?o = "session_open_on demo_shown ''a'' ''scope'' ''alice'' (Some (grant_new 10)) None (demo_store ''a'') (\<lambda>_. [])"
  let ?r = "session_resume demo_shown ''x'' ''y'' (\<lambda>k w. w) None (demo_store ''a'') demo_world"
  have "case fst ?o of Ok _ \<Rightarrow> True | Err _ \<Rightarrow> False" by code_simp
  then obtain s where s: "?o = (Ok s, demo_world)"
    unfolding demo_world_def by (cases "fst ?o") (auto simp: prod_eq_iff)
  have "case fst ?r of Ok _ \<Rightarrow> True | Err _ \<Rightarrow> False" by code_simp
  then obtain s' where s': "?r = (Ok s', snd ?r)" by (cases "fst ?r") (auto simp: prod_eq_iff)
  have "demo_view (\<lambda>_. []) ''a'' = []" by code_simp
  moreover have "is_i64 10" by (simp add: is_i64_def i64_min_def i64_max_def)
  ultimately have "s_scope s' = s_scope s"
    using open_resume_roundtrip [OF demo_lawful _ _ s s'] by (simp add: grant_new_def)
  with s s' show ?thesis by blast
qed

end
