(* ===== verification/Tree_Properties.thy ===== *)
theory Tree_Properties
  imports Session_Properties
begin

text \<open>
  The properties of a session tree and of a session's end: allocation to a child, closing, granting
  again, the tail view, and the durable backend's contract.
\<close>

section \<open>The backend\<close>

text \<open>
  C4: the SQLite adapter implements the kernel's store contract: on any log that keeps the laws of
  \<open>eventsdb_laws\<close>, every log and stream of it is a lawful store (validation before the write,
  dense numbers, decisions inside the transaction, all or nothing over two streams, no trace of a
  failed call).
\<close>

theorem adapter_keeps_contract:
  assumes "eventsdb_laws E rows tx_rows"
  shows "lawful_store (sqlite_event_store E l x) (db_view rows l) x"
  by (rule eventsdb_laws.adapter_lawful [OF assms])

theorem adapter_keeps_contract_witness:
  "lawful_store (sqlite_event_store ref_log ''db'' ''a'') (db_view ref_rows ''db'') ''a''"
  by (rule adapter_keeps_contract [OF rl.eventsdb_laws_axioms])

section \<open>Allocation\<close>

definition demo_alloc :: "int \<Rightarrow> allocation" where
  "demo_alloc n = \<lparr>alloc_amount = n, alloc_tag = None\<rparr>"

definition demo_child :: "int \<Rightarrow> ref_world session knl_result \<times> ref_world" where
  "demo_child n = session_open_child demo_shown ''kid-scope'' ''m'' ''n'' (\<lambda>k w. w) ''kid'' ''bob'' (demo_alloc n) None
     (demo_store ''kid'') demo_session demo_world"

lemma demo_parent_log:
  "fold_balance (demo_view demo_world ''a'') = Some 10" "demo_view demo_world ''a'' \<noteq> []"
  by code_simp+

text \<open>
  C3: an allocation moves units and creates none: when a child opens, its stream was empty, the
  parent's log carried no ending and its balance covered the amount, and in the state \<open>v\<close> the one
  transaction leaves the parent's log has one entry more and its balance is lower by the amount, the
  child's log has two entries and its balance is the amount, no third stream changed, and the child's
  log names its parent. Whatever else the streams hold at the end came from the others, between the
  transaction and the reads that follow it: the call itself writes nothing after its transaction.
\<close>

theorem open_child_conserves:
  assumes "lawful_store st view me" and "seam_on st (s_store s)" and "lawful_store child_st view child"
    and "only_adds view env" and "is_i64 (alloc_amount alloc)" and "view w me \<noteq> []"
    and "session_open_child shw csc mid msc env child own_id alloc meta child_st s w = (Ok c, w')"
  shows "\<exists>v wt we. v = view wt \<and> view we = view (env 0 wt) \<and> view w' = view (env 2 we)
    \<and> streams_grow v (view w') \<and> view w child = [] \<and> child \<noteq> me
    \<and> \<not> list_ex (\<lambda>e. cur_kind e = KIND_SESSION_CLOSED) (view w me)
    \<and> (case fold_balance (view w me) of None \<Rightarrow> True | Some b \<Rightarrow> alloc_amount alloc \<le> b)
    \<and> 0 \<le> alloc_amount alloc
    \<and> fold_balance (v me) = map_option (\<lambda>b. b - alloc_amount alloc) (fold_balance (view w me))
    \<and> fold_balance (v child) = Some (alloc_amount alloc)
    \<and> length (v me) = Suc (length (view w me)) \<and> length (v child) = 2
    \<and> (\<forall>x. x \<noteq> me \<longrightarrow> x \<noteq> child \<longrightarrow> v x = view w x)
    \<and> is_open_child session_child_scan (s_id s) (v child)
    \<and> s_id c = child \<and> sc_owner (s_scope c) = own_id \<and> sc_id (s_scope c) = csc
    \<and> \<not> s_closed c \<and> seam_on child_st (s_store c) \<and> cache_ok c (view w' child)"
  by (rule lawful_store.open_child_law [OF assms])

theorem open_child_conserves_witness:
  "\<exists>c w'. demo_child 4 = (Ok c, w') \<and> fold_balance (demo_view w' ''a'') = Some 6
     \<and> fold_balance (demo_view w' ''kid'') = Some 4 \<and> length (demo_view w' ''kid'') = 2"
proof -
  have "case fst (demo_child 4) of Ok _ \<Rightarrow> True | Err _ \<Rightarrow> False" by code_simp
  then obtain c where c: "demo_child 4 = (Ok c, snd (demo_child 4))"
    by (cases "fst (demo_child 4)") (auto simp: prod_eq_iff)
  have "is_i64 (alloc_amount (demo_alloc 4))" by (simp add: demo_alloc_def)
  from open_child_conserves [OF demo_lawful demo_seam demo_lawful only_adds_id this demo_parent_log(2)
      c [unfolded demo_child_def]] obtain v where "v = demo_view (snd (demo_child 4))"
    and "fold_balance (v ''a'') = map_option (\<lambda>b. b - 4) (Some 10)" and "fold_balance (v ''kid'') = Some 4"
    and "length (v ''kid'') = 2"
    unfolding demo_parent_log(1) demo_child_def [symmetric]
    by (elim exE conjE) (simp only: demo_alloc_def allocation.select_convs)
  with c show ?thesis by (intro exI [of _ c] exI [of _ "snd (demo_child 4)"]) simp
qed

text \<open>
  An allocation the balance does not cover, one from a log that carries its ending, and one onto
  a stream with events in it all fail; the child's stream is untouched, and the most that is written
  is the refusal on the parent, which moves no balance.
\<close>

theorem open_child_refuses:
  assumes "lawful_store st view me" and "seam_on st (s_store s)"
    and "view w child \<noteq> [] \<or> list_ex (\<lambda>e. cur_kind e = KIND_SESSION_CLOSED) (view w me)
      \<or> (\<exists>b. fold_balance (view w me) = Some b \<and> b < alloc_amount alloc)"
    and "session_open_child shw csc mid msc env child own_id alloc meta child_st s w = (r, w')"
  shows "(\<exists>x. r = Err x) \<and> (\<forall>x. x \<noteq> me \<longrightarrow> view w' x = view w x)
    \<and> fold_balance (view w' me) = fold_balance (view w me)
    \<and> (view w' = view w \<or> (\<exists>b t cm. fold_balance (view w me) = Some b \<and> b < alloc_amount alloc
         \<and> view w' = land (view w) me
             [allocation_refused_event (alloc_amount alloc) b t (sc_id (s_scope s)) child] [cm]))"
  using lawful_store.open_child_refused [OF assms] by (auto simp: land_1)

theorem open_child_refuses_witness:
  "fold_balance (demo_view (snd (demo_child 12)) ''a'') = Some 10
   \<and> demo_view (snd (demo_child 12)) ''kid'' = demo_view demo_world ''kid''"
proof -
  have run: "demo_child 12 = (fst (demo_child 12), snd (demo_child 12))" by simp
  have "fold_balance (demo_view demo_world ''a'') = Some 10 \<and> 10 < alloc_amount (demo_alloc 12)"
    by (simp add: demo_parent_log demo_alloc_def)
  then show ?thesis
    using open_child_refuses [OF demo_lawful demo_seam _ run [unfolded demo_child_def]]
    by (auto simp: demo_parent_log demo_child_def)
qed

section \<open>Closing\<close>

text \<open>
  A close records the boundary with exactly the children that are open at that instant, and only
  then is the handle closed; a close that fails leaves the handle open and the streams as they were.
\<close>

theorem close_records_children:
  assumes "lawful_store st view me" and "seam_on st (s_store s)" and "\<not> s_closed s"
    and "plain_parents session_child_scan (view w)" and "session_close_with why detail s w = (r, s', w')"
  shows "case r of
      Ok u \<Rightarrow> s' = s\<lparr>s_closed := True\<rparr> \<and> (\<exists>ids cm. set ids = {c. is_open_child session_child_scan me (view w c)}
        \<and> view w' = land (view w) me [closing_event why detail ids] [cm])
    | Err x \<Rightarrow> s' = s \<and> view w' = view w"
  using lawful_store.close_law [OF assms(1,2,5,3)] assms(4) by (cases r) auto

theorem close_records_children_witness:
  "\<exists>ids cm. set ids = {c. is_open_child session_child_scan ''a'' (demo_view (snd (demo_child 4)) c)}
     \<and> demo_view (snd (snd (session_close_with None None demo_session (snd (demo_child 4)))))
         = land (demo_view (snd (demo_child 4))) ''a'' [closing_event None None ids] [cm]"
proof -
  let ?w = "snd (demo_child 4)" and ?run = "session_close_with None None demo_session (snd (demo_child 4))"
  have "plain_rows session_child_scan (ref_rows ?w ''db'')" by code_simp
  then have plain: "plain_parents session_child_scan (demo_view ?w)"
    unfolding demo_view_def db_view_def by (rule plain_rows_parents)
  have val: "fst ?run = Ok ()" by code_simp
  have opn: "\<not> s_closed demo_session" by (simp add: demo_session_def)
  have run: "?run = (fst ?run, fst (snd ?run), snd (snd ?run))" by simp
  from close_records_children [OF demo_lawful demo_seam opn plain run] show ?thesis
    unfolding val by auto
qed

text \<open>
  Closing is final for a handle: every write through a closed handle is answered with the class
  \<open>closed\<close> and touches nothing, and closing again is a no-op that succeeds.
\<close>

theorem closed_handle_is_final:
  assumes "s_closed s"
  shows "session_append_kernel e s w = (Err (Closed CLOSED_TEXT), w)
    \<and> session_reserve n s w = (Err (Closed CLOSED_TEXT), w)
    \<and> session_spend n s w = (Err (Closed CLOSED_TEXT), w)
    \<and> session_grant_more g s w = (Err (Closed CLOSED_TEXT), s, w)
    \<and> session_close_with why detail s w = (Ok (), s, w)
    \<and> session_close_detached txt s w = (s, w)
    \<and> (\<exists>m. session_open_child shw csc mid msc env child own_id alloc meta child_st s w = (Err (Closed m), w))
    \<and> (\<exists>x. session_append e s w = (Err x, w))"
  using assms
  by (simp add: session_append_kernel_def session_reserve_def session_spend_def session_grant_more_def
      session_close_with_def session_close_detached_def session_open_child_def session_append_def Let_def)

theorem closed_handle_is_final_witness:
  "session_reserve 4 (demo_session\<lparr>s_closed := True\<rparr>) demo_world = (Err (Closed CLOSED_TEXT), demo_world)"
  using closed_handle_is_final [of "demo_session\<lparr>s_closed := True\<rparr>"] by simp

section \<open>Granting again\<close>

text \<open>
  A grant that comes with a resume is recorded only on a stream that already keeps a ledger, and
  then raises the balance by the amount (up to the largest \<open>i64\<close>); in every other case it is an
  error that leaves the streams and the handle as they were.
\<close>

theorem grant_on_resume_guarded:
  assumes "lawful_store st view me" and "seam_on st (s_store s)" and "is_i64 (amount g)"
    and "session_grant_on_resume g s w = (r, s', w')"
  shows "case r of
      Ok u \<Rightarrow> 0 \<le> amount g \<and> last_grant (view w me) \<noteq> None
        \<and> fold_balance (view w' me) = Some (i64_saturating_add (the (fold_balance (view w me))) (amount g))
        \<and> sc_grant (s_scope s') = Some g
    | Err x \<Rightarrow> view w' = view w \<and> s' = s"
  using lawful_store.grant_on_resume_law [OF assms] by (cases r) auto

theorem grant_on_resume_guarded_witness:
  "fold_balance (demo_view (snd (snd (session_grant_on_resume (grant_new 7) demo_session demo_world))) ''a'') = Some 17"
proof -
  let ?run = "session_grant_on_resume (grant_new 7) demo_session demo_world"
  have run: "?run = (fst ?run, fst (snd ?run), snd (snd ?run))" by simp
  have val: "fst ?run = Ok ()" by code_simp
  have "i64_saturating_add 10 7 = 17"
    by (simp add: i64_saturating_add_def i64_sat_def i64_min_def i64_max_def)
  then show ?thesis
    using grant_on_resume_guarded [OF demo_lawful demo_seam _ run] unfolding val
    by (simp add: grant_new_def demo_parent_log)
qed

text \<open>
  \<open>grant_more\<close> checks the amount after the write: a negative grant that the store accepts is
  answered with a validation error although its \<open>budget_granted\<close> entry is in the log, and on a
  stream without a ledger that entry starts one with balance zero, so every later reservation of a
  positive amount is refused.
\<close>

theorem grant_more_negative_lands:
  assumes "lawful_store st view me" and "seam_on st (s_store s)" and "is_i64 (amount g)" and "amount g < 0"
    and "session_append_kernel (granted_event g (sc_id (s_scope s))) s w = (Ok seq, w')"
    and "fold_balance (view w me) = None"
  shows "\<exists>m. session_grant_more g s w = (Err (Validation m), s, w')
    \<and> length (view w' me) = Suc (length (view w me)) \<and> fold_balance (view w' me) = Some 0"
proof -
  have "scope_grant_more (s_scope s) g = (check_amount (amount g), s_scope s)"
    "\<exists>m. check_amount (amount g) = Err (Validation m)"
    using assms(4) by (auto simp: scope_grant_more_def check_amount_def)
  moreover have "ledger_amount (granted_event g (sc_id (s_scope s))) = 0"
    using assms(3,4) ledger_amount_of [of "amount g"] by simp
  ultimately show ?thesis
    using lawful_store.append_kernel_law [OF assms(1,2,5)] assms(5,6)
    by (auto simp: session_grant_more_def land_1 ledger_step_granted i64_saturating_add_def i64_sat_def
        i64_min_def i64_max_def)
qed

definition bare_world :: ref_world where
  "bare_world =
     snd (session_open_on demo_shown ''a'' ''scope'' ''alice'' None None (demo_store ''a'') (\<lambda>_. []))"

theorem grant_more_negative_lands_witness:
  "\<exists>w'. fold_balance (demo_view bare_world ''a'') = None \<and> fold_balance (demo_view w' ''a'') = Some 0"
proof -
  let ?g = "grant_new (-1)"
  let ?run = "session_append_kernel (granted_event ?g (sc_id (s_scope demo_session))) demo_session bare_world"
  have bal: "fold_balance (demo_view bare_world ''a'') = None" by code_simp
  have "fst ?run = Ok 2" by code_simp
  then have run: "?run = (Ok 2, snd ?run)" by (simp add: prod_eq_iff)
  have "is_i64 (amount ?g)" "amount ?g < 0" by (simp_all add: grant_new_def)
  from grant_more_negative_lands [where view = demo_view, OF demo_lawful demo_seam this run bal] bal
  show ?thesis by blast
qed

section \<open>The tail view\<close>

text \<open>
  The tail view shows the last \<open>n\<close> events of the stream in order (twenty when the caller does
  not say), verbatim, and writes nothing.
\<close>

theorem tail_view_correct:
  assumes "lawful_store st view me" and "seam_on st (s_store s)"
    and "session_view VIEW_TAIL opts s w = (r, w')"
  shows "view w' = view w \<and>
    (case r of
       Ok v \<Rightarrow> (\<exists>n. tail_count opts = Ok n \<and> v = JArray (map JObject (rev (take n (rev (view w me))))))
     | Err x \<Rightarrow> True)"
proof (cases "tail_count opts")
  case (Inl x)
  with assms(3) show ?thesis by (auto simp: session_view_def)
next
  case (Inr n)
  obtain rr where rr: "cur_read_last (s_store s) n w = (rr, w')" "r = result_map (\<lambda>es. tail_of es n) rr"
    using assms(3) Inr by (auto simp: session_view_def split: prod.splits)
  note law = lawful_store.cur_read_last_law [OF assms(1,2) rr(1)]
  show ?thesis
  proof (cases rr)
    case (Inr es)
    with law rr \<open>tail_count opts = Ok n\<close> show ?thesis
      by (auto simp: tail_of_def simp flip: last_drop_take)
  qed (use law rr in simp)
qed

theorem tail_view_correct_witness:
  "case fst (session_view VIEW_TAIL None demo_session demo_world) of
     Ok v \<Rightarrow> v = JArray (map JObject (demo_view demo_world ''a'')) | Err _ \<Rightarrow> False"
proof -
  let ?run = "session_view VIEW_TAIL None demo_session demo_world"
  have run: "?run = (fst ?run, snd ?run)" by simp
  have val: "case fst ?run of Ok _ \<Rightarrow> True | Err _ \<Rightarrow> False" by code_simp
  have len: "length (demo_view demo_world ''a'') = 2" by code_simp
  from tail_view_correct [OF demo_lawful demo_seam run] val show ?thesis
    by (auto simp: tail_count_def DEFAULT_TAIL_N_def len split: sum.splits)
qed

end
