(* ===== verification/Session_Machine.thy ===== *)
theory Session_Machine
  imports Tree_Properties
begin

text \<open>
  Many handles on one database. A configuration is the world and the handles in use, each with the
  stream it is on; a step is one operation of one handle, the opening, resuming or dropping of a
  handle, or something another process does. An operation that waits on the store more than once
  runs under interference; interference is \<open>friendly\<close> when it only adds to the streams and keeps
  the ledgers covered, and every step turns out to be friendly itself, so the interference may be
  any interleaving of other steps.
\<close>

section \<open>Configurations and steps\<close>

datatype op =
    Op_Append event
  | Op_Reserve int
  | Op_Spend int
  | Op_GrantMore budget_grant
  | Op_GrantOnResume budget_grant
  | Op_Remaining
  | Op_View string "json_map option"
  | Op_CloseWith "string option" "string option"
  | Op_CloseDetached string

text \<open>What one operation leaves of the handle and the world.\<close>

fun run_op :: "'w interference \<Rightarrow> op \<Rightarrow> 'w session \<Rightarrow> 'w \<Rightarrow> 'w session \<times> 'w" where
  "run_op env (Op_Append e) s w = (s, snd (session_append e s w))"
| "run_op env (Op_Reserve n) s w = (s, snd (session_reserve n s w))"
| "run_op env (Op_Spend n) s w = (s, snd (session_spend n s w))"
| "run_op env (Op_GrantMore g) s w = snd (session_grant_more g s w)"
| "run_op env (Op_GrantOnResume g) s w = snd (session_grant_on_resume g s w)"
| "run_op env Op_Remaining s w = snd (session_remaining env s w)"
| "run_op env (Op_View name opts) s w = (s, snd (session_view name opts s w))"
| "run_op env (Op_CloseWith why detail) s w = snd (session_close_with why detail s w)"
| "run_op env (Op_CloseDetached why) s w = session_close_detached why s w"

text \<open>Amounts are \<open>i64\<close> in the source.\<close>

fun op_i64 :: "op \<Rightarrow> bool" where
  "op_i64 (Op_Reserve n) = is_i64 n"
| "op_i64 (Op_Spend n) = is_i64 n"
| "op_i64 (Op_GrantMore g) = is_i64 (amount g)"
| "op_i64 (Op_GrantOnResume g) = is_i64 (amount g)"
| "op_i64 _ = True"

record 'w config =
  world :: 'w
  handles :: "nat \<Rightarrow> (string \<times> 'w session) option"

definition all_covered :: "streams \<Rightarrow> bool" where
  "all_covered v \<longleftrightarrow> (\<forall>x. covered (v x))"

definition friendly :: "('w \<Rightarrow> streams) \<Rightarrow> 'w interference \<Rightarrow> bool" where
  "friendly view env \<longleftrightarrow> only_adds view env \<and>
     (\<forall>k w. all_covered (view w) \<longrightarrow> all_covered (view (env k w)))"

inductive step :: "(string \<Rightarrow> 'w event_store) \<Rightarrow> ('w \<Rightarrow> streams) \<Rightarrow> 'w config \<Rightarrow> 'w config \<Rightarrow> bool"
  for store_of :: "string \<Rightarrow> 'w event_store" and view :: "'w \<Rightarrow> streams" where
  step_op: "handles c i = Some (x, s) \<Longrightarrow> friendly view env \<Longrightarrow> op_i64 p \<Longrightarrow>
    run_op env p s (world c) = (s', w') \<Longrightarrow>
    step store_of view c \<lparr>world = w', handles = (handles c)(i \<mapsto> (x, s'))\<rparr>"
| step_open: "session_open_on shw mid msc own_id g meta (store_of x) (world c) = (Ok s, w') \<Longrightarrow>
    step store_of view c \<lparr>world = w', handles = (handles c)(i \<mapsto> (x, s))\<rparr>"
| step_open_fails: "session_open_on shw mid msc own_id g meta (store_of x) (world c) = (Err e, w') \<Longrightarrow>
    step store_of view c (c\<lparr>world := w'\<rparr>)"
| step_resume: "friendly view env \<Longrightarrow>
    session_resume shw mid msc env None (store_of x) (world c) = (Ok s, w') \<Longrightarrow>
    step store_of view c \<lparr>world = w', handles = (handles c)(i \<mapsto> (x, s))\<rparr>"
| step_resume_fails: "friendly view env \<Longrightarrow>
    session_resume shw mid msc env None (store_of x) (world c) = (Err e, w') \<Longrightarrow>
    step store_of view c (c\<lparr>world := w'\<rparr>)"
| step_child: "handles c i = Some (x, s) \<Longrightarrow> friendly view env \<Longrightarrow> is_i64 (alloc_amount alloc) \<Longrightarrow>
    session_open_child shw csc mid msc env y own_id alloc meta (store_of y) s (world c) = (Ok s', w') \<Longrightarrow>
    step store_of view c \<lparr>world = w', handles = (handles c)(j \<mapsto> (y, s'))\<rparr>"
| step_child_fails: "handles c i = Some (x, s) \<Longrightarrow> friendly view env \<Longrightarrow> is_i64 (alloc_amount alloc) \<Longrightarrow>
    session_open_child shw csc mid msc env y own_id alloc meta (store_of y) s (world c) = (Err e, w') \<Longrightarrow>
    step store_of view c (c\<lparr>world := w'\<rparr>)"
| step_dropped: "handles c i = Some (x, s) \<Longrightarrow>
    session_close_detached CLOSE_REASON_DROPPED s (world c) = (s', w') \<Longrightarrow>
    step store_of view c \<lparr>world = w', handles = (handles c)(i := None)\<rparr>"
| step_elsewhere: "friendly view env \<Longrightarrow> step store_of view c (c\<lparr>world := env k (world c)\<rparr>)"

inductive_cases step_cases: "step store_of view c c'"

lemmas step_elim = step_cases [consumes 1, case_names step_op step_open step_open_fails step_resume
  step_resume_fails step_child step_child_fails step_dropped step_elsewhere]

section \<open>Covered ledgers stay covered\<close>

lemma covered_append:
  "covered log \<Longrightarrow> list_all (\<lambda>e. cur_kind e \<noteq> KIND_BUDGET_RESERVED) ext \<Longrightarrow> covered (log @ ext)"
proof (induction ext rule: rev_induct)
  case (snoc e ext)
  then have "covered (log @ ext)" "cur_kind e \<noteq> KIND_BUDGET_RESERVED" by simp_all
  then show ?case by (simp add: reservation_covered_def flip: append_assoc)
qed simp

lemma cur_kind_landed: "e \<in> set (landed es cs) \<Longrightarrow> cur_kind e \<in> cur_kind ` set es"
  by (auto simp: landed_def elim!: in_set_zipE)

lemma all_covered_land:
  assumes "all_covered v" and "list_all (\<lambda>e. cur_kind e \<noteq> KIND_BUDGET_RESERVED) es"
  shows "all_covered (land v x es cs)"
proof -
  have "list_all (\<lambda>e. cur_kind e \<noteq> KIND_BUDGET_RESERVED) (landed es cs)"
    using assms(2) cur_kind_landed by (fastforce simp: list_all_iff)
  with assms(1) show ?thesis by (auto simp: all_covered_def land_def intro: covered_append)
qed

lemma all_covered_reserved:
  assumes "all_covered v" and "reservation_covered (fold_balance (v x)) e"
  shows "all_covered (land v x [e] [c])"
  using assms by (auto simp: all_covered_def land_1)

text \<open>What a step may do to the streams, the guarantee side of \<open>friendly\<close>.\<close>

definition good_move :: "streams \<Rightarrow> streams \<Rightarrow> bool" where
  "good_move v v' \<longleftrightarrow> streams_grow v v' \<and> (all_covered v \<longrightarrow> all_covered v')"

lemma good_move_refl [simp]: "good_move v v"
  by (simp add: good_move_def)

lemma good_move_trans: "good_move a b \<Longrightarrow> good_move b c \<Longrightarrow> good_move a c"
  by (auto simp: good_move_def intro: streams_grow_trans)

lemma good_move_land:
  "list_all (\<lambda>e. cur_kind e \<noteq> KIND_BUDGET_RESERVED) es \<Longrightarrow> good_move v (land v x es cs)"
  by (simp add: good_move_def all_covered_land)

lemma good_move_reserved:
  "reservation_covered (fold_balance (v x)) e \<Longrightarrow> good_move v (land v x [e] [c])"
  by (simp add: good_move_def all_covered_reserved)

lemma friendly_iff: "friendly view env \<longleftrightarrow> (\<forall>k w. good_move (view w) (view (env k w)))"
  by (auto simp: friendly_def good_move_def only_adds_def)

lemma friendly_id [simp]: "friendly view (\<lambda>k w. w)"
  by (simp add: friendly_iff)

context lawful_store
begin

lemma run_reserve_good:
  assumes at: "seam_on st (s_store s)" and "is_i64 n"
  shows "good_move (view w) (view (snd (session_reserve n s w)))"
proof (cases "session_reserve n s w")
  case (Pair r w')
  show ?thesis
  proof (cases r)
    case (Inl x)
    with Pair reserve_error [OF at] show ?thesis by simp
  next
    case (Inr answer)
    note law = reserve_law [OF assms Pair [unfolded Inr]]
    show ?thesis
    proof (cases "fold_balance (view w me)")
      case (Some b)
      with law obtain t cm where n: "0 \<le> n" "answer = (n \<le> b)"
        and v: "view w' = land (view w) me
          [if answer then budget_move_event KIND_BUDGET_RESERVED n t (sc_id (s_scope s))
           else refused_event n b t (sc_id (s_scope s))] [cm]" by auto
      have "ledger_amount (budget_move_event KIND_BUDGET_RESERVED n t (sc_id (s_scope s))) = n"
        using assms(2) n(1) by (simp add: ledger_amount_of)
      with n(2) Some have "reservation_covered (fold_balance (view w me))
          (if answer then budget_move_event KIND_BUDGET_RESERVED n t (sc_id (s_scope s))
           else refused_event n b t (sc_id (s_scope s)))"
        by (simp add: reservation_covered_def)
      with v Pair show ?thesis by (simp only: snd_conv good_move_reserved)
    qed (use law Pair in simp)
  qed
qed

lemma run_spend_good:
  assumes at: "seam_on st (s_store s)" and "is_i64 n"
  shows "good_move (view w) (view (snd (session_spend n s w)))"
proof (cases "session_spend n s w")
  case (Pair r w')
  show ?thesis
  proof (cases r)
    case (Inl x)
    with Pair spend_error [OF at] show ?thesis by simp
  next
    case (Inr u)
    from spend_law [OF assms Pair [unfolded Inr]] Pair show ?thesis
      by (auto split: option.splits intro!: good_move_land)
  qed
qed

lemma run_append_good:
  assumes at: "seam_on st (s_store s)"
  shows "good_move (view w) (view (snd (session_append e s w)))"
proof (cases "session_append e s w")
  case (Pair r w')
  from append_law [OF at Pair] show ?thesis
    unfolding Pair by (cases r) (auto simp: is_kernel_only_def intro!: good_move_land)
qed

lemma effect_good:
  assumes "friendly view env" and "view w' = view w \<or> (\<exists>w1. view w1 = view w \<and> view w' = view (env k w1))"
  shows "good_move (view w) (view w')"
  using assms unfolding friendly_iff by (metis good_move_refl)

lemma run_read_good:
  assumes at: "seam_on st (s_store s)"
  shows "view (snd (session_view name opts s w)) = view w"
proof (cases "session_view name opts s w")
  case (Pair r w')
  then show ?thesis
    using cur_read_last_law(1) [OF at]
    by (auto simp: session_view_def split: if_splits sum.splits prod.splits)
qed

lemma run_close_good:
  assumes at: "seam_on st (s_store s)" and run: "session_close_with why detail s w = (r, s', w')"
  shows "good_move (view w) (view w') \<and> s_store s' = s_store s \<and> s_balance s' = s_balance s"
proof (cases "s_closed s")
  case True
  with run show ?thesis by (auto simp: session_close_with_def)
next
  case False
  from close_law [OF at run False] show ?thesis
    by (cases r) (auto intro!: good_move_land)
qed

lemma run_detached_good:
  assumes at: "seam_on st (s_store s)" and run: "session_close_detached why s w = (s', w')"
  shows "good_move (view w) (view w') \<and> s_store s' = s_store s \<and> s_balance s' = s_balance s"
proof (cases "s_closed s")
  case True
  with run show ?thesis by (auto simp: session_close_detached_def)
next
  case False
  with run at have "s' = s\<lparr>s_closed := True\<rparr>" "es_detach_append st (closing_event (Some why) None []) w = w'"
    by (auto simp: session_close_detached_def cur_detach_append_def seam_on_def)
  with detach [OF this(2)] show ?thesis by (auto intro!: good_move_land)
qed

lemma run_op_good:
  assumes at: "seam_on st (s_store s)" and cache: "cache_ok s (view w me)" and env: "friendly view env"
    and i: "op_i64 p" and run: "run_op env p s w = (s', w')"
  shows "good_move (view w) (view w') \<and> seam_on st (s_store s') \<and> cache_ok s' (view w' me)"
proof -
  have "good_move (view w) (view w') \<and> s_store s' = s_store s
      \<and> (s_balance s' = s_balance s \<or> cache_ok s' (view w' me))"
  proof (cases p)
    case (Op_GrantMore g)
    with run obtain r where "session_grant_more g s w = (r, s', w')" by (cases "session_grant_more g s w") auto
    from grant_more_law [OF at this] show ?thesis
    proof (elim disjE conjE exE)
      fix cm
      assume "view w' = land (view w) me [granted_event g (sc_id (s_scope s))] [cm]"
        and s': "s' = s\<lparr>s_scope := s_scope s'\<rparr>"
      moreover from s' have "s_store s' = s_store s" "s_balance s' = s_balance s" by (cases s; cases s'; simp)+
      ultimately show ?thesis by (auto intro!: good_move_land)
    qed simp
  next
    case (Op_GrantOnResume g)
    with run obtain r where r: "session_grant_on_resume g s w = (r, s', w')"
      by (cases "session_grant_on_resume g s w") auto
    from Op_GrantOnResume i have "is_i64 (amount g)" by simp
    from grant_on_resume_law [OF at this r] show ?thesis
      by (cases r) (auto intro!: good_move_land)
  next
    case Op_Remaining
    with run obtain r where r: "session_remaining env s w = (r, s', w')" by (cases "session_remaining env s w") auto
    have "only_adds view env" using env by (simp add: friendly_def)
    note law = remaining_law [OF at cache this r]
    have "s_store s' = s_store s" using law(3) by (cases s; cases s'; simp)
    with law(2) effect_good [OF env remaining_effect [OF at r]] show ?thesis by simp
  next
    case (Op_View name opts)
    with run run_read_good [OF at] show ?thesis by auto
  next
    case (Op_CloseWith why detail)
    with run obtain r where r: "session_close_with why detail s w = (r, s', w')"
      by (cases "session_close_with why detail s w") auto
    from run_close_good [OF at r] show ?thesis by simp
  next
    case (Op_CloseDetached why)
    with run run_detached_good [OF at] show ?thesis by simp
  qed (use run run_reserve_good [OF at] run_spend_good [OF at] run_append_good [OF at] i in auto)
  then have moved: "good_move (view w) (view w')" "s_store s' = s_store s"
    and "s_balance s' = s_balance s \<or> cache_ok s' (view w' me)" by simp_all
  moreover have "cache_ok s (view w' me)"
    using moved(1) cache by (intro cache_ok_grows [OF cache]) (simp add: good_move_def streams_grow_def)
  ultimately show ?thesis using at by (auto simp: cache_ok_def)
qed

lemma allocation_good:
  assumes at: "seam_on st cst" and i: "is_i64 n" and n: "0 \<le> n"
    and run: "cur_append_if_many cst child (Some ALLOCATION_KINDS)
      (allocation_decision n pt ct psc pid child own_id csc meta) cells_new w = (r, c, w')"
  shows "good_move (view w) (view w')"
proof (cases r)
  case (Inl x)
  with allocation_step [OF at run] show ?thesis by simp
next
  case (Inr committed)
  note law = allocation_step [OF at run, unfolded Inr, simplified]
  show ?thesis
  proof (cases committed)
    case None
    with law show ?thesis by simp
  next
    case (Some cms)
    show ?thesis
    proof (cases "cell_refused c")
      case True
      with law Some show ?thesis by (auto intro!: good_move_land)
    next
      case False
      with law Some obtain cm cs where
        cov: "case fold_balance (view w me) of None \<Rightarrow> True | Some b \<Rightarrow> n \<le> b"
        and v: "view w' = land (land (view w) me [allocated_event n pt psc child] [cm]) child
          [child_opened_event own_id csc pid meta, child_granted_event n ct csc pid] cs" by auto
      have "reservation_covered (fold_balance (view w me)) (allocated_event n pt psc child)"
        using cov i n ledger_amount_of [of n] by (simp add: reservation_covered_def split: option.splits)
      then have "good_move (view w) (land (view w) me [allocated_event n pt psc child] [cm])"
        by (rule good_move_reserved)
      then show ?thesis unfolding v by (rule good_move_trans) (simp add: good_move_land)
    qed
  qed
qed

lemma open_child_good:
  assumes at: "seam_on st (s_store s)" and child: "lawful_store child_st view child"
    and env: "friendly view env" and i: "is_i64 (alloc_amount alloc)"
    and run: "session_open_child shw csc mid msc env child own_id alloc meta child_st s w = (r, w')"
  shows "good_move (view w) (view w')"
  using at run
proof (cases rule: open_child_cases)
  case (transaction pt ct r0 cl w1)
  have first: "good_move (view w) (view w1)" by (rule allocation_good [OF at i transaction(2,4)])
  show ?thesis
  proof (cases r0)
    case (Inl x)
    with transaction(5) first show ?thesis by simp
  next
    case (Inr committed)
    let ?res = "session_resume shw mid msc (\<lambda>k. env (k + 1)) None child_st (env 0 w1)"
    have cseam: "seam_on child_st \<lparr>inner = child_st, chain = [], shown = shw\<rparr>" by (simp add: seam_on_def)
    have "friendly view (\<lambda>k. env (k + 1))" using env by (simp add: friendly_iff)
    moreover have "?res = (fst ?res, snd ?res)" by simp
    ultimately have "good_move (view (env 0 w1)) (view (snd ?res))"
      using effect_good lawful_store.resume_effect [OF child cseam] unfolding session_resume_def by blast
    moreover have "good_move (view w1) (view (env 0 w1))" using env by (simp add: friendly_iff)
    moreover have "w' = w1 \<or> w' = snd ?res"
      using transaction(5) Inr by (auto simp: allocation_outcome_def split: if_splits prod.splits sum.splits)
    ultimately show ?thesis using first by (auto intro: good_move_trans)
  qed
qed simp

end

section \<open>The invariant\<close>

definition handle_ok :: "(string \<Rightarrow> 'w event_store) \<Rightarrow> streams \<Rightarrow> string \<times> 'w session \<Rightarrow> bool" where
  "handle_ok store_of v h \<longleftrightarrow>
     seam_on (store_of (fst h)) (s_store (snd h)) \<and> cache_ok (snd h) (v (fst h)) \<and> v (fst h) \<noteq> []"

definition machine_ok :: "(string \<Rightarrow> 'w event_store) \<Rightarrow> ('w \<Rightarrow> streams) \<Rightarrow> 'w config \<Rightarrow> bool" where
  "machine_ok store_of view c \<longleftrightarrow> all_covered (view (world c)) \<and>
     (\<forall>i h. handles c i = Some h \<longrightarrow> handle_ok store_of (view (world c)) h)"

lemma handle_ok_grows: "handle_ok store_of v h \<Longrightarrow> streams_grow v v' \<Longrightarrow> handle_ok store_of v' h"
  unfolding handle_ok_def streams_grow_def
  by (metis append_is_Nil_conv cache_ok_grows grows_def)

lemma streams_grow_nonempty: "streams_grow v v' \<Longrightarrow> v x \<noteq> [] \<Longrightarrow> v' x \<noteq> []"
  unfolding streams_grow_def grows_def by (metis append_is_Nil_conv)

lemma handle_ok_open:
  assumes law: "lawful_store (store_of x) view x"
    and run: "session_open_on shw mid msc own_id g meta (store_of x) w = (Ok s, w')"
  shows "handle_ok store_of (view w') (x, s)" and "good_move (view w) (view w')"
proof -
  from lawful_store.open_on_law [OF law run] obtain cs where
    ok: "seam_on (store_of x) (s_store s)" "cache_ok s (view w' x)"
    and cs: "placed (view w x) (opening_events own_id msc g meta) cs"
    and v: "view w' = land (view w) x (opening_events own_id msc g meta) cs" by auto
  from cs obtain c0 cs0 where "cs = c0 # cs0" by (cases cs) (auto simp: placed_def opening_events_def)
  with v have "view w' x \<noteq> []" by (simp add: land_def landed_def opening_events_def)
  with ok show "handle_ok store_of (view w') (x, s)" by (simp add: handle_ok_def)
  have "list_all (\<lambda>e. cur_kind e \<noteq> KIND_BUDGET_RESERVED) (opening_events own_id msc g meta)"
    by (simp add: opening_events_def split: option.split)
  then show "good_move (view w) (view w')" unfolding v by (rule good_move_land)
qed

lemma handle_ok_resume:
  assumes law: "lawful_store (store_of x) view x" and env: "friendly view env"
    and run: "session_resume shw mid msc env None (store_of x) w = (r, w')"
  shows "r = Ok s \<Longrightarrow> handle_ok store_of (view w') (x, s)" and "good_move (view w) (view w')"
proof -
  let ?cst = "\<lparr>inner = store_of x, chain = [], shown = shw\<rparr>"
  have at: "seam_on (store_of x) ?cst" by (simp add: seam_on_def)
  have adds: "only_adds view env" using env by (simp add: friendly_def)
  note run' = run [unfolded session_resume_def]
  from lawful_store.resume_effect [OF law at run'] env show "good_move (view w) (view w')"
    by (rule lawful_store.effect_good [OF law, rotated])
  show "handle_ok store_of (view w') (x, s)" if "r = Ok s"
  proof -
    from lawful_store.resume_law [OF law at adds run' [unfolded that]] obtain opened where
      "List.find (\<lambda>e. cur_kind e = KIND_SESSION_OPENED) (view w x) = Some opened"
      "s = restored mid msc ?cst (view w x) opened" "streams_grow (view w) (view w')" "cache_ok s (view w' x)"
      by blast
    moreover from this(1) have "view w x \<noteq> []" by auto
    with calculation(3) have "view w' x \<noteq> []" by (rule streams_grow_nonempty)
    ultimately show ?thesis by (simp add: handle_ok_def restored_def seam_on_def)
  qed
qed

lemma handle_ok_child:
  assumes laws: "\<And>x. lawful_store (store_of x) view x" and h: "handle_ok store_of (view w) (x, s)"
    and env: "friendly view env" and i: "is_i64 (alloc_amount alloc)"
    and run: "session_open_child shw csc mid msc env y own_id alloc meta (store_of y) s w = (Ok s', w')"
  shows "handle_ok store_of (view w') (y, s')"
proof -
  have at: "seam_on (store_of x) (s_store s)" and ne: "view w x \<noteq> []" using h by (simp_all add: handle_ok_def)
  have adds: "only_adds view env" using env by (simp add: friendly_def)
  from lawful_store.open_child_law [OF laws at laws adds i ne run] obtain v where
    "streams_grow v (view w')" "fold_balance (v y) = Some (alloc_amount alloc)"
    "seam_on (store_of y) (s_store s')" "cache_ok s' (view w' y)" by blast
  moreover from this(2) have "v y \<noteq> []" by auto
  with calculation(1) have "view w' y \<noteq> []" by (rule streams_grow_nonempty)
  ultimately show ?thesis by (simp add: handle_ok_def)
qed

lemma machine_step:
  assumes laws: "\<And>x. lawful_store (store_of x) view x"
    and ok: "machine_ok store_of view c" and st: "step store_of view c c'"
  shows "good_move (view (world c)) (view (world c')) \<and> machine_ok store_of view c'"
proof -
  have keep: "machine_ok store_of view c'"
    if "good_move (view (world c)) (view (world c'))"
      and "\<And>i h. handles c' i = Some h \<Longrightarrow> handles c i = Some h \<or> handle_ok store_of (view (world c')) h"
    using that ok unfolding machine_ok_def good_move_def by (metis handle_ok_grows)
  have old: "handle_ok store_of (view (world c)) h" if "handles c i = Some h" for i h
    using ok that unfolding machine_ok_def by blast
  have "good_move (view (world c)) (view (world c'))
      \<and> (\<forall>i h. handles c' i = Some h \<longrightarrow> handles c i = Some h \<or> handle_ok store_of (view (world c')) h)"
    using st
  proof (cases rule: step_elim)
    case (step_op i x s env p s' w')
    from old [OF step_op(2)] have h: "seam_on (store_of x) (s_store s)" "cache_ok s (view (world c) x)"
      "view (world c) x \<noteq> []" by (simp_all add: handle_ok_def)
    note good = lawful_store.run_op_good [OF laws h(1,2) step_op(3-5)]
    then have "view w' x \<noteq> []" using streams_grow_nonempty h(3) unfolding good_move_def by blast
    with good show ?thesis by (auto simp: step_op(1) handle_ok_def)
  next
    case (step_open shw mid msc own_id g meta x s w' i)
    with handle_ok_open [of store_of x view, OF laws step_open(2)] show ?thesis by auto
  next
    case (step_open_fails shw mid msc own_id g meta x e w')
    with lawful_store.open_on_law [OF laws step_open_fails(2)] show ?thesis by simp
  next
    case (step_resume env shw mid msc x s w' i)
    with handle_ok_resume [of store_of x view, OF laws step_resume(2,3)] show ?thesis by auto
  next
    case (step_resume_fails env shw mid msc x e w')
    with handle_ok_resume(2) [of store_of x view, OF laws step_resume_fails(2,3)] show ?thesis by simp
  next
    case (step_child i x s env alloc shw csc mid msc y own_id meta s' w' j)
    note h = old [OF step_child(2)]
    have at: "seam_on (store_of x) (s_store s)" using h by (simp add: handle_ok_def)
    from lawful_store.open_child_good [OF laws at laws step_child(3-5)] handle_ok_child [OF laws h step_child(3-5)]
    show ?thesis by (auto simp: step_child(1))
  next
    case (step_child_fails i x s env alloc shw csc mid msc y own_id meta e w')
    have at: "seam_on (store_of x) (s_store s)" using old [OF step_child_fails(2)] by (simp add: handle_ok_def)
    from lawful_store.open_child_good [OF laws at laws step_child_fails(3-5)] show ?thesis
      by (simp add: step_child_fails(1))
  next
    case (step_dropped i x s s' w')
    have at: "seam_on (store_of x) (s_store s)" using old [OF step_dropped(2)] by (simp add: handle_ok_def)
    from lawful_store.run_detached_good [OF laws at step_dropped(3)] show ?thesis
      by (auto simp: step_dropped(1) split: if_splits)
  next
    case (step_elsewhere env k)
    then show ?thesis by (simp add: friendly_iff)
  qed
  with keep show ?thesis by blast
qed

lemma machine_steps:
  assumes laws: "\<And>x. lawful_store (store_of x) view x"
    and "(step store_of view)\<^sup>*\<^sup>* c c'" and ok: "machine_ok store_of view c"
  shows "good_move (view (world c)) (view (world c')) \<and> machine_ok store_of view c'"
  using assms(2)
proof (induction rule: rtranclp_induct)
  case (step d e)
  with machine_step [OF laws, of d e] show ?case by (auto intro: good_move_trans)
qed (simp add: ok)

section \<open>Properties\<close>

text \<open>
  C2: however many handles work on a database and however their operations interleave (openings,
  resumes, appends, reservations, spends, grants, allocations to children, closes and drops, with
  other processes in between), what a stream has reserved and what is left of its balance never
  exceed what was granted to it.
\<close>

theorem handles_never_overdraw:
  assumes "\<forall>x. lawful_store (store_of x) view x" and "(step store_of view)\<^sup>*\<^sup>* c c'"
    and "handles c = (\<lambda>i. None)" and "\<forall>x. view (world c) x = []"
  shows "reserved_total (view (world c') x)
      + (case fold_balance (view (world c') x) of None \<Rightarrow> 0 | Some b \<Rightarrow> b)
    \<le> granted_total (view (world c') x)"
proof -
  have "machine_ok store_of view c" using assms(3,4) by (simp add: machine_ok_def all_covered_def)
  with machine_steps [OF _ assms(2)] assms(1) have "machine_ok store_of view c'" by blast
  then show ?thesis by (simp add: machine_ok_def all_covered_def covered_account)
qed

lemma demo_run:
  "(step demo_store demo_view)\<^sup>*\<^sup>* \<lparr>world = (\<lambda>_. []), handles = (\<lambda>i. None)\<rparr>
     \<lparr>world = demo_world, handles = [0 \<mapsto> (''a'', demo_session)]\<rparr>"
proof -
  let ?o = "session_open_on demo_shown ''a'' ''scope'' ''alice'' (Some (grant_new 10)) None (demo_store ''a'') (\<lambda>_. [])"
  have "case fst ?o of Ok _ \<Rightarrow> True | Err _ \<Rightarrow> False" by code_simp
  then have "?o = (Ok demo_session, demo_world)"
    unfolding demo_world_def demo_session_def by (auto simp: open_on_eq split: prod.splits sum.splits)
  then show ?thesis
    by (intro r_into_rtranclp)
       (use step_open [where store_of = demo_store and view = demo_view and i = 0
        and c = "\<lparr>world = (\<lambda>_. []), handles = (\<lambda>i. None)\<rparr>"] in simp)
qed

theorem handles_never_overdraw_witness:
  "reserved_total (demo_view demo_world ''a'') + 10 \<le> granted_total (demo_view demo_world ''a'')"
proof -
  have empty: "demo_view (\<lambda>_. []) x = []" for x
    by (simp add: demo_view_def db_view_def ref_rows_def number_rows_def stream_view_def stream_rows_def)
  show ?thesis
    using handles_never_overdraw [OF _ demo_run, of "''a''"] demo_lawful
    by (simp add: empty demo_parent_log)
qed

text \<open>
  The log is append-only under every interleaving: each stream of a later configuration is the
  earlier one with events added at its end, and its sequence numbers stay dense from 1.
\<close>

theorem logs_only_grow:
  assumes "\<forall>x. lawful_store (store_of x) view x" and "(step store_of view)\<^sup>*\<^sup>* c c'"
    and "machine_ok store_of view c"
  shows "\<exists>ext. view (world c') x = view (world c) x @ ext
    \<and> map cur_seq (view (world c') x) = [1..<Suc (length (view (world c) x) + length ext)]"
proof -
  from assms machine_steps [OF _ assms(2,3)] obtain ext where ext: "view (world c') x = view (world c) x @ ext"
    by (auto simp: good_move_def streams_grow_def grows_def)
  moreover have "numbered (view (world c') x)" by (rule lawful_store.numbered [OF spec [OF assms(1)]])
  ultimately show ?thesis by (auto simp: numbered_def)
qed

theorem logs_only_grow_witness:
  "\<exists>ext. demo_view demo_world ''a'' = demo_view (\<lambda>_. []) ''a'' @ ext"
proof -
  have "machine_ok demo_store demo_view \<lparr>world = (\<lambda>_. []), handles = (\<lambda>i. None)\<rparr>"
    by (simp add: machine_ok_def all_covered_def demo_view_def db_view_def ref_rows_def number_rows_def
        stream_view_def stream_rows_def)
  from logs_only_grow [OF _ demo_run this, of "''a''"] demo_lawful show ?thesis by auto
qed

end
