(* ===== verification/Logs.thy ===== *)
theory Logs
  imports Sqlite_Store Session
begin

text \<open>
  The open logs a host holds, \<open>knl/logs.rs\<close>: one log per database file, one in-memory log, the
  one-time work of an open (the migration of an earlier release's table, the two indexes) and
  the shutdown; and the store constructors of \<open>knl/sqlite_store.rs\<close> and \<open>knl/session.rs\<close> that go
  through them. The file system, rusqlite connections and the eventsdb log are outside the
  repository: they are the record \<open>log_driver\<close> of functions. Decoding JSON text
  (\<open>serde_json::from_str\<close>) is the argument \<open>parse\<close>.
\<close>

section \<open>Paths\<close>

text \<open>\<open>std::path::Path\<close> (Unix) by its components, which is what equality of paths compares.\<close>

datatype component = RootDir | CurDir | ParentDir | Normal string

type_synonym path = "component list"

fun split_slash :: "string \<Rightarrow> string list" where
  "split_slash [] = [[]]"
| "split_slash (c # cs) =
     (if c = CHR ''/'' then [] # split_slash cs
      else (case split_slash cs of [] \<Rightarrow> [[c]] | p # ps \<Rightarrow> (c # p) # ps))"

definition components_of :: "string list \<Rightarrow> path" where
  "components_of ps =
     map (\<lambda>p. if p = ''..'' then ParentDir else Normal p) (filter (\<lambda>p. p \<noteq> [] \<and> p \<noteq> ''.'') ps)"

definition path_new :: "string \<Rightarrow> path" where
  "path_new s =
     (let ps = split_slash s in
      if starts_with ''/'' s then RootDir # components_of ps
      else if hd ps = ''.'' then CurDir # components_of (tl ps)
      else components_of ps)"

definition file_name :: "path \<Rightarrow> string option" where
  "file_name p = (if p = [] then None else (case last p of Normal n \<Rightarrow> Some n | _ \<Rightarrow> None))"

definition parent_path :: "path \<Rightarrow> path option" where
  "parent_path p = (if p = [] \<or> last p = RootDir then None else Some (butlast p))"

section \<open>What is outside\<close>

record exported_event =
  ex_stream :: string
  ex_position :: "nat option"
  ex_event :: event

record ('l, 'c, 'ct, 'lt, 'r, 'w) log_driver =
  fs_exists :: "path \<Rightarrow> 'w \<Rightarrow> bool"
  fs_canonicalize :: "path \<Rightarrow> 'w \<Rightarrow> path option"
  rt_join_error :: "'w \<Rightarrow> string option"
  conn_open :: "path \<Rightarrow> 'w \<Rightarrow> (rusqlite_error + 'c) \<times> 'w"
  conn_query_i64 :: "'c \<Rightarrow> string \<Rightarrow> string list \<Rightarrow> 'w \<Rightarrow> rusqlite_error + int"
  conn_user_version :: "'c \<Rightarrow> 'w \<Rightarrow> rusqlite_error + int"
  conn_query_strings :: "'c \<Rightarrow> string \<Rightarrow> 'w \<Rightarrow> rusqlite_error + (rusqlite_error + string) list"
  conn_transaction :: "'c \<Rightarrow> 'w \<Rightarrow> rusqlite_error + 'ct"
  ct_execute_batch :: "string \<Rightarrow> 'ct \<Rightarrow> (rusqlite_error + unit) \<times> 'ct"
  ct_commit :: "'ct \<Rightarrow> 'w \<Rightarrow> (rusqlite_error + unit) \<times> 'w"
  log_open_with :: "path \<Rightarrow> (json \<Rightarrow> json) list \<Rightarrow> 'w \<Rightarrow> (es_error + 'l) \<times> 'w"
  log_open_in_memory_with :: "(json \<Rightarrow> json) list \<Rightarrow> 'w \<Rightarrow> (es_error + 'l) \<times> 'w"
  log_database :: "'l \<Rightarrow> string"
  log_index_meta :: "'l \<Rightarrow> string \<Rightarrow> 'w \<Rightarrow> (es_error + unit) \<times> 'w"
  log_with_transaction ::
    "'l \<Rightarrow> ('lt \<Rightarrow> bool \<Rightarrow> (es_error + nat) \<times> bool \<times> 'lt) \<Rightarrow> bool \<Rightarrow> 'w \<Rightarrow> (es_error + nat) \<times> bool \<times> 'w"
  lt_execute_batch :: "string \<Rightarrow> 'lt \<Rightarrow> (rusqlite_error + unit) \<times> 'lt"
  lt_query_rows :: "'lt \<Rightarrow> string \<Rightarrow> rusqlite_error + (rusqlite_error + 'r) list"
  lt_import :: "exported_event \<Rightarrow> 'lt \<Rightarrow> (es_error + es_committed) \<times> 'lt"
  row_string :: "'r \<Rightarrow> nat \<Rightarrow> rusqlite_error + string"
  row_i64 :: "'r \<Rightarrow> nat \<Rightarrow> rusqlite_error + int"
  row_opt_string :: "'r \<Rightarrow> nat \<Rightarrow> rusqlite_error + string option"
  conversion_failure :: "nat \<Rightarrow> string \<Rightarrow> rusqlite_error"
  log_backup_to :: "'l \<Rightarrow> path \<Rightarrow> 'w \<Rightarrow> (es_error + unit) \<times> 'w"
  log_streams :: "'l \<Rightarrow> string option \<Rightarrow> string option \<Rightarrow> nat \<Rightarrow> 'w \<Rightarrow> (es_error + (string \<times> nat) list) \<times> 'w"
  log_shutdown :: "'l \<Rightarrow> 'w \<Rightarrow> (es_error + unit) \<times> 'w"

section \<open>The indexes of an open\<close>

definition options :: "(json \<Rightarrow> json) list" where
  "options = kernel_upcasters"

definition CHILD_INDEX_DDL :: string where
  "CHILD_INDEX_DDL = concat [''CREATE INDEX IF NOT EXISTS events_session_opened_parent '',
     ''ON events (json_extract(data, '', [CHR 0x27], ''$.parent'', [CHR 0x27], '')) '',
     ''WHERE kind = '', [CHR 0x27], ''session_opened'', [CHR 0x27], '';'']"

definition index_body ::
  "('l, 'c, 'ct, 'lt, 'r, 'w) log_driver \<Rightarrow> 'lt \<Rightarrow> bool \<Rightarrow> (es_error + nat) \<times> bool \<times> 'lt" where
  "index_body D tx flag =
     (case lt_execute_batch D CHILD_INDEX_DDL tx of
        (Err e, tx') \<Rightarrow> (Err (ES_Storage (rusqlite_text e)), flag, tx')
      | (Ok _, tx') \<Rightarrow> (Ok 0, flag, tx'))"

definition ensure_indexes ::
  "('l, 'c, 'ct, 'lt, 'r, 'w) log_driver \<Rightarrow> 'l \<Rightarrow> 'w \<Rightarrow> unit knl_result \<times> 'w" where
  "ensure_indexes D l w =
     (case log_index_meta D l FIELD_BEAT w of
        (Err e, w1) \<Rightarrow> (Err (knl_of_es e), w1)
      | (Ok _, w1) \<Rightarrow>
          (case log_with_transaction D l (index_body D) False w1 of
             (r, _, w2) \<Rightarrow> (map_err knl_of_es (result_map (\<lambda>_. ()) r), w2)))"

section \<open>The log of an earlier release\<close>

definition LEGACY_TABLE :: string where
  "LEGACY_TABLE = ''knl_legacy_events''"

definition LEGACY_INDEXES :: "string list" where
  "LEGACY_INDEXES = [''events_stream_kind_seq'', ''events_stream_beat_seq'', ''events_session_opened_parent'']"

definition table_exists ::
  "('l, 'c, 'ct, 'lt, 'r, 'w) log_driver \<Rightarrow> 'c \<Rightarrow> string \<Rightarrow> 'w \<Rightarrow> bool knl_result" where
  "table_exists D conn table w =
     map_err knl_of_rusqlite (result_map (\<lambda>count. count > 0)
       (conn_query_i64 D conn (concat [''SELECT COUNT(*) FROM sqlite_master WHERE type = '',
          [CHR 0x27], ''table'', [CHR 0x27], '' AND name = ?1'']) [table] w))"

fun find_column :: "string \<Rightarrow> (rusqlite_error + string) list \<Rightarrow> bool knl_result" where
  "find_column column [] = Ok False"
| "find_column column (Err e # rows) = Err (knl_of_rusqlite e)"
| "find_column column (Ok name # rows) = (if name = column then Ok True else find_column column rows)"

definition has_column ::
  "('l, 'c, 'ct, 'lt, 'r, 'w) log_driver \<Rightarrow> 'c \<Rightarrow> string \<Rightarrow> string \<Rightarrow> 'w \<Rightarrow> bool knl_result" where
  "has_column D conn table column w =
     (case conn_query_strings D conn (concat [''SELECT name FROM pragma_table_info('',
         [CHR 0x27], table, [CHR 0x27], '')'']) w of
        Err e \<Rightarrow> Err (knl_of_rusqlite e)
      | Ok rows \<Rightarrow> find_column column rows)"

fun drop_indexes ::
  "('l, 'c, 'ct, 'lt, 'r, 'w) log_driver \<Rightarrow> string list \<Rightarrow> 'ct \<Rightarrow> (rusqlite_error + unit) \<times> 'ct" where
  "drop_indexes D [] tx = (Ok (), tx)"
| "drop_indexes D (i # is) tx =
     (case ct_execute_batch D (''DROP INDEX IF EXISTS '' @ i) tx of
        (Err e, tx') \<Rightarrow> (Err e, tx')
      | (Ok _, tx') \<Rightarrow> drop_indexes D is tx')"

text \<open>A transaction that is dropped before its commit leaves the file as it was.\<close>

definition move_aside ::
  "('l, 'c, 'ct, 'lt, 'r, 'w) log_driver \<Rightarrow> 'c \<Rightarrow> 'w \<Rightarrow> (rusqlite_error + unit) \<times> 'w" where
  "move_aside D conn w =
     (case conn_transaction D conn w of
        Err e \<Rightarrow> (Err e, w)
      | Ok tx \<Rightarrow>
     (case ct_execute_batch D (''ALTER TABLE events RENAME TO '' @ LEGACY_TABLE) tx of
        (Err e, _) \<Rightarrow> (Err e, w)
      | (Ok _, tx1) \<Rightarrow>
     (case drop_indexes D LEGACY_INDEXES tx1 of
        (Err e, _) \<Rightarrow> (Err e, w)
      | (Ok _, tx2) \<Rightarrow> ct_commit D tx2 w)))"

definition prepare_legacy ::
  "('l, 'c, 'ct, 'lt, 'r, 'w) log_driver \<Rightarrow> path \<Rightarrow> 'w \<Rightarrow> bool knl_result \<times> 'w" where
  "prepare_legacy D p w =
     (if \<not> fs_exists D p w then (Ok False, w)
      else (case conn_open D p w of
        (Err e, w1) \<Rightarrow> (Err (knl_of_rusqlite e), w1)
      | (Ok conn, w1) \<Rightarrow>
     (case table_exists D conn LEGACY_TABLE w1 of
        Err e \<Rightarrow> (Err e, w1)
      | Ok True \<Rightarrow> (Ok True, w1)
      | Ok False \<Rightarrow>
     (case table_exists D conn ''events'' w1 of
        Err e \<Rightarrow> (Err e, w1)
      | Ok False \<Rightarrow> (Ok False, w1)
      | Ok True \<Rightarrow>
     (case conn_user_version D conn w1 of
        Err e \<Rightarrow> (Err (knl_of_rusqlite e), w1)
      | Ok user_version \<Rightarrow>
      if user_version \<noteq> 0 then (Ok False, w1)
      else (case has_column D conn ''events'' ''position'' w1 of
        Err e \<Rightarrow> (Err e, w1)
      | Ok True \<Rightarrow> (Ok False, w1)
      | Ok False \<Rightarrow>
     (case move_aside D conn w1 of
        (Err e, w2) \<Rightarrow> (Err (knl_of_rusqlite e), w2)
      | (Ok _, w2) \<Rightarrow> (Ok True, w2))))))))"

subsection \<open>The import\<close>

text \<open>\<open>as u64\<close> of an \<open>i64\<close>.\<close>

definition u64_of_i64 :: "int \<Rightarrow> nat" where
  "u64_of_i64 i = nat (i mod 2 ^ 64)"

definition decode_object ::
  "('l, 'c, 'ct, 'lt, 'r, 'w) log_driver \<Rightarrow> (string \<Rightarrow> json option) \<Rightarrow> string \<Rightarrow> rusqlite_error + json_map" where
  "decode_object D parse txt =
     (case parse txt of
        Some (JObject m) \<Rightarrow> Ok m
      | _ \<Rightarrow> Err (conversion_failure D 0
          (fmt [''a stored column of an earlier release'', [CHR 0x27], ''s log is not an object: '', txt])))"

text \<open>The event of a legacy row, out of its columns.\<close>

definition legacy_event :: "int \<Rightarrow> int \<Rightarrow> string \<Rightarrow> int \<Rightarrow> string option \<Rightarrow> json_map \<Rightarrow> json_map \<Rightarrow> event" where
  "legacy_event seq epoch_ms kind version beat meta data =
     (let meta' = (case beat of None \<Rightarrow> meta | Some b \<Rightarrow> map_or_insert FIELD_BEAT (JString b) meta) in
      map_insert SCHEMA_VERSION_FIELD (json_of_u64 (u64_of_i64 version))
       (map_insert FIELD_EPOCH_MS (json_of_u64 (u64_of_i64 epoch_ms))
        (map_insert FIELD_SEQ (json_of_u64 (u64_of_i64 seq))
         (map_insert FIELD_DATA (JObject data)
          (map_insert FIELD_META (JObject meta')
           (map_insert FIELD_KIND (JString kind) []))))))"

definition legacy_row ::
  "('l, 'c, 'ct, 'lt, 'r, 'w) log_driver \<Rightarrow> (string \<Rightarrow> json option) \<Rightarrow> 'r \<Rightarrow> rusqlite_error + (nat \<times> exported_event)" where
  "legacy_row D parse r =
     and_then (row_string D r 0) (\<lambda>stream.
     and_then (row_i64 D r 1) (\<lambda>seq.
     and_then (row_i64 D r 2) (\<lambda>epoch_ms.
     and_then (row_string D r 3) (\<lambda>kind.
     and_then (row_i64 D r 4) (\<lambda>schema_version.
     and_then (row_opt_string D r 5) (\<lambda>beat.
     and_then (row_string D r 6) (\<lambda>meta.
     and_then (row_string D r 7) (\<lambda>data.
     and_then (decode_object D parse meta) (\<lambda>meta_map.
     and_then (decode_object D parse data) (\<lambda>data_map.
       Ok (u64_of_i64 seq,
           \<lparr>ex_stream = stream, ex_position = None,
            ex_event = legacy_event seq epoch_ms kind schema_version beat meta_map data_map\<rparr>)))))))))))"

definition BY_CLOCK :: string where
  "BY_CLOCK = ''ORDER BY epoch_ms, stream, seq''"

definition BY_STREAM :: string where
  "BY_STREAM = ''ORDER BY stream, seq''"

definition legacy_sql :: "string \<Rightarrow> string" where
  "legacy_sql order =
     concat [''SELECT stream, seq, epoch_ms, kind, schema_version, beat, meta, data FROM '',
       LEGACY_TABLE, '' '', order]"

fun import_rows ::
  "('l, 'c, 'ct, 'lt, 'r, 'w) log_driver \<Rightarrow> (nat \<times> exported_event) list \<Rightarrow> bool \<Rightarrow> 'lt
     \<Rightarrow> (es_error + unit) \<times> bool \<times> 'lt" where
  "import_rows D [] reordered tx = (Ok (), reordered, tx)"
| "import_rows D ((was, exported) # rest) reordered tx =
     (case lt_import D exported tx of
        (Err e, tx1) \<Rightarrow> (Err e, reordered, tx1)
      | (Ok committed, tx1) \<Rightarrow>
          if ec_seq committed \<noteq> was
          then (Err (ES_Storage (fmt [''knl: importing an earlier release'', [CHR 0x27],
                  ''s log renumbered stream '', debug_string (ex_stream exported), '' ('',
                  string_of_nat was, '' became '', string_of_nat (ec_seq committed),
                  ''); the import is made again in stream order''])), True, tx1)
          else import_rows D rest reordered tx1)"

definition import_body ::
  "('l, 'c, 'ct, 'lt, 'r, 'w) log_driver \<Rightarrow> (string \<Rightarrow> json option) \<Rightarrow> string \<Rightarrow> 'lt \<Rightarrow> bool
     \<Rightarrow> (es_error + nat) \<times> bool \<times> 'lt" where
  "import_body D parse order tx reordered =
     (case and_then (lt_query_rows D tx (legacy_sql order))
             (collect_results (\<lambda>row. and_then row (legacy_row D parse))) of
        Err e \<Rightarrow> (Err (ES_Storage (rusqlite_text e)), reordered, tx)
      | Ok legacy \<Rightarrow>
     (case import_rows D legacy reordered tx of
        (Err e, reordered', tx1) \<Rightarrow> (Err e, reordered', tx1)
      | (Ok _, reordered', tx1) \<Rightarrow>
     (case lt_execute_batch D (''DROP TABLE '' @ LEGACY_TABLE) tx1 of
        (Err e, tx2) \<Rightarrow> (Err (ES_Storage (rusqlite_text e)), reordered', tx2)
      | (Ok _, tx2) \<Rightarrow> (Ok (length legacy), reordered', tx2))))"

definition import_legacy ::
  "('l, 'c, 'ct, 'lt, 'r, 'w) log_driver \<Rightarrow> (string \<Rightarrow> json option) \<Rightarrow> 'l \<Rightarrow> string \<Rightarrow> bool \<Rightarrow> 'w
     \<Rightarrow> nat knl_result \<times> bool \<times> 'w" where
  "import_legacy D parse l order reordered w =
     (case log_with_transaction D l (import_body D parse order) reordered w of
        (r, reordered', w') \<Rightarrow> (map_err knl_of_es r, reordered', w'))"

definition migrate_legacy ::
  "('l, 'c, 'ct, 'lt, 'r, 'w) log_driver \<Rightarrow> (string \<Rightarrow> json option) \<Rightarrow> 'l \<Rightarrow> 'w \<Rightarrow> unit knl_result \<times> 'w" where
  "migrate_legacy D parse l w =
     (case import_legacy D parse l BY_CLOCK False w of
        (Ok imported, _, w1) \<Rightarrow> (Ok (), w1)
      | (Err e, True, w1) \<Rightarrow>
          (case import_legacy D parse l BY_STREAM False w1 of
             (Ok imported, _, w2) \<Rightarrow> (Ok (), w2)
           | (Err e', _, w2) \<Rightarrow> (Err e', w2))
      | (Err e, False, w1) \<Rightarrow> (Err e, w1))"

section \<open>The collection\<close>

record 'l logs =
  lg_files :: "(path \<times> 'l) list"
  lg_memory :: "'l option"

definition logs_new :: "'l logs" where
  "logs_new = \<lparr>lg_files = [], lg_memory = None\<rparr>"

definition key_of :: "('l, 'c, 'ct, 'lt, 'r, 'w) log_driver \<Rightarrow> path \<Rightarrow> 'w \<Rightarrow> path" where
  "key_of D p w =
     (case (parent_path p, file_name p) of
        (Some parent, Some name) \<Rightarrow>
          (case fs_canonicalize D parent w of Some real \<Rightarrow> real @ [Normal name] | None \<Rightarrow> p)
      | _ \<Rightarrow> p)"

definition open_file ::
  "('l, 'c, 'ct, 'lt, 'r, 'w) log_driver \<Rightarrow> (string \<Rightarrow> json option) \<Rightarrow> path \<Rightarrow> 'w \<Rightarrow> 'l knl_result \<times> 'w" where
  "open_file D parse p w =
     (case prepare_legacy D p w of (prepared_r, w1) \<Rightarrow>
      case rt_join_error D w1 of
        Some why \<Rightarrow> (Err (Storage (fmt [''knl: the legacy check panicked: '', why])), w1)
      | None \<Rightarrow>
     (case prepared_r of
        Err e \<Rightarrow> (Err e, w1)
      | Ok legacy \<Rightarrow>
     (case log_open_with D p options w1 of
        (Err e, w2) \<Rightarrow> (Err (knl_of_es e), w2)
      | (Ok l, w2) \<Rightarrow>
     (case ensure_indexes D l w2 of
        (Err e, w3) \<Rightarrow> (Err e, w3)
      | (Ok _, w3) \<Rightarrow>
     (if legacy then
        (case migrate_legacy D parse l w3 of
           (Err e, w4) \<Rightarrow> (Err e, w4)
         | (Ok _, w4) \<Rightarrow> (Ok l, w4))
      else (Ok l, w3))))))"

definition logs_file ::
  "('l, 'c, 'ct, 'lt, 'r, 'w) log_driver \<Rightarrow> (string \<Rightarrow> json option) \<Rightarrow> path \<Rightarrow> 'l logs \<Rightarrow> 'w
     \<Rightarrow> 'l knl_result \<times> 'l logs \<times> 'w" where
  "logs_file D parse p lg w =
     (let key = key_of D p w in
      case map_of (lg_files lg) key of
        Some l \<Rightarrow> (Ok l, lg, w)
      | None \<Rightarrow>
          (case open_file D parse p w of
             (Err e, w') \<Rightarrow> (Err e, lg, w')
           | (Ok l, w') \<Rightarrow> (Ok l, lg\<lparr>lg_files := (key, l) # lg_files lg\<rparr>, w')))"

definition logs_memory ::
  "('l, 'c, 'ct, 'lt, 'r, 'w) log_driver \<Rightarrow> 'l logs \<Rightarrow> 'w \<Rightarrow> 'l knl_result \<times> 'l logs \<times> 'w" where
  "logs_memory D lg w =
     (case lg_memory lg of
        Some l \<Rightarrow> (Ok l, lg, w)
      | None \<Rightarrow>
     (case log_open_in_memory_with D options w of
        (Err e, w1) \<Rightarrow> (Err (knl_of_es e), lg, w1)
      | (Ok l, w1) \<Rightarrow>
     (case ensure_indexes D l w1 of
        (Err e, w2) \<Rightarrow> (Err e, lg, w2)
      | (Ok _, w2) \<Rightarrow> (Ok l, lg\<lparr>lg_memory := Some l\<rparr>, w2))))"

definition logs_database ::
  "('l, 'c, 'ct, 'lt, 'r, 'w) log_driver \<Rightarrow> (string \<Rightarrow> json option) \<Rightarrow> string \<Rightarrow> 'l logs \<Rightarrow> 'w
     \<Rightarrow> 'l knl_result \<times> 'l logs \<times> 'w" where
  "logs_database D parse database lg w =
     (case lg_memory lg of
        Some l \<Rightarrow>
          if log_database D l = database then (Ok l, lg, w) else logs_file D parse (path_new database) lg w
      | None \<Rightarrow> logs_file D parse (path_new database) lg w)"

definition logs_backup ::
  "('l, 'c, 'ct, 'lt, 'r, 'w) log_driver \<Rightarrow> (string \<Rightarrow> json option) \<Rightarrow> path \<Rightarrow> path \<Rightarrow> 'l logs \<Rightarrow> 'w
     \<Rightarrow> unit knl_result \<times> 'l logs \<times> 'w" where
  "logs_backup D parse database to lg w =
     (case logs_file D parse database lg w of
        (Err e, lg', w') \<Rightarrow> (Err e, lg', w')
      | (Ok l, lg', w') \<Rightarrow> (case log_backup_to D l to w' of (r, w'') \<Rightarrow> (map_err knl_of_es r, lg', w'')))"

record session_info =
  si_session :: string
  si_head_seq :: nat

definition logs_sessions ::
  "('l, 'c, 'ct, 'lt, 'r, 'w) log_driver \<Rightarrow> (string \<Rightarrow> json option) \<Rightarrow> path \<Rightarrow> string option \<Rightarrow> nat \<Rightarrow> 'l logs \<Rightarrow> 'w
     \<Rightarrow> session_info list knl_result \<times> 'l logs \<times> 'w" where
  "logs_sessions D parse database after n lg w =
     (case logs_file D parse database lg w of
        (Err e, lg', w') \<Rightarrow> (Err e, lg', w')
      | (Ok l, lg', w') \<Rightarrow>
          (case log_streams D l after None n w' of
             (r, w'') \<Rightarrow>
               (map_err knl_of_es (result_map (map (\<lambda>(s, h). \<lparr>si_session = s, si_head_seq = h\<rparr>)) r), lg', w'')))"

definition logs_len :: "'l logs \<Rightarrow> nat" where
  "logs_len lg = length (lg_files lg) + (case lg_memory lg of None \<Rightarrow> 0 | Some _ \<Rightarrow> 1)"

definition logs_is_empty :: "'l logs \<Rightarrow> bool" where
  "logs_is_empty lg = (logs_len lg = 0)"

fun shutdown_all ::
  "('l, 'c, 'ct, 'lt, 'r, 'w) log_driver \<Rightarrow> 'l list \<Rightarrow> 'w \<Rightarrow> es_error list \<times> 'w" where
  "shutdown_all D [] w = ([], w)"
| "shutdown_all D (l # ls) w =
     (case log_shutdown D l w of
        (Err e, w1) \<Rightarrow> (case shutdown_all D ls w1 of (es, w2) \<Rightarrow> (e # es, w2))
      | (Ok _, w1) \<Rightarrow> shutdown_all D ls w1)"

text \<open>The order in which the hash map drains is its own: the argument \<open>drain\<close>.\<close>

definition logs_shutdown ::
  "('l, 'c, 'ct, 'lt, 'r, 'w) log_driver \<Rightarrow> ('l list \<Rightarrow> 'l list) \<Rightarrow> 'l logs \<Rightarrow> 'w
     \<Rightarrow> es_error list \<times> 'l logs \<times> 'w" where
  "logs_shutdown D drain lg w =
     (case shutdown_all D (drain (map snd (lg_files lg))
             @ (case lg_memory lg of None \<Rightarrow> [] | Some l \<Rightarrow> [l])) w of
        (failures, w') \<Rightarrow> (failures, lg\<lparr>lg_files := [], lg_memory := None\<rparr>, w'))"

section \<open>Stores and sessions on the collection\<close>

definition store_open ::
  "('l, 'tx, 'w) eventsdb \<Rightarrow> ('l, 'c, 'ct, 'lt, 'r, 'w) log_driver \<Rightarrow> (string \<Rightarrow> json option) \<Rightarrow> path \<Rightarrow> string
     \<Rightarrow> 'l logs \<Rightarrow> 'w \<Rightarrow> 'w event_store knl_result \<times> 'l logs \<times> 'w" where
  "store_open E D parse p stream lg w =
     (case logs_file D parse p lg w of
        (r, lg', w') \<Rightarrow> (result_map (\<lambda>l. sqlite_event_store E l stream) r, lg', w'))"

definition store_open_memory ::
  "('l, 'tx, 'w) eventsdb \<Rightarrow> ('l, 'c, 'ct, 'lt, 'r, 'w) log_driver \<Rightarrow> string
     \<Rightarrow> 'l logs \<Rightarrow> 'w \<Rightarrow> 'w event_store knl_result \<times> 'l logs \<times> 'w" where
  "store_open_memory E D stream lg w =
     (case logs_memory D lg w of
        (r, lg', w') \<Rightarrow> (result_map (\<lambda>l. sqlite_event_store E l stream) r, lg', w'))"

definition session_new ::
  "('l, 'tx, 'w) eventsdb \<Rightarrow> ('l, 'c, 'ct, 'lt, 'r, 'w) log_driver \<Rightarrow> 'w interference \<Rightarrow> (json \<Rightarrow> string) \<Rightarrow> string \<Rightarrow> string \<Rightarrow> string
     \<Rightarrow> string \<Rightarrow> budget_grant option \<Rightarrow> json_map option \<Rightarrow> 'l logs \<Rightarrow> 'w
     \<Rightarrow> 'w session knl_result \<times> 'l logs \<times> 'w" where
  "session_new E D env shw minted_stream minted_id minted_scope own_id g meta lg w =
     (case store_open_memory E D minted_stream lg w of
        (Err e, lg', w1) \<Rightarrow> (Err e, lg', w1)
      | (Ok store, lg', w1) \<Rightarrow>
          (case session_open_on shw minted_id minted_scope own_id g meta store (env 0 w1) of
             (r, w2) \<Rightarrow> (result_map (session_adopt_id minted_stream) r, lg', w2)))"

section \<open>Properties\<close>

definition open_logs :: "'l logs \<Rightarrow> 'l list" where
  "open_logs lg = map snd (lg_files lg) @ (case lg_memory lg of None \<Rightarrow> [] | Some l \<Rightarrow> [l])"

definition one_per_key :: "'l logs \<Rightarrow> bool" where
  "one_per_key lg \<longleftrightarrow> distinct (map fst (lg_files lg))"

lemma logs_file_cases:
  obtains (held) l where "map_of (lg_files lg) (key_of D p w) = Some l" "logs_file D parse p lg w = (Ok l, lg, w)"
  | (failed) e w' where "map_of (lg_files lg) (key_of D p w) = None" "logs_file D parse p lg w = (Err e, lg, w')"
  | (opened) l w' where "map_of (lg_files lg) (key_of D p w) = None"
      "logs_file D parse p lg w = (Ok l, lg\<lparr>lg_files := (key_of D p w, l) # lg_files lg\<rparr>, w')"
  by (cases "map_of (lg_files lg) (key_of D p w)"; cases "open_file D parse p w"; cases "fst (open_file D parse p w)")
     (auto simp: logs_file_def Let_def)

lemma logs_file_held: "map_of (lg_files lg) (key_of D p w) = Some l \<Longrightarrow> logs_file D parse p lg w = (Ok l, lg, w)"
  by (simp add: logs_file_def)

lemma shutdown_all_effect:
  "shutdown_all D ls w = (fs, w') \<Longrightarrow>
     w' = fold (\<lambda>l v. snd (log_shutdown D l v)) ls w \<and> length fs \<le> length ls"
  by (induction ls arbitrary: w fs) (auto split: prod.splits sum.splits, fastforce+)

end
