(* ===== verification/Bridge_Knl.thy ===== *)
theory Bridge_Knl
  imports Logs
begin

text \<open>
  The kernel as a Lua script reaches it, \<open>bridge/knl.rs\<close>: the attribution of errors and its
  reader, the session userdata and its methods, what the options of \<open>knl.open\<close> and \<open>knl.resume\<close>
  mean, and the two calls themselves. What mlua and serde answer when they read a Lua value is an
  argument: \<open>de_answer\<close> is the deserializer's answer (a failure carries the path and the text),
  \<open>lua_value\<close> and \<open>table_arg\<close> are a value with what the bridge looks at. The tables a method
  builds for Lua are given as the JSON they are built from.
\<close>

section \<open>Errors\<close>

type_synonym 'a lua_result = "string + 'a"

definition attributed :: "string \<Rightarrow> string \<Rightarrow> string \<Rightarrow> string" where
  "attributed mthd kind rsn = ''knl: '' @ mthd @ '': '' @ kind @ '': '' @ rsn"

definition err_of :: "string \<Rightarrow> string \<Rightarrow> string \<Rightarrow> string" where
  "err_of mthd kind rsn = attributed mthd kind rsn"

definition lua_err :: "string \<Rightarrow> string \<Rightarrow> string" where
  "lua_err mthd rsn = err_of mthd VALIDATION rsn"

definition knl_err :: "string \<Rightarrow> knl_error \<Rightarrow> string" where
  "knl_err mthd e = err_of mthd (error_kind e) (reason e)"

text \<open>\<open>str::lines\<close>: without the line ends, and without an empty last line.\<close>

fun split_lines :: "string \<Rightarrow> string list" where
  "split_lines [] = []"
| "split_lines (c # cs) =
     (if c = CHR 0x0A then [] # split_lines cs
      else (case split_lines cs of [] \<Rightarrow> [[c]] | l # ls \<Rightarrow> (c # l) # ls))"

definition strip_cr :: "string \<Rightarrow> string" where
  "strip_cr l = (if l \<noteq> [] \<and> last l = CHR 0x0D then butlast l else l)"

text \<open>
  A carriage return belongs to a line end only together with its line feed: the last line keeps
  one when no line feed follows it.
\<close>

definition str_lines :: "string \<Rightarrow> string list" where
  "str_lines s =
     (let ls = split_lines s in
      if s \<noteq> [] \<and> last s \<noteq> CHR 0x0A then map strip_cr (butlast ls) @ [last ls] else map strip_cr ls)"

record error_table =
  et_kind :: "string option"
  et_method :: "string option"
  et_retryable :: bool
  et_message :: string
  et_tostring :: string

fun find_map :: "('a \<Rightarrow> 'b option) \<Rightarrow> 'a list \<Rightarrow> 'b option" where
  "find_map f [] = None"
| "find_map f (x # xs) = (case f x of None \<Rightarrow> find_map f xs | Some y \<Rightarrow> Some y)"

definition read_error :: "string \<Rightarrow> error_table" where
  "read_error raised =
     (let plain = \<lparr>et_kind = None, et_method = None, et_retryable = False, et_message = raised,
                   et_tostring = raised\<rparr> in
      case find_map (\<lambda>line. map_option snd (split_once ''knl: '' line)) (str_lines raised) of
        None \<Rightarrow> plain
      | Some found \<Rightarrow>
     (case split_once '': '' found of
        None \<Rightarrow> plain
      | Some (mthd, rest) \<Rightarrow>
     (case split_once '': '' rest of
        None \<Rightarrow> plain
      | Some (kind, message) \<Rightarrow>
          if kind \<in> set KINDS
          then plain\<lparr>et_method := Some mthd, et_kind := Some kind,
                 et_retryable := kind_is_retryable kind, et_message := message\<rparr>
          else plain)))"

section \<open>Reading a Lua value\<close>

text \<open>\<open>serde_path_to_error\<close> answers with the value, or the path it was at and the failure's text.\<close>

type_synonym 'a de_answer = "(string \<times> string) + 'a"

definition strip_prefix_or :: "string \<Rightarrow> string \<Rightarrow> string" where
  "strip_prefix_or pre s = (if starts_with pre s then drop (length pre) s else s)"

definition from_lua :: "string \<Rightarrow> string \<Rightarrow> 'a de_answer \<Rightarrow> 'a lua_result" where
  "from_lua mthd noun answer =
     map_err (\<lambda>(at_path, why).
       lua_err mthd (fmt [if at_path = [] \<or> at_path = ''.'' then noun else noun @ ''.'' @ at_path,
         '': '', strip_prefix_or ''deserialize error: '' why])) answer"

text \<open>A table is what \<open>lua_to_json\<close> makes of it; anything else has a type name.\<close>

datatype table_arg = LA_Table "string + json" | LA_Other string

definition table_to_object :: "string \<Rightarrow> string \<Rightarrow> table_arg \<Rightarrow> json_map lua_result" where
  "table_to_object mthd noun v =
     (case v of
        LA_Other type_name \<Rightarrow> Err (lua_err mthd (fmt [noun, '' must be a table, got '', type_name]))
      | LA_Table (Err e) \<Rightarrow> Err (lua_err mthd e)
      | LA_Table (Ok (JObject obj)) \<Rightarrow> Ok obj
      | LA_Table (Ok _) \<Rightarrow> Err (lua_err mthd (fmt [noun, '' must be a table with string keys''])))"

text \<open>An error value a block unwinds with, by its rendering.\<close>

datatype lua_value =
    LNil
  | LString string
  | LError string
  | LInteger int
  | LNumber string
  | LOther string

section \<open>The detail of a close\<close>

definition DETAIL_MAX_CHARS :: nat where
  "DETAIL_MAX_CHARS = 200"

text \<open>Text is UTF-8: a character starts at every byte that does not continue one.\<close>

definition continues :: "char \<Rightarrow> bool" where
  "continues c = (of_char c div 64 = (2 :: nat))"

definition char_count :: "string \<Rightarrow> nat" where
  "char_count s = length (filter (\<lambda>c. \<not> continues c) s)"

fun take_chars :: "nat \<Rightarrow> string \<Rightarrow> string" where
  "take_chars n [] = []"
| "take_chars n (c # cs) =
     (if continues c then c # take_chars n cs
      else (case n of 0 \<Rightarrow> [] | Suc k \<Rightarrow> c # take_chars k cs))"

definition truncated :: "string \<Rightarrow> string" where
  "truncated txt =
     (if char_count txt \<le> DETAIL_MAX_CHARS then txt else take_chars DETAIL_MAX_CHARS txt @ ''...'')"

definition error_detail :: "lua_value \<Rightarrow> string" where
  "error_detail e =
     truncated (case e of
        LString s \<Rightarrow> s
      | LError s \<Rightarrow> s
      | LInteger i \<Rightarrow> string_of_int i
      | LNumber s \<Rightarrow> s
      | LNil \<Rightarrow> ''<nil>''
      | LOther type_name \<Rightarrow> fmt [''<'', type_name, ''>''])"

section \<open>The session userdata\<close>

record identity =
  idt_id :: string
  idt_scope_id :: string
  idt_owner :: string

record 'w lua_session =
  ls_state :: "'w session"
  ls_identity :: identity

definition from_state :: "'w session \<Rightarrow> 'w lua_session" where
  "from_state s =
     \<lparr>ls_state = s,
      ls_identity = \<lparr>idt_id = s_id s, idt_scope_id = sc_id (s_scope s), idt_owner = sc_owner (s_scope s)\<rparr>\<rparr>"

definition lua_drop :: "'w lua_session \<Rightarrow> 'w \<Rightarrow> 'w" where
  "lua_drop ls w =
     (if s_closed (ls_state ls) then w
      else snd (session_close_detached CLOSE_REASON_DROPPED (ls_state ls) w))"

definition lua_id :: "'w lua_session \<Rightarrow> string" where
  "lua_id ls = idt_id (ls_identity ls)"

definition lua_scope_id :: "'w lua_session \<Rightarrow> string" where
  "lua_scope_id ls = idt_scope_id (ls_identity ls)"

definition lua_owner :: "'w lua_session \<Rightarrow> string" where
  "lua_owner ls = idt_owner (ls_identity ls)"

definition lua_append ::
  "unit de_answer \<Rightarrow> table_arg \<Rightarrow> 'w lua_session \<Rightarrow> 'w \<Rightarrow> nat lua_result \<times> 'w" where
  "lua_append shape_check event ls w =
     (case from_lua ''append'' ''event'' shape_check of
        Err e \<Rightarrow> (Err e, w)
      | Ok _ \<Rightarrow>
     (case table_to_object ''append'' ''event'' event of
        Err e \<Rightarrow> (Err e, w)
      | Ok obj \<Rightarrow>
     (case session_append obj (ls_state ls) w of (r, w') \<Rightarrow> (map_err (knl_err ''append'') r, w'))))"

definition lua_events ::
  "nat option \<Rightarrow> 'w lua_session \<Rightarrow> 'w \<Rightarrow> (json \<times> bool) lua_result \<times> 'w" where
  "lua_events from ls w =
     (case session_events (case from of None \<Rightarrow> 0 | Some n \<Rightarrow> n) (Some (DEFAULT_LIMIT + 1)) (ls_state ls) w of
        (Err e, w') \<Rightarrow> (Err (knl_err ''events'' e), w')
      | (Ok found, w') \<Rightarrow>
          (Ok (JArray (map JObject (take DEFAULT_LIMIT found)), DEFAULT_LIMIT < length found), w'))"

definition lua_len :: "'w lua_session \<Rightarrow> 'w \<Rightarrow> nat lua_result \<times> 'w" where
  "lua_len ls w = (case session_len (ls_state ls) w of (r, w') \<Rightarrow> (map_err (knl_err ''len'') r, w'))"

record view_opts_arg =
  vo_n :: "nat option"

definition view_opts :: "view_opts_arg option \<Rightarrow> json_map option" where
  "view_opts opts =
     map_option (\<lambda>o'. case vo_n o' of None \<Rightarrow> [] | Some n \<Rightarrow> map_insert ''n'' (json_of_u64 n) []) opts"

definition lua_view ::
  "string de_answer \<Rightarrow> view_opts_arg option de_answer \<Rightarrow> 'w lua_session \<Rightarrow> 'w \<Rightarrow> json lua_result \<times> 'w" where
  "lua_view name opts ls w =
     (case from_lua ''view'' ''name'' name of
        Err e \<Rightarrow> (Err e, w)
      | Ok nm \<Rightarrow>
     (case from_lua ''view'' ''opts'' opts of
        Err e \<Rightarrow> (Err e, w)
      | Ok os \<Rightarrow>
     (case session_view nm (view_opts os) (ls_state ls) w of (r, w') \<Rightarrow> (map_err (knl_err ''view'') r, w'))))"

datatype query_params_arg = PositionalArg "json list" | NamedArg json_map

definition query_params_of :: "query_params_arg option \<Rightarrow> query_params" where
  "query_params_of ps =
     (case ps of
        None \<Rightarrow> QP_None
      | Some (PositionalArg vs) \<Rightarrow> if vs = [] then QP_None else QP_Positional vs
      | Some (NamedArg named) \<Rightarrow> if named = [] then QP_None else QP_Named named)"

record query_opts_arg =
  qa_sessions :: "string list option"
  qa_timeout_ms :: "nat option"
  qa_limit :: "nat option"

definition query_opts_of :: "query_opts_arg option \<Rightarrow> query_opts" where
  "query_opts_of opts =
     (case opts of
        None \<Rightarrow> query_opts_default
      | Some o' \<Rightarrow>
          \<lparr>qo_sessions = qa_sessions o',
           qo_timeout_ms = (case qa_timeout_ms o' of None \<Rightarrow> DEFAULT_TIMEOUT_MS | Some n \<Rightarrow> n),
           qo_limit = (case qa_limit o' of None \<Rightarrow> DEFAULT_LIMIT | Some n \<Rightarrow> n)\<rparr>)"

definition lua_query ::
  "string de_answer \<Rightarrow> query_params_arg option de_answer \<Rightarrow> query_opts_arg option de_answer \<Rightarrow> 'w lua_session \<Rightarrow> 'w
     \<Rightarrow> (json \<times> bool) lua_result \<times> 'w" where
  "lua_query sql params opts ls w =
     (case from_lua ''query'' ''sql'' sql of
        Err e \<Rightarrow> (Err e, w)
      | Ok statement \<Rightarrow>
     (case from_lua ''query'' ''params'' params of
        Err e \<Rightarrow> (Err e, w)
      | Ok ps \<Rightarrow>
     (case from_lua ''query'' ''opts'' opts of
        Err e \<Rightarrow> (Err e, w)
      | Ok os \<Rightarrow>
     (case session_query statement (query_params_of ps) (query_opts_of os) (ls_state ls) w of
        (Err e, w') \<Rightarrow> (Err (knl_err ''query'' e), w')
      | (Ok found, w') \<Rightarrow> (Ok (JArray (map JObject (qr_rows found)), qr_truncated found), w')))))"

definition lua_reserve ::
  "int de_answer \<Rightarrow> 'w lua_session \<Rightarrow> 'w \<Rightarrow> (bool \<times> string option) lua_result \<times> 'w" where
  "lua_reserve n ls w =
     (case from_lua ''reserve'' ''amount'' n of
        Err e \<Rightarrow> (Err e, w)
      | Ok k \<Rightarrow>
     (case session_reserve k (ls_state ls) w of
        (Err e, w') \<Rightarrow> (Err (knl_err ''reserve'' e), w')
      | (Ok granted, w') \<Rightarrow>
          (Ok (granted, if granted then None else Option.bind (sc_grant (s_scope (ls_state ls))) tag), w')))"

definition lua_spend :: "int de_answer \<Rightarrow> 'w lua_session \<Rightarrow> 'w \<Rightarrow> unit lua_result \<times> 'w" where
  "lua_spend n ls w =
     (case from_lua ''spend'' ''amount'' n of
        Err e \<Rightarrow> (Err e, w)
      | Ok k \<Rightarrow> (case session_spend k (ls_state ls) w of (r, w') \<Rightarrow> (map_err (knl_err ''spend'') r, w')))"

definition lua_remaining ::
  "'w interference \<Rightarrow> 'w lua_session \<Rightarrow> 'w \<Rightarrow> int option lua_result \<times> 'w lua_session \<times> 'w" where
  "lua_remaining env ls w =
     (case session_remaining env (ls_state ls) w of
        (r, s, w') \<Rightarrow> (map_err (knl_err ''remaining'') r, ls\<lparr>ls_state := s\<rparr>, w'))"

definition lua_exhausted ::
  "'w interference \<Rightarrow> 'w lua_session \<Rightarrow> 'w \<Rightarrow> bool lua_result \<times> 'w lua_session \<times> 'w" where
  "lua_exhausted env ls w =
     (case session_exhausted env (ls_state ls) w of
        (r, s, w') \<Rightarrow> (map_err (knl_err ''exhausted'') r, ls\<lparr>ls_state := s\<rparr>, w'))"

definition lua_close ::
  "string option de_answer \<Rightarrow> string option de_answer \<Rightarrow> 'w lua_session \<Rightarrow> 'w
     \<Rightarrow> unit lua_result \<times> 'w lua_session \<times> 'w" where
  "lua_close why detail ls w =
     (case from_lua ''close'' ''reason'' why of
        Err e \<Rightarrow> (Err e, ls, w)
      | Ok why' \<Rightarrow>
     (case from_lua ''close'' ''detail'' detail of
        Err e \<Rightarrow> (Err e, ls, w)
      | Ok detail' \<Rightarrow>
     (case session_close_with why' (map_option truncated detail') (ls_state ls) w of
        (r, s, w') \<Rightarrow> (map_err (knl_err ''close'') r, ls\<lparr>ls_state := s\<rparr>, w'))))"

text \<open>\<open>__close(self, err)\<close>, at the end of a block.\<close>

definition lua_close_meta ::
  "lua_value \<Rightarrow> 'w lua_session \<Rightarrow> 'w \<Rightarrow> unit lua_result \<times> 'w lua_session \<times> 'w" where
  "lua_close_meta e ls w =
     (let unwinding = (e \<noteq> LNil);
          (why, detail) = (case e of
              LNil \<Rightarrow> (CLOSE_REASON_SCOPE_EXIT, None)
            | x \<Rightarrow> (CLOSE_REASON_ERROR, Some (error_detail x))) in
      if s_closed (ls_state ls) then (Ok (), ls, w)
      else (case session_close_with (Some why) detail (ls_state ls) w of
          (Ok _, s, w') \<Rightarrow> (Ok (), ls\<lparr>ls_state := s\<rparr>, w')
        | (Err x, s, w') \<Rightarrow>
            (if unwinding then Ok () else Err (knl_err ''close'' x), ls\<lparr>ls_state := s\<rparr>, w')))"

section \<open>Options\<close>

record budget_opt =
  bo_amount :: "int option"
  bo_tag :: "string option"
  bo_desc :: "string option"
  bo_from_parent :: "int option"

datatype budget_source = Grant budget_grant | FromParent allocation

definition budget_source_of :: "string \<Rightarrow> budget_opt option \<Rightarrow> budget_source option lua_result" where
  "budget_source_of mthd budget =
     (case budget of
        None \<Rightarrow> Ok None
      | Some b \<Rightarrow>
     (case bo_from_parent b of
        Some from_parent \<Rightarrow>
          (if bo_amount b \<noteq> None then Err (lua_err mthd (fmt [
              ''budget names both amount and from_parent: an owner'', [CHR 0x27], ''s grant and an allocation '',
              ''out of a parent'', [CHR 0x27], ''s balance are different claims about where the quota came from'']))
           else if bo_desc b \<noteq> None then Err (lua_err mthd (fmt [
              ''budget.desc belongs to an owner'', [CHR 0x27], ''s grant; an allocation records the parent it '',
              ''came from instead'']))
           else if from_parent < 0 then Err (lua_err mthd (fmt [
              ''budget.from_parent must be a non-negative whole number, got '', string_of_int from_parent]))
           else Ok (Some (FromParent \<lparr>alloc_amount = from_parent, alloc_tag = bo_tag b\<rparr>)))
      | None \<Rightarrow>
     (case bo_amount b of
        None \<Rightarrow> Err (lua_err mthd (fmt [
          ''budget.amount is required (non-negative whole number), or budget.from_parent to '',
          ''allocate out of a parent'', [CHR 0x27], ''s balance'']))
      | Some n \<Rightarrow>
          (if n < 0 then Err (lua_err mthd (fmt [
              ''budget.amount must be a non-negative whole number, got '', string_of_int n]))
           else Ok (Some (Grant \<lparr>amount = n, tag = bo_tag b, desc = bo_desc b\<rparr>))))))"

definition grant_only :: "string \<Rightarrow> budget_opt option \<Rightarrow> budget_grant option lua_result" where
  "grant_only mthd budget =
     (case budget_source_of mthd budget of
        Err e \<Rightarrow> Err e
      | Ok None \<Rightarrow> Ok None
      | Ok (Some (Grant g)) \<Rightarrow> Ok (Some g)
      | Ok (Some (FromParent _)) \<Rightarrow> Err (lua_err mthd (fmt [
          ''budget.from_parent allocates from a parent'', [CHR 0x27], ''s balance, which is what open{ parent = '',
          [CHR 0xE2, CHR 0x80, CHR 0xA6], '' } does; this call takes an owner'', [CHR 0x27], ''s grant (amount)''])))"

definition owner_of :: "string option \<Rightarrow> string lua_result" where
  "owner_of own_opt =
     (case own_opt of
        None \<Rightarrow> Ok ANON
      | Some own_id \<Rightarrow>
          if own_id = ANON \<or> own_id = SYSTEM
          then Err (lua_err ''open'' (fmt [''owner '', debug_string own_id, '' is reserved'']))
          else Ok own_id)"

text \<open>A label: text, a number (\<open>None\<close> when it is not finite), or a flag.\<close>

datatype meta_value = MText string | MNumber "f64 option" | MFlag bool

fun json_of_meta :: "meta_value \<Rightarrow> json" where
  "json_of_meta (MText s) = JString s"
| "json_of_meta (MNumber (Some x)) = JNumber (Float x)"
| "json_of_meta (MNumber None) = JNull"
| "json_of_meta (MFlag b) = JBool b"

definition meta_map :: "(string \<times> meta_value) list option \<Rightarrow> json_map option" where
  "meta_map meta =
     (case meta of
        None \<Rightarrow> None
      | Some m \<Rightarrow> if m = [] then None else Some (map (\<lambda>(k, v). (k, json_of_meta v)) m))"

definition under_host_labels :: "json_map \<Rightarrow> json_map option \<Rightarrow> json_map option" where
  "under_host_labels host script =
     (case (host = [], script) of
        (True, s) \<Rightarrow> s
      | (False, None) \<Rightarrow> Some host
      | (False, Some s) \<Rightarrow> Some (map_extend host s))"

datatype store_spec = Named string | File string

datatype store_target = Mem | Sqlite string

definition MEM_STORE :: string where
  "MEM_STORE = ''mem''"

definition store_target_of :: "string \<Rightarrow> store_spec \<Rightarrow> store_target lua_result" where
  "store_target_of mthd spec =
     (case spec of
        Named name \<Rightarrow>
          if name = MEM_STORE then Ok Mem
          else Err (lua_err mthd (fmt [''unknown store '', debug_string name, '' (expected '', [CHR 0x22], ''mem'',
            [CHR 0x22], '' or { sqlite = <path> })'']))
      | File p \<Rightarrow> Ok (Sqlite p))"

definition optional_target :: "string \<Rightarrow> store_spec option \<Rightarrow> store_target option lua_result" where
  "optional_target mthd spec =
     (case spec of None \<Rightarrow> Ok None | Some x \<Rightarrow> result_map Some (store_target_of mthd x))"

record open_opts =
  oo_owner :: "string option"
  oo_budget :: "budget_opt option"
  oo_store :: "store_spec option"
  oo_meta :: "(string \<times> meta_value) list option"

definition open_opts_default :: open_opts where
  "open_opts_default = \<lparr>oo_owner = None, oo_budget = None, oo_store = None, oo_meta = None\<rparr>"

record resume_opts =
  ro_store :: "store_spec option"
  ro_session :: string
  ro_budget :: "budget_opt option"

text \<open>
  The value of \<open>opts.parent\<close> (a userdata is a session handle or something else), and \<open>opts\<close>
  itself: a table gives its parent and, with that key left out, what the deserializer makes of
  the rest; looking into a table can raise.
\<close>

datatype 'w parent_value = PV_Nil | PV_UserData "'w lua_session option" | PV_Other string | PV_Raised string

datatype 'w open_arg = OA_Nil | OA_Table "'w parent_value" "string + open_opts de_answer" | OA_Other "open_opts de_answer"

definition parse_parent :: "'w open_arg \<Rightarrow> 'w lua_session option option lua_result" where
  "parse_parent opts =
     (case opts of
        OA_Table PV_Nil _ \<Rightarrow> Ok None
      | OA_Table (PV_UserData u) _ \<Rightarrow> Ok (Some u)
      | OA_Table (PV_Raised e) _ \<Rightarrow> Err e
      | OA_Table (PV_Other type_name) _ \<Rightarrow>
          Err (lua_err ''open'' (fmt [''parent must be a session (the userdata knl.open returns), got '', type_name]))
      | _ \<Rightarrow> Ok None)"

definition open_opts_of :: "'w open_arg \<Rightarrow> open_opts lua_result" where
  "open_opts_of opts =
     (case opts of
        OA_Nil \<Rightarrow> Ok open_opts_default
      | OA_Table _ rest \<Rightarrow> and_then rest (from_lua ''open'' ''opts'')
      | OA_Other answer \<Rightarrow> from_lua ''open'' ''opts'' answer)"

section \<open>Opening and resuming\<close>

text \<open>
  The parts outside the repository, in one record: the log and its driver, the decoding of JSON
  text, the rendering of a JSON value, and the ids \<open>uuid\<close> mints for one call.
\<close>

record ('l, 'tx, 'c, 'ct, 'lt, 'r, 'w) host_parts =
  hp_log :: "('l, 'tx, 'w) eventsdb"
  hp_driver :: "('l, 'c, 'ct, 'lt, 'r, 'w) log_driver"
  hp_parse :: "string \<Rightarrow> json option"
  hp_shown :: "json \<Rightarrow> string"
  hp_stream :: string
  hp_id :: string
  hp_scope :: string
  hp_child_scope :: string

definition open_sqlite ::
  "('l, 'tx, 'c, 'ct, 'lt, 'r, 'w) host_parts \<Rightarrow> 'w interference \<Rightarrow> string \<Rightarrow> budget_grant option
     \<Rightarrow> json_map option \<Rightarrow> path \<Rightarrow> 'l logs \<Rightarrow> 'w \<Rightarrow> 'w lua_session lua_result \<times> 'l logs \<times> 'w" where
  "open_sqlite H env own_id g meta p lg w =
     (case store_open (hp_log H) (hp_driver H) (hp_parse H) p (hp_stream H) lg w of
        (Err e, lg', w1) \<Rightarrow> (Err (knl_err ''open'' e), lg', w1)
      | (Ok store, lg', w1) \<Rightarrow>
     (case session_open_on (hp_shown H) (hp_id H) (hp_scope H) own_id g meta store (env 0 w1) of
        (Err e, w2) \<Rightarrow> (Err (knl_err ''open'' e), lg', w2)
      | (Ok s, w2) \<Rightarrow> (Ok (from_state (session_adopt_id (hp_stream H) s)), lg', w2)))"

definition lua_session_new ::
  "('l, 'tx, 'c, 'ct, 'lt, 'r, 'w) host_parts \<Rightarrow> 'w interference \<Rightarrow> string \<Rightarrow> budget_grant option
     \<Rightarrow> json_map option \<Rightarrow> 'l logs \<Rightarrow> 'w \<Rightarrow> 'w lua_session lua_result \<times> 'l logs \<times> 'w" where
  "lua_session_new H env own_id g meta lg w =
     (case session_new (hp_log H) (hp_driver H) env (hp_shown H) (hp_stream H) (hp_id H) (hp_scope H) own_id g meta lg w of
        (r, lg', w') \<Rightarrow> (map_err (knl_err ''open'') (result_map from_state r), lg', w'))"

definition resume_on ::
  "('l, 'tx, 'c, 'ct, 'lt, 'r, 'w) host_parts \<Rightarrow> 'w interference \<Rightarrow> budget_grant option \<Rightarrow> 'w event_store
     \<Rightarrow> string \<Rightarrow> 'w \<Rightarrow> 'w lua_session lua_result \<times> 'w" where
  "resume_on H env g store session_id w =
     (case session_resume (hp_shown H) (hp_id H) (hp_scope H) env None store w of
        (Err e, w1) \<Rightarrow> (Err (knl_err ''resume'' e), w1)
      | (Ok s, w1) \<Rightarrow>
          (if sc_owner (s_scope s) = SYSTEM
           then (Err (lua_err ''resume'' (fmt [''stream owner '', debug_string SYSTEM, '' is reserved''])), w1)
           else (case g of
               None \<Rightarrow> (Ok (from_state (session_adopt_id session_id s)), w1)
             | Some gr \<Rightarrow>
                 (case session_grant_more gr s (env 3 w1) of
                    (Err e, _, w2) \<Rightarrow> (Err (knl_err ''resume'' e), w2)
                  | (Ok _, s', w2) \<Rightarrow> (Ok (from_state (session_adopt_id session_id s')), w2)))))"

definition open_child_store ::
  "('l, 'tx, 'c, 'ct, 'lt, 'r, 'w) host_parts \<Rightarrow> store_target option \<Rightarrow> string \<Rightarrow> string \<Rightarrow> 'l logs \<Rightarrow> 'w
     \<Rightarrow> 'w event_store lua_result \<times> 'l logs \<times> 'w" where
  "open_child_store H named parent_db stream lg w =
     (case (case named of
         None \<Rightarrow>
           (case logs_database (hp_driver H) (hp_parse H) parent_db lg w of
              (r, lg', w') \<Rightarrow> (result_map (\<lambda>l. sqlite_event_store (hp_log H) l stream) r, lg', w'))
       | Some (Sqlite p) \<Rightarrow> store_open (hp_log H) (hp_driver H) (hp_parse H) (path_new p) stream lg w
       | Some Mem \<Rightarrow> store_open_memory (hp_log H) (hp_driver H) stream lg w) of
        (r, lg', w') \<Rightarrow> (map_err (knl_err ''open'') r, lg', w'))"

definition open_child_session ::
  "('l, 'tx, 'c, 'ct, 'lt, 'r, 'w) host_parts \<Rightarrow> 'w interference \<Rightarrow> 'w lua_session option \<Rightarrow> string \<Rightarrow> allocation
     \<Rightarrow> json_map option \<Rightarrow> store_target option \<Rightarrow> 'l logs \<Rightarrow> 'w
     \<Rightarrow> 'w lua_session lua_result \<times> 'l logs \<times> 'w" where
  "open_child_session H env parent own_id alloc meta named_store lg w =
     (case parent of
        None \<Rightarrow> (Err (lua_err ''open'' ''parent must be a session returned by knl.open / knl.resume''), lg, w)
      | Some handle \<Rightarrow>
     (case cur_database (s_store (ls_state handle)) of
        None \<Rightarrow> (Err (lua_err ''open'' (fmt [''the parent'', [CHR 0x27],
          ''s store keeps a single stream, so there is no database to open a child on''])), lg, w)
      | Some parent_db \<Rightarrow>
     (case open_child_store H named_store parent_db (hp_stream H) lg w of
        (Err e, lg', w1) \<Rightarrow> (Err e, lg', w1)
      | (Ok store, lg', w1) \<Rightarrow>
     (case session_open_child (hp_shown H) (hp_child_scope H) (hp_id H) (hp_scope H) (\<lambda>k. env (k + 1)) (hp_stream H)
             own_id alloc meta store (ls_state handle) (env 0 w1) of
        (Err e, w2) \<Rightarrow> (Err (knl_err ''open'' e), lg', w2)
      | (Ok child, w2) \<Rightarrow> (Ok (from_state child), lg', w2)))))"

definition open_root ::
  "('l, 'tx, 'c, 'ct, 'lt, 'r, 'w) host_parts \<Rightarrow> 'w interference \<Rightarrow> string \<Rightarrow> budget_source option
     \<Rightarrow> json_map option \<Rightarrow> store_target option \<Rightarrow> path \<Rightarrow> 'l logs \<Rightarrow> 'w
     \<Rightarrow> 'w lua_session lua_result \<times> 'l logs \<times> 'w" where
  "open_root H env own_id budget meta named_store default_store lg w =
     (case budget of
        Some (FromParent _) \<Rightarrow> (Err (lua_err ''open'' (fmt [
          ''budget.from_parent allocates out of a parent'', [CHR 0x27], ''s balance, so it needs '',
          ''opts.parent: the session to open this one from''])), lg, w)
      | _ \<Rightarrow>
          (let g = (case budget of Some (Grant gr) \<Rightarrow> Some gr | _ \<Rightarrow> None) in
           case named_store of
             None \<Rightarrow> open_sqlite H env own_id g meta default_store lg w
           | Some Mem \<Rightarrow> lua_session_new H env own_id g meta lg w
           | Some (Sqlite p) \<Rightarrow> open_sqlite H env own_id g meta (path_new p) lg w))"

definition open_session ::
  "('l, 'tx, 'c, 'ct, 'lt, 'r, 'w) host_parts \<Rightarrow> 'w interference \<Rightarrow> 'w open_arg \<Rightarrow> path \<Rightarrow> json_map \<Rightarrow> 'l logs \<Rightarrow> 'w
     \<Rightarrow> 'w lua_session lua_result \<times> 'l logs \<times> 'w" where
  "open_session H env arg default_store session_labels lg w =
     (case parse_parent arg of
        Err e \<Rightarrow> (Err e, lg, w)
      | Ok parent \<Rightarrow>
     (case open_opts_of arg of
        Err e \<Rightarrow> (Err e, lg, w)
      | Ok opts \<Rightarrow>
     (case owner_of (oo_owner opts) of
        Err e \<Rightarrow> (Err e, lg, w)
      | Ok own_id \<Rightarrow>
     (case budget_source_of ''open'' (oo_budget opts) of
        Err e \<Rightarrow> (Err e, lg, w)
      | Ok budget \<Rightarrow>
      let meta = under_host_labels session_labels (meta_map (oo_meta opts)) in
     (case optional_target ''open'' (oo_store opts) of
        Err e \<Rightarrow> (Err e, lg, w)
      | Ok named_store \<Rightarrow>
     (case parent of
        None \<Rightarrow> open_root H env own_id budget meta named_store default_store lg w
      | Some handle \<Rightarrow>
     (case budget of
        Some (FromParent alloc) \<Rightarrow> open_child_session H env handle own_id alloc meta named_store lg w
      | _ \<Rightarrow> (Err (lua_err ''open'' (fmt [''a child'', [CHR 0x27], ''s quota comes out of its parent'', [CHR 0x27],
          ''s: opts.parent needs budget = { from_parent = n, tag? }''])), lg, w))))))))"

text \<open>\<open>None\<close> is a call with no options at all.\<close>

definition resume_session ::
  "('l, 'tx, 'c, 'ct, 'lt, 'r, 'w) host_parts \<Rightarrow> 'w interference \<Rightarrow> resume_opts de_answer option \<Rightarrow> path \<Rightarrow> 'l logs \<Rightarrow> 'w
     \<Rightarrow> 'w lua_session lua_result \<times> 'l logs \<times> 'w" where
  "resume_session H env arg default_store lg w =
     (case arg of
        None \<Rightarrow> (Err (lua_err ''resume'' ''opts must be a table with store and session''), lg, w)
      | Some answer \<Rightarrow>
     (case from_lua ''resume'' ''opts'' answer of
        Err e \<Rightarrow> (Err e, lg, w)
      | Ok opts \<Rightarrow>
     (case grant_only ''resume'' (ro_budget opts) of
        Err e \<Rightarrow> (Err e, lg, w)
      | Ok g \<Rightarrow>
     (case optional_target ''resume'' (ro_store opts) of
        Err e \<Rightarrow> (Err e, lg, w)
      | Ok target \<Rightarrow>
     (case (case target of
         None \<Rightarrow> store_open (hp_log H) (hp_driver H) (hp_parse H) default_store (ro_session opts) lg w
       | Some (Sqlite p) \<Rightarrow> store_open (hp_log H) (hp_driver H) (hp_parse H) (path_new p) (ro_session opts) lg w
       | Some Mem \<Rightarrow> store_open_memory (hp_log H) (hp_driver H) (ro_session opts) lg w) of
        (Err e, lg', w1) \<Rightarrow> (Err (knl_err ''resume'' e), lg', w1)
      | (Ok store, lg', w1) \<Rightarrow>
          (case resume_on H env g store (ro_session opts) (env 0 w1) of (r, w2) \<Rightarrow> (r, lg', w2)))))))"

end
