(* ===== verification/Legacy.thy ===== *)
theory Legacy
  imports Logs Eventsdb "HOL-Library.Multiset"
begin

text \<open>
  The import of an earlier release's table, \<open>migrate_legacy\<close> of \<open>knl/logs.rs\<close>: what it relies on
  of SQLite and of eventsdb's import, as the locale \<open>legacy_laws\<close>, and that it brings every row
  over with everything it carried, in one transaction, or leaves the file as it was.
\<close>

section \<open>What the import relies on\<close>

text \<open>
  \<open>rows\<close> is the log, \<open>table\<close> the content of the table that was moved aside, each of a transaction
  (\<open>tx_\<close>) and of the world; \<open>cstream\<close>, \<open>cseq\<close>, \<open>cepoch\<close> are the three columns a row is ordered
  by. An import takes the next number of its stream and re-stamps nothing else
  (\<open>eventsdb_core::event::restamp\<close>).
\<close>

locale legacy_laws =
  fixes D :: "('l, 'c, 'ct, 'lt, 'r, 'w) log_driver"
    and rows :: "'w \<Rightarrow> 'l \<Rightarrow> row list" and table :: "'w \<Rightarrow> 'l \<Rightarrow> 'r list option"
    and tx_rows :: "'lt \<Rightarrow> row list" and tx_table :: "'lt \<Rightarrow> 'r list option"
    and cstream :: "'r \<Rightarrow> string" and cseq :: "'r \<Rightarrow> int" and cepoch :: "'r \<Rightarrow> int"
  assumes by_clock: "tx_table tx = Some rs \<Longrightarrow> lt_query_rows D tx (legacy_sql BY_CLOCK) = Ok found \<Longrightarrow>
      found = map Ok (sort_key (\<lambda>r. (cepoch r, cstream r, cseq r)) rs)"
    and by_stream: "tx_table tx = Some rs \<Longrightarrow> lt_query_rows D tx (legacy_sql BY_STREAM) = Ok found \<Longrightarrow>
      found = map Ok (sort_key (\<lambda>r. (cstream r, cseq r)) rs)"
    and columns: "row_string D r 0 = Ok s \<Longrightarrow> s = cstream r" "row_i64 D r 1 = Ok i \<Longrightarrow> i = cseq r"
    and import_next: "lt_import D ex tx = (Ok c, tx') \<Longrightarrow>
      ec_seq c = Suc (length (stream_rows (tx_rows tx) (ex_stream ex)))
      \<and> tx_rows tx' = tx_rows tx @ [(ex_stream ex, map_insert FIELD_SEQ (json_of_u64 (ec_seq c)) (ex_event ex))]
      \<and> tx_table tx' = tx_table tx"
    and dropped: "lt_execute_batch D (''DROP TABLE '' @ LEGACY_TABLE) tx = (Ok (), tx') \<Longrightarrow>
      tx_table tx' = None \<and> tx_rows tx' = tx_rows tx"
    and one_transaction: "log_with_transaction D l body flag w = (res, flag', w') \<Longrightarrow>
      (case res of
         Ok n \<Rightarrow> (\<exists>tx tx'. tx_rows tx = rows w l \<and> tx_table tx = table w l
           \<and> body tx flag = (Ok n, flag', tx') \<and> rows w' = (rows w)(l := tx_rows tx')
           \<and> table w' = (table w)(l := tx_table tx'))
       | Err x \<Rightarrow> rows w' = rows w \<and> table w' = table w)"

section \<open>What a row becomes\<close>

definition imported_row :: "nat \<times> exported_event \<Rightarrow> row" where
  "imported_row x = (ex_stream (snd x), ex_event (snd x))"

lemma map_insert_same:
  "ordered m \<Longrightarrow> map_get m k = Some v \<Longrightarrow> map_insert k v m = m"
proof (induction m)
  case (Cons kv m)
  obtain k' v' where kv: "kv = (k', v')" by (cases kv)
  have "map_get m k = Some v \<Longrightarrow> k' < k"
    using Cons.prems(1) by (fastforce simp: kv ordered_def map_get_def dest: map_of_SomeD)
  with Cons show ?case by (auto simp: kv ordered_def map_get_def map_insert.simps split: if_splits)
qed simp

lemma legacy_event_ordered: "ordered (legacy_event seq ms kind version beat meta data)"
  by (simp add: legacy_event_def Let_def )

lemma legacy_event_seq:
  "map_get (legacy_event seq ms kind version beat meta data) FIELD_SEQ = Some (json_of_u64 (u64_of_i64 seq))"
  by (simp add: legacy_event_def Let_def name_neqs)

lemma legacy_row_restamp:
  "legacy_row D parse r = Ok (was, ex) \<Longrightarrow>
     map_insert FIELD_SEQ (json_of_u64 was) (ex_event ex) = ex_event ex"
  by (auto simp: legacy_row_def and_then_Ok_iff intro!: map_insert_same legacy_event_ordered legacy_event_seq)

definition decoded ::
  "('l, 'c, 'ct, 'lt, 'r, 'w) log_driver \<Rightarrow> (string \<Rightarrow> json option) \<Rightarrow> 'r list \<Rightarrow> rusqlite_error + (nat \<times> exported_event) list" where
  "decoded D parse rs = collect_results (legacy_row D parse) rs"

lemma collect_results_map_Ok:
  "collect_results (\<lambda>row. and_then row f) (map Ok rs) = collect_results f rs"
  by (induction rs) simp_all

lemma collect_results_set:
  "collect_results f xs = Ok ys \<Longrightarrow> y \<in> set ys \<Longrightarrow> \<exists>x\<in>set xs. f x = Ok y"
  by (induction xs arbitrary: ys) (auto simp: and_then_Ok_iff)

lemma collect_results_map:
  "collect_results f xs = Ok ys \<Longrightarrow> map f xs = map Ok ys"
  by (induction xs arbitrary: ys) (auto simp: and_then_Ok_iff)

lemma decoded_perm:
  assumes "decoded D parse rs = Ok xs" and "mset rs' = mset rs"
  obtains xs' where "decoded D parse rs' = Ok xs'" "mset xs' = mset xs"
proof -
  let ?f = "legacy_row D parse"
  have xs: "map ?f rs = map Ok xs" using assms(1) collect_results_map by (auto simp: decoded_def)
  have "\<forall>r\<in>set rs'. \<exists>y. ?f r = Ok y"
  proof
    fix r assume "r \<in> set rs'"
    then have "?f r \<in> set (map ?f rs)" using mset_eq_setD [OF assms(2)] by simp
    then have "?f r \<in> set (map Ok xs)" by (simp only: xs)
    then show "\<exists>y. ?f r = Ok y" by auto
  qed
  then obtain g where g: "\<And>r. r \<in> set rs' \<Longrightarrow> ?f r = Ok (g r)" by metis
  then have d: "decoded D parse rs' = Ok (map g rs')"
    unfolding decoded_def by (rule collect_results_Ok)
  have "image_mset Ok (mset (map g rs')) = image_mset ?f (mset rs')"
    using g by (auto intro!: image_mset_cong simp: multiset.map_comp)
  also have "\<dots> = image_mset Ok (mset xs)" using xs assms(2) by (metis mset_map)
  finally have "mset (map g rs') = mset xs"
    by (rule injD [OF multiset.inj_map, rotated]) (simp add: inj_def)
  with d show ?thesis using that by blast
qed

section \<open>The import\<close>

context legacy_laws
begin

lemma import_rows_effect:
  assumes "import_rows D xs flag tx = (Ok (), flag', tx')"
    and "\<And>was ex. (was, ex) \<in> set xs \<Longrightarrow> map_insert FIELD_SEQ (json_of_u64 was) (ex_event ex) = ex_event ex"
  shows "flag' = flag \<and> tx_rows tx' = tx_rows tx @ map imported_row xs \<and> tx_table tx' = tx_table tx"
  using assms
proof (induction xs arbitrary: tx)
  case (Cons x xs)
  obtain was ex where x: "x = (was, ex)" by (cases x)
  obtain c tx1 where im: "lt_import D ex tx = (Ok c, tx1)" and was: "ec_seq c = was"
    and rest: "import_rows D xs flag tx1 = (Ok (), flag', tx')"
    using Cons.prems(1) by (auto simp: x split: prod.splits sum.splits if_splits)
  have "map_insert FIELD_SEQ (json_of_u64 was) (ex_event ex) = ex_event ex"
    using Cons.prems(2) by (auto simp: x)
  with Cons.IH [OF rest] Cons.prems(2) import_next [OF im] show ?case
    by (auto simp: x was imported_row_def)
qed simp

text \<open>A successful attempt, in whichever order the rows were read.\<close>

lemma import_legacy_effect:
  assumes ok: "import_legacy D parse l order flag w = (Ok n, flag', w')" and tbl: "table w l = Some rs"
    and ord: "order = BY_CLOCK \<or> order = BY_STREAM"
  shows "\<exists>ys xs. decoded D parse rs = Ok ys \<and> mset xs = mset ys \<and> n = length xs
    \<and> rows w' = (rows w)(l := rows w l @ map imported_row xs) \<and> table w' = (table w)(l := None)"
proof -
  obtain tx tx' where tx: "tx_rows tx = rows w l" "tx_table tx = table w l"
    and body: "import_body D parse order tx flag = (Ok n, flag', tx')"
    and w': "rows w' = (rows w)(l := tx_rows tx')" "table w' = (table w)(l := tx_table tx')"
    using ok one_transaction by (fastforce simp: import_legacy_def map_err_def split: prod.splits sum.splits)
  obtain found xs tx1 where found: "lt_query_rows D tx (legacy_sql order) = Ok found"
    and xs: "collect_results (\<lambda>row. and_then row (legacy_row D parse)) found = Ok xs"
    and im: "import_rows D xs flag tx = (Ok (), flag', tx1)"
    and dr: "lt_execute_batch D (''DROP TABLE '' @ LEGACY_TABLE) tx1 = (Ok (), tx')" and n: "n = length xs"
    using body by (auto simp: import_body_def and_then_Ok_iff split: prod.splits sum.splits)
  obtain rs' where rs': "found = map Ok rs'" "mset rs' = mset rs"
    using ord by_clock [of tx rs found] by_stream [of tx rs found] found tx(2) tbl by (metis mset_sort)
  have dec: "decoded D parse rs' = Ok xs"
    using xs by (simp add: rs'(1) collect_results_map_Ok decoded_def)
  have same: "map_insert FIELD_SEQ (json_of_u64 was) (ex_event ex) = ex_event ex" if "(was, ex) \<in> set xs" for was ex
    using collect_results_set [OF dec [unfolded decoded_def] that] by (elim bexE) (rule legacy_row_restamp)
  obtain ys where ys: "decoded D parse rs = Ok ys" "mset ys = mset xs"
    using decoded_perm [OF dec rs'(2) [symmetric]] by blast
  from import_rows_effect [OF im same] dropped [OF dr] w' tx n
  have "rows w' = (rows w)(l := rows w l @ map imported_row xs)" "table w' = (table w)(l := None)" by auto
  with ys n show ?thesis by (intro exI conjI) (assumption | simp)+
qed

lemma import_legacy_failed:
  "import_legacy D parse l order flag w = (Err e, flag', w') \<Longrightarrow> rows w' = rows w \<and> table w' = table w"
  using one_transaction by (fastforce simp: import_legacy_def map_err_def split: prod.splits sum.splits)

text \<open>The migration is all or nothing, and what it brings over is what the table held.\<close>

lemma migrate_legacy_effect:
  assumes "migrate_legacy D parse l w = (res, w')" and tbl: "table w l = Some rs"
  shows "case res of
      Ok _ \<Rightarrow> (\<exists>ys xs. decoded D parse rs = Ok ys \<and> mset xs = mset ys
        \<and> rows w' = (rows w)(l := rows w l @ map imported_row xs) \<and> table w' = (table w)(l := None))
    | Err _ \<Rightarrow> rows w' = rows w \<and> table w' = table w"
proof -
  obtain r1 f1 w1 where i1: "import_legacy D parse l BY_CLOCK False w = (r1, f1, w1)" by (cases "import_legacy D parse l BY_CLOCK False w")
  show ?thesis
  proof (cases r1)
    case (Inr n)
    with i1 assms(1) have "res = Ok ()" "w' = w1" by (simp_all add: migrate_legacy_def)
    with import_legacy_effect [OF i1 [unfolded Inr] tbl] show ?thesis by auto
  next
    case (Inl e)
    note same = import_legacy_failed [OF i1 [unfolded Inl]]
    obtain r2 f2 w2 where i2: "import_legacy D parse l BY_STREAM False w1 = (r2, f2, w2)" by (cases "import_legacy D parse l BY_STREAM False w1")
    show ?thesis
    proof (cases "f1 \<and> isl r2 = False")
      case False
      then consider "\<not> f1" | e2 where "f1" "r2 = Err e2" by (cases r2) auto
      then show ?thesis
      proof cases
        case 1
        then have "res = Err e" "w' = w1" using Inl i1 assms(1) by (simp_all add: migrate_legacy_def)
        with same show ?thesis by simp
      next
        case 2
        then have "res = Err e2" "w' = w2" using Inl i1 i2 assms(1) by (simp_all add: migrate_legacy_def)
        with same import_legacy_failed [OF i2 [unfolded 2(2)]] show ?thesis by simp
      qed
    next
      case True
      then obtain n where r2: "r2 = Ok n" and f1 by (cases r2) auto
      have "table w1 l = Some rs" using same tbl by simp
      from import_legacy_effect [OF i2 [unfolded r2] this] same
      have "\<exists>ys xs. decoded D parse rs = Ok ys \<and> mset xs = mset ys
        \<and> rows w2 = (rows w)(l := rows w l @ map imported_row xs) \<and> table w2 = (table w)(l := None)" by auto
      moreover have "res = Ok ()" "w' = w2" using Inl i1 i2 r2 \<open>f1\<close> assms(1) by (simp_all add: migrate_legacy_def)
      ultimately show ?thesis by simp
    qed
  qed
qed

end

section \<open>The second order always fits\<close>

text \<open>
  \<open>count_stream s xs\<close> is how many of the records belong to a stream; \<open>fits\<close> says that each record's
  old number is the one the receiving store gives it when the records arrive in this order.
\<close>

definition count_stream :: "string \<Rightarrow> (nat \<times> exported_event) list \<Rightarrow> nat" where
  "count_stream s xs = length (filter (\<lambda>x. ex_stream (snd x) = s) xs)"

definition fits :: "row list \<Rightarrow> (nat \<times> exported_event) list \<Rightarrow> bool" where
  "fits log xs \<longleftrightarrow> (\<forall>i < length xs.
     fst (xs ! i) = Suc (length (stream_rows log (ex_stream (snd (xs ! i))))
                         + count_stream (ex_stream (snd (xs ! i))) (take i xs)))"

lemma fits_Cons:
  "fits log ((was, ex) # xs) \<Longrightarrow>
     was = Suc (length (stream_rows log (ex_stream ex))) \<and> fits (log @ [(ex_stream ex, e)]) xs"
proof -
  assume f: "fits log ((was, ex) # xs)"
  have "was = Suc (length (stream_rows log (ex_stream ex)))"
    using f [unfolded fits_def, rule_format, of 0] by (simp add: count_stream_def)
  moreover have "fits (log @ [(ex_stream ex, e)]) xs"
    unfolding fits_def
  proof (intro allI impI)
    fix i assume "i < length xs"
    then show "fst (xs ! i) = Suc (length (stream_rows (log @ [(ex_stream ex, e)]) (ex_stream (snd (xs ! i))))
        + count_stream (ex_stream (snd (xs ! i))) (take i xs))"
      using f [unfolded fits_def, rule_format, of "Suc i"]
      by (auto simp: count_stream_def stream_rows_append stream_rows_def)
  qed
  ultimately show ?thesis by blast
qed

lemma nth_of_filter:
  "i < length xs \<Longrightarrow> P (xs ! i) \<Longrightarrow> filter P xs ! length (filter P (take i xs)) = xs ! i"
proof (induction xs arbitrary: i)
  case (Cons x xs)
  then show ?case by (cases i) auto
qed simp

text \<open>Streams numbered from 1 without a gap, whatever order their rows are kept in.\<close>

definition dense_streams :: "('r \<Rightarrow> string) \<Rightarrow> ('r \<Rightarrow> int) \<Rightarrow> 'r list \<Rightarrow> bool" where
  "dense_streams cs cq rs \<longleftrightarrow> (\<forall>s. sort (map cq (filter (\<lambda>r. cs r = s) rs)) =
     map int [1..<Suc (length (filter (\<lambda>r. cs r = s) rs))])"

lemma by_stream_numbers:
  assumes "dense_streams cs cq rs" and "i < length rs"
  defines "L \<equiv> sort_key (\<lambda>r. (cs r, cq r)) rs"
  shows "cq (L ! i) = int (Suc (length (filter (\<lambda>r. cs r = cs (L ! i)) (take i L))))"
proof -
  define s where "s = cs (L ! i)"
  define M where "M = filter (\<lambda>r. cs r = s) L"
  define k where "k = length (filter (\<lambda>r. cs r = s) (take i L))"
  have iL: "i < length L" using assms(2) by (simp add: L_def)
  have Mk: "M ! k = L ! i" unfolding M_def k_def by (rule nth_of_filter [OF iL]) (simp add: s_def)
  have "length M = length (filter (\<lambda>r. cs r = s) (take i L @ drop i L))" by (simp add: M_def)
  also have "\<dots> = k + length (filter (\<lambda>r. cs r = s) (drop i L))" unfolding k_def filter_append by simp
  also have "\<dots> > k" using iL by (simp add: Cons_nth_drop_Suc [symmetric] s_def)
  finally have kM: "k < length M" .
  have "sorted (map (\<lambda>r. (cs r, cq r)) M)"
    unfolding M_def L_def by (rule sorted_filter) simp
  then have "sorted (map cq M)"
    unfolding sorted_map by (rule sorted_wrt_mono_rel [rotated]) (auto simp: M_def less_eq_prod_def)
  moreover have "mset (map cq M) = mset (map cq (filter (\<lambda>r. cs r = s) rs))"
    by (simp add: M_def L_def mset_filter)
  ultimately have "map cq M = sort (map cq (filter (\<lambda>r. cs r = s) rs))"
    by (metis properties_for_sort)
  then have cm: "map cq M = map int [1..<Suc (length (filter (\<lambda>r. cs r = s) rs))]"
    using assms(1) unfolding dense_streams_def by simp
  then have "length M = length (filter (\<lambda>r. cs r = s) rs)" by (metis diff_Suc_1 length_map length_upt)
  then have "cq (M ! k) = int (Suc k)"
    using arg_cong [OF cm, of "\<lambda>xs. xs ! k"] kM by (simp del: upt_Suc)
  with Mk show ?thesis by (simp add: k_def s_def)
qed

locale legacy_live = legacy_laws +
  assumes reads: "order = BY_CLOCK \<or> order = BY_STREAM \<Longrightarrow> tx_table tx = Some rs \<Longrightarrow>
      \<exists>found. lt_query_rows D tx (legacy_sql order) = Ok found"
    and import_works: "\<exists>c tx'. lt_import D ex tx = (Ok c, tx')"
    and drops: "tx_table tx = Some rs \<Longrightarrow> \<exists>tx'. lt_execute_batch D (''DROP TABLE '' @ LEGACY_TABLE) tx = (Ok (), tx')"
    and runs: "log_with_transaction D l body flag w = (res, flag', w') \<Longrightarrow>
      \<exists>tx tx'. tx_rows tx = rows w l \<and> tx_table tx = table w l \<and> body tx flag = (res, flag', tx')"
begin

lemma import_rows_total:
  "\<exists>res flag' tx'. import_rows D xs flag tx = (res, flag', tx')
     \<and> (case res of Ok _ \<Rightarrow> tx_table tx' = tx_table tx | Err _ \<Rightarrow> flag')"
proof (induction xs arbitrary: tx)
  case (Cons x xs)
  obtain was ex where x: "x = (was, ex)" by (cases x)
  obtain c tx1 where im: "lt_import D ex tx = (Ok c, tx1)" using import_works by blast
  have "tx_table tx1 = tx_table tx" using import_next [OF im] by simp
  then show ?case using Cons.IH [of tx1] by (fastforce simp: x im split: sum.splits)
qed simp

lemma import_rows_fits:
  "fits (tx_rows tx) xs \<Longrightarrow> \<exists>tx'. import_rows D xs flag tx = (Ok (), flag, tx') \<and> tx_table tx' = tx_table tx"
proof (induction xs arbitrary: tx)
  case (Cons x xs)
  obtain was ex where x: "x = (was, ex)" by (cases x)
  obtain c tx1 where im: "lt_import D ex tx = (Ok c, tx1)" using import_works by blast
  note law = import_next [OF im]
  let ?e = "map_insert FIELD_SEQ (json_of_u64 (ec_seq c)) (ex_event ex)"
  have "was = ec_seq c" and "fits (tx_rows tx1) xs"
    using fits_Cons [OF Cons.prems [unfolded x], of ?e] law by auto
  then show ?case using Cons.IH [of tx1] law by (auto simp: x im)
qed simp

lemma decoded_nth:
  assumes "decoded D parse rs = Ok xs" and "i < length rs"
  shows "ex_stream (snd (xs ! i)) = cstream (rs ! i) \<and> fst (xs ! i) = u64_of_i64 (cseq (rs ! i))"
proof -
  have m: "map (legacy_row D parse) rs = map Ok xs" using assms(1) collect_results_map by (auto simp: decoded_def)
  then have "length rs = length xs" by (metis length_map)
  then have "legacy_row D parse (rs ! i) = Ok (xs ! i)"
    using arg_cong [OF m, of "\<lambda>l. l ! i"] assms(2) by simp
  then show ?thesis
    by (cases "xs ! i") (auto simp: legacy_row_def and_then_Ok_iff dest: columns(1) columns(2) [unfolded One_nat_def])
qed

lemma count_decoded:
  assumes "decoded D parse rs = Ok xs" and "i \<le> length rs"
  shows "count_stream s (take i xs) = length (filter (\<lambda>r. cstream r = s) (take i rs))"
  using assms(2)
proof (induction i)
  case (Suc i)
  have "length xs = length rs"
    using assms(1) collect_results_map unfolding decoded_def by (metis length_map)
  with Suc decoded_nth [OF assms(1), of i] show ?case
    by (simp add: take_Suc_conv_app_nth count_stream_def)
qed (simp add: count_stream_def)

lemma by_stream_fits:
  assumes dec: "decoded D parse (sort_key (\<lambda>r. (cstream r, cseq r)) rs) = Ok xs"
    and dense: "dense_streams cstream cseq rs" and i64: "\<forall>r\<in>set rs. is_i64 (cseq r)"
    and fresh: "\<forall>r\<in>set rs. stream_rows log (cstream r) = []"
  shows "fits log xs"
  unfolding fits_def
proof (intro allI impI)
  let ?L = "sort_key (\<lambda>r. (cstream r, cseq r)) rs"
  fix i assume "i < length xs"
  moreover have len: "length xs = length rs"
    using dec collect_results_map unfolding decoded_def by (metis length_map length_sort)
  ultimately have i: "i < length rs" by simp
  let ?s = "cstream (?L ! i)" and ?k = "length (filter (\<lambda>r. cstream r = cstream (?L ! i)) (take i ?L))"
  note nth = decoded_nth [OF dec, of i, simplified, OF i]
  have mem: "?L ! i \<in> set rs" using i by (metis length_sort nth_mem set_sort)
  have num: "cseq (?L ! i) = int (Suc ?k)" by (rule by_stream_numbers [OF dense i])
  have "is_i64 (cseq (?L ! i))" using i64 mem by blast
  then have "int (Suc ?k) < 2 ^ 64" unfolding num is_i64_def i64_max_def by simp
  then have "u64_of_i64 (cseq (?L ! i)) = Suc ?k" unfolding num u64_of_i64_def by simp
  moreover have "count_stream ?s (take i xs) = ?k" using count_decoded [OF dec, of i ?s] i by simp
  moreover have "stream_rows log ?s = []" using fresh mem by blast
  ultimately show "fst (xs ! i) = Suc (length (stream_rows log (ex_stream (snd (xs ! i))))
      + count_stream (ex_stream (snd (xs ! i))) (take i xs))"
    using nth by simp
qed

text \<open>
  One attempt on a table whose rows decode: it succeeds, or it says that the numbers moved; in
  stream order it succeeds.
\<close>

lemma import_legacy_live:
  assumes "table w l = Some rs" and dec: "decoded D parse rs = Ok ys"
    and ord: "order = BY_CLOCK \<or> order = BY_STREAM"
    and im: "import_legacy D parse l order False w = (res, flag, w')"
  shows "isl res \<longrightarrow> flag"
    and "order = BY_STREAM \<Longrightarrow> dense_streams cstream cseq rs \<Longrightarrow> \<forall>r\<in>set rs. is_i64 (cseq r) \<Longrightarrow>
      \<forall>r\<in>set rs. stream_rows (rows w l) (cstream r) = [] \<Longrightarrow> \<not> isl res"
proof -
  obtain res0 where lt: "log_with_transaction D l (import_body D parse order) False w = (res0, flag, w')"
    and res: "res = map_err knl_of_es res0" using im by (auto simp: import_legacy_def split: prod.splits)
  obtain tx tx' where tx: "tx_rows tx = rows w l" "tx_table tx = Some rs"
    and body: "import_body D parse order tx False = (res0, flag, tx')" using runs [OF lt] assms(1) by auto
  obtain found where found: "lt_query_rows D tx (legacy_sql order) = Ok found" using reads [OF ord tx(2)] by blast
  obtain rs' where rs': "found = map Ok rs'" "mset rs' = mset rs"
    and bs: "order = BY_STREAM \<longrightarrow> rs' = sort_key (\<lambda>r. (cstream r, cseq r)) rs"
    using ord by_clock [OF tx(2), of found] by_stream [OF tx(2), of found] found
    by (cases "order = BY_STREAM") auto
  obtain xs where xs: "decoded D parse rs' = Ok xs" using decoded_perm [OF dec rs'(2)] by blast
  have cr: "collect_results (\<lambda>row. and_then row (legacy_row D parse)) found = Ok xs"
    using xs by (simp add: rs'(1) collect_results_map_Ok decoded_def)
  obtain r1 f1 tx1 where ir: "import_rows D xs False tx = (r1, f1, tx1)"
    and r1: "case r1 of Ok _ \<Rightarrow> tx_table tx1 = tx_table tx | Err _ \<Rightarrow> f1" using import_rows_total by blast
  have ok: "\<not> isl res0" if "\<not> isl r1"
  proof -
    from that r1 obtain u where u: "r1 = Ok u" "tx_table tx1 = Some rs" using tx(2) by (cases r1) auto
    obtain tx2 where "lt_execute_batch D (''DROP TABLE '' @ LEGACY_TABLE) tx1 = (Ok (), tx2)" using drops [OF u(2)] by blast
    with body found cr ir u show ?thesis by (auto simp: import_body_def)
  qed
  have bad: "flag" if "isl r1"
    using that r1 body found cr ir by (cases r1) (auto simp: import_body_def)
  have isl: "isl res = isl res0" by (cases res0) (simp_all add: res)
  show "isl res \<longrightarrow> flag" using ok bad isl by blast
  show "\<not> isl res" if "order = BY_STREAM" "dense_streams cstream cseq rs" "\<forall>r\<in>set rs. is_i64 (cseq r)"
    "\<forall>r\<in>set rs. stream_rows (rows w l) (cstream r) = []"
  proof -
    have "fits (tx_rows tx) xs"
      using that(2-4) xs bs that(1) by (intro by_stream_fits) (auto simp: tx(1))
    with import_rows_fits [of tx xs False] ir ok isl show ?thesis by auto
  qed
qed

lemma migrate_legacy_live:
  assumes t: "table w l = Some rs" and dec: "decoded D parse rs = Ok ys"
    and dense: "dense_streams cstream cseq rs" and i64: "\<forall>r\<in>set rs. is_i64 (cseq r)"
    and fresh: "\<forall>r\<in>set rs. stream_rows (rows w l) (cstream r) = []"
  shows "fst (migrate_legacy D parse l w) = Ok ()"
proof -
  obtain r1 f1 w1 where i1: "import_legacy D parse l BY_CLOCK False w = (r1, f1, w1)"
    by (cases "import_legacy D parse l BY_CLOCK False w")
  obtain r2 f2 w2 where i2: "import_legacy D parse l BY_STREAM False w1 = (r2, f2, w2)"
    by (cases "import_legacy D parse l BY_STREAM False w1")
  show ?thesis
  proof (cases r1)
    case (Inl e)
    have f1 using import_legacy_live(1) [OF t dec _ i1] Inl by simp
    have same: "rows w1 = rows w" "table w1 = table w" using import_legacy_failed [OF i1 [unfolded Inl]] by simp_all
    have "\<not> isl r2"
      using import_legacy_live(2) [OF _ dec _ i2, unfolded same] t dense i64 fresh by simp
    then obtain n where "r2 = Ok n" by (cases r2) auto
    with Inl \<open>f1\<close> i1 i2 show ?thesis by (simp add: migrate_legacy_def)
  qed (simp add: migrate_legacy_def i1)
qed

end

end
