(* ===== verification/Reference_Host.thy ===== *)
theory Reference_Host
  imports Bridge_Knl Legacy Tree_Properties
begin

text \<open>
  Two drivers kept as plain functions, for the witnesses: \<open>demo_driver\<close> opens databases of the
  reference log by name on a file system whose working directory is \<open>/work\<close>, and \<open>old_driver\<close>
  holds a log beside the table an earlier release left, and satisfies \<open>legacy_live\<close>. They stand
  for no code of the repository.
\<close>

section \<open>A host with named databases\<close>

fun component_text :: "component \<Rightarrow> string" where
  "component_text RootDir = []"
| "component_text CurDir = ''.''"
| "component_text ParentDir = ''..''"
| "component_text (Normal n) = n"

definition path_text :: "path \<Rightarrow> string" where
  "path_text p = concat (map (\<lambda>c. ''/'' @ component_text c) p)"

definition demo_canonicalize :: "path \<Rightarrow> path option" where
  "demo_canonicalize p =
     Some ((if p \<noteq> [] \<and> hd p = RootDir then [] else [RootDir, Normal ''work'']) @ filter (\<lambda>c. c \<noteq> CurDir) p)"

definition demo_driver :: "(string, unit, unit, unit, unit, ref_world) log_driver" where
  "demo_driver =
     \<lparr>fs_exists = (\<lambda>p w. False),
      fs_canonicalize = (\<lambda>p w. demo_canonicalize p),
      rt_join_error = (\<lambda>w. None),
      conn_open = (\<lambda>p w. (Err (RusqliteOther ''no connection''), w)),
      conn_query_i64 = (\<lambda>c sql ps w. Ok 0),
      conn_user_version = (\<lambda>c w. Ok 0),
      conn_query_strings = (\<lambda>c sql w. Ok []),
      conn_transaction = (\<lambda>c w. Ok ()),
      ct_execute_batch = (\<lambda>sql tx. (Ok (), tx)),
      ct_commit = (\<lambda>tx w. (Ok (), w)),
      log_open_with = (\<lambda>p ups w. (Ok (path_text p), w)),
      log_open_in_memory_with = (\<lambda>ups w. (Ok '':memory:'', w)),
      log_database = (\<lambda>l. l),
      log_index_meta = (\<lambda>l k w. (Ok (), w)),
      log_with_transaction = (\<lambda>l body flag w. case body () flag of (r, flag', _) \<Rightarrow> (r, flag', w)),
      lt_execute_batch = (\<lambda>sql tx. (Ok (), tx)),
      lt_query_rows = (\<lambda>tx sql. Ok []),
      lt_import = (\<lambda>ex tx. (Err (ES_Unsupported ''no import''), tx)),
      row_string = (\<lambda>r i. Err (RusqliteOther ''no column'')),
      row_i64 = (\<lambda>r i. Err (RusqliteOther ''no column'')),
      row_opt_string = (\<lambda>r i. Err (RusqliteOther ''no column'')),
      conversion_failure = (\<lambda>i msg. RusqliteOther msg),
      log_backup_to = (\<lambda>l to w. (Ok (), w)),
      log_streams = (\<lambda>l after pre n w. (Ok [], w)),
      log_shutdown = (\<lambda>l w. (Ok (), w))\<rparr>"

definition demo_host :: "(string, entry list, unit, unit, unit, unit, ref_world) host_parts" where
  "demo_host =
     \<lparr>hp_log = ref_log, hp_driver = demo_driver, hp_parse = (\<lambda>s. None), hp_shown = demo_shown,
      hp_stream = ''a'', hp_id = ''m'', hp_scope = ''scope'', hp_child_scope = ''kid-scope''\<rparr>"

section \<open>A log with a table moved aside\<close>

record old_row =
  or_stream :: string
  or_seq :: int
  or_epoch :: int
  or_kind :: string
  or_version :: int
  or_beat :: "string option"
  or_meta :: string
  or_data :: string

type_synonym old_tx = "row list \<times> old_row list option"
type_synonym old_world = "string \<Rightarrow> old_tx"

definition old_import :: "exported_event \<Rightarrow> old_tx \<Rightarrow> (es_error + es_committed) \<times> old_tx" where
  "old_import ex tx =
     (let n = Suc (length (stream_rows (fst tx) (ex_stream ex))) in
      (Ok \<lparr>ec_position = Suc (length (fst tx)), ec_seq = n, ec_epoch_ms = 0\<rparr>,
       (fst tx @ [(ex_stream ex, map_insert FIELD_SEQ (json_of_u64 n) (ex_event ex))], snd tx)))"

definition old_execute :: "string \<Rightarrow> old_tx \<Rightarrow> (rusqlite_error + unit) \<times> old_tx" where
  "old_execute sql tx =
     (if sql = ''DROP TABLE '' @ LEGACY_TABLE then (Ok (), (fst tx, None)) else (Ok (), tx))"

definition old_query :: "old_tx \<Rightarrow> string \<Rightarrow> rusqlite_error + (rusqlite_error + old_row) list" where
  "old_query tx sql =
     (case snd tx of
        None \<Rightarrow> Err (RusqliteOther ''no such table'')
      | Some rs \<Rightarrow>
          if sql = legacy_sql BY_CLOCK then Ok (map Ok (sort_key (\<lambda>r. (or_epoch r, or_stream r, or_seq r)) rs))
          else if sql = legacy_sql BY_STREAM then Ok (map Ok (sort_key (\<lambda>r. (or_stream r, or_seq r)) rs))
          else Err (RusqliteOther ''another statement''))"

definition old_with_transaction ::
  "string \<Rightarrow> (old_tx \<Rightarrow> bool \<Rightarrow> (es_error + nat) \<times> bool \<times> old_tx) \<Rightarrow> bool \<Rightarrow> old_world
     \<Rightarrow> (es_error + nat) \<times> bool \<times> old_world" where
  "old_with_transaction l body flag w =
     (case body (w l) flag of
        (Ok n, flag', tx') \<Rightarrow> (Ok n, flag', w(l := tx'))
      | (Err e, flag', _) \<Rightarrow> (Err e, flag', w))"

definition old_driver :: "(string, unit, unit, old_tx, old_row, old_world) log_driver" where
  "old_driver =
     \<lparr>fs_exists = (\<lambda>p w. True),
      fs_canonicalize = (\<lambda>p w. Some p),
      rt_join_error = (\<lambda>w. None),
      conn_open = (\<lambda>p w. (Ok (), w)),
      conn_query_i64 = (\<lambda>c sql ps w. Ok 1),
      conn_user_version = (\<lambda>c w. Ok 0),
      conn_query_strings = (\<lambda>c sql w. Ok []),
      conn_transaction = (\<lambda>c w. Ok ()),
      ct_execute_batch = (\<lambda>sql tx. (Ok (), tx)),
      ct_commit = (\<lambda>tx w. (Ok (), w)),
      log_open_with = (\<lambda>p ups w. (Ok (path_text p), w)),
      log_open_in_memory_with = (\<lambda>ups w. (Ok '':memory:'', w)),
      log_database = (\<lambda>l. l),
      log_index_meta = (\<lambda>l k w. (Ok (), w)),
      log_with_transaction = old_with_transaction,
      lt_execute_batch = old_execute,
      lt_query_rows = old_query,
      lt_import = old_import,
      row_string = (\<lambda>r i. Ok (if i = 0 then or_stream r else if i = 3 then or_kind r
        else if i = 6 then or_meta r else or_data r)),
      row_i64 = (\<lambda>r i. Ok (if i = 1 then or_seq r else if i = 2 then or_epoch r else or_version r)),
      row_opt_string = (\<lambda>r i. Ok (or_beat r)),
      conversion_failure = (\<lambda>i msg. RusqliteOther msg),
      log_backup_to = (\<lambda>l to w. (Ok (), w)),
      log_streams = (\<lambda>l after pre n w. (Ok [], w)),
      log_shutdown = (\<lambda>l w. (Ok (), w))\<rparr>"

lemma legacy_sql_orders: "legacy_sql BY_STREAM \<noteq> legacy_sql BY_CLOCK"
  by (simp add: legacy_sql_def BY_STREAM_def BY_CLOCK_def)

lemma old_transaction_cases:
  assumes "old_with_transaction l body flag w = (res, flag', w')"
  obtains tx' where "body (w l) flag = (res, flag', tx')" "w' = (case res of Ok _ \<Rightarrow> w(l := tx') | Err _ \<Rightarrow> w)"
  using assms that by (auto simp: old_with_transaction_def split: prod.splits sum.splits)

interpretation ol: legacy_live old_driver "\<lambda>w l. fst (w l)" "\<lambda>w l. snd (w l)" fst snd or_stream or_seq or_epoch
proof (unfold_locales, goal_cases)
  case (7 l body flag w res flag' w')
  then show ?case
    by (auto simp: old_driver_def fun_eq_iff elim!: old_transaction_cases split: sum.splits)
next
  case (11 l body flag w res flag' w')
  then show ?case by (auto simp: old_driver_def elim!: old_transaction_cases)
qed (auto simp: old_driver_def old_query_def old_import_def old_execute_def legacy_sql_orders Let_def)

end
