(* ===== verification/Host_Properties.thy ===== *)
theory Host_Properties
  imports Reference_Host
begin

text \<open>
  The properties of the open logs, of the migration of an earlier release's log, and of the Lua
  bridge, each with a run on the reference host as its witness.
\<close>

section \<open>The open logs\<close>

text \<open>
  C10: a database is opened once: asking for a file again, under any path with the same key, gives the
  log that is open and neither opens nor writes anything, and no log that was open is lost; an open
  that fails leaves the collection as it was. The in-memory log is one log too, and its identity
  finds it.
\<close>

theorem logs_open_once:
  assumes "one_per_key lg" and "logs_file D parse p lg w = (r, lg', w')"
    and "logs_memory D lg w = (rm, lgm, wm)"
  shows "one_per_key lg'
    \<and> (case r of
         Ok l \<Rightarrow> (\<forall>q v. key_of D q v = key_of D p w \<longrightarrow> logs_file D parse q lg' v = (Ok l, lg', v))
           \<and> (\<forall>k m. map_of (lg_files lg) k = Some m \<longrightarrow> map_of (lg_files lg') k = Some m)
           \<and> length (lg_files lg') \<le> Suc (length (lg_files lg))
       | Err e \<Rightarrow> lg' = lg)
    \<and> (case rm of
         Ok l \<Rightarrow> logs_memory D lgm v = (Ok l, lgm, v) \<and> logs_database D parse (log_database D l) lgm v = (Ok l, lgm, v)
       | Err e \<Rightarrow> lgm = lg)"
proof -
  have mem: "case rm of
      Ok l \<Rightarrow> logs_memory D lgm v = (Ok l, lgm, v) \<and> logs_database D parse (log_database D l) lgm v = (Ok l, lgm, v)
    | Err e \<Rightarrow> lgm = lg"
    using assms(3) by (auto simp: logs_memory_def logs_database_def split: option.splits prod.splits sum.splits)
  show ?thesis
  proof (cases rule: logs_file_cases [of lg D p w parse])
    case (held l)
    with assms(1,2) mem show ?thesis by (auto intro!: logs_file_held)
  next
    case (failed e w1)
    with assms(1,2) mem show ?thesis by auto
  next
    case (opened l w1)
    have fresh: "key_of D p w \<notin> fst ` set (lg_files lg)" using opened(1) by (simp add: map_of_eq_None_iff)
    with opened assms(1,2) mem show ?thesis
      by (auto simp: one_per_key_def intro!: logs_file_held)
  qed
qed

theorem logs_open_once_witness:
  "key_of demo_driver (path_new ''./knl/log.sqlite'') (\<lambda>_. []) = key_of demo_driver (path_new ''knl/log.sqlite'') (\<lambda>_. [])
   \<and> (\<exists>l lg. logs_file demo_driver (\<lambda>s. None) (path_new ''knl/log.sqlite'') logs_new (\<lambda>_. []) = (Ok l, lg, \<lambda>_. [])
        \<and> logs_file demo_driver (\<lambda>s. None) (path_new ''./knl/log.sqlite'') lg (\<lambda>_. []) = (Ok l, lg, \<lambda>_. []))"
proof -
  let ?w = "(\<lambda>_. []) :: ref_world" and ?p = "path_new ''knl/log.sqlite''"
  have key: "key_of demo_driver (path_new ''./knl/log.sqlite'') ?w = key_of demo_driver ?p ?w"
    by (simp add: key_of_def path_new_def components_of_def parent_path_def file_name_def demo_driver_def
        demo_canonicalize_def Let_def)
  obtain l lg where run: "logs_file demo_driver (\<lambda>s. None) ?p logs_new ?w = (Ok l, lg, ?w)"
    by (simp add: logs_file_def logs_new_def open_file_def prepare_legacy_def ensure_indexes_def index_body_def
        demo_driver_def Let_def)
  have one: "one_per_key logs_new" by (simp add: one_per_key_def logs_new_def)
  obtain rm lgm wm where m: "logs_memory demo_driver logs_new ?w = (rm, lgm, wm)"
    by (cases "logs_memory demo_driver logs_new ?w")
  from logs_open_once [OF one run m] key run show ?thesis by auto
qed

text \<open>
  A shutdown drains every open log exactly once, whatever order the collection drains in and
  whichever of them fail, and leaves the collection empty; shutting down again does nothing.
\<close>

theorem logs_shutdown_drains:
  assumes "\<And>xs. mset (drain xs) = mset xs" and "logs_shutdown D drain lg w = (failures, lg', w')"
  shows "lg' = logs_new \<and> logs_is_empty lg'
    \<and> (\<exists>ls. mset ls = mset (open_logs lg) \<and> w' = fold (\<lambda>l v. snd (log_shutdown D l v)) ls w)
    \<and> length failures \<le> logs_len lg
    \<and> logs_shutdown D drain lg' v = ([], lg', v)"
proof -
  let ?ls = "drain (map snd (lg_files lg)) @ (case lg_memory lg of None \<Rightarrow> [] | Some l \<Rightarrow> [l])"
  have run: "shutdown_all D ?ls w = (failures, w')" and lg': "lg' = logs_new"
    using assms(2) by (auto simp: logs_shutdown_def logs_new_def split: prod.splits)
  have perm: "mset ?ls = mset (open_logs lg)" by (simp add: open_logs_def assms(1))
  then have "length ?ls = logs_len lg"
    by (metis length_append length_map mset_eq_length open_logs_def logs_len_def option.case_eq_if
        list.size(3) length_Cons One_nat_def)
  moreover have "drain [] = []" using assms(1) [of "[]"] by simp
  ultimately show ?thesis
    using shutdown_all_effect [OF run] perm lg'
    by (auto simp: logs_is_empty_def logs_len_def logs_new_def logs_shutdown_def intro!: exI [of _ ?ls])
qed

theorem logs_shutdown_drains_witness:
  "logs_shutdown demo_driver rev logs_new (\<lambda>_. []) = ([], logs_new, \<lambda>_. [])"
proof -
  obtain fs lg w where "logs_shutdown demo_driver rev \<lparr>lg_files = [([], ''x'')], lg_memory = None\<rparr> (\<lambda>_. []) = (fs, lg, w)"
    by (cases "logs_shutdown demo_driver rev \<lparr>lg_files = [([], ''x'')], lg_memory = None\<rparr> (\<lambda>_. [])")
  from logs_shutdown_drains [OF _ this] show ?thesis by auto
qed

section \<open>The log of an earlier release\<close>

text \<open>
  What has to be in an event for it to be its row's, field by field and without the code that builds
  it: the row's stream, its number, time and version as the unsigned numbers the event format has,
  its kind, the data object its column parses to, the meta object its column parses to with the beat
  column under the label when meta has none, and no other field.
\<close>

definition u64_value :: "int \<Rightarrow> json" where
  "u64_value i = json_of_u64 (if 0 \<le> i then nat i else nat (i + 2 ^ 64))"

definition carries ::
  "('l, 'c, 'ct, 'lt, 'r, 'w) log_driver \<Rightarrow> (string \<Rightarrow> json option) \<Rightarrow> 'r \<Rightarrow> row \<Rightarrow> bool" where
  "carries D parse r rw \<longleftrightarrow>
     row_string D r 0 = Ok (fst rw)
   \<and> (\<exists>n. row_i64 D r 1 = Ok n \<and> (is_i64 n \<longrightarrow> map_get (snd rw) FIELD_SEQ = Some (u64_value n)))
   \<and> (\<exists>ms. row_i64 D r 2 = Ok ms \<and> (is_i64 ms \<longrightarrow> map_get (snd rw) FIELD_EPOCH_MS = Some (u64_value ms)))
   \<and> (\<exists>kind. row_string D r 3 = Ok kind \<and> map_get (snd rw) FIELD_KIND = Some (JString kind))
   \<and> (\<exists>v. row_i64 D r 4 = Ok v \<and> (is_i64 v \<longrightarrow> map_get (snd rw) SCHEMA_VERSION_FIELD = Some (u64_value v)))
   \<and> (\<exists>txt d. row_string D r 7 = Ok txt \<and> parse txt = Some (JObject d)
        \<and> map_get (snd rw) FIELD_DATA = Some (JObject d))
   \<and> (\<exists>beat txt m m'. row_opt_string D r 5 = Ok beat \<and> row_string D r 6 = Ok txt \<and> parse txt = Some (JObject m)
        \<and> map_get (snd rw) FIELD_META = Some (JObject m')
        \<and> (\<forall>k. k \<noteq> FIELD_BEAT \<longrightarrow> map_get m' k = map_get m k)
        \<and> map_get m' FIELD_BEAT =
            (case map_get m FIELD_BEAT of Some v \<Rightarrow> Some v | None \<Rightarrow> map_option JString beat))
   \<and> (\<forall>k. map_get (snd rw) k \<noteq> None \<longrightarrow>
        k \<in> {FIELD_SEQ, FIELD_EPOCH_MS, FIELD_KIND, SCHEMA_VERSION_FIELD, FIELD_META, FIELD_DATA})"

lemma u64_of_i64_value: "is_i64 i \<Longrightarrow> json_of_u64 (u64_of_i64 i) = u64_value i"
proof -
  assume i: "is_i64 i"
  show ?thesis
  proof (cases "0 \<le> i")
    case True
    with i show ?thesis by (simp add: u64_value_def u64_of_i64_def is_i64_def i64_max_def)
  next
    case False
    then have "i mod 2 ^ 64 = (i + 2 ^ 64) mod 2 ^ 64" by simp
    also have "\<dots> = i + 2 ^ 64" using False i by (intro mod_pos_pos_trivial) (simp_all add: is_i64_def i64_min_def)
    finally show ?thesis using False by (simp add: u64_value_def u64_of_i64_def)
  qed
qed

lemma decode_object_Ok: "decode_object D parse t = Ok m \<longleftrightarrow> parse t = Some (JObject m)"
  by (simp add: decode_object_def split: option.split json.split)

lemma map_get_or_insert_if:
  "map_get (map_or_insert k v m) k' = (if k' = k \<and> map_get m k = None then Some v else map_get m k')"
  by (auto simp: map_or_insert_def split: option.split)

lemma legacy_row_carries:
  assumes "legacy_row D parse r = Ok x"
  shows "carries D parse r (imported_row x)"
proof -
  obtain strm n ms kind v beat mtxt dtxt m d where
    cols: "row_string D r 0 = Ok strm" "row_i64 D r 1 = Ok n" "row_i64 D r 2 = Ok ms" "row_string D r 3 = Ok kind"
      "row_i64 D r 4 = Ok v" "row_opt_string D r 5 = Ok beat" "row_string D r 6 = Ok mtxt" "row_string D r 7 = Ok dtxt"
    and objs: "parse mtxt = Some (JObject m)" "parse dtxt = Some (JObject d)"
    and x: "x = (u64_of_i64 n, \<lparr>ex_stream = strm, ex_position = None, ex_event = legacy_event n ms kind v beat m d\<rparr>)"
    using assms by (auto simp: legacy_row_def and_then_Ok_iff decode_object_Ok)
  show ?thesis
    using cols objs u64_of_i64_value
    by (simp add: carries_def x imported_row_def legacy_event_def Let_def map_get_or_insert_if name_neqs
        split: option.split)
qed

lemma list_all2_permuted:
  "list_all2 R rs ys \<Longrightarrow> mset xs = mset ys \<Longrightarrow> \<exists>rs'. mset rs' = mset rs \<and> list_all2 R rs' xs"
proof (induction xs arbitrary: rs ys)
  case (Cons x xs)
  have "x \<in> set ys" using mset_eq_setD [OF Cons.prems(2)] by auto
  then obtain a b where ys: "ys = a @ x # b" by (metis split_list)
  with Cons.prems(1) obtain c r d where rs: "rs = c @ r # d" and rel: "list_all2 R c a" "R r x" "list_all2 R d b"
    by (auto simp: list_all2_append2 list_all2_Cons2)
  have "list_all2 R (c @ d) (a @ b)" using rel by (simp add: list_all2_appendI)
  moreover have "mset xs = mset (a @ b)" using Cons.prems(2) by (simp add: ys)
  ultimately obtain rs' where "mset rs' = mset (c @ d)" "list_all2 R rs' xs" using Cons.IH by blast
  with rel show ?case by (intro exI [of _ "r # rs'"]) (simp add: rs)
qed simp

lemma decoded_carries:
  assumes "decoded D parse rs = Ok ys" and "mset xs = mset ys"
  shows "\<exists>rs'. mset rs' = mset rs \<and> list_all2 (carries D parse) rs' (map imported_row xs)"
proof -
  have "map (legacy_row D parse) rs = map Ok ys"
    using assms(1) collect_results_map by (auto simp: decoded_def)
  then have "list_all2 (\<lambda>r y. legacy_row D parse r = Ok y) rs ys"
    by (simp add: list_all2_map1 list_all2_map2 list.rel_eq [symmetric])
  then obtain rs' where "mset rs' = mset rs" and "list_all2 (\<lambda>r y. legacy_row D parse r = Ok y) rs' xs"
    using list_all2_permuted [OF _ assms(2)] by blast
  then show ?thesis
    by (intro exI [of _ rs']) (auto simp: list_all2_map2 intro: legacy_row_carries elim!: list_all2_mono)
qed

text \<open>
  C8: the migration is all or nothing and loses nothing: when it succeeds the old table is gone and
  the log has gained one event for each of its rows and nothing else, each in its row's stream with
  the number, the time, the kind, the version, the data and the labels its row had; when it fails,
  the log and the table are as they were.
\<close>

theorem migrate_keeps_everything:
  assumes "legacy_laws D rows table tx_rows tx_table cstream cseq cepoch"
    and "migrate_legacy D parse l w = (res, w')" and "table w l = Some rs"
  shows "case res of
      Ok _ \<Rightarrow> (\<exists>rs' new. mset rs' = mset rs \<and> list_all2 (carries D parse) rs' new
        \<and> rows w' = (rows w)(l := rows w l @ new) \<and> table w' = (table w)(l := None))
    | Err _ \<Rightarrow> rows w' = rows w \<and> table w' = table w"
proof -
  note law = legacy_laws.migrate_legacy_effect [OF assms]
  show ?thesis
  proof (cases res)
    case (Inr u)
    with law obtain ys xs where "decoded D parse rs = Ok ys" "mset xs = mset ys"
      and w': "rows w' = (rows w)(l := rows w l @ map imported_row xs)" "table w' = (table w)(l := None)" by auto
    then obtain rs' where "mset rs' = mset rs" "list_all2 (carries D parse) rs' (map imported_row xs)"
      using decoded_carries by blast
    with w' Inr show ?thesis by auto
  qed (use law in simp)
qed

text \<open>The clock of stream \<open>a\<close> went backwards: the rows only fit in stream order.\<close>

definition old_rows :: "old_row list" where
  "old_rows =
     [\<lparr>or_stream = ''a'', or_seq = 1, or_epoch = 9, or_kind = ''note'', or_version = 1, or_beat = Some ''b1'',
       or_meta = ''m'', or_data = ''d''\<rparr>,
      \<lparr>or_stream = ''a'', or_seq = 2, or_epoch = 5, or_kind = ''note'', or_version = 1, or_beat = None,
       or_meta = ''m'', or_data = ''d''\<rparr>]"

definition old_start :: old_world where
  "old_start = (\<lambda>_. ([], None))(''db'' := ([], Some old_rows))"

definition old_parse :: "string \<Rightarrow> json option" where
  "old_parse txt = Some (JObject (if txt = ''d'' then [(''said'', JString ''hello'')] else []))"

lemma old_rows_decoded: "case decoded old_driver old_parse old_rows of Ok _ \<Rightarrow> True | Err _ \<Rightarrow> False"
  by code_simp

lemma old_run: "fst (migrate_legacy old_driver old_parse ''db'' old_start) = Ok ()"
  by code_simp

lemma old_first_attempt: "fst (import_legacy old_driver old_parse ''db'' BY_CLOCK False old_start) \<noteq> Ok 2"
  by code_simp

theorem migrate_keeps_everything_witness:
  "let w' = snd (migrate_legacy old_driver old_parse ''db'' old_start) in
     snd (w' ''db'') = None \<and> length (fst (w' ''db'')) = 2
   \<and> (\<forall>rw\<in>set (fst (w' ''db'')). fst rw = ''a''
        \<and> map_get (snd rw) FIELD_DATA = Some (JObject [(''said'', JString ''hello'')]))"
proof -
  let ?run = "migrate_legacy old_driver old_parse ''db'' old_start"
  have run: "?run = (Ok (), snd ?run)" using old_run by (simp add: prod_eq_iff)
  have tbl: "snd (old_start ''db'') = Some old_rows" "fst (old_start ''db'') = []" by (simp_all add: old_start_def)
  from migrate_keeps_everything [where rows = "\<lambda>w l. fst (w l)" and table = "\<lambda>w l. snd (w l)", OF ol.legacy_laws_axioms run tbl(1)]
  obtain rs new where perm: "mset rs = mset old_rows" and each: "list_all2 (carries old_driver old_parse) rs new"
    and log: "(\<lambda>l. fst (snd ?run l)) = (\<lambda>l. fst (old_start l))(''db'' := fst (old_start ''db'') @ new)"
    and tab: "(\<lambda>l. snd (snd ?run l)) = (\<lambda>l. snd (old_start l))(''db'' := None)" by auto
  have db: "fst (snd ?run ''db'') = new" "snd (snd ?run ''db'') = None"
    using fun_cong [OF log, of "''db''"] fun_cong [OF tab, of "''db''"] tbl by simp_all
  have len: "length rs = 2" using mset_eq_length [OF perm] by (simp add: old_rows_def)
  have same: "set rs = set old_rows" by (rule mset_eq_setD [OF perm])
  have col: "or_stream r = ''a'' \<and> or_data r = ''d''" if "r \<in> set rs" for r
    using that unfolding same by (auto simp: old_rows_def)
  have "fst rw = ''a'' \<and> map_get (snd rw) FIELD_DATA = Some (JObject [(''said'', JString ''hello'')])"
    if "rw \<in> set new" for rw
  proof -
    from that each obtain r where "r \<in> set rs" "carries old_driver old_parse r rw"
      by (metis in_set_conv_nth list_all2_conv_all_nth)
    with col [of r] show ?thesis by (auto simp: carries_def old_driver_def old_parse_def)
  qed
  with db len list_all2_lengthD [OF each] show ?thesis unfolding Let_def by metis
qed

text \<open>
  C9: the second order always fits: whatever the clocks did, a table whose rows decode, whose streams
  are numbered from 1 without a gap and are not in the log yet is imported, when the store itself
  does not fail.
\<close>

theorem migrate_always_fits:
  assumes "legacy_live D rows table tx_rows tx_table cstream cseq cepoch"
    and "table w l = Some rs" and "decoded D parse rs = Ok ys"
    and "dense_streams cstream cseq rs" and "\<forall>r\<in>set rs. is_i64 (cseq r)"
    and "\<forall>r\<in>set rs. stream_rows (rows w l) (cstream r) = []"
  shows "fst (migrate_legacy D parse l w) = Ok ()"
  by (rule legacy_live.migrate_legacy_live [OF assms])

lemma old_rows_dense: "dense_streams or_stream or_seq old_rows"
  unfolding dense_streams_def
proof
  fix s
  show "sort (map or_seq (filter (\<lambda>r. or_stream r = s) old_rows)) =
      map int [1..<Suc (length (filter (\<lambda>r. or_stream r = s) old_rows))]"
    by (cases "s = ''a''") (simp_all add: old_rows_def upt_rec)
qed

theorem migrate_always_fits_witness:
  "fst (import_legacy old_driver old_parse ''db'' BY_CLOCK False old_start) \<noteq> Ok 2
   \<and> fst (migrate_legacy old_driver old_parse ''db'' old_start) = Ok ()"
proof -
  obtain ys where dec: "decoded old_driver old_parse old_rows = Ok ys"
    using old_rows_decoded by (cases "decoded old_driver old_parse old_rows") auto
  have tbl: "snd (old_start ''db'') = Some old_rows" by (simp add: old_start_def)
  have num: "\<forall>r\<in>set old_rows. is_i64 (or_seq r)"
    by (simp add: old_rows_def is_i64_def i64_min_def i64_max_def)
  have new: "\<forall>r\<in>set old_rows. stream_rows (fst (old_start ''db'')) (or_stream r) = []"
    by (simp add: old_start_def stream_rows_def)
  have "fst (migrate_legacy old_driver old_parse ''db'' old_start) = Ok ()"
    by (rule migrate_always_fits [where rows = "\<lambda>w l. fst (w l)" and table = "\<lambda>w l. snd (w l)" and w = old_start
          and l = "''db''", OF ol.legacy_live_axioms tbl dec old_rows_dense num new])
  with old_first_attempt show ?thesis by blast
qed

section \<open>Errors across the bridge\<close>

lemma split_once_prefix: "sep \<noteq> [] \<Longrightarrow> split_once sep (sep @ rest) = Some ([], rest)"
  by (cases sep) simp_all

lemma split_once_colon:
  "CHR '':'' \<notin> set pre \<Longrightarrow> split_once '': '' (pre @ '': '' @ rest) = Some (pre, rest)"
  by (induction pre) simp_all

lemma split_lines_one: "CHR 0x0A \<notin> set a \<Longrightarrow> a \<noteq> [] \<Longrightarrow> split_lines a = [a]"
  by (induction a rule: induct_list012) auto

lemma split_lines_first: "CHR 0x0A \<notin> set a \<Longrightarrow> split_lines (a @ CHR 0x0A # t) = a # split_lines t"
  by (induction a) auto

lemma split_lines_Nil: "split_lines t = [] \<longleftrightarrow> t = []"
  by (cases t) (auto split: list.split)

lemma line_append:
  "CHR 0x0A \<notin> set a \<Longrightarrow> takeWhile (\<lambda>c. c \<noteq> CHR 0x0A) (a @ b) = a @ takeWhile (\<lambda>c. c \<noteq> CHR 0x0A) b"
  by (induction a) auto

lemma str_lines_head:
  assumes "s \<noteq> []"
  shows "\<exists>ls. str_lines s = (if CHR 0x0A \<in> set s then strip_cr (takeWhile (\<lambda>c. c \<noteq> CHR 0x0A) s) else s) # ls"
proof (cases "CHR 0x0A \<in> set s")
  case False
  then have "last s \<noteq> CHR 0x0A" using assms last_in_set by fastforce
  then show ?thesis using False assms by (simp add: str_lines_def Let_def split_lines_one)
next
  case True
  then obtain a t where s: "s = a @ CHR 0x0A # t" "CHR 0x0A \<notin> set a" using split_list_first by metis
  then have "takeWhile (\<lambda>c. c \<noteq> CHR 0x0A) s = a" by (simp add: line_append)
  then show ?thesis
    using True s by (cases "t = []") (auto simp: str_lines_def Let_def split_lines_first split_lines_Nil)
qed

lemma strip_cr_after: "pre \<noteq> [] \<Longrightarrow> last pre \<noteq> CHR 0x0D \<Longrightarrow> strip_cr (pre @ l) = pre @ strip_cr l"
  by (simp add: strip_cr_def butlast_append)

lemma error_kind_plain:
  "CHR '':'' \<notin> set (error_kind e)" "CHR 0x0A \<notin> set (error_kind e)" "CHR 0x0D \<notin> set (error_kind e)"
  by (cases e; simp add: error_kind_defs)+

text \<open>The first line of a text, when \<open>rest\<close> follows it: \<open>str::lines\<close> takes the line's end off, as LF or CRLF.\<close>

definition first_reason_line :: "string \<Rightarrow> string \<Rightarrow> string" where
  "first_reason_line s rest =
     (let l = takeWhile (\<lambda>c. c \<noteq> CHR 0x0A) s in
      if CHR 0x0A \<in> set (s @ rest) \<and> l \<noteq> [] \<and> last l = CHR 0x0D then butlast l else l)"

text \<open>
  C11: what the bridge raises for a method whose name has no colon and no line break, as all of its own
  have none, its reader takes apart again: class, method, whether another attempt can help, and the first
  line of the reason come back as the kernel gave them, also when a traceback follows on the next
  lines. A reason of one line comes back whole; of a longer one the further lines stay in the full
  text, which is always kept. A message with no line of the bridge's in it is handed back whole, with no
  class.
\<close>

theorem error_roundtrip:
  assumes "set mthd \<inter> {CHR '':'', CHR 0x0A} = {}"
    and "after = [] \<or> (\<exists>t. after = CHR 0x0A # t)"
  shows "read_error (knl_err mthd e @ after) =
      \<lparr>et_kind = Some (error_kind e), et_method = Some mthd, et_retryable = is_retryable e,
       et_message = first_reason_line (reason e) after, et_tostring = knl_err mthd e @ after\<rparr>
    \<and> (set (reason e) \<inter> {CHR 0x0A, CHR 0x0D} = {} \<longrightarrow> first_reason_line (reason e) after = reason e)
    \<and> ((\<forall>line\<in>set (str_lines foreign). \<not> str_contains ''knl: '' line) \<longrightarrow>
        read_error foreign = \<lparr>et_kind = None, et_method = None, et_retryable = False, et_message = foreign,
          et_tostring = foreign\<rparr>)"
proof -
  let ?pre = "''knl: '' @ mthd @ '': '' @ error_kind e @ '': ''"
  let ?msg = "first_reason_line (reason e) after" and ?nl = "\<lambda>c. c \<noteq> CHR 0x0A"
  let ?rest = "mthd @ '': '' @ error_kind e @ '': '' @ ?msg"
  let ?find = "find_map (\<lambda>line. map_option snd (split_once ''knl: '' line))"
  have form: "knl_err mthd e @ after = ?pre @ reason e @ after" by (simp add: knl_err_def err_of_def attributed_def)
  have plain: "CHR 0x0A \<notin> set ?pre" using assms(1) error_kind_plain by auto
  have "takeWhile ?nl (?pre @ reason e @ after) = ?pre @ takeWhile ?nl (reason e @ after)"
    by (rule line_append [OF plain])
  also have "takeWhile ?nl (reason e @ after) = takeWhile ?nl (reason e)"
  proof (cases "CHR 0x0A \<in> set (reason e)")
    case True
    then show ?thesis by (simp add: takeWhile_append1)
  next
    case False
    have whole: "takeWhile ?nl (reason e) = reason e" using line_append [OF False, of "[]"] by simp
    have "takeWhile ?nl after = []" using assms(2) by auto
    then show ?thesis by (simp only: whole line_append [OF False] append_Nil2)
  qed
  finally have line: "takeWhile ?nl (?pre @ reason e @ after) = ?pre @ takeWhile ?nl (reason e)" .
  have tail: "?pre \<noteq> []" "last ?pre \<noteq> CHR 0x0D" by simp_all
  have cut: "(if CHR 0x0A \<in> set (?pre @ reason e @ after) then strip_cr (takeWhile ?nl (?pre @ reason e @ after))
      else ?pre @ reason e @ after) = ?pre @ ?msg"
  proof (cases "CHR 0x0A \<in> set (reason e @ after)")
    case True
    have "strip_cr (takeWhile ?nl (reason e)) = ?msg"
      by (simp only: first_reason_line_def strip_cr_def Let_def True simp_thms)
    moreover have "CHR 0x0A \<in> set (?pre @ reason e @ after)" using True by simp
    ultimately show ?thesis by (simp only: if_True line strip_cr_after [OF tail])
  next
    case False
    then have clean: "after = []" "CHR 0x0A \<notin> set (reason e)" using assms(2) by auto
    from line_append [OF clean(2), of "[]"] have whole: "takeWhile ?nl (reason e) = reason e" by simp
    have "?msg = reason e" by (simp only: first_reason_line_def whole False Let_def simp_thms if_False)
    moreover have "CHR 0x0A \<notin> set (?pre @ reason e @ after)" using plain False by auto
    ultimately show ?thesis by (simp only: if_False clean(1) append_Nil2)
  qed
  have "?pre @ reason e @ after \<noteq> []" by simp
  from str_lines_head [OF this] obtain ls where
    "str_lines (knl_err mthd e @ after) = (?pre @ ?msg) # ls" unfolding cut form by (rule exE)
  note ls = this
  have "split_once ''knl: '' (?pre @ ?msg) = Some ([], ?rest)"
    using split_once_prefix [of "''knl: ''" ?rest] by simp
  then have found: "?find (str_lines (knl_err mthd e @ after)) = Some ?rest" by (simp add: ls)
  have s1: "split_once '': '' ?rest = Some (mthd, error_kind e @ '': '' @ ?msg)"
    using assms(1) by (intro split_once_colon) auto
  have s2: "split_once '': '' (error_kind e @ '': '' @ ?msg) = Some (error_kind e, ?msg)"
    by (intro split_once_colon error_kind_plain)
  have "?find xs = None" if "\<forall>line\<in>set xs. \<not> str_contains ''knl: '' line" for xs
    using that by (induction xs) (auto simp: split_once_None [symmetric])
  moreover have "?msg = reason e" if "set (reason e) \<inter> {CHR 0x0A, CHR 0x0D} = {}"
  proof -
    have "CHR 0x0A \<notin> set (reason e)" using that by auto
    from line_append [OF this, of "[]"] have whole: "takeWhile ?nl (reason e) = reason e" by simp
    have "\<not> (reason e \<noteq> [] \<and> last (reason e) = CHR 0x0D)" using that last_in_set [of "reason e"] by fastforce
    then show ?thesis by (simp only: first_reason_line_def whole Let_def simp_thms if_False)
  qed
  ultimately show ?thesis
    using found s1 s2 error_kind_in_KINDS [of e] retryable_by_kind [of e]
    by (auto simp: read_error_def Let_def simp del: append.simps append_assoc)
qed

theorem error_roundtrip_witness:
  "read_error (knl_err ''reserve'' (Busy ''locked: try again'')) =
     \<lparr>et_kind = Some ''busy'', et_method = Some ''reserve'', et_retryable = True,
      et_message = ''locked: try again'', et_tostring = ''knl: reserve: busy: locked: try again''\<rparr>
   \<and> et_message (read_error (knl_err ''reserve'' (Busy (''locked'' @ CHR 0x0A # ''by another process'')))) = ''locked''"
  using error_roundtrip [of "''reserve''" "[]" "Busy ''locked: try again''" "[]"]
    error_roundtrip [of "''reserve''" "[]" "Busy (''locked'' @ CHR 0x0A # ''by another process'')" "[]"]
  by (simp add: is_retryable_def BUSY_def knl_err_def err_of_def attributed_def first_reason_line_def)

end
