(* ===== verification/Bridge_Properties.thy ===== *)
theory Bridge_Properties
  imports Reference_Host
begin

text \<open>
  The properties of the session userdata and of \<open>knl.open\<close> / \<open>knl.resume\<close> as a script calls them,
  for every lawful store, with runs on the reference host as witnesses.
\<close>

section \<open>Shared steps\<close>

lemma seam_fresh: "seam_on st \<lparr>inner = st, chain = [], shown = shw\<rparr>"
  by (simp add: seam_on_def)

lemma resume_on_cases:
  assumes "resume_on H env g st sid w = (r, w')"
  obtains (failed) e where "session_resume (hp_shown H) (hp_id H) (hp_scope H) env None st w = (Err e, w')"
      "r = Err (knl_err ''resume'' e)"
  | (reserved) s where "session_resume (hp_shown H) (hp_id H) (hp_scope H) env None st w = (Ok s, w')"
      "sc_owner (s_scope s) = SYSTEM" "isl r"
  | (resumed) s where "session_resume (hp_shown H) (hp_id H) (hp_scope H) env None st w = (Ok s, w')"
      "sc_owner (s_scope s) \<noteq> SYSTEM" "g = None" "r = Ok (from_state (session_adopt_id sid s))"
  | (granted) s w1 gr rg sg where
      "session_resume (hp_shown H) (hp_id H) (hp_scope H) env None st w = (Ok s, w1)"
      "sc_owner (s_scope s) \<noteq> SYSTEM" "g = Some gr" "session_grant_more gr s (env 3 w1) = (rg, sg, w')"
      "r = map_err (knl_err ''resume'') (result_map (\<lambda>_. from_state (session_adopt_id sid sg)) rg)"
proof -
  obtain r0 w1 where run: "session_resume (hp_shown H) (hp_id H) (hp_scope H) env None st w = (r0, w1)"
    by fastforce
  show ?thesis
  proof (cases r0)
    case (Inl e)
    with assms run failed show ?thesis by (simp add: resume_on_def)
  next
    case (Inr s)
    show ?thesis
    proof (cases "sc_owner (s_scope s) = SYSTEM")
      case True
      with assms run Inr reserved show ?thesis by (auto simp: resume_on_def)
    next
      case False
      show ?thesis
      proof (cases g)
        case None
        with assms run Inr False resumed show ?thesis by (simp add: resume_on_def)
      next
        case (Some gr)
        obtain rg sg w2 where "session_grant_more gr s (env 3 w1) = (rg, sg, w2)" by (metis prod_cases3)
        with assms run Inr False Some granted [of s w1 gr rg sg] show ?thesis
          by (cases rg) (simp_all add: resume_on_def)
      qed
    qed
  qed
qed

section \<open>Resuming\<close>

text \<open>
  A script cannot resume a stream the reserved principal owns: the call is an error whatever grant
  it brings, and it writes nothing (what the streams gained, another handle wrote).
\<close>

theorem resume_refuses_system:
  assumes "lawful_store st view me" and "only_adds view env"
    and "List.find (\<lambda>e. cur_kind e = KIND_SESSION_OPENED) (view w me) = Some opened"
    and "string_field opened FIELD_OWNER = Some SYSTEM"
    and "resume_on H env g st sid w = (r, w')"
  shows "isl r \<and> (view w' = view w \<or> (\<exists>w1. view w1 = view w \<and> view w' = view (env 1 w1)))"
proof -
  note effect = lawful_store.resume_effect [OF assms(1) seam_fresh, folded session_resume_def]
  have owner: "sc_owner (s_scope s) = SYSTEM"
    if "session_resume (hp_shown H) (hp_id H) (hp_scope H) env None st w = (Ok s, w1)" for s w1
    using lawful_store.resume_law [OF assms(1) seam_fresh assms(2) that [unfolded session_resume_def]] assms(3,4)
    by (auto simp: restored_def scope_restore_def)
  from assms(5) show ?thesis
  proof (cases rule: resume_on_cases)
    case (failed e)
    then show ?thesis using effect by auto
  next
    case (reserved s)
    then show ?thesis using effect by auto
  qed (use owner in auto)
qed

definition system_world :: ref_world where
  "system_world =
     snd (session_open_on demo_shown ''a'' ''scope'' SYSTEM None None (demo_store ''a'') (\<lambda>_. []))"

theorem resume_refuses_system_witness:
  "isl (fst (resume_on demo_host (\<lambda>k w. w) (Some (grant_new 5)) (demo_store ''a'') ''a'' system_world))"
proof -
  let ?find = "List.find (\<lambda>e. cur_kind e = KIND_SESSION_OPENED) (demo_view system_world ''a'')"
  have "case ?find of Some e \<Rightarrow> string_field e FIELD_OWNER = Some SYSTEM | None \<Rightarrow> False" by code_simp
  then obtain e where "?find = Some e" "string_field e FIELD_OWNER = Some SYSTEM" by (auto split: option.splits)
  from resume_refuses_system [where view = demo_view, OF demo_lawful only_adds_id this] show ?thesis
    by (metis prod.collapse)
qed

text \<open>
  A grant given to \<open>knl.resume\<close> is recorded on whatever the stream's ledger is by then, a stream
  that was opened without a budget included, for which it starts a ledger (the kernel's own
  \<open>grant_on_resume\<close> refuses such a grant): the new balance is the old one, or zero where there was
  none, plus the amount.
\<close>

theorem resume_grant_adds:
  assumes "lawful_store st view me" and "only_adds view env" and "is_i64 (amount g)"
    and "resume_on H env (Some g) st sid w = (Ok ls, w')"
  shows "0 \<le> amount g \<and> lua_id ls = sid \<and> lua_owner ls \<noteq> SYSTEM \<and> (\<exists>v. streams_grow (view w) (view v)
    \<and> (\<exists>cm sc. view w' = land (view v) me [granted_event g sc] [cm])
    \<and> fold_balance (view w' me) =
        Some (i64_saturating_add (case fold_balance (view v me) of None \<Rightarrow> 0 | Some b \<Rightarrow> b) (amount g)))"
  using assms(4)
proof (cases rule: resume_on_cases)
  case (granted s w1 gr rg sg)
  have at: "seam_on st (s_store s)" and "streams_grow (view w) (view w1)"
    using lawful_store.resume_law [OF assms(1) seam_fresh assms(2) granted(1) [unfolded session_resume_def]]
    by (auto simp: restored_def seam_on_def)
  moreover have "streams_grow (view w1) (view (env 3 w1))" by (rule only_addsD [OF assms(2)])
  ultimately have grow: "streams_grow (view w) (view (env 3 w1))" by (metis streams_grow_trans)
  obtain u where rg: "rg = Ok u" using granted(5) by (cases rg) auto
  from lawful_store.grant_more_law [OF assms(1) at granted(4)] rg obtain cm where
    land: "view w' = land (view (env 3 w1)) me [granted_event gr (sc_id (s_scope s))] [cm]"
    and sg: "scope_grant_more (s_scope s) gr = (Ok u, s_scope sg)" by auto
  have pos: "0 \<le> amount gr" and sc: "s_scope sg = (s_scope s)\<lparr>sc_grant := Some gr\<rparr>"
    using sg by (auto simp: scope_grant_more_def check_amount_def split: if_splits)
  have own: "sc_owner (s_scope sg) = sc_owner (s_scope s)" by (simp add: sc)
  have "fold_balance (view w' me) = Some (i64_saturating_add
      (case fold_balance (view (env 3 w1) me) of None \<Rightarrow> 0 | Some b \<Rightarrow> b) (amount gr))"
    using pos assms(3) granted(3) by (simp add: land land_1 ledger_step_granted ledger_amount_of split: option.split)
  moreover have "lua_id ls = sid \<and> lua_owner ls \<noteq> SYSTEM"
    using granted(2,5) rg own by (auto simp: lua_id_def lua_owner_def from_state_def session_adopt_id_def)
  ultimately show ?thesis using grow land pos granted(3) by blast
qed auto

theorem resume_grant_adds_witness:
  "fold_balance (demo_view bare_world ''a'') = None
   \<and> fold_balance (demo_view (snd (resume_on demo_host (\<lambda>k w. w) (Some (grant_new 7)) (demo_store ''a'') ''a'' bare_world)) ''a'')
       \<noteq> None"
proof -
  let ?run = "resume_on demo_host (\<lambda>k w. w) (Some (grant_new 7)) (demo_store ''a'') ''a'' bare_world"
  have "case fst ?run of Ok _ \<Rightarrow> True | Err _ \<Rightarrow> False" by code_simp
  then obtain ls where run: "?run = (Ok ls, snd ?run)" by (cases "fst ?run") (auto simp: prod_eq_iff)
  have "is_i64 (amount (grant_new 7))" by (simp add: grant_new_def)
  from resume_grant_adds [where view = demo_view, OF demo_lawful only_adds_id this run]
  have "fold_balance (demo_view (snd ?run) ''a'') \<noteq> None" by auto
  moreover have "fold_balance (demo_view bare_world ''a'') = None" by code_simp
  ultimately show ?thesis by blast
qed

section \<open>Reading\<close>

text \<open>
  A page of \<open>s:events(from)\<close> is the first thousand events from that number on, in order, and the
  flag beside it says exactly whether there were more; the read writes nothing.
\<close>

theorem events_page_exact:
  assumes "lawful_store st view me" and "seam_on st (s_store (ls_state ls))"
    and "lua_events from ls w = (r, w')"
  shows "view w' = view w \<and>
    (case r of
       Ok (rows, rest_left) \<Rightarrow>
         (let found = filter (\<lambda>e. (case from of None \<Rightarrow> 0 | Some n \<Rightarrow> n) \<le> cur_seq e) (view w me) in
          rows = JArray (map JObject (take DEFAULT_LIMIT found)) \<and> rest_left = (DEFAULT_LIMIT < length found))
     | Err x \<Rightarrow> True)"
proof -
  let ?from = "case from of None \<Rightarrow> 0 | Some n \<Rightarrow> n"
  obtain rr where rr: "cur_read_kinds (s_store (ls_state ls)) None ?from (Some (DEFAULT_LIMIT + 1)) w = (rr, w')"
    and r: "r = map_err (knl_err ''events'') (result_map (\<lambda>es.
      (JArray (map JObject (take DEFAULT_LIMIT es)), DEFAULT_LIMIT < length es)) rr)"
    using assms(3) by (auto simp: lua_events_def session_events_def cur_read_def split: prod.splits sum.splits)
  note law = lawful_store.cur_read_kinds_law [OF assms(1,2) rr]
  show ?thesis
  proof (cases rr)
    case (Inr es)
    from law(2) [OF this] have "es = take (Suc DEFAULT_LIMIT) (filter (\<lambda>e. ?from \<le> cur_seq e) (view w me))"
      by (simp add: of_kinds_def)
    with law(1) r Inr show ?thesis by (auto simp: Let_def min_def)
  qed (use law(1) r in auto)
qed

theorem events_page_exact_witness:
  "case fst (lua_events (Some 2) (from_state demo_session) demo_world) of
     Ok (rows, rest_left) \<Rightarrow> rows = JArray [JObject (demo_view demo_world ''a'' ! 1)] \<and> \<not> rest_left | Err _ \<Rightarrow> False"
proof -
  let ?run = "lua_events (Some 2) (from_state demo_session) demo_world"
  have run: "?run = (fst ?run, snd ?run)" by simp
  have val: "case fst ?run of Ok _ \<Rightarrow> True | Err _ \<Rightarrow> False" by code_simp
  have found: "filter (\<lambda>e. 2 \<le> cur_seq e) (demo_view demo_world ''a'') = [demo_view demo_world ''a'' ! 1]"
    by code_simp
  have seam: "seam_on (demo_store ''a'') (s_store (ls_state (from_state demo_session)))"
    using demo_seam by (simp add: from_state_def)
  from events_page_exact [OF demo_lawful seam run] val show ?thesis
    by (auto simp: found DEFAULT_LIMIT_def split: sum.splits)
qed

section \<open>The end of a block\<close>

text \<open>
  At the end of a block the session's boundary is recorded with the reason that fits, and the
  handle is closed, or nothing is written and the handle stays open; the failure is raised on a
  clean exit and is never raised over an error the block is already unwinding with. A handle that
  was closed before is left alone.
\<close>

theorem block_exit_records:
  assumes "lawful_store st view me" and "seam_on st (s_store (ls_state ls))"
    and "lua_close_meta e ls w = (r, ls', w')"
  shows "(e \<noteq> LNil \<longrightarrow> r = Ok ())
    \<and> (if s_closed (ls_state ls) then r = Ok () \<and> ls' = ls \<and> w' = w
       else (r = Ok () \<and> s_closed (ls_state ls') \<and> (\<exists>ids cm. view w' = land (view w) me
               [closing_event (Some (if e = LNil then CLOSE_REASON_SCOPE_EXIT else CLOSE_REASON_ERROR))
                  (if e = LNil then None else Some (error_detail e)) ids] [cm]))
          \<or> (ls' = ls \<and> view w' = view w \<and> (e = LNil \<longrightarrow> (\<exists>x. r = Err (knl_err ''close'' x)))))"
proof (cases "s_closed (ls_state ls)")
  case True
  with assms(3) show ?thesis by (simp add: lua_close_meta_def Let_def split: prod.splits)
next
  case False
  let ?why = "Some (if e = LNil then CLOSE_REASON_SCOPE_EXIT else CLOSE_REASON_ERROR)"
  let ?detail = "if e = LNil then None else Some (error_detail e)"
  have pair: "(case e of LNil \<Rightarrow> (CLOSE_REASON_SCOPE_EXIT, None) | x \<Rightarrow> (CLOSE_REASON_ERROR, Some (error_detail x)))
      = (the ?why, ?detail)" by (cases e) simp_all
  obtain rc s' where run: "session_close_with ?why ?detail (ls_state ls) w = (rc, s', w')"
    and out: "ls' = ls\<lparr>ls_state := s'\<rparr>"
      "r = (case rc of Ok _ \<Rightarrow> Ok () | Err x \<Rightarrow> if e \<noteq> LNil then Ok () else Err (knl_err ''close'' x))"
    using assms(3) False unfolding lua_close_meta_def pair Let_def
    by (auto split: prod.splits sum.splits)
  note law = lawful_store.close_law [OF assms(1,2) run False]
  show ?thesis
  proof (cases rc)
    case (Inl x)
    with law out False show ?thesis by auto
  next
    case (Inr u)
    with law obtain ids cm where "s' = (ls_state ls)\<lparr>s_closed := True\<rparr>"
      "view w' = land (view w) me [closing_event ?why ?detail ids] [cm]" by auto
    moreover from this(1) Inr out have "r = Ok ()" "s_closed (ls_state ls')" by simp_all
    ultimately show ?thesis using False by (simp only: if_False) blast
  qed
qed

theorem block_exit_records_witness:
  "\<exists>ids cm. demo_view (snd (snd (lua_close_meta (LString ''boom'') (from_state demo_session) demo_world)))
     = land (demo_view demo_world) ''a'' [closing_event (Some CLOSE_REASON_ERROR) (Some ''boom'') ids] [cm]"
proof -
  let ?run = "lua_close_meta (LString ''boom'') (from_state demo_session) demo_world"
  have run: "?run = (fst ?run, fst (snd ?run), snd (snd ?run))" by simp
  have seam: "seam_on (demo_store ''a'') (s_store (ls_state (from_state demo_session)))"
    using demo_seam by (simp add: from_state_def)
  have opn: "\<not> s_closed (ls_state (from_state demo_session))" by (simp add: from_state_def demo_session_def)
  have shut: "s_closed (ls_state (fst (snd ?run)))" by code_simp
  then have "fst (snd ?run) \<noteq> from_state demo_session" using opn by metis
  moreover have "error_detail (LString ''boom'') = ''boom''" by code_simp
  ultimately show ?thesis using block_exit_records [OF demo_lawful seam run] opn by auto
qed

section \<open>Opening\<close>

lemma budget_source_forms:
  "budget_source_of mthd budget = Ok src \<Longrightarrow>
     (case budget of
        None \<Rightarrow> src = None
      | Some b \<Rightarrow>
          (\<exists>n \<ge> 0. bo_from_parent b = None \<and> bo_amount b = Some n
             \<and> src = Some (Grant \<lparr>amount = n, tag = bo_tag b, desc = bo_desc b\<rparr>))
        \<or> (\<exists>n \<ge> 0. bo_from_parent b = Some n \<and> bo_amount b = None \<and> bo_desc b = None
             \<and> src = Some (FromParent \<lparr>alloc_amount = n, alloc_tag = bo_tag b\<rparr>)))"
  by (auto simp: budget_source_of_def split: option.splits if_splits)

lemma open_on_identity:
  "session_open_on shw mid msc own_id g meta st w = (Ok s, w') \<Longrightarrow> sc_owner (s_scope s) = own_id"
  by (auto simp: session_open_on_def Let_def scope_new_def split: prod.splits sum.splits)

lemma open_root_identity:
  assumes "open_root H env own_id budget meta named dstore lg w = (Ok ls, lg', w')"
  shows "lua_id ls = hp_stream H \<and> lua_owner ls = own_id \<and> (\<forall>a. budget \<noteq> Some (FromParent a))"
proof -
  have sq: "lua_id ls = hp_stream H \<and> lua_owner ls = own_id"
    if "open_sqlite H env own_id g meta p lg w = (Ok ls, lg', w')" for g p
    using that by (auto simp: open_sqlite_def lua_id_def lua_owner_def from_state_def session_adopt_id_def
        dest: open_on_identity split: prod.splits sum.splits)
  have mem: "lua_id ls = hp_stream H \<and> lua_owner ls = own_id"
    if "lua_session_new H env own_id g meta lg w = (Ok ls, lg', w')" for g
    using that by (auto simp: lua_session_new_def session_new_def lua_id_def lua_owner_def from_state_def
        session_adopt_id_def map_err_def result_map_def dest: open_on_identity split: prod.splits sum.splits)
  show ?thesis
    using assms by (auto simp: open_root_def Let_def dest: sq mem split: option.splits budget_source.splits store_target.splits)
qed

text \<open>
  Where a session's quota comes from is never ambiguous: an open that succeeds named no reserved
  owner; without a parent it brought no budget or an owner's grant of a whole, non-negative amount
  and the new session is the stream and the owner it was asked for; with a parent it is a live
  session and the budget is an allocation out of that session's balance and nothing else.
\<close>

theorem open_forms:
  assumes "open_session H env (OA_Table pv (Ok (Ok opts))) dstore labels lg w = (Ok ls, lg', w')"
  shows "oo_owner opts \<noteq> Some ANON \<and> oo_owner opts \<noteq> Some SYSTEM
    \<and> (case pv of
         PV_Nil \<Rightarrow> (case oo_budget opts of
             None \<Rightarrow> True
           | Some b \<Rightarrow> bo_from_parent b = None \<and> (\<exists>n \<ge> 0. bo_amount b = Some n))
           \<and> lua_id ls = hp_stream H \<and> lua_owner ls = (case oo_owner opts of None \<Rightarrow> ANON | Some own_id \<Rightarrow> own_id)
       | PV_UserData handle \<Rightarrow> handle \<noteq> None \<and> (\<exists>b. oo_budget opts = Some b
           \<and> bo_amount b = None \<and> bo_desc b = None \<and> (\<exists>n \<ge> 0. bo_from_parent b = Some n))
       | _ \<Rightarrow> False)"
proof -
  obtain own_id where own: "owner_of (oo_owner opts) = Ok own_id"
    using assms by (cases "owner_of (oo_owner opts)"; cases pv) (auto simp: open_session_def parse_parent_def open_opts_of_def from_lua_def)
  obtain src where src: "budget_source_of ''open'' (oo_budget opts) = Ok src"
    using assms own by (cases "budget_source_of ''open'' (oo_budget opts)"; cases pv)
      (auto simp: open_session_def parse_parent_def open_opts_of_def from_lua_def)
  obtain target where target: "optional_target ''open'' (oo_store opts) = Ok target"
    using assms own src by (cases "optional_target ''open'' (oo_store opts)"; cases pv)
      (auto simp: open_session_def parse_parent_def open_opts_of_def from_lua_def)
  have id: "oo_owner opts \<noteq> Some ANON \<and> oo_owner opts \<noteq> Some SYSTEM
      \<and> own_id = (case oo_owner opts of None \<Rightarrow> ANON | Some x \<Rightarrow> x)"
    using own by (auto simp: owner_of_def split: option.splits if_splits)
  note forms = budget_source_forms [OF src]
  show ?thesis
  proof (cases pv)
    case PV_Nil
    with assms own src target have
      "open_root H env own_id src (under_host_labels labels (meta_map (oo_meta opts))) target dstore lg w = (Ok ls, lg', w')"
      by (simp add: open_session_def parse_parent_def open_opts_of_def from_lua_def Let_def)
    from open_root_identity [OF this] id forms PV_Nil show ?thesis by (auto split: option.splits)
  next
    case (PV_UserData handle)
    with assms own src target obtain a where a: "src = Some (FromParent a)"
      and "open_child_session H env handle own_id a (under_host_labels labels (meta_map (oo_meta opts))) target lg w
        = (Ok ls, lg', w')"
      by (auto simp: open_session_def parse_parent_def open_opts_of_def from_lua_def Let_def
          split: option.splits budget_source.splits)
    then have "handle \<noteq> None" by (cases handle) (simp_all add: open_child_session_def)
    with a id forms PV_UserData show ?thesis by (auto split: option.splits)
  qed (use assms in \<open>simp_all add: open_session_def parse_parent_def\<close>)
qed

definition demo_open_opts :: open_opts where
  "demo_open_opts =
     \<lparr>oo_owner = Some ''bob'',
      oo_budget = Some \<lparr>bo_amount = Some 3, bo_tag = None, bo_desc = None, bo_from_parent = None\<rparr>,
      oo_store = Some (Named ''mem''), oo_meta = None\<rparr>"

theorem open_forms_witness:
  "case fst (open_session demo_host (\<lambda>k w. w) (OA_Table PV_Nil (Ok (Ok demo_open_opts))) [] [] logs_new (\<lambda>_. [])) of
     Ok ls \<Rightarrow> lua_owner ls = ''bob'' \<and> lua_id ls = ''a'' | Err _ \<Rightarrow> False"
proof -
  let ?run = "open_session demo_host (\<lambda>k w. w) (OA_Table PV_Nil (Ok (Ok demo_open_opts))) [] [] logs_new (\<lambda>_. [])"
  have "case fst ?run of Ok _ \<Rightarrow> True | Err _ \<Rightarrow> False" by code_simp
  then obtain ls where ls: "fst ?run = Ok ls" by (cases "fst ?run") auto
  then have "?run = (Ok ls, fst (snd ?run), snd (snd ?run))" by (simp add: prod_eq_iff)
  from open_forms [OF this] have "lua_owner ls = ''bob''" "lua_id ls = ''a''"
    by (simp_all add: demo_open_opts_def demo_host_def)
  then show ?thesis by (simp add: ls)
qed

section \<open>Text the bridge cuts\<close>

lemma char_count_Cons: "char_count (c # cs) = (if continues c then 0 else 1) + char_count cs"
  by (simp add: char_count_def)

lemma take_chars_prefix:
  "\<exists>rest. msg = take_chars n msg @ rest \<and> (rest = [] \<or> \<not> continues (hd rest))
     \<and> char_count (take_chars n msg) = min n (char_count msg)"
proof (induction n msg rule: take_chars.induct)
  case (1 n)
  then show ?case by (simp add: char_count_def)
next
  case (2 n c cs)
  show ?case
  proof (cases "continues c")
    case True
    with 2(1) [OF True] show ?thesis by (auto simp: char_count_Cons)
  next
    case False
    then show ?thesis
    proof (cases n)
      case 0
      with False show ?thesis by (auto simp: char_count_def)
    next
      case (Suc k)
      with 2(2) [OF False Suc] False show ?thesis by (auto simp: char_count_Cons)
    qed
  qed
qed

lemma truncated_keeps_characters:
  "char_count (truncated msg) \<le> DETAIL_MAX_CHARS + 3
   \<and> (char_count msg \<le> DETAIL_MAX_CHARS \<longrightarrow> truncated msg = msg)
   \<and> (\<exists>kept rest. msg = kept @ rest \<and> char_count kept = min DETAIL_MAX_CHARS (char_count msg)
        \<and> (truncated msg = kept \<or> truncated msg = kept @ ''...'') \<and> (rest = [] \<or> \<not> continues (hd rest)))"
proof -
  obtain rest where rest: "msg = take_chars DETAIL_MAX_CHARS msg @ rest" "rest = [] \<or> \<not> continues (hd rest)"
    "char_count (take_chars DETAIL_MAX_CHARS msg) = min DETAIL_MAX_CHARS (char_count msg)"
    using take_chars_prefix [of msg DETAIL_MAX_CHARS] by blast
  have dots: "char_count (x @ ''...'') = char_count x + 3" for x
    by (simp add: char_count_def continues_def)
  show ?thesis
  proof (cases "char_count msg \<le> DETAIL_MAX_CHARS")
    case True
    then show ?thesis by (intro conjI exI [of _ msg] exI [of _ "[]"]) (simp_all add: truncated_def)
  next
    case False
    then have "truncated msg = take_chars DETAIL_MAX_CHARS msg @ ''...''" by (simp add: truncated_def)
    with rest False dots [of "take_chars DETAIL_MAX_CHARS msg"] show ?thesis
      by (intro conjI exI [of _ "take_chars DETAIL_MAX_CHARS msg"] exI [of _ rest]) (auto simp: dots)
  qed
qed

end
