(* ===== verification/Bus.thy ===== *)
theory Bus
  imports Json
begin

text \<open>
  The event bus, \<open>bus/event.rs\<close> and \<open>bus/dispatcher.rs\<close>: events with an optional one-shot
  acknowledgement, the handler table, the dispatch of one event and the dispatcher loop. The
  loop runs beside its sources, so it is a step relation: a step is the loop taking an event,
  the loop finishing the one it took, the loop leaving, or something a source does (push an
  event, stop waiting for an answer, go away) or the host does (cancel). What a handler answers
  is an argument of the step that finishes its event, so that every answer is covered.
\<close>

section \<open>Errors and acknowledgements\<close>

text \<open>\<open>BlockError\<close> of the types crate, each variant with its text.\<close>

datatype block_error =
    BE_Mcp string
  | BE_Mesh string
  | BE_Io string
  | BE_Json string
  | BE_Script string
  | BE_Deferred string
  | BE_Timeout string
  | BE_Runtime string
  | BE_Bus string
  | BE_Cancelled

fun display_block_error :: "block_error \<Rightarrow> string" where
  "display_block_error (BE_Mcp m) = ''MCP error: '' @ m"
| "display_block_error (BE_Mesh m) = ''mesh error: '' @ m"
| "display_block_error (BE_Io m) = ''I/O error: '' @ m"
| "display_block_error (BE_Json m) = ''JSON error: '' @ m"
| "display_block_error (BE_Script m) = ''script error: '' @ m"
| "display_block_error (BE_Deferred m) = ''deferred: '' @ m"
| "display_block_error (BE_Timeout m) = ''timeout: '' @ m"
| "display_block_error (BE_Runtime m) = ''runtime error: '' @ m"
| "display_block_error (BE_Bus m) = ''bus error: '' @ m"
| "display_block_error BE_Cancelled = ''cancelled''"

type_synonym ack_result = "block_error + json"

text \<open>
  A one-shot channel by its number: nobody answered yet, an answer was sent, the receiver is gone,
  or the sender is gone without an answer.
\<close>

datatype oneshot = Waiting | Answered ack_result | Abandoned | SenderGone

type_synonym channels = "nat \<Rightarrow> oneshot"

record bus_event =
  be_kind :: string
  be_id :: string
  be_payload :: json
  be_meta :: json
  be_ack :: "nat option"

definition fire_and_forget :: "string \<Rightarrow> string \<Rightarrow> json \<Rightarrow> bus_event" where
  "fire_and_forget kind eid payload =
     \<lparr>be_kind = kind, be_id = eid, be_payload = payload, be_meta = JNull, be_ack = None\<rparr>"

definition with_ack :: "nat \<Rightarrow> string \<Rightarrow> string \<Rightarrow> json \<Rightarrow> json \<Rightarrow> bus_event" where
  "with_ack chan kind eid payload meta =
     \<lparr>be_kind = kind, be_id = eid, be_payload = payload, be_meta = meta, be_ack = Some chan\<rparr>"

definition deliver_ack ::
  "ack_result \<Rightarrow> bus_event \<Rightarrow> channels \<Rightarrow> (block_error + unit) \<times> bus_event \<times> channels" where
  "deliver_ack res evt chans =
     (case be_ack evt of
        None \<Rightarrow> (Ok (), evt, chans)
      | Some chan \<Rightarrow>
          (let evt' = evt\<lparr>be_ack := None\<rparr> in
           if chans chan = Abandoned
           then (Err (BE_Bus (fmt [''ack receiver dropped (kind='', be_kind evt, '', id='', be_id evt, '')''])), evt', chans)
           else (Ok (), evt', chans(chan := Answered res))))"

section \<open>The handler table\<close>

record 'h event_bus =
  eb_handlers :: "string \<rightharpoonup> 'h"
  eb_any :: "'h option"
  eb_running :: bool

definition bus_new :: "'h event_bus" where
  "bus_new = \<lparr>eb_handlers = Map.empty, eb_any = None, eb_running = False\<rparr>"

definition bus_on :: "string \<Rightarrow> 'h \<Rightarrow> 'h event_bus \<Rightarrow> (block_error + unit) \<times> 'h event_bus" where
  "bus_on kind h bus =
     (if eb_running bus
      then (Err (BE_Bus ''bus.on cannot be called after bus.serve() has started''), bus)
      else (Ok (), bus\<lparr>eb_handlers := (eb_handlers bus)(kind \<mapsto> h)\<rparr>))"

definition bus_on_any :: "'h \<Rightarrow> 'h event_bus \<Rightarrow> (block_error + unit) \<times> 'h event_bus" where
  "bus_on_any h bus =
     (if eb_running bus
      then (Err (BE_Bus ''bus.on_any cannot be called after bus.serve() has started''), bus)
      else (Ok (), bus\<lparr>eb_any := Some h\<rparr>))"

section \<open>One event\<close>

text \<open>How a handler's task ended: with its answer, with a panic, or not joinable.\<close>

datatype panic_payload = PanicStr string | PanicString string | PanicOther

datatype task_end = Returned ack_result | Panicked panic_payload | JoinFailed string

fun panic_message :: "panic_payload \<Rightarrow> string" where
  "panic_message (PanicStr s) = s"
| "panic_message (PanicString s) = s"
| "panic_message PanicOther = ''<non-string panic payload>''"

definition handler_for :: "'h event_bus \<Rightarrow> bus_event \<Rightarrow> 'h option" where
  "handler_for bus evt =
     (case eb_handlers bus (be_kind evt) of Some h \<Rightarrow> Some h | None \<Rightarrow> eb_any bus)"

definition ack_of_end :: "task_end \<Rightarrow> ack_result" where
  "ack_of_end e =
     (case e of
        Returned ack \<Rightarrow> ack
      | Panicked p \<Rightarrow> Err (BE_Bus (fmt [''handler panic: '', panic_message p]))
      | JoinFailed why \<Rightarrow> Err (BE_Bus (fmt [''handler panic: '', ''handler task error: '', why])))"

text \<open>\<open>ended\<close> says how the handler's task ends, when there is a handler to call.\<close>

definition dispatch :: "'h event_bus \<Rightarrow> ('h \<Rightarrow> task_end) \<Rightarrow> bus_event \<Rightarrow> channels \<Rightarrow> channels" where
  "dispatch bus ended evt chans =
     (case handler_for bus evt of
        None \<Rightarrow>
          (case deliver_ack (Err (BE_Bus (fmt [''no handler for kind `'', be_kind evt, ''`'']))) evt chans of
             (_, _, chans') \<Rightarrow> chans')
      | Some h \<Rightarrow>
          (case deliver_ack (ack_of_end (ended h)) evt chans of (_, _, chans') \<Rightarrow> chans'))"

text \<open>
  The call a dispatch makes, with how the task it spawned ended: none without a handler, one
  otherwise, of the handler the table names, with the event's kind, id, payload and meta.
\<close>

record 'h handler_call =
  hc_handler :: 'h
  hc_event :: bus_event
  hc_end :: task_end

definition calls_of :: "'h event_bus \<Rightarrow> ('h \<Rightarrow> task_end) \<Rightarrow> bus_event \<Rightarrow> 'h handler_call list" where
  "calls_of bus ended evt =
     (case handler_for bus evt of
        None \<Rightarrow> []
      | Some h \<Rightarrow> [\<lparr>hc_handler = h, hc_event = evt, hc_end = ended h\<rparr>])"

section \<open>The loop beside its sources\<close>

text \<open>
  \<open>bc_queue\<close> is the bounded channel, \<open>bc_current\<close> the event whose handler is running. \<open>bc_pushed\<close>,
  \<open>bc_taken\<close> and \<open>bc_calls\<close> only record what was pushed, what the loop took, and which handler was
  called with which event and how that call ended, for the statements.
\<close>

record 'h bus_config =
  bc_bus :: "'h event_bus"
  bc_capacity :: nat
  bc_queue :: "bus_event list"
  bc_current :: "bus_event option"
  bc_senders :: nat
  bc_cancelled :: bool
  bc_closed :: bool
  bc_exited :: bool
  bc_chans :: channels
  bc_pushed :: "bus_event list"
  bc_taken :: "bus_event list"
  bc_calls :: "'h handler_call list"

text \<open>What is left when the bus is dropped with events in its queue: their senders are gone.\<close>

definition drop_acks :: "bus_event list \<Rightarrow> channels \<Rightarrow> channels" where
  "drop_acks evts chans =
     (\<lambda>n. if Some n \<in> be_ack ` set evts \<and> chans n = Waiting then SenderGone else chans n)"

inductive loop_step :: "'h bus_config \<Rightarrow> 'h bus_config \<Rightarrow> bool" where
  take_event: "\<lbrakk> \<not> bc_exited c; \<not> bc_cancelled c; bc_current c = None; bc_queue c = evt # rest \<rbrakk> \<Longrightarrow>
    loop_step c (c\<lparr>bc_queue := rest, bc_current := Some evt, bc_taken := bc_taken c @ [evt]\<rparr>)"
| finish_event: "\<lbrakk> \<not> bc_exited c; bc_current c = Some evt \<rbrakk> \<Longrightarrow>
    loop_step c (c\<lparr>bc_current := None, bc_chans := dispatch (bc_bus c) ended evt (bc_chans c),
      bc_calls := bc_calls c @ calls_of (bc_bus c) ended evt\<rparr>)"
| leave_cancelled: "\<lbrakk> \<not> bc_exited c; bc_cancelled c; bc_current c = None \<rbrakk> \<Longrightarrow>
    loop_step c (c\<lparr>bc_closed := True, bc_exited := True, bc_chans := drop_acks (bc_queue c) (bc_chans c)\<rparr>)"
| leave_senders: "\<lbrakk> \<not> bc_exited c; \<not> bc_cancelled c; bc_current c = None; bc_queue c = []; bc_senders c = 0 \<rbrakk> \<Longrightarrow>
    loop_step c (c\<lparr>bc_closed := True, bc_exited := True\<rparr>)"

inductive env_step :: "'h bus_config \<Rightarrow> 'h bus_config \<Rightarrow> bool" where
  push: "\<lbrakk> \<not> bc_closed c; 0 < bc_senders c; length (bc_queue c) < bc_capacity c;
      \<forall>n. be_ack evt = Some n \<longrightarrow> bc_chans c n = Waiting \<and> Some n \<notin> be_ack ` set (bc_pushed c) \<rbrakk> \<Longrightarrow>
    env_step c (c\<lparr>bc_queue := bc_queue c @ [evt], bc_pushed := bc_pushed c @ [evt]\<rparr>)"
| give_up: "bc_chans c n = Waiting \<Longrightarrow> env_step c (c\<lparr>bc_chans := (bc_chans c)(n := Abandoned)\<rparr>)"
| drop_sender: "bc_senders c = Suc k \<Longrightarrow> env_step c (c\<lparr>bc_senders := k\<rparr>)"
| clone_sender: "0 < bc_senders c \<Longrightarrow> env_step c (c\<lparr>bc_senders := Suc (bc_senders c)\<rparr>)"
| cancel: "env_step c (c\<lparr>bc_cancelled := True\<rparr>)"

definition bus_step :: "'h bus_config \<Rightarrow> 'h bus_config \<Rightarrow> bool" where
  "bus_step c c' \<longleftrightarrow> loop_step c c' \<or> env_step c c'"

text \<open>\<open>run\<close> starts with the flag that ends registration.\<close>

definition bus_start :: "'h event_bus \<Rightarrow> nat \<Rightarrow> nat \<Rightarrow> 'h bus_config" where
  "bus_start bus cap senders =
     \<lparr>bc_bus = bus\<lparr>eb_running := True\<rparr>, bc_capacity = cap, bc_queue = [], bc_current = None, bc_senders = senders,
      bc_cancelled = False, bc_closed = False, bc_exited = False, bc_chans = (\<lambda>_. Waiting),
      bc_pushed = [], bc_taken = [], bc_calls = []\<rparr>"

inductive reached :: "'h bus_config \<Rightarrow> 'h bus_config \<Rightarrow> bool" for c0 where
  start: "reached c0 c0"
| step: "reached c0 c \<Longrightarrow> bus_step c c' \<Longrightarrow> reached c0 c'"

inductive_cases loop_stepE: "loop_step c c'"
inductive_cases env_stepE: "env_step c c'"

section \<open>Answers\<close>

definition acks :: "bus_event list \<Rightarrow> nat set" where
  "acks evts = {n. Some n \<in> be_ack ` set evts}"

lemma acks_simps [simp]:
  "acks [] = {}"
  "acks (e # es) = (case be_ack e of None \<Rightarrow> {} | Some n \<Rightarrow> {n}) \<union> acks es"
  "acks (es @ es') = acks es \<union> acks es'"
  by (auto simp: acks_def image_iff split: option.splits)

text \<open>The answer a dispatched event gets, by the table and by how the handler's task ends.\<close>

definition answer_for :: "'h event_bus \<Rightarrow> ('h \<Rightarrow> task_end) \<Rightarrow> bus_event \<Rightarrow> ack_result" where
  "answer_for bus ended evt =
     (case handler_for bus evt of
        None \<Rightarrow> Err (BE_Bus (fmt [''no handler for kind `'', be_kind evt, ''`'']))
      | Some h \<Rightarrow> ack_of_end (ended h))"

lemma dispatch_answer:
  "dispatch bus ended evt chans =
     (case be_ack evt of
        None \<Rightarrow> chans
      | Some n \<Rightarrow> if chans n = Abandoned then chans else chans(n := Answered (answer_for bus ended evt)))"
  by (auto simp: dispatch_def deliver_ack_def answer_for_def Let_def split: option.split)

lemma drop_acks_other: "n \<notin> acks evts \<Longrightarrow> drop_acks evts chans n = chans n"
  by (auto simp: drop_acks_def acks_def)

lemma drop_acks_kept: "chans n \<noteq> Waiting \<Longrightarrow> drop_acks evts chans n = chans n"
  by (simp add: drop_acks_def)

end
