(* ===== verification/Strings.thy ===== *)
theory Strings
  imports Query
begin

text \<open>
  What the sources of the bus, the log lines and the value bridge use of \<open>str\<close>: a string is
  its UTF-8 bytes. Validation and lossy decoding follow the byte ranges of the Unicode standard's
  table of well-formed sequences, one replacement character for each maximal ill-formed part, as
  \<open>String::from_utf8_lossy\<close> has it; \<open>trim\<close> removes the characters with the property \<open>White_Space\<close>.
\<close>

section \<open>UTF-8\<close>

definition byte_in :: "nat \<Rightarrow> nat \<Rightarrow> char \<Rightarrow> bool" where
  "byte_in lo hi c \<longleftrightarrow> lo \<le> (of_char c :: nat) \<and> (of_char c :: nat) \<le> hi"

abbreviation continuation :: "char \<Rightarrow> bool" where
  "continuation \<equiv> byte_in 128 191"

text \<open>
  How many of the bytes that may follow the first one are there: \<open>tail_len rs s\<close> matches \<open>s\<close>
  against the ranges \<open>rs\<close> and counts the matches before the first failure.
\<close>

fun tail_len :: "(nat \<times> nat) list \<Rightarrow> string \<Rightarrow> nat" where
  "tail_len [] s = 0"
| "tail_len ((lo, hi) # rs) [] = 0"
| "tail_len ((lo, hi) # rs) (c # cs) = (if byte_in lo hi c then Suc (tail_len rs cs) else 0)"

definition tail_ranges :: "char \<Rightarrow> (nat \<times> nat) list option" where
  "tail_ranges c =
     (if byte_in 0 127 c then Some []
      else if byte_in 194 223 c then Some [(128, 191)]
      else if byte_in 224 224 c then Some [(160, 191), (128, 191)]
      else if byte_in 225 236 c then Some [(128, 191), (128, 191)]
      else if byte_in 237 237 c then Some [(128, 159), (128, 191)]
      else if byte_in 238 239 c then Some [(128, 191), (128, 191)]
      else if byte_in 240 240 c then Some [(144, 191), (128, 191), (128, 191)]
      else if byte_in 241 243 c then Some [(128, 191), (128, 191), (128, 191)]
      else if byte_in 244 244 c then Some [(128, 143), (128, 191), (128, 191)]
      else None)"

text \<open>The next character: how many bytes it takes after its first, and whether it is well formed.\<close>

definition utf8_next :: "char \<Rightarrow> string \<Rightarrow> nat \<times> bool" where
  "utf8_next c cs =
     (case tail_ranges c of
        None \<Rightarrow> (0, False)
      | Some rs \<Rightarrow> (tail_len rs cs, tail_len rs cs = length rs))"

function valid_utf8 :: "string \<Rightarrow> bool" where
  "valid_utf8 [] = True"
| "valid_utf8 (c # cs) = (case utf8_next c cs of (n, ok) \<Rightarrow> ok \<and> valid_utf8 (drop n cs))"
  by pat_completeness auto
termination by (relation "measure length") auto

definition replacement_character :: string where
  "replacement_character = [CHR 0xEF, CHR 0xBF, CHR 0xBD]"

function from_utf8_lossy :: "string \<Rightarrow> string" where
  "from_utf8_lossy [] = []"
| "from_utf8_lossy (c # cs) =
     (case utf8_next c cs of
        (n, ok) \<Rightarrow> (if ok then c # take n cs else replacement_character) @ from_utf8_lossy (drop n cs))"
  by pat_completeness auto
termination by (relation "measure length") auto

lemma lossy_valid_id: "valid_utf8 s \<Longrightarrow> from_utf8_lossy s = s"
  by (induction s rule: valid_utf8.induct) (auto split: prod.splits)

lemma tail_len_le: "tail_len rs s \<le> length s"
  by (induction rs s rule: tail_len.induct) auto

lemma tail_len_append: "tail_len rs s = length rs \<Longrightarrow> tail_len rs (s @ t) = length rs"
  by (induction rs s rule: tail_len.induct) (auto split: if_splits)

lemma tail_len_take: "tail_len rs (take (tail_len rs s) s) = tail_len rs s"
  by (induction rs s rule: tail_len.induct) auto

lemma valid_utf8_append: "valid_utf8 s \<Longrightarrow> valid_utf8 t \<Longrightarrow> valid_utf8 (s @ t)"
proof (induction s rule: valid_utf8.induct)
  case (2 c cs)
  obtain n where nx: "utf8_next c cs = (n, True)" and rest: "valid_utf8 (drop n cs)"
    using "2.prems"(1) by (auto split: prod.splits)
  then have n: "n \<le> length cs"
    using tail_len_le [of "the (tail_ranges c)" cs] by (auto simp: utf8_next_def split: option.splits)
  have "utf8_next c (cs @ t) = (n, True)"
    using nx by (auto simp: utf8_next_def tail_len_append split: option.splits)
  with "2.IH" [OF nx [symmetric] rest "2.prems"(2)] nx n show ?case by simp
qed simp

lemma valid_one:
  assumes "utf8_next c cs = (n, True)"
  shows "valid_utf8 (c # take n cs)"
proof -
  obtain rs where rs: "tail_ranges c = Some rs" "n = tail_len rs cs" "tail_len rs cs = length rs"
    using assms by (auto simp: utf8_next_def split: option.splits)
  then have "utf8_next c (take n cs) = (n, True)"
    using tail_len_take [of rs cs] by (simp add: utf8_next_def)
  then show ?thesis by simp
qed

lemma lossy_valid: "valid_utf8 (from_utf8_lossy s)"
proof (induction s rule: from_utf8_lossy.induct)
  case (2 c cs)
  obtain n b where nx: "utf8_next c cs = (n, b)" by (cases "utf8_next c cs")
  have "valid_utf8 replacement_character" by code_simp
  then have "valid_utf8 (if b then c # take n cs else replacement_character)"
    using valid_one [of c cs n] nx by (cases b) auto
  from valid_utf8_append [OF this 2 [OF nx [symmetric]]] show ?case by (simp add: nx)
qed simp

text \<open>\<open>is_char_boundary\<close>: an index at which a slice may begin or end.\<close>

definition is_char_boundary :: "string \<Rightarrow> nat \<Rightarrow> bool" where
  "is_char_boundary s i \<longleftrightarrow> i = 0 \<or> i = length s \<or> (i < length s \<and> \<not> continuation (s ! i))"

section \<open>White space\<close>

text \<open>The encodings of the characters \<open>char::is_whitespace\<close> accepts.\<close>

definition white_space :: "string list" where
  "white_space =
     [[CHR 0x09], [CHR 0x0A], [CHR 0x0B], [CHR 0x0C], [CHR 0x0D], [CHR 0x20],
      [CHR 0xC2, CHR 0x85], [CHR 0xC2, CHR 0xA0], [CHR 0xE1, CHR 0x9A, CHR 0x80],
      [CHR 0xE2, CHR 0x80, CHR 0x80], [CHR 0xE2, CHR 0x80, CHR 0x81], [CHR 0xE2, CHR 0x80, CHR 0x82],
      [CHR 0xE2, CHR 0x80, CHR 0x83], [CHR 0xE2, CHR 0x80, CHR 0x84], [CHR 0xE2, CHR 0x80, CHR 0x85],
      [CHR 0xE2, CHR 0x80, CHR 0x86], [CHR 0xE2, CHR 0x80, CHR 0x87], [CHR 0xE2, CHR 0x80, CHR 0x88],
      [CHR 0xE2, CHR 0x80, CHR 0x89], [CHR 0xE2, CHR 0x80, CHR 0x8A], [CHR 0xE2, CHR 0x80, CHR 0xA8],
      [CHR 0xE2, CHR 0x80, CHR 0xA9], [CHR 0xE2, CHR 0x80, CHR 0xAF], [CHR 0xE2, CHR 0x81, CHR 0x9F],
      [CHR 0xE3, CHR 0x80, CHR 0x80]]"

definition has_white_space :: "string \<Rightarrow> bool" where
  "has_white_space s \<longleftrightarrow> list_ex (\<lambda>p. str_contains p s) white_space"

function strip_all :: "string list \<Rightarrow> string \<Rightarrow> string" where
  "strip_all pats s =
     (case find (\<lambda>p. p \<noteq> [] \<and> starts_with p s) pats of
        None \<Rightarrow> s
      | Some p \<Rightarrow> strip_all pats (drop (length p) s))"
  by pat_completeness auto
termination
  by (relation "measure (\<lambda>(pats, s). length s)") (auto simp: find_Some_iff starts_with_iff)

declare strip_all.simps [simp del]

definition trim_start :: "string \<Rightarrow> string" where
  "trim_start s = strip_all white_space s"

definition trim_end :: "string \<Rightarrow> string" where
  "trim_end s = rev (strip_all (map rev white_space) (rev s))"

definition trim :: "string \<Rightarrow> string" where
  "trim s = trim_end (trim_start s)"

section \<open>Cutting\<close>

text \<open>\<open>find(char)\<close> and \<open>rsplit_once(char)\<close> for a character of one byte.\<close>

definition find_char :: "(char \<Rightarrow> bool) \<Rightarrow> string \<Rightarrow> nat option" where
  "find_char P s = (if list_ex P s then Some (length (takeWhile (\<lambda>c. \<not> P c) s)) else None)"

definition rsplit_once :: "char \<Rightarrow> string \<Rightarrow> (string \<times> string) option" where
  "rsplit_once sep s =
     (if sep \<in> set s
      then let after = rev (takeWhile (\<lambda>c. c \<noteq> sep) (rev s))
           in Some (take (length s - length after - 1) s, after)
      else None)"

lemma find_char_None: "find_char P s = None \<longleftrightarrow> (\<forall>c \<in> set s. \<not> P c)"
  by (simp add: find_char_def list_ex_iff)

lemma find_char_take:
  assumes "find_char P s = Some n"
  shows "take n s = takeWhile (\<lambda>c. \<not> P c) s" and "n \<le> length s"
proof -
  have n: "n = length (takeWhile (\<lambda>c. \<not> P c) s)" using assms by (auto simp: find_char_def split: if_splits)
  show "take n s = takeWhile (\<lambda>c. \<not> P c) s" unfolding n by (simp add: takeWhile_eq_take [symmetric])
  show "n \<le> length s" unfolding n by (rule length_takeWhile_le)
qed

lemma find_char_at:
  assumes "find_char P s = Some n"
  shows "n < length s" and "P (s ! n)"
proof -
  have n: "n = length (takeWhile (\<lambda>c. \<not> P c) s)" and ex: "\<exists>c \<in> set s. P c"
    using assms by (auto simp: find_char_def list_ex_iff split: if_splits)
  have "takeWhile (\<lambda>c. \<not> P c) s \<noteq> s" using ex by (metis set_takeWhileD)
  then show lt: "n < length s" unfolding n
    by (metis length_takeWhile_le le_neq_implies_less takeWhile_eq_take take_all order_refl)
  show "P (s ! n)" using nth_length_takeWhile [of "\<lambda>c. \<not> P c" s] lt unfolding n by simp
qed

text \<open>\<open>split(char)\<close>, and \<open>join\<close> of what it gives.\<close>

fun split_on :: "char \<Rightarrow> string \<Rightarrow> string list" where
  "split_on sep [] = [[]]"
| "split_on sep (c # cs) =
     (if c = sep then [] # split_on sep cs
      else case split_on sep cs of w # ws \<Rightarrow> (c # w) # ws | [] \<Rightarrow> [[c]])"

fun join_with :: "string \<Rightarrow> string list \<Rightarrow> string" where
  "join_with sep [] = []"
| "join_with sep [w] = w"
| "join_with sep (w # v # ws) = w @ sep @ join_with sep (v # ws)"

lemma split_on_nonempty [simp]: "split_on sep s \<noteq> []"
  by (induction s) (auto split: list.split)

lemma join_split: "join_with [sep] (split_on sep s) = s"
proof (induction s)
  case (Cons c cs)
  obtain w ws where "split_on sep cs = w # ws" by (cases "split_on sep cs") auto
  with Cons show ?case by (cases ws) auto
qed simp

text \<open>\<open>to_ascii_lowercase\<close> and \<open>eq_ignore_ascii_case\<close>.\<close>

definition ascii_lower :: "char \<Rightarrow> char" where
  "ascii_lower c = (if byte_in 65 90 c then char_of (of_char c + 32 :: nat) else c)"

definition to_ascii_lowercase :: "string \<Rightarrow> string" where
  "to_ascii_lowercase s = map ascii_lower s"

definition eq_ignore_ascii_case :: "string \<Rightarrow> string \<Rightarrow> bool" where
  "eq_ignore_ascii_case a b \<longleftrightarrow> to_ascii_lowercase a = to_ascii_lowercase b"

end
