(* ===== verification/Sources.thy ===== *)
theory Sources
  imports Bus Strings
begin

text \<open>
  What feeds the bus from outside: the HTTP listener (\<open>bus/http_source.rs\<close>) and the mesh relay
  (\<open>BusRelayHandler\<close> of \<open>host.rs\<close>). Each turns a request into an event that carries a channel
  for the answer, hands it to the bus and says what became of it. The listener checks the request
  first. The \<open>http\<close> crate's reading of a header value as text and its range of status codes, and
  \<open>serde_json\<close>'s parser, are a parameter, \<open>http_lib\<close>; so is the outcome of handing the event to the
  channel and of waiting for its answer.
\<close>

section \<open>The listener's configuration\<close>

record http_source_config =
  hc_bind :: string
  hc_token :: "string option"
  hc_kind :: string
  hc_meta :: json

definition default_kind :: string where
  "default_kind = ''http''"

definition http_config_new :: "string \<Rightarrow> http_source_config" where
  "http_config_new bind =
     \<lparr>hc_bind = bind, hc_token = None, hc_kind = default_kind, hc_meta = JObject []\<rparr>"

definition http_config_token :: "string \<Rightarrow> http_source_config \<Rightarrow> http_source_config" where
  "http_config_token token config = config\<lparr>hc_token := Some token\<rparr>"

definition http_config_kind :: "string \<Rightarrow> http_source_config \<Rightarrow> http_source_config" where
  "http_config_kind kind config = config\<lparr>hc_kind := kind\<rparr>"

definition http_config_meta :: "json \<Rightarrow> http_source_config \<Rightarrow> http_source_config" where
  "http_config_meta meta config = config\<lparr>hc_meta := meta\<rparr>"

record http_inner =
  in_token :: "string option"
  in_kind :: string
  in_meta :: json_map
  in_allowed_hosts :: "string list"

text \<open>
  \<open>start\<close> after the bind: \<open>ip\<close> is the text of the address the listener got, \<open>loopback\<close> what
  \<open>is_loopback\<close> says of it. A bind that failed is the error.
\<close>

definition http_start ::
  "http_source_config \<Rightarrow> string + (string + string \<times> bool) \<Rightarrow> string + http_inner" where
  "http_start config bound =
     (case bound of
        Err e \<Rightarrow> Err (fmt [''http source: bind '', hc_bind config, '': '', e])
      | Ok (Err e) \<Rightarrow> Err (fmt [''http source: local_addr: '', e])
      | Ok (Ok (ip, loopback)) \<Rightarrow>
          Ok \<lparr>in_token = hc_token config, in_kind = hc_kind config,
              in_meta = (case as_object (hc_meta config) of Some m \<Rightarrow> m | None \<Rightarrow> []),
              in_allowed_hosts =
                [''localhost'', ''127.0.0.1'', ''::1''] @ (if loopback then [] else [ip])\<rparr>)"

section \<open>Reading a request\<close>

definition host_only :: "string \<Rightarrow> string" where
  "host_only raw =
     (let value = trim raw;
          unbracketed =
            (if starts_with ''['' value
             then let rest = drop 1 value
                  in map_option (\<lambda>end. take end rest) (find_char (\<lambda>c. c = CHR '']'') rest)
             else None)
      in case unbracketed of
           Some host \<Rightarrow> host
         | None \<Rightarrow>
             (case rsplit_once (CHR '':'') value of
                Some (host, port) \<Rightarrow> (if list_all is_ascii_digit port then host else value)
              | None \<Rightarrow> value))"

definition origin_host :: "string \<Rightarrow> string option" where
  "origin_host raw =
     (case split_once ''://'' (trim raw) of
        None \<Rightarrow> None
      | Some (_, rest) \<Rightarrow> Some (host_only (takeWhile (\<lambda>c. c \<noteq> CHR ''/'') rest)))"

record http_request =
  rq_method :: string
  rq_path :: string
  rq_query :: "string option"
  rq_host :: "string option"
  rq_origin :: "string option"
  rq_authorization :: "string option"
  rq_body :: string
  rq_remote :: string

record http_lib =
  hl_to_str :: "string \<Rightarrow> string option"
  hl_parse :: "string \<Rightarrow> json option"
  hl_status_ok :: "nat \<Rightarrow> bool"

type_synonym response = "nat \<times> json"

definition reply :: "http_lib \<Rightarrow> nat \<Rightarrow> json \<Rightarrow> response" where
  "reply lib status body = ((if hl_status_ok lib status then status else 500), body)"

definition error_body :: "string \<Rightarrow> json" where
  "error_body what = JObject [(''error'', JString what)]"

definition answer :: "http_lib \<Rightarrow> json \<Rightarrow> response" where
  "answer lib v =
     (case as_object v of
        Some obj \<Rightarrow>
          (if map_get obj ''status'' \<noteq> None \<or> map_get obj ''body'' \<noteq> None
           then reply lib
             (case Option.bind (map_get obj ''status'') as_u64 of
                Some s \<Rightarrow> (if s < 65536 then s else 200)
              | None \<Rightarrow> 200)
             (case map_get obj ''body'' of Some b \<Rightarrow> b | None \<Rightarrow> JNull)
           else reply lib 200 v)
      | None \<Rightarrow> reply lib 200 v)"

section \<open>Handling a request\<close>

text \<open>What came of waiting for an answer: the answer, no sender any more, or no time any more.\<close>

datatype ack_wait = Acked ack_result | AckDropped | AckTimeout

definition host_ok :: "http_lib \<Rightarrow> http_inner \<Rightarrow> http_request \<Rightarrow> bool" where
  "host_ok lib inner rq =
     (case map_option host_only (Option.bind (rq_host rq) (hl_to_str lib)) of
        Some h \<Rightarrow> h \<in> set (in_allowed_hosts inner)
      | None \<Rightarrow> False)"

definition origin_ok :: "http_lib \<Rightarrow> http_inner \<Rightarrow> http_request \<Rightarrow> bool" where
  "origin_ok lib inner rq =
     (case Option.bind (rq_origin rq) (hl_to_str lib) of
        Some origin \<Rightarrow>
          (case origin_host origin of Some h \<Rightarrow> h \<in> set (in_allowed_hosts inner) | None \<Rightarrow> False)
      | None \<Rightarrow> True)"

definition bearer :: "http_lib \<Rightarrow> http_request \<Rightarrow> string option" where
  "bearer lib rq =
     Option.bind (Option.bind (rq_authorization rq) (hl_to_str lib))
       (\<lambda>v. if starts_with ''Bearer '' v then Some (trim (drop (length ''Bearer '') v)) else None)"

definition token_ok :: "http_lib \<Rightarrow> http_inner \<Rightarrow> http_request \<Rightarrow> bool" where
  "token_ok lib inner rq =
     (case in_token inner of Some expected \<Rightarrow> bearer lib rq = Some expected | None \<Rightarrow> True)"

definition body_value :: "http_lib \<Rightarrow> string \<Rightarrow> json" where
  "body_value lib body =
     (if body = [] then JNull
      else case hl_parse lib body of Some v \<Rightarrow> v | None \<Rightarrow> JString (from_utf8_lossy body))"

definition opt_string :: "string option \<Rightarrow> json" where
  "opt_string s = (case s of Some t \<Rightarrow> JString t | None \<Rightarrow> JNull)"

definition http_event :: "http_lib \<Rightarrow> http_inner \<Rightarrow> http_request \<Rightarrow> string \<Rightarrow> nat \<Rightarrow> bus_event" where
  "http_event lib inner rq eid chan =
     with_ack chan (in_kind inner) eid
       (JObject [(''body'', body_value lib (rq_body rq)), (''method'', JString (rq_method rq)),
                 (''path'', JString (rq_path rq)), (''query'', opt_string (rq_query rq))])
       (JObject (map_insert ''remote'' (JString (rq_remote rq)) (in_meta inner)))"

definition ack_reply :: "http_lib \<Rightarrow> ack_wait \<Rightarrow> response" where
  "ack_reply lib waited =
     (case waited of
        Acked (Ok v) \<Rightarrow> answer lib v
      | Acked (Err e) \<Rightarrow> reply lib 500 (error_body (display_block_error e))
      | AckDropped \<Rightarrow> reply lib 500 (error_body ''ack dropped'')
      | AckTimeout \<Rightarrow> reply lib 504 (error_body ''handler timeout''))"

text \<open>The response, and the event that was handed to the channel.\<close>

definition http_handle ::
  "http_lib \<Rightarrow> http_inner \<Rightarrow> http_request \<Rightarrow> string \<Rightarrow> nat \<Rightarrow> bool \<Rightarrow> ack_wait \<Rightarrow> response \<times> bus_event option" where
  "http_handle lib inner rq eid chan open_channel waited =
     (if \<not> host_ok lib inner rq then (reply lib 403 (error_body ''host not allowed''), None)
      else if \<not> origin_ok lib inner rq then (reply lib 403 (error_body ''origin not allowed''), None)
      else if \<not> token_ok lib inner rq then (reply lib 401 (error_body ''token required''), None)
      else if \<not> open_channel then (reply lib 503 (error_body ''bus channel closed''), None)
      else (ack_reply lib waited, Some (http_event lib inner rq eid chan)))"

section \<open>The mesh relay\<close>

definition mesh_event :: "string \<Rightarrow> json \<Rightarrow> string \<Rightarrow> nat \<Rightarrow> bus_event" where
  "mesh_event from_agent payload eid chan =
     with_ack chan ''mesh'' eid payload (JObject [(''from'', JString from_agent)])"

definition mesh_handle :: "string \<Rightarrow> json \<Rightarrow> string \<Rightarrow> nat \<Rightarrow> bool \<Rightarrow> ack_wait \<Rightarrow> json \<times> bus_event option" where
  "mesh_handle from_agent payload eid chan open_channel waited =
     (if \<not> open_channel then (error_body ''bus channel closed'', None)
      else ((case waited of
               Acked (Ok v) \<Rightarrow> v
             | Acked (Err e) \<Rightarrow> error_body (display_block_error e)
             | AckDropped \<Rightarrow> error_body ''ack dropped''
             | AckTimeout \<Rightarrow> error_body ''handler timeout''),
            Some (mesh_event from_agent payload eid chan)))"

section \<open>Reading the channel\<close>

text \<open>What a source that waited on a channel of the bus sees in it.\<close>

fun waited_on :: "oneshot \<Rightarrow> ack_wait" where
  "waited_on (Answered r) = Acked r"
| "waited_on SenderGone = AckDropped"
| "waited_on Waiting = AckTimeout"
| "waited_on Abandoned = AckTimeout"

end
