(* ===== verification/Bus_Properties.thy ===== *)
theory Bus_Properties
  imports Bus
begin

text \<open>
  The dispatcher's promises: events are handled one at a time in the order they arrived, none is
  lost or handled twice, every one that was handled has its answer (unless nobody waits for it
  any more), the first answer stands, the table does not change under a running loop, and the
  loop always gets to the end of its queue.
\<close>

section \<open>The invariant\<close>

definition ack_list :: "bus_event list \<Rightarrow> nat list" where
  "ack_list evts = List.map_filter be_ack evts"

lemma ack_list_simps [simp]:
  "ack_list [] = []"
  "ack_list (e # es) = (case be_ack e of None \<Rightarrow> ack_list es | Some n \<Rightarrow> n # ack_list es)"
  "ack_list (es @ es') = ack_list es @ ack_list es'"
  by (induction es) (simp_all add: ack_list_def List.map_filter_def split: option.split)

lemma set_ack_list [simp]: "set (ack_list evts) = acks evts"
  by (induction evts) (auto split: option.split)

text \<open>The events the loop is done with.\<close>

definition finished :: "'h bus_config \<Rightarrow> bus_event list" where
  "finished c = (if bc_current c = None then bc_taken c else butlast (bc_taken c))"

text \<open>
  What the channel of a finished event holds: the answer the table gives for that event, for some
  way the handler's task ended, unless nobody waits for it.
\<close>

definition settled :: "'h event_bus \<Rightarrow> channels \<Rightarrow> bus_event \<Rightarrow> bool" where
  "settled bus chans e \<longleftrightarrow>
     (\<forall>n. be_ack e = Some n \<longrightarrow>
        chans n = Abandoned \<or> (\<exists>ended. chans n = Answered (answer_for bus ended e)))"

definition unanswered :: "oneshot \<Rightarrow> bool" where
  "unanswered x \<longleftrightarrow> x = Waiting \<or> x = Abandoned"

definition bus_inv :: "'h bus_config \<Rightarrow> bool" where
  "bus_inv c \<longleftrightarrow>
     bc_pushed c = bc_taken c @ bc_queue c
   \<and> (\<forall>e. bc_current c = Some e \<longrightarrow> bc_taken c \<noteq> [] \<and> last (bc_taken c) = e)
   \<and> distinct (ack_list (bc_pushed c))
   \<and> length (bc_queue c) \<le> bc_capacity c
   \<and> eb_running (bc_bus c)
   \<and> (\<forall>e \<in> set (finished c). settled (bc_bus c) (bc_chans c) e)
   \<and> (\<not> bc_exited c \<longrightarrow> (\<forall>n. n \<notin> acks (finished c) \<longrightarrow> unanswered (bc_chans c n)))
   \<and> (bc_exited c \<longrightarrow> bc_closed c \<and> bc_current c = None)"

lemma bus_start_inv: "bus_inv (bus_start bus cap senders)"
  by (simp add: bus_inv_def bus_start_def finished_def unanswered_def)

lemma taken_split:
  assumes "bus_inv c" "bc_current c = Some e"
  shows "bc_taken c = finished c @ [e]"
  using assms by (auto simp: bus_inv_def finished_def simp flip: append_butlast_last_id)

lemma acks_disjoint:
  assumes "distinct (ack_list (xs @ ys))" "n \<in> acks xs"
  shows "n \<notin> acks ys"
  using assms by auto

lemma finish_inv:
  assumes inv: "bus_inv c" and cur: "bc_current c = Some e" and run: "\<not> bc_exited c"
  shows "bus_inv (c\<lparr>bc_current := None, bc_chans := dispatch (bc_bus c) ended e (bc_chans c),
    bc_calls := bc_calls c @ calls_of (bc_bus c) ended e\<rparr>)"
proof -
  let ?c' = "c\<lparr>bc_current := None, bc_chans := dispatch (bc_bus c) ended e (bc_chans c),
    bc_calls := bc_calls c @ calls_of (bc_bus c) ended e\<rparr>"
  have taken: "bc_taken c = finished c @ [e]" by (rule taken_split [OF inv cur])
  have fin: "finished ?c' = finished c @ [e]" using taken by (simp add: finished_def)
  have chan: "bc_chans ?c' n = (if be_ack e = Some n \<and> bc_chans c n \<noteq> Abandoned
      then Answered (answer_for (bc_bus c) ended e) else bc_chans c n)" for n
    by (auto simp: dispatch_answer split: option.split)
  have "settled (bc_bus ?c') (bc_chans ?c') e'" if "e' \<in> set (finished ?c')" for e'
  proof -
    from inv taken have dist: "distinct (ack_list (finished c @ [e]))"
      by (auto simp: bus_inv_def split: option.splits)
    have "e' \<in> set (finished c) \<or> e' = e" using that unfolding fin by auto
    then show ?thesis
    proof
      assume old: "e' \<in> set (finished c)"
      with inv have "settled (bc_bus c) (bc_chans c) e'" by (auto simp: bus_inv_def)
      moreover have "be_ack e \<noteq> Some n" if "be_ack e' = Some n" for n
        using dist old that by (force simp: acks_def split: option.splits)
      ultimately show ?thesis by (auto simp: settled_def dispatch_answer split: option.split)
    qed (auto simp: settled_def dispatch_answer split: option.split)
  qed
  moreover have "unanswered (bc_chans ?c' n)" if "n \<notin> acks (finished ?c')" for n
    using that inv run chan [of n] unfolding fin bus_inv_def by (auto split: option.splits)
  ultimately show ?thesis
    using inv run unfolding bus_inv_def by (elim conjE) simp
qed

lemma loop_step_inv:
  assumes "loop_step c c'" and inv: "bus_inv c"
  shows "bus_inv c'"
  using assms(1)
proof (cases rule: loop_step.cases)
  case (take_event evt rest)
  with inv show ?thesis by (auto simp: bus_inv_def finished_def)
next
  case (finish_event evt ended)
  with finish_inv [OF inv] show ?thesis by simp
next
  case leave_cancelled
  have "settled (bc_bus c) (drop_acks (bc_queue c) (bc_chans c)) e" if "e \<in> set (finished c)" for e
    using that inv drop_acks_kept [of "bc_chans c"] by (fastforce simp: bus_inv_def settled_def)
  with leave_cancelled inv show ?thesis by (auto simp: bus_inv_def finished_def)
next
  case leave_senders
  with inv show ?thesis by (auto simp: bus_inv_def finished_def)
qed

lemma push_inv:
  assumes inv: "bus_inv c" and "\<not> bc_closed c" and "length (bc_queue c) < bc_capacity c"
    and "\<forall>n. be_ack evt = Some n \<longrightarrow> bc_chans c n = Waiting \<and> Some n \<notin> be_ack ` set (bc_pushed c)"
  shows "bus_inv (c\<lparr>bc_queue := bc_queue c @ [evt], bc_pushed := bc_pushed c @ [evt]\<rparr>)"
proof -
  have "distinct (ack_list (bc_pushed c))" using inv unfolding bus_inv_def by blast
  moreover have "n \<notin> acks (bc_pushed c)" if "be_ack evt = Some n" for n
    using assms(4) that by (simp add: acks_def)
  ultimately have "distinct (ack_list (bc_pushed c @ [evt]))" by (auto split: option.split)
  with inv assms(2,3) show ?thesis by (auto simp: bus_inv_def finished_def)
qed

lemma env_step_inv:
  assumes "env_step c c'" and inv: "bus_inv c"
  shows "bus_inv c'"
  using assms(1)
proof (cases rule: env_step.cases)
  case (push evt)
  with push_inv [OF inv] show ?thesis by simp
next
  case (give_up n)
  with inv show ?thesis by (auto simp: bus_inv_def finished_def settled_def unanswered_def)
qed (use inv in \<open>auto simp: bus_inv_def finished_def\<close>)

lemma bus_step_inv: "bus_step c c' \<Longrightarrow> bus_inv c \<Longrightarrow> bus_inv c'"
  unfolding bus_step_def using loop_step_inv env_step_inv by blast

lemma reached_inv: "reached c0 c \<Longrightarrow> bus_inv c0 \<Longrightarrow> bus_inv c"
  by (induction rule: reached.induct) (auto intro: bus_step_inv)

lemma bus_step_table: "bus_step c c' \<Longrightarrow> bc_bus c' = bc_bus c"
  unfolding bus_step_def by (auto elim: loop_stepE env_stepE)

lemma reached_table: "reached c0 c \<Longrightarrow> bc_bus c = bc_bus c0"
  by (induction rule: reached.induct) (auto dest: bus_step_table)

text \<open>The first answer stands.\<close>

lemma answer_stands:
  assumes "bus_step c c'" and inv: "bus_inv c" and "bc_chans c n = Answered r"
  shows "bc_chans c' n = Answered r"
proof -
  have "bc_chans c' n = Answered r" if step: "loop_step c c'"
    using step
  proof (cases rule: loop_step.cases)
    case (finish_event evt ended)
    have "n \<in> acks (finished c)"
      using inv finish_event(2) assms(3) by (auto simp: bus_inv_def unanswered_def)
    then have "be_ack evt \<noteq> Some n"
      using inv taken_split [OF inv finish_event(3)] by (auto simp: bus_inv_def split: option.splits)
    then show ?thesis using finish_event assms(3) by (auto simp: dispatch_answer split: option.split)
  qed (use assms(3) in \<open>auto simp: drop_acks_kept\<close>)
  moreover have "bc_chans c' n = Answered r" if "env_step c c'"
    using that assms(3) by (auto elim!: env_stepE)
  ultimately show ?thesis using assms(1) by (auto simp: bus_step_def)
qed

lemma finished_settled:
  assumes "bus_inv c" and "e \<in> set (finished c)"
  shows "settled (bc_bus c) (bc_chans c) e"
  using assms unfolding bus_inv_def by blast

lemma finished_answered:
  assumes inv: "bus_inv c" and "n \<in> acks (finished c)"
  shows "bc_chans c n = Abandoned \<or> (\<exists>r. bc_chans c n = Answered r)"
proof -
  obtain e where "e \<in> set (finished c)" "be_ack e = Some n"
    using assms(2) by (auto simp: acks_def image_iff)
  with finished_settled [OF inv] show ?thesis by (auto simp: settled_def)
qed

lemma answer_for_running: "answer_for (bus\<lparr>eb_running := True\<rparr>) = answer_for bus"
  by (simp add: answer_for_def handler_for_def fun_eq_iff split: option.split)

lemma finished_own_answer:
  assumes "reached (bus_start bus cap senders) c" and "e \<in> set (finished c)" and "be_ack e = Some n"
  shows "bc_chans c n = Abandoned \<or> (\<exists>ended. bc_chans c n = Answered (answer_for bus ended e))"
proof -
  have "bc_bus c = bus\<lparr>eb_running := True\<rparr>" using reached_table [OF assms(1)] by (simp add: bus_start_def)
  with finished_settled [OF reached_inv [OF assms(1) bus_start_inv] assms(2)] assms(3) show ?thesis
    by (simp add: settled_def answer_for_running)
qed

section \<open>The calls\<close>

text \<open>
  The handler a table has for an event, and the answer a call owes: what the handler returned, or
  the error that says it panicked.
\<close>

definition chosen :: "'h event_bus \<Rightarrow> bus_event \<Rightarrow> 'h option" where
  "chosen bus e = (if be_kind e \<in> dom (eb_handlers bus) then eb_handlers bus (be_kind e) else eb_any bus)"

fun owed :: "task_end \<Rightarrow> ack_result" where
  "owed (Returned r) = r"
| "owed (Panicked (PanicStr m)) = Err (BE_Bus (''handler panic: '' @ m))"
| "owed (Panicked (PanicString m)) = Err (BE_Bus (''handler panic: '' @ m))"
| "owed (Panicked PanicOther) = Err (BE_Bus ''handler panic: <non-string panic payload>'')"
| "owed (JoinFailed m) = Err (BE_Bus (''handler panic: handler task error: '' @ m))"

lemma owed_ack: "ack_of_end x = owed x"
  by (cases x rule: owed.cases) (simp_all add: ack_of_end_def fmt_def)

lemma chosen_handler: "handler_for bus e = chosen bus e"
  by (auto simp: handler_for_def chosen_def domIff split: option.split)

definition calls_due :: "'h event_bus \<Rightarrow> bus_event list \<Rightarrow> ('h \<times> bus_event) list" where
  "calls_due bus evts = List.map_filter (\<lambda>e. map_option (\<lambda>h. (h, e)) (chosen bus e)) evts"

lemma calls_due_simps [simp]:
  "calls_due bus [] = []"
  "calls_due bus (es @ [e]) = calls_due bus es @ (case chosen bus e of None \<Rightarrow> [] | Some h \<Rightarrow> [(h, e)])"
  by (simp_all add: calls_due_def List.map_filter_def split: option.split)

lemma calls_due_mem: "(h, e) \<in> set (calls_due bus evts) \<Longrightarrow> e \<in> set evts"
  by (auto simp: calls_due_def List.map_filter_def)

definition calls_inv :: "'h bus_config \<Rightarrow> bool" where
  "calls_inv c \<longleftrightarrow>
     map (\<lambda>k. (hc_handler k, hc_event k)) (bc_calls c) = calls_due (bc_bus c) (finished c)
   \<and> (\<forall>k \<in> set (bc_calls c). \<forall>n. be_ack (hc_event k) = Some n \<longrightarrow>
        bc_chans c n = Abandoned \<or> bc_chans c n = Answered (owed (hc_end k)))"

lemma calls_inv_event:
  assumes "calls_inv c" and "k \<in> set (bc_calls c)"
  shows "hc_event k \<in> set (finished c)"
proof -
  have "(hc_handler k, hc_event k) \<in> set (map (\<lambda>k. (hc_handler k, hc_event k)) (bc_calls c))"
    using assms(2) by auto
  then show ?thesis using assms(1) calls_due_mem unfolding calls_inv_def by metis
qed

lemma dispatch_owed:
  assumes "k \<in> set (calls_of bus ended e)" and "be_ack (hc_event k) = Some n"
  shows "dispatch bus ended e chans n = Abandoned \<or> dispatch bus ended e chans n = Answered (owed (hc_end k))"
  using assms by (auto simp: calls_of_def dispatch_answer answer_for_def owed_ack split: option.splits)

lemma dispatch_elsewhere: "be_ack e \<noteq> Some n \<Longrightarrow> dispatch bus ended e chans n = chans n"
  by (auto simp: dispatch_answer split: option.split)

lemma loop_step_calls:
  assumes "loop_step c c'" and inv: "bus_inv c" and calls: "calls_inv c"
  shows "calls_inv c'"
  using assms(1)
proof (cases rule: loop_step.cases)
  case (finish_event evt ended)
  have taken: "bc_taken c = finished c @ [evt]" by (rule taken_split [OF inv finish_event(3)])
  have dist: "distinct (ack_list (finished c @ [evt]))"
    using inv taken by (auto simp: bus_inv_def split: option.splits)
  have fin: "finished c' = finished c @ [evt]" using taken finish_event(1) by (simp add: finished_def)
  have old: "be_ack evt \<noteq> Some n" if "k \<in> set (bc_calls c)" "be_ack (hc_event k) = Some n" for k n
    using calls_inv_event [OF calls that(1)] that(2) dist by (force simp: acks_def split: option.splits)
  have "map (\<lambda>k. (hc_handler k, hc_event k)) (calls_of (bc_bus c) ended evt)
      = (case chosen (bc_bus c) evt of None \<Rightarrow> [] | Some h \<Rightarrow> [(h, evt)])"
    by (simp add: calls_of_def chosen_handler split: option.split)
  then have due: "map (\<lambda>k. (hc_handler k, hc_event k)) (bc_calls c') = calls_due (bc_bus c') (finished c')"
    using calls unfolding fin by (simp add: finish_event(1) calls_inv_def)
  have "bc_chans c' n = Abandoned \<or> bc_chans c' n = Answered (owed (hc_end k))"
    if k: "k \<in> set (bc_calls c')" and n: "be_ack (hc_event k) = Some n" for k n
  proof (cases "k \<in> set (bc_calls c)")
    case True
    have "dispatch (bc_bus c) ended evt (bc_chans c) n = bc_chans c n"
      by (rule dispatch_elsewhere [OF old [OF True n]])
    with calls n True show ?thesis by (auto simp: finish_event(1) calls_inv_def)
  next
    case False
    with k have "k \<in> set (calls_of (bc_bus c) ended evt)" by (simp add: finish_event(1))
    from dispatch_owed [OF this n] show ?thesis by (simp add: finish_event(1))
  qed
  with due show ?thesis by (simp add: calls_inv_def)
next
  case leave_cancelled
  with calls drop_acks_kept [of "bc_chans c"] show ?thesis
    by (fastforce simp: calls_inv_def finished_def)
qed (use calls in \<open>auto simp: calls_inv_def finished_def\<close>)

lemma env_step_calls:
  assumes "env_step c c'" and calls: "calls_inv c"
  shows "calls_inv c'"
  using assms(1) by (cases rule: env_step.cases) (use calls in \<open>auto simp: calls_inv_def finished_def\<close>)

lemma bus_start_calls: "calls_inv (bus_start bus cap senders)"
  by (simp add: calls_inv_def bus_start_def finished_def)

lemma reached_calls: "reached c0 c \<Longrightarrow> bus_inv c0 \<Longrightarrow> calls_inv c0 \<Longrightarrow> calls_inv c"
proof (induction rule: reached.induct)
  case (step c c')
  with reached_inv [OF step.hyps(1) step.prems(1)] show ?case
    unfolding bus_step_def using loop_step_calls env_step_calls by blast
qed

text \<open>What an event without a handler is told.\<close>

lemma unhandled_told:
  assumes "bus_inv c" and "e \<in> set (finished c)" and "chosen (bc_bus c) e = None" and "be_ack e = Some n"
  shows "bc_chans c n = Abandoned
    \<or> bc_chans c n = Answered (Err (BE_Bus (''no handler for kind `'' @ be_kind e @ ''`'')))"
  using finished_settled [OF assms(1,2)] assms(3,4)
  by (auto simp: settled_def answer_for_def chosen_handler fmt_def)

section \<open>Serial, in order, answered once\<close>

text \<open>
  C12: on a running bus, whatever the sources do and however handlers end, the loop takes the events
  in the order they were pushed, losing and repeating none; the calls it makes are, in that order,
  exactly one for every event it is done with that has a handler, of the handler of its kind or else
  the fallback; that event's source is told what this very call returned, or the error that says it
  panicked, and the source of an event without a handler is told the refusal that names its kind,
  unless the source stopped waiting. An answer is never replaced, and the handler table stays as it
  was when the loop began.
\<close>

theorem bus_serial:
  assumes "reached (bus_start bus cap senders) c"
  shows "bc_pushed c = bc_taken c @ bc_queue c \<and> length (bc_queue c) \<le> cap
    \<and> map (\<lambda>k. (hc_handler k, hc_event k)) (bc_calls c)
        = List.map_filter (\<lambda>e. map_option (\<lambda>h. (h, e)) (chosen bus e)) (finished c)
    \<and> (\<forall>k \<in> set (bc_calls c). \<forall>n. be_ack (hc_event k) = Some n \<longrightarrow>
         bc_chans c n = Abandoned \<or> bc_chans c n = Answered (owed (hc_end k)))
    \<and> (\<forall>e \<in> set (finished c). \<forall>n. chosen bus e = None \<longrightarrow> be_ack e = Some n \<longrightarrow>
         bc_chans c n = Abandoned
         \<or> bc_chans c n = Answered (Err (BE_Bus (''no handler for kind `'' @ be_kind e @ ''`''))))
    \<and> (\<forall>c' n r. bus_step c c' \<longrightarrow> bc_chans c n = Answered r \<longrightarrow> bc_chans c' n = Answered r)
    \<and> bc_bus c = bus\<lparr>eb_running := True\<rparr> \<and> isl (fst (bus_on kind h (bc_bus c))) \<and> snd (bus_on kind h (bc_bus c)) = bc_bus c"
proof -
  have inv: "bus_inv c" using reached_inv [OF assms bus_start_inv] .
  have calls: "calls_inv c" using reached_calls [OF assms bus_start_inv bus_start_calls] .
  have table: "bc_bus c = bus\<lparr>eb_running := True\<rparr>" using reached_table [OF assms] by (simp add: bus_start_def)
  have cap: "bc_capacity c = cap" using assms
    by (induction rule: reached.induct) (auto simp: bus_start_def bus_step_def elim!: loop_stepE env_stepE)
  have picks: "chosen (bc_bus c) = chosen bus" by (simp add: table chosen_def fun_eq_iff)
  show ?thesis
  proof (intro conjI)
    show "map (\<lambda>k. (hc_handler k, hc_event k)) (bc_calls c)
        = List.map_filter (\<lambda>e. map_option (\<lambda>h. (h, e)) (chosen bus e)) (finished c)"
      using calls by (simp add: calls_inv_def calls_due_def picks)
  qed (use inv calls cap table answer_stands [OF _ inv] unhandled_told [OF inv] picks
       in \<open>auto simp: bus_inv_def calls_inv_def bus_on_def\<close>)
qed

definition demo_event :: bus_event where
  "demo_event = with_ack 7 ''mesh'' ''e1'' JNull JNull"

definition demo_bus :: "nat event_bus" where
  "demo_bus = bus_new\<lparr>eb_handlers := [''mesh'' \<mapsto> 1]\<rparr>"

definition demo_pushed :: "nat bus_config" where
  "demo_pushed = (bus_start demo_bus 4 1)\<lparr>bc_queue := [demo_event], bc_pushed := [demo_event]\<rparr>"

lemma demo_reached: "reached (bus_start demo_bus 4 1) demo_pushed"
proof -
  have "env_step (bus_start demo_bus 4 1) demo_pushed"
    using env_step.push [of "bus_start demo_bus 4 1" demo_event]
    by (simp add: demo_pushed_def) (simp add: bus_start_def)
  then show ?thesis by (meson bus_step_def reached.start reached.step)
qed

definition demo_done :: "nat bus_config" where
  "demo_done = demo_pushed\<lparr>bc_queue := [], bc_taken := [demo_event],
     bc_chans := (\<lambda>_. Waiting)(7 := Answered (Ok (JString ''done''))),
     bc_calls := [\<lparr>hc_handler = 1, hc_event = demo_event, hc_end = Returned (Ok (JString ''done''))\<rparr>]\<rparr>"

lemma demo_bus_run: "loop_step\<^sup>*\<^sup>* demo_pushed demo_done"
proof -
  let ?c1 = "demo_pushed\<lparr>bc_queue := [], bc_current := Some demo_event, bc_taken := [demo_event]\<rparr>"
  have idle: "\<not> bc_exited demo_pushed" "\<not> bc_cancelled demo_pushed" "bc_current demo_pushed = None"
    by (simp_all add: demo_pushed_def bus_start_def)
  have empty: "bc_taken demo_pushed = []" "bc_calls demo_pushed = []" "bc_chans demo_pushed = (\<lambda>_. Waiting)"
    "bc_bus demo_pushed = demo_bus\<lparr>eb_running := True\<rparr>" by (simp_all add: demo_pushed_def bus_start_def)
  have first: "loop_step demo_pushed ?c1"
    using loop_step.take_event [OF idle, of demo_event "[]"] by (simp add: empty) (simp add: demo_pushed_def)
  have pick: "handler_for (demo_bus\<lparr>eb_running := True\<rparr>) demo_event = Some 1"
    by (simp add: handler_for_def demo_bus_def bus_new_def demo_event_def with_ack_def)
  have told: "dispatch (demo_bus\<lparr>eb_running := True\<rparr>) (\<lambda>_. Returned (Ok (JString ''done''))) demo_event (\<lambda>_. Waiting)
      = (\<lambda>_. Waiting)(7 := Answered (Ok (JString ''done'')))"
    by (simp add: dispatch_def pick deliver_ack_def ack_of_end_def) (simp add: demo_event_def with_ack_def Let_def)
  have "loop_step ?c1 (?c1\<lparr>bc_current := None,
      bc_chans := dispatch (bc_bus ?c1) (\<lambda>_. Returned (Ok (JString ''done''))) demo_event (bc_chans ?c1),
      bc_calls := bc_calls ?c1 @ calls_of (bc_bus ?c1) (\<lambda>_. Returned (Ok (JString ''done''))) demo_event\<rparr>)"
    by (rule loop_step.finish_event) (simp_all add: idle)
  moreover have "?c1\<lparr>bc_current := None,
      bc_chans := dispatch (bc_bus ?c1) (\<lambda>_. Returned (Ok (JString ''done''))) demo_event (bc_chans ?c1),
      bc_calls := bc_calls ?c1 @ calls_of (bc_bus ?c1) (\<lambda>_. Returned (Ok (JString ''done''))) demo_event\<rparr> = demo_done"
    by (simp add: demo_done_def empty told calls_of_def pick idle)
  ultimately show ?thesis using first by (metis converse_rtranclp_into_rtranclp r_into_rtranclp)
qed

lemma reached_run: "loop_step\<^sup>*\<^sup>* c c' \<Longrightarrow> reached c0 c \<Longrightarrow> reached c0 c'"
  by (induction rule: rtranclp_induct) (auto intro: reached.step simp: bus_step_def)

lemmas demo_done_reached = reached_run [OF demo_bus_run demo_reached]

theorem bus_serial_witness:
  "bc_chans demo_done 7 = Answered (Ok (JString ''done''))
   \<and> map (\<lambda>k. (hc_handler k, hc_event k)) (bc_calls demo_done) = [(1, demo_event)]"
proof -
  have fin: "finished demo_done = [demo_event]"
    by (simp add: finished_def demo_done_def demo_pushed_def bus_start_def)
  have pick: "chosen demo_bus demo_event = Some 1"
    by (simp add: chosen_def demo_bus_def bus_new_def demo_event_def with_ack_def)
  have ack: "be_ack demo_event = Some 7" by (simp add: demo_event_def with_ack_def)
  have live: "bc_chans demo_done 7 \<noteq> Abandoned" by (simp add: demo_done_def)
  from bus_serial [OF demo_done_reached, of "''late''" 3] show ?thesis
    using live ack by (simp add: fin pick List.map_filter_def) (simp add: demo_done_def)
qed

section \<open>The loop gets through its queue\<close>

text \<open>How far the loop is from having nothing to do.\<close>

definition work_left :: "'h bus_config \<Rightarrow> nat" where
  "work_left c = 2 * length (bc_queue c) + (if bc_current c = None then 0 else 1) + (if bc_exited c then 0 else 1)"

lemma loop_step_decreases: "loop_step c c' \<Longrightarrow> work_left c' < work_left c"
  by (auto elim!: loop_stepE simp: work_left_def)

text \<open>A state the loop alone cannot leave.\<close>

definition idle_bus :: "'h bus_config \<Rightarrow> bool" where
  "idle_bus c \<longleftrightarrow> (\<nexists>c'. loop_step c c')"

lemma idle_empty:
  assumes "idle_bus c" and "\<not> bc_exited c" and "\<not> bc_cancelled c"
  shows "bc_current c = None" and "bc_queue c = []"
proof -
  show none: "bc_current c = None"
    using assms loop_step.finish_event [of c] unfolding idle_bus_def by (cases "bc_current c") blast+
  show "bc_queue c = []"
    using assms loop_step.take_event [of c] none unfolding idle_bus_def by (cases "bc_queue c") blast+
qed

lemma uncancelled_steps:
  assumes "loop_step\<^sup>*\<^sup>* c c'" and "\<not> bc_cancelled c" and "bc_exited c \<longrightarrow> bc_queue c = [] \<and> bc_current c = None"
  shows "\<not> bc_cancelled c' \<and> bc_pushed c' = bc_pushed c \<and> bc_bus c' = bc_bus c
    \<and> (bc_exited c' \<longrightarrow> bc_queue c' = [] \<and> bc_current c' = None)"
  using assms by (induction rule: rtranclp_induct) (auto elim!: loop_stepE)

lemma loop_steps_inv: "loop_step\<^sup>*\<^sup>* c c' \<Longrightarrow> bus_inv c \<and> calls_inv c \<Longrightarrow> bus_inv c' \<and> calls_inv c'"
  by (induction rule: rtranclp_induct) (auto intro: loop_step_inv loop_step_calls)

text \<open>
  C13: the loop gets through its queue, however its handlers end (an answer, an error, a panic),
  as long as each of them ends. Left alone it takes only finitely many steps; a running handler may end
  in any way and the loop goes on from there; and on every such run, from any reachable state that was
  neither cancelled nor left, the state in which the loop has nothing more to do has an empty queue and
  nothing running, everything that was ever pushed has been taken, the calls made are those the table has
  for it, and every source that still waits has its answer.
\<close>

theorem bus_drains:
  assumes "reached (bus_start bus cap senders) c" and "\<not> bc_exited c" and "\<not> bc_cancelled c"
  shows "wfp (\<lambda>x y :: 'h bus_config. loop_step y x)
    \<and> (\<forall>c' evt x. loop_step\<^sup>*\<^sup>* c c' \<longrightarrow> bc_current c' = Some evt \<longrightarrow>
         (\<exists>c''. loop_step c' c'' \<and> bc_current c'' = None \<and> bc_calls c'' = bc_calls c' @
            (case chosen bus evt of None \<Rightarrow> [] | Some h \<Rightarrow> [\<lparr>hc_handler = h, hc_event = evt, hc_end = x\<rparr>])))
    \<and> (\<forall>c'. loop_step\<^sup>*\<^sup>* c c' \<longrightarrow> idle_bus c' \<longrightarrow>
         bc_queue c' = [] \<and> bc_current c' = None \<and> bc_taken c' = bc_pushed c
         \<and> map (\<lambda>k. (hc_handler k, hc_event k)) (bc_calls c') = calls_due bus (bc_pushed c)
         \<and> (\<forall>n \<in> acks (bc_pushed c). bc_chans c' n = Abandoned \<or> (\<exists>r. bc_chans c' n = Answered r)))"
proof (intro conjI allI impI)
  show "wfp (\<lambda>x y :: 'h bus_config. loop_step y x)"
    by (rule wfp_if_convertible_to_nat [of _ work_left]) (rule loop_step_decreases)
next
  fix c' evt x
  assume run: "loop_step\<^sup>*\<^sup>* c c'" and cur: "bc_current c' = Some evt"
  have kept: "bc_bus c' = bc_bus c" and live: "\<not> bc_exited c'"
    using uncancelled_steps [OF run] assms(2,3) cur by auto
  have "bc_bus c' = bus\<lparr>eb_running := True\<rparr>"
    using reached_table [OF assms(1)] kept by (simp add: bus_start_def)
  then have "calls_of (bc_bus c') (\<lambda>_. x) evt
      = (case chosen bus evt of None \<Rightarrow> [] | Some h \<Rightarrow> [\<lparr>hc_handler = h, hc_event = evt, hc_end = x\<rparr>])"
    by (simp add: calls_of_def chosen_handler chosen_def split: option.split)
  with loop_step.finish_event [OF live cur, of "\<lambda>_. x"]
  show "\<exists>c''. loop_step c' c'' \<and> bc_current c'' = None \<and> bc_calls c'' = bc_calls c' @
      (case chosen bus evt of None \<Rightarrow> [] | Some h \<Rightarrow> [\<lparr>hc_handler = h, hc_event = evt, hc_end = x\<rparr>])"
    by (intro exI conjI) (assumption, simp_all)
next
  fix c'
  assume run: "loop_step\<^sup>*\<^sup>* c c'" and idle: "idle_bus c'"
  have kept: "\<not> bc_cancelled c'" "bc_pushed c' = bc_pushed c" "bc_bus c' = bc_bus c"
    "bc_exited c' \<Longrightarrow> bc_queue c' = [] \<and> bc_current c' = None"
    using uncancelled_steps [OF run] assms(2,3) by auto
  have inv: "bus_inv c'" and calls: "calls_inv c'"
    using loop_steps_inv [OF run] reached_inv [OF assms(1) bus_start_inv]
      reached_calls [OF assms(1) bus_start_inv bus_start_calls] by auto
  show queue: "bc_queue c' = []" and none: "bc_current c' = None"
    using idle_empty [OF idle _ kept(1)] kept(4) by (cases "bc_exited c'"; simp)+
  have table: "chosen (bc_bus c') = chosen bus"
    using reached_table [OF assms(1)] kept(3) by (simp add: bus_start_def chosen_def fun_eq_iff)
  show taken: "bc_taken c' = bc_pushed c" using inv queue kept(2) by (simp add: bus_inv_def)
  then have fin: "finished c' = bc_pushed c" using none by (simp add: finished_def)
  show "map (\<lambda>k. (hc_handler k, hc_event k)) (bc_calls c') = calls_due bus (bc_pushed c)"
    using calls fin table by (simp add: calls_inv_def calls_due_def)
  show "\<forall>n \<in> acks (bc_pushed c). bc_chans c' n = Abandoned \<or> (\<exists>r. bc_chans c' n = Answered r)"
    using finished_answered [OF inv] fin by simp
qed

theorem bus_drains_witness:
  "loop_step\<^sup>*\<^sup>* demo_pushed demo_done \<and> idle_bus demo_done \<and> bc_queue demo_done = []
   \<and> bc_taken demo_done = [demo_event]
   \<and> map (\<lambda>k. (hc_handler k, hc_event k)) (bc_calls demo_done) = [(1, demo_event)]"
proof -
  have "\<not> bc_exited demo_pushed" "\<not> bc_cancelled demo_pushed" by (simp_all add: demo_pushed_def bus_start_def)
  note law = bus_drains [OF demo_reached this, THEN conjunct2, THEN conjunct2, rule_format]
  have pick: "chosen demo_bus demo_event = Some 1"
    by (simp add: chosen_def demo_bus_def bus_new_def demo_event_def with_ack_def)
  have pushed: "bc_pushed demo_pushed = [demo_event]" by (simp add: demo_pushed_def)
  have idle: "idle_bus demo_done"
    by (auto simp: idle_bus_def demo_done_def demo_pushed_def bus_start_def elim!: loop_stepE)
  from law [OF demo_bus_run idle] idle demo_bus_run show ?thesis
    by (simp add: pushed pick calls_due_def List.map_filter_def)
qed

end
