(* ===== verification/Source_Properties.thy ===== *)
theory Source_Properties
  imports Sources Bus_Properties
begin

text \<open>
  What the listener lets through and what its callers hear: only a request whose \<open>Host\<close> (and
  readable \<open>Origin\<close>) names an allowed host and which carries the configured token becomes an
  event, and a request whose event the bus is done with hears what the table answered.
\<close>

section \<open>What a header names\<close>

text \<open>The three ways a \<open>Host\<close> value or an authority names the host \<open>h\<close>.\<close>

definition names_host :: "string \<Rightarrow> string \<Rightarrow> bool" where
  "names_host h v \<longleftrightarrow>
     trim v = h
   \<or> (\<exists>port. trim v = h @ '':'' @ port \<and> list_all is_ascii_digit port)
   \<or> (\<exists>rest. trim v = ''['' @ h @ '']'' @ rest)"

text \<open>The hosts a listener answers for: the loopback names, and its own address if that is not one.\<close>

definition own_host :: "string \<Rightarrow> bool \<Rightarrow> string \<Rightarrow> bool" where
  "own_host ip loopback h \<longleftrightarrow> h \<in> {''localhost'', ''127.0.0.1'', ''::1''} \<or> (\<not> loopback \<and> h = ip)"

lemma rsplit_once_Some:
  assumes "rsplit_once c s = Some (a, b)"
  shows "s = a @ c # b \<and> c \<notin> set b"
proof -
  have c: "c \<in> set (rev s)" and b: "b = rev (takeWhile (\<lambda>x. x \<noteq> c) (rev s))"
    and a: "a = take (length s - length b - 1) s"
    using assms by (auto simp: rsplit_once_def Let_def split: if_splits)
  obtain x r where xr: "dropWhile (\<lambda>x. x \<noteq> c) (rev s) = x # r"
    using c by (cases "dropWhile (\<lambda>x. x \<noteq> c) (rev s)") auto
  then have "x = c" by (simp add: dropWhile_eq_Cons_conv)
  then have "rev s = rev b @ c # r"
    using takeWhile_dropWhile_id [of "\<lambda>x. x \<noteq> c" "rev s"] xr b by simp
  then have "rev (rev s) = rev (rev b @ c # r)" by (rule arg_cong)
  then have s: "s = rev r @ c # b" by simp
  then have "a = rev r" unfolding a by simp
  moreover have "c \<notin> set b" unfolding b using set_takeWhileD by fastforce
  ultimately show ?thesis using s by simp
qed

lemma host_only_names: "names_host (host_only v) v"
proof (cases "starts_with ''['' (trim v) \<and> find_char (\<lambda>c. c = CHR '']'') (drop 1 (trim v)) \<noteq> None")
  case True
  then obtain n where n: "find_char (\<lambda>c. c = CHR '']'') (drop 1 (trim v)) = Some n" by blast
  let ?r = "drop 1 (trim v)"
  have "trim v = ''['' @ ?r" using True by (auto simp: starts_with_iff)
  moreover have "?r = take n ?r @ '']'' @ drop (Suc n) ?r"
    using find_char_at [OF n] id_take_nth_drop [of n ?r] by simp
  ultimately have "trim v = ''['' @ take n ?r @ '']'' @ drop (Suc n) ?r" by metis
  moreover have "host_only v = take n ?r" using True n by (simp add: host_only_def)
  ultimately show ?thesis unfolding names_host_def by metis
next
  case False
  then have "host_only v = (case rsplit_once (CHR '':'') (trim v) of
      Some (host, port) \<Rightarrow> (if list_all is_ascii_digit port then host else trim v) | None \<Rightarrow> trim v)"
    by (auto simp: host_only_def Let_def split: option.split)
  then show ?thesis
    by (auto simp: names_host_def split: option.splits if_splits dest: rsplit_once_Some)
qed

section \<open>Nothing unwelcome becomes an event\<close>

text \<open>
  C14: with the listener started on an address, a request becomes an event only if its \<open>Host\<close> header
  names a loopback name or the (not loopback) address of the listener, the \<open>Origin\<close> it can read, if
  any, is \<open>scheme://authority\<close> whose authority names one of these too, and the configured token, if
  any, is what follows \<open>Bearer\<close>; the event is of the configured kind, and in every other case
  the status is 401, 403 or 503 and nothing is handed to the bus.
\<close>

theorem http_gate:
  assumes "http_start config (Ok (Ok (ip, loopback))) = Ok inner"
    and "http_handle lib inner rq eid chan open_channel waited = (resp, sent)"
    and "\<forall>s \<in> {401, 403, 503}. hl_status_ok lib s"
  shows "(\<forall>evt. sent = Some evt \<longrightarrow> open_channel \<and> be_kind evt = hc_kind config \<and> be_ack evt = Some chan
     \<and> (\<exists>raw v h. rq_host rq = Some raw \<and> hl_to_str lib raw = Some v \<and> names_host h v \<and> own_host ip loopback h)
     \<and> (\<forall>raw v. rq_origin rq = Some raw \<longrightarrow> hl_to_str lib raw = Some v \<longrightarrow>
          (\<exists>scheme rest h. trim v = scheme @ ''://'' @ rest \<and> names_host h (takeWhile (\<lambda>c. c \<noteq> CHR ''/'') rest)
             \<and> own_host ip loopback h))
     \<and> (\<forall>t. hc_token config = Some t \<longrightarrow>
          (\<exists>raw rest. rq_authorization rq = Some raw \<and> hl_to_str lib raw = Some (''Bearer '' @ rest) \<and> trim rest = t)))
   \<and> (sent = None \<longrightarrow> fst resp \<in> {401, 403, 503})"
proof -
  have inner: "in_token inner = hc_token config" "in_kind inner = hc_kind config"
    and allowed: "h \<in> set (in_allowed_hosts inner) \<longleftrightarrow> own_host ip loopback h" for h
    using assms(1) by (auto simp: http_start_def own_host_def split: if_splits)
  have host: "\<exists>raw v h. rq_host rq = Some raw \<and> hl_to_str lib raw = Some v \<and> names_host h v
      \<and> own_host ip loopback h" if "host_ok lib inner rq"
    using that host_only_names by (auto simp: host_ok_def allowed split: option.splits bind_splits)
  have origin: "\<exists>scheme rest h. trim v = scheme @ ''://'' @ rest \<and> names_host h (takeWhile (\<lambda>c. c \<noteq> CHR ''/'') rest)
      \<and> own_host ip loopback h"
    if "origin_ok lib inner rq" "rq_origin rq = Some raw" "hl_to_str lib raw = Some v" for raw v
    using that host_only_names
    by (fastforce simp: allowed origin_ok_def origin_host_def split: option.splits dest!: split_once_Some)
  have token: "\<exists>raw rest. rq_authorization rq = Some raw \<and> hl_to_str lib raw = Some (''Bearer '' @ rest) \<and> trim rest = t"
    if "token_ok lib inner rq" "hc_token config = Some t" for t
    using that inner(1)
    by (auto simp: token_ok_def bearer_def starts_with_iff split: if_splits bind_splits)
  show ?thesis
  proof (cases sent)
    case None
    then show ?thesis using assms(2,3) by (auto simp: http_handle_def reply_def split: if_splits)
  next
    case (Some evt)
    have ok: "host_ok lib inner rq" "origin_ok lib inner rq" "token_ok lib inner rq" "open_channel"
      and evt: "evt = http_event lib inner rq eid chan"
      using assms(2) Some by (auto simp: http_handle_def split: if_splits)
    have "be_kind evt = hc_kind config" "be_ack evt = Some chan"
      by (simp_all add: evt http_event_def with_ack_def inner)
    with Some ok(4) host [OF ok(1)] origin [OF ok(2)] token [OF ok(3)] show ?thesis by simp
  qed
qed

definition demo_lib :: http_lib where
  "demo_lib = \<lparr>hl_to_str = Some, hl_parse = (\<lambda>_. None), hl_status_ok = (\<lambda>s. 100 \<le> s \<and> s < 1000)\<rparr>"

definition demo_config :: http_source_config where
  "demo_config = http_config_token ''t0k'' (http_config_new ''127.0.0.1:7788'')"

definition demo_inner :: http_inner where
  "demo_inner = \<lparr>in_token = Some ''t0k'', in_kind = ''http'', in_meta = [],
     in_allowed_hosts = [''localhost'', ''127.0.0.1'', ''::1'']\<rparr>"

definition demo_request :: http_request where
  "demo_request = \<lparr>rq_method = ''GET'', rq_path = ''/jobs'', rq_query = None, rq_host = Some ''localhost:7788'',
     rq_origin = Some ''http://[::1]:3000'', rq_authorization = Some ''Bearer t0k '', rq_body = [],
     rq_remote = ''127.0.0.1:5000''\<rparr>"

lemma demo_start: "http_start demo_config (Ok (Ok (''127.0.0.1'', True))) = Ok demo_inner"
  by (simp add: http_start_def demo_config_def http_config_token_def http_config_new_def default_kind_def
      demo_inner_def)

lemma demo_passes:
  "host_ok demo_lib demo_inner demo_request" "origin_ok demo_lib demo_inner demo_request"
  "token_ok demo_lib demo_inner demo_request"
  by code_simp+

lemma demo_status: "\<forall>s \<in> {401, 403, 503}. hl_status_ok demo_lib s"
  by (simp add: demo_lib_def)

theorem http_gate_witness:
  "\<exists>raw rest. rq_authorization demo_request = Some raw
     \<and> hl_to_str demo_lib raw = Some (''Bearer '' @ rest) \<and> trim rest = ''t0k''"
proof -
  have "http_handle demo_lib demo_inner demo_request ''id'' 7 True AckTimeout =
      (ack_reply demo_lib AckTimeout, Some (http_event demo_lib demo_inner demo_request ''id'' 7))"
    by (simp add: http_handle_def demo_passes)
  from http_gate [OF demo_start this demo_status] show ?thesis
    by (simp add: demo_config_def http_config_token_def)
qed

section \<open>What the caller hears\<close>

text \<open>The answer of the table, as the listener says it.\<close>

definition said :: "http_lib \<Rightarrow> ack_result \<Rightarrow> response" where
  "said lib r = (case r of Ok v \<Rightarrow> answer lib v | Err e \<Rightarrow> (500, error_body (display_block_error e)))"

lemma answer_status_ok:
  assumes "hl_status_ok lib 200" "hl_status_ok lib 500"
  shows "hl_status_ok lib (fst (answer lib v))"
  using assms by (auto simp: answer_def reply_def split: option.splits)

text \<open>
  On a running bus, a request that was let through and whose event the loop is done with,
  while the listener still waits, hears the table's answer for exactly its event: the handler's
  value as \<open>answer\<close> reads it, a handler's error (its panic included) as a 500 with its text, and a
  kind nobody handles as a 500 that names the kind; it is never told of a timeout or of a lost
  answer, and the status is one the protocol has.
\<close>

theorem http_hears_the_bus:
  assumes "reached (bus_start bus cap senders) c"
    and "host_ok lib inner rq" and "origin_ok lib inner rq" and "token_ok lib inner rq"
    and "http_event lib inner rq eid chan \<in> set (finished c)" and "bc_chans c chan \<noteq> Abandoned"
    and "hl_status_ok lib 200" and "hl_status_ok lib 500"
  shows "\<exists>ended. fst (http_handle lib inner rq eid chan True (waited_on (bc_chans c chan)))
       = said lib (answer_for bus ended (http_event lib inner rq eid chan))
     \<and> hl_status_ok lib (fst (fst (http_handle lib inner rq eid chan True (waited_on (bc_chans c chan)))))
     \<and> (eb_handlers bus (in_kind inner) = None \<longrightarrow> eb_any bus = None \<longrightarrow>
          fst (http_handle lib inner rq eid chan True (waited_on (bc_chans c chan)))
            = (500, error_body (''bus error: no handler for kind `'' @ in_kind inner @ ''`'')))"
proof -
  let ?evt = "http_event lib inner rq eid chan"
  have ack: "be_ack ?evt = Some chan" and kind: "be_kind ?evt = in_kind inner"
    by (simp_all add: http_event_def with_ack_def)
  obtain ended where ended: "bc_chans c chan = Answered (answer_for bus ended ?evt)"
    using finished_own_answer [OF assms(1,5) ack] assms(6) by blast
  have heard: "fst (http_handle lib inner rq eid chan True (waited_on (bc_chans c chan)))
      = said lib (answer_for bus ended ?evt)"
    using assms(2-4,8) by (simp add: http_handle_def ended ack_reply_def said_def reply_def split: sum.split)
  moreover have "hl_status_ok lib (fst (said lib r))" for r
    using answer_status_ok [OF assms(7,8)] assms(8) by (simp add: said_def split: sum.split)
  moreover have "said lib (answer_for bus ended ?evt) = (500, error_body (''bus error: no handler for kind `'' @ in_kind inner @ ''`''))"
    if "eb_handlers bus (in_kind inner) = None" "eb_any bus = None"
    using that by (simp add: answer_for_def handler_for_def kind said_def fmt_def)
  ultimately show ?thesis
    by (intro exI [of _ ended] conjI) (simp_all add: heard)
qed

text \<open>The relay of the mesh, likewise: the caller hears the answer to its own event.\<close>

lemma mesh_hears_the_bus:
  assumes "reached (bus_start bus cap senders) c"
    and "mesh_event who payload eid chan \<in> set (finished c)" and "bc_chans c chan \<noteq> Abandoned"
  shows "\<exists>ended. fst (mesh_handle who payload eid chan True (waited_on (bc_chans c chan)))
       = (case answer_for bus ended (mesh_event who payload eid chan) of
            Ok v \<Rightarrow> v | Err e \<Rightarrow> error_body (display_block_error e))"
proof -
  have "be_ack (mesh_event who payload eid chan) = Some chan" by (simp add: mesh_event_def with_ack_def)
  from finished_own_answer [OF assms(1,2) this] assms(3)
  obtain ended where "bc_chans c chan = Answered (answer_for bus ended (mesh_event who payload eid chan))"
    by blast
  then show ?thesis by (intro exI [of _ ended]) (simp add: mesh_handle_def split: sum.split)
qed

text \<open>One event pushed to an idle bus, taken and finished.\<close>

lemma serve_one:
  assumes "be_ack evt = Some n" and "0 < cap" and "0 < senders"
  shows "reached (bus_start bus cap senders)
    ((bus_start bus cap senders)\<lparr>bc_pushed := [evt], bc_taken := [evt],
       bc_chans := dispatch bus ended evt (\<lambda>_. Waiting), bc_calls := calls_of bus ended evt\<rparr>)"
proof -
  let ?c0 = "bus_start bus cap senders"
  let ?c1 = "?c0\<lparr>bc_queue := [evt], bc_pushed := [evt]\<rparr>"
  let ?c2 = "?c1\<lparr>bc_queue := [], bc_current := Some evt, bc_taken := [evt]\<rparr>"
  let ?c3 = "?c2\<lparr>bc_current := None, bc_chans := dispatch (bc_bus ?c2) ended evt (bc_chans ?c2),
    bc_calls := bc_calls ?c2 @ calls_of (bc_bus ?c2) ended evt\<rparr>"
  have "env_step ?c0 ?c1"
    using env_step.push [of ?c0 evt] assms by (simp add: bus_start_def)
  moreover have "loop_step ?c1 ?c2"
    using loop_step.take_event [of ?c1 evt "[]"] by (simp add: bus_start_def)
  moreover have "loop_step ?c2 ?c3"
    by (rule loop_step.finish_event) (simp_all add: bus_start_def)
  ultimately have "reached ?c0 ?c3" by (meson bus_step_def reached.start reached.step)
  moreover have "dispatch (bus\<lparr>eb_running := True\<rparr>) = dispatch bus"
    by (simp add: fun_eq_iff dispatch_answer answer_for_running split: option.split)
  moreover have "calls_of (bus\<lparr>eb_running := True\<rparr>) = calls_of bus"
    by (simp add: fun_eq_iff calls_of_def handler_for_def split: option.split)
  ultimately show ?thesis by (simp add: bus_start_def)
qed

definition demo_empty :: "nat event_bus" where
  "demo_empty = bus_new"

theorem http_hears_the_bus_witness:
  "\<exists>c. reached (bus_start demo_empty 4 1) c
     \<and> fst (http_handle demo_lib demo_inner demo_request ''id'' 7 True (waited_on (bc_chans c 7)))
       = (500, error_body ''bus error: no handler for kind `http`'')"
proof -
  let ?evt = "http_event demo_lib demo_inner demo_request ''id'' 7"
  let ?c = "(bus_start demo_empty 4 1)\<lparr>bc_pushed := [?evt], bc_taken := [?evt],
       bc_chans := dispatch demo_empty (\<lambda>_. JoinFailed []) ?evt (\<lambda>_. Waiting),
       bc_calls := calls_of demo_empty (\<lambda>_. JoinFailed []) ?evt\<rparr>"
  have ack: "be_ack ?evt = Some 7" by (simp add: http_event_def with_ack_def)
  have fin: "?evt \<in> set (finished ?c)" by (simp add: finished_def bus_start_def)
  have wait: "bc_chans ?c 7 \<noteq> Abandoned" by (simp add: dispatch_answer ack)
  have ok: "hl_status_ok demo_lib 200" "hl_status_ok demo_lib 500" by (simp_all add: demo_lib_def)
  have r: "reached (bus_start demo_empty 4 1) ?c" by (rule serve_one [OF ack]) simp_all
  from http_hears_the_bus [OF r demo_passes fin wait ok] have
    "fst (http_handle demo_lib demo_inner demo_request ''id'' 7 True (waited_on (bc_chans ?c 7)))
       = (500, error_body ''bus error: no handler for kind `http`'')"
    by (simp add: demo_empty_def bus_new_def demo_inner_def)
  with r show ?thesis by blast
qed

section \<open>Two corners of the check\<close>

text \<open>
  A listener bound to a loopback address other than \<open>127.0.0.1\<close> refuses a request that names the
  very address it is bound to.
\<close>

lemma loopback_bind_refused:
  assumes "http_start (http_config_new ''127.0.0.2:7788'') (Ok (Ok (''127.0.0.2'', True))) = Ok inner"
    and "rq_host rq = Some ''127.0.0.2:7788''"
  shows "http_handle demo_lib inner rq eid chan open_channel waited
    = (reply demo_lib 403 (error_body ''host not allowed''), None)"
proof -
  have "host_only ''127.0.0.2:7788'' = ''127.0.0.2''" by code_simp
  moreover have "''127.0.0.2'' \<notin> set (in_allowed_hosts inner)" using assms(1) by (auto simp: http_start_def)
  ultimately show ?thesis by (simp add: http_handle_def host_ok_def assms(2) demo_lib_def)
qed

text \<open>An \<open>Origin\<close> that cannot be read as text is treated as if there were none.\<close>

lemma unreadable_origin_passes:
  assumes "rq_origin rq = Some raw" and "hl_to_str lib raw = None"
  shows "http_handle lib inner rq eid chan open_channel waited
    = http_handle lib inner (rq\<lparr>rq_origin := None\<rparr>) eid chan open_channel waited"
proof -
  let ?rq = "rq\<lparr>rq_origin := None\<rparr>"
  have "host_ok lib inner ?rq = host_ok lib inner rq" by (simp add: host_ok_def)
  moreover have "origin_ok lib inner ?rq" "origin_ok lib inner rq" using assms by (simp_all add: origin_ok_def)
  moreover have "token_ok lib inner ?rq = token_ok lib inner rq"
    by (simp add: token_ok_def bearer_def split: option.split)
  moreover have "http_event lib inner ?rq = http_event lib inner rq" by (simp add: http_event_def fun_eq_iff)
  ultimately show ?thesis by (simp add: http_handle_def)
qed

end
