(* ===== verification/Config.thy ===== *)
theory Config
  imports Strings
begin

text \<open>
  \<open>bridge/config.rs\<close>: where the databases are and what the knobs are, read from the environment.
  The environment is a map from names to bytes; \<open>var_os\<close> reads it as it is, \<open>var\<close> refuses what is
  not UTF-8.
\<close>

type_synonym env = "string \<rightharpoonup> string"

definition env_var :: "env \<Rightarrow> string \<Rightarrow> string option" where
  "env_var env k = (case env k of Some v \<Rightarrow> (if valid_utf8 v then Some v else None) | None \<Rightarrow> None)"

section \<open>Paths\<close>

text \<open>\<open>PathBuf::join\<close> on a Unix path: an absolute operand replaces, a separator is added when missing.\<close>

definition path_join :: "string \<Rightarrow> string \<Rightarrow> string" where
  "path_join base p =
     (if starts_with ''/'' p then p
      else if base = [] \<or> last base = CHR ''/'' then base @ p
      else base @ ''/'' @ p)"

definition base_dir :: "env \<Rightarrow> string + string" where
  "base_dir env =
     (case env ''AGENT_BLOCK_HOME'' of
        Some v \<Rightarrow> Ok v
      | None \<Rightarrow>
          (case env ''HOME'' of
             None \<Rightarrow> Err ''HOME env var not set''
           | Some home \<Rightarrow> Ok (path_join home ''.agent-block'')))"

definition kv_path :: "env \<Rightarrow> string + string" where
  "kv_path env =
     (case env ''AGENT_BLOCK_KV_PATH'' of
        Some v \<Rightarrow> Ok v
      | None \<Rightarrow> and_then (base_dir env) (\<lambda>d. Ok (path_join d ''kv.sqlite'')))"

definition sql_path :: "env \<Rightarrow> string + string" where
  "sql_path env =
     (case env ''AGENT_BLOCK_SQL_PATH'' of
        Some v \<Rightarrow> Ok v
      | None \<Rightarrow> and_then (base_dir env) (\<lambda>d. Ok (path_join d ''db.sqlite'')))"

definition ts_path :: "env \<Rightarrow> string + string" where
  "ts_path env =
     (case env ''AGENT_BLOCK_TS_PATH'' of
        Some v \<Rightarrow> Ok v
      | None \<Rightarrow> and_then (base_dir env) (\<lambda>d. Ok (path_join d ''ts.sqlite'')))"

definition project_slug :: "string \<Rightarrow> string" where
  "project_slug root = map (\<lambda>c. if c = CHR ''/'' then CHR ''-'' else c) (from_utf8_lossy root)"

definition resolve_knl_path :: "env \<Rightarrow> string option \<Rightarrow> string \<Rightarrow> string + string" where
  "resolve_knl_path env override_path root =
     (case override_path of
        Some path \<Rightarrow> Ok path
      | None \<Rightarrow>
          and_then (base_dir env) (\<lambda>d.
            Ok (path_join (path_join (path_join d ''projects'') (project_slug root)) ''knl.sqlite'')))"

definition knl_path :: "env \<Rightarrow> string \<Rightarrow> string + string" where
  "knl_path env root = resolve_knl_path env (env ''AGENT_BLOCK_KNL_PATH'') root"

definition is_memory_sql :: "string \<Rightarrow> bool" where
  "is_memory_sql path \<longleftrightarrow> path = '':memory:''"

section \<open>Numbers and switches\<close>

text \<open>\<open>str::parse::<u64>\<close>: an optional plus sign, then at least one digit, in range.\<close>

definition digits_value :: "string \<Rightarrow> nat" where
  "digits_value ds = foldl (\<lambda>n c. 10 * n + (of_char c - 48)) 0 ds"

definition parse_u64 :: "string \<Rightarrow> nat option" where
  "parse_u64 s =
     (let ds = (if starts_with ''+'' s then drop 1 s else s)
      in if ds \<noteq> [] \<and> list_all is_ascii_digit ds \<and> digits_value ds \<le> u64_max
         then Some (digits_value ds) else None)"

lemma digits_are_digits: "list_all is_ascii_digit (string_of_nat n)"
proof -
  have "list_all is_ascii_digit (digits_of_nat n)"
  proof (induction n rule: digits_of_nat.induct)
    case (1 n)
    have "is_ascii_digit (char_of (48 + k :: nat))" if "k < 10" for k using that by (simp add: is_ascii_digit_def)
    with 1 show ?case by (subst digits_of_nat.simps) simp
  qed
  then show ?thesis by (simp add: string_of_nat_def)
qed

text \<open>A knob that is a number of milliseconds or of slots: what parses, else the default.\<close>

definition env_u64 :: "env \<Rightarrow> string \<Rightarrow> nat \<Rightarrow> nat" where
  "env_u64 env k dflt =
     (case Option.bind (env_var env k) parse_u64 of Some n \<Rightarrow> n | None \<Rightarrow> dflt)"

definition sql_busy_timeout :: "env \<Rightarrow> nat" where
  "sql_busy_timeout env = env_u64 env ''AGENT_BLOCK_SQL_BUSY_TIMEOUT_MS'' 5000"

definition sql_journal_mode :: "env \<Rightarrow> string" where
  "sql_journal_mode env =
     (case env_var env ''AGENT_BLOCK_SQL_JOURNAL_MODE'' of Some v \<Rightarrow> v | None \<Rightarrow> ''WAL'')"

definition sql_query_timeout :: "env \<Rightarrow> nat option" where
  "sql_query_timeout env =
     (let ms = env_u64 env ''AGENT_BLOCK_SQL_QUERY_TIMEOUT_MS'' 5000
      in if ms = 0 then None else Some ms)"

definition bus_capacity :: "env \<Rightarrow> nat" where
  "bus_capacity env =
     (case env_var env ''AGENT_BLOCK_BUS_CAPACITY'' of
        Some v \<Rightarrow> (case parse_u64 v of Some n \<Rightarrow> n | None \<Rightarrow> 64)
      | None \<Rightarrow> 64)"

definition task_grace_ms :: "env \<Rightarrow> nat" where
  "task_grace_ms env =
     (case env_var env ''AGENT_BLOCK_TASK_GRACE_MS'' of
        Some v \<Rightarrow> (case parse_u64 v of Some n \<Rightarrow> n | None \<Rightarrow> 1000)
      | None \<Rightarrow> 1000)"

definition sh_process_group :: "env \<Rightarrow> bool" where
  "sh_process_group env =
     (case env_var env ''AGENT_BLOCK_SH_PROCESS_GROUP'' of
        Some v \<Rightarrow> to_ascii_lowercase (trim v) \<notin> {''0'', ''false'', ''no'', ''off''}
      | None \<Rightarrow> True)"

section \<open>Which project a database belongs to\<close>

lemma path_join_relative: "\<not> starts_with ''/'' p \<Longrightarrow> path_join d p = path_join d [] @ p"
  by (auto simp: path_join_def)

lemma slug_not_absolute: "\<not> starts_with ''/'' (project_slug root)"
  by (cases "from_utf8_lossy root") (auto simp: project_slug_def)

lemma slug_map: "valid_utf8 root \<Longrightarrow>
    project_slug root = map (\<lambda>c. if c = CHR ''/'' then CHR ''-'' else c) root"
  by (simp add: project_slug_def lossy_valid_id)

lemma dash_map_inj:
  assumes "map (\<lambda>c. if c = CHR ''/'' then CHR ''-'' else c) s = map (\<lambda>c. if c = CHR ''/'' then CHR ''-'' else c) t"
    and "CHR ''-'' \<notin> set s" and "CHR ''-'' \<notin> set t"
  shows "s = t"
  using assms
proof (induction s arbitrary: t)
  case (Cons c s)
  then obtain d t' where "t = d # t'" by (cases t) auto
  with Cons show ?case by (auto split: if_splits)
qed simp

text \<open>Where the kernel's database is when nothing overrides it.\<close>

lemma knl_path_default:
  assumes "env ''AGENT_BLOCK_KNL_PATH'' = None" and "base_dir env = Ok d" and "project_slug root \<noteq> []"
  shows "knl_path env root = Ok (path_join (path_join d ''projects'') [] @ project_slug root @ ''/knl.sqlite'')"
proof -
  have "last (project_slug root) \<in> set (project_slug root)" using assms(3) by (rule last_in_set)
  then have "last (project_slug root) \<noteq> CHR ''/''" by (auto simp: project_slug_def split: if_splits)
  then show ?thesis
    using assms slug_not_absolute [of root]
    by (simp add: knl_path_def resolve_knl_path_def path_join_relative [of "project_slug root"])
      (simp add: path_join_def)
qed

text \<open>
  The kernel's database is the override, whole, when there is one; otherwise two projects whose
  paths hold no dash have the same database only if they are the same project, whatever the
  environment, and without a home the answer is an error that says so.
\<close>

theorem knl_path_per_project:
  assumes "valid_utf8 r1" "valid_utf8 r2" "r1 \<noteq> []" "r2 \<noteq> []" "CHR ''-'' \<notin> set r1" "CHR ''-'' \<notin> set r2"
  shows "case env ''AGENT_BLOCK_KNL_PATH'' of
      Some path \<Rightarrow> knl_path env r1 = Ok path
    | None \<Rightarrow>
        (case base_dir env of
           Err e \<Rightarrow> knl_path env r1 = Err e \<and> e = ''HOME env var not set''
         | Ok d \<Rightarrow> knl_path env r1 = knl_path env r2 \<longleftrightarrow> r1 = r2)"
proof (cases "env ''AGENT_BLOCK_KNL_PATH''")
  case None
  show ?thesis
  proof (cases "base_dir env")
    case (Inl e)
    then show ?thesis using None
      by (auto simp: knl_path_def resolve_knl_path_def base_dir_def split: option.splits)
  next
    case (Inr d)
    have "project_slug r1 \<noteq> []" "project_slug r2 \<noteq> []" using assms by (simp_all add: slug_map)
    then have "knl_path env r1 = knl_path env r2 \<longleftrightarrow> project_slug r1 = project_slug r2"
      using knl_path_default [of env d] None Inr by simp
    also have "\<dots> \<longleftrightarrow> r1 = r2" using assms dash_map_inj [of r1 r2] by (auto simp: slug_map)
    finally show ?thesis using None Inr by simp
  qed
qed (simp add: knl_path_def resolve_knl_path_def)

theorem knl_path_per_project_witness:
  "knl_path [''HOME'' \<mapsto> ''/h''] ''/a/b'' \<noteq> knl_path [''HOME'' \<mapsto> ''/h''] ''/a/c''"
  using knl_path_per_project [of "''/a/b''" "''/a/c''" "[''HOME'' \<mapsto> ''/h'']"]
  by (simp add: base_dir_def utf8_next_def tail_ranges_def byte_in_def)

text \<open>With a dash in the path two projects can share one database.\<close>

lemma knl_path_shared: "knl_path env ''/w/a-b'' = knl_path env ''/w/a/b''"
proof -
  have "project_slug ''/w/a-b'' = project_slug ''/w/a/b''" by code_simp
  then show ?thesis by (simp add: knl_path_def resolve_knl_path_def split: option.split)
qed

text \<open>A capacity of zero is taken as it is.\<close>

lemma zero_capacity: "bus_capacity [''AGENT_BLOCK_BUS_CAPACITY'' \<mapsto> ''0''] = 0"
proof -
  have "valid_utf8 ''0''" by code_simp
  moreover have "parse_u64 ''0'' = Some 0"
    by (simp add: parse_u64_def digits_value_def is_ascii_digit_def u64_max_def)
  ultimately show ?thesis by (simp add: bus_capacity_def env_var_def)
qed

end
