(* ===== verification/Bridge_Bus.thy ===== *)
theory Bridge_Bus
  imports Sources Config
begin

text \<open>
  The bus as a script and its host see it: \<open>setup_event_bus\<close> and \<open>script_failure\<close> of \<open>host.rs\<close>, and
  \<open>bus.on\<close>, \<open>bus.on_any\<close>, \<open>bus.emit\<close>, \<open>bus.serve\<close> and the Lua handler of \<open>bridge/bus.rs\<close>. A
  script's function is registered twice: its bytecode goes into a table of the handler Isle, and a
  \<open>LuaHandler\<close> (the same for every function) into the table of the bus. Loading bytecode, running
  a handler, \<open>std.json\<close> and \<open>serde_json\<close>'s text forms are a parameter, \<open>lua_lib\<close>.
\<close>

section \<open>State\<close>

datatype handler_ref = LuaHandler | HostHandler nat

record bus_host =
  bh_bus :: "handler_ref event_bus option"
  bh_lua_handlers :: "string \<rightharpoonup> string"
  bh_lua_any :: "string option"
  bh_serving :: bool
  bh_process_serving :: bool

text \<open>A Lua function value: what \<open>info().what\<close> and \<open>dump(true)\<close> say of it.\<close>

record lua_function =
  lf_what :: string
  lf_bytecode :: string

text \<open>How a call of \<open>__bus_dispatch\<close> ended.\<close>

datatype lua_end = LuaNil | LuaJson string | LuaRaised string | LuaCancelled | LuaShutdown

record lua_lib =
  ll_load :: "string \<Rightarrow> string option"
  ll_decode :: "string \<Rightarrow> string + json"
  ll_run :: "string \<Rightarrow> string \<Rightarrow> string \<Rightarrow> json \<Rightarrow> json \<Rightarrow> lua_end"
  ll_encode :: "json \<Rightarrow> string + string"
  ll_parse :: "string \<Rightarrow> json option"
  ll_show :: "string \<Rightarrow> string"

section \<open>The host's side\<close>

record bus_block_config =
  bb_host_handlers :: "(string \<times> nat) list"
  bb_host_handler :: "nat option"
  bb_auto_serve :: bool

datatype setup_end = SetupPanic | SetUp bus_host "handler_ref event_bus option" nat

fun install_handlers :: "(string \<times> nat) list \<Rightarrow> handler_ref event_bus \<Rightarrow> block_error + handler_ref event_bus" where
  "install_handlers [] bus = Ok bus"
| "install_handlers ((kind, h) # rest) bus =
     (case bus_on kind (HostHandler h) bus of
        (Err e, _) \<Rightarrow> Err (BE_Bus (fmt [''host_handlers on('', kind, ''): '', display_block_error e]))
      | (Ok _, bus') \<Rightarrow> install_handlers rest bus')"

definition install_any :: "nat option \<Rightarrow> handler_ref event_bus \<Rightarrow> block_error + handler_ref event_bus" where
  "install_any h bus =
     (case h of
        None \<Rightarrow> Ok bus
      | Some h \<Rightarrow>
          (case bus_on_any (HostHandler h) bus of
             (Err e, _) \<Rightarrow> Err (BE_Bus (fmt [''host_handler on_any: '', display_block_error e]))
           | (Ok _, bus') \<Rightarrow> Ok bus'))"

text \<open>
  \<open>channel_ok\<close> is the range of capacities \<open>mpsc::channel\<close> accepts; it panics on any other. The
  dispatcher that was started for auto-serve is the second component.
\<close>

definition setup_event_bus :: "(nat \<Rightarrow> bool) \<Rightarrow> env \<Rightarrow> bus_block_config \<Rightarrow> block_error + setup_end" where
  "setup_event_bus channel_ok env config =
     (let capacity = bus_capacity env in
      if \<not> channel_ok capacity then Ok SetupPanic
      else
        and_then (install_handlers (bb_host_handlers config) bus_new) (\<lambda>bus.
        and_then (install_any (bb_host_handler config) bus) (\<lambda>bus.
          let host = \<lparr>bh_bus = Some bus, bh_lua_handlers = Map.empty, bh_lua_any = None,
                      bh_serving = False, bh_process_serving = False\<rparr>
          in if bb_auto_serve config \<and> (bb_host_handlers config \<noteq> [] \<or> bb_host_handler config \<noteq> None)
             then Ok (SetUp (host\<lparr>bh_bus := None\<rparr>) (Some bus) capacity)
             else Ok (SetUp host None capacity))))"

text \<open>\<open>lines().next()\<close>, with the empty line when there is none.\<close>

definition first_line :: "string \<Rightarrow> string" where
  "first_line s =
     (let l = takeWhile (\<lambda>c. c \<noteq> CHR 0x0A) s
      in if l \<noteq> s \<and> l \<noteq> [] \<and> last l = CHR 0x0D then butlast l else l)"

definition script_failure :: "string \<Rightarrow> block_error" where
  "script_failure failure =
     (case split_once ''job.defer: '' failure of
        Some (_, after) \<Rightarrow> BE_Deferred (trim (first_line after))
      | None \<Rightarrow> BE_Script failure)"

section \<open>The script's side\<close>

definition check_function :: "string \<Rightarrow> lua_function \<Rightarrow> string + string" where
  "check_function api fn =
     (if lf_what fn \<noteq> ''Lua''
      then Err (fmt [api, '': handler must be a pure Lua function (C functions and Rust-bound callbacks are not supported)''])
      else if lf_bytecode fn = []
      then Err (fmt [api, '': Function::dump returned empty bytecode (handler not serializable)''])
      else Ok (lf_bytecode fn))"

definition lua_on :: "lua_lib \<Rightarrow> string \<Rightarrow> lua_function \<Rightarrow> bus_host \<Rightarrow> (string + unit) \<times> bus_host" where
  "lua_on lib kind fn host =
     (case check_function ''bus.on'' fn of
        Err e \<Rightarrow> (Err e, host)
      | Ok code \<Rightarrow>
          (case ll_load lib code of
             Some e \<Rightarrow> (Err (fmt [''bus.on: handler isle load failed: '', e]), host)
           | None \<Rightarrow>
               (let host = host\<lparr>bh_lua_handlers := (bh_lua_handlers host)(kind \<mapsto> code)\<rparr> in
                case bh_bus host of
                  Some bus \<Rightarrow>
                    (case bus_on kind LuaHandler bus of
                       (Err e, _) \<Rightarrow> (Err (fmt [''bus.on: '', display_block_error e]), host)
                     | (Ok _, bus') \<Rightarrow> (Ok (), host\<lparr>bh_bus := Some bus'\<rparr>))
                | None \<Rightarrow>
                    (Err ''bus.on: bus.serve() has already taken ownership; register handlers before calling bus.serve()'', host))))"

definition lua_on_any :: "lua_lib \<Rightarrow> lua_function \<Rightarrow> bus_host \<Rightarrow> (string + unit) \<times> bus_host" where
  "lua_on_any lib fn host =
     (case check_function ''bus.on_any'' fn of
        Err e \<Rightarrow> (Err e, host)
      | Ok code \<Rightarrow>
          (case ll_load lib code of
             Some e \<Rightarrow> (Err (fmt [''bus.on_any: handler isle load failed: '', e]), host)
           | None \<Rightarrow>
               (let host = host\<lparr>bh_lua_any := Some code\<rparr> in
                case bh_bus host of
                  Some bus \<Rightarrow>
                    (case bus_on_any LuaHandler bus of
                       (Err e, _) \<Rightarrow> (Err (fmt [''bus.on_any: '', display_block_error e]), host)
                     | (Ok _, bus') \<Rightarrow> (Ok (), host\<lparr>bh_bus := Some bus'\<rparr>))
                | None \<Rightarrow>
                    (Err ''bus.on_any: bus.serve() has already taken ownership; register handlers before calling bus.serve()'', host))))"

text \<open>
  \<open>bus.emit\<close>: \<open>payload\<close> is the value already converted (or the conversion's error), \<open>fresh\<close> the
  UUID it draws, \<open>sent\<close> what the channel says.
\<close>

definition lua_emit ::
  "string \<Rightarrow> string + json \<Rightarrow> string option \<Rightarrow> string \<Rightarrow> string + unit \<Rightarrow> (string + unit) \<times> bus_event option" where
  "lua_emit kind payload id_opt fresh sent =
     (case payload of
        Err e \<Rightarrow> (Err e, None)
      | Ok v \<Rightarrow>
          (let eid = (case id_opt of Some i \<Rightarrow> i | None \<Rightarrow> fresh);
               evt = fire_and_forget kind eid v
           in case sent of
                Err e \<Rightarrow> (Err (fmt [''bus.emit: bus channel closed: '', e]), None)
              | Ok _ \<Rightarrow> (Ok (), Some evt)))"

text \<open>
  \<open>bus.serve\<close> up to the loop: the bus it runs, if any. The loop's own result is always \<open>Ok\<close>
  (\<open>EventBus::run\<close>), and a grace window that ran out is one too (\<open>run_with_grace\<close>).
\<close>

definition lua_serve :: "bus_host \<Rightarrow> (string + handler_ref event_bus) \<times> bus_host" where
  "lua_serve host =
     (if bh_serving host then (Err ''bus.serve: already running'', host)
      else
        let host = host\<lparr>bh_serving := True, bh_process_serving := True\<rparr> in
        case bh_bus host of
          Some bus \<Rightarrow> (Ok bus, host\<lparr>bh_bus := None\<rparr>)
        | None \<Rightarrow> (Err ''bus.serve: bus already consumed'', host\<lparr>bh_serving := False\<rparr>))"

section \<open>The Lua handler\<close>

definition lua_route :: "bus_host \<Rightarrow> string \<Rightarrow> string option" where
  "lua_route host kind =
     (case bh_lua_handlers host kind of Some f \<Rightarrow> Some f | None \<Rightarrow> bh_lua_any host)"

definition bus_dispatch_lua :: "lua_lib \<Rightarrow> bus_host \<Rightarrow> string \<Rightarrow> string \<Rightarrow> string \<Rightarrow> string \<Rightarrow> lua_end" where
  "bus_dispatch_lua lib host kind eid payload_json meta_json =
     (case lua_route host kind of
        None \<Rightarrow> LuaRaised (fmt [''no Lua handler for kind `'', kind, ''`''])
      | Some f \<Rightarrow>
          (case ll_decode lib payload_json of
             Err e \<Rightarrow> LuaRaised (fmt [''payload decode: '', e])
           | Ok payload \<Rightarrow>
               (case ll_decode lib meta_json of
                  Err e \<Rightarrow> LuaRaised (fmt [''meta decode: '', e])
                | Ok meta \<Rightarrow> ll_run lib f kind eid payload meta)))"

definition lua_handler_call :: "lua_lib \<Rightarrow> bus_host \<Rightarrow> string \<Rightarrow> string \<Rightarrow> json \<Rightarrow> json \<Rightarrow> ack_result" where
  "lua_handler_call lib host kind eid payload meta =
     (case ll_encode lib payload of
        Err e \<Rightarrow> Err (BE_Bus (fmt [''payload encode: '', e]))
      | Ok p \<Rightarrow>
          (case ll_encode lib meta of
             Err e \<Rightarrow> Err (BE_Bus (fmt [''meta encode: '', e]))
           | Ok m \<Rightarrow>
               (case bus_dispatch_lua lib host kind eid p m of
                  LuaCancelled \<Rightarrow> Err (BE_Bus ''handler cancelled'')
                | LuaShutdown \<Rightarrow> Err (BE_Bus ''isle shut down'')
                | LuaRaised e \<Rightarrow> Err (BE_Bus (fmt [''isle error: '', ll_show lib e]))
                | LuaNil \<Rightarrow> Ok JNull
                | LuaJson s \<Rightarrow> Ok (case ll_parse lib s of Some v \<Rightarrow> v | None \<Rightarrow> JString s))))"

end
