(* ===== verification/Bus_Registration.thy ===== *)
theory Bus_Registration
  imports Bridge_Bus
begin

text \<open>
  Who answers an event. The bus keeps one table and the handler Isle another; together they mean a
  table of targets, which is what a registration is specified on. While the bus has not been taken
  the two agree with the specification; a registration that is refused because it has been taken
  is refused by one table only.
\<close>

section \<open>The specification\<close>

datatype target = Host nat | Script string

record targets =
  tg_kind :: "string \<rightharpoonup> target"
  tg_any :: "target option"

definition spec_target :: "targets \<Rightarrow> string \<Rightarrow> target option" where
  "spec_target t kind = (case tg_kind t kind of Some x \<Rightarrow> Some x | None \<Rightarrow> tg_any t)"

datatype registration = RegOn string lua_function | RegAny lua_function

definition accepted :: "lua_lib \<Rightarrow> lua_function \<Rightarrow> bool" where
  "accepted lib fn \<longleftrightarrow> lf_what fn = ''Lua'' \<and> lf_bytecode fn \<noteq> [] \<and> ll_load lib (lf_bytecode fn) = None"

fun spec_register :: "lua_lib \<Rightarrow> registration \<Rightarrow> targets \<Rightarrow> targets" where
  "spec_register lib (RegOn kind fn) t =
     (if accepted lib fn then t\<lparr>tg_kind := (tg_kind t)(kind \<mapsto> Script (lf_bytecode fn))\<rparr> else t)"
| "spec_register lib (RegAny fn) t =
     (if accepted lib fn then t\<lparr>tg_any := Some (Script (lf_bytecode fn))\<rparr> else t)"

definition spec_setup :: "bus_block_config \<Rightarrow> targets" where
  "spec_setup config =
     \<lparr>tg_kind = (\<lambda>k. map_option Host (map_of (rev (bb_host_handlers config)) k)),
      tg_any = map_option Host (bb_host_handler config)\<rparr>"

section \<open>The two tables\<close>

fun register :: "lua_lib \<Rightarrow> registration \<Rightarrow> bus_host \<Rightarrow> (string + unit) \<times> bus_host" where
  "register lib (RegOn kind fn) host = lua_on lib kind fn host"
| "register lib (RegAny fn) host = lua_on_any lib fn host"

text \<open>Who answers an event of this kind, on this bus and with this handler Isle.\<close>

definition answers :: "handler_ref event_bus \<Rightarrow> bus_host \<Rightarrow> bus_event \<Rightarrow> target option" where
  "answers bus host evt =
     (case handler_for bus evt of
        None \<Rightarrow> None
      | Some (HostHandler h) \<Rightarrow> Some (Host h)
      | Some LuaHandler \<Rightarrow> map_option Script (lua_route host (be_kind evt)))"

fun ref_of :: "target \<Rightarrow> handler_ref" where
  "ref_of (Host h) = HostHandler h"
| "ref_of (Script f) = LuaHandler"

definition agrees :: "handler_ref event_bus \<Rightarrow> bus_host \<Rightarrow> targets \<Rightarrow> bool" where
  "agrees bus host t \<longleftrightarrow>
     (\<forall>k. eb_handlers bus k = map_option ref_of (tg_kind t k))
   \<and> eb_any bus = map_option ref_of (tg_any t)
   \<and> (\<forall>k f. bh_lua_handlers host k = Some f \<longleftrightarrow> tg_kind t k = Some (Script f))
   \<and> (\<forall>f. bh_lua_any host = Some f \<longleftrightarrow> tg_any t = Some (Script f))"

lemma agrees_answers:
  assumes "agrees bus host t"
  shows "answers bus host evt = spec_target t (be_kind evt)"
proof (cases "tg_kind t (be_kind evt)")
  case None
  moreover from this have "bh_lua_handlers host (be_kind evt) = None"
    using assms by (metis agrees_def not_Some_eq option.distinct(1))
  ultimately show ?thesis
    using assms by (cases "tg_any t"; cases "the (tg_any t)")
      (simp_all add: agrees_def answers_def handler_for_def lua_route_def spec_target_def)
next
  case (Some x)
  then have "handler_for bus evt = Some (ref_of x)"
    using assms by (simp add: agrees_def handler_for_def)
  moreover have "lua_route host (be_kind evt) = Some f" if "x = Script f" for f
  proof -
    have "bh_lua_handlers host (be_kind evt) = Some f" using assms Some that by (simp add: agrees_def)
    then show ?thesis by (simp add: lua_route_def)
  qed
  ultimately show ?thesis using Some by (cases x) (simp_all add: answers_def spec_target_def)
qed

lemma check_function_accepted:
  "accepted lib fn \<longleftrightarrow> check_function api fn = Ok (lf_bytecode fn) \<and> ll_load lib (lf_bytecode fn) = None"
  by (auto simp: accepted_def check_function_def)

lemma check_function_Ok: "check_function api fn = Ok code \<Longrightarrow> code = lf_bytecode fn"
  by (simp add: check_function_def split: if_splits)

lemma register_agrees:
  assumes "bh_bus host = Some bus" and "\<not> eb_running bus" and "agrees bus host t"
  obtains bus' where "bh_bus (snd (register lib r host)) = Some bus'" "\<not> eb_running bus'"
    "agrees bus' (snd (register lib r host)) (spec_register lib r t)"
    "isl (fst (register lib r host)) \<longleftrightarrow> \<not> accepted lib (case r of RegOn _ fn \<Rightarrow> fn | RegAny fn \<Rightarrow> fn)"
proof (cases r)
  case (RegOn kind fn)
  show ?thesis
  proof (cases "accepted lib fn")
    case True
    with RegOn assms show ?thesis
      by (intro that [of "bus\<lparr>eb_handlers := (eb_handlers bus)(kind \<mapsto> LuaHandler)\<rparr>"])
        (auto simp: check_function_accepted [of _ _ "''bus.on''"] lua_on_def bus_on_def agrees_def Let_def)
  next
    case False
    with RegOn assms show ?thesis
      by (intro that [of bus])
        (auto simp: check_function_accepted [of _ _ "''bus.on''"] lua_on_def split: sum.splits option.splits
          dest: check_function_Ok)
  qed
next
  case (RegAny fn)
  show ?thesis
  proof (cases "accepted lib fn")
    case True
    with RegAny assms show ?thesis
      by (intro that [of "bus\<lparr>eb_any := Some LuaHandler\<rparr>"])
        (auto simp: check_function_accepted [of _ _ "''bus.on_any''"] lua_on_any_def bus_on_any_def agrees_def Let_def)
  next
    case False
    with RegAny assms show ?thesis
      by (intro that [of bus])
        (auto simp: check_function_accepted [of _ _ "''bus.on_any''"] lua_on_any_def split: sum.splits option.splits
          dest: check_function_Ok)
  qed
qed

lemma registers_agree:
  assumes "bh_bus host = Some bus" and "\<not> eb_running bus" and "agrees bus host t"
  obtains bus' where "bh_bus (fold (\<lambda>r h. snd (register lib r h)) rs host) = Some bus'" "\<not> eb_running bus'"
    "agrees bus' (fold (\<lambda>r h. snd (register lib r h)) rs host) (fold (spec_register lib) rs t)"
  using assms
proof (induction rs arbitrary: host bus t thesis)
  case (Cons r rs)
  obtain bus1 where "bh_bus (snd (register lib r host)) = Some bus1" "\<not> eb_running bus1"
    "agrees bus1 (snd (register lib r host)) (spec_register lib r t)"
    using register_agrees [OF Cons.prems(2-4), of lib r] by blast
  from Cons.IH [OF _ this] obtain bus' where
    "bh_bus (fold (\<lambda>r h. snd (register lib r h)) rs (snd (register lib r host))) = Some bus'" "\<not> eb_running bus'"
    "agrees bus' (fold (\<lambda>r h. snd (register lib r h)) rs (snd (register lib r host)))
       (fold (spec_register lib) rs (spec_register lib r t))"
    by blast
  then show ?case by (intro Cons.prems(1)) simp_all
qed simp

section \<open>What the host installs first\<close>

lemma install_handlers_table:
  "\<not> eb_running bus \<Longrightarrow> install_handlers hs bus =
     Ok (bus\<lparr>eb_handlers := eb_handlers bus ++ (\<lambda>k. map_option HostHandler (map_of (rev hs) k))\<rparr>)"
proof (induction hs arbitrary: bus)
  case (Cons kh hs)
  obtain k h where "kh = (k, h)" by (cases kh)
  with Cons show ?case
    by (auto simp: bus_on_def map_add_def fun_eq_iff split: option.splits)
qed (simp add: map_add_def)

lemma setup_table:
  assumes "setup_event_bus channel_ok env config = Ok (SetUp host running cap)"
  shows "\<exists>bus. (bh_bus host = Some bus \<and> running = None \<or> bh_bus host = None \<and> running = Some bus)
    \<and> \<not> eb_running bus \<and> agrees bus host (spec_setup config)"
proof -
  have *: "ref_of \<circ> Host = HostHandler" by (simp add: fun_eq_iff)
  show ?thesis
    using assms
    by (cases "bb_host_handler config")
      (auto simp: setup_event_bus_def install_handlers_table bus_new_def install_any_def bus_on_any_def Let_def
        agrees_def spec_setup_def option.map_comp * split: if_splits)
qed

lemma register_serving: "bh_serving (snd (register lib r host)) = bh_serving host"
  by (cases r) (auto simp: lua_on_def lua_on_any_def Let_def split: sum.splits option.splits prod.splits)

lemma registers_serving: "bh_serving (fold (\<lambda>r h. snd (register lib r h)) rs host) = bh_serving host"
  by (induction rs arbitrary: host) (simp_all add: register_serving)

lemma setup_serving: "setup_event_bus channel_ok env config = Ok (SetUp host running cap) \<Longrightarrow> \<not> bh_serving host"
  by (auto simp: setup_event_bus_def Let_def and_then_Ok_iff split: if_splits)

section \<open>Registration means what it says\<close>

text \<open>
  C15: whatever the host installed and whatever a script registers before the bus is served, in
  whatever order and with refused registrations in between, the bus that \<open>bus.serve\<close> takes sends
  each event to exactly the target the registrations name: the last accepted function for its kind,
  else the host's handler for the kind, else the last accepted fallback, else the host's; an
  event sent to the Lua handler always finds its function. Serving again is refused.
\<close>

theorem registrations_refine:
  assumes "setup_event_bus channel_ok env config = Ok (SetUp host None cap)"
    and "lua_serve (fold (\<lambda>r h. snd (register lib r h)) rs host) = (res, host')"
  shows "\<exists>bus. res = Ok bus
     \<and> answers bus host' evt = spec_target (fold (spec_register lib) rs (spec_setup config)) (be_kind evt)
     \<and> (handler_for bus evt = Some LuaHandler \<longrightarrow> lua_route host' (be_kind evt) \<noteq> None)
     \<and> lua_serve host' = (Err ''bus.serve: already running'', host')"
proof -
  have idle: "\<not> bh_serving (fold (\<lambda>r h. snd (register lib r h)) rs host)"
    using registers_serving [of lib rs host] setup_serving [OF assms(1)] by simp
  from setup_table [OF assms(1)] obtain bus0 where
    "bh_bus host = Some bus0" "\<not> eb_running bus0" "agrees bus0 host (spec_setup config)" by auto
  then obtain bus where bus: "bh_bus (fold (\<lambda>r h. snd (register lib r h)) rs host) = Some bus"
    and agree: "agrees bus (fold (\<lambda>r h. snd (register lib r h)) rs host) (fold (spec_register lib) rs (spec_setup config))"
    using registers_agree [of host bus0 "spec_setup config" lib rs] by blast
  have served: "res = Ok bus" "bh_serving host'"
    and same: "bh_lua_handlers host' = bh_lua_handlers (fold (\<lambda>r h. snd (register lib r h)) rs host)"
      "bh_lua_any host' = bh_lua_any (fold (\<lambda>r h. snd (register lib r h)) rs host)"
    using assms(2) idle bus by (auto simp: lua_serve_def Let_def)
  have agree': "agrees bus host' (fold (spec_register lib) rs (spec_setup config))"
    using agree by (simp add: agrees_def same)
  have "lua_route host' (be_kind evt) \<noteq> None" if "handler_for bus evt = Some LuaHandler"
  proof
    assume "lua_route host' (be_kind evt) = None"
    with that have "answers bus host' evt = None" by (simp add: answers_def)
    then have "spec_target (fold (spec_register lib) rs (spec_setup config)) (be_kind evt) = None"
      using agrees_answers [OF agree'] by simp
    with agree' that show False
      by (auto simp: agrees_def handler_for_def spec_target_def split: option.splits)
  qed
  with served agrees_answers [OF agree'] show ?thesis by (auto simp: lua_serve_def)
qed

definition demo_lua :: lua_lib where
  "demo_lua = \<lparr>ll_load = (\<lambda>_. None), ll_decode = (\<lambda>_. Ok JNull), ll_run = (\<lambda>_ _ _ _ _. LuaNil),
     ll_encode = (\<lambda>_. Ok ''null''), ll_parse = (\<lambda>_. None), ll_show = id\<rparr>"

definition demo_block :: bus_block_config where
  "demo_block = \<lparr>bb_host_handlers = [(''mesh'', 1)], bb_host_handler = None, bb_auto_serve = False\<rparr>"

definition demo_function :: "string \<Rightarrow> lua_function" where
  "demo_function code = \<lparr>lf_what = ''Lua'', lf_bytecode = code\<rparr>"

definition demo_bus_host :: bus_host where
  "demo_bus_host = \<lparr>bh_bus = Some \<lparr>eb_handlers = [''mesh'' \<mapsto> HostHandler 1], eb_any = None, eb_running = False\<rparr>,
     bh_lua_handlers = Map.empty, bh_lua_any = None, bh_serving = False, bh_process_serving = False\<rparr>"

lemma demo_setup: "setup_event_bus (\<lambda>n. 0 < n) Map.empty demo_block = Ok (SetUp demo_bus_host None 64)"
  by (simp add: setup_event_bus_def demo_block_def demo_bus_host_def bus_capacity_def env_var_def bus_on_def
      bus_new_def install_any_def)

theorem registrations_refine_witness:
  "\<exists>bus host'. lua_serve (fold (\<lambda>r h. snd (register demo_lua r h))
       [RegOn ''http'' (demo_function ''old''), RegOn ''http'' (demo_function ''new''), RegOn ''x'' (demo_function [])] demo_bus_host)
       = (Ok bus, host')
     \<and> answers bus host' (fire_and_forget ''http'' ''e'' JNull) = Some (Script ''new'')"
proof -
  let ?rs = "[RegOn ''http'' (demo_function ''old''), RegOn ''http'' (demo_function ''new''), RegOn ''x'' (demo_function [])]"
  obtain res host' where served: "lua_serve (fold (\<lambda>r h. snd (register demo_lua r h)) ?rs demo_bus_host) = (res, host')"
    by (cases "lua_serve (fold (\<lambda>r h. snd (register demo_lua r h)) ?rs demo_bus_host)")
  have "spec_target (fold (spec_register demo_lua) ?rs (spec_setup demo_block)) ''http'' = Some (Script ''new'')"
    by (simp add: accepted_def demo_function_def demo_lua_def spec_target_def)
  with registrations_refine [OF demo_setup served, of "fire_and_forget ''http'' ''e'' JNull"] served show ?thesis
    by (auto simp: fire_and_forget_def)
qed

section \<open>A late registration\<close>

text \<open>
  Once the bus has been taken, \<open>bus.on\<close> refuses an acceptable function for a kind the bus sends
  to the Lua handler (its own or the fallback's), and from then on events of that kind run the
  refused function.
\<close>

theorem late_registration_takes_effect:
  assumes "accepted lib fn" and "bh_bus host = None" and "be_kind evt = kind"
    and "handler_for bus evt = Some LuaHandler"
  shows "isl (fst (lua_on lib kind fn host))
    \<and> answers bus (snd (lua_on lib kind fn host)) evt = Some (Script (lf_bytecode fn))"
  using assms check_function_accepted [of lib fn "''bus.on''"]
  by (auto simp: lua_on_def answers_def lua_route_def)

theorem late_registration_takes_effect_witness:
  "let host = snd (lua_serve (snd (lua_on demo_lua ''http'' (demo_function ''old'') demo_bus_host)));
       bus = \<lparr>eb_handlers = [''http'' \<mapsto> LuaHandler], eb_any = None, eb_running = True\<rparr>
   in isl (fst (lua_on demo_lua ''http'' (demo_function ''late'') host))
    \<and> answers bus (snd (lua_on demo_lua ''http'' (demo_function ''late'') host)) (fire_and_forget ''http'' ''e'' JNull)
        = Some (Script ''late'')"
proof -
  have "accepted demo_lua (demo_function ''late'')" by (simp add: accepted_def demo_function_def demo_lua_def)
  moreover have "bh_bus (snd (lua_serve (snd (lua_on demo_lua ''http'' (demo_function ''old'') demo_bus_host)))) = None"
    by (simp add: lua_on_def check_function_def demo_function_def demo_lua_def demo_bus_host_def bus_on_def lua_serve_def)
  moreover have "be_kind (fire_and_forget ''http'' ''e'' JNull) = ''http''" by (simp add: fire_and_forget_def)
  moreover have "handler_for \<lparr>eb_handlers = [''http'' \<mapsto> LuaHandler], eb_any = None, eb_running = True\<rparr>
      (fire_and_forget ''http'' ''e'' JNull) = Some LuaHandler"
    by (simp add: handler_for_def fire_and_forget_def)
  ultimately have "isl (fst (lua_on demo_lua ''http'' (demo_function ''late'')
        (snd (lua_serve (snd (lua_on demo_lua ''http'' (demo_function ''old'') demo_bus_host))))))
    \<and> answers \<lparr>eb_handlers = [''http'' \<mapsto> LuaHandler], eb_any = None, eb_running = True\<rparr>
        (snd (lua_on demo_lua ''http'' (demo_function ''late'')
          (snd (lua_serve (snd (lua_on demo_lua ''http'' (demo_function ''old'') demo_bus_host))))))
        (fire_and_forget ''http'' ''e'' JNull) = Some (Script (lf_bytecode (demo_function ''late'')))"
    by (rule late_registration_takes_effect)
  then show ?thesis by (simp add: Let_def demo_function_def)
qed

end
