(* ===== verification/Lua_Json.thy ===== *)
theory Lua_Json
  imports Strings "HOL-Library.Multiset"
begin

text \<open>
  The Lua and JSON value bridge, \<open>lua_json.rs\<close> of the MCP crate. A Lua table is its metatable and
  its entries, listed in the order \<open>pairs\<close> visits them. Two things about tables are the Lua VM's
  and not the source's: which border \<open>raw_len\<close> reports and in which order a table built by
  assignments is visited. They are the parameter \<open>lua_vm\<close>, with what the Lua manual says of
  them as \<open>vm_laws\<close>; so is the text of a float used as a key.
\<close>

section \<open>Lua values\<close>

datatype lua_float = Finite f64 | NotFinite string

datatype lua =
    LNil
  | LNull
  | LBool bool
  | LInt int
  | LNum lua_float
  | LStr string
  | LTable lua_meta "(lua \<times> lua) list"
  | LOther string
and lua_meta = NoMeta | Meta (jsontype: "lua option") (mlua_array: bool)

datatype lua_error = External string | NotUtf8

record lua_vm =
  vm_border :: "(lua \<times> lua) list \<Rightarrow> nat"
  vm_visit :: "(lua \<times> lua) list \<Rightarrow> (lua \<times> lua) list"
  vm_show :: "lua_float \<Rightarrow> string"

text \<open>
  A border is zero or the index of an element, with no element after it; the visiting order is some
  order of the entries; the text of a number is ASCII.
\<close>

definition raw_get :: "(lua \<times> lua) list \<Rightarrow> lua \<Rightarrow> lua" where
  "raw_get es k = (case map_of es k of Some v \<Rightarrow> v | None \<Rightarrow> LNil)"

definition vm_laws :: "lua_vm \<Rightarrow> bool" where
  "vm_laws vm \<longleftrightarrow>
     (\<forall>es. (vm_border vm es = 0 \<or> raw_get es (LInt (int (vm_border vm es))) \<noteq> LNil)
         \<and> raw_get es (LInt (int (vm_border vm es) + 1)) = LNil)
   \<and> (\<forall>es. mset (vm_visit vm es) = mset es)
   \<and> (\<forall>x. list_all (byte_in 0 127) (vm_show vm x))"

definition max_depth :: nat where
  "max_depth = 128"

section \<open>From Lua\<close>

definition to_str :: "string \<Rightarrow> lua_error + string" where
  "to_str s = (if valid_utf8 s then Ok s else Err NotUtf8)"

definition is_tagged_array :: "lua_meta \<Rightarrow> lua_error + bool" where
  "is_tagged_array mt =
     (case mt of
        NoMeta \<Rightarrow> Ok False
      | Meta tag mlua \<Rightarrow>
          (case tag of
             Some (LStr kind) \<Rightarrow>
               and_then (to_str kind) (\<lambda>k. if k = ''array'' then Ok True else Ok mlua)
           | _ \<Rightarrow> Ok mlua))"

fun type_name :: "lua \<Rightarrow> string" where
  "type_name LNil = ''nil''"
| "type_name LNull = ''lightuserdata''"
| "type_name (LBool b) = ''boolean''"
| "type_name (LInt i) = ''integer''"
| "type_name (LNum x) = ''number''"
| "type_name (LStr s) = ''string''"
| "type_name (LTable m es) = ''table''"
| "type_name (LOther t) = t"

definition json_key :: "lua_vm \<Rightarrow> lua \<Rightarrow> lua_error + string" where
  "json_key vm k =
     (case k of
        LStr s \<Rightarrow> to_str s
      | LInt i \<Rightarrow> Ok (string_of_int i)
      | LNum n \<Rightarrow> Ok (vm_show vm n)
      | _ \<Rightarrow> Err (External (fmt [''unsupported table key type for JSON: '', type_name k])))"

text \<open>The elements at 1 to \<open>len\<close>, and an object's entries one by one, stopping at the first failure.\<close>

fun object_entries ::
  "(lua \<Rightarrow> lua_error + string) \<Rightarrow> (lua \<Rightarrow> lua_error + json) \<Rightarrow> (lua \<times> lua) list \<Rightarrow> json_map \<Rightarrow> lua_error + json_map" where
  "object_entries key val [] m = Ok m"
| "object_entries key val ((k, v) # es) m =
     and_then (key k) (\<lambda>name. and_then (val v) (\<lambda>j. object_entries key val es (map_insert name j m)))"

definition too_deep_lua :: lua_error where
  "too_deep_lua = External (fmt [''Lua table nesting too deep for JSON (limit: '', string_of_nat max_depth, '')''])"

definition not_a_number :: "string \<Rightarrow> lua_error" where
  "not_a_number s = External (fmt [''cannot convert '', s, '' to JSON number''])"

definition unsupported :: "string \<Rightarrow> lua_error" where
  "unsupported t = External (fmt [''unsupported type for JSON conversion: '', t])"

function lua_to_json_inner :: "lua_vm \<Rightarrow> lua \<Rightarrow> nat \<Rightarrow> lua_error + json" where
  "lua_to_json_inner vm val depth =
     (if max_depth < depth
      then Err too_deep_lua
      else case val of
        LNil \<Rightarrow> Ok JNull
      | LNull \<Rightarrow> Ok JNull
      | LBool b \<Rightarrow> Ok (JBool b)
      | LInt i \<Rightarrow> Ok (json_of_i64 i)
      | LNum n \<Rightarrow>
          (case n of
             Finite x \<Rightarrow> Ok (JNumber (Float x))
           | NotFinite s \<Rightarrow> Err (not_a_number s))
      | LStr s \<Rightarrow> and_then (to_str s) (\<lambda>t. Ok (JString t))
      | LTable mt es \<Rightarrow>
          (let len = vm_border vm es in
           and_then (if 0 < len then Ok True else is_tagged_array mt) (\<lambda>arr.
             if arr
             then and_then (collect_results (\<lambda>i. lua_to_json_inner vm (raw_get es (LInt (int i))) (depth + 1)) [1 ..< Suc len])
                    (\<lambda>vs. Ok (JArray vs))
             else and_then (object_entries (json_key vm) (\<lambda>v. lua_to_json_inner vm v (depth + 1)) es [])
                    (\<lambda>m. Ok (JObject m))))
      | LOther t \<Rightarrow> Err (unsupported (type_name val)))"
  by pat_completeness (elim Pair_inject, simp only:)
termination
  by (relation "measure (\<lambda>(vm, val, depth). Suc max_depth - depth)") simp_all

declare lua_to_json_inner.simps [simp del]

definition lua_to_json :: "lua_vm \<Rightarrow> lua \<Rightarrow> lua_error + json" where
  "lua_to_json vm val = lua_to_json_inner vm val 0"

section \<open>From JSON\<close>

definition array_metatable :: lua_meta where
  "array_metatable = Meta (Some (LStr ''array'')) False"

text \<open>
  Every number of this build is an \<open>i64\<close> or has an \<open>f64\<close> (\<open>as_f64\<close> is never \<open>None\<close> on one), so the
  third branch of the source, an error, is not reached; its value here does not matter.
\<close>

definition number_to_lua :: "json_number \<Rightarrow> lua" where
  "number_to_lua n =
     (case as_i64 (JNumber n) of
        Some i \<Rightarrow> LInt i
      | None \<Rightarrow> LNum (Finite (case as_f64 (JNumber n) of Some x \<Rightarrow> x | None \<Rightarrow> F64 0 0)))"

definition too_deep_json :: lua_error where
  "too_deep_json = External (fmt [''JSON nesting too deep (limit: '', string_of_nat max_depth, '')''])"

function json_to_lua_inner :: "lua_vm \<Rightarrow> json \<Rightarrow> nat \<Rightarrow> lua_error + lua" where
  "json_to_lua_inner vm val depth =
     (if max_depth < depth
      then Err too_deep_json
      else case val of
        JNull \<Rightarrow> Ok LNull
      | JBool b \<Rightarrow> Ok (LBool b)
      | JNumber n \<Rightarrow> Ok (number_to_lua n)
      | JString s \<Rightarrow> Ok (LStr s)
      | JArray arr \<Rightarrow>
          and_then (collect_results (\<lambda>v. json_to_lua_inner vm v (depth + 1)) arr) (\<lambda>vs.
            Ok (LTable (if arr = [] then array_metatable else NoMeta)
                  (vm_visit vm (zip (map (\<lambda>i. LInt (int i)) [1 ..< Suc (length vs)]) vs))))
      | JObject m \<Rightarrow>
          and_then (collect_results (\<lambda>kv. json_to_lua_inner vm (snd kv) (depth + 1)) m) (\<lambda>vs.
            Ok (LTable NoMeta (vm_visit vm (zip (map (\<lambda>kv. LStr (fst kv)) m) vs)))))"
  by pat_completeness (elim Pair_inject, simp only:)
termination
  by (relation "measure (\<lambda>(vm, val, depth). Suc max_depth - depth)") simp_all

declare json_to_lua_inner.simps [simp del]

definition json_to_lua :: "lua_vm \<Rightarrow> json \<Rightarrow> lua_error + lua" where
  "json_to_lua vm val = json_to_lua_inner vm val 0"

end
