(* ===== verification/Lua_Json_Properties.thy ===== *)
theory Lua_Json_Properties
  imports Lua_Json
begin

text \<open>
  What survives the crossing: a JSON value in the bridge's range comes back from Lua as it was, on
  every VM that keeps the laws of tables, and every JSON value that came from Lua is in that range.
\<close>

section \<open>The range of the bridge\<close>

fun nesting :: "json \<Rightarrow> nat" where
  "nesting (JArray vs) = foldr (\<lambda>v n. max (Suc (nesting v)) n) vs 0"
| "nesting (JObject m) = foldr (\<lambda>kv n. max (Suc (nesting (snd kv))) n) m 0"
| "nesting _ = 0"

fun number_crosses :: "json_number \<Rightarrow> bool" where
  "number_crosses (PosInt n) = (int n \<le> i64_max)"
| "number_crosses (NegInt i) = (i64_min \<le> i \<and> i < 0)"
| "number_crosses (Float x) = True"

fun crossable :: "json \<Rightarrow> bool" where
  "crossable (JNumber n) = number_crosses n"
| "crossable (JString s) = valid_utf8 s"
| "crossable (JArray vs) = (\<forall>v \<in> set vs. crossable v)"
| "crossable (JObject m) = (ordered m \<and> (\<forall>kv \<in> set m. valid_utf8 (fst kv) \<and> crossable (snd kv)))"
| "crossable _ = True"

lemma foldr_max_le:
  "foldr (\<lambda>v n. max (Suc (f v)) n) vs 0 + d \<le> D \<Longrightarrow> v \<in> set vs \<Longrightarrow> f v + Suc d \<le> (D :: nat)"
  by (induction vs) auto

lemma foldr_max_leI:
  "d \<le> D \<Longrightarrow> (\<And>v. v \<in> set vs \<Longrightarrow> f v + Suc d \<le> D) \<Longrightarrow> foldr (\<lambda>v n. max (Suc (f v)) n) vs 0 + d \<le> (D :: nat)"
  by (induction vs) (auto simp: max_def)

section \<open>Tables\<close>

lemma visit_map_of:
  assumes "vm_laws vm" and "distinct (map fst es)"
  shows "map_of (vm_visit vm es) = map_of es" and "set (vm_visit vm es) = set es"
    and "distinct (map fst (vm_visit vm es))"
proof -
  have m: "mset (vm_visit vm es) = mset es" using assms(1) by (simp add: vm_laws_def)
  then show s: "set (vm_visit vm es) = set es" by (rule mset_eq_setD)
  have "mset (map fst (vm_visit vm es)) = mset (map fst es)" using m by simp
  from mset_eq_imp_distinct_iff [OF this] show d: "distinct (map fst (vm_visit vm es))" using assms(2) by blast
  show "map_of (vm_visit vm es) = map_of es"
    using map_of_inject_set [OF d assms(2)] s by simp
qed

text \<open>A sequence has one border, and a table with no element at 1 has the border zero.\<close>

lemma border_sequence:
  assumes "vm_laws vm" and "\<And>i. 0 < i \<Longrightarrow> raw_get es (LInt (int i)) \<noteq> LNil \<longleftrightarrow> i \<le> n"
  shows "vm_border vm es = n"
proof -
  let ?b = "vm_border vm es"
  have b: "?b = 0 \<or> raw_get es (LInt (int ?b)) \<noteq> LNil" "raw_get es (LInt (int (Suc ?b))) = LNil"
    using assms(1) by (auto simp: vm_laws_def add.commute)
  have "?b \<le> n" using b(1) assms(2) [of ?b] by (cases "?b = 0") auto
  moreover have "\<not> Suc ?b \<le> n" using b(2) assms(2) [of "Suc ?b"] by simp
  ultimately show ?thesis by simp
qed

text \<open>The table of an array.\<close>

definition seq_entries :: "lua list \<Rightarrow> (lua \<times> lua) list" where
  "seq_entries vs = zip (map (\<lambda>i. LInt (int i)) [1 ..< Suc (length vs)]) vs"

lemma seq_entries_get: "map_of (seq_entries vs) (LInt (int i)) = (if 0 < i \<and> i \<le> length vs then Some (vs ! (i - 1)) else None)"
proof -
  have "map_of (zip (map (\<lambda>i. LInt (int i)) [k ..< k + length vs]) vs) (LInt (int i)) =
      (if k \<le> i \<and> i < k + length vs then Some (vs ! (i - k)) else None)" for k
  proof (induction vs arbitrary: k)
    case (Cons v vs)
    from Cons [of "Suc k"] show ?case
      by (auto simp: upt_rec [of k] nth_Cons split: nat.splits) (metis Suc_diff_Suc Suc_le_eq diff_Suc_Suc le_neq_implies_less nat.inject)
  qed simp
  from this [of 1] show ?thesis unfolding seq_entries_def by auto
qed

lemma seq_entries_distinct: "distinct (map fst (seq_entries vs))"
proof -
  have "map fst (seq_entries vs) = map (\<lambda>i. LInt (int i)) [1 ..< Suc (length vs)]"
    by (simp add: seq_entries_def map_fst_zip del: upt_Suc)
  then show ?thesis by (simp add: distinct_map inj_on_def del: upt_Suc)
qed

lemma raw_get_seq:
  assumes "vm_laws vm"
  shows "raw_get (vm_visit vm (seq_entries vs)) (LInt (int i)) = (if 0 < i \<and> i \<le> length vs then vs ! (i - 1) else LNil)"
  using visit_map_of(1) [OF assms seq_entries_distinct] by (simp add: raw_get_def seq_entries_get)

lemma border_seq:
  assumes "vm_laws vm" and "LNil \<notin> set vs"
  shows "vm_border vm (vm_visit vm (seq_entries vs)) = length vs"
proof (rule border_sequence [OF assms(1)])
  fix i :: nat assume "0 < i"
  moreover have "vs ! (i - 1) \<noteq> LNil" if "0 < i" "i \<le> length vs"
    using that assms(2) nth_mem [of "i - 1" vs] by (metis Suc_diff_1 Suc_le_lessD)
  ultimately show "raw_get (vm_visit vm (seq_entries vs)) (LInt (int i)) \<noteq> LNil \<longleftrightarrow> i \<le> length vs"
    by (simp add: raw_get_seq [OF assms(1)])
qed

text \<open>The table of an object.\<close>

definition obj_entries :: "(json \<Rightarrow> lua) \<Rightarrow> json_map \<Rightarrow> (lua \<times> lua) list" where
  "obj_entries f m = map (\<lambda>kv. (LStr (fst kv), f (snd kv))) m"

lemma ordered_distinct: "ordered m \<Longrightarrow> distinct (map fst m)"
  by (simp add: ordered_def strict_sorted_iff)

lemma obj_entries_distinct: "ordered m \<Longrightarrow> distinct (map fst (obj_entries f m))"
  using ordered_distinct [of m] by (auto simp: obj_entries_def distinct_map comp_def inj_on_def)

lemma border_obj:
  assumes "vm_laws vm" and "ordered m"
  shows "vm_border vm (vm_visit vm (obj_entries f m)) = 0"
proof (rule border_sequence [OF assms(1)])
  fix i :: nat assume "0 < i"
  have "map_of (obj_entries f m) (LInt (int i)) = None" by (auto simp: map_of_eq_None_iff obj_entries_def)
  then show "raw_get (vm_visit vm (obj_entries f m)) (LInt (int i)) \<noteq> LNil \<longleftrightarrow> i \<le> 0"
    using \<open>0 < i\<close> visit_map_of(1) [OF assms(1) obj_entries_distinct [OF assms(2)]] by (simp add: raw_get_def)
qed

lemma map_of_fold_insert:
  "map_of (fold (\<lambda>(k, v). map_insert k v) kvs m) = map_of m ++ map_of (rev kvs)"
  by (induction kvs arbitrary: m) (auto simp: map_of_map_insert fun_eq_iff map_add_def split: option.splits)

lemma ordered_fold_insert: "ordered m \<Longrightarrow> ordered (fold (\<lambda>(k, v). map_insert k v) kvs m)"
  by (induction kvs arbitrary: m) auto

lemma fold_insert_permuted:
  assumes "ordered m" and "mset kvs = mset m"
  shows "fold (\<lambda>(k, v). map_insert k v) kvs [] = m"
proof (rule map_eqI)
  have "mset (map fst kvs) = mset (map fst m)" using assms(2) by simp
  from mset_eq_imp_distinct_iff [OF this] have d: "distinct (map fst kvs)" using ordered_distinct [OF assms(1)] by blast
  have "map_of (rev kvs) = map_of m"
    using map_of_inject_set [of "rev kvs" m] d ordered_distinct [OF assms(1)] mset_eq_setD [OF assms(2)]
    by (simp add: rev_map [symmetric])
  then show "map_get (fold (\<lambda>(k, v). map_insert k v) kvs []) k = map_get m k" for k
    by (simp add: map_get_def map_of_fold_insert)
qed (simp_all add: ordered_fold_insert assms(1))

lemma object_entries_Ok:
  "(\<And>k v. (k, v) \<in> set es \<Longrightarrow> key k = Ok (g k) \<and> val v = Ok (h v)) \<Longrightarrow>
    object_entries key val es m = Ok (fold (\<lambda>(k, v). map_insert k v) (map (\<lambda>(k, v). (g k, h v)) es) m)"
proof (induction es arbitrary: m)
  case (Cons kv es)
  obtain k v where kv: "kv = (k, v)" by (cases kv)
  have "key k = Ok (g k)" "val v = Ok (h v)" using Cons.prems [of k v] by (simp_all add: kv)
  with Cons.IH [OF Cons.prems, of "map_insert (g k) (h v) m"] show ?case by (simp add: kv)
qed simp

lemma object_entries_back:
  assumes "vm_laws vm" and "ordered m"
    and returns: "\<And>kv. kv \<in> set m \<Longrightarrow> valid_utf8 (fst kv) \<and> val (f (snd kv)) = Ok (snd kv)"
  shows "object_entries (json_key vm) val (vm_visit vm (obj_entries f m)) [] = Ok m"
proof -
  let ?es = "vm_visit vm (obj_entries f m)"
  let ?g = "\<lambda>k. projr (json_key vm k)"
  let ?h = "\<lambda>v. projr (val v)"
  have "json_key vm k = Ok (?g k) \<and> val v = Ok (?h v)" if "(k, v) \<in> set ?es" for k v
    using that visit_map_of(2) [OF assms(1) obj_entries_distinct [OF assms(2)]] returns
    by (auto simp: obj_entries_def json_key_def to_str_def)
  then have "object_entries (json_key vm) val ?es [] = Ok (fold (\<lambda>(k, v). map_insert k v) (map (\<lambda>(k, v). (?g k, ?h v)) ?es) [])"
    by (rule object_entries_Ok)
  moreover have "mset (map (\<lambda>(k, v). (?g k, ?h v)) ?es) = mset m"
  proof -
    have "mset ?es = mset (obj_entries f m)" using assms(1) by (simp add: vm_laws_def)
    then have "mset (map (\<lambda>(k, v). (?g k, ?h v)) ?es) = mset (map (\<lambda>(k, v). (?g k, ?h v)) (obj_entries f m))" by simp
    moreover have "map (\<lambda>(k, v). (?g k, ?h v)) (obj_entries f m) = m"
      using returns by (auto simp: obj_entries_def json_key_def to_str_def intro: map_idI)
    ultimately show ?thesis by simp
  qed
  ultimately show ?thesis using fold_insert_permuted [OF assms(2)] by simp
qed

section \<open>There and back\<close>

lemma number_back:
  assumes "number_crosses n" and "d \<le> max_depth"
  shows "lua_to_json_inner vm (number_to_lua n) d = Ok (JNumber n)"
  using assms by (cases n) (auto simp: number_to_lua_def lua_to_json_inner.simps json_of_i64_def)

lemma tagged_array: "is_tagged_array array_metatable = Ok True"
proof -
  have "valid_utf8 ''array''" by code_simp
  then show ?thesis by (simp add: array_metatable_def is_tagged_array_def to_str_def)
qed

lemma there_and_back:
  assumes "vm_laws vm"
  shows "crossable j \<Longrightarrow> nesting j + d \<le> max_depth \<Longrightarrow>
    \<exists>l. json_to_lua_inner vm j d = Ok l \<and> l \<noteq> LNil \<and> lua_to_json_inner vm l d = Ok j"
proof (induction j arbitrary: d)
  case (JNumber n)
  then show ?case using number_back [of n d vm]
    by (auto simp: json_to_lua_inner.simps number_to_lua_def split: option.splits)
next
  case (JString s)
  then show ?case by (auto simp: json_to_lua_inner.simps lua_to_json_inner.simps to_str_def)
next
  case (JArray vs)
  define f where "f = (\<lambda>v. projr (json_to_lua_inner vm v (d + 1)))"
  have each: "json_to_lua_inner vm v (d + 1) = Ok (f v) \<and> f v \<noteq> LNil \<and> lua_to_json_inner vm (f v) (d + 1) = Ok v"
    if "v \<in> set vs" for v
  proof -
    have "crossable v" "nesting v + (d + 1) \<le> max_depth"
      using JArray.prems that foldr_max_le [of nesting vs d max_depth v] by auto
    from JArray.IH [OF that this] show ?thesis unfolding f_def by auto
  qed
  have d: "\<not> max_depth < d" using JArray.prems(2) by simp
  have there: "collect_results (\<lambda>v. json_to_lua_inner vm v (d + 1)) vs = Ok (map f vs)"
    using each by (intro collect_results_Ok) blast
  let ?es = "vm_visit vm (seq_entries (map f vs))"
  have border: "vm_border vm ?es = length vs"
    using border_seq [OF assms, of "map f vs"] each by force
  have returns: "collect_results (\<lambda>i. lua_to_json_inner vm (raw_get ?es (LInt (int i))) (d + 1)) [1 ..< Suc (length vs)]
      = Ok (map (\<lambda>i. vs ! (i - 1)) [1 ..< Suc (length vs)])"
    using each by (intro collect_results_Ok) (auto simp: raw_get_seq [OF assms])
  have "map (\<lambda>i. vs ! (i - 1)) [1 ..< Suc (length vs)] = vs"
    by (rule nth_equalityI) (simp_all del: upt_Suc)
  then have items: "collect_results (\<lambda>i. lua_to_json_inner vm (raw_get ?es (LInt (int i))) (d + 1)) [1 ..< Suc (vm_border vm ?es)]
      = Ok vs" using returns border by simp
  let ?mt = "if vs = [] then array_metatable else NoMeta"
  have "json_to_lua_inner vm (JArray vs) d = Ok (LTable ?mt ?es)"
    using d there by (subst json_to_lua_inner.simps) (simp add: seq_entries_def del: upt_Suc)
  moreover have "(if 0 < vm_border vm ?es then Ok True else is_tagged_array ?mt) = Ok True"
    using border tagged_array by simp
  then have "lua_to_json_inner vm (LTable ?mt ?es) d = Ok (JArray vs)"
    using d items by (subst lua_to_json_inner.simps) (simp add: Let_def del: upt_Suc)
  ultimately show ?case by simp
next
  case (JObject m)
  define f where "f = (\<lambda>v. projr (json_to_lua_inner vm v (d + 1)))"
  have each: "json_to_lua_inner vm (snd kv) (d + 1) = Ok (f (snd kv)) \<and> lua_to_json_inner vm (f (snd kv)) (d + 1) = Ok (snd kv)"
    if "kv \<in> set m" for kv
  proof -
    have "crossable (snd kv)" "nesting (snd kv) + (d + 1) \<le> max_depth"
      using JObject.prems that foldr_max_le [of "\<lambda>kv. nesting (snd kv)" m d max_depth kv] by auto
    from JObject.IH [OF that _ this] show ?thesis unfolding f_def by (cases kv) auto
  qed
  have d: "\<not> max_depth < d" using JObject.prems(2) by simp
  have ord: "ordered m" using JObject.prems(1) by simp
  have "collect_results (\<lambda>kv. json_to_lua_inner vm (snd kv) (d + 1)) m = Ok (map (\<lambda>kv. f (snd kv)) m)"
    using each by (intro collect_results_Ok) blast
  moreover have "zip (map (\<lambda>kv. LStr (fst kv)) m) (map (\<lambda>kv. f (snd kv)) m) = obj_entries f m"
    by (simp add: obj_entries_def zip_map_map zip_same_conv_map)
  moreover have "object_entries (json_key vm) (\<lambda>v. lua_to_json_inner vm v (d + 1)) (vm_visit vm (obj_entries f m)) [] = Ok m"
    using JObject.prems(1) each by (intro object_entries_back [OF assms ord]) auto
  ultimately show ?case
    using d border_obj [OF assms ord, of f]
    by (simp add: json_to_lua_inner.simps [of _ "JObject m"] lua_to_json_inner.simps [of _ "LTable _ _"] is_tagged_array_def)
qed (auto simp: json_to_lua_inner.simps lua_to_json_inner.simps)

section \<open>What comes from Lua is in range\<close>

text \<open>Lua's integers are 64 bits wide.\<close>

fun lua_i64 :: "lua \<Rightarrow> bool" where
  "lua_i64 (LInt i) = is_i64 i"
| "lua_i64 (LTable mt es) = (\<forall>kv \<in> set es. lua_i64 (fst kv) \<and> lua_i64 (snd kv))"
| "lua_i64 _ = True"

lemma raw_get_i64: "\<forall>kv \<in> set es. lua_i64 (fst kv) \<and> lua_i64 (snd kv) \<Longrightarrow> lua_i64 (raw_get es k)"
  by (auto simp: raw_get_def split: option.split dest!: map_of_SomeD)

lemma ascii_valid: "list_all (byte_in 0 127) s \<Longrightarrow> valid_utf8 s"
  by (induction s) (simp_all add: utf8_next_def tail_ranges_def)

lemma digits_ascii: "list_all (byte_in 0 127) (digits_of_nat n)"
proof (induction n rule: digits_of_nat.induct)
  case (1 n)
  have "byte_in 0 127 (char_of (48 + k :: nat))" if "k < 10" for k using that by (simp add: byte_in_def)
  with 1 show ?case by (subst digits_of_nat.simps) simp
qed

lemma int_text_valid: "valid_utf8 (string_of_int i)"
  using digits_ascii by (intro ascii_valid) (simp add: string_of_int_def string_of_nat_def byte_in_def)

lemma json_key_valid: "vm_laws vm \<Longrightarrow> json_key vm k = Ok name \<Longrightarrow> valid_utf8 name"
  by (auto simp: json_key_def to_str_def int_text_valid vm_laws_def intro: ascii_valid split: lua.splits if_splits)

lemma collect_results_Ok_set: "collect_results f xs = Ok ys \<Longrightarrow> y \<in> set ys \<Longrightarrow> \<exists>x \<in> set xs. f x = Ok y"
  by (induction xs arbitrary: ys) (auto simp: and_then_Ok_iff)

lemma set_map_insert: "set (map_insert k v m) \<subseteq> insert (k, v) (set m)"
  by (induction k v m rule: map_insert.induct) (auto simp: map_insert.simps split: if_splits)

lemma object_entries_range:
  assumes "object_entries key val es m = Ok m'" and "ordered m" and "\<forall>kv \<in> set m. P (fst kv) \<and> Q (snd kv)"
    and "\<forall>kv \<in> set es. \<forall>name. key (fst kv) = Ok name \<longrightarrow> P name"
    and "\<forall>kv \<in> set es. \<forall>j. val (snd kv) = Ok j \<longrightarrow> Q j"
  shows "ordered m' \<and> (\<forall>kv \<in> set m'. P (fst kv) \<and> Q (snd kv))"
  using assms
proof (induction es arbitrary: m)
  case (Cons kv es)
  obtain k v where kv: "kv = (k, v)" by (cases kv)
  from Cons.prems(1) obtain name j where step: "key k = Ok name" "val v = Ok j"
    and rest: "object_entries key val es (map_insert name j m) = Ok m'"
    by (auto simp: kv and_then_Ok_iff)
  have "P name" "Q j" using Cons.prems(4,5) step by (simp_all add: kv)
  then have "\<forall>kv \<in> set (map_insert name j m). P (fst kv) \<and> Q (snd kv)"
    using set_map_insert [of name j m] Cons.prems(3) by auto
  from Cons.IH [OF rest _ this] Cons.prems(2,4,5) show ?case by auto
qed simp

lemma json_of_i64_crosses: "is_i64 i \<Longrightarrow> crossable (json_of_i64 i) \<and> nesting (json_of_i64 i) = 0"
  by (auto simp: json_of_i64_def is_i64_def)

lemma from_lua_range:
  assumes "vm_laws vm"
  shows "lua_i64 v \<Longrightarrow> lua_to_json_inner vm v d = Ok j \<Longrightarrow> crossable j \<and> nesting j + d \<le> max_depth"
proof (induction "Suc max_depth - d" arbitrary: v d j)
  case 0
  then show ?case by (subst (asm) lua_to_json_inner.simps) simp
next
  case (Suc n)
  have d: "\<not> max_depth < d" and n: "n = Suc max_depth - (d + 1)" using Suc.hyps(2) by simp_all
  note IH = Suc.hyps(1) [OF n]
  show ?case
  proof (cases v)
    case (LTable mt es)
    have i64: "\<forall>kv \<in> set es. lua_i64 (fst kv) \<and> lua_i64 (snd kv)" using Suc.prems(1) LTable by simp
    from Suc.prems(2) d consider
      vs where "j = JArray vs" "collect_results (\<lambda>i. lua_to_json_inner vm (raw_get es (LInt (int i))) (d + 1)) [1 ..< Suc (vm_border vm es)] = Ok vs"
    | m where "j = JObject m" "object_entries (json_key vm) (\<lambda>v. lua_to_json_inner vm v (d + 1)) es [] = Ok m"
      unfolding LTable by (subst (asm) lua_to_json_inner.simps)
        (auto simp: Let_def and_then_Ok_iff simp del: upt_Suc split: if_splits)
    then show ?thesis
    proof cases
      case 1
      have "crossable x \<and> nesting x + Suc d \<le> max_depth" if "x \<in> set vs" for x
        using collect_results_Ok_set [OF 1(2) that] IH raw_get_i64 [OF i64] by auto
      then show ?thesis using d foldr_max_leI [of d max_depth vs nesting] by (auto simp: 1(1))
    next
      case 2
      have "ordered m \<and> (\<forall>kv \<in> set m. valid_utf8 (fst kv) \<and> (crossable (snd kv) \<and> nesting (snd kv) + Suc d \<le> max_depth))"
        by (rule object_entries_range [OF 2(2)]) (use i64 IH json_key_valid [OF assms] in auto)
      then show ?thesis
        using d foldr_max_leI [of d max_depth m "\<lambda>kv. nesting (snd kv)"] by (auto simp: 2(1))
    qed
  qed (use Suc.prems d json_of_i64_crosses in
      \<open>auto simp: lua_to_json_inner.simps to_str_def split: if_splits lua_float.splits\<close>)
qed

section \<open>The theorems\<close>

text \<open>
  C16: on every VM that keeps the laws of tables, a JSON value whose integers are 64-bit signed, whose
  text is UTF-8 and which nests at most 128 deep is converted to Lua and converted back to the same
  value, empty arrays and nulls included, in whatever order the VM visits a table.
\<close>

theorem json_round_trip:
  assumes "vm_laws vm" and "crossable j" and "nesting j \<le> max_depth"
  shows "\<exists>l. json_to_lua vm j = Ok l \<and> lua_to_json vm l = Ok j"
  using there_and_back [OF assms(1,2), of 0] assms(3) unfolding json_to_lua_def lua_to_json_def by auto

text \<open>
  Whatever Lua value was accepted on the way out, the JSON value it became is in the bridge's range:
  it nests at most 128 deep, and it goes into Lua and comes out again as it is, so a value is
  changed by its first crossing at most.
\<close>

theorem lua_json_stable:
  assumes "vm_laws vm" and "lua_i64 v" and "lua_to_json vm v = Ok j"
  shows "nesting j \<le> max_depth \<and> (\<exists>l. json_to_lua vm j = Ok l \<and> lua_to_json vm l = Ok j)"
  using from_lua_range [OF assms(1,2), of 0 j] there_and_back [OF assms(1), of j 0] assms(3)
  unfolding json_to_lua_def lua_to_json_def by auto

text \<open>A VM that keeps the laws: it visits the entries as they were assigned.\<close>

fun border_from :: "(lua \<times> lua) list \<Rightarrow> nat \<Rightarrow> nat \<Rightarrow> nat" where
  "border_from es i 0 = i"
| "border_from es i (Suc n) = (if raw_get es (LInt (int i + 1)) = LNil then i else border_from es (Suc i) n)"

definition demo_vm :: lua_vm where
  "demo_vm = \<lparr>vm_border = (\<lambda>es. border_from es 0 (Suc (length es))), vm_visit = (\<lambda>es. es), vm_show = (\<lambda>_. ''f'')\<rparr>"

lemma elements_bound:
  assumes "\<And>k. 0 < k \<Longrightarrow> k \<le> n \<Longrightarrow> raw_get es (LInt (int k)) \<noteq> LNil"
  shows "n \<le> length es"
proof -
  have "LInt (int k) \<in> fst ` set es" if "k \<in> {1 .. n}" for k
  proof -
    have "map_of es (LInt (int k)) \<noteq> None" using assms [of k] that by (auto simp: raw_get_def split: option.splits)
    then show ?thesis by (simp add: map_of_eq_None_iff)
  qed
  then have "(\<lambda>k. LInt (int k)) ` {1 .. n} \<subseteq> fst ` set es" by auto
  then have "card ((\<lambda>k. LInt (int k)) ` {1 .. n}) \<le> card (fst ` set es)" by (intro card_mono) simp_all
  moreover have "card (fst ` set es) \<le> length es" by (metis card_image_le card_length le_trans finite_set)
  moreover have "card ((\<lambda>k. LInt (int k)) ` {1 .. n}) = n" by (subst card_image) (simp_all add: inj_on_def)
  ultimately show ?thesis by simp
qed

lemma border_from_spec:
  assumes "\<And>k. 0 < k \<Longrightarrow> k \<le> i \<Longrightarrow> raw_get es (LInt (int k)) \<noteq> LNil"
  shows "(\<forall>k. 0 < k \<longrightarrow> k \<le> border_from es i n \<longrightarrow> raw_get es (LInt (int k)) \<noteq> LNil)
    \<and> (raw_get es (LInt (int (border_from es i n) + 1)) = LNil \<or> border_from es i n = i + n)"
  using assms
proof (induction n arbitrary: i)
  case (Suc n)
  show ?case
  proof (cases "raw_get es (LInt (int i + 1)) = LNil")
    case False
    have "raw_get es (LInt (int k)) \<noteq> LNil" if "0 < k" "k \<le> Suc i" for k
      using that Suc.prems False by (cases "k = Suc i") (auto simp: add.commute)
    from Suc.IH [of "Suc i", OF this] False show ?thesis by simp
  qed (use Suc.prems in simp)
qed simp

lemma demo_vm_laws: "vm_laws demo_vm"
proof -
  have "(b = 0 \<or> raw_get es (LInt (int b)) \<noteq> LNil) \<and> raw_get es (LInt (int b + 1)) = LNil"
    if b: "b = border_from es 0 (Suc (length es))" for es b
  proof -
    have all: "\<forall>k. 0 < k \<longrightarrow> k \<le> b \<longrightarrow> raw_get es (LInt (int k)) \<noteq> LNil"
      and gap: "raw_get es (LInt (int b + 1)) = LNil \<or> b = Suc (length es)"
      using border_from_spec [of 0 es "Suc (length es)"] unfolding b by auto
    have "b \<le> length es" using all by (intro elements_bound) blast
    with all gap show ?thesis by auto
  qed
  then show ?thesis unfolding vm_laws_def demo_vm_def by (simp add: byte_in_def)
qed

definition demo_json :: json where
  "demo_json = JObject [(''a'', JArray []), (''b'', JArray [JNull, JNumber (NegInt (- 5)), JObject []])]"

theorem json_round_trip_witness:
  "\<exists>l. json_to_lua demo_vm demo_json = Ok l \<and> lua_to_json demo_vm l = Ok demo_json"
proof -
  have "valid_utf8 ''a'' \<and> valid_utf8 ''b''" by code_simp
  moreover have "ordered [(''a'', JArray []), (''b'', JArray [JNull, JNumber (NegInt (- 5)), JObject []])]"
    by (simp add: ordered_def less_char_def)
  ultimately have "crossable demo_json" by (simp add: demo_json_def i64_min_def)
  moreover have "nesting demo_json \<le> max_depth" by (simp add: demo_json_def max_depth_def)
  ultimately show ?thesis by (rule json_round_trip [OF demo_vm_laws])
qed

theorem lua_json_stable_witness:
  "\<exists>l. json_to_lua demo_vm (JArray [JNull]) = Ok l \<and> lua_to_json demo_vm l = Ok (JArray [JNull])"
proof -
  let ?v = "LTable NoMeta [(LInt 1, LNull)]"
  have "raw_get [(LInt 1, LNull)] (LInt 1) = LNull" "raw_get [(LInt 1, LNull)] (LInt 2) = LNil"
    by (simp_all add: raw_get_def)
  then have "lua_to_json demo_vm ?v = Ok (JArray [JNull])"
    by (simp add: lua_to_json_def lua_to_json_inner.simps demo_vm_def max_depth_def numeral_eq_Suc)
  from lua_json_stable [OF demo_vm_laws _ this] show ?thesis
    by (simp add: is_i64_def i64_min_def i64_max_def)
qed

section \<open>Where the range ends\<close>

text \<open>An unsigned integer beyond \<open>i64::MAX\<close> comes back as a float.\<close>

lemma big_integer_changes:
  assumes "i64_max < int n"
  shows "json_to_lua vm (JNumber (PosInt n)) = Ok (LNum (Finite (f64_of_nat n)))"
    and "lua_to_json vm (LNum (Finite (f64_of_nat n))) = Ok (JNumber (Float (f64_of_nat n)))"
  using assms by (simp_all add: json_to_lua_def json_to_lua_inner.simps number_to_lua_def lua_to_json_def
      lua_to_json_inner.simps)

end
