(* ===== verification/Obs.thy ===== *)
theory Obs
  imports Config
begin

text \<open>
  The observability lines, \<open>obs.rs\<close> of the types crate: the context, the fixed \<open>key=value\<close> form and
  what is kept out of it. \<open>Url\<close> and \<open>serde_json\<close>'s quoting are a parameter, \<open>obs_lib\<close>:
  \<open>ol_stripped\<close> is the text of the parsed URL after its user, password, query and fragment have been
  cleared, \<open>None\<close> when it does not parse. A slice that is not on a character boundary panics, which
  is \<open>None\<close> of the result.
\<close>

record obs_lib =
  ol_stripped :: "string \<Rightarrow> string option"
  ol_quote :: "string \<Rightarrow> string"

definition redacted :: string where
  "redacted = ''[REDACTED]''"

section \<open>Context\<close>

type_synonym obs_ctx = "string \<times> string \<times> string \<times> string"

definition var_or_empty :: "env \<Rightarrow> string \<Rightarrow> string" where
  "var_or_empty env k = (case env_var env k of Some v \<Rightarrow> v | None \<Rightarrow> [])"

text \<open>\<open>process_id\<close> is the identifier drawn once per process.\<close>

definition obs_context :: "env \<Rightarrow> string \<Rightarrow> string option \<Rightarrow> obs_ctx" where
  "obs_context env process_id fallback =
     (let agent_id =
        (case env_var env ''AGENT_BLOCK_AGENT_ID'' of
           Some v \<Rightarrow> if v \<noteq> [] then v else (case fallback of Some f \<Rightarrow> f | None \<Rightarrow> process_id)
         | None \<Rightarrow> (case fallback of Some f \<Rightarrow> f | None \<Rightarrow> process_id))
      in (var_or_empty env ''AGENT_BLOCK_TRACE_ID'', var_or_empty env ''AGENT_BLOCK_RUN_ID'', agent_id,
          var_or_empty env ''AGENT_BLOCK_AGENT_NAME''))"

section \<open>Values\<close>

definition sensitive_needles :: "string list" where
  "sensitive_needles =
     [''authorization'', ''cookie'', ''set-cookie'', ''token'', ''secret'', ''password'', ''passwd'',
      ''api_key'', ''apikey'', ''access_key'', ''private_key'']"

definition is_sensitive_key :: "string \<Rightarrow> bool" where
  "is_sensitive_key key = (let k = to_ascii_lowercase key in list_ex (\<lambda>needle. str_contains needle k) sensitive_needles)"

definition redact_userinfo :: "string \<Rightarrow> string" where
  "redact_userinfo raw =
     (case split_once ''://'' raw of
        Some (scheme, authority) \<Rightarrow>
          (case find_char (\<lambda>c. c = CHR ''@'') authority of
             Some at_pos \<Rightarrow> scheme @ ''://'' @ drop (Suc at_pos) authority
           | None \<Rightarrow> raw)
      | None \<Rightarrow> raw)"

definition sanitize_url :: "obs_lib \<Rightarrow> string \<Rightarrow> string option" where
  "sanitize_url lib raw =
     (case ol_stripped lib raw of
        Some u \<Rightarrow> Some u
      | None \<Rightarrow>
          (let sanitized = redact_userinfo raw;
               cut_end = (case find_char (\<lambda>c. c = CHR ''?'' \<or> c = CHR ''#'') sanitized of
                            Some n \<Rightarrow> n | None \<Rightarrow> length sanitized);
               trimmed = take cut_end sanitized
           in if length trimmed \<le> 16 then Some trimmed
              else if is_char_boundary trimmed 16 then Some (take 16 trimmed @ ''...'')
              else None))"

definition sanitize_value :: "obs_lib \<Rightarrow> string \<Rightarrow> string \<Rightarrow> string option" where
  "sanitize_value lib key v =
     (if is_sensitive_key key then Some redacted
      else if eq_ignore_ascii_case key ''url'' then sanitize_url lib v
      else Some v)"

definition kv_escape :: "obs_lib \<Rightarrow> string \<Rightarrow> string \<Rightarrow> string option" where
  "kv_escape lib key v =
     map_option (\<lambda>safe.
         if safe = [] then [CHR 0x22, CHR 0x22]
         else if has_white_space safe \<or> CHR ''='' \<in> set safe then ol_quote lib safe
         else safe)
       (sanitize_value lib key v)"

section \<open>Lines\<close>

fun obs_pairs :: "obs_lib \<Rightarrow> (string \<times> string) list \<Rightarrow> string list option" where
  "obs_pairs lib [] = Some []"
| "obs_pairs lib ((k, v) # kvs) =
     Option.bind (kv_escape lib k v) (\<lambda>e.
       map_option (\<lambda>more. (k @ ''='' @ e) # more) (obs_pairs lib kvs))"

fun join_words :: "string list \<Rightarrow> string" where
  "join_words [] = []"
| "join_words [w] = w"
| "join_words (w # ws) = w @ '' '' @ join_words ws"

definition obs_line ::
  "obs_lib \<Rightarrow> string \<Rightarrow> string \<Rightarrow> obs_ctx \<Rightarrow> (string \<times> string) list \<Rightarrow> string option" where
  "obs_line lib component event ctx extra =
     (case ctx of (trace_id, run_id, agent_id, agent_name) \<Rightarrow>
        map_option (\<lambda>parts. join_words ([''prefix=ab.obs'', ''event='' @ event, ''component='' @ component] @ parts))
          (obs_pairs lib
            ([(''trace_id'', trace_id), (''run_id'', run_id), (''agent_id'', agent_id), (''agent_name'', agent_name)] @ extra)))"

section \<open>Nothing about a secret is in a line\<close>

definition url_stop :: "char \<Rightarrow> bool" where
  "url_stop c \<longleftrightarrow> c = CHR ''?'' \<or> c = CHR ''#''"









lemma cut_is_takeWhile:
  "take (case find_char P s of Some n \<Rightarrow> n | None \<Rightarrow> length s) s = takeWhile (\<lambda>c. \<not> P c) s"
proof (cases "find_char P s")
  case None
  then have "takeWhile (\<lambda>c. \<not> P c) s = s" by (simp add: find_char_None takeWhile_eq_all_conv)
  then show ?thesis by (simp only: None option.case take_all order_refl)
qed (simp add: find_char_take(1))


lemma sanitize_url_unparsed:
  assumes "ol_stripped lib raw = None"
  shows "sanitize_url lib raw =
    (let t = takeWhile (\<lambda>c. \<not> url_stop c) (redact_userinfo raw)
     in if length t \<le> 16 then Some t else if is_char_boundary t 16 then Some (take 16 t @ ''...'') else None)"
  unfolding sanitize_url_def Let_def url_stop_def cut_is_takeWhile using assms by simp












section \<open>Corners of the heuristics\<close>

text \<open>A password with an \<open>@\<close> in it leaves its rest in the line.\<close>

lemma password_rest_shown:
  "ol_stripped lib ''htps://u:p@ss@h'' = None \<Longrightarrow> sanitize_url lib ''htps://u:p@ss@h'' = Some ''htps://ss@h''"
proof -
  assume "ol_stripped lib ''htps://u:p@ss@h'' = None"
  moreover have "takeWhile (\<lambda>c. \<not> url_stop c) (redact_userinfo ''htps://u:p@ss@h'') = ''htps://ss@h''" by code_simp
  ultimately show ?thesis by (simp add: sanitize_url_unparsed)
qed

text \<open>An \<open>@\<close> in the query of a text that does not parse is taken for the end of a user: what follows it is shown.\<close>

lemma query_after_at_shown:
  "ol_stripped lib ''htps://h/?t=a@SECRET'' = None \<Longrightarrow> sanitize_url lib ''htps://h/?t=a@SECRET'' = Some ''htps://SECRET''"
proof -
  assume "ol_stripped lib ''htps://h/?t=a@SECRET'' = None"
  moreover have "takeWhile (\<lambda>c. \<not> url_stop c) (redact_userinfo ''htps://h/?t=a@SECRET'') = ''htps://SECRET''" by code_simp
  ultimately show ?thesis by (simp add: sanitize_url_unparsed)
qed

text \<open>
  The cut at 16 is at a byte. A text with a two-byte character across it, here fifteen letters and
  an \<open>e\<close> with an accent, has no line at all: the slice panics.
\<close>

definition accented :: string where
  "accented = ''aaaaaaaaaaaaaaa'' @ [CHR 0xC3, CHR 0xA9]"

lemma sanitize_url_panics:
  assumes "ol_stripped lib accented = None"
  shows "valid_utf8 accented" and "sanitize_url lib accented = None"
    and "obs_line lib component event ctx (pre @ (''url'', accented) # post) = None"
proof -
  show "valid_utf8 accented" by code_simp
  have "takeWhile (\<lambda>c. \<not> url_stop c) (redact_userinfo accented) = accented" by code_simp
  moreover have "length accented = 17" "\<not> is_char_boundary accented 16" by code_simp+
  ultimately show none: "sanitize_url lib accented = None" using assms by (simp add: sanitize_url_unparsed)
  have "\<not> is_sensitive_key ''url''" by code_simp
  with none have "kv_escape lib ''url'' accented = None"
    by (simp add: kv_escape_def sanitize_value_def eq_ignore_ascii_case_def)
  then have "obs_pairs lib (xs @ (''url'', accented) # post) = None" for xs
  proof (induction xs)
    case (Cons kv xs)
    then show ?case by (cases kv; cases "kv_escape lib (fst kv) (snd kv)") simp_all
  qed simp
  from this [of "_ @ pre"] show "obs_line lib component event ctx (pre @ (''url'', accented) # post) = None"
    by (cases ctx) (simp add: obs_line_def del: append.simps)
qed

end
