(* ===== verification/Sandbox.thy ===== *)
theory Sandbox
  imports Config
begin

text \<open>
  \<open>sandbox.rs\<close>: the process-wide boundary. Resolving a path, and what the kernel says to each request
  (through the \<open>landlock\<close> and \<open>seccompiler\<close> crates), are the parameter \<open>kernel\<close>; what is in
  force afterwards is a \<open>boundary\<close>, so that a failed start can be told from one that runs open.
\<close>

section \<open>Configuration\<close>

record sandbox_config =
  sc_enabled :: bool
  sc_fs_rw :: "string list"
  sc_tcp :: bool

definition sandbox_default :: sandbox_config where
  "sandbox_default = \<lparr>sc_enabled = False, sc_fs_rw = [], sc_tcp = True\<rparr>"

definition is_truthy :: "string \<Rightarrow> bool" where
  "is_truthy raw \<longleftrightarrow> to_ascii_lowercase (trim raw) \<notin> {[], ''0'', ''false'', ''no'', ''off''}"

definition split_paths :: "string \<Rightarrow> string list" where
  "split_paths raw = filter (\<lambda>segment. trim segment \<noteq> []) (split_on (CHR '':'') raw)"

definition from_parts :: "bool \<Rightarrow> string option \<Rightarrow> string option \<Rightarrow> string option \<Rightarrow> sandbox_config" where
  "from_parts cli_enabled enabled_raw fs_rw_raw tcp_raw =
     \<lparr>sc_enabled = (cli_enabled \<or> (case enabled_raw of Some v \<Rightarrow> is_truthy v | None \<Rightarrow> False)),
      sc_fs_rw = (case fs_rw_raw of Some v \<Rightarrow> split_paths v | None \<Rightarrow> []),
      sc_tcp = (case tcp_raw of Some v \<Rightarrow> is_truthy v | None \<Rightarrow> True)\<rparr>"

definition sandbox_from_env :: "env \<Rightarrow> bool \<Rightarrow> sandbox_config" where
  "sandbox_from_env env cli_enabled =
     from_parts cli_enabled (env_var env ''AGENT_BLOCK_SANDBOX'')
       (env_var env ''AGENT_BLOCK_SANDBOX_FS_RW'') (env_var env ''AGENT_BLOCK_SANDBOX_TCP'')"

section \<open>The writable paths\<close>

definition always_writable :: "string list" where
  "always_writable = [''/tmp'', ''/dev/null'', ''/dev/urandom'', ''/dev/tty'']"

definition state_home :: "env \<Rightarrow> string option" where
  "state_home env =
     (case env ''AGENT_BLOCK_HOME'' of
        Some v \<Rightarrow> Some v
      | None \<Rightarrow> map_option (\<lambda>home. path_join home ''.agent-block'') (env ''HOME''))"

definition candidates :: "env \<Rightarrow> sandbox_config \<Rightarrow> string \<Rightarrow> string list" where
  "candidates env config project_root =
     [project_root] @ (case state_home env of Some h \<Rightarrow> [h] | None \<Rightarrow> []) @ always_writable @ sc_fs_rw config"

fun resolve_all :: "(string \<Rightarrow> string + string) \<Rightarrow> string list \<Rightarrow> string list \<Rightarrow> string list" where
  "resolve_all canonicalize [] out = out"
| "resolve_all canonicalize (path # paths) out =
     (case canonicalize path of
        Err _ \<Rightarrow> resolve_all canonicalize paths out
      | Ok p \<Rightarrow> resolve_all canonicalize paths (if p \<in> set out then out else out @ [p]))"

definition write_allowlist ::
  "(string \<Rightarrow> string + string) \<Rightarrow> env \<Rightarrow> sandbox_config \<Rightarrow> string \<Rightarrow> string list" where
  "write_allowlist canonicalize env config project_root =
     resolve_all canonicalize (candidates env config project_root) []"

section \<open>Applying\<close>

datatype sandbox_error =
    Unsupported string
  | NotEnforced
  | ProjectRoot string string
  | Landlock string
  | Seccomp string

datatype ruleset_status = FullyEnforced | PartiallyEnforced | NotEnforcedStatus

text \<open>
  What the system answers: \<open>Some e\<close> is the error of a step. \<open>kn_linux\<close> and \<open>kn_filter\<close> say which
  implementation was compiled: the Linux one, and the filter for its architecture.
\<close>

record kernel =
  kn_linux :: bool
  kn_os :: string
  kn_filter :: bool
  kn_canonicalize :: "string \<Rightarrow> string + string"
  kn_handle_fs :: "string option"
  kn_handle_net :: "string option"
  kn_create :: "string option"
  kn_read_rules :: "string option"
  kn_write_rules :: "string list \<Rightarrow> string option"
  kn_restrict :: "string + ruleset_status"
  kn_seccomp :: "string option"

record boundary =
  bd_fs :: "string list option"
  bd_tcp_denied :: bool
  bd_uring_denied :: bool

definition no_boundary :: boundary where
  "no_boundary = \<lparr>bd_fs = None, bd_tcp_denied = False, bd_uring_denied = False\<rparr>"

definition step_err :: "(string \<Rightarrow> 'e) \<Rightarrow> string option \<Rightarrow> 'e + unit" where
  "step_err f e = (case e of Some m \<Rightarrow> Err (f m) | None \<Rightarrow> Ok ())"

definition deny_io_uring :: "kernel \<Rightarrow> sandbox_error + bool" where
  "deny_io_uring k =
     (if kn_filter k then and_then (step_err Seccomp (kn_seccomp k)) (\<lambda>_. Ok True) else Ok False)"

text \<open>The rule set up to \<open>restrict_self\<close>: the paths it grants and the kernel's verdict.\<close>

definition landlock_rules ::
  "kernel \<Rightarrow> env \<Rightarrow> sandbox_config \<Rightarrow> string \<Rightarrow> sandbox_error + string list \<times> ruleset_status" where
  "landlock_rules k env config project_root =
     and_then (map_err (\<lambda>e. ProjectRoot project_root e) (kn_canonicalize k project_root)) (\<lambda>root.
     let writable = write_allowlist (kn_canonicalize k) env config root in
     and_then (step_err Landlock (kn_handle_fs k)) (\<lambda>_.
     and_then (if sc_tcp config then Ok () else step_err Landlock (kn_handle_net k)) (\<lambda>_.
     and_then (step_err Landlock (kn_create k)) (\<lambda>_.
     and_then (step_err Landlock (kn_read_rules k)) (\<lambda>_.
     and_then (step_err Landlock (kn_write_rules k writable)) (\<lambda>_.
     and_then (map_err Landlock (kn_restrict k)) (\<lambda>status. Ok (writable, status))))))))"

definition sandbox_apply_linux ::
  "kernel \<Rightarrow> env \<Rightarrow> sandbox_config \<Rightarrow> string \<Rightarrow> (sandbox_error + unit) \<times> boundary" where
  "sandbox_apply_linux k env config project_root =
     (case landlock_rules k env config project_root of
        Err e \<Rightarrow> (Err e, no_boundary)
      | Ok (writable, status) \<Rightarrow>
          (if status = NotEnforcedStatus then (Err NotEnforced, no_boundary)
           else
             let fs = \<lparr>bd_fs = Some writable, bd_tcp_denied = (\<not> sc_tcp config), bd_uring_denied = False\<rparr> in
             case deny_io_uring k of
               Err e \<Rightarrow> (Err e, fs)
             | Ok denied \<Rightarrow> (Ok (), fs\<lparr>bd_uring_denied := denied\<rparr>)))"

definition sandbox_apply ::
  "kernel \<Rightarrow> env \<Rightarrow> sandbox_config \<Rightarrow> string \<Rightarrow> (sandbox_error + unit) \<times> boundary" where
  "sandbox_apply k env config project_root =
     (if \<not> sc_enabled config then (Ok (), no_boundary)
      else if kn_linux k then sandbox_apply_linux k env config project_root
      else (Err (Unsupported (kn_os k)), no_boundary))"

section \<open>What the list holds\<close>

lemma resolve_all_set:
  "set (resolve_all canon paths out) = set out \<union> {p. \<exists>q \<in> set paths. canon q = Ok p}"
  by (induction canon paths out rule: resolve_all.induct) (auto split: sum.splits)

lemma resolve_all_distinct: "distinct out \<Longrightarrow> distinct (resolve_all canon paths out)"
  by (induction canon paths out rule: resolve_all.induct) (auto split: sum.splits)

lemma state_home_is_base_dir: "state_home env = (case base_dir env of Ok d \<Rightarrow> Some d | Err _ \<Rightarrow> None)"
  by (simp add: state_home_def base_dir_def split: option.split)

lemma state_home_Some: "state_home env = Some h \<longleftrightarrow> base_dir env = Ok h"
  by (simp add: state_home_is_base_dir split: sum.split)

text \<open>The paths whose resolved forms are writable.\<close>

definition granted :: "env \<Rightarrow> sandbox_config \<Rightarrow> string \<Rightarrow> string set" where
  "granted env config root =
     {root} \<union> {q. base_dir env = Ok q} \<union> {''/tmp'', ''/dev/null'', ''/dev/urandom'', ''/dev/tty''} \<union> set (sc_fs_rw config)"

lemma candidates_granted: "set (candidates env config root) = granted env config root"
  unfolding candidates_def granted_def always_writable_def state_home_Some [symmetric]
  by (auto split: option.splits)

lemma write_allowlist_set:
  "set (write_allowlist canon env config root) = {p. \<exists>q \<in> granted env config root. canon q = Ok p}"
  "distinct (write_allowlist canon env config root)"
  unfolding write_allowlist_def by (simp_all add: resolve_all_set resolve_all_distinct candidates_granted)

lemma landlock_rules_Ok:
  assumes "landlock_rules k env config root = Ok (writable, status)"
  obtains r where "kn_canonicalize k root = Ok r" "writable = write_allowlist (kn_canonicalize k) env config r"
    "kn_restrict k = Ok status" "sc_tcp config \<or> kn_handle_net k = None"
  using assms
  by (auto simp: landlock_rules_def and_then_Ok_iff map_err_def step_err_def Let_def
      split: sum.splits option.splits if_splits)

text \<open>
  C17: the sandbox fails closed. When it is on and starting succeeds, the kernel enforces a boundary
  whose writable paths are exactly the resolved forms of the project root, the state directory
  (the one the databases use), the four built-in paths and the configured ones, each once, the
  project root among them; a requested denial of TCP is in force, and so is the denial of io_uring
  wherever its filter was compiled. Without Linux, or when the kernel enforces nothing, starting
  fails; and it does nothing when it is off.
\<close>

theorem sandbox_fails_closed:
  assumes "sandbox_apply k env config root = (res, b)"
  shows "(sc_enabled config \<and> res = Ok () \<longrightarrow>
       kn_linux k \<and> kn_restrict k \<in> {Ok FullyEnforced, Ok PartiallyEnforced}
     \<and> (\<exists>r paths. kn_canonicalize k root = Ok r \<and> bd_fs b = Some paths \<and> distinct paths
          \<and> set paths = {p. \<exists>q \<in> granted env config r. kn_canonicalize k q = Ok p})
     \<and> (\<not> sc_tcp config \<longrightarrow> bd_tcp_denied b \<and> kn_handle_net k = None)
     \<and> (kn_filter k \<longrightarrow> bd_uring_denied b \<and> kn_seccomp k = None))
   \<and> (sc_enabled config \<and> (\<not> kn_linux k \<or> isl (kn_restrict k) \<or> kn_restrict k = Ok NotEnforcedStatus \<or> isl (kn_canonicalize k root))
        \<longrightarrow> isl res \<and> b = no_boundary)
   \<and> (\<not> sc_enabled config \<longrightarrow> res = Ok () \<and> b = no_boundary)"
proof (cases "sc_enabled config \<and> kn_linux k")
  case True
  show ?thesis
  proof (cases "landlock_rules k env config root")
    case (Inl e)
    then show ?thesis using assms True by (auto simp: sandbox_apply_def sandbox_apply_linux_def)
  next
    case (Inr ws)
    obtain writable status where ws: "ws = (writable, status)" by (cases ws)
    obtain r where r: "kn_canonicalize k root = Ok r" "writable = write_allowlist (kn_canonicalize k) env config r"
      "kn_restrict k = Ok status" "sc_tcp config \<or> kn_handle_net k = None"
      using landlock_rules_Ok [of k env config root writable status] Inr ws by auto
    show ?thesis
    proof (cases "status = NotEnforcedStatus")
      case enforced: True
      then show ?thesis using assms True Inr ws by (auto simp: sandbox_apply_def sandbox_apply_linux_def)
    next
      case False
      then have st: "status = FullyEnforced \<or> status = PartiallyEnforced" by (cases status) simp_all
      have step: "(res, b) = (case deny_io_uring k of
            Err e \<Rightarrow> (Err e, \<lparr>bd_fs = Some writable, bd_tcp_denied = (\<not> sc_tcp config), bd_uring_denied = False\<rparr>)
          | Ok denied \<Rightarrow> (Ok (), \<lparr>bd_fs = Some writable, bd_tcp_denied = (\<not> sc_tcp config), bd_uring_denied = denied\<rparr>))"
        using assms True Inr ws False by (auto simp: sandbox_apply_def sandbox_apply_linux_def Let_def split: sum.splits)
      have "bd_fs b = Some writable" "bd_tcp_denied b = (\<not> sc_tcp config)"
        using step by (auto split: sum.splits)
      moreover have "kn_filter k \<longrightarrow> bd_uring_denied b \<and> kn_seccomp k = None" if "res = Ok ()"
        using step that by (auto simp: deny_io_uring_def step_err_def split: sum.splits if_splits option.splits)
      ultimately show ?thesis using True r st write_allowlist_set by auto
    qed
  qed
next
  case False
  then show ?thesis using assms by (auto simp: sandbox_apply_def)
qed

definition demo_kernel :: kernel where
  "demo_kernel = \<lparr>kn_linux = True, kn_os = ''linux'', kn_filter = True,
     kn_canonicalize = (\<lambda>p. if p = ''/dev/tty'' then Err ''absent'' else Ok p),
     kn_handle_fs = None, kn_handle_net = None, kn_create = None, kn_read_rules = None,
     kn_write_rules = (\<lambda>_. None), kn_restrict = Ok PartiallyEnforced, kn_seccomp = None\<rparr>"

theorem sandbox_fails_closed_witness:
  "let b = snd (sandbox_apply demo_kernel Map.empty (from_parts True None (Some ''/w:'') (Some ''off'')) ''/p'')
   in bd_tcp_denied b \<and> bd_uring_denied b"
proof -
  let ?config = "from_parts True None (Some ''/w:'') (Some ''off'')"
  have on: "sc_enabled ?config" by (simp add: from_parts_def)
  have tcp: "\<not> sc_tcp ?config" by code_simp
  have ok: "fst (sandbox_apply demo_kernel Map.empty ?config ''/p'') = Ok ()"
    using on by (simp add: sandbox_apply_def sandbox_apply_linux_def landlock_rules_def demo_kernel_def step_err_def
        deny_io_uring_def)
  from sandbox_fails_closed [OF prod.collapse [symmetric, of "sandbox_apply demo_kernel Map.empty ?config ''/p''"]]
  show ?thesis using on ok tcp by (simp add: demo_kernel_def Let_def)
qed

end
