(* ===== verification/Fs_Edit.thy ===== *)
theory Fs_Edit
  imports Strings
begin

text \<open>
  The editing primitives of \<open>std.fs\<close>, \<open>bridge/fs.rs\<close>: a file is read with a fingerprint, changed by
  line ranges that are checked as a set against the text they expect, and put back by a rollback.
  The files are a map from paths to bytes; \<open>io\<close> says which reads and writes fail and with what
  words, and what a write that fails leaves in its file (\<open>std::fs::write\<close> empties the file before it
  writes, so this may be any part of the new content), and \<open>between\<close> is what others did to the files while a call was waiting for its write. The
  fingerprint (\<open>sha2\<close>) is the argument \<open>version_of\<close>.
\<close>

section \<open>Lines\<close>

definition newline :: char where
  "newline = CHR 0x0A"

definition fs_split_lines :: "string \<Rightarrow> string list \<times> bool" where
  "fs_split_lines content =
     (let trailing_newline = (content \<noteq> [] \<and> last content = newline);
          body = (if trailing_newline then butlast content else content)
      in if body = [] \<and> trailing_newline then ([[]], True)
         else (split_on newline body, trailing_newline))"

definition join_lines :: "string list \<Rightarrow> bool \<Rightarrow> string" where
  "join_lines lines trailing_newline = join_with [newline] lines @ (if trailing_newline then [newline] else [])"

section \<open>Edits\<close>

record edit_request =
  er_start :: nat
  er_end :: nat
  er_expect :: string
  er_replace :: string

record edit =
  ed_index :: nat
  ed_start :: nat
  ed_end :: nat
  ed_replace :: string

datatype edit_reason = BadRange | OutOfRange | ExpectMismatch

record edit_failure =
  ef_index :: nat
  ef_reason :: edit_reason
  ef_start :: nat
  ef_end :: nat
  ef_actual :: "string option"
  ef_file_lines :: "nat option"

definition check_edit :: "string list \<Rightarrow> nat \<Rightarrow> edit_request \<Rightarrow> edit_failure + edit" where
  "check_edit lines i rq =
     (let fail = (\<lambda>reason actual file_lines.
            Err \<lparr>ef_index = i, ef_reason = reason, ef_start = er_start rq, ef_end = er_end rq,
                 ef_actual = actual, ef_file_lines = file_lines\<rparr>)
      in if er_start rq = 0 \<or> er_end rq < er_start rq then fail BadRange None None
         else if length lines < er_end rq then fail OutOfRange None (Some (length lines))
         else
           let actual = join_with [newline] (drop (er_start rq - 1) (take (er_end rq) lines)) in
           if actual \<noteq> er_expect rq then fail ExpectMismatch (Some actual) None
           else Ok \<lparr>ed_index = i, ed_start = er_start rq, ed_end = er_end rq, ed_replace = er_replace rq\<rparr>)"

text \<open>
  The loop over the requested edits: an entry that is no edit at all raises, a bad edit is kept and
  the loop goes on.
\<close>

fun check_edits ::
  "string list \<Rightarrow> nat \<Rightarrow> (string + edit_request) list \<Rightarrow> edit list \<Rightarrow> edit_failure list
     \<Rightarrow> string + edit list \<times> edit_failure list" where
  "check_edits lines i [] edits failures = Ok (edits, failures)"
| "check_edits lines i (entry # entries) edits failures =
     (case entry of
        Err e \<Rightarrow> Err e
      | Ok rq \<Rightarrow>
          (case check_edit lines (Suc i) rq of
             Err f \<Rightarrow> check_edits lines (Suc i) entries edits (failures @ [f])
           | Ok e \<Rightarrow> check_edits lines (Suc i) entries (edits @ [e]) failures))"

fun overlapping_pair :: "edit list \<Rightarrow> (edit \<times> edit) option" where
  "overlapping_pair (a # b # es) =
     (if ed_start b \<le> ed_end a then Some (a, b) else overlapping_pair (b # es))"
| "overlapping_pair _ = None"

definition replacement :: "edit \<Rightarrow> string list" where
  "replacement e = (if ed_replace e = [] then [] else split_on newline (ed_replace e))"

definition splice :: "edit \<Rightarrow> string list \<Rightarrow> string list" where
  "splice e out = take (ed_start e - 1) out @ replacement e @ drop (ed_end e) out"

text \<open>\<open>for e in ordered.iter().rev()\<close>: the last range first.\<close>

definition apply_edits :: "edit list \<Rightarrow> string list \<Rightarrow> string list" where
  "apply_edits by_line lines = fold splice (rev by_line) lines"

section \<open>Files\<close>

type_synonym files = "string \<rightharpoonup> string"

text \<open>
  Two paths are the same key when their components are: separators that repeat or trail, and \<open>.\<close>
  anywhere but at the front, do not count.
\<close>

type_synonym path_components = "bool \<times> string list"

definition path_key :: "string \<Rightarrow> path_components" where
  "path_key p =
     (let cs = filter (\<lambda>c. c \<noteq> []) (split_on (CHR ''/'') p) in
      if starts_with ''/'' p then (True, filter (\<lambda>c. c \<noteq> ''.'') cs)
      else (False, take 1 cs @ filter (\<lambda>c. c \<noteq> ''.'') (drop 1 cs)))"

type_synonym snapshots = "path_components \<rightharpoonup> string"

record io =
  io_read :: "string \<Rightarrow> string option"
  io_write :: "string \<Rightarrow> string option"
  io_left :: "string \<Rightarrow> string \<Rightarrow> string option \<Rightarrow> string option"

text \<open>What a write that fails can leave: the file it did not get to open, or a part of the new content.\<close>

definition io_tears :: "io \<Rightarrow> bool" where
  "io_tears io \<longleftrightarrow>
     (\<forall>path content old. io_left io path content old = old
        \<or> (\<exists>k. io_left io path content old = Some (take k content)))"

definition fs_read :: "io \<Rightarrow> files \<Rightarrow> string \<Rightarrow> string + string" where
  "fs_read io fs path =
     (case io_read io path of
        Some e \<Rightarrow> Err (fmt [''fs.edit: cannot read '', path, '': '', e])
      | None \<Rightarrow>
          (case fs path of
             Some content \<Rightarrow>
               (if valid_utf8 content then Ok content
                else Err (fmt [''fs.edit: cannot read '', path, '': stream did not contain valid UTF-8'']))
           | None \<Rightarrow> Err (fmt [''fs.edit: cannot read '', path, '': No such file or directory (os error 2)''])))"

definition fs_write :: "io \<Rightarrow> string \<Rightarrow> string \<Rightarrow> string \<Rightarrow> files \<Rightarrow> (string + unit) \<times> files" where
  "fs_write io op path content fs =
     (case io_write io path of
        Some e \<Rightarrow> (Err (fmt [op, '': cannot write '', path, '': '', e]), fs(path := io_left io path content (fs path)))
      | None \<Rightarrow> (Ok (), fs(path \<mapsto> content)))"

datatype edit_reply =
    Applied nat string
  | StaleBase string string
  | Rejected edit_failure "edit_failure list"
  | NoEdits
  | OverlappingEdits nat nat

text \<open>\<open>read_versioned\<close>: the content, its number of lines and its fingerprint.\<close>

definition read_versioned :: "(string \<Rightarrow> string) \<Rightarrow> io \<Rightarrow> files \<Rightarrow> string \<Rightarrow> string + string \<times> nat \<times> string" where
  "read_versioned version_of io fs path =
     and_then (fs_read io fs path) (\<lambda>content.
       Ok (content, length (fst (fs_split_lines content)), version_of content))"

text \<open>What becomes of the edits once each has been checked: a refusal, or the new content.\<close>

definition judge_edits :: "string list \<Rightarrow> bool \<Rightarrow> edit list \<Rightarrow> edit_failure list \<Rightarrow> edit_reply + nat \<times> string" where
  "judge_edits lines trailing_newline edits failures =
     (case failures of
        first # _ \<Rightarrow> Err (Rejected first failures)
      | [] \<Rightarrow>
          (if edits = [] then Err NoEdits
           else
             let by_line = sort_key ed_start edits in
             case overlapping_pair by_line of
               Some (a, b) \<Rightarrow> Err (OverlappingEdits (ed_index a) (ed_index b))
             | None \<Rightarrow> Ok (length edits, join_lines (apply_edits by_line lines) trailing_newline)))"

definition stale :: "string option \<Rightarrow> string \<Rightarrow> bool" where
  "stale base current = (case base of Some b \<Rightarrow> b \<noteq> [] \<and> b \<noteq> current | None \<Rightarrow> False)"

text \<open>
  \<open>base\<close> and \<open>edits_arg\<close> are the fields of the options: \<open>edits_arg\<close> is an error when it is no table,
  and an entry of it is an error when it lacks a field or has one of the wrong type.
\<close>

definition fs_edit ::
  "(string \<Rightarrow> string) \<Rightarrow> io \<Rightarrow> (files \<Rightarrow> files) \<Rightarrow> string \<Rightarrow> string option \<Rightarrow> string + (string + edit_request) list
     \<Rightarrow> files \<Rightarrow> snapshots \<Rightarrow> (string + edit_reply) \<times> files \<times> snapshots" where
  "fs_edit version_of io between path base edits_arg fs snaps =
     (case fs_read io fs path of
        Err e \<Rightarrow> (Err e, fs, snaps)
      | Ok content \<Rightarrow>
          (if stale base (version_of content)
           then (Ok (StaleBase (the base) (version_of content)), fs, snaps)
           else
             case edits_arg of
               Err e \<Rightarrow> (Err e, fs, snaps)
             | Ok entries \<Rightarrow>
                 (case check_edits (fst (fs_split_lines content)) 0 entries [] [] of
                    Err e \<Rightarrow> (Err e, fs, snaps)
                  | Ok (edits, failures) \<Rightarrow>
                      (case judge_edits (fst (fs_split_lines content)) (snd (fs_split_lines content)) edits failures of
                         Err refusal \<Rightarrow> (Ok refusal, fs, snaps)
                       | Ok (n, new_content) \<Rightarrow>
                           (case fs_write io ''fs.edit'' path new_content (between fs) of
                              (Err e, fs') \<Rightarrow> (Err e, fs', snaps)
                            | (Ok _, fs') \<Rightarrow>
                                (Ok (Applied n (version_of new_content)), fs', snaps(path_key path \<mapsto> content)))))))"

definition fs_rollback ::
  "(string \<Rightarrow> string) \<Rightarrow> io \<Rightarrow> string \<Rightarrow> files \<Rightarrow> snapshots \<Rightarrow> (string + string option) \<times> files \<times> snapshots" where
  "fs_rollback version_of io path fs snaps =
     (let snaps' = snaps(path_key path := None) in
      case snaps (path_key path) of
        None \<Rightarrow> (Ok None, fs, snaps')
      | Some content \<Rightarrow>
          (case fs_write io ''fs.rollback'' path content fs of
             (Err e, fs') \<Rightarrow> (Err e, fs', snaps')
           | (Ok _, fs') \<Rightarrow> (Ok (Some (version_of content)), fs', snaps')))"

section \<open>Inspecting a path\<close>

datatype kind = KFile | KDir | KSymlink | KOther | KMissing

fun kind_as_str :: "kind \<Rightarrow> string" where
  "kind_as_str KFile = ''file''"
| "kind_as_str KDir = ''dir''"
| "kind_as_str KSymlink = ''symlink''"
| "kind_as_str KOther = ''other''"
| "kind_as_str KMissing = ''missing''"

record inspected =
  is_kind :: kind
  is_dangling :: bool
  is_canonical :: "string option"
  is_id :: "(nat \<times> nat) option"

datatype io_error = NotFound string | OtherError string

record metadata =
  md_symlink :: bool
  md_dir :: bool
  md_file :: bool
  md_id :: "(nat \<times> nat) option"

text \<open>
  \<open>lmeta\<close>, \<open>canon\<close> and \<open>meta\<close> are \<open>symlink_metadata\<close>, \<open>canonicalize\<close> and \<open>metadata\<close> of the file
  system.
\<close>

definition inspect_path ::
  "(string \<Rightarrow> io_error + metadata) \<Rightarrow> (string \<Rightarrow> io_error + string) \<Rightarrow> (string \<Rightarrow> io_error + metadata)
     \<Rightarrow> string \<Rightarrow> io_error + inspected" where
  "inspect_path lmeta canon meta path =
     (case lmeta path of
        Err (NotFound _) \<Rightarrow> Ok \<lparr>is_kind = KMissing, is_dangling = False, is_canonical = None, is_id = None\<rparr>
      | Err e \<Rightarrow> Err e
      | Ok md \<Rightarrow>
          (let kind = (if md_symlink md then KSymlink else if md_dir md then KDir else if md_file md then KFile else KOther) in
           case canon path of
             Err e \<Rightarrow>
               (case e of
                  NotFound _ \<Rightarrow>
                    (if kind = KSymlink
                     then Ok \<lparr>is_kind = kind, is_dangling = True, is_canonical = None, is_id = None\<rparr>
                     else Err e)
                | OtherError _ \<Rightarrow> Err e)
           | Ok p \<Rightarrow>
               and_then (if kind = KSymlink then and_then (meta p) (\<lambda>md'. Ok (md_id md')) else Ok (md_id md)) (\<lambda>ident.
                 Ok \<lparr>is_kind = kind, is_dangling = False, is_canonical = Some p, is_id = ident\<rparr>)))"

end
