(* ===== verification/Fs_Properties.thy ===== *)
theory Fs_Properties
  imports Fs_Edit
begin

text \<open>
  What an edit does: all of the batch, exactly at the lines it names, or a refusal that leaves the file
  alone; what is left when the write itself fails; and that a rollback takes an edit back. The one-pass reading of a batch from the top, \<open>rebuild\<close>, is the
  reference the splicing from the bottom is compared with.
\<close>

section \<open>Lines\<close>

lemma split_join_lines: "join_lines (fst (fs_split_lines content)) (snd (fs_split_lines content)) = content"
proof -
  have "butlast content @ [newline] = content" if "content \<noteq> []" "last content = newline"
    using that append_butlast_last_id [of content] by simp
  moreover from this have "content = [newline]" if "content \<noteq> []" "last content = newline" "butlast content = []"
    using that by (metis append_Nil)
  ultimately show ?thesis by (auto simp: fs_split_lines_def join_lines_def Let_def join_split)
qed

lemma split_lines_nonempty [simp]: "fst (fs_split_lines content) \<noteq> []"
  by (simp add: fs_split_lines_def Let_def)

section \<open>Splicing from the bottom is rebuilding from the top\<close>

fun rebuild :: "nat \<Rightarrow> edit list \<Rightarrow> string list \<Rightarrow> string list" where
  "rebuild at [] lines = drop at lines"
| "rebuild at (e # es) lines =
     drop at (take (ed_start e - 1) lines) @ replacement e @ rebuild (ed_end e) es lines"

text \<open>Ranges that follow each other within the file, from a line on.\<close>

fun in_order :: "nat \<Rightarrow> nat \<Rightarrow> edit list \<Rightarrow> bool" where
  "in_order at n [] = True"
| "in_order at n (e # es) \<longleftrightarrow> at < ed_start e \<and> ed_start e \<le> ed_end e \<and> ed_end e \<le> n \<and> in_order (ed_end e) n es"

lemma apply_edits_rebuild:
  assumes "in_order at (length lines) es" and "at \<le> length lines"
  shows "apply_edits es lines = take at lines @ rebuild at es lines"
  using assms
proof (induction es arbitrary: at)
  case (Cons e es)
  have "apply_edits es lines = take (ed_end e) lines @ rebuild (ed_end e) es lines"
    using Cons.prems by (intro Cons.IH) auto
  then have "apply_edits (e # es) lines = splice e (take (ed_end e) lines @ rebuild (ed_end e) es lines)"
    by (simp add: apply_edits_def)
  also have "\<dots> = take (ed_start e - 1) lines @ replacement e @ rebuild (ed_end e) es lines"
    using Cons.prems by (auto simp: splice_def min_def)
  also have "take (ed_start e - 1) lines = take at lines @ drop at (take (ed_start e - 1) lines)"
  proof -
    have "at \<le> ed_start e - 1" using Cons.prems by auto
    then show ?thesis using append_take_drop_id [of at "take (ed_start e - 1) lines"] by (simp add: min_absorb1)
  qed
  finally show ?case by simp
qed (simp add: apply_edits_def)

lemma rebuild_all: "in_order 0 (length lines) es \<Longrightarrow> apply_edits es lines = rebuild 0 es lines"
  using apply_edits_rebuild [of 0 lines es] by simp

text \<open>The overlap check, on edits in the order of their first lines.\<close>

lemma overlapping_pair_None:
  assumes "overlapping_pair es = None" and "sorted (map ed_start es)"
    and "\<forall>e \<in> set es. at < ed_start e \<and> ed_start e \<le> ed_end e \<and> ed_end e \<le> n"
  shows "in_order at n es"
  using assms
proof (induction es arbitrary: at rule: overlapping_pair.induct)
  case (1 a b es)
  have apart: "ed_end a < ed_start b" and rest: "overlapping_pair (b # es) = None"
    using "1.prems"(1) by (simp_all split: if_splits)
  have "in_order (ed_end a) n (b # es)"
    using "1.prems"(2,3) apart by (intro "1.IH" rest) auto
  with "1.prems"(3) show ?case by simp
qed auto

section \<open>Checking\<close>

definition good_edit :: "string list \<Rightarrow> edit_request \<Rightarrow> bool" where
  "good_edit lines rq \<longleftrightarrow>
     0 < er_start rq \<and> er_start rq \<le> er_end rq \<and> er_end rq \<le> length lines
   \<and> er_expect rq = join_with [newline] (drop (er_start rq - 1) (take (er_end rq) lines))"

lemma check_edit_Ok:
  "check_edit lines i rq = Ok e \<longleftrightarrow>
     good_edit lines rq \<and> e = \<lparr>ed_index = i, ed_start = er_start rq, ed_end = er_end rq, ed_replace = er_replace rq\<rparr>"
  by (auto simp: check_edit_def good_edit_def Let_def)

lemma check_edit_Err: "check_edit lines i rq = Err f \<Longrightarrow> \<not> good_edit lines rq"
  using check_edit_Ok by (metis sum.distinct(1))

text \<open>The edits of a batch, numbered.\<close>

definition numbered_edits :: "nat \<Rightarrow> edit_request list \<Rightarrow> edit list" where
  "numbered_edits i rqs = map (\<lambda>(k, rq). \<lparr>ed_index = k, ed_start = er_start rq, ed_end = er_end rq, ed_replace = er_replace rq\<rparr>)
     (enumerate (Suc i) rqs)"

lemma numbered_edits_simps [simp]:
  "numbered_edits i [] = []"
  "numbered_edits i (rq # rqs) = \<lparr>ed_index = Suc i, ed_start = er_start rq, ed_end = er_end rq, ed_replace = er_replace rq\<rparr> # numbered_edits (Suc i) rqs"
  by (simp_all add: numbered_edits_def)

lemma check_edits_good:
  assumes "\<forall>rq \<in> set rqs. good_edit lines rq"
  shows "check_edits lines i (map Ok rqs) edits failures = Ok (edits @ numbered_edits i rqs, failures)"
  using assms
proof (induction rqs arbitrary: i edits)
  case (Cons rq rqs)
  then have "check_edit lines (Suc i) rq = Ok \<lparr>ed_index = Suc i, ed_start = er_start rq, ed_end = er_end rq, ed_replace = er_replace rq\<rparr>"
    by (simp add: check_edit_Ok)
  with Cons show ?case by simp
qed simp

lemma check_edits_no_failures:
  assumes "check_edits lines i entries edits failures = Ok (es, [])"
  shows "failures = [] \<and> (\<exists>rqs. entries = map Ok rqs \<and> (\<forall>rq \<in> set rqs. good_edit lines rq) \<and> es = edits @ numbered_edits i rqs)"
  using assms
proof (induction lines i entries edits failures rule: check_edits.induct)
  case (2 lines i entry entries edits failures)
  from "2.prems" obtain rq where rq: "entry = Ok rq" by (auto split: sum.splits)
  show ?case
  proof (cases "check_edit lines (Suc i) rq")
    case (Inl f)
    with "2.IH"(1) [OF rq Inl] "2.prems" rq show ?thesis by simp
  next
    case (Inr e)
    then have e: "good_edit lines rq" "e = \<lparr>ed_index = Suc i, ed_start = er_start rq, ed_end = er_end rq, ed_replace = er_replace rq\<rparr>"
      by (simp_all add: check_edit_Ok)
    from "2.IH"(2) [OF rq Inr] "2.prems" rq Inr obtain rqs where
      "failures = []" "entries = map Ok rqs" "\<forall>rq \<in> set rqs. good_edit lines rq" "es = (edits @ [e]) @ numbered_edits (Suc i) rqs"
      by auto
    with e rq show ?thesis by (intro conjI exI [of _ "rq # rqs"]) auto
  qed
qed auto

lemma numbered_edits_ranges:
  "\<forall>rq \<in> set rqs. good_edit lines rq \<Longrightarrow> \<forall>e \<in> set (numbered_edits i rqs). 0 < ed_start e \<and> ed_start e \<le> ed_end e \<and> ed_end e \<le> length lines"
  by (induction rqs arbitrary: i) (auto simp: good_edit_def)

lemma judge_edits_Ok:
  assumes "judge_edits lines nl es failures = Ok (n, new)"
  shows "failures = [] \<and> es \<noteq> [] \<and> overlapping_pair (sort_key ed_start es) = None \<and> n = length es
    \<and> new = join_lines (apply_edits (sort_key ed_start es) lines) nl"
  using assms by (auto simp: judge_edits_def Let_def split: list.splits if_splits option.splits)

section \<open>The batch\<close>

text \<open>Edits that name disjoint ranges of a file, each with the text that is there.\<close>

definition acceptable :: "(string \<Rightarrow> string) \<Rightarrow> string option \<Rightarrow> string \<Rightarrow> edit_request list \<Rightarrow> bool" where
  "acceptable version_of base content rqs \<longleftrightarrow>
     base \<in> {None, Some [], Some (version_of content)} \<and> rqs \<noteq> []
   \<and> (\<forall>rq \<in> set rqs. good_edit (fst (fs_split_lines content)) rq)
   \<and> overlapping_pair (sort_key ed_start (numbered_edits 0 rqs)) = None"

text \<open>The file with every range replaced, read once from the top.\<close>

definition edited :: "string \<Rightarrow> edit_request list \<Rightarrow> string" where
  "edited content rqs =
     join_lines (rebuild 0 (sort_key ed_start (numbered_edits 0 rqs)) (fst (fs_split_lines content))) (snd (fs_split_lines content))"

lemma stale_iff: "stale base v \<longleftrightarrow> base \<notin> {None, Some [], Some v}"
  by (auto simp: stale_def split: option.splits)

lemma accepted_in_order:
  assumes "acceptable version_of base content rqs"
  shows "in_order 0 (length (fst (fs_split_lines content))) (sort_key ed_start (numbered_edits 0 rqs))"
  using assms numbered_edits_ranges [of rqs "fst (fs_split_lines content)" 0]
  by (intro overlapping_pair_None) (auto simp: acceptable_def)

lemma judge_accepted:
  assumes "acceptable version_of base content rqs"
  shows "judge_edits (fst (fs_split_lines content)) (snd (fs_split_lines content)) (numbered_edits 0 rqs) []
    = Ok (length rqs, edited content rqs)"
proof -
  have "length (numbered_edits 0 rqs) = length rqs" by (simp add: numbered_edits_def)
  moreover from this have "numbered_edits 0 rqs \<noteq> []" using assms by (auto simp: acceptable_def)
  moreover note rebuild_all [OF accepted_in_order [OF assms]]
  ultimately show ?thesis using assms by (simp add: judge_edits_def acceptable_def edited_def Let_def)
qed

lemma judge_refuses: "judge_edits lines nl es failures = Err (Applied n v) \<Longrightarrow> False"
  by (auto simp: judge_edits_def Let_def split: list.splits if_splits option.splits)

lemma planned_acceptable:
  assumes "judge_edits (fst (fs_split_lines content)) nl es failures = Ok (n, new)"
    and "check_edits (fst (fs_split_lines content)) 0 entries [] [] = Ok (es, failures)"
    and "\<not> stale base (version_of content)"
  shows "\<exists>rqs. entries = map Ok rqs \<and> acceptable version_of base content rqs"
proof -
  have none: "failures = []" "es \<noteq> []" "overlapping_pair (sort_key ed_start es) = None"
    using judge_edits_Ok [OF assms(1)] by auto
  with check_edits_no_failures [of "fst (fs_split_lines content)" 0 entries "[]" "[]" es] assms(2)
  obtain rqs where "entries = map Ok rqs" "es = numbered_edits 0 rqs" "\<forall>rq \<in> set rqs. good_edit (fst (fs_split_lines content)) rq"
    by auto
  with none assms(3) show ?thesis by (auto simp: acceptable_def stale_iff)
qed

text \<open>
  C20: a batch of edits is applied whole or refused whole. A batch the file's text accepts (the base is
  none or the file's fingerprint, and the edits name disjoint ranges within the file, each expecting
  exactly the text that is there) is one write of what one pass from the top with each range replaced
  gives, so every line number is a line of the file as it was read and the ending newline is kept: if
  that write succeeds the reply is a success, no other file changed, and the content before is
  remembered. If it fails, the call raises, nothing is remembered, no other file changed, and the file
  is what it was or holds a first part of the new content. In every other case no file changes, nothing
  is remembered, and the reply is not a success.
\<close>

theorem edit_whole_or_refused:
  assumes "fs_edit version_of io id path base edits_arg fs snaps = (reply, fs', snaps')" and "io_tears io"
  shows "if \<exists>content rqs. fs_read io fs path = Ok content \<and> edits_arg = Ok (map Ok rqs)
             \<and> acceptable version_of base content rqs
    then \<exists>content rqs. fs_read io fs path = Ok content \<and> edits_arg = Ok (map Ok rqs)
           \<and> (case io_write io path of
                None \<Rightarrow> reply = Ok (Applied (length rqs) (version_of (edited content rqs)))
                  \<and> fs' = fs(path \<mapsto> edited content rqs) \<and> snaps' = snaps(path_key path \<mapsto> content)
              | Some e \<Rightarrow> isl reply \<and> snaps' = snaps \<and> (\<forall>q. q \<noteq> path \<longrightarrow> fs' q = fs q)
                  \<and> (fs' path = Some content \<or> (\<exists>k. fs' path = Some (take k (edited content rqs)))))
    else fs' = fs \<and> snaps' = snaps \<and> (\<forall>n v. reply \<noteq> Ok (Applied n v))"
proof (cases "\<exists>content rqs. fs_read io fs path = Ok content \<and> edits_arg = Ok (map Ok rqs)
             \<and> acceptable version_of base content rqs")
  case True
  then obtain content rqs where c: "fs_read io fs path = Ok content" "edits_arg = Ok (map Ok rqs)"
    and acc: "acceptable version_of base content rqs" by blast
  have there: "fs path = Some content" using c(1) by (auto simp: fs_read_def split: option.splits if_splits)
  have "check_edits (fst (fs_split_lines content)) 0 (map Ok rqs) [] [] = Ok (numbered_edits 0 rqs, [])"
    using acc check_edits_good [of rqs "fst (fs_split_lines content)" 0 "[]" "[]"] by (simp add: acceptable_def)
  moreover have "\<not> stale base (version_of content)" using acc by (simp add: stale_iff acceptable_def)
  ultimately have run: "(reply, fs', snaps') =
      (case fs_write io ''fs.edit'' path (edited content rqs) fs of
         (Err e, fs') \<Rightarrow> (Err e, fs', snaps)
       | (Ok _, fs') \<Rightarrow> (Ok (Applied (length rqs) (version_of (edited content rqs))), fs', snaps(path_key path \<mapsto> content)))"
    using assms(1) c judge_accepted [OF acc] by (simp add: fs_edit_def)
  have left: "io_left io path (edited content rqs) (Some content) = Some content
      \<or> (\<exists>k. io_left io path (edited content rqs) (Some content) = Some (take k (edited content rqs)))"
    using assms(2) unfolding io_tears_def by blast
  have "case io_write io path of
      None \<Rightarrow> reply = Ok (Applied (length rqs) (version_of (edited content rqs)))
        \<and> fs' = fs(path \<mapsto> edited content rqs) \<and> snaps' = snaps(path_key path \<mapsto> content)
    | Some e \<Rightarrow> isl reply \<and> snaps' = snaps \<and> (\<forall>q. q \<noteq> path \<longrightarrow> fs' q = fs q)
        \<and> (fs' path = Some content \<or> (\<exists>k. fs' path = Some (take k (edited content rqs))))"
    using run left there by (simp add: fs_write_def split: option.splits)
  with True c show ?thesis by auto
next
  case False
  then show ?thesis
    using assms(1) by (auto simp: fs_edit_def split: sum.splits if_splits option.splits prod.splits
        dest: judge_refuses dest!: planned_acceptable [where version_of = version_of and base = base])
qed

definition demo_io :: io where
  "demo_io = \<lparr>io_read = (\<lambda>_. None), io_write = (\<lambda>_. None), io_left = (\<lambda>_ _ old. old)\<rparr>"

text \<open>A disk that is full after one byte.\<close>

definition full_io :: io where
  "full_io = demo_io\<lparr>io_write := (\<lambda>_. Some ''No space left on device''),
     io_left := (\<lambda>_ content _. Some (take 1 content))\<rparr>"

lemma demo_tears: "io_tears demo_io" "io_tears full_io"
  by (auto simp: io_tears_def demo_io_def full_io_def)

definition demo_text :: string where
  "demo_text = ''ab'' @ [newline] @ ''cd'' @ [newline] @ ''ef'' @ [newline]"

definition demo_edits :: "edit_request list" where
  "demo_edits = [\<lparr>er_start = 3, er_end = 3, er_expect = ''ef'', er_replace = []\<rparr>,
     \<lparr>er_start = 1, er_end = 1, er_expect = ''ab'', er_replace = ''x'' @ [newline] @ ''y''\<rparr>]"

lemma demo_read:
  "fs_read demo_io [''f'' \<mapsto> demo_text] ''f'' = Ok demo_text" "fs_read full_io [''f'' \<mapsto> demo_text] ''f'' = Ok demo_text"
proof -
  have "valid_utf8 demo_text" by code_simp
  then show "fs_read demo_io [''f'' \<mapsto> demo_text] ''f'' = Ok demo_text" "fs_read full_io [''f'' \<mapsto> demo_text] ''f'' = Ok demo_text"
    by (simp_all add: fs_read_def demo_io_def full_io_def)
qed

lemma demo_acceptable: "acceptable (\<lambda>_. ''v'') (Some ''v'') demo_text demo_edits"
proof -
  have lines: "fst (fs_split_lines demo_text) = [''ab'', ''cd'', ''ef'']" by code_simp
  have "\<forall>rq \<in> set demo_edits. good_edit [''ab'', ''cd'', ''ef''] rq"
    by (simp add: demo_edits_def good_edit_def)
  moreover have "overlapping_pair (sort_key ed_start (numbered_edits 0 demo_edits)) = None"
    by (simp add: demo_edits_def)
  ultimately show ?thesis by (simp add: acceptable_def lines demo_edits_def)
qed

theorem edit_whole_or_refused_witness:
  "fst (snd (fs_edit (\<lambda>_. ''v'') demo_io id ''f'' (Some ''v'') (Ok (map Ok demo_edits)) [''f'' \<mapsto> demo_text] Map.empty))
     = [''f'' \<mapsto> ''x'' @ [newline] @ ''y'' @ [newline] @ ''cd'' @ [newline]]
   \<and> isl (fst (fs_edit (\<lambda>_. ''v'') full_io id ''f'' (Some ''v'') (Ok (map Ok demo_edits)) [''f'' \<mapsto> demo_text] Map.empty))"
proof -
  obtain reply fs' snaps' where run: "fs_edit (\<lambda>_. ''v'') demo_io id ''f'' (Some ''v'') (Ok (map Ok demo_edits)) [''f'' \<mapsto> demo_text] Map.empty
      = (reply, fs', snaps')" by (metis prod_cases3)
  obtain reply2 fs2 snaps2 where run2: "fs_edit (\<lambda>_. ''v'') full_io id ''f'' (Some ''v'') (Ok (map Ok demo_edits)) [''f'' \<mapsto> demo_text] Map.empty
      = (reply2, fs2, snaps2)" by (metis prod_cases3)
  have "inj (map (Ok :: edit_request \<Rightarrow> string + edit_request))" by (simp add: inj_on_def)
  moreover have "edited demo_text demo_edits = ''x'' @ [newline] @ ''y'' @ [newline] @ ''cd'' @ [newline]" by code_simp
  moreover have "io_write demo_io ''f'' = None" "io_write full_io ''f'' = Some ''No space left on device''"
    by (simp_all add: demo_io_def full_io_def)
  ultimately show ?thesis
    using edit_whole_or_refused [OF run demo_tears(1)] edit_whole_or_refused [OF run2 demo_tears(2)] demo_read demo_acceptable
    by (auto simp: run run2 inj_eq)
qed

section \<open>Taking it back\<close>

text \<open>
  After a successful edit a rollback of the same path, however spelled, writes exactly the content
  the edit replaced, whatever happened to the file since, and says its fingerprint; nothing else
  changes, and a second rollback finds nothing to restore.
\<close>

theorem rollback_restores:
  assumes "fs_edit version_of io id path base edits_arg fs snaps = (Ok (Applied n v), fs', snaps')"
    and "path_key again = path_key path" and "io_write io again = None"
  shows "\<exists>content. fs path = Some content
     \<and> fs_rollback version_of io again later snaps' =
         (Ok (Some (version_of content)), later(again \<mapsto> content), snaps'(path_key path := None))
     \<and> fs_rollback version_of io again later' (snaps'(path_key path := None)) =
         (Ok None, later', snaps'(path_key path := None))"
proof -
  obtain content where c: "fs_read io fs path = Ok content" "snaps' (path_key path) = Some content"
    using assms(1) by (auto simp: fs_edit_def fs_write_def split: sum.splits if_splits option.splits dest!: judge_refuses)
  have "fs path = Some content" using c(1) by (auto simp: fs_read_def split: option.splits if_splits)
  with c(2) assms(2,3) show ?thesis by (simp add: fs_rollback_def fs_write_def fun_upd_idem Let_def)
qed

theorem rollback_restores_witness:
  "\<exists>fs' snaps'. fs_edit (\<lambda>_. ''v'') demo_io id ''f'' (Some ''v'') (Ok (map Ok demo_edits)) [''f'' \<mapsto> demo_text] Map.empty
        = (Ok (Applied 2 ''v''), fs', snaps')
     \<and> fst (snd (fs_rollback (\<lambda>_. ''v'') demo_io ''f/'' fs' snaps')) = fs'(''f/'' \<mapsto> demo_text)"
proof -
  have "check_edits (fst (fs_split_lines demo_text)) 0 (map Ok demo_edits) [] [] = Ok (numbered_edits 0 demo_edits, [])"
    using demo_acceptable check_edits_good [of demo_edits "fst (fs_split_lines demo_text)" 0 "[]" "[]"] by (simp add: acceptable_def)
  with judge_accepted [OF demo_acceptable] demo_read
  obtain fs' snaps' where run: "fs_edit (\<lambda>_. ''v'') demo_io id ''f'' (Some ''v'') (Ok (map Ok demo_edits)) [''f'' \<mapsto> demo_text] Map.empty
        = (Ok (Applied 2 ''v''), fs', snaps')"
    by (simp add: fs_edit_def stale_def fs_write_def) (simp add: demo_io_def demo_edits_def)
  have "path_key ''f/'' = path_key ''f''" by code_simp
  from rollback_restores [OF run this] run show ?thesis by (auto simp: demo_io_def)
qed

section \<open>Corners\<close>

text \<open>Deleting every line of a file that ends with a newline leaves an empty line, not an empty file.\<close>

lemma delete_all_leaves_a_line:
  "edited (''a'' @ [newline]) [\<lparr>er_start = 1, er_end = 1, er_expect = ''a'', er_replace = []\<rparr>] = [newline]"
  by code_simp

text \<open>A rollback whose write fails has forgotten the content it was to restore.\<close>

lemma failed_rollback_forgets:
  assumes "io_write io path = Some e" and "snaps (path_key path) = Some content"
  shows "isl (fst (fs_rollback version_of io path fs snaps))
    \<and> fs_rollback version_of io' path later (snd (snd (fs_rollback version_of io path fs snaps))) =
        (Ok None, later, snaps(path_key path := None))"
  using assms by (simp add: fs_rollback_def fs_write_def Let_def)

text \<open>
  An edit whose write fails part of the way has lost the text it was to replace: the file holds a part
  of the new content and a rollback does not know the old one.
\<close>

lemma failed_edit_loses_the_text:
  assumes "fs_read io fs path = Ok content" and "acceptable version_of base content rqs" and "io_write io path = Some e"
    and "io_left io path (edited content rqs) (Some content) = Some (take k (edited content rqs))"
  shows "fst (snd (fs_edit version_of io id path base (Ok (map Ok rqs)) fs snaps)) path = Some (take k (edited content rqs))
    \<and> snd (snd (fs_edit version_of io id path base (Ok (map Ok rqs)) fs snaps)) = snaps"
proof -
  have "check_edits (fst (fs_split_lines content)) 0 (map Ok rqs) [] [] = Ok (numbered_edits 0 rqs, [])"
    using assms(2) check_edits_good [of rqs "fst (fs_split_lines content)" 0 "[]" "[]"] by (simp add: acceptable_def)
  moreover have "\<not> stale base (version_of content)" using assms(2) by (simp add: stale_iff acceptable_def)
  moreover have "fs path = Some content" using assms(1) by (auto simp: fs_read_def split: option.splits if_splits)
  ultimately show ?thesis
    using assms(1,3,4) judge_accepted [OF assms(2)] by (simp add: fs_edit_def fs_write_def)
qed

text \<open>
  What somebody else writes to the file between an edit's read and its write is overwritten: the
  base was compared before.
\<close>

lemma edit_overwrites_concurrent_write:
  assumes "fs_read io fs path = Ok content" and "acceptable version_of base content rqs" and "io_write io path = None"
  shows "fst (snd (fs_edit version_of io (\<lambda>fs. fs(path \<mapsto> concurrent)) path base (Ok (map Ok rqs)) fs snaps)) path
    = Some (edited content rqs)"
proof -
  have "check_edits (fst (fs_split_lines content)) 0 (map Ok rqs) [] [] = Ok (numbered_edits 0 rqs, [])"
    using assms(2) check_edits_good [of rqs "fst (fs_split_lines content)" 0 "[]" "[]"] by (simp add: acceptable_def)
  moreover have "\<not> stale base (version_of content)" using assms(2) by (simp add: stale_iff acceptable_def)
  ultimately show ?thesis
    using assms(1,3) judge_accepted [OF assms(2)] by (simp add: fs_edit_def fs_write_def)
qed

text \<open>Only a path that is not there is reported missing; every other failure is an error.\<close>

lemma inspect_missing_iff:
  "inspect_path lmeta canon meta path = Ok r \<and> is_kind r = KMissing \<longleftrightarrow>
     r = \<lparr>is_kind = KMissing, is_dangling = False, is_canonical = None, is_id = None\<rparr> \<and> (\<exists>e. lmeta path = Err (NotFound e))"
  by (auto simp: inspect_path_def Let_def and_then_Ok_iff split: sum.splits io_error.splits if_splits)

end
