(* ===== verification/Cli_Knl.thy ===== *)
theory Cli_Knl
  imports Session_Lifecycle Logs Config
begin

text \<open>
  Reading a log from another process, \<open>agent-block knl\<close> of \<open>knl.rs\<close>: which database, the paged read
  of a whole session, the conversation it holds, and the three verbs over the collection of open logs.
  \<open>env k\<close> is what other processes wrote before page \<open>k\<close>; rendering JSON as text is an argument, and
  the lines a verb answers are what it writes to standard output. A failure is its words and the
  kernel's error behind them.
\<close>

type_synonym cli_failure = "string \<times> knl_error option"

definition quoted :: "string \<Rightarrow> string" where
  "quoted s = [CHR 0x27] @ s @ [CHR 0x27]"

section \<open>Which database\<close>

text \<open>\<open>present\<close> says which paths exist.\<close>

definition store_path :: "(string \<Rightarrow> bool) \<Rightarrow> env \<Rightarrow> string option \<Rightarrow> string \<Rightarrow> string + string" where
  "store_path present env store project_root =
     (case store of
        None \<Rightarrow>
          and_then (map_err (\<lambda>reason. fmt [''the project'', [CHR 0x27], ''s kernel database could not be located: '', reason])
              (knl_path env project_root)) (\<lambda>path.
            if present path then Ok path
            else Err (fmt [''no kernel database for the project at '', quoted project_root, '' (looked in '', quoted path,
              ''): nothing has opened a session there yet, or this is not the project you meant (-p/--project names another)'']))
      | Some named \<Rightarrow>
          (if present named then Ok named else Err (fmt [''no kernel database at '', quoted named])))"

section \<open>The whole stream, a page at a time\<close>

definition PAGE :: nat where
  "PAGE = 512"

function read_pages ::
  "'w event_store \<Rightarrow> 'w interference \<Rightarrow> nat \<Rightarrow> nat \<Rightarrow> json list \<Rightarrow> 'w \<Rightarrow> json list knl_result \<times> 'w" where
  "read_pages st env k start all w =
     (case es_read_kinds st None start (Some PAGE) (env k w) of
        (Err e, w') \<Rightarrow> (Err e, w')
      | (Ok page, w') \<Rightarrow>
          (if page = [] then (Ok all, w')
           else
             if \<not> PAGE \<le> length page \<or> u64_saturating_add (seq_of (last page)) 1 \<le> start
             then (Ok (all @ page), w')
             else read_pages st env (Suc k) (u64_saturating_add (seq_of (last page)) 1) (all @ page) w'))"
  by pat_completeness auto
termination
proof (relation "measure (\<lambda>(st, env, k, start, all, w). Suc u64_max - start)")
  fix st :: "'w event_store" and env :: "'w interference" and k start all w x page w'
  assume "\<not> (\<not> PAGE \<le> length page \<or> u64_saturating_add (seq_of (last page)) 1 \<le> start)"
  then show "((st, env, Suc k, u64_saturating_add (seq_of (last page)) 1, all @ page, w'), st, env, k, start, all, w)
      \<in> measure (\<lambda>(st, env, k, start, all, w). Suc u64_max - start)"
    by (auto simp: u64_saturating_add_def)
qed simp

declare read_pages.simps [simp del]

definition read_whole :: "'w event_store \<Rightarrow> 'w interference \<Rightarrow> 'w \<Rightarrow> json list knl_result \<times> 'w" where
  "read_whole st env w = read_pages st env 0 0 [] w"

section \<open>The conversation\<close>

datatype form = Events | Messages

definition result_text :: "(json \<Rightarrow> string) \<Rightarrow> json option \<Rightarrow> json" where
  "result_text show result =
     (case result of
        Some (JString t) \<Rightarrow> JString t
      | Some v \<Rightarrow> JString (show v)
      | None \<Rightarrow> JString (show JNull))"

text \<open>A field of the event's data, and what is recorded with every message.\<close>

definition msg_field :: "json \<Rightarrow> string \<Rightarrow> json option" where
  "msg_field event name = Option.bind (json_get event FIELD_DATA) (\<lambda>data. json_get data name)"

definition or_null :: "json option \<Rightarrow> json" where
  "or_null v = (case v of Some x \<Rightarrow> x | None \<Rightarrow> JNull)"

definition insert_some :: "string \<Rightarrow> json option \<Rightarrow> json_map \<Rightarrow> json_map" where
  "insert_some k v m = (case v of Some x \<Rightarrow> map_insert k x m | None \<Rightarrow> m)"

definition role_record :: "string \<Rightarrow> json \<Rightarrow> json_map" where
  "role_record role content = map_insert ''role'' (JString role) (map_insert ''content'' content [])"

definition tool_use_block :: "json \<Rightarrow> json_map" where
  "tool_use_block event =
     map_insert ''input'' (or_null (msg_field event ''args''))
       (map_insert ''name'' (or_null (msg_field event ''name''))
         (map_insert ''id'' (or_null (msg_field event ''call_id''))
           (map_insert ''type'' (JString ''tool_use'') [])))"

definition tool_result_block :: "(json \<Rightarrow> string) \<Rightarrow> json \<Rightarrow> json_map" where
  "tool_result_block show event =
     (let block =
        map_insert ''content'' (result_text show (msg_field event ''result''))
          (map_insert ''tool_use_id'' (or_null (msg_field event ''call_id''))
            (map_insert ''type'' (JString ''tool_result'') []))
      in if msg_field event ''ok'' = Some (JBool False) then map_insert ''is_error'' (JBool True) block else block)"

definition message_body :: "(json \<Rightarrow> string) \<Rightarrow> json \<Rightarrow> json_map option" where
  "message_body show event =
     (let kind = kind_of event in
      if kind = ''msg_user'' then Some (role_record ''user'' (or_null (msg_field event ''content'')))
      else if kind = ''llm_response'' then
        Some (insert_some ''stop_reason'' (msg_field event ''stop_reason'')
          (insert_some ''usage'' (msg_field event ''usage'')
            (role_record ''assistant'' (or_null (msg_field event ''content'')))))
      else if kind = ''tool_call'' then Some (role_record ''assistant'' (JObject (tool_use_block event)))
      else if kind = ''tool_result'' then Some (role_record ''user'' (JObject (tool_result_block show event)))
      else None)"

definition message_of :: "(json \<Rightarrow> string) \<Rightarrow> json \<Rightarrow> json option" where
  "message_of show event =
     map_option (\<lambda>record.
         let record = insert_some FIELD_BEAT (Option.bind (json_get event FIELD_META) (\<lambda>meta. json_get meta FIELD_BEAT)) record;
             record = map_insert FIELD_SEQ (json_of_u64 (seq_of event)) record;
             record = insert_some FIELD_EPOCH_MS (json_get event FIELD_EPOCH_MS) record
         in JObject (map_insert FIELD_KIND (JString (kind_of event)) record))
       (message_body show event)"

definition messages_of :: "(json \<Rightarrow> string) \<Rightarrow> json list \<Rightarrow> json list" where
  "messages_of show events = List.map_filter (message_of show) events"

definition record_lines :: "(json \<Rightarrow> string) \<Rightarrow> form \<Rightarrow> json list \<Rightarrow> string list" where
  "record_lines render form events =
     map render (case form of Events \<Rightarrow> events | Messages \<Rightarrow> messages_of render events)"

section \<open>The verbs\<close>

definition read_and_print ::
  "('l, 'tx, 'w) eventsdb \<Rightarrow> ('l, 'c, 'ct, 'lt, 'r, 'w) log_driver \<Rightarrow> (string \<Rightarrow> json option) \<Rightarrow> (json \<Rightarrow> string)
     \<Rightarrow> 'w interference \<Rightarrow> string \<Rightarrow> string \<Rightarrow> form \<Rightarrow> 'l logs \<Rightarrow> 'w \<Rightarrow> (cli_failure + string list) \<times> 'l logs \<times> 'w" where
  "read_and_print E D parse render env path session form lg w =
     (case store_open E D parse (path_new path) session lg w of
        (Err e, lg', w') \<Rightarrow> (Err (fmt [''opening the kernel database at '', quoted path], Some e), lg', w')
      | (Ok st, lg', w') \<Rightarrow>
          (case read_whole st env w' of
             (Err e, w'') \<Rightarrow> (Err (fmt [''reading the session '', quoted session], Some e), lg', w'')
           | (Ok events, w'') \<Rightarrow>
               (if events = []
                then (Err (fmt [''no session '', quoted session, '' in '', quoted path,
                  '' (a session with no events is a session that was never opened)''], None), lg', w'')
                else (Ok (record_lines render form events), lg', w''))))"

definition list_and_print ::
  "('l, 'c, 'ct, 'lt, 'r, 'w) log_driver \<Rightarrow> (string \<Rightarrow> json option) \<Rightarrow> (json \<Rightarrow> string) \<Rightarrow> string \<Rightarrow> string option
     \<Rightarrow> nat \<Rightarrow> 'l logs \<Rightarrow> 'w \<Rightarrow> (cli_failure + string list) \<times> 'l logs \<times> 'w" where
  "list_and_print D parse render path after n lg w =
     (case logs_sessions D parse (path_new path) after n lg w of
        (Err e, lg', w') \<Rightarrow> (Err (fmt [''listing the sessions in '', quoted path], Some e), lg', w')
      | (Ok found, lg', w') \<Rightarrow>
          (Ok (map (\<lambda>i. render (JObject (map_insert ''session'' (JString (si_session i))
             (map_insert ''head_seq'' (json_of_u64 (si_head_seq i)) [])))) found), lg', w'))"

text \<open>Every verb closes the logs it opened, whether it answered or failed; what a close fails with is only logged.\<close>

definition closing ::
  "('l, 'c, 'ct, 'lt, 'r, 'w) log_driver \<Rightarrow> ('l list \<Rightarrow> 'l list) \<Rightarrow> 'a \<times> 'l logs \<times> 'w \<Rightarrow> 'a \<times> 'w" where
  "closing D drain = (\<lambda>(r, lg, w). case logs_shutdown D drain lg w of (failures, lg', w') \<Rightarrow> (r, w'))"

datatype knl_command =
  Export "string option" string form
| Sessions "string option" "string option" nat
| Backup "string option" string

definition verb_store :: "knl_command \<Rightarrow> string option" where
  "verb_store c = (case c of Export st _ _ \<Rightarrow> st | Sessions st _ _ \<Rightarrow> st | Backup st _ \<Rightarrow> st)"

definition knl_verb ::
  "('l, 'tx, 'w) eventsdb \<Rightarrow> ('l, 'c, 'ct, 'lt, 'r, 'w) log_driver \<Rightarrow> (string \<Rightarrow> json option) \<Rightarrow> (json \<Rightarrow> string)
     \<Rightarrow> 'w interference \<Rightarrow> string \<Rightarrow> knl_command \<Rightarrow> 'l logs \<Rightarrow> 'w \<Rightarrow> (cli_failure + string list) \<times> 'l logs \<times> 'w" where
  "knl_verb E D parse render env path command lg w =
     (case command of
        Export _ session form \<Rightarrow> read_and_print E D parse render env path session form lg w
      | Sessions _ after n \<Rightarrow> list_and_print D parse render path after n lg w
      | Backup _ dest \<Rightarrow>
          (case logs_backup D parse (path_new path) (path_new dest) lg w of
             (r, lg', w') \<Rightarrow>
               (result_map (\<lambda>_. [fmt [''wrote '', dest]])
                  (map_err (\<lambda>e. (fmt [''copying the kernel database at '', quoted path, '' to '', quoted dest], Some e)) r),
                lg', w')))"

definition knl_run ::
  "('l, 'tx, 'w) eventsdb \<Rightarrow> ('l, 'c, 'ct, 'lt, 'r, 'w) log_driver \<Rightarrow> (string \<Rightarrow> json option) \<Rightarrow> (json \<Rightarrow> string)
     \<Rightarrow> ('l list \<Rightarrow> 'l list) \<Rightarrow> 'w interference \<Rightarrow> (string \<Rightarrow> bool) \<Rightarrow> env \<Rightarrow> knl_command \<Rightarrow> string \<Rightarrow> 'w
     \<Rightarrow> (cli_failure + string list) \<times> 'w" where
  "knl_run E D parse render drain env present vars command project_root w =
     (case store_path present vars (verb_store command) project_root of
        Err why \<Rightarrow> (Err (why, None), w)
      | Ok path \<Rightarrow> closing D drain (knl_verb E D parse render env path command logs_new w))"

end
