(* ===== verification/Cli_Knl_Properties.thy ===== *)
theory Cli_Knl_Properties
  imports Cli_Knl Reference_Host
begin

text \<open>
  What \<open>agent-block knl export\<close> answers: the whole stream in order, however other processes add to it
  between two pages, and the conversation as the four kinds of it, in order.
\<close>

section \<open>Pages of a numbered stream\<close>

lemma filter_from_numbered:
  "map cur_seq log = [a..<a + length log] \<Longrightarrow> filter (\<lambda>e. f \<le> cur_seq e) log = drop (f - a) log"
proof (induction log arbitrary: a)
  case (Cons e log)
  have "[a..<a + length (e # log)] = a # [Suc a..<Suc a + length log]"
    by (simp add: upt_conv_Cons del: upt_Suc)
  with Cons.prems have "cur_seq e = a" and rest: "map cur_seq log = [Suc a..<Suc a + length log]"
    by simp_all
  with Cons.IH [OF rest] show ?case
    by (cases "f \<le> a") (auto simp: not_le Suc_diff_Suc drop_Cons' intro!: arg_cong [where f = "\<lambda>n. drop n log"])
qed simp

lemma page_of_numbered:
  assumes "numbered log"
  shows "filter (\<lambda>e. f \<le> cur_seq e) log = drop (f - 1) log"
  using filter_from_numbered [of log "Suc 0"] assms by (simp add: numbered_def)

lemma numbered_nth: "numbered log \<Longrightarrow> i < length log \<Longrightarrow> cur_seq (log ! i) = Suc i"
  unfolding numbered_def by (drule arg_cong [where f = "\<lambda>l. l ! i"]) (simp del: upt_Suc)

lemma numbered_page_last:
  assumes "numbered log" and "m + n \<le> length log" and "0 < n"
  shows "cur_seq (last (take n (drop m log))) = m + n"
proof -
  have "last (take n (drop m log)) = log ! (m + n - 1)"
    using assms(2,3) by (simp add: last_conv_nth)
  then show ?thesis using numbered_nth [OF assms(1), of "m + n - 1"] assms(2,3) by simp
qed

context lawful_store
begin

lemma read_pages_grows:
  assumes "only_adds view env"
  shows "read_pages st env k start all w = (r, w') \<Longrightarrow> streams_grow (view w) (view w')"
proof (induction "u64_max - start" arbitrary: k start all w rule: less_induct)
  case less
  obtain rr w2 where read: "es_read_kinds st None start (Some PAGE) (env k w) = (rr, w2)" by fastforce
  from read_kinds [OF read] have grow: "streams_grow (view w) (view w2)" using only_addsD [OF assms] by simp
  note run = less.prems [unfolded read_pages.simps [of st env k] read, simplified]
  consider "w' = w2" | p where "start < u64_saturating_add (seq_of (last p)) 1"
      "read_pages st env (Suc k) (u64_saturating_add (seq_of (last p)) 1) (all @ p) w2 = (r, w')"
    using run by (cases rr) (auto simp: not_le split: if_splits)
  then show ?case
  proof cases
    case 1 with grow show ?thesis by simp
  next
    case 2
    then have "u64_max - u64_saturating_add (seq_of (last p)) 1 < u64_max - start"
      by (auto simp: u64_saturating_add_def min_def)
    from less.hyps [OF this 2(2)] show ?thesis by (rule streams_grow_trans [OF grow])
  qed
qed

lemma read_pages_law:
  assumes "only_adds view env"
  shows "read_pages st env k start all w = (Ok vs, w') \<Longrightarrow> all = map JObject (take (start - 1) (view w me)) \<Longrightarrow>
    start - 1 \<le> length (view w me) \<Longrightarrow> length (view w' me) < u64_max \<Longrightarrow> vs = map JObject (view w' me)"
proof (induction "u64_max - start" arbitrary: k start all w rule: less_induct)
  case less
  let ?w1 = "env k w" and ?m = "start - 1"
  from less.prems(1) obtain p w2 where read: "es_read_kinds st None start (Some PAGE) ?w1 = (Ok p, w2)"
    by (auto simp: read_pages.simps [of st env k] split: prod.splits sum.splits)
  note run = less.prems(1) [unfolded read_pages.simps [of st env k] read, simplified]
  from read_kinds [OF read] have v2: "view w2 = view ?w1"
    and p: "p = map JObject (take PAGE (drop ?m (view w2 me)))"
    by (auto simp: of_kinds_def page_of_numbered [OF numbered])
  have ext: "grows (view w me) (view w2 me)" using only_addsD [OF assms, of w k] v2 by (simp add: streams_grow_def)
  have all: "all = map JObject (take ?m (view w2 me))"
    using less.prems(2) grows_take [OF ext less.prems(3)] by simp
  have joined: "all @ p = map JObject (take (?m + PAGE) (view w2 me))" unfolding all p by (simp add: take_add)
  show ?case
  proof (cases "PAGE \<le> length p")
    case False
    then have "length (view w2 me) \<le> ?m + PAGE" unfolding p by simp
    with joined have "all @ p = map JObject (view w2 me)" by simp
    with run False show ?thesis by (auto split: if_splits)
  next
    case True
    then have len: "?m + PAGE \<le> length (view w2 me)" unfolding p by (auto simp: PAGE_def)
    have "last p = JObject (last (take PAGE (drop ?m (view w2 me))))"
      using True unfolding p by (subst last_map) (auto simp: PAGE_def)
    then have seq: "seq_of (last p) = ?m + PAGE"
      using numbered_page_last [OF numbered len] by (simp add: PAGE_def)
    have "grows (view w2 me) (view w' me)"
      using run read_pages_grows [OF assms] by (auto simp: streams_grow_def split: if_splits)
    with len less.prems(4) have small: "?m + PAGE < u64_max" using grows_length by fastforce
    then have nxt: "u64_saturating_add (?m + PAGE) 1 = Suc (?m + PAGE)" by (simp add: u64_saturating_add_def)
    have "p \<noteq> []" and adv: "start < Suc (?m + PAGE)" using True by (auto simp: PAGE_def)
    with run True seq nxt
    have "read_pages st env (Suc k) (Suc (?m + PAGE)) (all @ p) w2 = (Ok vs, w')" by simp
    from less.hyps [OF _ this] adv small joined len less.prems(4) show ?thesis by simp
  qed
qed

end

text \<open>
  The paged read answers the whole session: what \<open>read_whole\<close> returns is the stream as it stands
  when the last page is read, every event once and in order, whatever other processes append between
  two pages; and the read itself takes nothing from any stream, also when it fails.
\<close>

theorem read_whole_answers_the_stream:
  assumes "lawful_store st view me" and "only_adds view env" and "read_whole st env w = (r, w')"
    and "length (view w' me) < u64_max"
  shows "streams_grow (view w) (view w') \<and> (\<forall>vs. r = Ok vs \<longrightarrow> vs = map JObject (view w' me))"
proof -
  note run = assms(3) [unfolded read_whole_def]
  from lawful_store.read_pages_law [OF assms(1,2), of 0 0 "[]" w _ w'] run assms(4)
  have "r = Ok vs \<Longrightarrow> vs = map JObject (view w' me)" for vs by simp
  with lawful_store.read_pages_grows [OF assms(1,2) run] show ?thesis by simp
qed

theorem read_whole_answers_the_stream_witness:
  "\<exists>vs. fst (read_whole (demo_store ''a'') (\<lambda>k w. w) demo_world) = Ok vs \<and> length vs = 2
     \<and> vs = map JObject (demo_view (snd (read_whole (demo_store ''a'') (\<lambda>k w. w) demo_world)) ''a'')"
proof -
  let ?read = "es_read_kinds (demo_store ''a'') None 0 (Some PAGE) demo_world"
  have "case fst ?read of Ok p \<Rightarrow> length p = 2 | Err _ \<Rightarrow> False" by code_simp
  then obtain p w2 where read: "?read = (Ok p, w2)" and two: "length p = 2"
    by (cases ?read) (auto split: sum.splits)
  then have run: "read_whole (demo_store ''a'') (\<lambda>k w. w) demo_world = (Ok p, w2)"
    by (auto simp: read_whole_def read_pages.simps [of "demo_store ''a''"] PAGE_def)
  have size: "length (demo_view demo_world ''a'') = 2" by code_simp
  have "length (demo_view w2 ''a'') < u64_max"
    using lawful_store.read_kinds [OF demo_lawful read] size by (simp add: u64_max_def)
  from read_whole_answers_the_stream [where view = demo_view, OF demo_lawful only_adds_id run this] run two
  show ?thesis by simp
qed

section \<open>The conversation\<close>

definition is_message :: "json \<Rightarrow> bool" where
  "is_message event \<longleftrightarrow> kind_of event \<in> {''msg_user'', ''llm_response'', ''tool_call'', ''tool_result''}"

lemma message_of_iff: "(message_of render event \<noteq> None) = is_message event"
  by (simp add: message_of_def message_body_def is_message_def Let_def)

lemma insert_some_get [simp]:
  "map_get (insert_some k v m) k' = (if k' = k \<and> v \<noteq> None then v else map_get m k')"
  by (simp add: insert_some_def split: option.splits)

lemma message_names_its_event:
  assumes "message_of render event = Some m"
  shows "kind_of m = kind_of event \<and> seq_of m = seq_of event"
  using assms unfolding message_of_def Let_def
  by (auto simp: kind_of_def seq_of_def json_get_def FIELD_KIND_def FIELD_SEQ_def FIELD_EPOCH_MS_def FIELD_BEAT_def)

lemma messages_of_kinds:
  "map (\<lambda>m. (kind_of m, seq_of m)) (messages_of render events) =
   map (\<lambda>e. (kind_of e, seq_of e)) (filter is_message events)"
proof (induction events)
  case (Cons e events)
  then show ?case
    using message_of_iff [of render e] message_names_its_event [of render e]
    by (cases "message_of render e") (auto simp: messages_of_def List.map_filter_simps)
qed (simp add: messages_of_def List.map_filter_simps)

text \<open>
  An export as messages prints the conversation of the whole stream: on every database that keeps
  the laws of the log, one line for every user message, model response, tool call and tool result of
  the stream as it stands when the last page is read and for nothing else, in the order of the stream,
  each under the kind and the number of its event.
\<close>

theorem export_conversation:
  assumes "eventsdb_laws E rows renumber" and "logs_file D parse (path_new path) lg w = (Ok l, lg', w1)"
    and "only_adds (db_view rows l) env" and "length (db_view rows l w' me) < u64_max"
    and "read_and_print E D parse render env path me Messages lg w = (Ok lines, lg'', w')"
  shows "streams_grow (db_view rows l w1) (db_view rows l w') \<and> lg'' = lg' \<and> (\<exists>ms. lines = map render ms
    \<and> map (\<lambda>m. (kind_of m, seq_of m)) ms =
        map (\<lambda>e. (cur_kind e, cur_seq e)) (filter (is_message \<circ> JObject) (db_view rows l w' me)))"
proof -
  obtain events where run: "read_pages (sqlite_event_store E l me) env 0 0 [] w1 = (Ok events, w')"
    and lines: "lines = map render (messages_of render events)" "lg'' = lg'"
    using assms(2,5)
    by (auto simp: read_and_print_def store_open_def read_whole_def record_lines_def
        split: prod.splits sum.splits if_splits)
  note law = eventsdb_laws.adapter_lawful [OF assms(1), of l me]
  from lawful_store.read_pages_law [OF law assms(3) run] assms(4)
  have "events = map JObject (db_view rows l w' me)" by simp
  then have "map (\<lambda>m. (kind_of m, seq_of m)) (messages_of render events) =
      map (\<lambda>e. (cur_kind e, cur_seq e)) (filter (is_message \<circ> JObject) (db_view rows l w' me))"
    by (simp add: messages_of_kinds filter_map comp_def)
  with lines lawful_store.read_pages_grows [OF law assms(3) run] show ?thesis by blast
qed

definition demo_talk :: ref_world where
  "demo_talk = snd (session_append (kernel_event ''msg_user'' []) demo_session demo_world)"

text \<open>One database, whatever it is called.\<close>

definition one_log :: "(string, unit, unit, unit, unit, ref_world) log_driver" where
  "one_log = demo_driver\<lparr>log_open_with := \<lambda>p ups w. (Ok ''db'', w)\<rparr>"

theorem export_conversation_witness:
  "\<exists>m. fst (read_and_print ref_log one_log (\<lambda>s. None) demo_shown (\<lambda>k w. w) ''db'' ''a'' Messages logs_new demo_talk)
       = Ok [demo_shown m] \<and> kind_of m = ''msg_user'' \<and> seq_of m = 3"
proof -
  let ?file = "logs_file one_log (\<lambda>s. None) (path_new ''db'') logs_new demo_talk"
  let ?read = "es_read_kinds (sqlite_event_store ref_log ''db'' ''a'') None 0 (Some PAGE) demo_talk"
  obtain lg' where opens: "?file = (Ok ''db'', lg', demo_talk)"
    by (simp add: logs_file_def logs_new_def open_file_def prepare_legacy_def ensure_indexes_def index_body_def
        one_log_def demo_driver_def Let_def)
  have "case fst ?read of Ok p \<Rightarrow> length p = 3 | Err _ \<Rightarrow> False" by code_simp
  then obtain p w2 where read: "?read = (Ok p, w2)" and three: "length p = 3"
    by (cases ?read) (auto split: sum.splits)
  then have whole: "read_whole (sqlite_event_store ref_log ''db'' ''a'') (\<lambda>k w. w) demo_talk = (Ok p, w2)"
    by (auto simp: read_whole_def read_pages.simps [of "sqlite_event_store ref_log ''db'' ''a''"] PAGE_def)
  with three opens obtain ls where run: "read_and_print ref_log one_log (\<lambda>s. None) demo_shown (\<lambda>k w. w) ''db'' ''a''
      Messages logs_new demo_talk = (Ok ls, lg', w2)"
    by (cases p) (auto simp: read_and_print_def store_open_def)
  have same: "db_view ref_rows ''db'' w2 = db_view ref_rows ''db'' demo_talk"
    using lawful_store.read_kinds [OF rl.adapter_lawful read] by simp
  have size: "length (db_view ref_rows ''db'' demo_talk ''a'') = 3" by code_simp
  have talk: "map (\<lambda>e. (cur_kind e, cur_seq e)) (filter (is_message \<circ> JObject) (db_view ref_rows ''db'' demo_talk ''a'')) = [(''msg_user'', 3)]"
    by code_simp
  have "length (db_view ref_rows ''db'' w2 ''a'') < u64_max" unfolding same size by (simp add: u64_max_def)
  from export_conversation [where rows = ref_rows, OF rl.eventsdb_laws_axioms opens only_adds_id this run] run
  show ?thesis unfolding same talk by (auto simp: map_eq_Cons_conv)
qed

section \<open>The verbs\<close>

text \<open>A path nothing is at is refused before anything is opened, whatever the verb.\<close>

lemma verb_of_missing_database:
  assumes "\<not> present path" and "verb_store command = Some path"
  shows "\<exists>why. knl_run E D parse render drain env present vars command project_root w = (Err why, w)"
  using assms by (simp add: knl_run_def store_path_def)

end
