(* ===== verification/Blocks.thy ===== *)
theory Blocks
  imports Bridge_Knl Config
begin

text \<open>
  The block registry: the directories blocks and modules are looked up in (\<open>block_roots\<close>, \<open>lib_roots\<close>
  of \<open>host.rs\<close>) and the scan of \<open>blocks.rs\<close>. The file system is the record \<open>disk\<close> of functions over
  the world; a directory is listed by the names of its entries, a path is its components, and how a
  path is spelled is the disk's.
\<close>

section \<open>The file system\<close>

record 'w disk =
  dk_exists :: "path \<Rightarrow> 'w \<Rightarrow> bool"
  dk_is_file :: "path \<Rightarrow> 'w \<Rightarrow> bool"
  dk_is_dir :: "path \<Rightarrow> 'w \<Rightarrow> bool"
  dk_read_dir :: "path \<Rightarrow> 'w \<Rightarrow> string + string list"
  dk_read_text :: "path \<Rightarrow> 'w \<Rightarrow> string + string"
  dk_create_dir_all :: "path \<Rightarrow> 'w \<Rightarrow> (string + unit) \<times> 'w"
  dk_write :: "path \<Rightarrow> string \<Rightarrow> 'w \<Rightarrow> (string + unit) \<times> 'w"
  dk_make_private :: "path \<Rightarrow> 'w \<Rightarrow> (string + unit) \<times> 'w"
  dk_display :: "path \<Rightarrow> string"

text \<open>\<open>Path::join\<close> with a path given as text.\<close>

definition join_path :: "path \<Rightarrow> string \<Rightarrow> path" where
  "join_path p s =
     (if starts_with ''/'' s then path_new s
      else p @ (if p = [] then path_new s else filter (\<lambda>c. c \<noteq> CurDir) (path_new s)))"

text \<open>\<open>file_stem\<close> and \<open>extension\<close>: the name before and after its last dot, unless that dot begins it.\<close>

definition split_name :: "string \<Rightarrow> string \<times> string option" where
  "split_name n =
     (case rsplit_once (CHR ''.'') n of
        Some (before, after) \<Rightarrow> (if before = [] then (n, None) else (before, Some after))
      | None \<Rightarrow> (n, None))"

definition file_stem :: "path \<Rightarrow> string option" where
  "file_stem p = map_option (\<lambda>n. fst (split_name n)) (file_name p)"

definition extension :: "path \<Rightarrow> string option" where
  "extension p = Option.bind (file_name p) (\<lambda>n. snd (split_name n))"

section \<open>Where names are looked up\<close>

definition PROJECT_DIR :: string where
  "PROJECT_DIR = ''.agent-block''"

definition lib_roots :: "'w disk \<Rightarrow> env \<Rightarrow> path \<Rightarrow> 'w \<Rightarrow> path list" where
  "lib_roots D env project_root w =
     (let vendored_lib = join_path (join_path project_root PROJECT_DIR) ''lib'';
          project_lib = join_path project_root ''lib''
      in (if dk_is_dir D vendored_lib w then [vendored_lib] else [])
       @ (if dk_is_dir D project_lib w then [project_lib] else [])
       @ (case base_dir env of
            Ok home \<Rightarrow>
              (let user_lib = join_path (path_new home) ''lib''
               in if dk_is_dir D user_lib w then [user_lib] else [])
          | Err _ \<Rightarrow> []))"

definition block_roots :: "'w disk \<Rightarrow> env \<Rightarrow> path \<Rightarrow> 'w \<Rightarrow> path list" where
  "block_roots D env project_root w =
     (let vendored_blocks = join_path (join_path project_root PROJECT_DIR) ''blocks'';
          project_blocks = join_path project_root ''blocks''
      in (if dk_is_dir D vendored_blocks w then [vendored_blocks] else [])
       @ (if dk_is_dir D project_blocks w then [project_blocks] else [])
       @ (case base_dir env of
            Ok home \<Rightarrow>
              (let user_blocks = join_path (path_new home) ''blocks''
               in if dk_is_dir D user_blocks w then [user_blocks] else [])
          | Err _ \<Rightarrow> []))"

definition package_path_prefix :: "'w disk \<Rightarrow> path list \<Rightarrow> string" where
  "package_path_prefix D roots =
     concat (map (\<lambda>root. let r = from_utf8_lossy (dk_display D root) in fmt [r, ''/?.lua;'', r, ''/?/init.lua;'']) roots)"

section \<open>Blocks\<close>

record block =
  bl_name :: string
  bl_path :: path
  bl_doc :: string

definition block_dirs :: "'w disk \<Rightarrow> env \<Rightarrow> path \<Rightarrow> path list \<Rightarrow> 'w \<Rightarrow> path list" where
  "block_dirs D env project_root extra w = block_roots D env project_root w @ extra"

text \<open>\<open>leading_doc\<close>: the lines so far are the accumulator of the loop.\<close>

fun doc_lines :: "string list \<Rightarrow> string list \<Rightarrow> string list" where
  "doc_lines [] acc = acc"
| "doc_lines (line # rest) acc =
     (let trimmed = trim_start line in
      if trimmed = [] \<and> acc = [] then doc_lines rest acc
      else if \<not> starts_with ''--'' trimmed then acc
      else doc_lines rest (acc @ [trim (dropWhile (\<lambda>c. c = CHR ''-'') (drop 2 trimmed))]))"

definition leading_doc :: "string \<Rightarrow> string" where
  "leading_doc src = join_with [CHR 0x0A] (rev (dropWhile (\<lambda>l. l = []) (rev (doc_lines (str_lines src) []))))"

definition entry_point :: "'w disk \<Rightarrow> path \<Rightarrow> 'w \<Rightarrow> (string \<times> path) option" where
  "entry_point D p w =
     (if dk_is_file D p w then
        (if extension p \<noteq> Some ''lua'' then None
         else Option.bind (file_stem p) (\<lambda>name. if valid_utf8 name then Some (name, p) else None))
      else if dk_is_dir D p w then
        (let init = join_path p ''init.lua'' in
         if \<not> dk_is_file D init w then None
         else Option.bind (file_name p) (\<lambda>name. if valid_utf8 name then Some (name, init) else None))
      else None)"

text \<open>One entry of a directory: the first of a name is kept.\<close>

definition scan_entry :: "'w disk \<Rightarrow> 'w \<Rightarrow> path \<Rightarrow> block list \<Rightarrow> block list" where
  "scan_entry D w p blocks =
     (case entry_point D p w of
        None \<Rightarrow> blocks
      | Some (name, script) \<Rightarrow>
          if list_ex (\<lambda>b. bl_name b = name) blocks then blocks
          else blocks @ [\<lparr>bl_name = name, bl_path = script,
            bl_doc = (case dk_read_text D script w of Ok src \<Rightarrow> leading_doc src | Err _ \<Rightarrow> [])\<rparr>])"

definition scan_dir :: "'w disk \<Rightarrow> 'w \<Rightarrow> path \<Rightarrow> block list \<Rightarrow> block list" where
  "scan_dir D w dir blocks =
     (case dk_read_dir D dir w of
        Err _ \<Rightarrow> blocks
      | Ok names \<Rightarrow> fold (\<lambda>n. scan_entry D w (dir @ [Normal n])) (sort names) blocks)"

definition scan_blocks :: "'w disk \<Rightarrow> path list \<Rightarrow> 'w \<Rightarrow> block list" where
  "scan_blocks D dirs w = sort_key bl_name (fold (scan_dir D w) dirs [])"

definition find_block :: "block list \<Rightarrow> string \<Rightarrow> block option" where
  "find_block blocks name = find (\<lambda>b. bl_name b = name) blocks"

definition block_names :: "block list \<Rightarrow> string" where
  "block_names blocks = join_with '', '' (map bl_name blocks)"

end
