(* ===== verification/Block_Properties.thy ===== *)
theory Block_Properties
  imports Blocks
begin

text \<open>
  A scan registers every name once, under the first entry that has it in the order of the tiers: a
  lookup in the registry is a lookup in the entries as the directories list them.
\<close>

section \<open>The entries in order\<close>

definition dir_entries :: "'w disk \<Rightarrow> 'w \<Rightarrow> path \<Rightarrow> (string \<times> path) list" where
  "dir_entries D w dir =
     (case dk_read_dir D dir w of
        Err _ \<Rightarrow> []
      | Ok names \<Rightarrow> List.map_filter (\<lambda>n. entry_point D (dir @ [Normal n]) w) (sort names))"

definition block_entries :: "'w disk \<Rightarrow> 'w \<Rightarrow> path list \<Rightarrow> (string \<times> path) list" where
  "block_entries D w dirs = concat (map (dir_entries D w) dirs)"

definition doc_of :: "'w disk \<Rightarrow> 'w \<Rightarrow> path \<Rightarrow> string" where
  "doc_of D w p = (case dk_read_text D p w of Ok src \<Rightarrow> leading_doc src | Err _ \<Rightarrow> [])"

text \<open>What a registry that has seen the entries \<open>es\<close> looks like.\<close>

definition registers :: "'w disk \<Rightarrow> 'w \<Rightarrow> (string \<times> path) list \<Rightarrow> block list \<Rightarrow> bool" where
  "registers D w es bs \<longleftrightarrow> distinct (map bl_name bs)
     \<and> (\<forall>b \<in> set bs. map_of es (bl_name b) = Some (bl_path b) \<and> bl_doc b = doc_of D w (bl_path b))
     \<and> bl_name ` set bs = fst ` set es"

lemma registers_entry:
  assumes "registers D w es bs"
  shows "registers D w (es @ (case entry_point D p w of None \<Rightarrow> [] | Some e \<Rightarrow> [e])) (scan_entry D w p bs)"
proof (cases "entry_point D p w")
  case None
  with assms show ?thesis by (simp add: scan_entry_def)
next
  case (Some e)
  obtain name script where e: "e = (name, script)" by (cases e)
  show ?thesis
  proof (cases "name \<in> bl_name ` set bs")
    case True
    then have "list_ex (\<lambda>b. bl_name b = name) bs" by (auto simp: list_ex_iff)
    with Some e True assms show ?thesis
      by (auto simp: registers_def scan_entry_def map_add_Some_iff split: option.splits)
  next
    case False
    then have "\<not> list_ex (\<lambda>b. bl_name b = name) bs" by (auto simp: list_ex_iff)
    moreover have "map_of es name = None" using assms False by (simp add: registers_def map_of_eq_None_iff)
    ultimately show ?thesis using Some e False assms
      by (auto simp: registers_def scan_entry_def doc_of_def map_add_def split: option.splits)
  qed
qed

lemma registers_entries:
  "registers D w es bs \<Longrightarrow> registers D w (es @ List.map_filter (\<lambda>n. entry_point D (dir @ [Normal n]) w) names)
     (fold (\<lambda>n. scan_entry D w (dir @ [Normal n])) names bs)"
proof (induction names arbitrary: es bs)
  case (Cons n names)
  from Cons.IH [OF registers_entry [OF Cons.prems, of "dir @ [Normal n]"]] show ?case
    by (cases "entry_point D (dir @ [Normal n]) w") (simp_all add: List.map_filter_simps)
qed (simp add: List.map_filter_simps)

lemma registers_dir: "registers D w es bs \<Longrightarrow> registers D w (es @ dir_entries D w dir) (scan_dir D w dir bs)"
  using registers_entries by (auto simp: scan_dir_def dir_entries_def split: sum.splits)

lemma registers_dirs: "registers D w es bs \<Longrightarrow> registers D w (es @ block_entries D w dirs) (fold (scan_dir D w) dirs bs)"
proof (induction dirs arbitrary: es bs)
  case (Cons dir dirs)
  from Cons.IH [OF registers_dir [OF Cons.prems, of dir]] show ?case by (simp add: block_entries_def)
qed (simp add: block_entries_def)

lemma find_distinct:
  "distinct (map bl_name bs) \<Longrightarrow> find_block bs name = Some b \<longleftrightarrow> b \<in> set bs \<and> bl_name b = name"
  unfolding find_block_def
  by (induction bs) (auto simp: image_iff)

lemma scan_registers: "registers D w (block_entries D w dirs) (scan_blocks D dirs w)"
  using registers_dirs [of D w "[]" "[]" dirs]
  by (auto simp: registers_def scan_blocks_def distinct_map intro: inj_on_subset)

lemma scan_names: "sorted (map bl_name (scan_blocks D dirs w))" "distinct (map bl_name (scan_blocks D dirs w))"
  using scan_registers [of D w dirs] by (simp_all add: scan_blocks_def registers_def)

lemma scan_find:
  "map_option (\<lambda>b. (bl_name b, bl_path b, bl_doc b)) (find_block (scan_blocks D dirs w) name) =
     map_option (\<lambda>p. (name, p, doc_of D w p)) (map_of (block_entries D w dirs) name)"
proof (cases "find_block (scan_blocks D dirs w) name")
  case None
  then have "name \<notin> bl_name ` set (scan_blocks D dirs w)" by (auto simp: find_block_def find_None_iff)
  then have "map_of (block_entries D w dirs) name = None"
    using scan_registers [of D w dirs] by (simp add: registers_def map_of_eq_None_iff)
  with None show ?thesis by simp
next
  case (Some b)
  then have "b \<in> set (scan_blocks D dirs w)" "bl_name b = name"
    by (simp_all add: find_distinct [OF scan_names(2)])
  with scan_registers [of D w dirs] Some show ?thesis by (auto simp: registers_def)
qed

text \<open>
  C21: a scan is the directories read in order: the names it registers are sorted, each once, and a
  name resolves exactly to the first entry that has it, reading the directories from the first and
  each in the order of its names; its description is the header comment of that very script. A tier
  before another so shadows it name by name, and a directory that cannot be read hides nothing.
\<close>

theorem scan_resolves_in_order:
  "sorted (map bl_name (scan_blocks D dirs w)) \<and> distinct (map bl_name (scan_blocks D dirs w))
   \<and> map_option (\<lambda>b. (bl_name b, bl_path b, bl_doc b)) (find_block (scan_blocks D dirs w) name) =
       map_option (\<lambda>p. (name, p, doc_of D w p)) (map_of (block_entries D w dirs) name)"
  by (simp add: scan_names scan_find)

lemma vendored_tier_first:
  assumes "dk_is_dir D (join_path (join_path root PROJECT_DIR) ''blocks'') w"
    and "map_of (dir_entries D w (join_path (join_path root PROJECT_DIR) ''blocks'')) name = Some p"
  shows "map_option bl_path (find_block (scan_blocks D (block_dirs D env root extra w) w) name) = Some p"
proof -
  have "map_of (block_entries D w (block_dirs D env root extra w)) name = Some p"
    using assms by (simp add: block_dirs_def block_roots_def block_entries_def Let_def map_add_def)
  with scan_find [of D "block_dirs D env root extra w" w name] show ?thesis
    by (auto simp: map_option_case split: option.splits)
qed

end
