(* ===== verification/Host_Config.thy ===== *)
theory Host_Config
  imports Blocks Bridge_Bus Sources
begin

text \<open>
  What one run is given: \<open>BlockConfig\<close> and its builder, the resolution of its sources, the mesh
  identity's key and the directories its databases go in (\<open>host.rs\<close>). Handlers, tools' callbacks,
  HTTP clients and cancellation tokens are names; durations are milliseconds. A setter of the builder
  keeps its name.
\<close>

section \<open>The configuration\<close>

record agent_profile =
  ap_provider :: string
  ap_base_url :: "string option"
  ap_model :: "string option"
  ap_timeout :: f64
  ap_max_iterations :: nat
  ap_max_tokens :: "nat option"

datatype script_source = Script_Path path | Script_Inline string string | Default_Agent agent_profile

datatype prompt_source = Prompt_Inline string | Prompt_File path

datatype secret_key_source = Secret_Inline string | Secret_Env string

record host_tool =
  ht_name :: string
  ht_description :: string
  ht_input_schema :: json
  ht_group :: "string option"
  ht_handler :: nat

record block_config =
  bc_script :: script_source
  bc_project_root :: path
  bc_relay_url :: "string option"
  bc_secret_key :: "secret_key_source option"
  bc_mcp_rpc_timeout :: nat
  bc_prompt :: "prompt_source option"
  bc_context :: "prompt_source option"
  bc_host_handlers :: "(string \<times> nat) list"
  bc_host_handler :: "nat option"
  bc_host_tools :: "host_tool list"
  bc_http_client :: "nat option"
  bc_sql_path :: "string option"
  bc_kv_path :: "string option"
  bc_ts_path :: "string option"
  bc_session_labels :: json_map
  bc_extra_globals :: "string \<rightharpoonup> json"
  bc_auto_serve_bus :: bool
  bc_shutdown_token :: "nat option"
  bc_http_source :: "http_source_config option"

definition DEFAULT_RPC_TIMEOUT :: nat where
  "DEFAULT_RPC_TIMEOUT = 30000"

definition builder_new :: "script_source \<Rightarrow> path \<Rightarrow> block_config" where
  "builder_new script project_root =
     \<lparr>bc_script = script, bc_project_root = project_root, bc_relay_url = None, bc_secret_key = None,
      bc_mcp_rpc_timeout = DEFAULT_RPC_TIMEOUT, bc_prompt = None, bc_context = None,
      bc_host_handlers = [], bc_host_handler = None, bc_host_tools = [], bc_http_client = None,
      bc_sql_path = None, bc_kv_path = None, bc_ts_path = None, bc_session_labels = [],
      bc_extra_globals = Map.empty, bc_auto_serve_bus = False, bc_shutdown_token = None,
      bc_http_source = None\<rparr>"

text \<open>\<open>build\<close> hands the same fields over.\<close>

definition with_script :: "script_source \<Rightarrow> block_config \<Rightarrow> block_config" where
  "with_script v b = b\<lparr>bc_script := v\<rparr>"

definition with_project_root :: "path \<Rightarrow> block_config \<Rightarrow> block_config" where
  "with_project_root v b = b\<lparr>bc_project_root := v\<rparr>"

definition with_relay_url :: "string \<Rightarrow> block_config \<Rightarrow> block_config" where
  "with_relay_url v b = b\<lparr>bc_relay_url := Some v\<rparr>"

definition with_secret_key :: "secret_key_source \<Rightarrow> block_config \<Rightarrow> block_config" where
  "with_secret_key v b = b\<lparr>bc_secret_key := Some v\<rparr>"

definition with_mcp_rpc_timeout :: "nat \<Rightarrow> block_config \<Rightarrow> block_config" where
  "with_mcp_rpc_timeout v b = b\<lparr>bc_mcp_rpc_timeout := v\<rparr>"

definition with_prompt :: "prompt_source \<Rightarrow> block_config \<Rightarrow> block_config" where
  "with_prompt v b = b\<lparr>bc_prompt := Some v\<rparr>"

definition with_context :: "prompt_source \<Rightarrow> block_config \<Rightarrow> block_config" where
  "with_context v b = b\<lparr>bc_context := Some v\<rparr>"

definition with_host_handlers :: "(string \<times> nat) list \<Rightarrow> block_config \<Rightarrow> block_config" where
  "with_host_handlers v b = b\<lparr>bc_host_handlers := v\<rparr>"

definition with_host_handler :: "nat \<Rightarrow> block_config \<Rightarrow> block_config" where
  "with_host_handler v b = b\<lparr>bc_host_handler := Some v\<rparr>"

definition with_host_tools :: "host_tool list \<Rightarrow> block_config \<Rightarrow> block_config" where
  "with_host_tools v b = b\<lparr>bc_host_tools := v\<rparr>"

definition with_http_client :: "nat \<Rightarrow> block_config \<Rightarrow> block_config" where
  "with_http_client v b = b\<lparr>bc_http_client := Some v\<rparr>"

definition with_sql_path :: "string \<Rightarrow> block_config \<Rightarrow> block_config" where
  "with_sql_path v b = b\<lparr>bc_sql_path := Some v\<rparr>"

definition with_kv_path :: "string \<Rightarrow> block_config \<Rightarrow> block_config" where
  "with_kv_path v b = b\<lparr>bc_kv_path := Some v\<rparr>"

definition with_ts_path :: "string \<Rightarrow> block_config \<Rightarrow> block_config" where
  "with_ts_path v b = b\<lparr>bc_ts_path := Some v\<rparr>"

definition with_extra_globals :: "(string \<rightharpoonup> json) \<Rightarrow> block_config \<Rightarrow> block_config" where
  "with_extra_globals v b = b\<lparr>bc_extra_globals := v\<rparr>"

definition with_auto_serve_bus :: "bool \<Rightarrow> block_config \<Rightarrow> block_config" where
  "with_auto_serve_bus v b = b\<lparr>bc_auto_serve_bus := v\<rparr>"

definition with_shutdown_token :: "nat \<Rightarrow> block_config \<Rightarrow> block_config" where
  "with_shutdown_token v b = b\<lparr>bc_shutdown_token := Some v\<rparr>"

definition with_http_source :: "http_source_config \<Rightarrow> block_config \<Rightarrow> block_config" where
  "with_http_source v b = b\<lparr>bc_http_source := Some v\<rparr>"

definition session_label :: "string \<Rightarrow> json \<Rightarrow> block_config \<Rightarrow> block_config" where
  "session_label k v b = b\<lparr>bc_session_labels := map_insert k v (bc_session_labels b)\<rparr>"

section \<open>What a configuration exposes\<close>

datatype tool_source = HostRust | EmbeddedBlock

record tool_meta =
  tm_name :: string
  tm_description :: string
  tm_group :: "string option"
  tm_source :: tool_source

text \<open>\<open>embedded\<close> are the names of \<open>EMBEDDED_BLOCKS\<close>.\<close>

definition inspect_tools :: "string list \<Rightarrow> block_config \<Rightarrow> tool_meta list" where
  "inspect_tools embedded config =
     map (\<lambda>t. \<lparr>tm_name = ht_name t, tm_description = ht_description t, tm_group = ht_group t,
               tm_source = HostRust\<rparr>) (bc_host_tools config)
     @ map (\<lambda>name. \<lparr>tm_name = name,
               tm_description = fmt [''Embedded StdPkg block (require('', [CHR 0x22], name, [CHR 0x22], ''))''],
               tm_group = None, tm_source = EmbeddedBlock\<rparr>) embedded"

section \<open>Sources\<close>

record resolved_sources =
  rs_script_source :: string
  rs_script_name :: string
  rs_script_dir :: path
  rs_prompt :: "string option"
  rs_context :: "string option"
  rs_secret_key :: "string option"

definition resolve_prompt :: "'w disk \<Rightarrow> string \<Rightarrow> prompt_source option \<Rightarrow> 'w \<Rightarrow> block_error + string option" where
  "resolve_prompt D what source w =
     (case source of
        None \<Rightarrow> Ok None
      | Some (Prompt_Inline s) \<Rightarrow> Ok (Some s)
      | Some (Prompt_File p) \<Rightarrow>
          result_map Some (map_err (\<lambda>e. BE_Script (fmt [what, '' file '', dk_display D p, '': '', e])) (dk_read_text D p w)))"

text \<open>\<open>invoker\<close> is the embedded default agent.\<close>

definition resolve_sources :: "'w disk \<Rightarrow> env \<Rightarrow> string \<Rightarrow> block_config \<Rightarrow> 'w \<Rightarrow> block_error + resolved_sources" where
  "resolve_sources D env invoker config w =
     and_then
       (case bc_script config of
          Script_Path p \<Rightarrow>
            result_map (\<lambda>source. (source,
                (case file_name p of Some n \<Rightarrow> from_utf8_lossy n | None \<Rightarrow> ''unknown''),
                (case parent_path p of Some d \<Rightarrow> d | None \<Rightarrow> [CurDir])))
              (map_err (\<lambda>e. BE_Script (fmt [dk_display D p, '': '', e])) (dk_read_text D p w))
        | Script_Inline source name \<Rightarrow> Ok (source, name, bc_project_root config)
        | Default_Agent profile \<Rightarrow> Ok (invoker, ''default_agent_invoker.lua'', bc_project_root config))
       (\<lambda>(source, name, dir).
     and_then (resolve_prompt D ''prompt'' (bc_prompt config) w) (\<lambda>prompt.
     and_then (resolve_prompt D ''context'' (bc_context config) w) (\<lambda>context.
     Ok \<lparr>rs_script_source = source, rs_script_name = name, rs_script_dir = dir, rs_prompt = prompt,
         rs_context = context,
         rs_secret_key = (case bc_secret_key config of
            None \<Rightarrow> None
          | Some (Secret_Inline s) \<Rightarrow> Some s
          | Some (Secret_Env var) \<Rightarrow> env_var env var)\<rparr>)))"

section \<open>The mesh identity\<close>

text \<open>
  \<open>hex_decode_32\<close> slices bytes: an index inside a character is a panic, the answer \<open>None\<close>.
\<close>

definition hex_slice :: "string \<Rightarrow> nat \<Rightarrow> char option" where
  "hex_slice s k = (if is_char_boundary s k \<and> is_char_boundary s (Suc k) then Some (s ! k) else None)"

definition hex_value :: "char \<Rightarrow> nat option" where
  "hex_value c =
     (let n = of_char c :: nat in
      if byte_in 48 57 c then Some (n - 48)
      else if byte_in 97 102 c then Some (n - 87)
      else if byte_in 65 70 c then Some (n - 55)
      else None)"

definition bad_hex :: "nat \<Rightarrow> string" where
  "bad_hex k = fmt [''invalid hex at position '', string_of_nat k, '': invalid digit found in string'']"

fun hex_bytes :: "string \<Rightarrow> nat list \<Rightarrow> (string + nat list) option" where
  "hex_bytes s [] = Some (Ok [])"
| "hex_bytes s (i # rest) =
     (case hex_slice s (2 * i) of
        None \<Rightarrow> None
      | Some h \<Rightarrow>
     (case hex_value h of
        None \<Rightarrow> Some (Err (bad_hex (2 * i)))
      | Some hi \<Rightarrow>
     (case hex_slice s (2 * i + 1) of
        None \<Rightarrow> None
      | Some l \<Rightarrow>
     (case hex_value l of
        None \<Rightarrow> Some (Err (bad_hex (2 * i + 1)))
      | Some lo \<Rightarrow> map_option (result_map (\<lambda>bs. (16 * hi + lo) # bs)) (hex_bytes s rest)))))"

definition hex_decode_32 :: "string \<Rightarrow> (string + nat list) option" where
  "hex_decode_32 raw =
     (let s = trim raw in
      if length s \<noteq> 64 then Some (Err (fmt [''expected 64 hex chars, got '', string_of_nat (length s)]))
      else hex_bytes s [0..<32])"

section \<open>Directories of the databases\<close>

definition prepare_sqlite_dir :: "'w disk \<Rightarrow> string \<Rightarrow> string \<Rightarrow> 'w \<Rightarrow> (block_error + bool) \<times> 'w" where
  "prepare_sqlite_dir D p label w =
     (if is_memory_sql p then (Ok True, w)
      else case parent_path (path_new p) of
          None \<Rightarrow> (Ok False, w)
        | Some parent \<Rightarrow>
            (case dk_create_dir_all D parent w of
               (Err e, w') \<Rightarrow> (Err (BE_Runtime (fmt [label, '' dir create: '', e])), w')
             | (Ok _, w') \<Rightarrow> (Ok False, w')))"

definition prepare_knl_dir :: "'w disk \<Rightarrow> string \<Rightarrow> 'w \<Rightarrow> (block_error + unit) \<times> 'w" where
  "prepare_knl_dir D p w =
     (case parent_path (path_new p) of
        None \<Rightarrow> (Ok (), w)
      | Some parent \<Rightarrow>
          (if parent = [] then (Ok (), w)
           else case dk_create_dir_all D parent w of
               (r, w') \<Rightarrow> (map_err (\<lambda>e. BE_Runtime (fmt [''knl dir create '', dk_display D parent, '': '', e])) r, w')))"

section \<open>Facts\<close>

lemma hex_digit_value: "n < 16 \<Longrightarrow> hex_value (hex_digit n) = Some n"
  by (auto simp: hex_value_def hex_digit_def byte_in_def Let_def)

lemma hex_digit_plain: "n < 16 \<Longrightarrow> \<not> continuation (hex_digit n)"
  by (auto simp: hex_digit_def byte_in_def)

end
