(* ===== verification/Host_Run.thy ===== *)
theory Host_Run
  imports Host_Config Lua_Json
begin

text \<open>
  One run of the host, \<open>run_capture\<close> of \<open>host.rs\<close>: everything it acquires before the script, the
  script raced against the caller's cancellation, and the teardown. The VM, SQLite, the mesh and the
  listener are the record \<open>host_ops\<close>; a failure is \<open>Failed\<close>, a panic of the run \<open>Panicking\<close>.
\<close>

section \<open>What is outside\<close>

datatype isle_error = IsleLua string "string option" | IsleOther string

record isle_init =
  ii_script_name :: string
  ii_script_dir :: string
  ii_project_root :: path
  ii_prompt :: "string option"
  ii_context :: "string option"
  ii_globals :: "string \<rightharpoonup> json"

record 'w host_ops =
  ho_env :: "'w \<Rightarrow> env"
  ho_load_dotenv :: "path \<Rightarrow> 'w \<Rightarrow> 'w"
  ho_start_dispatcher :: "'w \<Rightarrow> 'w"
  ho_mesh_connect :: "nat list option \<Rightarrow> string \<Rightarrow> 'w \<Rightarrow> (string + unit) \<times> 'w"
  ho_listen :: "http_source_config \<Rightarrow> 'w \<Rightarrow> (string + unit) \<times> 'w"
  ho_canonicalize :: "path \<Rightarrow> 'w \<Rightarrow> path option"
  ho_current_dir :: "'w \<Rightarrow> string + path"
  ho_open_conn :: "string \<Rightarrow> string \<Rightarrow> nat \<Rightarrow> string option \<Rightarrow> 'w \<Rightarrow> (string + unit) \<times> 'w"
  ho_open_isle :: "string \<Rightarrow> string \<Rightarrow> nat \<Rightarrow> string option \<Rightarrow> 'w \<Rightarrow> (string + unit) \<times> 'w"
  ho_profile_json :: "agent_profile \<Rightarrow> json"
  ho_spawn_isle :: "isle_init \<Rightarrow> 'w \<Rightarrow> (string + unit) \<times> 'w"
  ho_spawn_handler_isle :: "isle_init \<Rightarrow> 'w \<Rightarrow> (string + unit) \<times> 'w"
  ho_register :: "'w \<Rightarrow> (string + unit) \<times> 'w"
  ho_register_handler :: "'w \<Rightarrow> (string + unit) \<times> 'w"
  ho_inject :: "host_tool list \<Rightarrow> 'w \<Rightarrow> (string + unit) \<times> 'w"
  ho_cancel_first :: "nat \<Rightarrow> 'w \<Rightarrow> bool"
  ho_eval :: "string \<Rightarrow> 'w \<Rightarrow> (isle_error + lua) \<times> 'w"
  ho_unwind :: "string \<Rightarrow> 'w \<Rightarrow> 'w"
  ho_tostring :: "lua \<Rightarrow> string + string"
  ho_show_float :: "lua_float \<Rightarrow> string"
  ho_raised :: "string \<Rightarrow> isle_error"
  ho_drain :: "nat \<Rightarrow> 'w \<Rightarrow> 'w"
  ho_listener_shutdown :: "'w \<Rightarrow> 'w"
  ho_disconnect_all :: "'w \<Rightarrow> (block_error + unit) \<times> 'w"
  ho_main_shutdown :: "'w \<Rightarrow> (string + unit) \<times> 'w"
  ho_handler_shutdown :: "'w \<Rightarrow> (string + unit) \<times> 'w"
  ho_logs_shutdown :: "'w \<Rightarrow> string list \<times> 'w"
  ho_ts_shutdown :: "'w \<Rightarrow> (string + unit) \<times> 'w"

datatype run_stop = Failed block_error | Panicking

type_synonym ('a, 'w) stage = "'w \<Rightarrow> (run_stop + 'a) \<times> 'w"

text \<open>The \<open>?\<close> operator between stages.\<close>

definition stage_then :: "('a, 'w) stage \<Rightarrow> ('a \<Rightarrow> ('b, 'w) stage) \<Rightarrow> ('b, 'w) stage" where
  "stage_then m f = (\<lambda>w. case m w of (Err e, w') \<Rightarrow> (Err e, w') | (Ok a, w') \<Rightarrow> f a w')"

definition stage_of :: "('e \<Rightarrow> block_error) \<Rightarrow> ('w \<Rightarrow> ('e + 'a) \<times> 'w) \<Rightarrow> ('a, 'w) stage" where
  "stage_of err m = (\<lambda>w. case m w of (r, w') \<Rightarrow> (map_err (\<lambda>e. Failed (err e)) r, w'))"

definition stage_result :: "block_error + 'a \<Rightarrow> ('a, 'w) stage" where
  "stage_result r = (\<lambda>w. (map_err Failed r, w))"

section \<open>Before the script\<close>

definition bus_part :: "block_config \<Rightarrow> bus_block_config" where
  "bus_part config =
     \<lparr>bb_host_handlers = bc_host_handlers config, bb_host_handler = bc_host_handler config,
      bb_auto_serve = bc_auto_serve_bus config\<rparr>"

text \<open>\<open>setup_event_bus\<close> as a stage: whether a dispatcher was started.\<close>

definition bus_stage :: "'w host_ops \<Rightarrow> (nat \<Rightarrow> bool) \<Rightarrow> block_config \<Rightarrow> (bool, 'w) stage" where
  "bus_stage H channel_ok config w =
     (case setup_event_bus channel_ok (ho_env H w) (bus_part config) of
        Err e \<Rightarrow> (Err (Failed e), w)
      | Ok SetupPanic \<Rightarrow> (Err Panicking, w)
      | Ok (SetUp _ None _) \<Rightarrow> (Ok False, w)
      | Ok (SetUp _ (Some _) _) \<Rightarrow> (Ok True, ho_start_dispatcher H w))"

definition connect_mesh :: "'w host_ops \<Rightarrow> string option \<Rightarrow> string option \<Rightarrow> (unit, 'w) stage" where
  "connect_mesh H relay_url secret_key w =
     (case relay_url of
        None \<Rightarrow> (Ok (), w)
      | Some url \<Rightarrow>
          (let connect = (\<lambda>bytes. stage_of (\<lambda>e. BE_Mesh (fmt [''connect to '', url, '' failed: '', e]))
                 (ho_mesh_connect H bytes url) w)
           in case secret_key of
                None \<Rightarrow> connect None
              | Some hex_str \<Rightarrow>
                  (case hex_decode_32 hex_str of
                     None \<Rightarrow> (Err Panicking, w)
                   | Some (Err e) \<Rightarrow> (Err (Failed (BE_Runtime (fmt [''secret-key: '', e]))), w)
                   | Some (Ok bytes) \<Rightarrow> connect (Some bytes))))"

definition listen_stage :: "'w host_ops \<Rightarrow> http_source_config option \<Rightarrow> (bool, 'w) stage" where
  "listen_stage H source =
     (case source of
        None \<Rightarrow> stage_result (Ok False)
      | Some cfg \<Rightarrow> stage_then (stage_of BE_Bus (ho_listen H cfg)) (\<lambda>_. stage_result (Ok True)))"

definition mcp_with_rpc_timeout :: "nat \<Rightarrow> block_error + unit" where
  "mcp_with_rpc_timeout t =
     (if t = 0 then Err (BE_Mcp ''rpc_timeout must be > 0 (got Duration::ZERO); every MCP RPC would time out immediately'')
      else Ok ())"

definition absolute_root :: "'w host_ops \<Rightarrow> path \<Rightarrow> (path, 'w) stage" where
  "absolute_root H root w =
     (case ho_canonicalize H root w of
        Some p \<Rightarrow> (Ok p, w)
      | None \<Rightarrow> (map_err (\<lambda>e. Failed (BE_Io e))
          (result_map (\<lambda>cwd. if root \<noteq> [] \<and> hd root = RootDir then root else cwd @ filter (\<lambda>c. c \<noteq> CurDir) root)
            (ho_current_dir H w)), w))"

definition open_sqlite_db ::
  "'w disk \<Rightarrow> 'w host_ops \<Rightarrow> (string \<Rightarrow> string \<Rightarrow> nat \<Rightarrow> string option \<Rightarrow> 'w \<Rightarrow> (string + unit) \<times> 'w)
     \<Rightarrow> string \<Rightarrow> string \<Rightarrow> (unit, 'w) stage" where
  "open_sqlite_db D H opens label p =
     stage_then (stage_of id (prepare_sqlite_dir D p label)) (\<lambda>is_memory w.
       stage_of (\<lambda>e. BE_Runtime (fmt [''sqlite open '', p, '': '', e]))
         (opens label p (sql_busy_timeout (ho_env H w))
           (if is_memory then None else Some (sql_journal_mode (ho_env H w)))) w)"

definition db_path :: "'w host_ops \<Rightarrow> string option \<Rightarrow> (env \<Rightarrow> string + string) \<Rightarrow> (string, 'w) stage" where
  "db_path H given from_env w =
     (case given of Some p \<Rightarrow> (Ok p, w) | None \<Rightarrow> (map_err (\<lambda>e. Failed (BE_Runtime e)) (from_env (ho_env H w)), w))"

definition init_sqlite :: "'w disk \<Rightarrow> 'w host_ops \<Rightarrow> block_config \<Rightarrow> (unit, 'w) stage" where
  "init_sqlite D H config =
     stage_then (db_path H (bc_sql_path config) sql_path) (\<lambda>sql.
     stage_then (open_sqlite_db D H (ho_open_conn H) ''sql'' sql) (\<lambda>_.
     stage_then (db_path H (bc_kv_path config) kv_path) (\<lambda>kv.
     stage_then (open_sqlite_db D H (ho_open_conn H) ''kv'' kv) (\<lambda>_.
     stage_then (db_path H (bc_ts_path config) ts_path) (\<lambda>ts.
     open_sqlite_db D H (ho_open_isle H) ''ts'' ts)))))"

definition knl_stage :: "'w disk \<Rightarrow> 'w host_ops \<Rightarrow> path \<Rightarrow> (string, 'w) stage" where
  "knl_stage D H root =
     stage_then (\<lambda>w. (map_err (\<lambda>e. Failed (BE_Runtime e)) (knl_path (ho_env H w) (dk_display D root)), w)) (\<lambda>store.
     stage_then (stage_of id (prepare_knl_dir D store)) (\<lambda>_. stage_result (Ok store)))"

definition run_globals :: "'w host_ops \<Rightarrow> block_config \<Rightarrow> string \<rightharpoonup> json" where
  "run_globals H config =
     (case bc_script config of
        Default_Agent profile \<Rightarrow> (bc_extra_globals config)(''_AGENT_PROFILE'' \<mapsto> ho_profile_json H profile)
      | _ \<Rightarrow> bc_extra_globals config)"

definition spawn_isles :: "'w host_ops \<Rightarrow> isle_init \<Rightarrow> (unit, 'w) stage" where
  "spawn_isles H init =
     stage_then (stage_of (\<lambda>e. BE_Runtime (fmt [''AsyncIsle spawn failed: '', e])) (ho_spawn_isle H init)) (\<lambda>_.
     stage_of (\<lambda>e. BE_Runtime (fmt [''handler isle spawn failed: '', e])) (ho_spawn_handler_isle H init))"

definition register_bridges :: "'w host_ops \<Rightarrow> (unit, 'w) stage" where
  "register_bridges H =
     stage_then (stage_of (\<lambda>e. BE_Runtime (fmt [''bridge register: '', e])) (ho_register H)) (\<lambda>_.
     stage_of (\<lambda>e. BE_Runtime (fmt [''handler bridge register: '', e])) (ho_register_handler H))"

definition inject_host_tools :: "'w host_ops \<Rightarrow> host_tool list \<Rightarrow> (unit, 'w) stage" where
  "inject_host_tools H tools =
     (if tools = [] then stage_result (Ok ())
      else stage_of (\<lambda>e. BE_Runtime (fmt [''host_tools inject: '', e])) (ho_inject H tools))"

record prepared_run =
  pr_sources :: resolved_sources
  pr_auto_serve :: bool
  pr_listener :: bool

definition prepare_run ::
  "'w disk \<Rightarrow> 'w host_ops \<Rightarrow> (nat \<Rightarrow> bool) \<Rightarrow> string \<Rightarrow> block_config \<Rightarrow> (prepared_run, 'w) stage" where
  "prepare_run D H channel_ok invoker config =
     stage_then (\<lambda>w. stage_result (resolve_sources D (ho_env H w) invoker config w) w) (\<lambda>rs.
     stage_then (\<lambda>w. (Ok (), ho_load_dotenv H (join_path (bc_project_root config) ''.env'') w)) (\<lambda>_.
     stage_then (bus_stage H channel_ok config) (\<lambda>auto.
     stage_then (connect_mesh H (bc_relay_url config) (rs_secret_key rs)) (\<lambda>_.
     stage_then (listen_stage H (bc_http_source config)) (\<lambda>listener.
     stage_then (stage_result (mcp_with_rpc_timeout (bc_mcp_rpc_timeout config))) (\<lambda>_.
     stage_then (absolute_root H (bc_project_root config)) (\<lambda>root.
     stage_then (init_sqlite D H config) (\<lambda>_.
     stage_then (knl_stage D H root) (\<lambda>store.
     stage_then (spawn_isles H \<lparr>ii_script_name = rs_script_name rs,
          ii_script_dir = from_utf8_lossy (dk_display D (rs_script_dir rs)), ii_project_root = root,
          ii_prompt = rs_prompt rs, ii_context = rs_context rs, ii_globals = run_globals H config\<rparr>) (\<lambda>_.
     stage_then (register_bridges H) (\<lambda>_.
     stage_then (inject_host_tools H (bc_host_tools config)) (\<lambda>_.
     stage_result (Ok \<lparr>pr_sources = rs, pr_auto_serve = auto, pr_listener = listener\<rparr>)))))))))))))"

section \<open>The script\<close>

definition chunk_value :: "'w host_ops \<Rightarrow> lua \<Rightarrow> string + string" where
  "chunk_value H v =
     (case v of
        LNil \<Rightarrow> Ok []
      | LStr s \<Rightarrow> (if valid_utf8 s then Ok s else Err ''invalid utf-8'')
      | LInt n \<Rightarrow> Ok (string_of_int n)
      | LNum x \<Rightarrow> Ok (ho_show_float H x)
      | LBool b \<Rightarrow> Ok (if b then ''true'' else ''false'')
      | _ \<Rightarrow> ho_tostring H v)"

fun isle_error_text :: "isle_error \<Rightarrow> string" where
  "isle_error_text (IsleLua msg (Some traceback)) = fmt [msg, [CHR 0x0A], traceback]"
| "isle_error_text (IsleLua msg None) = msg"
| "isle_error_text (IsleOther msg) = msg"

definition script_answer :: "'w host_ops \<Rightarrow> isle_error + lua \<Rightarrow> block_error + string" where
  "script_answer H r =
     map_err (\<lambda>e. script_failure (isle_error_text e)) (and_then r (\<lambda>v. map_err (ho_raised H) (chunk_value H v)))"

definition execute_script :: "'w host_ops \<Rightarrow> string \<Rightarrow> nat option \<Rightarrow> 'w \<Rightarrow> (block_error + string) \<times> 'w" where
  "execute_script H source shutdown_token w =
     (if (case shutdown_token of Some t \<Rightarrow> ho_cancel_first H t w | None \<Rightarrow> False)
      then (Err BE_Cancelled, ho_unwind H source w)
      else case ho_eval H source w of (r, w') \<Rightarrow> (script_answer H r, w'))"

section \<open>After the script\<close>

definition drain_auto_serve :: "'w host_ops \<Rightarrow> bool \<Rightarrow> 'w \<Rightarrow> 'w" where
  "drain_auto_serve H auto w = (if auto then ho_drain H (task_grace_ms (ho_env H w)) w else w)"

definition first_failure :: "block_error option \<Rightarrow> 'e + 'a \<Rightarrow> ('e \<Rightarrow> block_error) \<Rightarrow> block_error option" where
  "first_failure failure r err =
     (case r of Ok _ \<Rightarrow> failure | Err e \<Rightarrow> (case failure of None \<Rightarrow> Some (err e) | Some f \<Rightarrow> Some f))"

definition host_shutdown :: "'w host_ops \<Rightarrow> 'w \<Rightarrow> (block_error + unit) \<times> 'w" where
  "host_shutdown H w =
     (case ho_disconnect_all H w of (r1, w1) \<Rightarrow>
      let failure = first_failure None r1 id in
      case ho_main_shutdown H w1 of (r2, w2) \<Rightarrow>
      let failure = first_failure failure r2 (\<lambda>e. BE_Runtime (fmt [''AsyncIsle shutdown failed: '', e])) in
      case ho_handler_shutdown H w2 of (r3, w3) \<Rightarrow>
      case ho_logs_shutdown H w3 of (failures, w4) \<Rightarrow>
      case ho_ts_shutdown H w4 of (r5, w5) \<Rightarrow>
        (case failure of Some e \<Rightarrow> (Err e, w5) | None \<Rightarrow> (Ok (), w5)))"

definition run_capture ::
  "'w disk \<Rightarrow> 'w host_ops \<Rightarrow> (nat \<Rightarrow> bool) \<Rightarrow> string \<Rightarrow> block_config \<Rightarrow> (string, 'w) stage" where
  "run_capture D H channel_ok invoker config w =
     (case prepare_run D H channel_ok invoker config w of
        (Err e, w1) \<Rightarrow> (Err e, w1)
      | (Ok run, w1) \<Rightarrow>
     (case execute_script H (rs_script_source (pr_sources run)) (bc_shutdown_token config) w1 of
        (script_result, w2) \<Rightarrow>
     (let w3 = drain_auto_serve H (pr_auto_serve run) w2;
          w4 = (if pr_listener run then ho_listener_shutdown H w3 else w3)
      in case host_shutdown H w4 of
           (Err e, w5) \<Rightarrow> (Err (Failed e), w5)
         | (Ok _, w5) \<Rightarrow> (map_err Failed script_result, w5))))"

definition run_block :: "'w disk \<Rightarrow> 'w host_ops \<Rightarrow> (nat \<Rightarrow> bool) \<Rightarrow> string \<Rightarrow> block_config \<Rightarrow> (unit, 'w) stage" where
  "run_block D H channel_ok invoker config w =
     (case run_capture D H channel_ok invoker config w of (r, w') \<Rightarrow> (result_map (\<lambda>_. ()) r, w'))"

end
