(* ===== verification/Host_Run_Properties.thy ===== *)
theory Host_Run_Properties
  imports Host_Run
begin

text \<open>
  What a run leaves behind, told by a host whose operations write down that they ran: once the script
  was started every step of the teardown runs once and in order, whatever failed.
\<close>

section \<open>A host that keeps a journal\<close>

definition auto_serves :: "block_config \<Rightarrow> bool" where
  "auto_serves config \<longleftrightarrow> bc_auto_serve_bus config \<and> (bc_host_handlers config \<noteq> [] \<or> bc_host_handler config \<noteq> None)"

datatype host_step =
    Preparing | Listening | Executing | Draining | Unlistening
  | Disconnecting | Main_Down | Handler_Down | Logs_Down | Ts_Down

text \<open>What the journal goes on with after the script.\<close>

definition teardown :: "block_config \<Rightarrow> host_step list" where
  "teardown config =
     (if auto_serves config then [Draining] else []) @ (if bc_http_source config \<noteq> None then [Unlistening] else [])
     @ [Disconnecting, Main_Down, Handler_Down, Logs_Down, Ts_Down]"

locale journal_host =
  fixes D :: "'w disk" and H :: "'w host_ops" and tr :: "'w \<Rightarrow> host_step list"
  assumes prep_dir: "tr (snd (dk_create_dir_all D p w)) = tr w @ [Preparing]"
    and prep_dotenv: "tr (ho_load_dotenv H p w) = tr w @ [Preparing]"
    and prep_dispatcher: "tr (ho_start_dispatcher H w) = tr w @ [Preparing]"
    and prep_mesh: "tr (snd (ho_mesh_connect H k u w)) = tr w @ [Preparing]"
    and prep_listen: "tr (snd (ho_listen H c w)) = tr w @ [Listening]"
    and prep_conn: "tr (snd (ho_open_conn H l d b j w)) = tr w @ [Preparing]"
    and prep_ts: "tr (snd (ho_open_isle H l d b j w)) = tr w @ [Preparing]"
    and prep_isle: "tr (snd (ho_spawn_isle H i w)) = tr w @ [Preparing]"
    and prep_handler_isle: "tr (snd (ho_spawn_handler_isle H i w)) = tr w @ [Preparing]"
    and prep_register: "tr (snd (ho_register H w)) = tr w @ [Preparing]"
    and prep_register_handler: "tr (snd (ho_register_handler H w)) = tr w @ [Preparing]"
    and prep_inject: "tr (snd (ho_inject H ts w)) = tr w @ [Preparing]"
    and exec_eval: "tr (snd (ho_eval H s w)) = tr w @ [Executing]"
    and exec_unwind: "tr (ho_unwind H s w) = tr w @ [Executing]"
    and down_drain: "tr (ho_drain H g w) = tr w @ [Draining]"
    and down_listener: "tr (ho_listener_shutdown H w) = tr w @ [Unlistening]"
    and down_mcp: "tr (snd (ho_disconnect_all H w)) = tr w @ [Disconnecting]"
    and down_main: "tr (snd (ho_main_shutdown H w)) = tr w @ [Main_Down]"
    and down_handler: "tr (snd (ho_handler_shutdown H w)) = tr w @ [Handler_Down]"
    and down_logs: "tr (snd (ho_logs_shutdown H w)) = tr w @ [Logs_Down]"
    and down_ts: "tr (snd (ho_ts_shutdown H w)) = tr w @ [Ts_Down]"
begin

text \<open>
  A stage that only prepares, with what its answer says of it and of whether the listener came up.
\<close>

definition runs :: "('a, 'w) stage \<Rightarrow> ('a \<Rightarrow> bool \<Rightarrow> bool) \<Rightarrow> bool" where
  "runs m Q \<longleftrightarrow> (\<forall>w. \<exists>xs. tr (snd (m w)) = tr w @ xs \<and> set xs \<subseteq> {Preparing, Listening}
     \<and> (\<forall>a. fst (m w) = Ok a \<longrightarrow> Q a (Listening \<in> set xs)))"

lemma runsI:
  assumes "\<And>w. \<exists>xs. tr (snd (m w)) = tr w @ xs \<and> set xs \<subseteq> {Preparing, Listening}
     \<and> (\<forall>a. fst (m w) = Ok a \<longrightarrow> Q a (Listening \<in> set xs))"
  shows "runs m Q"
  unfolding runs_def using assms by blast

lemma runsD:
  assumes "runs m Q" and "m w = (r, w')"
  shows "\<exists>xs. tr w' = tr w @ xs \<and> set xs \<subseteq> {Preparing, Listening} \<and> (\<forall>a. r = Ok a \<longrightarrow> Q a (Listening \<in> set xs))"
  using assms(1) [unfolded runs_def, rule_format, of w] unfolding assms(2) by simp

lemma runs_then:
  assumes m: "runs m Q" and f: "\<And>a l. Q a l \<Longrightarrow> runs (f a) (\<lambda>b l'. S b (l \<or> l'))"
  shows "runs (stage_then m f) S"
proof (rule runsI)
  fix w
  obtain r1 w1 where m1: "m w = (r1, w1)" by (cases "m w")
  obtain xs where xs: "tr w1 = tr w @ xs" "set xs \<subseteq> {Preparing, Listening}"
    and q: "\<And>a. r1 = Ok a \<Longrightarrow> Q a (Listening \<in> set xs)"
    using runsD [OF m m1] by blast
  show "\<exists>xs. tr (snd (stage_then m f w)) = tr w @ xs \<and> set xs \<subseteq> {Preparing, Listening}
      \<and> (\<forall>a. fst (stage_then m f w) = Ok a \<longrightarrow> S a (Listening \<in> set xs))"
  proof (cases r1)
    case (Inl e)
    with m1 xs show ?thesis by (intro exI [of _ xs]) (simp add: stage_then_def)
  next
    case (Inr a)
    obtain r w' where run: "f a w1 = (r, w')" by (cases "f a w1")
    obtain ys where "tr w' = tr w1 @ ys" "set ys \<subseteq> {Preparing, Listening}"
        "\<And>b. r = Ok b \<Longrightarrow> S b (Listening \<in> set xs \<or> Listening \<in> set ys)"
      using runsD [OF f [OF q [OF Inr]] run] by blast
    with xs m1 Inr run show ?thesis by (intro exI [of _ "xs @ ys"]) (simp add: stage_then_def)
  qed
qed

lemma runs_mono:
  assumes "runs m Q" and "\<And>a l. Q a l \<Longrightarrow> S a l"
  shows "runs m S"
  using assms unfolding runs_def by blast

abbreviation plain :: "('a, 'w) stage \<Rightarrow> bool" where
  "plain m \<equiv> runs m (\<lambda>a l. \<not> l)"

lemma runs_plain:
  assumes "plain m" and "\<And>a. runs (f a) Q"
  shows "runs (stage_then m f) Q"
  by (rule runs_then [OF assms(1)]) (simp add: assms(2))

lemma plain_pure: "plain (\<lambda>w. (g w, w))"
  by (rule runsI) simp

lemma plain_result: "plain (stage_result r)"
  unfolding stage_result_def by (rule plain_pure)

lemma plain_step:
  assumes "\<And>w. tr (snd (m w)) = tr w @ [Preparing]"
  shows "plain m"
  by (rule runsI) (simp add: assms)

lemma snd_stage_of [simp]: "snd (stage_of err m w) = snd (m w)"
  by (simp add: stage_of_def split: prod.splits)

lemma plain_of:
  assumes "\<And>w. tr (snd (m w)) = tr w @ [Preparing]"
  shows "plain (stage_of err m)"
  by (rule plain_step) (simp add: assms)

lemma plain_if: "plain m \<Longrightarrow> plain m' \<Longrightarrow> plain (if c then m else m')"
  by simp

lemma plain_nothing:
  assumes "\<And>w. snd (m w) = w \<or> tr (snd (m w)) = tr w @ [Preparing]"
  shows "plain m"
proof (rule runsI)
  fix w
  show "\<exists>xs. tr (snd (m w)) = tr w @ xs \<and> set xs \<subseteq> {Preparing, Listening}
     \<and> (\<forall>a. fst (m w) = Ok a \<longrightarrow> \<not> Listening \<in> set xs)"
    using assms [of w] by (elim disjE) (rule exI [of _ "[]"], simp, rule exI [of _ "[Preparing]"], simp)
qed

lemma runs_bus: "runs (bus_stage H channel_ok config)
    (\<lambda>a l. \<not> l \<and> a = auto_serves config)"
proof (rule runsI)
  fix w
  show "\<exists>xs. tr (snd (bus_stage H channel_ok config w)) = tr w @ xs \<and> set xs \<subseteq> {Preparing, Listening}
     \<and> (\<forall>a. fst (bus_stage H channel_ok config w) = Ok a \<longrightarrow> Listening \<notin> set xs \<and>
        a = auto_serves config)"
    by (auto simp: bus_stage_def setup_event_bus_def Let_def and_then_def bus_part_def prep_dispatcher auto_serves_def
        split: sum.splits setup_end.splits option.splits if_splits)
qed

lemma plain_mesh: "plain (connect_mesh H relay key)"
  by (rule plain_nothing)
    (auto simp: connect_mesh_def prep_mesh split: option.splits sum.splits)

lemma runs_listen: "runs (listen_stage H source) (\<lambda>a l. a = l \<and> l = (source \<noteq> None))"
proof (cases source)
  case None
  then show ?thesis by (simp add: listen_stage_def runs_def stage_result_def)
next
  case (Some cfg)
  have "runs (stage_of BE_Bus (ho_listen H cfg)) (\<lambda>a l. l)"
    by (rule runsI) (simp add: prep_listen)
  then show ?thesis unfolding Some listen_stage_def option.simps
    by (rule runs_then) (simp add: runs_def stage_result_def)
qed

lemma plain_root: "plain (absolute_root H root)"
  by (rule plain_nothing) (simp add: absolute_root_def split: option.splits)

lemma plain_open:
  assumes "\<And>l d b j w. tr (snd (opens l d b j w)) = tr w @ [Preparing]"
  shows "plain (open_sqlite_db D H opens label p)"
  unfolding open_sqlite_db_def
proof (rule runs_plain)
  show "plain (stage_of id (prepare_sqlite_dir D p label))"
  proof (rule plain_nothing)
    fix w
    show "snd (stage_of id (prepare_sqlite_dir D p label) w) = w
        \<or> tr (snd (stage_of id (prepare_sqlite_dir D p label) w)) = tr w @ [Preparing]"
      using prep_dir [of _ w] by (auto simp: prepare_sqlite_dir_def split: option.splits prod.splits sum.splits) (metis snd_conv)+
  qed
  show "plain (\<lambda>w. stage_of (\<lambda>e. BE_Runtime (fmt [''sqlite open '', p, '': '', e]))
         (opens label p (sql_busy_timeout (ho_env H w))
           (if m then None else Some (sql_journal_mode (ho_env H w)))) w)" for m
    by (rule plain_step) (simp add: assms)
qed

lemma plain_db: "plain (db_path H given f)"
  by (rule plain_nothing) (simp add: db_path_def split: option.splits)

lemma plain_sqlite: "plain (init_sqlite D H config)"
  unfolding init_sqlite_def by (intro runs_plain plain_db plain_open prep_conn prep_ts)

lemma plain_knl: "plain (knl_stage D H root)"
  unfolding knl_stage_def
proof (intro runs_plain plain_pure plain_result)
  show "plain (stage_of id (prepare_knl_dir D store))" for store
  proof (rule plain_nothing)
    fix w
    show "snd (stage_of id (prepare_knl_dir D store) w) = w
        \<or> tr (snd (stage_of id (prepare_knl_dir D store) w)) = tr w @ [Preparing]"
      using prep_dir [of _ w] by (auto simp: prepare_knl_dir_def split: option.splits prod.splits) (metis snd_conv)+
  qed
qed

lemmas plain_rules = plain_pure plain_result plain_mesh plain_root plain_sqlite plain_knl

lemma plain_isles: "plain (spawn_isles H init)"
  unfolding spawn_isles_def by (intro runs_plain plain_of prep_isle prep_handler_isle)

lemma plain_bridges: "plain (register_bridges H)"
  unfolding register_bridges_def by (intro runs_plain plain_of prep_register prep_register_handler)

lemma plain_tools: "plain (inject_host_tools H tools)"
  unfolding inject_host_tools_def by (intro plain_if plain_result plain_of prep_inject)

lemma runs_prepare: "runs (prepare_run D H channel_ok invoker config)
    (\<lambda>run l. pr_auto_serve run = auto_serves config \<and> pr_listener run = l \<and> l = (bc_http_source config \<noteq> None))"
proof -
  have rest: "runs (stage_then (absolute_root H root) (\<lambda>r. stage_then (init_sqlite D H config) (\<lambda>_.
      stage_then (knl_stage D H r) (\<lambda>store. stage_then (spawn_isles H (init r)) (\<lambda>_.
      stage_then (register_bridges H) (\<lambda>_. stage_then (inject_host_tools H tools) (\<lambda>_. stage_result (Ok x)))))))
      ) (\<lambda>run l. \<not> l \<and> run = x)" for root init tools x
    by (intro runs_plain plain_rules plain_isles plain_bridges plain_tools) (simp add: runs_def stage_result_def)
  have sources: "plain (\<lambda>w. stage_result (resolve_sources D (ho_env H w) invoker config w) w)"
    by (rule plain_nothing) (simp add: stage_result_def)
  have dotenv: "plain (\<lambda>w. (Ok (), ho_load_dotenv H (join_path (bc_project_root config) ''.env'') w))"
    by (rule plain_step) (simp add: prep_dotenv)
  show ?thesis unfolding prepare_run_def
    by (rule runs_plain [OF sources], rule runs_plain [OF dotenv], rule runs_then [OF runs_bus],
        rule runs_then [OF plain_mesh], rule runs_then [OF runs_listen], rule runs_then [OF plain_result],
        rule runs_mono [OF rest], auto)
qed

lemma shutdown_steps:
  "tr (snd (host_shutdown H w)) = tr w @ [Disconnecting, Main_Down, Handler_Down, Logs_Down, Ts_Down]"
proof -
  obtain r1 w1 r2 w2 r3 w3 r4 w4 r5 w5 where
    at: "ho_disconnect_all H w = (r1, w1)" "ho_main_shutdown H w1 = (r2, w2)"
      "ho_handler_shutdown H w2 = (r3, w3)" "ho_logs_shutdown H w3 = (r4, w4)" "ho_ts_shutdown H w4 = (r5, w5)"
    by (metis surj_pair)
  have "snd (host_shutdown H w) = w5"
    by (simp add: host_shutdown_def at split: option.split)
  moreover have "tr w5 = tr w @ [Disconnecting, Main_Down, Handler_Down, Logs_Down, Ts_Down]"
    using down_mcp [of w] down_main [of w1] down_handler [of w2] down_logs [of w3] down_ts [of w4] by (simp add: at)
  ultimately show ?thesis by simp
qed

lemma run_journal:
  assumes "run_capture D H channel_ok invoker config w = (r, w')"
  shows "\<exists>before. set before \<subseteq> {Preparing, Listening}
    \<and> (case prepare_run D H channel_ok invoker config w of
         (Err e, _) \<Rightarrow> r = Err e \<and> tr w' = tr w @ before
       | (Ok _, _) \<Rightarrow> (Listening \<in> set before) = (bc_http_source config \<noteq> None)
           \<and> tr w' = tr w @ before @ Executing # teardown config)
    \<and> (\<forall>v. r = Ok v \<longrightarrow> (\<exists>run w1. prepare_run D H channel_ok invoker config w = (Ok run, w1)
         \<and> fst (execute_script H (rs_script_source (pr_sources run)) (bc_shutdown_token config) w1) = Ok v))"
proof -
  obtain p w1 where prep: "prepare_run D H channel_ok invoker config w = (p, w1)" by fastforce
  obtain xs where xs: "tr w1 = tr w @ xs" "set xs \<subseteq> {Preparing, Listening}"
    and q: "\<And>run. p = Ok run \<Longrightarrow> pr_auto_serve run = auto_serves config \<and> pr_listener run = (Listening \<in> set xs)
        \<and> (Listening \<in> set xs) = (bc_http_source config \<noteq> None)"
    using runsD [OF runs_prepare prep] by blast
  show ?thesis
  proof (cases p)
    case (Inl e)
    with assms prep xs show ?thesis by (intro exI [of _ xs]) (auto simp: run_capture_def)
  next
    case (Inr run)
    obtain sr w2 where ex: "execute_script H (rs_script_source (pr_sources run)) (bc_shutdown_token config) w1 = (sr, w2)"
      by fastforce
    then have t2: "tr w2 = tr w1 @ [Executing]"
      using exec_eval [of "rs_script_source (pr_sources run)" w1]
      by (auto simp: execute_script_def exec_unwind split: if_splits prod.splits)
    define w4 where "w4 = (if pr_listener run then ho_listener_shutdown H (drain_auto_serve H (pr_auto_serve run) w2)
        else drain_auto_serve H (pr_auto_serve run) w2)"
    have t4: "tr w4 = tr w2 @ (if auto_serves config then [Draining] else [])
        @ (if bc_http_source config \<noteq> None then [Unlistening] else [])"
      using q [OF Inr] unfolding w4_def by (auto simp: drain_auto_serve_def down_drain down_listener)
    have "w' = snd (host_shutdown H w4)" and ans: "\<And>v. r = Ok v \<Longrightarrow> sr = Ok v"
      using assms prep Inr ex by (auto simp: run_capture_def Let_def w4_def map_err_def split: prod.splits sum.splits)
    then have "tr w' = tr w @ xs @ Executing # teardown config"
      using shutdown_steps [of w4] t4 t2 xs(1) by (simp add: teardown_def)
    with prep Inr xs(2) q [OF Inr] ex ans show ?thesis by (intro exI [of _ xs]) simp
  qed
qed

end

section \<open>A host in memory\<close>

text \<open>\<open>isle\<close> is what starting the VM answers, \<open>mcp\<close> what disconnecting the servers does.\<close>

definition memory_disk :: "host_step list disk" where
  "memory_disk =
     \<lparr>dk_exists = (\<lambda>p w. True), dk_is_file = (\<lambda>p w. True), dk_is_dir = (\<lambda>p w. True),
      dk_read_dir = (\<lambda>p w. Ok []), dk_read_text = (\<lambda>p w. Ok ''return 7''),
      dk_create_dir_all = (\<lambda>p w. (Ok (), w @ [Preparing])), dk_write = (\<lambda>p t w. (Ok (), w)),
      dk_make_private = (\<lambda>p w. (Ok (), w)), dk_display = (\<lambda>p. ''/w'')\<rparr>"

definition memory_host :: "(string + unit) \<Rightarrow> (block_error + unit) \<Rightarrow> host_step list host_ops" where
  "memory_host isle mcp =
     \<lparr>ho_env = (\<lambda>w. [''HOME'' \<mapsto> ''/home'']), ho_load_dotenv = (\<lambda>p w. w @ [Preparing]),
      ho_start_dispatcher = (\<lambda>w. w @ [Preparing]), ho_mesh_connect = (\<lambda>k u w. (Ok (), w @ [Preparing])),
      ho_listen = (\<lambda>c w. (Ok (), w @ [Listening])), ho_canonicalize = (\<lambda>p w. Some p),
      ho_current_dir = (\<lambda>w. Ok []), ho_open_conn = (\<lambda>l d b j w. (Ok (), w @ [Preparing])),
      ho_open_isle = (\<lambda>l d b j w. (Ok (), w @ [Preparing])), ho_profile_json = (\<lambda>p. JNull),
      ho_spawn_isle = (\<lambda>i w. (isle, w @ [Preparing])),
      ho_spawn_handler_isle = (\<lambda>i w. (Ok (), w @ [Preparing])),
      ho_register = (\<lambda>w. (Ok (), w @ [Preparing])), ho_register_handler = (\<lambda>w. (Ok (), w @ [Preparing])),
      ho_inject = (\<lambda>ts w. (Ok (), w @ [Preparing])), ho_cancel_first = (\<lambda>t w. False),
      ho_eval = (\<lambda>s w. (Ok (LInt 7), w @ [Executing])), ho_unwind = (\<lambda>s w. w @ [Executing]),
      ho_tostring = (\<lambda>v. Ok []), ho_show_float = (\<lambda>x. []), ho_raised = (\<lambda>e. IsleOther e),
      ho_drain = (\<lambda>g w. w @ [Draining]), ho_listener_shutdown = (\<lambda>w. w @ [Unlistening]),
      ho_disconnect_all = (\<lambda>w. (mcp, w @ [Disconnecting])),
      ho_main_shutdown = (\<lambda>w. (Ok (), w @ [Main_Down])),
      ho_handler_shutdown = (\<lambda>w. (Ok (), w @ [Handler_Down])),
      ho_logs_shutdown = (\<lambda>w. ([], w @ [Logs_Down])), ho_ts_shutdown = (\<lambda>w. (Ok (), w @ [Ts_Down]))\<rparr>"

interpretation mh: journal_host memory_disk "memory_host isle mcp" "\<lambda>w. w"
  by unfold_locales (simp_all add: memory_disk_def memory_host_def)

definition listener_config :: block_config where
  "listener_config = with_http_source (http_config_new ''127.0.0.1:0'')
     (builder_new (Script_Inline ''return 7'' ''seven.lua'') [RootDir, Normal ''w''])"

text \<open>
  C19: once its script was started, a run always tears down: the journal goes on with the drain of the
  dispatcher if one was started, the listener if there was one, the MCP servers, the main and the handler
  isle, the kernel's logs and the \<open>ts\<close> thread, each once and in this order, whatever the script or any
  of these steps failed with; and a value the run answers is the value of its script.
\<close>

theorem run_tears_down:
  assumes "journal_host D H tr" and "run_capture D H channel_ok invoker config w = (r, w')"
  shows "\<exists>before. set before \<subseteq> {Preparing, Listening}
    \<and> (case prepare_run D H channel_ok invoker config w of
         (Err e, _) \<Rightarrow> r = Err e \<and> tr w' = tr w @ before
       | (Ok _, _) \<Rightarrow> (Listening \<in> set before) = (bc_http_source config \<noteq> None)
           \<and> tr w' = tr w @ before @ Executing # teardown config)
    \<and> (\<forall>v. r = Ok v \<longrightarrow> (\<exists>run w1. prepare_run D H channel_ok invoker config w = (Ok run, w1)
         \<and> fst (execute_script H (rs_script_source (pr_sources run)) (bc_shutdown_token config) w1) = Ok v))"
  by (rule journal_host.run_journal [OF assms])

definition succeeds :: "('a, 'w) stage \<Rightarrow> bool" where
  "succeeds m \<longleftrightarrow> (\<forall>w. \<exists>a. fst (m w) = Ok a)"

lemma succeeds_then: "succeeds m \<Longrightarrow> (\<And>a. succeeds (f a)) \<Longrightarrow> succeeds (stage_then m f)"
  unfolding succeeds_def stage_then_def by (auto split: prod.splits sum.splits) (metis fst_conv old.sum.inject(2) sum.distinct(1))+

lemma succeeds_of: "(\<And>w. \<exists>a. fst (m w) = Ok a) \<Longrightarrow> succeeds (stage_of err m)"
  unfolding succeeds_def stage_of_def by (auto split: prod.splits) (metis fst_conv map_err_simps(2))

lemma demo_prepared:
  "succeeds (prepare_run memory_disk (memory_host (Ok ()) mcp) (\<lambda>n. True) [] listener_config)"
proof -
  let ?H = "memory_host (Ok ()) mcp"
  have pure: "succeeds (stage_result (Ok x))" for x :: 'x by (simp add: succeeds_def stage_result_def)
  have dir: "succeeds (stage_of id (prepare_sqlite_dir memory_disk p l))"
    "succeeds (stage_of id (prepare_knl_dir memory_disk p))" for p l
    by (rule succeeds_of, auto simp: prepare_sqlite_dir_def prepare_knl_dir_def memory_disk_def split: option.splits)+
  have opens: "succeeds (open_sqlite_db memory_disk ?H (ho_open_conn ?H) l p)"
    "succeeds (open_sqlite_db memory_disk ?H (ho_open_isle ?H) l p)" for l p
    unfolding open_sqlite_db_def
    by (rule succeeds_then [OF dir(1)], simp add: succeeds_def stage_of_def memory_host_def)+
  have paths: "succeeds (db_path ?H None sql_path)" "succeeds (db_path ?H None kv_path)" "succeeds (db_path ?H None ts_path)"
    by (auto simp: succeeds_def db_path_def memory_host_def sql_path_def kv_path_def ts_path_def base_dir_def)
  have config: "bc_sql_path listener_config = None" "bc_kv_path listener_config = None" "bc_ts_path listener_config = None"
    "bc_relay_url listener_config = None" "bc_host_tools listener_config = []" "bc_mcp_rpc_timeout listener_config \<noteq> 0"
    "bc_http_source listener_config = Some (http_config_new ''127.0.0.1:0'')"
    by (simp_all add: listener_config_def with_http_source_def builder_new_def DEFAULT_RPC_TIMEOUT_def)
  have sqlite: "succeeds (init_sqlite memory_disk ?H listener_config)"
    unfolding init_sqlite_def config by (intro succeeds_then paths opens)
  have knl: "succeeds (knl_stage memory_disk ?H root)" for root
    unfolding knl_stage_def
    by (intro succeeds_then dir pure)
      (simp add: succeeds_def memory_host_def knl_path_def resolve_knl_path_def base_dir_def)
  have vm: "succeeds (spawn_isles ?H i)" "succeeds (register_bridges ?H)" for i
    unfolding spawn_isles_def register_bridges_def
    by (intro succeeds_then succeeds_of; simp add: memory_host_def)+
  have first: "succeeds (\<lambda>w. stage_result (resolve_sources memory_disk (ho_env ?H w) [] listener_config w) w)"
    "succeeds (bus_stage ?H (\<lambda>n. True) listener_config)" "succeeds (listen_stage ?H (bc_http_source listener_config))"
    "succeeds (connect_mesh ?H None k)" "succeeds (absolute_root ?H root)" for k root
    by (auto simp: succeeds_def stage_result_def resolve_sources_def resolve_prompt_def listener_config_def
        with_http_source_def builder_new_def bus_stage_def setup_event_bus_def bus_part_def Let_def
        install_any_def listen_stage_def stage_then_def stage_of_def connect_mesh_def absolute_root_def memory_host_def)
  show ?thesis unfolding prepare_run_def config inject_host_tools_def mcp_with_rpc_timeout_def if_False if_True
    using config(6) by (intro succeeds_then first [unfolded config] vm knl sqlite) (simp_all add: pure succeeds_def stage_result_def)
qed

theorem run_tears_down_witness:
  "\<exists>before w'. run_capture memory_disk (memory_host (Ok ()) (Err (BE_Mcp ''gone''))) (\<lambda>n. True) [] listener_config []
       = (Err (Failed (BE_Mcp ''gone'')), w') \<and> set before \<subseteq> {Preparing, Listening} \<and> Listening \<in> set before
     \<and> w' = before @ [Executing, Unlistening, Disconnecting, Main_Down, Handler_Down, Logs_Down, Ts_Down]"
proof -
  let ?H = "memory_host (Ok ()) (Err (BE_Mcp ''gone''))"
  obtain run w1 where prep: "prepare_run memory_disk ?H (\<lambda>n. True) [] listener_config [] = (Ok run, w1)"
    using demo_prepared [of "Err (BE_Mcp ''gone'')", unfolded succeeds_def, rule_format, of "[]"] by (metis prod.collapse)
  obtain r w' where run: "run_capture memory_disk ?H (\<lambda>n. True) [] listener_config [] = (r, w')" by fastforce
  moreover from this prep have "r = Err (Failed (BE_Mcp ''gone''))"
    by (auto simp: run_capture_def host_shutdown_def first_failure_def memory_host_def Let_def split: prod.splits)
  moreover have "auto_serves listener_config = False" "bc_http_source listener_config \<noteq> None"
    by (simp_all add: auto_serves_def listener_config_def with_http_source_def builder_new_def)
  ultimately show ?thesis using run_tears_down [OF mh.journal_host_axioms run] prep
    by (auto simp: teardown_def)
qed

text \<open>
  Nothing is torn down when a run fails before its script: here the listener is up when a zero timeout is
  refused, and stays up.
\<close>

lemma early_failure_keeps_listener:
  "\<exists>e. run_capture memory_disk (memory_host isle mcp) (\<lambda>n. True) [] (with_mcp_rpc_timeout 0 listener_config) []
     = (Err (Failed e), [Preparing, Listening])"
  by (simp add: run_capture_def prepare_run_def stage_then_def stage_result_def stage_of_def resolve_sources_def
      resolve_prompt_def listener_config_def with_http_source_def with_mcp_rpc_timeout_def builder_new_def bus_stage_def
      setup_event_bus_def install_any_def bus_part_def Let_def connect_mesh_def listen_stage_def
      mcp_with_rpc_timeout_def memory_host_def)

section \<open>The key of the mesh identity\<close>

definition hex_byte :: "nat \<Rightarrow> string" where
  "hex_byte b = [hex_digit (b div 16), hex_digit (b mod 16)]"

lemma hex_bytes_roundtrip:
  assumes "s = concat (map hex_byte bs)" and "\<forall>b \<in> set bs. b < 256"
  shows "n \<le> length bs \<Longrightarrow> hex_bytes s [length bs - n..<length bs] = Some (Ok (drop (length bs - n) bs))"
proof (induction n)
  case (Suc n)
  let ?i = "length bs - Suc n"
  have at: "s ! (2 * i) = hex_digit (bs ! i div 16)" "s ! Suc (2 * i) = hex_digit (bs ! i mod 16)"
    if "i < length bs" for i
    using that unfolding assms(1) by (induction bs arbitrary: i) (auto simp: hex_byte_def nth_Cons split: nat.splits)
  have len: "length s = 2 * length bs" unfolding assms(1) by (induction bs) (simp_all add: hex_byte_def)
  have plain: "is_char_boundary s k" if "k \<le> length s" for k
  proof (cases "k = length s")
    case False
    with that len have "k div 2 < length bs" by simp
    from at [OF this] assms(2) this have "s ! k = hex_digit (if even k then bs ! (k div 2) div 16 else bs ! (k div 2) mod 16)"
      by (cases "even k") (auto simp: elim!: evenE oddE)
    moreover have "(if even k then bs ! (k div 2) div 16 else bs ! (k div 2) mod 16) < 16"
      using assms(2) \<open>k div 2 < length bs\<close> by (auto simp: less_mult_imp_div_less)
    ultimately show ?thesis using False that hex_digit_plain by (auto simp: is_char_boundary_def)
  qed (simp add: is_char_boundary_def)
  have i: "?i < length bs" "Suc ?i = length bs - n" using Suc.prems by auto
  then have up: "[?i..<length bs] = ?i # [length bs - n..<length bs]" by (simp add: upt_conv_Cons)
  have byte: "bs ! ?i < 256" using assms(2) i by simp
  have "hex_slice s (2 * ?i) = Some (hex_digit (bs ! ?i div 16))"
    "hex_slice s (2 * ?i + 1) = Some (hex_digit (bs ! ?i mod 16))"
    using plain [of "2 * ?i"] plain [of "Suc (2 * ?i)"] plain [of "Suc (Suc (2 * ?i))"] at [OF i(1)] i(1) len
    by (auto simp: hex_slice_def)
  moreover have "hex_value (hex_digit (bs ! ?i div 16)) = Some (bs ! ?i div 16)"
    "hex_value (hex_digit (bs ! ?i mod 16)) = Some (bs ! ?i mod 16)"
    using byte by (auto intro!: hex_digit_value)
  moreover have "drop ?i bs = bs ! ?i # drop (length bs - n) bs"
    using i Cons_nth_drop_Suc [of ?i bs] by simp
  ultimately show ?case using Suc byte unfolding up by simp
qed simp

lemma strip_all_none: "\<forall>p \<in> set pats. p \<noteq> [] \<and> hd p \<noteq> c \<Longrightarrow> strip_all pats (c # cs) = c # cs"
proof -
  assume "\<forall>p \<in> set pats. p \<noteq> [] \<and> hd p \<noteq> c"
  then have "find (\<lambda>p. p \<noteq> [] \<and> starts_with p (c # cs)) pats = None"
    by (auto simp: find_None_iff starts_with_iff) (metis append_eq_Cons_conv list.sel(1))
  then show ?thesis by (subst strip_all.simps) simp
qed

lemma hex_digit_among: "n < 16 \<Longrightarrow> hex_digit n \<in> set ''0123456789abcdef''"
proof -
  have "list_all (\<lambda>n. hex_digit n \<in> set ''0123456789abcdef'') [0..<16]" by code_simp
  then show "n < 16 \<Longrightarrow> hex_digit n \<in> set ''0123456789abcdef''" by (simp add: list_all_iff)
qed

lemma white_space_ends:
  "list_all (\<lambda>p. p \<noteq> [] \<and> hd p \<notin> set ''0123456789abcdef'' \<and> last p \<notin> set ''0123456789abcdef'') white_space"
  by code_simp

lemma white_space_not_hex:
  "list_all (\<lambda>p. p \<noteq> [] \<and> list_all (\<lambda>n. hd p \<noteq> hex_digit n \<and> hd (rev p) \<noteq> hex_digit n) [0..<16]) white_space"
  using white_space_ends hex_digit_among unfolding list_all_iff hd_rev by fastforce

lemma trim_hex:
  assumes "s = hex_digit a # t" and "s = u @ [hex_digit b]" and "a < 16" and "b < 16"
  shows "trim s = s"
proof -
  have ws: "p \<noteq> [] \<and> hd p \<noteq> hex_digit a \<and> hd (rev p) \<noteq> hex_digit b" if "p \<in> set white_space" for p
    using white_space_not_hex that assms(3,4) by (auto simp: list_all_iff)
  have "trim_start s = s" unfolding trim_start_def assms(1) by (rule strip_all_none) (use ws in blast)
  moreover have "rev s = hex_digit b # rev u" using assms(2) by simp
  then have "strip_all (map rev white_space) (rev s) = rev s"
    using strip_all_none [of "map rev white_space" "hex_digit b" "rev u"] ws by auto
  ultimately show ?thesis by (simp add: trim_def trim_end_def)
qed

text \<open>
  A key written as 64 hexadecimal digits is read back byte for byte.
\<close>

theorem hex_key_roundtrip:
  assumes "length bs = 32" and "\<forall>b \<in> set bs. b < 256"
  shows "hex_decode_32 (concat (map hex_byte bs)) = Some (Ok bs)"
proof -
  let ?s = "concat (map hex_byte bs)"
  have "length (concat (map hex_byte cs)) = 2 * length cs" for cs by (induction cs) (simp_all add: hex_byte_def)
  then have len: "length ?s = 64" using assms(1) by simp
  obtain x xs where x: "bs = x # xs" using assms(1) by (cases bs) auto
  obtain ys y where y: "bs = ys @ [y]" using assms(1) by (cases bs rule: rev_cases) auto
  have "trim ?s = ?s"
  proof (rule trim_hex)
    show "?s = hex_digit (x div 16) # hex_digit (x mod 16) # concat (map hex_byte xs)" by (simp add: x hex_byte_def)
    show "?s = (concat (map hex_byte ys) @ [hex_digit (y div 16)]) @ [hex_digit (y mod 16)]" by (simp add: y hex_byte_def)
    have "x < 256" using assms(2) x by simp
    then show "x div 16 < 16" by auto
  qed simp
  moreover have "[0..<32] = [length bs - 32..<length bs]" using assms(1) by simp
  ultimately show ?thesis
    using hex_bytes_roundtrip [OF refl assms(2), of 32] len assms(1) by (simp add: hex_decode_32_def)
qed

theorem hex_key_roundtrip_witness:
  "hex_decode_32 (concat (map hex_byte (replicate 32 171))) = Some (Ok (replicate 32 171))"
  using hex_key_roundtrip [of "replicate 32 171"] by simp

text \<open>A key of 64 bytes that holds a character of two is not refused: the run panics.\<close>

lemma hex_key_panics: "hex_decode_32 ([CHR 0xC3, CHR 0xA9] @ replicate 62 CHR ''a'') = None"
  by code_simp

end
