(* ===== verification/Disk.thy ===== *)
theory Disk
  imports Blocks
begin

text \<open>
  What the commands rely on of a file system: \<open>files\<close> is what its files hold. A write that succeeds
  holds what was written and touches nothing else, one that fails can only have spoiled its own file;
  making directories or a file private touches no content; what is read is what is held.
\<close>

locale disk_laws =
  fixes D :: "'w disk" and files :: "'w \<Rightarrow> path \<rightharpoonup> string"
  assumes reading: "dk_read_text D p w = Ok t \<Longrightarrow> files w p = Some t"
    and absent: "\<not> dk_exists D p w \<Longrightarrow> files w p = None"
    and a_file: "dk_is_file D p w \<Longrightarrow> files w p \<noteq> None"
    and writing: "dk_write D p t w = (Ok (), w') \<Longrightarrow> files w' = (files w)(p \<mapsto> t)"
    and spoiling: "dk_write D p t w = (Err e, w') \<Longrightarrow> q \<noteq> p \<Longrightarrow> files w' q = files w q"
    and making: "files (snd (dk_create_dir_all D p w)) = files w"
    and hiding: "files (snd (dk_make_private D p w)) = files w"

text \<open>A disk in memory, without a listing of its directories.\<close>

definition map_disk :: "(path \<rightharpoonup> string) disk" where
  "map_disk =
     \<lparr>dk_exists = (\<lambda>p w. w p \<noteq> None), dk_is_file = (\<lambda>p w. w p \<noteq> None), dk_is_dir = (\<lambda>p w. w p = None),
      dk_read_dir = (\<lambda>p w. Ok []),
      dk_read_text = (\<lambda>p w. case w p of Some t \<Rightarrow> Ok t | None \<Rightarrow> Err ''not found''),
      dk_create_dir_all = (\<lambda>p w. (Ok (), w)), dk_write = (\<lambda>p t w. (Ok (), w(p \<mapsto> t))),
      dk_make_private = (\<lambda>p w. (Ok (), w)), dk_display = (\<lambda>p. ''path'')\<rparr>"

interpretation md: disk_laws map_disk "\<lambda>w. w"
  by unfold_locales (auto simp: map_disk_def split: option.splits)

end
