(* ===== verification/Serve.thy ===== *)
theory Serve
  imports Host_Run Disk
begin

text \<open>
  \<open>agent-block serve\<close> (\<open>serve/mod.rs\<close>): the declarations beside the registered blocks, the bearer
  token, and the run the manager is. The TOML parser gives a table of values, \<open>None\<close> when the text is
  none; the rest of what \<open>serde\<close> is asked for is here.
\<close>

section \<open>Declarations\<close>

datatype toml_value = TomlString string | TomlInt int | TomlFloat lua_float | TomlOther

datatype spelled = Seconds lua_float | Spelled_Text string

fun spelled_of :: "toml_value \<Rightarrow> spelled option" where
  "spelled_of (TomlInt i) = Some (Seconds (Finite (f64_of_int i)))"
| "spelled_of (TomlFloat x) = Some (Seconds x)"
| "spelled_of (TomlString s) = Some (Spelled_Text s)"
| "spelled_of TomlOther = None"

fun toml_string :: "toml_value \<Rightarrow> string option" where
  "toml_string (TomlString s) = Some s"
| "toml_string _ = None"

record job_file =
  jf_block :: "string option"
  jf_every :: "spelled option"
  jf_timeout :: spelled
  jf_prompt :: "string option"
  jf_context :: "string option"

text \<open>A field that is absent is none; one that is there must have its type.\<close>

definition optional_field :: "('v \<Rightarrow> 'a option) \<Rightarrow> (string \<times> 'v) list \<Rightarrow> string \<Rightarrow> 'a option option" where
  "optional_field read table k = (case map_of table k of None \<Rightarrow> Some None | Some v \<Rightarrow> map_option Some (read v))"

definition decode_job_file :: "(string \<times> toml_value) list \<Rightarrow> job_file option" where
  "decode_job_file table =
     (if \<not> list_all (\<lambda>kv. fst kv \<in> set [''block'', ''every'', ''timeout'', ''prompt'', ''context'']) table then None
      else
        Option.bind (optional_field toml_string table ''block'') (\<lambda>blk.
        Option.bind (optional_field spelled_of table ''every'') (\<lambda>every.
        Option.bind (Option.bind (map_of table ''timeout'') spelled_of) (\<lambda>timeout.
        Option.bind (optional_field toml_string table ''prompt'') (\<lambda>prompt.
        Option.bind (optional_field toml_string table ''context'') (\<lambda>context.
          Some \<lparr>jf_block = blk, jf_every = every, jf_timeout = timeout, jf_prompt = prompt, jf_context = context\<rparr>))))))"

record job_decl =
  jd_name :: string
  jd_block :: string
  jd_path :: path
  jd_cwd :: path
  jd_every :: "spelled option"
  jd_timeout :: spelled
  jd_prompt :: "string option"
  jd_context :: "string option"

text \<open>\<open>with_file_name\<close> and \<open>with_extension\<close>.\<close>

definition with_file_name :: "path \<Rightarrow> string \<Rightarrow> path" where
  "with_file_name p n = (case file_name p of Some _ \<Rightarrow> butlast p @ [Normal n] | None \<Rightarrow> p @ [Normal n])"

definition with_extension :: "path \<Rightarrow> string \<Rightarrow> path" where
  "with_extension p e = (case file_stem p of Some s \<Rightarrow> butlast p @ [Normal (s @ ''.'' @ e)] | None \<Rightarrow> p)"

definition declaration_path :: "block \<Rightarrow> path" where
  "declaration_path b =
     (if file_name (bl_path b) = Some ''init.lua'' then with_file_name (bl_path b) ''job.toml''
      else with_extension (bl_path b) ''job.toml'')"

definition project_root_of :: "block \<Rightarrow> path" where
  "project_root_of b =
     (let blocks_dir =
        (if file_name (bl_path b) = Some ''init.lua'' then Option.bind (parent_path (bl_path b)) parent_path
         else parent_path (bl_path b))
      in case Option.bind blocks_dir parent_path of Some root \<Rightarrow> root | None \<Rightarrow> [CurDir])"

text \<open>One block of the scan: nothing, a declaration, or why the scan fails.\<close>

definition scan_job ::
  "'w disk \<Rightarrow> (string \<Rightarrow> (string \<times> toml_value) list option) \<Rightarrow> block list \<Rightarrow> 'w \<Rightarrow> block \<Rightarrow> string + job_decl option" where
  "scan_job D toml blocks w b =
     (let p = declaration_path b in
      if \<not> dk_is_file D p w then Ok None
      else
        and_then (map_err (\<lambda>_. fmt [''reading job declaration '', dk_display D p]) (dk_read_text D p w)) (\<lambda>src.
        case Option.bind (toml src) decode_job_file of
          None \<Rightarrow> Err (fmt [''parsing job declaration '', dk_display D p])
        | Some job \<Rightarrow>
            (let block_name = (case jf_block job of Some n \<Rightarrow> n | None \<Rightarrow> bl_name b) in
             and_then
               (if block_name = bl_name b then Ok (bl_path b)
                else case find_block blocks block_name of
                    Some found \<Rightarrow> Ok (bl_path found)
                  | None \<Rightarrow> Err (fmt [''job '', [CHR 0x27], bl_name b, [CHR 0x27], '' names block '', [CHR 0x27], block_name,
                      [CHR 0x27], '', which is not registered ('', dk_display D p, '')'']))
               (\<lambda>script. Ok (Some
                 \<lparr>jd_name = bl_name b, jd_block = block_name, jd_path = script, jd_cwd = project_root_of b,
                  jd_every = jf_every job, jd_timeout = jf_timeout job, jd_prompt = jf_prompt job,
                  jd_context = jf_context job\<rparr>)))))"

definition scan_jobs ::
  "'w disk \<Rightarrow> (string \<Rightarrow> (string \<times> toml_value) list option) \<Rightarrow> block list \<Rightarrow> 'w \<Rightarrow> string + job_decl list" where
  "scan_jobs D toml blocks w =
     result_map (\<lambda>found. List.map_filter id found) (collect_results (scan_job D toml blocks w) blocks)"

section \<open>The token\<close>

text \<open>\<open>minted\<close> is the text of two fresh identifiers.\<close>

definition token_at :: "'w disk \<Rightarrow> string \<Rightarrow> path \<Rightarrow> 'w \<Rightarrow> (string + string \<times> path) \<times> 'w" where
  "token_at D minted home w =
     (let p = join_path home ''serve.token'';
          existing = (case dk_read_text D p w of Ok t \<Rightarrow> trim t | Err _ \<Rightarrow> [])
      in if existing \<noteq> [] then (Ok (existing, p), w)
         else case dk_write D p (minted @ [CHR 0x0A]) w of
             (Err _, w1) \<Rightarrow> (Err (fmt [''writing token '', dk_display D p]), w1)
           | (Ok _, w1) \<Rightarrow>
               (case dk_make_private D p w1 of
                  (Err _, w2) \<Rightarrow> (Err (fmt [''setting mode on '', dk_display D p]), w2)
                | (Ok _, w2) \<Rightarrow> (Ok (minted, p), w2)))"

section \<open>The manager\<close>

record serve_args =
  sa_block_dirs :: "path list"
  sa_bind :: string
  sa_tick_secs :: nat
  sa_max_runs :: nat

definition spelled_json :: "spelled \<Rightarrow> json" where
  "spelled_json s = (case s of Seconds (Finite x) \<Rightarrow> JNumber (Float x) | Seconds (NotFinite _) \<Rightarrow> JNull
     | Spelled_Text t \<Rightarrow> JString t)"

definition put_some :: "string \<Rightarrow> json option \<Rightarrow> json_map \<Rightarrow> json_map" where
  "put_some k v m = (case v of Some x \<Rightarrow> map_insert k x m | None \<Rightarrow> m)"

definition job_json :: "'w disk \<Rightarrow> job_decl \<Rightarrow> json" where
  "job_json D j =
     JObject (put_some ''context'' (map_option JString (jd_context j))
       (put_some ''prompt'' (map_option JString (jd_prompt j))
       (map_insert ''timeout'' (spelled_json (jd_timeout j))
       (put_some ''every'' (map_option spelled_json (jd_every j))
       (map_insert ''cwd'' (JString (dk_display D (jd_cwd j)))
       (map_insert ''path'' (JString (dk_display D (jd_path j)))
       (map_insert ''block'' (JString (jd_block j))
       (map_insert ''name'' (JString (jd_name j)) []))))))))"

fun create_dirs :: "'w disk \<Rightarrow> path list \<Rightarrow> 'w \<Rightarrow> (string + unit) \<times> 'w" where
  "create_dirs D [] w = (Ok (), w)"
| "create_dirs D (p # ps) w =
     (case dk_create_dir_all D p w of
        (Err _, w') \<Rightarrow> (Err (fmt [''creating '', dk_display D p]), w')
      | (Ok _, w') \<Rightarrow> create_dirs D ps w')"

definition serve_globals :: "'w disk \<Rightarrow> string \<Rightarrow> serve_args \<Rightarrow> path \<Rightarrow> job_decl list \<Rightarrow> string \<rightharpoonup> json" where
  "serve_globals D exe args home jobs =
     (let text = (\<lambda>p. JString (dk_display D p)) in
      [''_JOBS'' \<mapsto> JArray (map (job_json D) jobs),
       ''_SERVE'' \<mapsto> JObject (map_insert ''bin'' (JString exe)
          (map_insert ''max_runs'' (json_of_u64 (sa_max_runs args))
          (map_insert ''tick_s'' (json_of_u64 (sa_tick_secs args))
          (map_insert ''runs_dir'' (text (join_path home ''runs''))
          (map_insert ''session_file'' (text (join_path home ''serve.session''))
          (map_insert ''store'' (text (join_path home ''serve.sqlite'')) []))))))])"

text \<open>Why the manager did not end by itself: it never began, or its run stopped.\<close>

datatype serve_stop = Refused_Start string | Ran run_stop

text \<open>
  Everything before the run: \<open>lua\<close> is the embedded script, \<open>exe\<close> this executable, \<open>None\<close> when it
  cannot be located. A path of a job that is not text has no JSON
  form; one of the manager itself makes \<open>json!\<close> panic.
\<close>

definition serve_config ::
  "'w disk \<Rightarrow> 'w host_ops \<Rightarrow> (string \<Rightarrow> (string \<times> toml_value) list option) \<Rightarrow> string \<Rightarrow> string \<Rightarrow> string option
     \<Rightarrow> serve_args \<Rightarrow> path \<Rightarrow> nat \<Rightarrow> 'w \<Rightarrow> (serve_stop + block_config) \<times> 'w" where
  "serve_config D H toml minted lua exe args project_dir rpc_timeout w =
     (case ho_canonicalize H project_dir w of
        None \<Rightarrow> (Err (Refused_Start (fmt [''project root '', dk_display D project_dir])), w)
      | Some root \<Rightarrow>
     (case scan_jobs D toml (scan_blocks D (block_dirs D (ho_env H w) root (sa_block_dirs args) w) w) w of
        Err e \<Rightarrow> (Err (Refused_Start e), w)
      | Ok jobs \<Rightarrow>
     (case base_dir (ho_env H w) of
        Err _ \<Rightarrow> (Err (Refused_Start ''resolving AGENT_BLOCK_HOME''), w)
      | Ok home_text \<Rightarrow>
     (let home = path_new home_text in
      case create_dirs D (home # map (\<lambda>j. join_path (join_path home ''runs'') (jd_name j)) jobs) w of
        (Err e, w1) \<Rightarrow> (Err (Refused_Start e), w1)
      | (Ok _, w1) \<Rightarrow>
     (case token_at D minted home w1 of
        (Err e, w2) \<Rightarrow> (Err (Refused_Start e), w2)
      | (Ok (token, _), w2) \<Rightarrow>
     (case exe of
        None \<Rightarrow> (Err (Refused_Start ''locating this executable''), w2)
      | Some bin \<Rightarrow>
          (if \<not> list_all (\<lambda>j. valid_utf8 (dk_display D (jd_path j)) \<and> valid_utf8 (dk_display D (jd_cwd j))) jobs
           then (Err (Refused_Start ''path contains invalid UTF-8 characters''), w2)
           else if \<not> (valid_utf8 home_text \<and> valid_utf8 bin) then (Err (Ran Panicking), w2)
           else
             (Ok (with_http_source (http_config_token token (http_config_new (sa_bind args)))
                (with_extra_globals (serve_globals D bin args home jobs)
                (with_mcp_rpc_timeout rpc_timeout (builder_new (Script_Inline lua ''serve.lua'') root)))), w2))))))))"

definition serve ::
  "'w disk \<Rightarrow> 'w host_ops \<Rightarrow> (nat \<Rightarrow> bool) \<Rightarrow> string \<Rightarrow> (string \<Rightarrow> (string \<times> toml_value) list option) \<Rightarrow> string \<Rightarrow> string
     \<Rightarrow> string option \<Rightarrow> serve_args \<Rightarrow> path \<Rightarrow> nat \<Rightarrow> 'w \<Rightarrow> (serve_stop + unit) \<times> 'w" where
  "serve D H channel_ok invoker toml minted lua exe args project_dir rpc_timeout w =
     (case serve_config D H toml minted lua exe args project_dir rpc_timeout w of
        (Err e, w') \<Rightarrow> (Err e, w')
      | (Ok config, w') \<Rightarrow>
          (case run_block D H channel_ok invoker config w' of (r, w'') \<Rightarrow> (map_err Ran r, w'')))"

end
