(* ===== verification/Mcp_Jobs.thy ===== *)
theory Mcp_Jobs
  imports Serve Sources
begin

text \<open>
  The job manager's verbs as tools (\<open>mcp_serve/jobs.rs\<close>), and the routes the manager's handler gives
  them (\<open>serve/serve.lua\<close>). The HTTP client is a parameter: it gives the status and the body of an
  answer, or why there was none.
\<close>

section \<open>Results\<close>

datatype mcp_error = Invalid_Params string | Internal_Error string

datatype tool_result = Tool_Success string | Tool_Failure string

record mcp_tool =
  mt_name :: string
  mt_description :: string
  mt_schema :: json

section \<open>Encoding\<close>

definition upper_hex :: "nat \<Rightarrow> char" where
  "upper_hex n = (if n < 10 then char_of (48 + n) else char_of (55 + n))"

definition unreserved :: "char \<Rightarrow> bool" where
  "unreserved c \<longleftrightarrow> is_ascii_alphabetic c \<or> is_ascii_digit c \<or> c \<in> {CHR ''-'', CHR ''_'', CHR ''.'', CHR ''~''}"

definition encode_byte :: "char \<Rightarrow> string" where
  "encode_byte c =
     (if unreserved c then [c] else [CHR ''%'', upper_hex (of_char c div 16), upper_hex (of_char c mod 16)])"

definition encode :: "string \<Rightarrow> string" where
  "encode s = concat (map encode_byte s)"

section \<open>The client\<close>

type_synonym 'w http_send = "string \<Rightarrow> string \<Rightarrow> string \<Rightarrow> 'w \<Rightarrow> (string + nat \<times> (string + string)) \<times> 'w"

definition jobs_new :: "string \<Rightarrow> string" where
  "jobs_new url = rev (dropWhile (\<lambda>c. c = CHR ''/'') (rev url))"

definition jobs_token_path :: "env \<Rightarrow> string + path" where
  "jobs_token_path env = result_map (\<lambda>home. join_path (path_new home) ''serve.token'') (base_dir env)"

definition jobs_token :: "'w disk \<Rightarrow> env \<Rightarrow> 'w \<Rightarrow> string + string" where
  "jobs_token D env w =
     and_then (jobs_token_path env) (\<lambda>p.
     and_then (map_err (\<lambda>e. fmt [''no token at '', dk_display D p, '' ('', e, ''); '', [CHR 0x60], ''agent-block serve'', [CHR 0x60],
        '' mints one on its first start '', [CHR 0xE2, CHR 0x80, CHR 0x94], '' is it running?'']) (dk_read_text D p w)) (\<lambda>t.
     if trim t = [] then Err (fmt [''the token at '', dk_display D p, '' is empty'']) else Ok (trim t)))"

definition jobs_call ::
  "'w disk \<Rightarrow> 'w http_send \<Rightarrow> (string \<Rightarrow> json option) \<Rightarrow> env \<Rightarrow> string \<Rightarrow> string \<Rightarrow> string \<Rightarrow> 'w \<Rightarrow> (string + nat \<times> json) \<times> 'w" where
  "jobs_call D send parse env url meth target w =
     (case jobs_token D env w of
        Err e \<Rightarrow> (Err e, w)
      | Ok token \<Rightarrow>
          (case send meth (url @ target) token w of
             (Err e, w') \<Rightarrow>
               (Err (fmt [''agent-block serve is not reachable at '', url, '' ('', e, ''); start it with '', [CHR 0x60], ''agent-block serve'', [CHR 0x60]]), w')
           | (Ok (status, Err e), w') \<Rightarrow> (Err (''reading the answer: '' @ e), w')
           | (Ok (status, Ok body), w') \<Rightarrow> (Ok (status, case parse body of Some v \<Rightarrow> v | None \<Rightarrow> JString body), w')))"

definition required_text :: "json_map \<Rightarrow> string \<Rightarrow> mcp_error + string" where
  "required_text args k =
     (case Option.bind (map_get args k) as_str of
        Some s \<Rightarrow> (if s \<noteq> [] then Ok s else Err (Invalid_Params ([CHR 0x60] @ k @ [CHR 0x60] @ '' is required'')))
      | None \<Rightarrow> Err (Invalid_Params ([CHR 0x60] @ k @ [CHR 0x60] @ '' is required'')))"

definition runs_query :: "json_map \<Rightarrow> string list" where
  "runs_query args =
     (case Option.bind (map_get args ''job'') as_str of Some job \<Rightarrow> [''job='' @ encode job] | None \<Rightarrow> [])
   @ (case Option.bind (map_get args ''limit'') as_u64 of Some n \<Rightarrow> [''limit='' @ string_of_nat n] | None \<Rightarrow> [])"

text \<open>The request of a tool: its method and its target.\<close>

definition jobs_request :: "string \<Rightarrow> json_map \<Rightarrow> (mcp_error + string \<times> string) option" where
  "jobs_request name args =
     (if name = ''jobs_list'' then Some (Ok (''GET'', ''/jobs''))
      else if name = ''runs_list'' then
        Some (Ok (''GET'', if runs_query args = [] then ''/runs'' else ''/runs?'' @ join_with ''&'' (runs_query args)))
      else if name = ''run_get'' then
        Some (result_map (\<lambda>i. (''GET'', ''/runs/'' @ encode i)) (required_text args ''run_id''))
      else if name = ''job_run'' then
        Some (result_map (\<lambda>job. (''POST'', ''/jobs/'' @ encode job @ ''/runs'')) (required_text args ''job''))
      else if name = ''run_stop'' then
        Some (result_map (\<lambda>i. (''DELETE'', ''/runs/'' @ encode i)) (required_text args ''run_id''))
      else None)"

definition jobs_call_tool ::
  "'w disk \<Rightarrow> 'w http_send \<Rightarrow> (string \<Rightarrow> json option) \<Rightarrow> (json \<Rightarrow> string) \<Rightarrow> (json \<Rightarrow> string) \<Rightarrow> env \<Rightarrow> string
     \<Rightarrow> string \<Rightarrow> json_map \<Rightarrow> 'w \<Rightarrow> (mcp_error + tool_result) option \<times> 'w" where
  "jobs_call_tool D send parse pretty show env url name args w =
     (case jobs_request name args of
        None \<Rightarrow> (None, w)
      | Some (Err e) \<Rightarrow> (Some (Err e), w)
      | Some (Ok (meth, target)) \<Rightarrow>
          (case jobs_call D send parse env url meth target w of
             (Err e, w') \<Rightarrow> (Some (Ok (Tool_Failure e)), w')
           | (Ok (status, body), w') \<Rightarrow>
               (if 200 \<le> status \<and> status < 300 then (Some (Ok (Tool_Success (pretty body))), w')
                else
                  (let why = (case Option.bind (json_get body ''error'') as_str of Some s \<Rightarrow> s | None \<Rightarrow> show body)
                   in (Some (Ok (Tool_Failure (fmt [''agent-block serve answered '', string_of_nat status, '': '', why]))), w')))))"

section \<open>The tools\<close>

definition json_of_pairs :: "(string \<times> json) list \<Rightarrow> json" where
  "json_of_pairs kvs = JObject (fold (\<lambda>(k, v). map_insert k v) kvs [])"

definition tool_schema :: "(string \<times> json) list \<Rightarrow> string list \<Rightarrow> json" where
  "tool_schema properties needed =
     json_of_pairs [(''type'', JString ''object''), (''properties'', json_of_pairs properties),
       (''required'', JArray (map JString needed))]"

definition jobs_tools :: "mcp_tool list" where
  "jobs_tools =
     (let job_arg = json_of_pairs [(''type'', JString ''string''), (''description'', JString ''A job name, as listed by jobs_list'')];
          run_id_arg = json_of_pairs [(''type'', JString ''string''), (''description'', JString ''A run id, as listed by runs_list'')]
      in [
      \<lparr>mt_name = ''jobs_list'',
       mt_description = fmt [''The jobs '', [CHR 0x60], ''agent-block serve'', [CHR 0x60], '' manages: each with its interval, timeout, last end and live run. A job is a block with a '', [CHR 0x60], ''job.toml'', [CHR 0x60], '' beside it, run on its interval in a process of its own.''],
       mt_schema = tool_schema [] []\<rparr>,
      \<lparr>mt_name = ''runs_list'',
       mt_description = fmt [''Runs the manager recorded, newest first: job, run_id, when it started and ended, outcome'',
         '' (ok / deferred / failed / timeout / stopped / lost), exit code, the value the block'',
         '' returned ('', [CHR 0x60], ''result'', [CHR 0x60], '', decoded when it is JSON), and the path of the run'', [CHR 0x27], ''s own session log.''],
       mt_schema = tool_schema [(''job'', job_arg), (''limit'', json_of_pairs [(''type'', JString ''integer''), (''minimum'', json_of_u64 1),
          (''description'', JString ''At most this many (default 50)'')])] []\<rparr>,
      \<lparr>mt_name = ''run_get'',
       mt_description = ''One run by id: everything runs_list says, plus the tail of its stderr.'',
       mt_schema = tool_schema [(''run_id'', run_id_arg)] [''run_id'']\<rparr>,
      \<lparr>mt_name = ''job_run'',
       mt_description = fmt [''Ask the manager to run a job now. Recorded as a request; the manager'', [CHR 0x27], ''s next tick starts it (unless a run of that job is already live, which is recorded as a'',
         '' skip). Answers 202 '', [CHR 0xE2, CHR 0x80, CHR 0x94], '' this does not wait for the run; read it back with runs_list.''],
       mt_schema = tool_schema [(''job'', job_arg)] [''job'']\<rparr>,
      \<lparr>mt_name = ''run_stop'',
       mt_description = fmt [''Ask a live run to stop. Recorded as a request; the manager'', [CHR 0x27], ''s next tick kills the run'', [CHR 0x27], ''s process group (the block, its shell, whatever is under them) and records it as stopped.'',
         '' Answers 202; read '', [CHR 0x60], ''stopped'', [CHR 0x60], '' back with runs_list. Use this rather than killing the process from outside: a kill by pid'',
         '' records the run as failed, and the log then cannot tell a run that broke from one'',
         '' somebody stopped.''],
       mt_schema = tool_schema [(''run_id'', run_id_arg)] [''run_id'']\<rparr>])"

section \<open>The manager's routes\<close>

text \<open>
  \<open>gmatch\<close> with the pattern of the handler: in every part between ampersands the first key that is
  followed by an equals sign; a later part of the same key wins.
\<close>

definition query_pair :: "string \<Rightarrow> (string \<times> string) option" where
  "query_pair part =
     (let t = dropWhile (\<lambda>c. c = CHR ''='') part; k = takeWhile (\<lambda>c. c \<noteq> CHR ''='') t
      in if k \<noteq> [] \<and> length k < length t then Some (k, drop (Suc (length k)) t) else None)"

definition query_table :: "string \<Rightarrow> string \<rightharpoonup> string" where
  "query_table q = map_of (rev (List.map_filter query_pair (split_on (CHR ''&'') q)))"

definition segment :: "string \<Rightarrow> string option" where
  "segment s = (if s \<noteq> [] \<and> CHR ''/'' \<notin> set s then Some s else None)"

definition run_segment :: "string \<Rightarrow> string option" where
  "run_segment p = (if starts_with ''/runs/'' p then segment (drop (length ''/runs/'') p) else None)"

definition job_segment :: "string \<Rightarrow> string option" where
  "job_segment p =
     (if starts_with ''/jobs/'' p \<and> starts_with (rev ''/runs'') (rev (drop (length ''/jobs/'') p))
      then segment (take (length p - length ''/jobs/'' - length ''/runs'') (drop (length ''/jobs/'') p)) else None)"

datatype route_target =
  List_Jobs
| List_Runs "string option" "string option"
| Get_Run string
| Stop_Run string
| Request_Job string
| No_Route

definition manager_route :: "string \<Rightarrow> string \<Rightarrow> string option \<Rightarrow> route_target" where
  "manager_route meth p query =
     (let q = query_table (case query of Some s \<Rightarrow> s | None \<Rightarrow> []) in
      if meth = ''GET'' \<and> p = ''/jobs'' then List_Jobs
      else if meth = ''GET'' \<and> p = ''/runs'' then List_Runs (q ''job'') (q ''limit'')
      else case run_segment p of
        Some i \<Rightarrow> (if meth = ''GET'' then Get_Run i else if meth = ''DELETE'' then Stop_Run i
          else case job_segment p of Some n \<Rightarrow> (if meth = ''POST'' then Request_Job n else No_Route) | None \<Rightarrow> No_Route)
      | None \<Rightarrow> (case job_segment p of Some n \<Rightarrow> (if meth = ''POST'' then Request_Job n else No_Route) | None \<Rightarrow> No_Route))"

text \<open>A job is asked for by a name that is declared, or refused.\<close>

definition job_requested :: "job_decl list \<Rightarrow> route_target \<Rightarrow> string option" where
  "job_requested jobs r =
     (case r of Request_Job n \<Rightarrow> (if list_ex (\<lambda>j. jd_name j = n) jobs then Some n else None) | _ \<Rightarrow> None)"

end
