(* ===== verification/Mcp_Serve.thy ===== *)
theory Mcp_Serve
  imports Mcp_Jobs
begin

text \<open>
  \<open>agent-block mcp\<close> (\<open>mcp_serve/mod.rs\<close>): the registered blocks as a tool and as resources. The
  protocol is rmcp's, a parameter of \<open>mcp_serve\<close>; every operation here is one request of it.
\<close>

definition GUIDE_URI :: string where "GUIDE_URI = ''agent-block://guide''"
definition BLOCKS_URI :: string where "BLOCKS_URI = ''agent-block://blocks''"
definition BLOCK_URI_PREFIX :: string where "BLOCK_URI_PREFIX = ''agent-block://blocks/''"
definition GUIDE_MIME :: string where "GUIDE_MIME = ''text/markdown''"
definition BLOCKS_MIME :: string where "BLOCKS_MIME = ''application/json''"
definition BLOCK_MIME :: string where "BLOCK_MIME = ''text/x-lua''"

record block_server =
  bs_extra_dirs :: "path list"
  bs_project_root :: path
  bs_rpc_timeout :: nat
  bs_jobs_url :: string

text \<open>The directories and the registry, resolved on every request.\<close>

definition server_blocks :: "'w disk \<Rightarrow> 'w host_ops \<Rightarrow> block_server \<Rightarrow> 'w \<Rightarrow> block list" where
  "server_blocks D H S w = scan_blocks D (block_dirs D (ho_env H w) (bs_project_root S) (bs_extra_dirs S) w) w"

definition doc_summary :: "block \<Rightarrow> string" where
  "doc_summary b = (case str_lines (bl_doc b) of l # _ \<Rightarrow> l | [] \<Rightarrow> [])"

definition run_block_description :: "block list \<Rightarrow> string" where
  "run_block_description blocks =
     fmt [''Run one registered agent-block Lua block and return the JSON string it returned. '',
       ''The block runs against its own model with its own credentials, so its LLM turns do '',
       ''not enter this conversation '', [CHR 0xE2, CHR 0x80, CHR 0x94], '' only its return value does.'']
     @ (if blocks = [] then fmt [[CHR 0x0A, CHR 0x0A], ''No blocks are registered.'']
        else fmt [[CHR 0x0A, CHR 0x0A], ''Registered blocks:'', [CHR 0x0A],
          concat (map (\<lambda>b. if trim (doc_summary b) = [] then fmt [''- '', bl_name b, [CHR 0x0A]]
            else fmt [''- '', bl_name b, '': '', trim (doc_summary b), [CHR 0x0A]]) blocks),
          [CHR 0x0A], ''Read agent-block://blocks/<name> for a block'', [CHR 0x27], ''s full source.''])"

section \<open>Running a block\<close>

definition block_config_of :: "block_server \<Rightarrow> block \<Rightarrow> json_map \<Rightarrow> block_config" where
  "block_config_of S b args =
     (let config = with_mcp_rpc_timeout (bs_rpc_timeout S) (builder_new (Script_Path (bl_path b)) (bs_project_root S));
          config = (case Option.bind (map_get args ''prompt'') as_str of
              Some p \<Rightarrow> with_prompt (Prompt_Inline p) config | None \<Rightarrow> config)
      in case Option.bind (map_get args ''context'') as_str of
           Some c \<Rightarrow> with_context (Prompt_Inline c) config | None \<Rightarrow> config)"

text \<open>A run that panics takes the request with it: \<open>None\<close>.\<close>

definition mcp_run_block ::
  "'w disk \<Rightarrow> 'w host_ops \<Rightarrow> (nat \<Rightarrow> bool) \<Rightarrow> string \<Rightarrow> block_server \<Rightarrow> json_map \<Rightarrow> 'w \<Rightarrow> (mcp_error + tool_result) option \<times> 'w" where
  "mcp_run_block D H channel_ok invoker S args w =
     (case Option.bind (map_get args ''block'') as_str of
        None \<Rightarrow> (Some (Err (Invalid_Params (fmt [[CHR 0x60], ''block'', [CHR 0x60], '' is required'']))), w)
      | Some name \<Rightarrow>
     (let blocks = server_blocks D H S w in
      case find_block blocks name of
        None \<Rightarrow>
          (Some (Err (Invalid_Params (fmt [''unknown block '', [CHR 0x27], name, [CHR 0x27], ''; registered: ['', block_names blocks, '']'']))), w)
      | Some b \<Rightarrow>
          (case run_capture D H channel_ok invoker (block_config_of S b args) w of
             (Ok v, w') \<Rightarrow>
               (Some (Ok (Tool_Success (if v = [] then fmt [''block '', [CHR 0x27], bl_name b, [CHR 0x27], '' completed and returned no value'']
                 else v))), w')
           | (Err (Failed e), w') \<Rightarrow>
               (Some (Ok (Tool_Failure (fmt [''block '', [CHR 0x27], bl_name b, [CHR 0x27], '' failed: '', display_block_error e]))), w')
           | (Err Panicking, w') \<Rightarrow> (None, w'))))"

definition mcp_list_tools :: "'w disk \<Rightarrow> 'w host_ops \<Rightarrow> block_server \<Rightarrow> 'w \<Rightarrow> mcp_tool list" where
  "mcp_list_tools D H S w =
     (let blocks = server_blocks D H S w;
          described = (\<lambda>text. json_of_pairs [(''type'', JString ''string''), (''description'', JString text)])
      in \<lparr>mt_name = ''run_block'', mt_description = run_block_description blocks,
          mt_schema = json_of_pairs
            [(''type'', JString ''object''),
             (''properties'', json_of_pairs
               [(''block'', json_of_pairs [(''type'', JString ''string''), (''description'', JString ''Name of a registered block''),
                  (''enum'', JArray (map (\<lambda>b. JString (bl_name b)) blocks))]),
                (''prompt'', described (fmt [''Passed to the block as the '', [CHR 0x60], ''_PROMPT'', [CHR 0x60], '' Lua global''])),
                (''context'', described (fmt [''Passed to the block as the '', [CHR 0x60], ''_CONTEXT'', [CHR 0x60],
                  '' Lua global; blocks conventionally use it as the system prompt'']))]),
             (''required'', JArray [JString ''block''])]\<rparr> # jobs_tools)"

definition mcp_call_tool ::
  "'w disk \<Rightarrow> 'w host_ops \<Rightarrow> (nat \<Rightarrow> bool) \<Rightarrow> string \<Rightarrow> 'w http_send \<Rightarrow> (string \<Rightarrow> json option) \<Rightarrow> (json \<Rightarrow> string)
     \<Rightarrow> (json \<Rightarrow> string) \<Rightarrow> block_server \<Rightarrow> string \<Rightarrow> json_map option \<Rightarrow> 'w \<Rightarrow> (mcp_error + tool_result) option \<times> 'w" where
  "mcp_call_tool D H channel_ok invoker send parse pretty show S name arguments w =
     (let args = (case arguments of Some a \<Rightarrow> a | None \<Rightarrow> []) in
      if name = ''run_block'' then mcp_run_block D H channel_ok invoker S args w
      else case jobs_call_tool D send parse pretty show (ho_env H w) (bs_jobs_url S) name args w of
          (Some r, w') \<Rightarrow> (Some r, w')
        | (None, w') \<Rightarrow> (Some (Err (Invalid_Params (''unknown tool: '' @ name))), w'))"

section \<open>Resources\<close>

record mcp_resource =
  mr_uri :: string
  mr_name :: string
  mr_description :: string
  mr_mime :: string

definition mcp_list_resources :: "'w disk \<Rightarrow> 'w host_ops \<Rightarrow> block_server \<Rightarrow> 'w \<Rightarrow> mcp_resource list" where
  "mcp_list_resources D H S w =
     [\<lparr>mr_uri = GUIDE_URI, mr_name = ''agent-block block authoring guide'',
       mr_description = ''How to write a block for this server, and what it returns'', mr_mime = GUIDE_MIME\<rparr>,
      \<lparr>mr_uri = BLOCKS_URI, mr_name = ''registered blocks'',
       mr_description = ''Every registered block with its path and header comment'', mr_mime = BLOCKS_MIME\<rparr>]
     @ map (\<lambda>b. \<lparr>mr_uri = BLOCK_URI_PREFIX @ bl_name b, mr_name = bl_name b,
         mr_description = (if bl_doc b = [] then fmt [''Lua source of block '', [CHR 0x27], bl_name b, [CHR 0x27]] else doc_summary b),
         mr_mime = BLOCK_MIME\<rparr>) (server_blocks D H S w)"

definition listing_json :: "'w disk \<Rightarrow> block list \<Rightarrow> json" where
  "listing_json D blocks =
     json_of_pairs [(''blocks'', JArray (map (\<lambda>b. json_of_pairs
       [(''name'', JString (bl_name b)), (''path'', JString (from_utf8_lossy (dk_display D (bl_path b)))),
        (''doc'', JString (bl_doc b)), (''uri'', JString (BLOCK_URI_PREFIX @ bl_name b))]) blocks))]"

text \<open>\<open>guide\<close> is the embedded guide, \<open>pretty\<close> the rendering of JSON.\<close>

definition read_uri ::
  "'w disk \<Rightarrow> 'w host_ops \<Rightarrow> string \<Rightarrow> (json \<Rightarrow> string) \<Rightarrow> block_server \<Rightarrow> string \<Rightarrow> 'w \<Rightarrow> mcp_error + string \<times> string" where
  "read_uri D H guide pretty S uri w =
     (if uri = GUIDE_URI then Ok (guide, GUIDE_MIME)
      else if uri = BLOCKS_URI then Ok (pretty (listing_json D (server_blocks D H S w)), BLOCKS_MIME)
      else if starts_with BLOCK_URI_PREFIX uri then
        (let name = drop (length BLOCK_URI_PREFIX) uri in
         case find (\<lambda>b. bl_name b = name) (server_blocks D H S w) of
           None \<Rightarrow> Err (Invalid_Params (''unknown block: '' @ name))
         | Some b \<Rightarrow>
             (case dk_read_text D (bl_path b) w of
                Ok src \<Rightarrow> Ok (src, BLOCK_MIME)
              | Err e \<Rightarrow> Err (Internal_Error (fmt [''read '', dk_display D (bl_path b), '': '', e]))))
      else Err (Invalid_Params (''unknown resource uri: '' @ uri)))"

section \<open>The server\<close>

record mcp_args =
  ma_block_dirs :: "path list"
  ma_serve_url :: string

definition mcp_serve ::
  "'w disk \<Rightarrow> (block_server \<Rightarrow> 'w \<Rightarrow> (string + (string + unit)) \<times> 'w) \<Rightarrow> mcp_args \<Rightarrow> path \<Rightarrow> nat \<Rightarrow> 'w \<Rightarrow> (string + unit) \<times> 'w" where
  "mcp_serve D stdio args project_root rpc_timeout w =
     (case find (\<lambda>d. \<not> dk_is_dir D d w) (ma_block_dirs args) of
        Some d \<Rightarrow> (Err (fmt [''--block-dir '', [CHR 0x27], dk_display D d, [CHR 0x27], '' is not a directory'']), w)
      | None \<Rightarrow>
          (case stdio \<lparr>bs_extra_dirs = ma_block_dirs args, bs_project_root = project_root, bs_rpc_timeout = rpc_timeout,
                bs_jobs_url = jobs_new (ma_serve_url args)\<rparr> w of
             (Err e, w') \<Rightarrow> (Err (''failed to start the stdio MCP server: '' @ e), w')
           | (Ok r, w') \<Rightarrow> (map_err (\<lambda>e. ''MCP server stopped with an error: '' @ e) r, w')))"

end
