(* ===== verification/Vendor.thy ===== *)
theory Vendor
  imports Disk
begin

text \<open>
  \<open>agent-block vendor\<close> (\<open>vendor.rs\<close>) over the list of embedded modules (\<open>embedded.rs\<close>). The tables
  compiled into the binary and its version are the record \<open>embedded\<close>.
\<close>

section \<open>What the binary carries\<close>

record embedded =
  em_blocks :: "(string \<times> string) list"
  em_libs :: "(string \<times> string) list"
  em_specs :: "(string \<times> string \<times> string) list"
  em_version :: string

datatype entry_kind = Entry_Block | Entry_Lib

record embedded_entry =
  en_name :: string
  en_kind :: entry_kind
  en_source :: string

definition entries :: "embedded \<Rightarrow> embedded_entry list" where
  "entries E = map (\<lambda>(n, s). \<lparr>en_name = n, en_kind = Entry_Block, en_source = s\<rparr>) (em_blocks E)
     @ map (\<lambda>(n, s). \<lparr>en_name = n, en_kind = Entry_Lib, en_source = s\<rparr>) (em_libs E)"

definition find_entry :: "embedded \<Rightarrow> string \<Rightarrow> embedded_entry option" where
  "find_entry E name = find (\<lambda>e. en_name e = name) (entries E)"

record spec =
  sp_module :: string
  sp_file :: string
  sp_source :: string

definition specs_of :: "embedded \<Rightarrow> string \<Rightarrow> spec list" where
  "specs_of E name = map (\<lambda>(m, f, s). \<lparr>sp_module = m, sp_file = f, sp_source = s\<rparr>)
     (filter (\<lambda>(m, f, s). m = name) (em_specs E))"

section \<open>What a name expands to\<close>

definition PACKS :: "string list" where
  "PACKS = [''policy'', ''supervisor'']"

datatype vendor_kind = Module | Spec

record vendored =
  vd_rel :: path
  vd_name :: string
  vd_source :: string
  vd_kind :: vendor_kind

record vendor_plan =
  vp_files :: "vendored list"
  vp_warning :: "string option"

definition module_path :: "string \<Rightarrow> path" where
  "module_path name = join_path (join_path (path_new ''lib'') name) ''init.lua''"

definition subs_of :: "embedded \<Rightarrow> string \<Rightarrow> embedded_entry list" where
  "subs_of E name = filter (\<lambda>e. starts_with (name @ ''.'') (en_name e)) (entries E)"

definition vendor_roots :: "embedded \<Rightarrow> string list" where
  "vendor_roots E = filter (\<lambda>n. \<not> str_contains ''.'' n) (map en_name (entries E))"

text \<open>\<open>trim_start_matches(name).trim_start_matches('.')\<close> and the file of a sub-module.\<close>

definition sub_tail :: "string \<Rightarrow> string \<Rightarrow> string" where
  "sub_tail name full = strip_all [''.''] (strip_all [name] full)"

definition sub_file :: "string \<Rightarrow> embedded_entry \<Rightarrow> vendored" where
  "sub_file name sub =
     \<lparr>vd_rel = join_path (join_path (path_new ''lib'') name)
        (map (\<lambda>c. if c = CHR ''.'' then CHR ''/'' else c) (sub_tail name (en_name sub)) @ ''.lua''),
      vd_name = en_name sub, vd_source = en_source sub, vd_kind = Module\<rparr>"

definition spec_file :: "string \<Rightarrow> spec \<Rightarrow> vendored" where
  "spec_file name s =
     \<lparr>vd_rel = join_path (join_path (join_path (path_new ''lib'') name) ''spec'') (sp_file s),
      vd_name = fmt [name, ''/spec/'', sp_file s], vd_source = sp_source s, vd_kind = Spec\<rparr>"

abbreviation backquoted :: "string \<Rightarrow> string" where
  "backquoted s \<equiv> [CHR 0x60] @ s @ [CHR 0x60]"

abbreviation apostrophes :: "string \<Rightarrow> string" where
  "apostrophes s \<equiv> [CHR 0x27] @ s @ [CHR 0x27]"

abbreviation em_dash :: string where
  "em_dash \<equiv> [CHR 0xE2, CHR 0x80, CHR 0x94]"

abbreviation required :: "string \<Rightarrow> string" where
  "required s \<equiv> fmt [''require('', [CHR 0x22], s, [CHR 0x22], '')'']"

definition resolve_vendor :: "embedded \<Rightarrow> string \<Rightarrow> string + vendor_plan" where
  "resolve_vendor E name =
     (case split_once ''.'' name of
        Some (root, _) \<Rightarrow>
          Err (fmt [backquoted name, '' is part of '', backquoted root, '', and a module vendors whole: run '',
            backquoted (''agent-block vendor '' @ root), '', which writes '', backquoted root,
            '' and every sub-module it has. Half a module on disk and half in memory is two versions of it under one name.''])
      | None \<Rightarrow>
          if name = ''knl_types'' then
            Err (fmt [backquoted name, '' is generated at start from the Rust syscall surface, so there is no file to write out. A filesystem '',
              backquoted name, '' wins over the generated one all the same: write one if you mean to declare that surface yourself, and read the generated one with '',
              required name, ''.''])
          else
            (case find_entry E name of
               None \<Rightarrow> Err (fmt [backquoted name, '' is not an embedded module. There is: '', join_with '', '' (vendor_roots E), ''. '',
                 backquoted ''agent-block vendor --list'', '' says what each one is.''])
             | Some found \<Rightarrow>
                 Ok \<lparr>vp_files = \<lparr>vd_rel = module_path name, vd_name = name, vd_source = en_source found, vd_kind = Module\<rparr>
                       # map (sub_file name) (subs_of E name) @ map (spec_file name) (specs_of E name),
                     vp_warning = (if name \<in> set PACKS then
                       Some (fmt [''warning: '', backquoted name, '' is a pack '', em_dash, '' a value you hand to '', backquoted ''knl.device'',
                         '' or consult in your own loop, not a registry the host reads '', em_dash,
                         '' so a whole copy of it is rarely the change you meant; for a partial one, delegate through '',
                         required (''embedded.'' @ name), ''. Writing it anyway.'']) else None)\<rparr>))"

text \<open>\<open>join\<close> with a path: an absolute one replaces.\<close>

definition join_rel :: "path \<Rightarrow> path \<Rightarrow> path" where
  "join_rel root p = (if p \<noteq> [] \<and> hd p = RootDir then p else root @ p)"

section \<open>The copy\<close>

definition vendor_header :: "string \<Rightarrow> string \<Rightarrow> vendor_kind \<Rightarrow> string" where
  "vendor_header version name k =
     (case k of
        Module \<Rightarrow> fmt [''-- vendored from agent-block '', version, '' (embedded '', name, '')'', [CHR 0x0A],
          ''-- This copy is what '', required name, '' resolves to in this project;'', [CHR 0x0A],
          ''-- the original stays reachable as '', required (''embedded.'' @ name),
          ''. Edit freely; nothing keeps it in step with upstream.'', [CHR 0x0A]]
      | Spec \<Rightarrow> fmt [''-- vendored from agent-block '', version, '' (spec '', name, '')'', [CHR 0x0A],
          ''-- This spec checks the vendored module beside it;'', [CHR 0x0A],
          ''-- run it with '', backquoted ''lua-spec-runner --project <dir>'',
          ''. Edit freely; nothing keeps it in step with upstream.'', [CHR 0x0A]])"

definition render_copy :: "string \<Rightarrow> string \<Rightarrow> string \<Rightarrow> vendor_kind \<Rightarrow> string" where
  "render_copy version name src k =
     (let nl = (if src \<noteq> [] \<and> last src = CHR 0x0A then [] else [CHR 0x0A])
      in fmt [vendor_header version name k, [CHR 0x0A], src, nl])"

section \<open>The listing\<close>

record vendor_row =
  vr_label :: string
  vr_tag :: string
  vr_vendored :: bool

definition vendor_rows :: "'w disk \<Rightarrow> embedded \<Rightarrow> path \<Rightarrow> 'w \<Rightarrow> vendor_row list" where
  "vendor_rows D E dir w =
     map (\<lambda>e.
       (let subs = subs_of E (en_name e);
            base = (if subs = [] then en_name e
              else fmt [en_name e, '' (+'', join_with '', '' (map (\<lambda>s. sub_tail (en_name e) (en_name s)) subs), '')'']);
            n = length (specs_of E (en_name e))
        in \<lparr>vr_label = base @ (if n > 0 then fmt ['' (spec/: '', string_of_nat n, '')''] else []),
            vr_tag = (if en_name e \<in> set PACKS then ''pack'' else []),
            vr_vendored = dk_exists D (join_rel (join_path dir PROJECT_DIR) (module_path (en_name e))) w\<rparr>))
       (filter (\<lambda>e. \<not> str_contains ''.'' (en_name e)) (entries E))"

text \<open>\<open>{:<width$}\<close> counts characters, \<open>len\<close> counts bytes.\<close>

definition pad_right :: "nat \<Rightarrow> string \<Rightarrow> string" where
  "pad_right n s = s @ replicate (n - length (filter (\<lambda>c. \<not> continuation c) s)) (CHR '' '')"

definition row_line :: "nat \<Rightarrow> vendor_row \<Rightarrow> string" where
  "row_line width row =
     trim_end (fmt [pad_right width (vr_label row), ''  '', pad_right 5 ''lib'',
       (if vr_tag row = [] then [] else ''  '' @ vr_tag row),
       (if vr_vendored row then ''  vendored'' else [])]) @ [CHR 0x0A]"

definition vendor_listing :: "'w disk \<Rightarrow> embedded \<Rightarrow> path \<Rightarrow> 'w \<Rightarrow> string" where
  "vendor_listing D E dir w =
     (let rows = vendor_rows D E dir w
      in concat (map (row_line (fold max (map (\<lambda>r. length (vr_label r)) rows) 0)) rows))"

section \<open>The command\<close>

record vendor_args =
  va_names :: "string list"
  va_path :: "path option"
  va_force :: bool
  va_list :: bool

text \<open>Where a planned file goes and what it says.\<close>

definition vendor_target :: "path \<Rightarrow> vendored \<Rightarrow> path" where
  "vendor_target root f = join_rel root (vd_rel f)"

fun write_copies :: "'w disk \<Rightarrow> string \<Rightarrow> path \<Rightarrow> vendored list \<Rightarrow> 'w \<Rightarrow> (string + string) \<times> 'w" where
  "write_copies D version root [] w = (Ok [], w)"
| "write_copies D version root (f # fs) w =
     (let target = vendor_target root f in
      case (case parent_path target of
              Some parent \<Rightarrow>
                (case dk_create_dir_all D parent w of
                   (Err _, w1) \<Rightarrow> (Err (fmt [''creating '', apostrophes (dk_display D parent)]), w1)
                 | (Ok _, w1) \<Rightarrow> (Ok (), w1))
            | None \<Rightarrow> (Ok (), w)) of
        (Err e, w1) \<Rightarrow> (Err e, w1)
      | (Ok _, w1) \<Rightarrow>
          (case dk_write D target (render_copy version (vd_name f) (vd_source f) (vd_kind f)) w1 of
             (Err _, w2) \<Rightarrow> (Err (fmt [''writing '', apostrophes (dk_display D target)]), w2)
           | (Ok _, w2) \<Rightarrow>
               (case write_copies D version root fs w2 of
                  (r, w3) \<Rightarrow> (result_map (\<lambda>out. fmt [dk_display D target, [CHR 0x0A], out]) r, w3))))"

text \<open>The answer is what the run prints.\<close>

definition vendor :: "'w disk \<Rightarrow> embedded \<Rightarrow> vendor_args \<Rightarrow> path \<Rightarrow> 'w \<Rightarrow> (string + string) \<times> 'w" where
  "vendor D E args project_root w =
     (let dir = (case va_path args of Some p \<Rightarrow> p | None \<Rightarrow> project_root) in
      if va_list args then (Ok (vendor_listing D E dir w), w)
      else
        (case collect_results (resolve_vendor E) (va_names args) of
           Err e \<Rightarrow> (Err e, w)
         | Ok plans \<Rightarrow>
             (let files = concat (map vp_files plans);
                  root = join_path dir PROJECT_DIR
              in case (if va_force args then None else find (\<lambda>f. dk_exists D (vendor_target root f) w) files) of
                   Some f \<Rightarrow>
                     (Err (fmt [apostrophes (dk_display D (vendor_target root f)),
                        '' is already there. That copy is this project'', [CHR 0x27],
                        ''s own and may well have been edited; '', backquoted ''--force'', '' overwrites it.'']), w)
                 | None \<Rightarrow> write_copies D (em_version E) root files w)))"

end
