(* ===== verification/Cli.thy ===== *)
theory Cli
  imports Mcp_Serve Vendor Cli_Knl Sandbox
begin

text \<open>
  The command line (\<open>main.rs\<close>) after clap has read it: the project root, the sandbox before anything
  else, the subcommands, and one run with its three layers of input. \<open>.env\<close>, the environment and the
  kernel are the host's; \<open>written\<close> gives the fields of a \<open>--config\<close> text as they are written (by name, or
  by place from an array), \<open>None\<close> when it is no such text.
\<close>

section \<open>Arguments\<close>

datatype command =
  Cmd_Mcp mcp_args
| Cmd_Serve serve_args
| Cmd_Knl knl_command
| Cmd_Vendor vendor_args

record cli =
  cl_command :: "command option"
  cl_script :: "path option"
  cl_block :: "string option"
  cl_relay :: "string option"
  cl_secret_key :: "string option"
  cl_project :: path
  cl_mcp_timeout_secs :: "nat option"
  cl_prompt :: "string option"
  cl_context :: "string option"
  cl_prompt_file :: "path option"
  cl_context_file :: "path option"
  cl_sandbox :: bool
  cl_result :: "path option"
  cl_labels :: "string list"
  cl_config :: "path option"

text \<open>A failure of the process: text, a run's own error, or a panic.\<close>

datatype cli_error =
  Cli_Error string
| Cli_Block block_error
| Cli_Panic

definition EX_TEMPFAIL :: nat where
  "EX_TEMPFAIL = 75"

definition exit_code :: "cli_error + unit \<Rightarrow> nat" where
  "exit_code r =
     (case r of
        Ok _ \<Rightarrow> 0
      | Err (Cli_Block (BE_Deferred _)) \<Rightarrow> EX_TEMPFAIL
      | Err Cli_Panic \<Rightarrow> 101
      | Err _ \<Rightarrow> 1)"

section \<open>Inputs of one run\<close>

record run_config =
  rc_prompt :: "string option"
  rc_context :: "string option"
  rc_result :: "path option"
  rc_labels :: json_map

definition run_config_default :: run_config where
  "run_config_default = \<lparr>rc_prompt = None, rc_context = None, rc_result = None, rc_labels = []\<rparr>"

definition nullable_text :: "(string \<times> json) list \<Rightarrow> string \<Rightarrow> string option option" where
  "nullable_text kvs k =
     (case map_of kvs k of
        None \<Rightarrow> Some None
      | Some JNull \<Rightarrow> Some None
      | Some (JString s) \<Rightarrow> Some (Some s)
      | Some _ \<Rightarrow> None)"

definition decode_run_config :: "(string \<times> json) list \<Rightarrow> run_config option" where
  "decode_run_config kvs =
     (if \<not> distinct (map fst kvs) \<or> \<not> list_all (\<lambda>kv. fst kv \<in> set [''prompt'', ''context'', ''result'', ''labels'']) kvs then None
      else
        Option.bind (nullable_text kvs ''prompt'') (\<lambda>prompt.
        Option.bind (nullable_text kvs ''context'') (\<lambda>context.
        Option.bind (nullable_text kvs ''result'') (\<lambda>result.
        Option.bind (case map_of kvs ''labels'' of None \<Rightarrow> Some [] | Some v \<Rightarrow> as_object v) (\<lambda>labels.
          Some \<lparr>rc_prompt = prompt, rc_context = context, rc_result = map_option path_new result, rc_labels = labels\<rparr>)))))"

definition read_run_config ::
  "'w disk \<Rightarrow> (string \<Rightarrow> (string \<times> json) list option) \<Rightarrow> path option \<Rightarrow> 'w \<Rightarrow> string + run_config" where
  "read_run_config D written p w =
     (case p of
        None \<Rightarrow> Ok run_config_default
      | Some p \<Rightarrow>
          and_then (map_err (\<lambda>_. fmt [''reading --config '', [CHR 0x27], dk_display D p, [CHR 0x27]]) (dk_read_text D p w)) (\<lambda>t.
          case Option.bind (written t) decode_run_config of
            Some c \<Rightarrow> Ok c
          | None \<Rightarrow> Err (fmt [''parsing --config '', [CHR 0x27], dk_display D p, [CHR 0x27], '' as JSON''])))"

definition parse_label :: "(string \<Rightarrow> json option) \<Rightarrow> string \<Rightarrow> string + string \<times> json" where
  "parse_label parse pair =
     (case split_once ''='' pair of
        None \<Rightarrow> Err (fmt [''--label takes key=value, got '', [CHR 0x27], pair, [CHR 0x27], '' (no '', [CHR 0x27], ''='', [CHR 0x27], '' in it)''])
      | Some (key, v) \<Rightarrow>
          (if key = [] then Err (fmt [''--label takes key=value, got '', [CHR 0x27], pair, [CHR 0x27], '' (the key is empty)''])
           else Ok (key, case parse v of Some (JNumber n) \<Rightarrow> JNumber n | Some (JBool b) \<Rightarrow> JBool b | _ \<Rightarrow> JString v)))"

definition parse_labels :: "(string \<Rightarrow> json option) \<Rightarrow> string list \<Rightarrow> string + (string \<times> json) list" where
  "parse_labels parse pairs = collect_results (parse_label parse) pairs"

text \<open>A prompt or a context: \<open>flag\<close> names it in the messages.\<close>

definition cli_source :: "'w disk \<Rightarrow> string \<Rightarrow> string option \<Rightarrow> path option \<Rightarrow> 'w \<Rightarrow> string + prompt_source option" where
  "cli_source D flag given from_file w =
     (case (given, from_file) of
        (None, None) \<Rightarrow> Ok None
      | (Some s, None) \<Rightarrow> Ok (Some (Prompt_Inline s))
      | (None, Some p) \<Rightarrow>
          result_map (\<lambda>t. Some (Prompt_Inline t))
            (map_err (\<lambda>_. fmt [''failed to read '', flag, ''-file '', [CHR 0x27], dk_display D p, [CHR 0x27]]) (dk_read_text D p w))
      | (Some _, Some _) \<Rightarrow> Err (fmt [flag, '' and '', flag, ''-file are mutually exclusive'']))"

definition cli_script :: "'w disk \<Rightarrow> 'w host_ops \<Rightarrow> cli \<Rightarrow> 'w \<Rightarrow> string + path" where
  "cli_script D H cli w =
     (case (cl_script cli, cl_block cli) of
        (Some p, None) \<Rightarrow> Ok p
      | (None, Some name) \<Rightarrow>
          (let registered = scan_blocks D (block_dirs D (ho_env H w) (cl_project cli) [] w) w in
           case find_block registered name of
             Some b \<Rightarrow> Ok (bl_path b)
           | None \<Rightarrow> Err (fmt [''unknown block '', [CHR 0x27], name, [CHR 0x27], ''; registered: ['', block_names registered,
               ''] (looked in <project>/.agent-block/blocks/, <project>/blocks/ and $AGENT_BLOCK_HOME/blocks/)'']))
      | (Some _, Some _) \<Rightarrow> Err ''--script and --block are mutually exclusive''
      | (None, None) \<Rightarrow> Err ''no script given: pass -s/--script <PATH>, -b/--block <NAME>, or use a subcommand (see --help)'')"

definition or_else :: "'a option \<Rightarrow> 'a option \<Rightarrow> 'a option" where
  "or_else a b = (case a of Some _ \<Rightarrow> a | None \<Rightarrow> b)"

definition rpc_timeout_of :: "cli \<Rightarrow> nat" where
  "rpc_timeout_of cli = (case cl_mcp_timeout_secs cli of Some n \<Rightarrow> n * 1000 | None \<Rightarrow> DEFAULT_RPC_TIMEOUT)"

definition when_some :: "('a \<Rightarrow> 'b \<Rightarrow> 'b) \<Rightarrow> 'a option \<Rightarrow> 'b \<Rightarrow> 'b" where
  "when_some f v b = (case v of Some x \<Rightarrow> f x b | None \<Rightarrow> b)"

text \<open>Everything before the run: what it is given, and where its answer is to be written.\<close>

definition cli_config ::
  "'w disk \<Rightarrow> 'w host_ops \<Rightarrow> (string \<Rightarrow> (string \<times> json) list option) \<Rightarrow> (string \<Rightarrow> json option) \<Rightarrow> cli \<Rightarrow> 'w
     \<Rightarrow> string + block_config \<times> path option" where
  "cli_config D H written parse cli w =
     and_then (cli_script D H cli w) (\<lambda>script.
     and_then (read_run_config D written (cl_config cli) w) (\<lambda>rc.
     and_then (cli_source D ''--prompt'' (or_else (cl_prompt cli) (rc_prompt rc)) (cl_prompt_file cli) w) (\<lambda>prompt.
     and_then (cli_source D ''--context'' (or_else (cl_context cli) (rc_context rc)) (cl_context_file cli) w) (\<lambda>context.
     let b = with_mcp_rpc_timeout (rpc_timeout_of cli) (builder_new (Script_Path script) (cl_project cli));
         b = when_some with_relay_url (cl_relay cli) b;
         b = when_some (\<lambda>k. with_secret_key (Secret_Inline k)) (cl_secret_key cli) b;
         b = when_some with_prompt prompt b;
         b = when_some with_context context b;
         b = fold (\<lambda>(k, v). session_label k v) (rc_labels rc) b
     in and_then (parse_labels parse (cl_labels cli)) (\<lambda>labels.
          Ok (fold (\<lambda>(k, v). session_label k v) labels b, or_else (cl_result cli) (rc_result rc)))))))"

section \<open>Running\<close>

text \<open>What the subcommands use besides the disk and the host.\<close>

record 'w cli_parts =
  cp_channel_ok :: "nat \<Rightarrow> bool"
  cp_toml :: "string \<Rightarrow> (string \<times> toml_value) list option"
  cp_minted :: string
  cp_serve_lua :: string
  cp_exe :: "string option"
  cp_embedded :: embedded
  cp_stdio :: "block_server \<Rightarrow> 'w \<Rightarrow> (string + (string + unit)) \<times> 'w"
  cp_knl :: "env \<Rightarrow> knl_command \<Rightarrow> string \<Rightarrow> 'w \<Rightarrow> (cli_failure + string list) \<times> 'w"

definition cli_command ::
  "'w disk \<Rightarrow> 'w host_ops \<Rightarrow> 'w cli_parts \<Rightarrow> string \<Rightarrow> path \<Rightarrow> nat \<Rightarrow> command \<Rightarrow> 'w \<Rightarrow> (cli_error + unit) \<times> 'w" where
  "cli_command D H C invoker root rpc_timeout c w =
     (case c of
        Cmd_Mcp args \<Rightarrow> (case mcp_serve D (cp_stdio C) args root rpc_timeout w of (r, w') \<Rightarrow> (map_err Cli_Error r, w'))
      | Cmd_Serve args \<Rightarrow>
          (case serve D H (cp_channel_ok C) invoker (cp_toml C) (cp_minted C) (cp_serve_lua C) (cp_exe C) args root rpc_timeout w of
             (Err (Refused_Start e), w') \<Rightarrow> (Err (Cli_Error e), w')
           | (Err (Ran (Failed e)), w') \<Rightarrow> (Err (Cli_Error (display_block_error e)), w')
           | (Err (Ran Panicking), w') \<Rightarrow> (Err Cli_Panic, w')
           | (Ok _, w') \<Rightarrow> (Ok (), w'))
      | Cmd_Knl args \<Rightarrow>
          (case cp_knl C (ho_env H w) args (dk_display D root) w of (r, w') \<Rightarrow> (result_map (\<lambda>_. ()) (map_err (\<lambda>e. Cli_Error (fst e)) r), w'))
      | Cmd_Vendor args \<Rightarrow>
          (case vendor D (cp_embedded C) args root w of (r, w') \<Rightarrow> (result_map (\<lambda>_. ()) (map_err Cli_Error r), w')))"

definition run_cli ::
  "'w disk \<Rightarrow> 'w host_ops \<Rightarrow> 'w cli_parts \<Rightarrow> string \<Rightarrow> (string \<Rightarrow> (string \<times> json) list option) \<Rightarrow> (string \<Rightarrow> json option)
     \<Rightarrow> cli \<Rightarrow> 'w \<Rightarrow> (cli_error + unit) \<times> 'w" where
  "run_cli D H C invoker written parse cli w =
     (case cl_command cli of
        Some c \<Rightarrow> cli_command D H C invoker (cl_project cli) (rpc_timeout_of cli) c w
      | None \<Rightarrow>
     (case cli_config D H written parse cli w of
        Err e \<Rightarrow> (Err (Cli_Error e), w)
      | Ok (config, result) \<Rightarrow>
     (case run_capture D H (cp_channel_ok C) invoker config w of
        (Err (Failed e), w1) \<Rightarrow> (Err (Cli_Block e), w1)
      | (Err Panicking, w1) \<Rightarrow> (Err Cli_Panic, w1)
      | (Ok v, w1) \<Rightarrow>
          (case result of
             None \<Rightarrow> (Ok (), w1)
           | Some p \<Rightarrow>
               (case dk_write D p v w1 of
                  (Ok _, w2) \<Rightarrow> (Ok (), w2)
                | (Err _, w2) \<Rightarrow>
                    (Err (Cli_Error (fmt [''writing the script'', [CHR 0x27], ''s result to '', [CHR 0x27], dk_display D p, [CHR 0x27]])), w2))))))"

section \<open>Starting\<close>

definition resolve_project :: "'w disk \<Rightarrow> 'w host_ops \<Rightarrow> path \<Rightarrow> 'w \<Rightarrow> string + path" where
  "resolve_project D H p w =
     (case ho_canonicalize H p w of
        None \<Rightarrow> Err (fmt [''the project root named by --project ('', [CHR 0x27], dk_display D p, [CHR 0x27],
          '') could not be resolved (AGENT_BLOCK_PROJECT names the same root)''])
      | Some root \<Rightarrow>
          (if dk_is_dir D root w then Ok root
           else Err (fmt [''the project root named by --project ('', [CHR 0x27], dk_display D p, [CHR 0x27],
             '') is not a directory (it resolves to '', [CHR 0x27], dk_display D root, [CHR 0x27], '')''])))"

text \<open>
  \<open>startup\<close>, with the boundary in force when the command ran or the start failed; \<open>K\<close> is the kernel and
  \<open>runtime\<close> whether the runtime could be built under a boundary.
\<close>

definition startup ::
  "'w disk \<Rightarrow> 'w host_ops \<Rightarrow> kernel \<Rightarrow> bool \<Rightarrow> (boundary \<Rightarrow> cli \<Rightarrow> 'w \<Rightarrow> (cli_error + unit) \<times> 'w) \<Rightarrow> cli \<Rightarrow> 'w
     \<Rightarrow> (cli_error + unit) \<times> boundary \<times> 'w" where
  "startup D H K runtime run cli w =
     (case resolve_project D H (cl_project cli) w of
        Err e \<Rightarrow> (Err (Cli_Error e), no_boundary, w)
      | Ok root \<Rightarrow>
     (let cli = cli\<lparr>cl_project := root\<rparr>;
          w1 = ho_load_dotenv H (join_path root ''.env'') w;
          config = sandbox_from_env (ho_env H w1) (cl_sandbox cli)
      in case (if sc_enabled config then sandbox_apply K (ho_env H w1) config (dk_display D root) else (Ok (), no_boundary)) of
           (Err _, b) \<Rightarrow> (Err (Cli_Error ''failed to enter sandbox mode (--sandbox / AGENT_BLOCK_SANDBOX)''), b, w1)
         | (Ok _, b) \<Rightarrow>
             (if \<not> runtime then (Err (Cli_Error ''failed to build the tokio runtime''), b, w1)
              else case run b cli w1 of (r, w2) \<Rightarrow> (r, b, w2))))"

end
