(* ===== verification/Serve_Properties.thy ===== *)
theory Serve_Properties
  imports Serve Block_Properties Host_Run_Properties
begin

text \<open>
  What the manager is told of its jobs, and its token: minted once, then read back.
\<close>

section \<open>Declarations\<close>

lemma collect_results_Ok_iff:
  "collect_results f xs = Ok ys \<longleftrightarrow> list_all2 (\<lambda>x y. f x = Ok y) xs ys"
  by (induction xs arbitrary: ys) (auto simp: and_then_Ok_iff list_all2_Cons1)

lemma scan_job_Some:
  assumes "scan_job D toml blocks w b = Ok (Some j)"
  shows "dk_is_file D (declaration_path b) w \<and> jd_name j = bl_name b \<and> jd_cwd j = project_root_of b
    \<and> (if jd_block j = bl_name b then jd_path j = bl_path b
       else map_option bl_path (find_block blocks (jd_block j)) = Some (jd_path j))
    \<and> (\<exists>src table. dk_read_text D (declaration_path b) w = Ok src \<and> toml src = Some table \<and> decode_job_file table \<noteq> None)"
proof -
  have at: "dk_is_file D (declaration_path b) w" using assms by (auto simp: scan_job_def Let_def split: if_splits)
  obtain src where src: "dk_read_text D (declaration_path b) w = Ok src"
    using assms at by (cases "dk_read_text D (declaration_path b) w") (simp_all add: scan_job_def)
  obtain job where job: "Option.bind (toml src) decode_job_file = Some job"
    using assms at src by (cases "Option.bind (toml src) decode_job_file") (simp_all add: scan_job_def)
  define named where "named = (case jf_block job of Some n \<Rightarrow> n | None \<Rightarrow> bl_name b)"
  have rest: "scan_job D toml blocks w b =
      and_then (if named = bl_name b then Ok (bl_path b)
        else case find_block blocks named of Some found \<Rightarrow> Ok (bl_path found)
          | None \<Rightarrow> Err (fmt [''job '', [CHR 0x27], bl_name b, [CHR 0x27], '' names block '', [CHR 0x27], named,
              [CHR 0x27], '', which is not registered ('', dk_display D (declaration_path b), '')'']))
        (\<lambda>script. Ok (Some \<lparr>jd_name = bl_name b, jd_block = named, jd_path = script, jd_cwd = project_root_of b,
                  jd_every = jf_every job, jd_timeout = jf_timeout job, jd_prompt = jf_prompt job,
                  jd_context = jf_context job\<rparr>))"
    unfolding named_def scan_job_def Let_def using at src job by simp
  have "jd_name j = bl_name b \<and> jd_cwd j = project_root_of b \<and> jd_block j = named
    \<and> (if named = bl_name b then jd_path j = bl_path b else map_option bl_path (find_block blocks named) = Some (jd_path j))"
    using assms unfolding rest by (auto split: if_splits option.splits)
  moreover have "\<exists>table. toml src = Some table \<and> decode_job_file table \<noteq> None" using job by (cases "toml src") auto
  ultimately show ?thesis using at src by auto
qed

lemma scan_job_None: "scan_job D toml blocks w b = Ok None \<Longrightarrow> \<not> dk_is_file D (declaration_path b) w"
  by (auto simp: scan_job_def Let_def and_then_Ok_iff split: if_splits option.splits)

lemma declared_names:
  "list_all2 (\<lambda>b found. scan_job D toml blocks w b = Ok found) bs founds \<Longrightarrow>
   map jd_name (List.map_filter id founds) = map bl_name (filter (\<lambda>b. dk_is_file D (declaration_path b) w) bs)"
proof (induction bs founds rule: list_all2_induct)
  case (Cons b bs found founds)
  then show ?case using scan_job_Some [of D toml blocks w b] scan_job_None [of D toml blocks w b]
    by (cases found) (auto simp: List.map_filter_simps)
qed (simp add: List.map_filter_simps)

text \<open>
  The manager's jobs are exactly the registered blocks with a declaration beside them, in the order
  of the registry and under their names; each runs the script the registry gives for the block it names,
  in the root of the block that declares it. One declaration that cannot be read, does not parse, lacks
  its timeout, has a key nobody knows or names a block nobody registered, and there are no jobs at all.
\<close>

theorem jobs_run_registered_blocks:
  assumes "scan_jobs D toml (scan_blocks D dirs w) w = Ok jobs"
  shows "map jd_name jobs = map bl_name (filter (\<lambda>b. dk_is_file D (declaration_path b) w) (scan_blocks D dirs w))
    \<and> (\<forall>j \<in> set jobs. map_option bl_path (find_block (scan_blocks D dirs w) (jd_block j)) = Some (jd_path j)
         \<and> (\<exists>b \<in> set (scan_blocks D dirs w). bl_name b = jd_name j \<and> jd_cwd j = project_root_of b
              \<and> (\<exists>src table. dk_read_text D (declaration_path b) w = Ok src \<and> toml src = Some table
                   \<and> decode_job_file table \<noteq> None)))"
proof -
  let ?bs = "scan_blocks D dirs w"
  obtain founds where all: "list_all2 (\<lambda>b found. scan_job D toml ?bs w b = Ok found) ?bs founds"
    and jobs: "jobs = List.map_filter id founds"
    using assms by (auto simp: scan_jobs_def result_map_def collect_results_Ok_iff split: sum.splits)
  have one: "map_option bl_path (find_block ?bs (jd_block j)) = Some (jd_path j)
         \<and> (\<exists>b \<in> set ?bs. bl_name b = jd_name j \<and> jd_cwd j = project_root_of b
              \<and> (\<exists>src table. dk_read_text D (declaration_path b) w = Ok src \<and> toml src = Some table
                   \<and> decode_job_file table \<noteq> None))" if "j \<in> set jobs" for j
  proof -
    from that jobs have "Some j \<in> set founds" by (auto simp: List.map_filter_def)
    then obtain i where i: "i < length founds" "founds ! i = Some j" by (auto simp: in_set_conv_nth)
    have "i < length ?bs" "scan_job D toml ?bs w (?bs ! i) = Ok (Some j)"
      using all i by (auto simp: list_all2_conv_all_nth)
    then obtain b where b: "b \<in> set ?bs" and sj: "scan_job D toml ?bs w b = Ok (Some j)" by (metis nth_mem)
    have "find_block ?bs (bl_name b) = Some b" using b by (simp add: find_distinct [OF scan_names(2)])
    with scan_job_Some [OF sj] have "map_option bl_path (find_block ?bs (jd_block j)) = Some (jd_path j)"
      by (cases "jd_block j = bl_name b") auto
    with scan_job_Some [OF sj] b show ?thesis by auto
  qed
  have "map jd_name jobs = map bl_name (filter (\<lambda>b. dk_is_file D (declaration_path b) w) ?bs)"
    unfolding jobs by (rule declared_names [OF all])
  with one show ?thesis by blast
qed

text \<open>A directory with one block and its declaration.\<close>

definition sweep_dir :: path where
  "sweep_dir = [Normal ''p'', Normal ''blocks'']"

definition sweep_disk :: "unit disk" where
  "sweep_disk =
     (let present = (\<lambda>p (w :: unit). p \<in> {sweep_dir @ [Normal ''sweep.lua''], sweep_dir @ [Normal ''sweep.job.toml'']})
      in \<lparr>dk_exists = present, dk_is_file = present, dk_is_dir = (\<lambda>p w. p = sweep_dir),
          dk_read_dir = (\<lambda>p w. Ok [''sweep.lua'', ''sweep.job.toml'']), dk_read_text = (\<lambda>p w. Ok ''-- Sweeps.''),
          dk_create_dir_all = (\<lambda>p w. (Ok (), w)), dk_write = (\<lambda>p t w. (Ok (), w)),
          dk_make_private = (\<lambda>p w. (Ok (), w)), dk_display = (\<lambda>p. ''path'')\<rparr>)"

theorem jobs_run_registered_blocks_witness:
  "\<exists>b. scan_blocks sweep_disk [sweep_dir] () = [b] \<and> bl_name b = ''sweep''
     \<and> scan_jobs sweep_disk (\<lambda>s. Some [(''timeout'', TomlString ''1m'')]) [b] ()
         = Ok [\<lparr>jd_name = ''sweep'', jd_block = ''sweep'', jd_path = bl_path b, jd_cwd = project_root_of b,
             jd_every = None, jd_timeout = Spelled_Text ''1m'', jd_prompt = None, jd_context = None\<rparr>]"
proof -
  let ?b = "\<lparr>bl_name = ''sweep'', bl_path = sweep_dir @ [Normal ''sweep.lua''], bl_doc = ''Sweeps.''\<rparr>"
  let ?j = "\<lparr>jd_name = ''sweep'', jd_block = ''sweep'', jd_path = sweep_dir @ [Normal ''sweep.lua''],
    jd_cwd = [Normal ''p''], jd_every = None, jd_timeout = Spelled_Text ''1m'', jd_prompt = None, jd_context = None\<rparr>"
  have found: "scan_blocks sweep_disk [sweep_dir] () = [?b]" by code_simp
  have jobs: "scan_jobs sweep_disk (\<lambda>s. Some [(''timeout'', TomlString ''1m'')]) (scan_blocks sweep_disk [sweep_dir] ()) () = Ok [?j]"
    unfolding found by code_simp
  show ?thesis
    using jobs_run_registered_blocks [OF jobs] jobs unfolding found by simp
qed

text \<open>A block of the vendored tier is run beside the project, not in it.\<close>

lemma vendored_job_runs_elsewhere:
  "project_root_of \<lparr>bl_name = ''sweep'', bl_path = root @ [Normal PROJECT_DIR, Normal ''blocks'', Normal ''sweep.lua''], bl_doc = d\<rparr>
     = root @ [Normal PROJECT_DIR]"
  by (simp add: project_root_of_def parent_path_def file_name_def butlast_append)

section \<open>The token\<close>

lemma strip_line_feed:
  assumes "\<forall>p \<in> set pats. p \<noteq> [] \<and> (hd p = CHR 0x0A \<longrightarrow> p = [CHR 0x0A]) \<and> hd p \<noteq> c" and "[CHR 0x0A] \<in> set pats"
  shows "strip_all pats (CHR 0x0A # c # cs) = c # cs"
proof -
  let ?P = "\<lambda>p. p \<noteq> [] \<and> starts_with p (CHR 0x0A # c # cs)"
  have "?P [CHR 0x0A]" by simp
  with assms(2) obtain p where p: "find ?P pats = Some p" by (cases "find ?P pats") (auto simp: find_None_iff)
  then have "p \<in> set pats" "?P p" by (auto simp: find_Some_iff)
  moreover from this(2) have "hd p = CHR 0x0A" by (cases p) auto
  ultimately have "p = [CHR 0x0A]" using assms(1) by blast
  with p have "strip_all pats (CHR 0x0A # c # cs) = strip_all pats (c # cs)"
    by (subst strip_all.simps) simp
  also have "\<dots> = c # cs" by (rule strip_all_none) (use assms(1) in blast)
  finally show ?thesis .
qed

lemma white_space_line_feed:
  "[CHR 0x0A] \<in> set (map rev white_space)"
  "list_all (\<lambda>p. p \<noteq> [] \<and> (hd p = CHR 0x0A \<longrightarrow> p = [CHR 0x0A])) (map rev white_space)"
  by code_simp+

lemma trim_hex_line:
  assumes "bs \<noteq> []" and "\<forall>b \<in> set bs. b < 256"
  shows "trim (concat (map hex_byte bs) @ [CHR 0x0A]) = concat (map hex_byte bs)"
proof -
  let ?s = "concat (map hex_byte bs)"
  obtain x xs where x: "bs = x # xs" using assms(1) by (cases bs) auto
  obtain ys y where y: "bs = ys @ [y]" using assms(1) by (cases bs rule: rev_cases) auto
  have n: "x div 16 < 16" "y mod 16 < 16" using assms(2) x by auto
  have ws: "p \<noteq> [] \<and> hd p \<noteq> hex_digit (x div 16) \<and> hd (rev p) \<noteq> hex_digit (y mod 16)" if "p \<in> set white_space" for p
    using white_space_not_hex that n by (auto simp: list_all_iff)
  have "trim_start (?s @ [CHR 0x0A]) = ?s @ [CHR 0x0A]"
    unfolding trim_start_def x hex_byte_def list.simps concat.simps append.simps by (rule strip_all_none) (use ws in blast)
  moreover have "trim_end (?s @ [CHR 0x0A]) = ?s"
  proof -
    obtain cs where cs: "rev ?s = hex_digit (y mod 16) # cs" by (simp add: y hex_byte_def)
    have "strip_all (map rev white_space) (CHR 0x0A # hex_digit (y mod 16) # cs) = hex_digit (y mod 16) # cs"
      by (rule strip_line_feed) (use ws white_space_line_feed in \<open>auto simp: list_all_iff\<close>)
    moreover have "rev (hex_digit (y mod 16) # cs) = ?s" unfolding cs [symmetric] by simp
    ultimately show ?thesis by (simp add: trim_end_def cs)
  qed
  ultimately show ?thesis by (simp add: trim_def)
qed

lemma token_reads_back:
  assumes "dk_read_text D (join_path home ''serve.token'') v = Ok t" and "trim t \<noteq> []"
  shows "token_at D minted home v = (Ok (trim t, join_path home ''serve.token''), v)"
  using assms by (simp add: token_at_def Let_def)

lemma token_on_file:
  assumes "disk_laws D files" and "bs \<noteq> []" and "\<forall>b \<in> set bs. b < 256"
    and "token_at D (concat (map hex_byte bs)) home w = (Ok (token, p), w1)"
  shows "p = join_path home ''serve.token'' \<and> token \<noteq> [] \<and> (\<exists>t. files w1 p = Some t \<and> trim t = token)
    \<and> (\<forall>q. q \<noteq> p \<longrightarrow> files w1 q = files w q)
    \<and> (\<forall>t. dk_read_text D p w = Ok t \<and> trim t \<noteq> [] \<longrightarrow> token = trim t \<and> w1 = w)"
proof -
  note laws = disk_laws.reading [OF assms(1)] disk_laws.writing [OF assms(1)] disk_laws.hiding [OF assms(1)]
  let ?p = "join_path home ''serve.token''" and ?m = "concat (map hex_byte bs)"
  have m: "?m \<noteq> []" using assms(2) by (cases bs) (simp_all add: hex_byte_def)
  show ?thesis
  proof (cases "\<exists>t. dk_read_text D ?p w = Ok t \<and> trim t \<noteq> []")
    case True
    then obtain t where t: "dk_read_text D ?p w = Ok t" "trim t \<noteq> []" by blast
    from token_reads_back [OF t] assms(4) have "p = ?p" "token = trim t" "w1 = w" by simp_all
    with t laws(1) [OF t(1)] show ?thesis by auto
  next
    case False
    then have "(case dk_read_text D ?p w of Ok t \<Rightarrow> trim t | Err _ \<Rightarrow> []) = []" by (auto split: sum.splits)
    with assms(4) obtain wa where wr: "dk_write D ?p (?m @ [CHR 0x0A]) w = (Ok (), wa)"
      and pr: "snd (dk_make_private D ?p wa) = w1" and out: "token = ?m" "p = ?p"
      by (auto simp: token_at_def Let_def split: prod.splits sum.splits)
    have "files w1 = (files w)(?p \<mapsto> ?m @ [CHR 0x0A])" using laws(2) [OF wr] laws(3) [of ?p wa] pr by simp
    with out m False trim_hex_line [OF assms(2,3)] show ?thesis by auto
  qed
qed

text \<open>
  A start of the manager that has its token leaves it in its file and touches no other; a token that
  was there is kept; and every later start that can read the file, whatever it would have minted itself,
  answers the same token and writes nothing.
\<close>

theorem token_minted_once:
  assumes "disk_laws D files" and "bs \<noteq> []" and "\<forall>b \<in> set bs. b < 256"
    and "token_at D (concat (map hex_byte bs)) home w = (Ok (token, p), w1)"
  shows "p = join_path home ''serve.token'' \<and> token \<noteq> []
    \<and> (\<exists>t. files w1 p = Some t \<and> trim t = token) \<and> (\<forall>q. q \<noteq> p \<longrightarrow> files w1 q = files w q)
    \<and> (\<forall>t. dk_read_text D p w = Ok t \<and> trim t \<noteq> [] \<longrightarrow> token = trim t \<and> w1 = w)
    \<and> (\<forall>v t minted. files v p = files w1 p \<and> dk_read_text D p v = Ok t \<longrightarrow> token_at D minted home v = (Ok (token, p), v))"
proof -
  note stored = token_on_file [OF assms]
  have "token_at D minted home v = (Ok (token, p), v)"
    if "files v p = files w1 p" "dk_read_text D p v = Ok t" for v t minted
  proof -
    have "trim t = token" using stored that(1) disk_laws.reading [OF assms(1) that(2)] by auto
    with token_reads_back [of D home v t minted] stored that(2) show ?thesis by auto
  qed
  with stored show ?thesis by blast
qed

theorem token_minted_once_witness:
  "token_at map_disk ''spare'' [] (snd (token_at map_disk (concat (map hex_byte [171, 205])) [] Map.empty))
     = (Ok (''abcd'', [Normal ''serve.token'']), snd (token_at map_disk (concat (map hex_byte [171, 205])) [] Map.empty))"
proof -
  let ?w1 = "snd (token_at map_disk (concat (map hex_byte [171, 205])) [] Map.empty)"
  have hex: "concat (map hex_byte [171, 205]) = ''abcd''" by code_simp
  have at: "join_path [] ''serve.token'' = [Normal ''serve.token'']" by code_simp
  have run: "token_at map_disk (concat (map hex_byte [171, 205])) [] Map.empty = (Ok (''abcd'', [Normal ''serve.token'']), ?w1)"
    unfolding hex by (simp add: token_at_def map_disk_def at Let_def)
  have "dk_read_text map_disk [Normal ''serve.token''] ?w1 = Ok (''abcd'' @ [CHR 0x0A])"
    unfolding hex by (simp add: token_at_def map_disk_def at Let_def)
  moreover have bytes: "[171, 205 :: nat] \<noteq> []" "\<forall>b \<in> set [171, 205 :: nat]. b < 256" by simp_all
  note token_minted_once [OF md.disk_laws_axioms bytes run, THEN conjunct2, THEN conjunct2, THEN conjunct2,
      THEN conjunct2, THEN conjunct2, rule_format, of ?w1 "''abcd'' @ [CHR 0x0A]" "''spare''"]
  ultimately show ?thesis by simp
qed

text \<open>A token that cannot be read is replaced, and one whose mode could not be set is used from then on.\<close>

lemma unreadable_token_replaced:
  assumes "dk_read_text D p w = Err e" and "p = join_path home ''serve.token''"
    and "dk_write D p (minted @ [CHR 0x0A]) w = (Ok (), w1)" and "dk_make_private D p w1 = (Ok (), w2)"
  shows "token_at D minted home w = (Ok (minted, p), w2)"
  using assms by (simp add: token_at_def Let_def)

lemma open_token_kept:
  assumes "dk_read_text D p w = Err e" and "p = join_path home ''serve.token''"
    and "dk_write D p (minted @ [CHR 0x0A]) w = (Ok (), w1)" and "dk_make_private D p w1 = (Err e', w2)"
    and "dk_read_text D p w2 = Ok (minted @ [CHR 0x0A])" and "trim (minted @ [CHR 0x0A]) = minted" and "minted \<noteq> []"
  shows "(\<exists>why. token_at D minted home w = (Err why, w2)) \<and> token_at D spare home w2 = (Ok (minted, p), w2)"
  using assms token_reads_back [of D home w2 "minted @ [CHR 0x0A]"] by (simp add: token_at_def Let_def)

end
