(* ===== verification/Mcp_Properties.thy ===== *)
theory Mcp_Properties
  imports Mcp_Serve Serve_Properties
begin

text \<open>
  The tools and resources of the MCP server: what is listed is what is answered, every verb of the job
  manager reaches its own route, and client and manager agree on the token.
\<close>

section \<open>Percent encoding\<close>

lemma upper_hex_unreserved: "n < 16 \<Longrightarrow> unreserved (upper_hex n)"
  by (simp add: upper_hex_def unreserved_def is_ascii_digit_def is_ascii_alphabetic_def)

lemma encode_simps [simp]: "encode [] = []" "encode (c # s) = encode_byte c @ encode s"
  by (simp_all add: encode_def)

lemma encode_plain: "c \<in> set (encode s) \<Longrightarrow> unreserved c \<or> c = CHR ''%''"
proof (induction s)
  case (Cons d s)
  have "(of_char d :: nat) div 16 < 16" "(of_char d :: nat) mod 16 < 16"
    using nat_of_char_less_256 [of d] by linarith+
  with Cons upper_hex_unreserved show ?case by (auto simp: encode_byte_def split: if_splits)
qed simp

lemma not_in_encode [simp]:
  "CHR ''/'' \<notin> set (encode s)" "CHR ''?'' \<notin> set (encode s)" "CHR ''&'' \<notin> set (encode s)" "CHR ''='' \<notin> set (encode s)"
  using encode_plain by (fastforce simp: unreserved_def is_ascii_alphabetic_def is_ascii_digit_def)+

lemma encode_length: "length s \<le> length (encode s)"
  by (induction s) (auto simp: encode_byte_def)

lemma encode_id_iff: "encode s = s \<longleftrightarrow> list_all unreserved s"
proof (induction s)
  case (Cons c s)
  have "encode (c # s) \<noteq> c # s" if "\<not> unreserved c"
  proof
    assume "encode (c # s) = c # s"
    then have "length (encode (c # s)) = Suc (length s)" by simp
    with that encode_length [of s] show False by (simp add: encode_byte_def)
  qed
  with Cons show ?case by (cases "unreserved c") (auto simp: encode_byte_def)
qed simp

lemma encode_nonempty: "encode s = [] \<longleftrightarrow> s = []"
  by (cases s) (auto simp: encode_byte_def)

text \<open>What a reader of the encoding would do.\<close>

definition unhex :: "char \<Rightarrow> nat" where
  "unhex c = (if is_ascii_digit c then of_char c - 48 else of_char c - 55)"

fun percent_decode :: "string \<Rightarrow> string" where
  "percent_decode [] = []"
| "percent_decode (c # cs) =
     (if c = CHR ''%'' then
        (case cs of a # b # rest \<Rightarrow> char_of (16 * unhex a + unhex b) # percent_decode rest | _ \<Rightarrow> c # cs)
      else c # percent_decode cs)"

lemma unhex_upper: "n < 16 \<Longrightarrow> unhex (upper_hex n) = n"
  by (simp add: unhex_def upper_hex_def is_ascii_digit_def)

lemma decode_encode: "percent_decode (encode s) = s"
proof (induction s)
  case (Cons c s)
  have n: "(of_char c :: nat) div 16 < 16" "(of_char c :: nat) mod 16 < 16" using nat_of_char_less_256 [of c] by linarith+
  have "\<not> unreserved (CHR ''%'')" by code_simp
  with Cons n show ?case by (auto simp: encode_byte_def unhex_upper)
qed simp

section \<open>Routes\<close>

lemma split_on_single: "sep \<notin> set s \<Longrightarrow> split_on sep s = [s]"
  by (induction s) auto

lemma split_on_two: "sep \<notin> set s \<Longrightarrow> split_on sep (s @ sep # t) = s # split_on sep t"
  by (induction s) auto

lemma split_once_plain: "CHR ''?'' \<notin> set s \<Longrightarrow> split_once ''?'' s = None"
  by (induction s) auto

lemma split_once_query: "CHR ''?'' \<notin> set s \<Longrightarrow> split_once ''?'' (s @ CHR ''?'' # t) = Some (s, t)"
  by (induction s) auto

text \<open>The path and the query of a target.\<close>

definition uri_split :: "string \<Rightarrow> string \<times> string option" where
  "uri_split t = (case split_once ''?'' t of Some (p, q) \<Rightarrow> (p, Some q) | None \<Rightarrow> (t, None))"

definition routed :: "string \<Rightarrow> string \<Rightarrow> route_target" where
  "routed meth target = (case uri_split target of (p, q) \<Rightarrow> manager_route meth p q)"

definition jobs_route :: "string \<Rightarrow> json_map \<Rightarrow> route_target" where
  "jobs_route name args =
     (let str = (\<lambda>k. case Option.bind (map_get args k) as_str of Some s \<Rightarrow> encode s | None \<Rightarrow> []) in
      if name = ''jobs_list'' then List_Jobs
      else if name = ''runs_list'' then
        List_Runs (map_option encode (Option.bind (map_get args ''job'') as_str))
          (map_option string_of_nat (Option.bind (map_get args ''limit'') as_u64))
      else if name = ''run_get'' then Get_Run (str ''run_id'')
      else if name = ''job_run'' then Request_Job (str ''job'')
      else if name = ''run_stop'' then Stop_Run (str ''run_id'')
      else No_Route)"

lemma required_text_Ok:
  "required_text args k = Ok s \<longleftrightarrow> Option.bind (map_get args k) as_str = Some s \<and> s \<noteq> []"
  by (auto simp: required_text_def split: option.splits)

lemma segment_encode: "s \<noteq> [] \<Longrightarrow> segment (encode s) = Some (encode s)"
  by (simp add: segment_def encode_nonempty)

lemma run_segment_encode: "s \<noteq> [] \<Longrightarrow> run_segment (''/runs/'' @ encode s) = Some (encode s)"
  by (simp add: run_segment_def segment_encode)

lemma job_segment_encode: "s \<noteq> [] \<Longrightarrow> job_segment (''/jobs/'' @ encode s @ ''/runs'') = Some (encode s)"
  by (simp add: job_segment_def segment_encode)

lemma no_run_segment: "run_segment (''/jobs/'' @ s) = None"
  by (simp add: run_segment_def)

lemma not_in_digits [simp]:
  "CHR ''&'' \<notin> set (string_of_nat n)" "CHR ''='' \<notin> set (string_of_nat n)" "CHR ''?'' \<notin> set (string_of_nat n)"
  using digits_are_digits [of n] by (fastforce simp: list_all_iff is_ascii_digit_def)+

lemma query_pair_job: "query_pair (''job='' @ v) = Some (''job'', v)"
  by (simp add: query_pair_def)

lemma query_pair_limit: "query_pair (''limit='' @ v) = Some (''limit'', v)"
  by (simp add: query_pair_def)

lemma runs_target:
  assumes "runs_query args \<noteq> []"
  shows "query_table (join_with ''&'' (runs_query args)) ''job'' = map_option encode (Option.bind (map_get args ''job'') as_str)
    \<and> query_table (join_with ''&'' (runs_query args)) ''limit'' = map_option string_of_nat (Option.bind (map_get args ''limit'') as_u64)"
proof -
  have one: "split_on (CHR ''&'') (''job='' @ encode j) = [''job='' @ encode j]"
    "split_on (CHR ''&'') (''limit='' @ string_of_nat n) = [''limit='' @ string_of_nat n]" for j n
    by (rule split_on_single, simp)+
  have two: "split_on (CHR ''&'') (''job='' @ encode j @ CHR ''&'' # ''limit='' @ string_of_nat n)
      = [''job='' @ encode j, ''limit='' @ string_of_nat n]" for j n
    using split_on_two [of "CHR ''&''" "''job='' @ encode j" "''limit='' @ string_of_nat n"] one(2) by simp
  show ?thesis using assms one two query_pair_job query_pair_limit
    by (cases "Option.bind (map_get args ''job'') as_str"; cases "Option.bind (map_get args ''limit'') as_u64")
      (simp_all add: runs_query_def query_table_def List.map_filter_simps)
qed

text \<open>
  C24: every verb reaches its own route of the manager's handler: the method and the target a tool sends,
  cut at the question mark as a URI is, are routed to the verb that tool stands for, with the name
  percent-encoded. The encoding can be read back, and it is the name itself exactly when every character
  of the name is unreserved.
\<close>

theorem jobs_verbs_reach_their_routes:
  assumes "jobs_request name args = Some (Ok (meth, target))"
  shows "routed meth target = jobs_route name args
    \<and> (\<forall>s. percent_decode (encode s) = s \<and> (encode s = s \<longleftrightarrow> list_all unreserved s))"
proof -
  have plain: "uri_split t = (t, None)" if "CHR ''?'' \<notin> set t" for t
    using split_once_plain [OF that] by (simp add: uri_split_def)
  have "routed meth target = jobs_route name args"
  proof (cases "name = ''runs_list''")
    case True
    show ?thesis
    proof (cases "runs_query args = []")
      case none: True
      then have "Option.bind (map_get args ''job'') as_str = None" "Option.bind (map_get args ''limit'') as_u64 = None"
        by (auto simp: runs_query_def split: option.splits)
      with none True assms show ?thesis
        by (auto simp: jobs_request_def routed_def plain manager_route_def query_table_def List.map_filter_simps
            query_pair_def jobs_route_def)
    next
      case False
      have "uri_split (''/runs?'' @ join_with ''&'' (runs_query args)) = (''/runs'', Some (join_with ''&'' (runs_query args)))"
        using split_once_query [of "''/runs''"] by (simp add: uri_split_def)
      with False True assms runs_target [OF False] show ?thesis
        by (auto simp: jobs_request_def routed_def manager_route_def jobs_route_def)
    qed
  next
    case False
    have noq: "CHR ''?'' \<notin> set (''/runs/'' @ encode i)" "CHR ''?'' \<notin> set (''/jobs/'' @ encode i @ ''/runs'')" for i
      by simp_all
    note paths = plain [OF noq(1)] plain [OF noq(2)]
    consider "name = ''jobs_list''" | i where "required_text args ''run_id'' = Ok i" "name = ''run_get'' \<or> name = ''run_stop''"
      | job where "required_text args ''job'' = Ok job" "name = ''job_run''"
      using assms False by (auto simp: jobs_request_def result_map_def split: if_splits sum.splits)
    then show ?thesis
    proof cases
      case 1
      then have "meth = ''GET''" "target = ''/jobs''" using assms by (simp_all add: jobs_request_def)
      with 1 show ?thesis by (simp add: routed_def plain manager_route_def jobs_route_def)
    next
      case 2
      then have i: "Option.bind (map_get args ''run_id'') as_str = Some i" "i \<noteq> []" by (simp_all add: required_text_Ok)
      have at: "routed m (''/runs/'' @ encode i) = (if m = ''GET'' then Get_Run (encode i) else Stop_Run (encode i))"
        if "m = ''GET'' \<or> m = ''DELETE''" for m
        unfolding routed_def paths(1) prod.case manager_route_def Let_def run_segment_encode [OF i(2)]
        using that by auto
      from 2(2) show ?thesis
      proof
        assume get: "name = ''run_get''"
        then have "meth = ''GET''" and "target = ''/runs/'' @ encode i" using assms 2(1) by (simp_all add: jobs_request_def)
        with get i at [of "''GET''"] show ?thesis by (simp add: jobs_route_def)
      next
        assume stop: "name = ''run_stop''"
        then have "meth = ''DELETE''" and "target = ''/runs/'' @ encode i" using assms 2(1) by (auto simp: jobs_request_def)
        with stop i at [of "''DELETE''"] show ?thesis by (simp add: jobs_route_def)
      qed
    next
      case 3
      then have job: "Option.bind (map_get args ''job'') as_str = Some job" "job \<noteq> []" by (simp_all add: required_text_Ok)
      have "routed ''POST'' (''/jobs/'' @ encode job @ ''/runs'') = Request_Job (encode job)"
        unfolding routed_def paths(2) prod.case manager_route_def Let_def job_segment_encode [OF job(2)] no_run_segment
        by simp
      with 3 assms job(1) show ?thesis by (simp add: jobs_request_def jobs_route_def)
    qed
  qed
  with decode_encode encode_id_iff show ?thesis by blast
qed

theorem jobs_verbs_reach_their_routes_witness:
  "routed ''POST'' ''/jobs/nightly/runs'' = Request_Job ''nightly''"
proof -
  have "jobs_request ''job_run'' [(''job'', JString ''nightly'')] = Some (Ok (''POST'', ''/jobs/nightly/runs''))"
    by (simp add: jobs_request_def required_text_def map_get_def encode_byte_def unreserved_def is_ascii_alphabetic_def)
  from jobs_verbs_reach_their_routes [OF this] show ?thesis
    by (simp add: jobs_route_def map_get_def encode_byte_def unreserved_def is_ascii_alphabetic_def)
qed

text \<open>The handler compares the name as it was encoded, so a job with a space in its name is never asked for.\<close>

lemma spaced_job_never_requested:
  assumes "list_all (\<lambda>j. list_all (\<lambda>c. c \<noteq> CHR ''%'') (jd_name j)) jobs" and "\<not> list_all unreserved job"
  shows "job_requested jobs (Request_Job (encode job)) = None"
proof -
  obtain c where "c \<in> set job" "\<not> unreserved c" using assms(2) by (auto simp: list_all_iff)
  moreover from this(2) have "CHR ''%'' \<in> set (encode_byte c)" by (simp add: encode_byte_def)
  ultimately have "CHR ''%'' \<in> set (encode job)" by (auto simp: encode_def)
  then have "\<not> list_ex (\<lambda>j. jd_name j = encode job) jobs"
    using assms(1) unfolding list_ex_iff list_all_iff by metis
  then show ?thesis by (simp add: job_requested_def)
qed

section \<open>The token\<close>

lemma strip_all_stops: "find (\<lambda>p. p \<noteq> [] \<and> starts_with p (strip_all pats s)) pats = None"
  by (induction pats s rule: strip_all.induct) (subst strip_all.simps, auto split: option.split)

lemma strip_all_done: "find (\<lambda>p. p \<noteq> [] \<and> starts_with p s) pats = None \<Longrightarrow> strip_all pats s = s"
  by (subst strip_all.simps) simp

lemma strip_all_suffix: "\<exists>u. s = u @ strip_all pats s"
proof (induction pats s rule: strip_all.induct)
  case (1 pats s)
  show ?case
  proof (cases "find (\<lambda>p. p \<noteq> [] \<and> starts_with p s) pats")
    case None
    then show ?thesis by (simp add: strip_all_done)
  next
    case (Some p)
    then have "strip_all pats s = strip_all pats (drop (length p) s)" by (subst strip_all.simps) simp
    with 1 [OF Some] show ?thesis by (metis append.assoc append_take_drop_id)
  qed
qed

lemma trim_idem: "trim (trim s) = trim s"
proof -
  let ?x = "trim_start s" and ?rws = "map rev white_space"
  let ?y = "trim_end ?x"
  obtain u where "rev ?x = u @ rev ?y" using strip_all_suffix [of "rev ?x" ?rws] by (auto simp: trim_end_def)
  then have "?x = ?y @ rev u" by (metis rev_append rev_rev_ident)
  then have "starts_with p ?x" if "starts_with p ?y" for p using that by (auto simp: starts_with_iff)
  then have "find (\<lambda>p. p \<noteq> [] \<and> starts_with p ?y) white_space = None"
    using strip_all_stops [of white_space s] by (auto simp: find_None_iff trim_start_def)
  then have "trim_start ?y = ?y" by (simp add: trim_start_def strip_all_done)
  moreover have "trim_end ?y = ?y"
    using strip_all_stops [of ?rws "rev ?x"] by (simp add: trim_end_def strip_all_done)
  ultimately show ?thesis by (simp add: trim_def)
qed

lemma serve_config_token:
  assumes "serve_config D H toml minted lua exe args root rpc_timeout w = (Ok config, w')"
  shows "\<exists>home token p w1. base_dir (ho_env H w) = Ok home \<and> token_at D minted (path_new home) w1 = (Ok (token, p), w')
    \<and> map_option hc_token (bc_http_source config) = Some (Some token)"
  using assms
  by (auto simp: serve_config_def Let_def with_http_source_def http_config_token_def
      split: option.splits sum.splits prod.splits if_splits) blast+

text \<open>
  C23: client and manager agree on the token. Whatever home the manager was started in, a client whose
  environment names the same home and that can read its token file sends the token the manager's listener
  was given, and the listener's gate takes it.
\<close>

theorem manager_takes_its_clients:
  assumes "disk_laws D files" and "bs \<noteq> []" and "\<forall>b \<in> set bs. b < 256"
    and "serve_config D H toml (concat (map hex_byte bs)) lua exe args root rpc_timeout w = (Ok config, w')"
    and "base_dir env = base_dir (ho_env H w)" and "jobs_token_path env = Ok p"
    and "files v p = files w' p" and "dk_read_text D p v = Ok t"
  shows "\<exists>source token. bc_http_source config = Some source \<and> hc_token source = Some token \<and> jobs_token D env v = Ok token
    \<and> (\<forall>bound inner lib rq. http_start source bound = Ok inner
         \<and> Option.bind (rq_authorization rq) (hl_to_str lib) = Some (''Bearer '' @ token) \<longrightarrow> token_ok lib inner rq)"
proof -
  obtain home token q w1 where home: "base_dir (ho_env H w) = Ok home"
    and at: "token_at D (concat (map hex_byte bs)) (path_new home) w1 = (Ok (token, q), w')"
    and src: "map_option hc_token (bc_http_source config) = Some (Some token)"
    using serve_config_token [OF assms(4)] by blast
  have p: "p = join_path (path_new home) ''serve.token''"
    using assms(5,6) home by (simp add: jobs_token_path_def)
  note stored = token_on_file [OF assms(1-3) at]
  have t: "trim t = token" "token \<noteq> []"
    using stored disk_laws.reading [OF assms(1,8)] assms(7) p by auto
  then have "jobs_token D env v = Ok token" using assms(6,8) by (simp add: jobs_token_def)
  moreover have "token_ok lib inner rq"
    if "in_token inner = Some token" "Option.bind (rq_authorization rq) (hl_to_str lib) = Some (''Bearer '' @ token)" for lib inner rq
    using that trim_idem [of t] t by (simp add: token_ok_def bearer_def)
  moreover have "in_token inner = hc_token source" if "http_start source bound = Ok inner" for source bound inner
    using that by (auto simp: http_start_def split: sum.splits prod.splits)
  ultimately show ?thesis using src by (cases "bc_http_source config") auto
qed

text \<open>A host that does nothing, for the witnesses.\<close>

definition quiet_host :: "'w host_ops" where
  "quiet_host =
     \<lparr>ho_env = (\<lambda>w k. if k = ''HOME'' then Some ''/home'' else None), ho_load_dotenv = (\<lambda>p w. w),
      ho_start_dispatcher = (\<lambda>w. w), ho_mesh_connect = (\<lambda>k u w. (Ok (), w)),
      ho_listen = (\<lambda>c w. (Ok (), w)), ho_canonicalize = (\<lambda>p w. Some p),
      ho_current_dir = (\<lambda>w. Ok []), ho_open_conn = (\<lambda>l d b j w. (Ok (), w)),
      ho_open_isle = (\<lambda>l d b j w. (Ok (), w)), ho_profile_json = (\<lambda>p. JNull),
      ho_spawn_isle = (\<lambda>i w. (Ok (), w)), ho_spawn_handler_isle = (\<lambda>i w. (Ok (), w)),
      ho_register = (\<lambda>w. (Ok (), w)), ho_register_handler = (\<lambda>w. (Ok (), w)),
      ho_inject = (\<lambda>ts w. (Ok (), w)), ho_cancel_first = (\<lambda>t w. False),
      ho_eval = (\<lambda>s w. (Ok (LInt 7), w)), ho_unwind = (\<lambda>s w. w),
      ho_tostring = (\<lambda>v. Ok []), ho_show_float = (\<lambda>x. []), ho_raised = (\<lambda>e. IsleOther e),
      ho_drain = (\<lambda>g w. w), ho_listener_shutdown = (\<lambda>w. w), ho_disconnect_all = (\<lambda>w. (Ok (), w)),
      ho_main_shutdown = (\<lambda>w. (Ok (), w)), ho_handler_shutdown = (\<lambda>w. (Ok (), w)),
      ho_logs_shutdown = (\<lambda>w. ([], w)), ho_ts_shutdown = (\<lambda>w. (Ok (), w))\<rparr>"

definition demo_serve :: "(serve_stop + block_config) \<times> (path \<rightharpoonup> string)" where
  "demo_serve = serve_config map_disk quiet_host (\<lambda>s. None) (concat (map hex_byte [171, 205])) ''return 1'' (Some ''/bin/ab'')
     \<lparr>sa_block_dirs = [], sa_bind = ''127.0.0.1:7788'', sa_tick_secs = 5, sa_max_runs = 4\<rparr> [RootDir] 30 Map.empty"

lemma no_blocks_in_memory: "scan_blocks map_disk dirs w = []"
proof -
  have "scan_dir map_disk w d bs = bs" for d bs by (simp add: scan_dir_def map_disk_def)
  then have "fold (scan_dir map_disk w) dirs [] = []" by (induction dirs) simp_all
  then show ?thesis by (simp add: scan_blocks_def)
qed

lemma demo_serve_starts: "\<exists>config. fst demo_serve = Ok config"
proof -
  have home: "base_dir (ho_env quiet_host (Map.empty :: path \<rightharpoonup> string)) = Ok ''/home/.agent-block''" by code_simp
  have dirs: "create_dirs map_disk ps w = (Ok (), w)" for ps w by (induction ps) (simp_all add: map_disk_def)
  have at: "\<exists>w. token_at map_disk minted home Map.empty = (Ok (minted, join_path home ''serve.token''), w)" for minted home
    by (simp add: token_at_def map_disk_def Let_def)
  have utf8: "valid_utf8 ''/home/.agent-block''" "valid_utf8 ''/bin/ab''" by code_simp+
  have root: "ho_canonicalize quiet_host p (Map.empty :: path \<rightharpoonup> string) = Some p" for p by (simp add: quiet_host_def)
  from at [of "concat (map hex_byte [171, 205])" "path_new ''/home/.agent-block''"] show ?thesis
    unfolding demo_serve_def serve_config_def root option.case no_blocks_in_memory scan_jobs_def collect_results.simps
      result_map_simps sum.case home Let_def dirs prod.case
    by (auto simp del: valid_utf8.simps simp add: utf8 List.map_filter_simps)
qed

theorem manager_takes_its_clients_witness:
  "\<exists>config token. demo_serve = (Ok config, snd demo_serve) \<and> map_option hc_token (bc_http_source config) = Some (Some token)
     \<and> jobs_token map_disk (ho_env quiet_host ()) (snd demo_serve) = Ok token"
proof -
  let ?p = "join_path (path_new ''/home/.agent-block'') ''serve.token''"
  have p: "jobs_token_path (ho_env quiet_host ()) = Ok ?p" by code_simp
  have bytes: "[171, 205 :: nat] \<noteq> []" "\<forall>b \<in> set [171, 205 :: nat]. b < 256" by simp_all
  obtain config where config: "demo_serve = (Ok config, snd demo_serve)"
    using demo_serve_starts by (metis prod.collapse)
  note run = config [unfolded demo_serve_def]
  have env: "base_dir (ho_env quiet_host ()) = base_dir (ho_env quiet_host (Map.empty :: path \<rightharpoonup> string))"
    by (simp add: quiet_host_def)
  have home: "base_dir (ho_env quiet_host (Map.empty :: path \<rightharpoonup> string)) = Ok ''/home/.agent-block''" by code_simp
  obtain token q w1 where "token_at map_disk (concat (map hex_byte [171, 205])) (path_new ''/home/.agent-block'') w1 = (Ok (token, q), snd demo_serve)"
    using serve_config_token [OF run] home by (auto simp: demo_serve_def)
  from token_on_file [OF md.disk_laws_axioms bytes this] obtain t where "snd demo_serve ?p = Some t" by auto
  then have "dk_read_text map_disk ?p (snd demo_serve) = Ok t" by (simp add: map_disk_def)
  from manager_takes_its_clients [OF md.disk_laws_axioms bytes run env p refl this [unfolded demo_serve_def]] config
  show ?thesis unfolding demo_serve_def by fastforce
qed

section \<open>Blocks\<close>

lemma block_config_fields:
  "block_config_of S b args = (builder_new (Script_Path (bl_path b)) (bs_project_root S))
     \<lparr>bc_mcp_rpc_timeout := bs_rpc_timeout S,
      bc_prompt := (case map_get args ''prompt'' of Some (JString p) \<Rightarrow> Some (Prompt_Inline p) | _ \<Rightarrow> None),
      bc_context := (case map_get args ''context'' of Some (JString c) \<Rightarrow> Some (Prompt_Inline c) | _ \<Rightarrow> None)\<rparr>"
proof -
  have str: "Option.bind j as_str = (case j of Some (JString s) \<Rightarrow> Some s | _ \<Rightarrow> None)" for j
    by (auto split: option.split json.split)
  have none: "bc_prompt (builder_new src root) = None" "bc_context (builder_new src root) = None" for src root
    by (simp_all add: builder_new_def)
  show ?thesis
    by (simp add: block_config_of_def Let_def str with_prompt_def with_context_def with_mcp_rpc_timeout_def builder_new_def
        split: option.split json.split)
qed

text \<open>
  C25: what can be called is what is listed. The names the tool's schema offers are the registry's, in its
  order; a call that names none of them is refused and touches nothing; one that names a registered block
  is one run of the file the registry has for that name, in the server's project, with the prompt and the
  context the call came with and nothing else set, and is a success exactly when the run answered.
\<close>

theorem blocks_are_callable_as_listed:
  assumes "reg = server_blocks D H S w" and "mcp_run_block D H channel_ok invoker S args w = (answered, w')"
  shows "Option.bind (json_get (mt_schema (hd (mcp_list_tools D H S w))) ''properties'') (\<lambda>p.
        Option.bind (json_get p ''block'') (\<lambda>b. json_get b ''enum'')) = Some (JArray (map (\<lambda>b. JString (bl_name b)) reg))
    \<and> (case Option.bind (map_get args ''block'') as_str of
        None \<Rightarrow> (\<exists>why. answered = Some (Err (Invalid_Params why))) \<and> w' = w
      | Some name \<Rightarrow>
          (if name \<in> bl_name ` set reg
           then \<exists>b \<in> set reg. bl_name b = name \<and> (\<exists>config r. run_capture D H channel_ok invoker config w = (r, w')
             \<and> bc_script config = Script_Path (bl_path b)
             \<and> config = (builder_new (Script_Path (bl_path b)) (bs_project_root S))
                 \<lparr>bc_mcp_rpc_timeout := bs_rpc_timeout S,
                  bc_prompt := (case map_get args ''prompt'' of Some (JString p) \<Rightarrow> Some (Prompt_Inline p) | _ \<Rightarrow> None),
                  bc_context := (case map_get args ''context'' of Some (JString c) \<Rightarrow> Some (Prompt_Inline c) | _ \<Rightarrow> None)\<rparr>
             \<and> ((\<exists>text. answered = Some (Ok (Tool_Success text))) \<longleftrightarrow> (\<exists>v. r = Ok v))
             \<and> ((\<exists>text. answered = Some (Ok (Tool_Failure text))) \<longleftrightarrow> (\<exists>e. r = Err (Failed e)))
             \<and> (\<forall>v. r = Ok v \<and> v \<noteq> [] \<longrightarrow> answered = Some (Ok (Tool_Success v))))
           else (\<exists>why. answered = Some (Err (Invalid_Params why))) \<and> w' = w))"
proof -
  have enum: "Option.bind (json_get (mt_schema (hd (mcp_list_tools D H S w))) ''properties'') (\<lambda>p.
        Option.bind (json_get p ''block'') (\<lambda>b. json_get b ''enum'')) = Some (JArray (map (\<lambda>b. JString (bl_name b)) reg))"
    using assms(1) by (simp add: mcp_list_tools_def Let_def json_of_pairs_def json_get_def map_get_insert)
  show ?thesis
  proof (cases "Option.bind (map_get args ''block'') as_str")
    case None
    with enum assms(2) show ?thesis by (auto simp: mcp_run_block_def)
  next
    case (Some name)
    show ?thesis
    proof (cases "find_block reg name")
      case None
      then have "name \<notin> bl_name ` set reg" by (auto simp: find_block_def find_None_iff)
      with None Some enum assms show ?thesis by (auto simp: mcp_run_block_def Let_def)
    next
      case (Some b)
      have b: "b \<in> set reg" "bl_name b = name"
        using find_distinct [OF scan_names(2), THEN iffD1, OF Some [unfolded assms(1) server_blocks_def]]
        unfolding assms(1) server_blocks_def by simp_all
      obtain r where r: "run_capture D H channel_ok invoker (block_config_of S b args) w = (r, w')"
        and a: "answered = (case r of Ok v \<Rightarrow> Some (Ok (Tool_Success (if v = [] then fmt [''block '', [CHR 0x27], bl_name b, [CHR 0x27], '' completed and returned no value'']
                 else v)))
          | Err (Failed e) \<Rightarrow> Some (Ok (Tool_Failure (fmt [''block '', [CHR 0x27], bl_name b, [CHR 0x27], '' failed: '', display_block_error e])))
          | Err Panicking \<Rightarrow> None)"
        using Some \<open>Option.bind (map_get args ''block'') as_str = Some name\<close> assms
        by (cases "run_capture D H channel_ok invoker (block_config_of S b args) w")
          (auto simp: mcp_run_block_def Let_def split: sum.splits run_stop.splits)
      have "(\<exists>text. answered = Some (Ok (Tool_Success text))) \<longleftrightarrow> (\<exists>v. r = Ok v)"
        "(\<exists>text. answered = Some (Ok (Tool_Failure text))) \<longleftrightarrow> (\<exists>e. r = Err (Failed e))"
        "\<forall>v. r = Ok v \<and> v \<noteq> [] \<longrightarrow> answered = Some (Ok (Tool_Success v))"
        unfolding a by (auto split: sum.splits run_stop.splits)
      moreover have "bc_script (block_config_of S b args) = Script_Path (bl_path b)"
        by (simp add: block_config_fields builder_new_def)
      ultimately have ran: "\<exists>config r. run_capture D H channel_ok invoker config w = (r, w')
          \<and> bc_script config = Script_Path (bl_path b)
          \<and> config = (builder_new (Script_Path (bl_path b)) (bs_project_root S))
                 \<lparr>bc_mcp_rpc_timeout := bs_rpc_timeout S,
                  bc_prompt := (case map_get args ''prompt'' of Some (JString p) \<Rightarrow> Some (Prompt_Inline p) | _ \<Rightarrow> None),
                  bc_context := (case map_get args ''context'' of Some (JString c) \<Rightarrow> Some (Prompt_Inline c) | _ \<Rightarrow> None)\<rparr>
          \<and> ((\<exists>text. answered = Some (Ok (Tool_Success text))) \<longleftrightarrow> (\<exists>v. r = Ok v))
          \<and> ((\<exists>text. answered = Some (Ok (Tool_Failure text))) \<longleftrightarrow> (\<exists>e. r = Err (Failed e)))
          \<and> (\<forall>v. r = Ok v \<and> v \<noteq> [] \<longrightarrow> answered = Some (Ok (Tool_Success v)))"
        using r by (intro exI [of _ "block_config_of S b args"] exI [of _ r] conjI block_config_fields) auto
      have registered: "name \<in> bl_name ` set reg" using b by blast
      show ?thesis
        unfolding \<open>Option.bind (map_get args ''block'') as_str = Some name\<close> option.case if_P [OF registered]
        by (intro conjI enum bexI [OF _ b(1)] b(2) ran)
    qed
  qed
qed

section \<open>Resources\<close>

lemma block_uri_other:
  "BLOCK_URI_PREFIX @ name \<noteq> GUIDE_URI" "BLOCK_URI_PREFIX @ name \<noteq> BLOCKS_URI"
  by (simp_all add: BLOCK_URI_PREFIX_def GUIDE_URI_def BLOCKS_URI_def)

lemma read_block_uri:
  "read_uri D H guide pretty S (BLOCK_URI_PREFIX @ name) w =
     (case find_block (server_blocks D H S w) name of
        None \<Rightarrow> Err (Invalid_Params (''unknown block: '' @ name))
      | Some b \<Rightarrow> (case dk_read_text D (bl_path b) w of
            Ok src \<Rightarrow> Ok (src, BLOCK_MIME)
          | Err e \<Rightarrow> Err (Internal_Error (fmt [''read '', dk_display D (bl_path b), '': '', e]))))"
  using block_uri_other [of name] by (simp add: read_uri_def find_block_def Let_def)

text \<open>
  C26: what is listed is what is read. Every listed resource reads as the type it was listed with, or fails
  because its file does; a block's resource is the source the registry has for its name; nothing that is
  not listed is ever read.
\<close>

theorem resources_read_as_listed:
  assumes "reg = server_blocks D H S w" and "listed = mcp_list_resources D H S w"
  shows "(\<forall>r \<in> set listed. case read_uri D H guide pretty S (mr_uri r) w of
        Ok (text, mime) \<Rightarrow> mime = mr_mime r
      | Err e \<Rightarrow> \<exists>b \<in> set reg. mr_uri r = BLOCK_URI_PREFIX @ bl_name b \<and> (\<exists>f. dk_read_text D (bl_path b) w = Err f))
    \<and> (\<forall>b \<in> set reg. \<forall>src. dk_read_text D (bl_path b) w = Ok src \<longrightarrow>
        read_uri D H guide pretty S (BLOCK_URI_PREFIX @ bl_name b) w = Ok (src, BLOCK_MIME))
    \<and> (\<forall>uri. uri \<notin> mr_uri ` set listed \<longrightarrow> (\<exists>why. read_uri D H guide pretty S uri w = Err (Invalid_Params why)))"
proof -
  have found: "find_block reg (bl_name b) = Some b" if "b \<in> set reg" for b
  proof -
    have "distinct (map bl_name reg)" unfolding assms(1) server_blocks_def by (rule scan_names(2))
    from find_distinct [OF this] that show ?thesis by simp
  qed
  have block: "read_uri D H guide pretty S (BLOCK_URI_PREFIX @ bl_name b) w = (case dk_read_text D (bl_path b) w of
            Ok src \<Rightarrow> Ok (src, BLOCK_MIME)
          | Err e \<Rightarrow> Err (Internal_Error (fmt [''read '', dk_display D (bl_path b), '': '', e])))" if "b \<in> set reg" for b
    using found [OF that] unfolding read_block_uri assms(1) by simp
  have "case read_uri D H guide pretty S (mr_uri r) w of
        Ok (text, mime) \<Rightarrow> mime = mr_mime r
      | Err e \<Rightarrow> \<exists>b \<in> set reg. mr_uri r = BLOCK_URI_PREFIX @ bl_name b \<and> (\<exists>f. dk_read_text D (bl_path b) w = Err f)"
    if listed: "r \<in> set listed" for r
  proof -
    consider "mr_uri r = GUIDE_URI" "mr_mime r = GUIDE_MIME" | "mr_uri r = BLOCKS_URI" "mr_mime r = BLOCKS_MIME"
      | b where "b \<in> set reg" "mr_uri r = BLOCK_URI_PREFIX @ bl_name b" "mr_mime r = BLOCK_MIME"
      using listed assms by (auto simp: mcp_list_resources_def)
    then show ?thesis
    proof cases
      case 3
      with block [OF 3(1)] show ?thesis by (auto split: sum.splits)
    qed (simp_all add: read_uri_def GUIDE_URI_def BLOCKS_URI_def)
  qed
  moreover have "\<exists>why. read_uri D H guide pretty S uri w = Err (Invalid_Params why)" if "uri \<notin> mr_uri ` set listed" for uri
  proof (cases "starts_with BLOCK_URI_PREFIX uri")
    case True
    then obtain name where uri: "uri = BLOCK_URI_PREFIX @ name" by (auto simp: starts_with_iff)
    with that have "find_block reg name = None"
      by (auto simp: find_block_def find_None_iff assms mcp_list_resources_def image_iff)
    then show ?thesis unfolding uri read_block_uri assms(1) by simp
  next
    case False
    with that show ?thesis by (auto simp: read_uri_def assms mcp_list_resources_def)
  qed
  ultimately show ?thesis using block by (auto split: sum.splits)
qed

definition demo_server :: block_server where
  "demo_server = \<lparr>bs_extra_dirs = [sweep_dir], bs_project_root = [RootDir], bs_rpc_timeout = 30, bs_jobs_url = ''http://127.0.0.1:7788''\<rparr>"

lemma demo_server_blocks:
  "map bl_name (server_blocks sweep_disk quiet_host demo_server ()) = [''sweep'']"
  by code_simp

theorem resources_read_as_listed_witness:
  "read_uri sweep_disk quiet_host ''guide'' (\<lambda>j. ''json'') demo_server ''agent-block://blocks/sweep'' () = Ok (''-- Sweeps.'', BLOCK_MIME)
   \<and> (\<exists>why. read_uri sweep_disk quiet_host ''guide'' (\<lambda>j. ''json'') demo_server ''agent-block://blocks/../x'' () = Err (Invalid_Params why))"
proof -
  let ?reg = "server_blocks sweep_disk quiet_host demo_server ()"
  obtain b where b: "?reg = [b]" "bl_name b = ''sweep''" using demo_server_blocks by auto
  note all = resources_read_as_listed [OF refl refl, of sweep_disk quiet_host demo_server "()" "''guide''" "\<lambda>j. ''json''"]
  have "dk_read_text sweep_disk (bl_path b) () = Ok ''-- Sweeps.''" by (simp add: sweep_disk_def Let_def)
  with all [THEN conjunct2, THEN conjunct1] b
  have "read_uri sweep_disk quiet_host ''guide'' (\<lambda>j. ''json'') demo_server (BLOCK_URI_PREFIX @ ''sweep'') () = Ok (''-- Sweeps.'', BLOCK_MIME)"
    by auto
  moreover have "''agent-block://blocks/../x'' \<notin> mr_uri ` set (mcp_list_resources sweep_disk quiet_host demo_server ())"
    using b by (simp add: mcp_list_resources_def GUIDE_URI_def BLOCKS_URI_def BLOCK_URI_PREFIX_def)
  ultimately show ?thesis using all [THEN conjunct2, THEN conjunct2] by (simp add: BLOCK_URI_PREFIX_def)
qed

text \<open>A call of the listed block runs its file with the prompt it came with; one of another name is refused.\<close>

theorem blocks_are_callable_as_listed_witness:
  "(\<exists>b config r. set (server_blocks sweep_disk quiet_host demo_server ()) = {b} \<and> bl_name b = ''sweep''
      \<and> run_capture sweep_disk quiet_host (\<lambda>n. True) ''.'' config () = (r, ())
      \<and> bc_script config = Script_Path (bl_path b) \<and> bc_prompt config = Some (Prompt_Inline ''go'') \<and> bc_context config = None)
   \<and> (\<exists>why. mcp_run_block sweep_disk quiet_host (\<lambda>n. True) ''.'' demo_server [(''block'', JString ''swept'')] () = (Some (Err (Invalid_Params why)), ()))"
proof -
  let ?call = "\<lambda>args. mcp_run_block sweep_disk quiet_host (\<lambda>n. True) ''.'' demo_server args ()"
  let ?good = "[(''block'', JString ''sweep''), (''prompt'', JString ''go'')]" and ?bad = "[(''block'', JString ''swept'')]"
  have run: "?call args = (fst (?call args), ())" for args by (simp add: prod_eq_iff)
  obtain b where b: "server_blocks sweep_disk quiet_host demo_server () = [b]" "bl_name b = ''sweep''"
    using demo_server_blocks by auto
  note law = blocks_are_callable_as_listed [OF refl run, THEN conjunct2]
  have name: "Option.bind (map_get ?good ''block'') as_str = Some ''sweep''" "Option.bind (map_get ?bad ''block'') as_str = Some ''swept''"
    by (simp_all add: map_get_def)
  have "''sweep'' \<in> bl_name ` set (server_blocks sweep_disk quiet_host demo_server ())" using b by simp
  from law [of ?good, unfolded name option.case if_P [OF this]] obtain config r where
    "run_capture sweep_disk quiet_host (\<lambda>n. True) ''.'' config () = (r, ())" "bc_script config = Script_Path (bl_path b)"
    "config = (builder_new (Script_Path (bl_path b)) (bs_project_root demo_server))
       \<lparr>bc_mcp_rpc_timeout := bs_rpc_timeout demo_server,
        bc_prompt := (case map_get ?good ''prompt'' of Some (JString p) \<Rightarrow> Some (Prompt_Inline p) | _ \<Rightarrow> None),
        bc_context := (case map_get ?good ''context'' of Some (JString c) \<Rightarrow> Some (Prompt_Inline c) | _ \<Rightarrow> None)\<rparr>"
    unfolding b(1) by auto
  moreover from this(3) have "bc_prompt config = Some (Prompt_Inline ''go'')" "bc_context config = None"
    by (simp_all add: map_get_def)
  moreover have "''swept'' \<notin> bl_name ` set (server_blocks sweep_disk quiet_host demo_server ())" using b by simp
  from law [of ?bad, unfolded name option.case if_not_P [OF this]] run [of ?bad]
  have "\<exists>why. ?call ?bad = (Some (Err (Invalid_Params why)), ())" by metis
  ultimately show ?thesis using b by (intro conjI exI [of _ b] exI [of _ config] exI [of _ r]) simp_all
qed

end
