(* ===== verification/Cli_Properties.thy ===== *)
theory Cli_Properties
  imports Cli Mcp_Properties
begin

text \<open>
  One run from the command line: which layer each of its inputs comes from, what is written when, and
  that nothing runs before the sandbox it was asked for.
\<close>

section \<open>Inputs\<close>

lemma labels_folded:
  "map_get (bc_session_labels (fold (\<lambda>(k, v). session_label k v) kvs b)) k =
     (case map_of (rev kvs) k of Some v \<Rightarrow> Some v | None \<Rightarrow> map_get (bc_session_labels b) k)"
proof (induction kvs arbitrary: b)
  case (Cons kv kvs)
  obtain a v where kv: "kv = (a, v)" by (cases kv)
  show ?case unfolding kv using Cons [of "session_label a v b"]
    by (cases "map_of (rev kvs) k") (auto simp: session_label_def map_add_def)
qed simp

lemma labels_keep:
  "bc_prompt (fold (\<lambda>(k, v). session_label k v) kvs b) = bc_prompt b"
  "bc_context (fold (\<lambda>(k, v). session_label k v) kvs b) = bc_context b"
  "bc_script (fold (\<lambda>(k, v). session_label k v) kvs b) = bc_script b"
  "bc_project_root (fold (\<lambda>(k, v). session_label k v) kvs b) = bc_project_root b"
  by (induction kvs arbitrary: b) (auto simp: session_label_def)

lemma when_some_simps [simp]: "when_some f None b = b" "when_some f (Some x) b = f x b"
  by (simp_all add: when_some_def)

lemmas builder_simps = with_mcp_rpc_timeout_def builder_new_def with_relay_url_def with_secret_key_def
  with_prompt_def with_context_def

text \<open>The text a run is given: the flag, else the file of the flag, else what \<open>--config\<close> says.\<close>

definition input_text :: "'w disk \<Rightarrow> 'w \<Rightarrow> string option \<Rightarrow> path option \<Rightarrow> string option \<Rightarrow> string option" where
  "input_text D w flag from_file configured =
     (case flag of
        Some s \<Rightarrow> Some s
      | None \<Rightarrow>
          (case from_file of
             Some p \<Rightarrow> (case dk_read_text D p w of Ok t \<Rightarrow> Some t | Err _ \<Rightarrow> None)
           | None \<Rightarrow> configured))"

lemma cli_source_Ok:
  "cli_source D flag (or_else given configured) from_file w = Ok src \<Longrightarrow>
     src = map_option Prompt_Inline (input_text D w given from_file configured)"
  by (auto simp: cli_source_def or_else_def input_text_def result_map_def map_err_def split: option.splits sum.splits)

lemma parse_label_scalar:
  "parse_label parse pair = Ok (k, v) \<Longrightarrow> k \<noteq> [] \<and> (\<exists>text. pair = k @ ''='' @ text
     \<and> (v = JString text \<or> parse text = Some v \<and> ((\<exists>n. v = JNumber n) \<or> (\<exists>b. v = JBool b))))"
  by (auto simp: parse_label_def split: option.splits if_splits json.splits dest!: split_once_Some)

lemma collect_results_mem:
  "collect_results f xs = Ok ys \<Longrightarrow> y \<in> set ys \<Longrightarrow> \<exists>x \<in> set xs. f x = Ok y"
  by (induction xs arbitrary: ys) (auto simp: and_then_Ok_iff)

text \<open>
  C30: a run of the command line is given, for its prompt and its context, the flag's text, else the flag's
  file, else what the \<open>--config\<close> file says (a configured text beside the flag's file is refused); its labels are the file's with the flags' over them, and every
  label of a flag has a key and is text, a number or a truth value. When any of these cannot be had,
  nothing has happened. The script's answer is written, to the flag's file before the configured one, when
  and only when the script returned.
\<close>

theorem run_takes_its_inputs_by_layer:
  assumes "disk_laws D files" and "cl_command cli = None"
    and "run_cli D H C invoker written parse cli w = (r, w')"
  shows "case cli_config D H written parse cli w of
      Err e \<Rightarrow> r = Err (Cli_Error e) \<and> w' = w
    | Ok (config, result) \<Rightarrow>
        (\<exists>script rc labels. cli_script D H cli w = Ok script \<and> read_run_config D written (cl_config cli) w = Ok rc
           \<and> parse_labels parse (cl_labels cli) = Ok labels
           \<and> bc_script config = Script_Path script \<and> bc_project_root config = cl_project cli
           \<and> bc_prompt config = map_option Prompt_Inline (input_text D w (cl_prompt cli) (cl_prompt_file cli) (rc_prompt rc))
           \<and> bc_context config = map_option Prompt_Inline (input_text D w (cl_context cli) (cl_context_file cli) (rc_context rc))
           \<and> result = or_else (cl_result cli) (rc_result rc)
           \<and> (\<forall>k. map_get (bc_session_labels config) k =
                (case map_of (rev labels) k of Some v \<Rightarrow> Some v | None \<Rightarrow> map_of (rev (rc_labels rc)) k))
           \<and> (\<forall>(k, v) \<in> set labels. k \<noteq> [] \<and> ((\<exists>s. v = JString s) \<or> (\<exists>n. v = JNumber n) \<or> (\<exists>b. v = JBool b))))
      \<and> (case run_capture D H (cp_channel_ok C) invoker config w of
           (Err e, w1) \<Rightarrow> isl r \<and> w' = w1
         | (Ok v, w1) \<Rightarrow>
             (case result of
                None \<Rightarrow> r = Ok () \<and> w' = w1
              | Some p \<Rightarrow> (r = Ok () \<longrightarrow> files w' = (files w1)(p \<mapsto> v)) \<and> (\<forall>q. q \<noteq> p \<longrightarrow> files w' q = files w1 q)))"
proof (cases "cli_config D H written parse cli w")
  case (Inl e)
  with assms(2,3) show ?thesis by (simp add: run_cli_def)
next
  case (Inr cr)
  obtain config result where cr: "cr = (config, result)" by (cases cr)
  obtain script rc prompt ctx labels where parts: "cli_script D H cli w = Ok script"
      "read_run_config D written (cl_config cli) w = Ok rc"
      "cli_source D ''--prompt'' (or_else (cl_prompt cli) (rc_prompt rc)) (cl_prompt_file cli) w = Ok prompt"
      "cli_source D ''--context'' (or_else (cl_context cli) (rc_context rc)) (cl_context_file cli) w = Ok ctx"
      "parse_labels parse (cl_labels cli) = Ok labels"
    and result: "result = or_else (cl_result cli) (rc_result rc)"
    and config: "config = fold (\<lambda>(k, v). session_label k v) labels (fold (\<lambda>(k, v). session_label k v) (rc_labels rc)
        (when_some with_context ctx (when_some with_prompt prompt (when_some (\<lambda>k. with_secret_key (Secret_Inline k)) (cl_secret_key cli)
        (when_some with_relay_url (cl_relay cli)
        (with_mcp_rpc_timeout (rpc_timeout_of cli) (builder_new (Script_Path script) (cl_project cli))))))))"
    using Inr unfolding cr by (auto simp: cli_config_def and_then_Ok_iff Let_def)
  have base: "bc_prompt config = prompt" "bc_context config = ctx" "bc_script config = Script_Path script"
      "bc_project_root config = cl_project cli"
    unfolding config labels_keep
    by (cases prompt; cases ctx; cases "cl_secret_key cli"; cases "cl_relay cli"; simp add: builder_simps)+
  have none: "bc_session_labels (when_some with_context ctx (when_some with_prompt prompt (when_some (\<lambda>k. with_secret_key (Secret_Inline k)) (cl_secret_key cli)
        (when_some with_relay_url (cl_relay cli)
        (with_mcp_rpc_timeout (rpc_timeout_of cli) (builder_new (Script_Path script) (cl_project cli))))))) = []"
    by (cases prompt; cases ctx; cases "cl_secret_key cli"; cases "cl_relay cli"; simp add: builder_simps)
  have labelled: "map_get (bc_session_labels config) k =
      (case map_of (rev labels) k of Some v \<Rightarrow> Some v | None \<Rightarrow> map_of (rev (rc_labels rc)) k)" for k
    unfolding config labels_folded none by (simp add: map_get_def split: option.split)
  have "k \<noteq> [] \<and> ((\<exists>s. v = JString s) \<or> (\<exists>n. v = JNumber n) \<or> (\<exists>b. v = JBool b))" if "(k, v) \<in> set labels" for k v
    using collect_results_mem [OF parts(5) [unfolded parse_labels_def] that] parse_label_scalar by blast
  then have scalars: "\<forall>(k, v) \<in> set labels. k \<noteq> [] \<and> ((\<exists>s. v = JString s) \<or> (\<exists>n. v = JNumber n) \<or> (\<exists>b. v = JBool b))" by blast
  have answered: "case run_capture D H (cp_channel_ok C) invoker config w of
           (Err e, w1) \<Rightarrow> isl r \<and> w' = w1
         | (Ok v, w1) \<Rightarrow>
             (case result of
                None \<Rightarrow> r = Ok () \<and> w' = w1
              | Some p \<Rightarrow> (r = Ok () \<longrightarrow> files w' = (files w1)(p \<mapsto> v)) \<and> (\<forall>q. q \<noteq> p \<longrightarrow> files w' q = files w1 q))"
    using assms(3) Inr disk_laws.writing [OF assms(1)] disk_laws.spoiling [OF assms(1)] unfolding cr run_cli_def assms(2)
    by (auto split: prod.splits sum.splits run_stop.splits option.splits)
  show ?thesis
    unfolding Inr cr sum.case prod.case
    using parts(1,2,5) base cli_source_Ok [OF parts(3)] cli_source_Ok [OF parts(4)] result labelled scalars answered by blast
qed

text \<open>
  A prompt in the \<open>--config\<close> file does not give way to the flag's file: the two together are refused.
\<close>

lemma configured_prompt_refuses_file:
  assumes "cli_script D H cli w = Ok script" and "read_run_config D written (cl_config cli) w = Ok rc"
    and "cl_prompt cli = None" and "cl_prompt_file cli = Some p" and "rc_prompt rc = Some s"
  shows "cli_config D H written parse cli w = Err ''--prompt and --prompt-file are mutually exclusive''"
  using assms by (simp add: cli_config_def cli_source_def or_else_def fmt_def)

definition demo_parts :: "'w cli_parts" where
  "demo_parts = \<lparr>cp_channel_ok = (\<lambda>n. True), cp_toml = (\<lambda>s. None), cp_minted = ''abcd'', cp_serve_lua = [], cp_exe = None,
     cp_embedded = \<lparr>em_blocks = [], em_libs = [], em_specs = [], em_version = []\<rparr>, cp_stdio = (\<lambda>s w. (Ok (Ok ()), w)),
     cp_knl = (\<lambda>env c p w. (Ok [], w))\<rparr>"

definition demo_cli :: cli where
  "demo_cli = \<lparr>cl_command = None, cl_script = Some [Normal ''run.lua''], cl_block = None, cl_relay = None, cl_secret_key = None,
     cl_project = [RootDir], cl_mcp_timeout_secs = None, cl_prompt = Some ''go'', cl_context = None, cl_prompt_file = None,
     cl_context_file = None, cl_sandbox = True, cl_result = None, cl_labels = [''run=r-7''], cl_config = None\<rparr>"

theorem run_takes_its_inputs_by_layer_witness:
  "\<exists>config. cli_config map_disk quiet_host (\<lambda>s. None) (\<lambda>s. None) demo_cli Map.empty = Ok (config, None)
     \<and> bc_prompt config = Some (Prompt_Inline ''go'') \<and> map_get (bc_session_labels config) ''run'' = Some (JString ''r-7'')"
proof -
  obtain r w' where run: "run_cli map_disk quiet_host demo_parts ''.'' (\<lambda>s. None) (\<lambda>s. None) demo_cli Map.empty = (r, w')"
    by (metis prod.exhaust)
  have one: "parse_labels (\<lambda>s. None) (cl_labels demo_cli) = Ok [(''run'', JString ''r-7'')]"
    by (simp add: parse_labels_def parse_label_def demo_cli_def)
  obtain config where config: "cli_config map_disk quiet_host (\<lambda>s. None) (\<lambda>s. None) demo_cli Map.empty = Ok (config, None)"
    using one by (simp add: cli_config_def cli_script_def read_run_config_def run_config_default_def cli_source_def or_else_def
        demo_cli_def Let_def)
  have "cl_command demo_cli = None" by (simp add: demo_cli_def)
  from run_takes_its_inputs_by_layer [OF md.disk_laws_axioms this run, unfolded config sum.case prod.case, THEN conjunct1]
  show ?thesis using one config by (auto simp: input_text_def demo_cli_def)
qed

lemma deferred_is_tempfail: "exit_code r = EX_TEMPFAIL \<longleftrightarrow> (\<exists>why. r = Err (Cli_Block (BE_Deferred why)))"
  by (auto simp: exit_code_def EX_TEMPFAIL_def split: sum.splits cli_error.splits block_error.splits)

section \<open>Starting\<close>

lemma sandbox_paths:
  assumes "sandbox_apply K env config root = (Ok (), b)" and "sc_enabled config"
  shows "kn_linux K \<and> kn_restrict K \<in> {Ok FullyEnforced, Ok PartiallyEnforced}
    \<and> (\<exists>r paths. kn_canonicalize K root = Ok r \<and> bd_fs b = Some paths
         \<and> set paths = {p. \<exists>q \<in> granted env config r. kn_canonicalize K q = Ok p})"
proof -
  have linux: "kn_linux K" "sandbox_apply_linux K env config root = (Ok (), b)"
    using assms by (auto simp: sandbox_apply_def split: if_splits)
  obtain writable status where rules: "landlock_rules K env config root = Ok (writable, status)"
    using linux(2) by (auto simp: sandbox_apply_linux_def split: sum.splits)
  obtain r where r: "kn_canonicalize K root = Ok r" "writable = write_allowlist (kn_canonicalize K) env config r"
      "kn_restrict K = Ok status"
    using landlock_rules_Ok [OF rules] by blast
  have "status \<noteq> NotEnforcedStatus" "bd_fs b = Some writable"
    using linux(2) rules by (auto simp: sandbox_apply_linux_def Let_def split: if_splits sum.splits)
  with linux r write_allowlist_set(1) show ?thesis by (cases status) auto
qed

lemma sandbox_tcp:
  "sandbox_apply K env config root = (Ok (), b) \<Longrightarrow> sc_enabled config \<Longrightarrow> bd_tcp_denied b = (\<not> sc_tcp config)"
  by (auto simp: sandbox_apply_def sandbox_apply_linux_def Let_def split: if_splits sum.splits)

text \<open>
  What the flag and the environment ask for, read off the variables: the sandbox unless the value says
  no, the further writable paths between colons, and a denial of TCP when its variable says no.
\<close>

definition says_no :: "string \<Rightarrow> bool" where
  "says_no v \<longleftrightarrow> to_ascii_lowercase (trim v) \<in> {[], ''0'', ''false'', ''no'', ''off''}"

definition sandbox_asked :: "env \<Rightarrow> bool \<Rightarrow> bool" where
  "sandbox_asked env flag \<longleftrightarrow> flag \<or> (\<exists>v. env ''AGENT_BLOCK_SANDBOX'' = Some v \<and> valid_utf8 v \<and> \<not> says_no v)"

definition named_paths :: "env \<Rightarrow> string set" where
  "named_paths env = {q. \<exists>v. env ''AGENT_BLOCK_SANDBOX_FS_RW'' = Some v \<and> valid_utf8 v
     \<and> q \<in> set (split_on (CHR '':'') v) \<and> trim q \<noteq> []}"

definition tcp_refused :: "env \<Rightarrow> bool" where
  "tcp_refused env \<longleftrightarrow> (\<exists>v. env ''AGENT_BLOCK_SANDBOX_TCP'' = Some v \<and> valid_utf8 v \<and> says_no v)"

lemma sandbox_asked_for:
  "sc_enabled (sandbox_from_env env flag) = sandbox_asked env flag"
  "set (sc_fs_rw (sandbox_from_env env flag)) = named_paths env"
  "sc_tcp (sandbox_from_env env flag) = (\<not> tcp_refused env)"
  by (auto simp: sandbox_from_env_def from_parts_def env_var_def sandbox_asked_def named_paths_def tcp_refused_def
      says_no_def is_truthy_def split_paths_def split: option.splits)

text \<open>
  C29: nothing runs before the sandbox it was asked for. A start runs the command line once, with the
  project root it resolved and with \<open>.env\<close> loaded, under the boundary it entered, or it fails before it
  runs anything, which it does only for a sandbox it was asked for or without a runtime. When the flag or
  the environment (with \<open>.env\<close> in it) asked for the sandbox, the kernel enforces the boundary of the
  run: its writable paths are exactly the resolved forms of the project root, the state directory, the
  four built-in paths and the paths the environment names, and TCP is denied when the environment says so.
\<close>

theorem nothing_runs_before_its_sandbox:
  assumes "w1 = ho_load_dotenv H (join_path root ''.env'') w" and "resolve_project D H (cl_project cli) w = Ok root"
    and "env = ho_env H w1"
  shows "((sandbox_asked env (cl_sandbox cli) \<or> \<not> runtime)
        \<and> (\<exists>e b. \<forall>run. startup D H K runtime run cli w = (Err (Cli_Error e), b, w1)))
    \<or> (\<exists>b. (\<forall>run. startup D H K runtime run cli w = (case run b (cli\<lparr>cl_project := root\<rparr>) w1 of (r, w2) \<Rightarrow> (r, b, w2)))
        \<and> (if sandbox_asked env (cl_sandbox cli)
           then kn_linux K \<and> kn_restrict K \<in> {Ok FullyEnforced, Ok PartiallyEnforced}
             \<and> (\<exists>r paths. kn_canonicalize K (dk_display D root) = Ok r \<and> bd_fs b = Some paths
                  \<and> set paths = {p. \<exists>q \<in> {r} \<union> {h. base_dir env = Ok h}
                       \<union> {''/tmp'', ''/dev/null'', ''/dev/urandom'', ''/dev/tty''} \<union> named_paths env. kn_canonicalize K q = Ok p})
             \<and> (tcp_refused env \<longrightarrow> bd_tcp_denied b)
           else b = no_boundary))"
proof -
  let ?config = "sandbox_from_env env (cl_sandbox cli)"
  let ?entered = "if sc_enabled ?config then sandbox_apply K env ?config (dk_display D root) else (Ok (), no_boundary)"
  have same: "cl_sandbox (cli\<lparr>cl_project := root\<rparr>) = cl_sandbox cli" by simp
  have start: "startup D H K runtime run cli w =
      (case ?entered of
           (Err _, b) \<Rightarrow> (Err (Cli_Error ''failed to enter sandbox mode (--sandbox / AGENT_BLOCK_SANDBOX)''), b, w1)
         | (Ok _, b) \<Rightarrow>
             (if \<not> runtime then (Err (Cli_Error ''failed to build the tokio runtime''), b, w1)
              else case run b (cli\<lparr>cl_project := root\<rparr>) w1 of (r, w2) \<Rightarrow> (r, b, w2)))" for run
    unfolding startup_def assms(2) sum.case Let_def assms(1) [symmetric] same assms(3) [symmetric] ..
  obtain s b where entered: "?entered = (s, b)" by force
  show ?thesis
  proof (cases "isl s \<or> \<not> runtime")
    case True
    moreover have "sandbox_asked env (cl_sandbox cli)" if "isl s"
      using that entered by (auto simp: sandbox_asked_for split: if_splits)
    ultimately show ?thesis unfolding start entered prod.case by (cases s) auto
  next
    case False
    then have s: "s = Ok ()" by (cases s) auto
    have "if sandbox_asked env (cl_sandbox cli)
           then kn_linux K \<and> kn_restrict K \<in> {Ok FullyEnforced, Ok PartiallyEnforced}
             \<and> (\<exists>r paths. kn_canonicalize K (dk_display D root) = Ok r \<and> bd_fs b = Some paths
                  \<and> set paths = {p. \<exists>q \<in> {r} \<union> {h. base_dir env = Ok h}
                       \<union> {''/tmp'', ''/dev/null'', ''/dev/urandom'', ''/dev/tty''} \<union> named_paths env. kn_canonicalize K q = Ok p})
             \<and> (tcp_refused env \<longrightarrow> bd_tcp_denied b)
           else b = no_boundary"
      using entered s sandbox_paths [of K env ?config "dk_display D root" b] sandbox_tcp [of K env ?config "dk_display D root" b]
      by (cases "sc_enabled ?config") (simp_all add: sandbox_asked_for granted_def)
    with False show ?thesis unfolding start entered prod.case s sum.case by (intro disjI2 exI [of _ b]) simp
  qed
qed

text \<open>A start without the flag, in an environment that asks for the sandbox and for one more path.\<close>

definition asking_host :: "unit host_ops" where
  "asking_host = quiet_host\<lparr>ho_env := (\<lambda>w. [''HOME'' \<mapsto> ''/home'', ''AGENT_BLOCK_SANDBOX'' \<mapsto> ''1'', ''AGENT_BLOCK_SANDBOX_FS_RW'' \<mapsto> ''/data''])\<rparr>"

definition asking_cli :: cli where
  "asking_cli = demo_cli\<lparr>cl_project := sweep_dir, cl_sandbox := False\<rparr>"

theorem nothing_runs_before_its_sandbox_witness:
  "\<exists>b paths. bd_fs b = Some paths \<and> ''/data'' \<in> set paths \<and> ''/etc'' \<notin> set paths
     \<and> (\<forall>run. startup sweep_disk asking_host demo_kernel True run asking_cli ()
         = (case run b asking_cli () of (r, w2) \<Rightarrow> (r, b, w2)))"
proof -
  let ?env = "ho_env asking_host ()" and ?start = "\<lambda>run. startup sweep_disk asking_host demo_kernel True run asking_cli ()"
  have root: "resolve_project sweep_disk asking_host (cl_project asking_cli) () = Ok sweep_dir"
    by (simp add: resolve_project_def asking_host_def asking_cli_def quiet_host_def sweep_disk_def Let_def)
  have asked: "sandbox_asked ?env (cl_sandbox asking_cli)"
    unfolding sandbox_asked_def by (intro disjI2 exI [of _ "''1''"]) (simp add: asking_host_def, code_simp)
  have named: "''/data'' \<in> named_paths ?env"
    unfolding named_paths_def by (intro CollectI exI [of _ "''/data''"]) (simp add: asking_host_def, code_simp)
  have kept: "asking_cli\<lparr>cl_project := sweep_dir\<rparr> = asking_cli" by (simp add: asking_cli_def)
  have "fst (?start (\<lambda>b c w. (Ok (), w))) = Ok ()" by code_simp
  then have never: "\<not> (\<exists>e b. \<forall>run. ?start run = (Err (Cli_Error e), b, ()))" by (metis Inl_Inr_False fst_conv)
  from nothing_runs_before_its_sandbox [OF refl root refl, where K = demo_kernel and runtime = True] never asked obtain b r paths where
    runs: "\<forall>run. ?start run = (case run b asking_cli () of (r, w2) \<Rightarrow> (r, b, w2))"
    and r: "kn_canonicalize demo_kernel (dk_display sweep_disk sweep_dir) = Ok r" "bd_fs b = Some paths"
    and paths: "set paths = {p. \<exists>q \<in> {r} \<union> {h. base_dir ?env = Ok h}
       \<union> {''/tmp'', ''/dev/null'', ''/dev/urandom'', ''/dev/tty''} \<union> named_paths ?env. kn_canonicalize demo_kernel q = Ok p}"
    unfolding kept by auto
  have "kn_canonicalize demo_kernel ''/data'' = Ok ''/data''" by (simp add: demo_kernel_def)
  with named have "''/data'' \<in> set paths" unfolding paths by blast
  moreover have "''/etc'' \<notin> set paths"
  proof -
    have "r = dk_display sweep_disk sweep_dir" using r(1) by (simp add: demo_kernel_def split: if_splits)
    moreover have "dk_display sweep_disk sweep_dir \<noteq> ''/etc''" "base_dir ?env = Ok ''/home/.agent-block''" by code_simp+
    moreover have "''/etc'' \<notin> named_paths ?env"
      by (auto simp: named_paths_def asking_host_def)
    ultimately show ?thesis unfolding paths by (auto simp: demo_kernel_def split: if_splits)
  qed
  ultimately show ?thesis using runs r(2) by blast
qed

end
