(* ===== verification/Vendor_Properties.thy ===== *)
theory Vendor_Properties
  imports Vendor Host_Run_Properties
begin

text \<open>
  Vendoring is all of what was asked for or a refusal that wrote nothing, and never over a file the
  project has.
\<close>

section \<open>What a name expands to\<close>

lemma find_entry_name: "find_entry E name = Some e \<Longrightarrow> en_name e = name \<and> e \<in> set (entries E)"
  by (auto simp: find_entry_def find_Some_iff)

lemma sub_tail_dotted:
  assumes "\<not> str_contains ''.'' name" and "name \<noteq> []" and "t \<noteq> []" and "hd t \<noteq> CHR ''.''"
  shows "sub_tail name (name @ ''.'' @ t) = t"
proof -
  obtain c cs where name: "name = c # cs" using assms(2) by (cases name) auto
  then have "c \<noteq> CHR ''.''" using assms(1) by (auto simp: starts_with_iff)
  then have stripped: "strip_all [name] (CHR ''.'' # t) = CHR ''.'' # t"
    by (intro strip_all_none) (auto simp: name)
  have "strip_all [name] (name @ ''.'' @ t) = CHR ''.'' # t"
    using assms(2) stripped by (subst strip_all.simps) simp
  moreover have "strip_all [''.''] (CHR ''.'' # t) = t"
    using assms(3,4) by (subst strip_all.simps) (cases t, auto intro!: strip_all_none)
  ultimately show ?thesis by (simp add: sub_tail_def)
qed

text \<open>A module vendors whole, and each sub-module lands where \<open>require\<close> looks for its dotted name.\<close>

lemma vendors_whole:
  assumes "resolve_vendor E name = Ok pl"
  shows "\<not> str_contains ''.'' name \<and> (\<exists>e. find_entry E name = Some e
    \<and> map (\<lambda>f. (vd_name f, vd_source f)) (filter (\<lambda>f. vd_kind f = Module) (vp_files pl))
      = (name, en_source e) # map (\<lambda>s. (en_name s, en_source s)) (subs_of E name)
    \<and> map vd_source (filter (\<lambda>f. vd_kind f = Spec) (vp_files pl)) = map sp_source (specs_of E name))"
proof -
  have whole: "\<not> str_contains ''.'' name" "name \<noteq> ''knl_types''"
    using assms by (auto simp: resolve_vendor_def split_once_None [symmetric] split: option.splits)
  then obtain e where e: "find_entry E name = Some e"
    using assms by (auto simp: resolve_vendor_def split: option.splits)
  have "filter (\<lambda>f. vd_kind f = Module) (map (sub_file name) ss @ map (spec_file name) ps) = map (sub_file name) ss"
    "filter (\<lambda>f. vd_kind f = Spec) (map (sub_file name) ss @ map (spec_file name) ps) = map (spec_file name) ps" for ss ps
    by (simp_all add: filter_map o_def sub_file_def spec_file_def)
  with assms whole e show ?thesis
    by (auto simp: resolve_vendor_def split_once_None [symmetric] sub_file_def spec_file_def)
qed

lemma part_refused: "str_contains ''.'' name \<Longrightarrow> \<exists>e. resolve_vendor E name = Err e"
  using split_once_None [of "''.''" name] by (cases "split_once ''.'' name") (auto simp: resolve_vendor_def)


section \<open>The command\<close>












end
