(* ===== verification/Sh.thy ===== *)
theory Sh
  imports Host_Run
begin

text \<open>
  \<open>bridge/sh.rs\<close>: commands, the process groups they run in, and the ways a group is ended. The
  registry of live groups is state every command shares, so a wait and a sleep take it and give it back:
  what the other coroutines of the host did meanwhile is in what they give. Processes are the record
  \<open>process_ops\<close>.
\<close>

section \<open>The registry\<close>

definition OWN_CREDENTIAL_ENV_VARS :: "string list" where
  "OWN_CREDENTIAL_ENV_VARS = [''ANTHROPIC_API_KEY'', ''OPENAI_API_KEY'', ''AGENT_BLOCK_MESH_SECRET_KEY'']"

record group =
  gr_label :: "string option"
  gr_killed :: bool

type_synonym groups = "(int \<times> group) list"

fun group_insert :: "int \<Rightarrow> group \<Rightarrow> groups \<Rightarrow> groups" where
  "group_insert p g [] = [(p, g)]"
| "group_insert p g ((q, h) # gs) =
     (if p < q then (p, g) # (q, h) # gs else if p = q then (p, g) # gs else (q, h) # group_insert p g gs)"

definition remember_group :: "int \<Rightarrow> string option \<Rightarrow> groups \<Rightarrow> groups" where
  "remember_group pgid label gs = group_insert pgid \<lparr>gr_label = label, gr_killed = False\<rparr> gs"

definition forget_group :: "int \<Rightarrow> groups \<Rightarrow> bool \<times> groups" where
  "forget_group pgid gs =
     ((case map_of gs pgid of Some g \<Rightarrow> gr_killed g | None \<Rightarrow> False), filter (\<lambda>pg. fst pg \<noteq> pgid) gs)"

definition take_labelled :: "string \<Rightarrow> groups \<Rightarrow> int option \<times> groups" where
  "take_labelled label gs =
     (case find (\<lambda>pg. gr_label (snd pg) = Some label) gs of
        None \<Rightarrow> (None, gs)
      | Some (p, g) \<Rightarrow> (Some p, map (\<lambda>(q, h). (q, if q = p then h\<lparr>gr_killed := True\<rparr> else h)) gs))"

section \<open>Processes\<close>

datatype signal = Sigterm | Sigkill | Probe

record shell_output =
  so_code :: "int option"
  so_stdout :: string
  so_stderr :: string

datatype waited = Wait_Over "string + shell_output" | Wait_Expired

text \<open>
  \<open>po_killpg\<close> says whether there was a group to signal. A wait that expired has dropped the child, which
  ends the command itself.
\<close>

record 'w process_ops =
  po_env :: "'w \<Rightarrow> env"
  po_spawn :: "string \<Rightarrow> path \<Rightarrow> bool \<Rightarrow> env \<Rightarrow> 'w \<Rightarrow> (string + int option) \<times> 'w"
  po_wait :: "nat \<Rightarrow> groups \<times> 'w \<Rightarrow> waited \<times> groups \<times> 'w"
  po_sleep :: "nat \<Rightarrow> groups \<times> 'w \<Rightarrow> groups \<times> 'w"
  po_killpg :: "int \<Rightarrow> signal \<Rightarrow> 'w \<Rightarrow> bool \<times> 'w"

section \<open>Running a command\<close>

record exec_failure =
  ef_message :: string
  ef_timed_out :: bool

definition failed_timed_out :: "string \<Rightarrow> exec_failure" where
  "failed_timed_out message = \<lparr>ef_message = message, ef_timed_out = True\<rparr>"

definition failed_other :: "string \<Rightarrow> exec_failure" where
  "failed_other message = \<lparr>ef_message = message, ef_timed_out = False\<rparr>"

text \<open>What a child inherits.\<close>

definition child_env :: "env \<Rightarrow> env" where
  "child_env env = fold (\<lambda>var e. e(var := None)) OWN_CREDENTIAL_ENV_VARS env"

type_synonym exec_result = "int \<times> string \<times> string \<times> bool"

definition run_async ::
  "'w process_ops \<Rightarrow> string \<Rightarrow> path \<Rightarrow> nat \<Rightarrow> string option \<Rightarrow> groups \<times> 'w \<Rightarrow> (exec_failure + exec_result) \<times> groups \<times> 'w" where
  "run_async P cmd cwd timeout label = (\<lambda>(gs, w).
     (let grouped = sh_process_group (po_env P w) in
      case po_spawn P cmd cwd grouped (child_env (po_env P w)) w of
        (Err e, w1) \<Rightarrow> (Err (failed_other (''exec error: '' @ e)), gs, w1)
      | (Ok pid, w1) \<Rightarrow>
          (let pgid = (if grouped then pid else None);
               gs1 = (case pgid of Some p \<Rightarrow> remember_group p label gs | None \<Rightarrow> gs)
           in case po_wait P timeout (gs1, w1) of
                (outcome, gs2, w2) \<Rightarrow>
                  (case (case pgid of
                           Some p \<Rightarrow>
                             (let w3 = (if outcome = Wait_Expired then snd (po_killpg P p Sigkill w2) else w2)
                              in case forget_group p gs2 of (k, gs3) \<Rightarrow> (k, gs3, w3))
                         | None \<Rightarrow> (False, gs2, w2)) of
                     (killed, gs3, w3) \<Rightarrow>
                       (case outcome of
                          Wait_Expired \<Rightarrow> (Err (failed_timed_out (fmt [''timeout after '', string_of_nat timeout, ''s''])), gs3, w3)
                        | Wait_Over (Err e) \<Rightarrow> (Err (failed_other (''wait error: '' @ e)), gs3, w3)
                        | Wait_Over (Ok out) \<Rightarrow>
                            (Ok ((case so_code out of Some c \<Rightarrow> c | None \<Rightarrow> -1), from_utf8_lossy (so_stdout out),
                               from_utf8_lossy (so_stderr out), killed), gs3, w3))))))"

text \<open>
  \<open>sh.exec\<close>: an option that is absent or of another type is as good as absent; \<open>to_u64\<close> and
  \<open>to_text\<close> are mlua's conversions.
\<close>

datatype exec_reply =
  Exec_Ok int string string bool
| Exec_Failed string bool

definition sh_exec ::
  "'w process_ops \<Rightarrow> (lua \<Rightarrow> nat option) \<Rightarrow> (lua \<Rightarrow> string option) \<Rightarrow> path \<Rightarrow> string \<Rightarrow> (string \<Rightarrow> lua) option
     \<Rightarrow> groups \<times> 'w \<Rightarrow> exec_reply \<times> groups \<times> 'w" where
  "sh_exec P to_u64 to_text default_cwd cmd opts st =
     (let timeout = (case Option.bind opts (\<lambda>t. to_u64 (t ''timeout'')) of Some n \<Rightarrow> n | None \<Rightarrow> 30);
          cwd = (case Option.bind opts (\<lambda>t. to_text (t ''cwd'')) of Some d \<Rightarrow> path_new d | None \<Rightarrow> default_cwd);
          label = Option.bind opts (\<lambda>t. to_text (t ''label''))
      in case run_async P cmd cwd timeout label st of
           (Ok (code, out, err, killed), st') \<Rightarrow> (Exec_Ok code out err killed, st')
         | (Err f, st') \<Rightarrow> (Exec_Failed (ef_message f) (ef_timed_out f), st'))"

section \<open>Ending groups\<close>

text \<open>The probes of \<open>kill_labelled\<close>: as many as fit before the deadline.\<close>

fun probe_gone :: "'w process_ops \<Rightarrow> int \<Rightarrow> nat \<Rightarrow> groups \<times> 'w \<Rightarrow> bool \<times> groups \<times> 'w" where
  "probe_gone P pgid 0 st = (False, st)"
| "probe_gone P pgid (Suc n) st =
     (case po_sleep P 50 st of
        (gs, w) \<Rightarrow>
          (case po_killpg P pgid Probe w of
             (alive, w') \<Rightarrow> if alive then probe_gone P pgid n (gs, w') else (True, gs, w')))"

text \<open>\<open>probes window\<close> is how many sleeps of 50 ms begin within the window.\<close>

definition kill_labelled :: "'w process_ops \<Rightarrow> (nat \<Rightarrow> nat) \<Rightarrow> string \<Rightarrow> groups \<times> 'w \<Rightarrow> bool \<times> groups \<times> 'w" where
  "kill_labelled P probes label = (\<lambda>(gs, w).
     (case take_labelled label gs of
        (None, gs') \<Rightarrow> (False, gs', w)
      | (Some pgid, gs') \<Rightarrow>
          (let w1 = snd (po_killpg P pgid Sigterm w);
               grace = task_grace_ms (po_env P w1)
           in case probe_gone P pgid (probes (grace * 2)) (gs', w1) of
                (True, st) \<Rightarrow> (True, st)
              | (False, gs'', w2) \<Rightarrow> (True, gs'', snd (po_killpg P pgid Sigkill w2)))))"

definition signal_live_groups :: "'w process_ops \<Rightarrow> signal \<Rightarrow> bool \<Rightarrow> groups \<times> 'w \<Rightarrow> groups \<times> 'w" where
  "signal_live_groups P sig forget = (\<lambda>(gs, w).
     fold (\<lambda>p (gs, w). (if forget then snd (forget_group p gs) else gs, snd (po_killpg P p sig w))) (map fst gs) (gs, w))"

definition kill_live_groups :: "'w process_ops \<Rightarrow> groups \<times> 'w \<Rightarrow> groups \<times> 'w" where
  "kill_live_groups P = signal_live_groups P Sigkill True"

definition term_live_groups :: "'w process_ops \<Rightarrow> groups \<times> 'w \<Rightarrow> groups \<times> 'w" where
  "term_live_groups P = signal_live_groups P Sigterm False"

text \<open>
  \<open>install_signal_cleanup\<close>: the first call of a process listens, and what it does when a signal comes;
  the answer is the exit code, \<open>None\<close> when the bus is serving.
\<close>

definition install_cleanup :: "bool \<Rightarrow> bool \<times> bool" where
  "install_cleanup installed = (\<not> installed, True)"

definition signal_cleanup :: "'w process_ops \<Rightarrow> ('w \<Rightarrow> bool) \<Rightarrow> groups \<times> 'w \<Rightarrow> nat option \<times> groups \<times> 'w" where
  "signal_cleanup P is_serving st =
     (let st1 = term_live_groups P st;
          st2 = po_sleep P (task_grace_ms (po_env P (snd st1))) st1;
          st3 = kill_live_groups P st2
      in (if is_serving (snd st3) then None else Some 130, st3))"

end
