(* ===== verification/Sh_Properties.thy ===== *)
theory Sh_Properties
  imports Sh
begin

text \<open>
  No group outlives the answer that reports its end, and the registry is what is under way: a timeout and
  \<open>sh.kill\<close> under the laws of signals (the locale \<open>process_groups\<close>), and a machine of commands that begin,
  end, are dropped and are killed in any order.
\<close>

section \<open>The registry as a map\<close>







lemma map_of_forget: "map_of (snd (forget_group p gs)) = (map_of gs)(p := None)"
proof -
  have "map_of (filter (\<lambda>pg. fst pg \<noteq> p) gs) q = ((map_of gs)(p := None)) q" for q by (induction gs) auto
  then show ?thesis by (auto simp: forget_group_def)
qed


lemma forgotten_keys: "set (map fst (snd (forget_group p gs))) = set (map fst gs) - {p}"
  by (auto simp: forget_group_def)

lemma find_in: "find Q xs = Some x \<Longrightarrow> x \<in> set xs \<and> Q x"
  by (induction xs) (auto split: if_splits)

lemma take_labelled_None:
  "fst (take_labelled label gs) = None \<longleftrightarrow> (\<forall>pg \<in> set gs. gr_label (snd pg) \<noteq> Some label)"
  "fst (take_labelled label gs) = None \<Longrightarrow> snd (take_labelled label gs) = gs"
proof -
  let ?Q = "\<lambda>pg. gr_label (snd pg) = Some label"
  show "fst (take_labelled label gs) = None \<longleftrightarrow> (\<forall>pg \<in> set gs. gr_label (snd pg) \<noteq> Some label)"
  proof (cases "find ?Q gs")
    case None
    moreover from this have "\<forall>pg \<in> set gs. gr_label (snd pg) \<noteq> Some label" by (auto simp: find_None_iff)
    ultimately show ?thesis by (simp only: take_labelled_def option.case fst_conv) simp
  next
    case (Some pg)
    with find_in [OF Some] show ?thesis by (cases pg) (force simp: take_labelled_def)
  qed
  show "snd (take_labelled label gs) = gs" if "fst (take_labelled label gs) = None"
    using that by (auto simp: take_labelled_def split: option.splits)
qed

lemma take_labelled_Some:
  assumes "fst (take_labelled label gs) = Some p"
  shows "\<exists>g. (p, g) \<in> set gs \<and> gr_label g = Some label
    \<and> snd (take_labelled label gs) = map (\<lambda>(q, h). (q, if q = p then h\<lparr>gr_killed := True\<rparr> else h)) gs"
proof -
  obtain g where g: "find (\<lambda>pg. gr_label (snd pg) = Some label) gs = Some (p, g)"
    using assms by (auto simp: take_labelled_def split: option.splits)
  from find_in [OF this] g show ?thesis by (auto simp: take_labelled_def)
qed



section \<open>Ending a group\<close>

locale process_groups =
  fixes P :: "'w process_ops" and running :: "'w \<Rightarrow> int set"
  assumes killing: "running (snd (po_killpg P p Sigkill w)) = running w - {p}"
    and probing: "po_killpg P p Probe w = (alive, w') \<Longrightarrow> running w' = running w \<and> (alive \<longleftrightarrow> p \<in> running w)"
begin

lemma probed_gone: "probe_gone P p n st = (True, gs, w) \<Longrightarrow> p \<notin> running w"
proof (induction n arbitrary: st)
  case (Suc n)
  obtain gs' w' where sl: "po_sleep P 50 st = (gs', w')" by force
  obtain alive w'' where pr: "po_killpg P p Probe w' = (alive, w'')" by force
  from Suc sl pr probing [OF pr] show ?case by (auto split: if_splits)
qed simp

lemma kill_labelled_ends:
  assumes "kill_labelled P probes label (gs, w) = (found, gs', w')"
  shows "(found \<longleftrightarrow> (\<exists>pg \<in> set gs. gr_label (snd pg) = Some label))
    \<and> (\<not> found \<longrightarrow> gs' = gs \<and> w' = w)
    \<and> (found \<longrightarrow> (\<exists>p g. (p, g) \<in> set gs \<and> gr_label g = Some label \<and> p \<notin> running w'))"
proof (cases "fst (take_labelled label gs)")
  case None
  with assms take_labelled_None [of label gs] show ?thesis
    by (cases "take_labelled label gs") (auto simp: kill_labelled_def)
next
  case (Some p)
  then obtain g where g: "(p, g) \<in> set gs" "gr_label g = Some label" using take_labelled_Some by blast
  obtain gs1 where take: "take_labelled label gs = (Some p, gs1)" using Some by (cases "take_labelled label gs") auto
  let ?w1 = "snd (po_killpg P p Sigterm w)"
  obtain gone gs2 w2 where probe: "probe_gone P p (probes (task_grace_ms (po_env P ?w1) * 2)) (gs1, ?w1) = (gone, gs2, w2)"
    by (metis prod_cases3)
  have "found \<and> p \<notin> running w'"
  proof (cases gone)
    case True
    with assms take probe probed_gone show ?thesis by (auto simp: kill_labelled_def Let_def)
  next
    case False
    with assms take probe killing [of p w2] show ?thesis by (auto simp: kill_labelled_def Let_def)
  qed
  with g show ?thesis by force
qed

lemma fold_kill:
  "fold (\<lambda>p (gs, w). (snd (forget_group p gs), snd (po_killpg P p Sigkill w))) ps (gs, w) = (gs', w') \<Longrightarrow>
     set (map fst gs') = set (map fst gs) - set ps \<and> running w' = running w - set ps"
proof (induction ps arbitrary: gs w)
  case (Cons p ps)
  from Cons.IH [of "snd (forget_group p gs)" "snd (po_killpg P p Sigkill w)"] Cons.prems
  show ?case by (auto simp: killing forgotten_keys simp del: set_map)
qed simp

lemma kill_live_ends:
  assumes "kill_live_groups P (gs, w) = (gs', w')"
  shows "gs' = [] \<and> running w' = running w - set (map fst gs)"
  using fold_kill [of "map fst gs" gs w gs' w'] assms
  by (simp add: kill_live_groups_def signal_live_groups_def)

end

section \<open>Commands\<close>

text \<open>
  C27: no group outlives the answer that reports its end. A command that ran out of time is gone with
  everything in its group, one that ended is out of the registry whatever it answered, and its reply says
  it was killed exactly when its entry was marked while it ran; \<open>sh.kill\<close> answers whether a live group
  has the label, changes nothing when none has, and a group it answered for is gone; after the clean-up of
  a signal no group is registered and none that was is running.
\<close>

theorem no_group_outlives_its_end:
  assumes "process_groups P running" and "sh_process_group (po_env P w)"
    and "po_spawn P cmd cwd True (child_env (po_env P w)) w = (Ok (Some p), w1)"
    and "po_wait P timeout (remember_group p label gs, w1) = (outcome, gs2, w2)"
  shows "(case run_async P cmd cwd timeout label (gs, w) of (r, gs', w') \<Rightarrow>
        map_of gs' p = None \<and> (\<forall>q. q \<noteq> p \<longrightarrow> map_of gs' q = map_of gs2 q)
      \<and> (case r of
          Err f \<Rightarrow> ef_timed_out f \<longrightarrow> p \<notin> running w'
        | Ok (code, out, err, killed) \<Rightarrow> killed \<longleftrightarrow> (\<exists>g. map_of gs2 p = Some g \<and> gr_killed g)))
    \<and> (\<forall>name found gs3 w3. kill_labelled P probes name (gs, w) = (found, gs3, w3) \<longrightarrow>
        (found \<longleftrightarrow> (\<exists>pg \<in> set gs. gr_label (snd pg) = Some name)) \<and> (\<not> found \<longrightarrow> gs3 = gs \<and> w3 = w)
      \<and> (found \<longrightarrow> (\<exists>q g. (q, g) \<in> set gs \<and> gr_label g = Some name \<and> q \<notin> running w3)))
    \<and> (\<forall>gs3 w3. kill_live_groups P (gs, w) = (gs3, w3) \<longrightarrow> gs3 = [] \<and> running w3 = running w - set (map fst gs))"
proof -
  note kill = process_groups.kill_labelled_ends [OF assms(1)]
    and all = process_groups.kill_live_ends [OF assms(1)]
    and dead = process_groups.killing [OF assms(1)]
  have run: "run_async P cmd cwd timeout label (gs, w) =
      (let (killed, gs3, w3) = (fst (forget_group p gs2), snd (forget_group p gs2),
             if outcome = Wait_Expired then snd (po_killpg P p Sigkill w2) else w2)
       in case outcome of
            Wait_Expired \<Rightarrow> (Err (failed_timed_out (fmt [''timeout after '', string_of_nat timeout, ''s''])), gs3, w3)
          | Wait_Over (Err e) \<Rightarrow> (Err (failed_other (''wait error: '' @ e)), gs3, w3)
          | Wait_Over (Ok out) \<Rightarrow>
              (Ok ((case so_code out of Some c \<Rightarrow> c | None \<Rightarrow> -1), from_utf8_lossy (so_stdout out),
                 from_utf8_lossy (so_stderr out), killed), gs3, w3))"
    using assms(2-4) by (cases "forget_group p gs2") (simp add: run_async_def Let_def)
  have mark: "fst (forget_group p gs2) \<longleftrightarrow> (\<exists>g. map_of gs2 p = Some g \<and> gr_killed g)"
    by (auto simp: forget_group_def split: option.splits)
  have main: "case run_async P cmd cwd timeout label (gs, w) of (r, gs', w') \<Rightarrow>
        map_of gs' p = None \<and> (\<forall>q. q \<noteq> p \<longrightarrow> map_of gs' q = map_of gs2 q)
      \<and> (case r of
          Err f \<Rightarrow> ef_timed_out f \<longrightarrow> p \<notin> running w'
        | Ok (code, out, err, killed) \<Rightarrow> killed \<longleftrightarrow> (\<exists>g. map_of gs2 p = Some g \<and> gr_killed g))"
    unfolding run mark [symmetric]
    by (cases outcome) (auto simp: map_of_forget dead failed_timed_out_def failed_other_def split: sum.splits)
  show ?thesis
    by (intro conjI; (rule main | (intro allI impI, (erule kill | erule all))))
qed

text \<open>Processes that are only their groups: a command is group 7 and never ends by itself.\<close>

definition demo_processes :: "int set process_ops" where
  "demo_processes =
     \<lparr>po_env = (\<lambda>w k. None), po_spawn = (\<lambda>cmd cwd grouped env w. (Ok (Some 7), insert 7 w)),
      po_wait = (\<lambda>t (gs, w). (Wait_Expired, gs, w)), po_sleep = (\<lambda>t st. st),
      po_killpg = (\<lambda>p sig w. (p \<in> w, if sig = Sigkill then w - {p} else w))\<rparr>"

interpretation dp: process_groups demo_processes "\<lambda>w. w"
  by unfold_locales (auto simp: demo_processes_def)

theorem no_group_outlives_its_end_witness:
  "7 \<notin> snd (snd (run_async demo_processes ''cargo test'' [RootDir] 5 None ([], {})))"
proof -
  have grouped: "sh_process_group (po_env demo_processes {})" by code_simp
  have spawn: "po_spawn demo_processes ''cargo test'' [RootDir] True (child_env (po_env demo_processes {})) {} = (Ok (Some 7), {7})"
    and wait: "po_wait demo_processes 5 (remember_group 7 None [], {7}) = (Wait_Expired, remember_group 7 None [], {7})"
    by (simp_all add: demo_processes_def)
  obtain r gs' w' where run: "run_async demo_processes ''cargo test'' [RootDir] 5 None ([], {}) = (r, gs', w')"
    by (metis prod_cases3)
  have "r = Err (failed_timed_out (fmt [''timeout after '', string_of_nat 5, ''s'']))"
    using run grouped spawn wait by (simp add: run_async_def Let_def split: prod.splits)
  with no_group_outlives_its_end [OF dp.process_groups_axioms grouped spawn wait, THEN conjunct1] run
  show ?thesis by (simp add: failed_timed_out_def)
qed

section \<open>What is registered\<close>

text \<open>
  Commands in groups of their own, in any order: \<open>flying\<close> are those somebody awaits, under the label they
  were given; \<open>dropped\<close> those registered ones whose await was cancelled; \<open>taken\<close> those \<open>sh.kill\<close> took;
  \<open>swept\<close> the awaited ones that \<open>kill_live_groups\<close>, the end of the clean-up on a signal, has taken out of the
  registry, which it does one by one. A group id is not given again while
  its command is awaited.
\<close>

record sh_state =
  registered :: groups
  flying :: "int \<rightharpoonup> string option"
  dropped :: "int set"
  taken :: "int set"
  swept :: "int set"

definition sh_idle :: sh_state where
  "sh_idle = \<lparr>registered = [], flying = Map.empty, dropped = {}, taken = {}, swept = {}\<rparr>"

definition sh_begin :: "int \<Rightarrow> string option \<Rightarrow> sh_state \<Rightarrow> sh_state" where
  "sh_begin p l s = \<lparr>registered = remember_group p l (registered s), flying = (flying s)(p \<mapsto> l),
     dropped = dropped s - {p}, taken = taken s - {p}, swept = swept s - {p}\<rparr>"

definition sh_finish :: "int \<Rightarrow> sh_state \<Rightarrow> sh_state" where
  "sh_finish p s = s\<lparr>registered := snd (forget_group p (registered s)), flying := (flying s)(p := None),
     swept := swept s - {p}\<rparr>"

definition sh_drop :: "int \<Rightarrow> sh_state \<Rightarrow> sh_state" where
  "sh_drop p s = s\<lparr>flying := (flying s)(p := None),
     dropped := (if p \<in> swept s then dropped s else insert p (dropped s)), swept := swept s - {p}\<rparr>"

definition sh_take :: "string \<Rightarrow> sh_state \<Rightarrow> sh_state" where
  "sh_take label s = s\<lparr>registered := snd (take_labelled label (registered s)),
     taken := taken s \<union> set_option (fst (take_labelled label (registered s)))\<rparr>"

definition sh_sweep :: "int \<Rightarrow> sh_state \<Rightarrow> sh_state" where
  "sh_sweep p s = s\<lparr>registered := snd (forget_group p (registered s)), dropped := dropped s - {p},
     swept := swept s \<union> ({p} \<inter> dom (flying s))\<rparr>"

inductive sh_step :: "sh_state \<Rightarrow> sh_state \<Rightarrow> bool" where
  begins: "flying s p = None \<Longrightarrow> sh_step s (sh_begin p l s)"
| finishes: "flying s p = Some l \<Longrightarrow> sh_step s (sh_finish p s)"
| drops: "flying s p = Some l \<Longrightarrow> sh_step s (sh_drop p s)"
| takes: "sh_step s (sh_take label s)"
| sweeps: "sh_step s (sh_sweep p s)"

inductive_cases sh_stepE: "sh_step s s'"

definition sh_reached :: "sh_state \<Rightarrow> bool" where
  "sh_reached s \<longleftrightarrow> sh_step\<^sup>*\<^sup>* sh_idle s"



lemma reached_step: "sh_reached s \<Longrightarrow> sh_step s s' \<Longrightarrow> sh_reached s'"
  by (simp add: sh_reached_def)








section \<open>The operations are steps of the machine\<close>

lemma take_is_step:
  "fst (snd (kill_labelled P (\<lambda>_. 0) label (registered s, w))) = registered (sh_take label s)"
  by (simp add: kill_labelled_def sh_take_def Let_def split: prod.split option.split)



lemma sweeps_reached: "sh_reached s \<Longrightarrow> sh_reached (fold sh_sweep ps s)"
  by (induction ps arbitrary: s) (auto intro: reached_step sweeps)






text \<open>
  A command that was dropped stays registered: \<open>sh.kill\<close> of its label signals the id it had, whoever has
  it by then.
\<close>

lemma dropped_group_signalled:
  assumes "s = sh_drop 7 (sh_begin 7 (Some ''job'') sh_idle)"
  shows "sh_reached s \<and> flying s = Map.empty \<and> fst (take_labelled ''job'' (registered s)) = Some 7"
proof -
  let ?s1 = "sh_begin 7 (Some ''job'') sh_idle"
  have "sh_reached ?s1" by (rule reached_step [OF _ begins]) (simp_all add: sh_reached_def sh_idle_def)
  then have "sh_reached s" unfolding assms by (rule reached_step [OF _ drops]) (simp add: sh_begin_def)
  then show ?thesis
    by (simp add: assms sh_drop_def sh_begin_def sh_idle_def remember_group_def take_labelled_def)
qed

text \<open>
  A command \<open>sh.kill\<close> took and a sweep then took out of the registry, as the clean-up on a signal does
  while the bus is serving, answers that it was not killed.
\<close>

lemma swept_command_not_told:
  assumes "s = sh_sweep 7 (sh_take ''job'' (sh_begin 7 (Some ''job'') sh_idle))"
  shows "sh_reached s \<and> 7 \<in> taken s \<and> \<not> fst (forget_group 7 (registered s))"
proof -
  have "sh_reached (sh_begin 7 (Some ''job'') sh_idle)"
    by (rule reached_step [OF _ begins]) (simp_all add: sh_reached_def sh_idle_def)
  then have "sh_reached s" unfolding assms by (intro reached_step [OF _ sweeps] reached_step [OF _ takes])
  then show ?thesis
    by (simp add: assms sh_sweep_def sh_take_def sh_begin_def sh_idle_def remember_group_def take_labelled_def forget_group_def)
qed

end
