(* ===== verification/Mcp_Client.thy ===== *)
theory Mcp_Client
  imports Sh Cli_Knl Lua_Json Obs
begin

text \<open>
  The manager of MCP servers, \<open>lib.rs\<close> and \<open>http.rs\<close> of the MCP crate with the registry of
  \<open>handler.rs\<close>. A connection carries its own copy of the handler, and all copies share one registry and
  the notification channels; both are fields of the manager here. What \<open>rmcp\<close> does is the record
  \<open>rmcp_ops\<close>: a round trip is answered, refused or expires, and an answer that cannot be serialised is
  \<open>Err\<close> inside it. Log lines are left out.
\<close>

fun as_bool :: "json \<Rightarrow> bool option" where
  "as_bool (JBool b) = Some b"
| "as_bool _ = None"

section \<open>The registry of handlers\<close>

record handler_marks =
  hm_on_progress :: bool
  hm_on_log :: bool
  hm_on_resource_updated :: bool
  hm_on_resource_list_changed :: bool
  hm_on_tool_list_changed :: bool
  hm_on_prompt_list_changed :: bool
  hm_sampling :: bool
  hm_roots :: bool
  hm_elicitation :: bool
  hm_trace_context :: bool

definition no_marks :: handler_marks where
  "no_marks =
     \<lparr>hm_on_progress = False, hm_on_log = False, hm_on_resource_updated = False,
      hm_on_resource_list_changed = False, hm_on_tool_list_changed = False, hm_on_prompt_list_changed = False,
      hm_sampling = False, hm_roots = False, hm_elicitation = False, hm_trace_context = False\<rparr>"

type_synonym handler_registry = "string \<rightharpoonup> handler_marks"

text \<open>\<open>entry(..).or_insert_with(..)\<close>.\<close>

definition marks_of :: "handler_registry \<Rightarrow> string \<Rightarrow> handler_marks" where
  "marks_of r s = (case r s of Some m \<Rightarrow> m | None \<Rightarrow> no_marks)"

definition ensure_server :: "string \<Rightarrow> handler_registry \<Rightarrow> handler_registry" where
  "ensure_server s r = r(s \<mapsto> marks_of r s)"

definition mark_on_progress :: "string \<Rightarrow> handler_registry \<Rightarrow> handler_registry" where
  "mark_on_progress s r = r(s \<mapsto> (marks_of r s)\<lparr>hm_on_progress := True\<rparr>)"

definition mark_on_log :: "string \<Rightarrow> handler_registry \<Rightarrow> handler_registry" where
  "mark_on_log s r = r(s \<mapsto> (marks_of r s)\<lparr>hm_on_log := True\<rparr>)"

definition mark_on_resource_updated :: "string \<Rightarrow> handler_registry \<Rightarrow> handler_registry" where
  "mark_on_resource_updated s r = r(s \<mapsto> (marks_of r s)\<lparr>hm_on_resource_updated := True\<rparr>)"

definition mark_on_resource_list_changed :: "string \<Rightarrow> handler_registry \<Rightarrow> handler_registry" where
  "mark_on_resource_list_changed s r = r(s \<mapsto> (marks_of r s)\<lparr>hm_on_resource_list_changed := True\<rparr>)"

definition mark_on_tool_list_changed :: "string \<Rightarrow> handler_registry \<Rightarrow> handler_registry" where
  "mark_on_tool_list_changed s r = r(s \<mapsto> (marks_of r s)\<lparr>hm_on_tool_list_changed := True\<rparr>)"

definition mark_on_prompt_list_changed :: "string \<Rightarrow> handler_registry \<Rightarrow> handler_registry" where
  "mark_on_prompt_list_changed s r = r(s \<mapsto> (marks_of r s)\<lparr>hm_on_prompt_list_changed := True\<rparr>)"

definition mark_sampling :: "string \<Rightarrow> handler_registry \<Rightarrow> handler_registry" where
  "mark_sampling s r = r(s \<mapsto> (marks_of r s)\<lparr>hm_sampling := True\<rparr>)"

definition mark_roots :: "string \<Rightarrow> handler_registry \<Rightarrow> handler_registry" where
  "mark_roots s r = r(s \<mapsto> (marks_of r s)\<lparr>hm_roots := True\<rparr>)"

definition mark_elicitation :: "string \<Rightarrow> handler_registry \<Rightarrow> handler_registry" where
  "mark_elicitation s r = r(s \<mapsto> (marks_of r s)\<lparr>hm_elicitation := True\<rparr>)"

definition set_trace_context :: "string \<Rightarrow> bool \<Rightarrow> handler_registry \<Rightarrow> handler_registry" where
  "set_trace_context s enabled r = r(s \<mapsto> (marks_of r s)\<lparr>hm_trace_context := enabled\<rparr>)"

definition trace_context_enabled :: "handler_registry \<Rightarrow> string \<Rightarrow> bool" where
  "trace_context_enabled r s = (case r s of Some m \<Rightarrow> hm_trace_context m | None \<Rightarrow> False)"

section \<open>Handlers, connections and the manager\<close>

text \<open>An Isle and a notification channel are known by a number.\<close>

record notification_item =
  ni_isle :: nat
  ni_server :: string
  ni_cbs :: string
  ni_ev :: string
  ni_caller :: string

record mcp_handler =
  mh_handler_isle :: "nat option"
  mh_main_isle :: "nat option"
  mh_server_name :: "string option"
  mh_notify_tx :: "nat option"

definition new_handler :: mcp_handler where
  "new_handler = \<lparr>mh_handler_isle = None, mh_main_isle = None, mh_server_name = None, mh_notify_tx = None\<rparr>"

record 'c mcp_manager =
  mm_servers :: "string \<rightharpoonup> 'c \<times> mcp_handler"
  mm_rpc_timeout :: nat
  mm_handler :: mcp_handler
  mm_registry :: handler_registry
  mm_channels :: "nat \<Rightarrow> notification_item list"
  mm_next_channel :: nat

definition manager_with :: "nat \<Rightarrow> 'c mcp_manager" where
  "manager_with t =
     \<lparr>mm_servers = Map.empty, mm_rpc_timeout = t, mm_handler = new_handler, mm_registry = Map.empty,
      mm_channels = (\<lambda>_. []), mm_next_channel = 0\<rparr>"

definition new_manager :: "'c mcp_manager" where
  "new_manager = manager_with DEFAULT_RPC_TIMEOUT"

definition manager_with_rpc_timeout :: "nat \<Rightarrow> block_error + 'c mcp_manager" where
  "manager_with_rpc_timeout t = and_then (mcp_with_rpc_timeout t) (\<lambda>_. Ok (manager_with t))"

definition set_handler_isle :: "nat \<Rightarrow> 'c mcp_manager \<Rightarrow> 'c mcp_manager" where
  "set_handler_isle isle m = m\<lparr>mm_handler := (mm_handler m)\<lparr>mh_handler_isle := Some isle\<rparr>\<rparr>"

definition start_dispatch_task :: "'c mcp_manager \<Rightarrow> 'c mcp_manager" where
  "start_dispatch_task m =
     m\<lparr>mm_handler := (mm_handler m)\<lparr>mh_notify_tx := Some (mm_next_channel m)\<rparr>,
       mm_channels := (mm_channels m)(mm_next_channel m := []),
       mm_next_channel := Suc (mm_next_channel m)\<rparr>"

definition set_main_isle :: "nat \<Rightarrow> 'c mcp_manager \<Rightarrow> 'c mcp_manager" where
  "set_main_isle isle m = start_dispatch_task (m\<lparr>mm_handler := (mm_handler m)\<lparr>mh_main_isle := Some isle\<rparr>\<rparr>)"

section \<open>Round trips\<close>

datatype mcp_reference = Ref_Prompt string | Ref_Resource string

datatype mcp_request =
    List_Tools
  | Call_Tool string "json_map option"
  | List_Resources
  | List_Resource_Templates
  | Read_Resource string
  | Subscribe string
  | Unsubscribe string
  | List_Prompts
  | Get_Prompt string "json_map option"
  | Complete mcp_reference string string

datatype 'a round_trip = Rt_Answered 'a | Rt_Refused string | Rt_Expired

datatype ping_answer = Empty_Result | Other_Result string

datatype client_notice = Cancelled int string | Roots_List_Changed

text \<open>
  Every round trip is given its timeout. \<open>ro_serve\<close> is the handshake with the handler's copy,
  \<open>ro_ping\<close> also says how many milliseconds passed, \<open>ro_debug\<close> is the \<open>Debug\<close> text of a duration.
\<close>

record ('c, 'w) rmcp_ops =
  ro_env :: "'w \<Rightarrow> env"
  ro_spawn :: "string \<Rightarrow> string list \<Rightarrow> path option \<Rightarrow> env \<Rightarrow> 'w \<Rightarrow> (string + nat) \<times> 'w"
  ro_open_http :: "string \<Rightarrow> string option \<Rightarrow> 'w \<Rightarrow> nat \<times> 'w"
  ro_serve :: "nat \<Rightarrow> mcp_handler \<Rightarrow> nat \<Rightarrow> 'w \<Rightarrow> 'c round_trip \<times> 'w"
  ro_request :: "'c \<Rightarrow> mcp_request \<Rightarrow> nat \<Rightarrow> 'w \<Rightarrow> (string + json) round_trip \<times> 'w"
  ro_ping :: "'c \<Rightarrow> nat \<Rightarrow> 'w \<Rightarrow> ping_answer round_trip \<times> nat \<times> 'w"
  ro_cancel :: "'c \<Rightarrow> nat \<Rightarrow> 'w \<Rightarrow> unit round_trip \<times> 'w"
  ro_notify :: "'c \<Rightarrow> client_notice \<Rightarrow> 'w \<Rightarrow> 'w"
  ro_peer_info :: "'c \<Rightarrow> 'w \<Rightarrow> (string + json) option"
  ro_debug :: "nat \<Rightarrow> string"

definition no_server :: "string \<Rightarrow> block_error" where
  "no_server name = BE_Mcp (fmt [''no server named '', quoted name])"

definition timed_out_after :: "('c, 'w) rmcp_ops \<Rightarrow> 'c mcp_manager \<Rightarrow> string \<Rightarrow> block_error" where
  "timed_out_after R m what = BE_Timeout (fmt [what, '' timed out after '', ro_debug R (mm_rpc_timeout m)])"

text \<open>What every operation on a connected server does: look it up, ask, wait.\<close>

definition ask ::
  "('c, 'w) rmcp_ops \<Rightarrow> 'c mcp_manager \<Rightarrow> string \<Rightarrow> mcp_request \<Rightarrow> string \<Rightarrow> 'w \<Rightarrow> (block_error + (string + json)) \<times> 'w" where
  "ask R m name request what w =
     (case mm_servers m name of
        None \<Rightarrow> (Err (no_server name), w)
      | Some (c, _) \<Rightarrow>
          (case ro_request R c request (mm_rpc_timeout m) w of
             (Rt_Expired, w') \<Rightarrow> (Err (timed_out_after R m what), w')
           | (Rt_Refused e, w') \<Rightarrow> (Err (BE_Mcp (fmt [what, '': '', e])), w')
           | (Rt_Answered a, w') \<Rightarrow> (Ok a, w')))"

definition serialized :: "string \<Rightarrow> string + json \<Rightarrow> block_error + json" where
  "serialized operation a =
     (case a of Ok v \<Rightarrow> Ok v | Err e \<Rightarrow> Err (BE_Mcp (fmt [''serialize '', operation, '' result: '', e])))"

definition ask_json ::
  "('c, 'w) rmcp_ops \<Rightarrow> 'c mcp_manager \<Rightarrow> string \<Rightarrow> mcp_request \<Rightarrow> string \<Rightarrow> string \<Rightarrow> 'w \<Rightarrow> (block_error + json) \<times> 'w" where
  "ask_json R m name request what operation w =
     (case ask R m name request what w of (r, w') \<Rightarrow> (and_then r (serialized operation), w'))"

definition client_list_tools :: "('c, 'w) rmcp_ops \<Rightarrow> 'c mcp_manager \<Rightarrow> string \<Rightarrow> 'w \<Rightarrow> (block_error + json) \<times> 'w" where
  "client_list_tools R m name = ask_json R m name List_Tools (fmt [''list_tools '', quoted name]) ''list_tools''"

definition client_list_resources :: "('c, 'w) rmcp_ops \<Rightarrow> 'c mcp_manager \<Rightarrow> string \<Rightarrow> 'w \<Rightarrow> (block_error + json) \<times> 'w" where
  "client_list_resources R m name =
     ask_json R m name List_Resources (fmt [''list_resources '', quoted name]) ''list_resources''"

definition client_list_resource_templates ::
  "('c, 'w) rmcp_ops \<Rightarrow> 'c mcp_manager \<Rightarrow> string \<Rightarrow> 'w \<Rightarrow> (block_error + json) \<times> 'w" where
  "client_list_resource_templates R m name =
     ask_json R m name List_Resource_Templates (fmt [''list_resource_templates '', quoted name]) ''list_resource_templates''"

definition client_read_resource ::
  "('c, 'w) rmcp_ops \<Rightarrow> 'c mcp_manager \<Rightarrow> string \<Rightarrow> string \<Rightarrow> 'w \<Rightarrow> (block_error + json) \<times> 'w" where
  "client_read_resource R m name uri =
     ask_json R m name (Read_Resource uri) (fmt [''read_resource '', quoted uri, '' on '', quoted name]) ''read_resource''"

definition client_list_prompts :: "('c, 'w) rmcp_ops \<Rightarrow> 'c mcp_manager \<Rightarrow> string \<Rightarrow> 'w \<Rightarrow> (block_error + json) \<times> 'w" where
  "client_list_prompts R m name = ask_json R m name List_Prompts (fmt [''list_prompts '', quoted name]) ''list_prompts''"

text \<open>\<open>subscribe\<close> and \<open>unsubscribe\<close> answer with nothing to serialise.\<close>

definition client_subscribe_resource ::
  "('c, 'w) rmcp_ops \<Rightarrow> 'c mcp_manager \<Rightarrow> string \<Rightarrow> string \<Rightarrow> 'w \<Rightarrow> (block_error + unit) \<times> 'w" where
  "client_subscribe_resource R m name uri w =
     (case ask R m name (Subscribe uri) (fmt [''subscribe_resource '', quoted uri, '' on '', quoted name]) w of
        (r, w') \<Rightarrow> (result_map (\<lambda>_. ()) r, w'))"

definition client_unsubscribe_resource ::
  "('c, 'w) rmcp_ops \<Rightarrow> 'c mcp_manager \<Rightarrow> string \<Rightarrow> string \<Rightarrow> 'w \<Rightarrow> (block_error + unit) \<times> 'w" where
  "client_unsubscribe_resource R m name uri w =
     (case ask R m name (Unsubscribe uri) (fmt [''unsubscribe_resource '', quoted uri, '' on '', quoted name]) w of
        (r, w') \<Rightarrow> (result_map (\<lambda>_. ()) r, w'))"

text \<open>\<open>call_tool\<close> and \<open>get_prompt\<close> look at the shape of their arguments before anything else.\<close>

fun argument_kind :: "json \<Rightarrow> string" where
  "argument_kind (JArray _) = ''array''"
| "argument_kind (JString _) = ''string''"
| "argument_kind (JNumber _) = ''number''"
| "argument_kind (JBool _) = ''bool''"
| "argument_kind _ = ''unknown''"

fun request_arguments :: "string \<Rightarrow> json \<Rightarrow> block_error + json_map option" where
  "request_arguments what (JObject obj) = Ok (Some obj)"
| "request_arguments what JNull = Ok None"
| "request_arguments what v = Err (BE_Mcp (fmt [what, '' must be a JSON object (got '', argument_kind v, '')'']))"

definition send_cancelled :: "('c, 'w) rmcp_ops \<Rightarrow> 'c mcp_manager \<Rightarrow> string \<Rightarrow> int option \<Rightarrow> 'w \<Rightarrow> 'w" where
  "send_cancelled R m name request_id w =
     (case request_id of
        None \<Rightarrow> w
      | Some i \<Rightarrow>
          (case mm_servers m name of
             None \<Rightarrow> w
           | Some (c, _) \<Rightarrow> ro_notify R c (Cancelled i ''cancelled'') w))"

definition notify_roots_list_changed :: "('c, 'w) rmcp_ops \<Rightarrow> 'c mcp_manager \<Rightarrow> string \<Rightarrow> 'w \<Rightarrow> 'w" where
  "notify_roots_list_changed R m name w =
     (case mm_servers m name of
        None \<Rightarrow> w
      | Some (c, _) \<Rightarrow> ro_notify R c Roots_List_Changed w)"

definition client_call_tool ::
  "('c, 'w) rmcp_ops \<Rightarrow> 'c mcp_manager \<Rightarrow> string \<Rightarrow> string \<Rightarrow> json \<Rightarrow> 'w \<Rightarrow> (block_error + json) \<times> 'w" where
  "client_call_tool R m name tool arguments w =
     (let what = fmt [''call_tool '', quoted tool, '' on '', quoted name] in
      case request_arguments (what @ '': arguments'') arguments of
        Err e \<Rightarrow> (Err e, w)
      | Ok args \<Rightarrow>
          (case mm_servers m name of
             None \<Rightarrow> (Err (no_server name), w)
           | Some (c, _) \<Rightarrow>
               (case ro_request R c (Call_Tool tool args) (mm_rpc_timeout m) w of
                  (Rt_Expired, w') \<Rightarrow> (Err (timed_out_after R m what), send_cancelled R m name None w')
                | (Rt_Refused e, w') \<Rightarrow> (Err (BE_Mcp (fmt [what, '': '', e])), w')
                | (Rt_Answered a, w') \<Rightarrow> (serialized ''call_tool'' a, w'))))"

definition client_get_prompt ::
  "('c, 'w) rmcp_ops \<Rightarrow> 'c mcp_manager \<Rightarrow> string \<Rightarrow> string \<Rightarrow> json \<Rightarrow> 'w \<Rightarrow> (block_error + json) \<times> 'w" where
  "client_get_prompt R m name prompt args w =
     (let what = fmt [''get_prompt '', quoted prompt, '' on '', quoted name] in
      case request_arguments (what @ '': args'') args of
        Err e \<Rightarrow> (Err e, w)
      | Ok args' \<Rightarrow> ask_json R m name (Get_Prompt prompt args') what ''get_prompt'' w)"

definition completion_reference :: "string \<Rightarrow> json \<Rightarrow> block_error + mcp_reference" where
  "completion_reference name ref =
     (let field = (\<lambda>k. case Option.bind (json_get ref k) as_str of Some s \<Rightarrow> s | None \<Rightarrow> []) in
      case Option.bind (json_get ref ''type'') as_str of
        Some kind \<Rightarrow>
          (if kind = ''ref/prompt'' then Ok (Ref_Prompt (field ''name''))
           else if kind = ''ref/resource'' then Ok (Ref_Resource (field ''uri''))
           else Err (BE_Mcp (fmt [''complete on '', quoted name, '': invalid ref kind '', quoted kind,
                                  '', expected '', quoted ''ref/prompt'', '' or '', quoted ''ref/resource''])))
      | None \<Rightarrow> Err (BE_Mcp (fmt [''complete on '', quoted name, '': ref object has no '', quoted ''type'', '' field''])))"

definition client_complete ::
  "('c, 'w) rmcp_ops \<Rightarrow> 'c mcp_manager \<Rightarrow> string \<Rightarrow> json \<Rightarrow> string \<Rightarrow> string \<Rightarrow> 'w \<Rightarrow> (block_error + json) \<times> 'w" where
  "client_complete R m name ref arg_name arg_value w =
     (case completion_reference name ref of
        Err e \<Rightarrow> (Err e, w)
      | Ok reference \<Rightarrow>
          ask_json R m name (Complete reference arg_name arg_value) (fmt [''complete on '', quoted name]) ''complete'' w)"

text \<open>The latency is a \<open>u128\<close> cut to a \<open>u64\<close>.\<close>

definition client_ping :: "('c, 'w) rmcp_ops \<Rightarrow> 'c mcp_manager \<Rightarrow> string \<Rightarrow> 'w \<Rightarrow> (block_error + nat) \<times> 'w" where
  "client_ping R m name w =
     (case mm_servers m name of
        None \<Rightarrow> (Err (no_server name), w)
      | Some (c, _) \<Rightarrow>
          (case ro_ping R c (mm_rpc_timeout m) w of
             (Rt_Expired, elapsed, w') \<Rightarrow> (Err (timed_out_after R m (fmt [''ping '', quoted name])), w')
           | (Rt_Refused e, elapsed, w') \<Rightarrow> (Err (BE_Mcp (fmt [''ping '', quoted name, '': '', e])), w')
           | (Rt_Answered Empty_Result, elapsed, w') \<Rightarrow> (Ok (elapsed mod 2 ^ 64), w')
           | (Rt_Answered (Other_Result debug), elapsed, w') \<Rightarrow>
               (Err (BE_Mcp (fmt [''ping '', quoted name, '': unexpected response: '', debug])), w')))"

definition client_server_info :: "('c, 'w) rmcp_ops \<Rightarrow> 'c mcp_manager \<Rightarrow> string \<Rightarrow> 'w \<Rightarrow> block_error + json" where
  "client_server_info R m name w =
     (case mm_servers m name of
        None \<Rightarrow> Err (no_server name)
      | Some (c, _) \<Rightarrow>
          (case ro_peer_info R c w of
             None \<Rightarrow> Err (BE_Mcp (fmt [''server '', quoted name, '' not yet initialized'']))
           | Some (Err e) \<Rightarrow> Err (BE_Mcp (fmt [''serialize server_info '', quoted name, '': '', e]))
           | Some (Ok v) \<Rightarrow> Ok v))"

section \<open>Connecting and disconnecting\<close>

text \<open>
  Both ways of connecting: the registry has its entry and its flag before the handshake, the copy of the
  handler carries the name, and a connection made replaces the one of the same name.
\<close>

definition prepare_server :: "string \<Rightarrow> bool \<Rightarrow> 'c mcp_manager \<Rightarrow> 'c mcp_manager" where
  "prepare_server name trace_context m =
     m\<lparr>mm_registry := set_trace_context name trace_context (ensure_server name (mm_registry m))\<rparr>"

definition connection_handler :: "string \<Rightarrow> 'c mcp_manager \<Rightarrow> mcp_handler" where
  "connection_handler name m = (mm_handler m)\<lparr>mh_server_name := Some name\<rparr>"

definition add_server :: "string \<Rightarrow> 'c \<Rightarrow> mcp_handler \<Rightarrow> 'c mcp_manager \<Rightarrow> 'c mcp_manager" where
  "add_server name c h m =
     m\<lparr>mm_servers := (mm_servers m)(name \<mapsto> (c, h))\<rparr>"

definition reset_template :: "'c mcp_manager \<Rightarrow> 'c mcp_manager" where
  "reset_template m = m\<lparr>mm_handler := (mm_handler m)\<lparr>mh_server_name := None\<rparr>\<rparr>"

definition server_env :: "env \<Rightarrow> (string \<times> string) list \<Rightarrow> env" where
  "server_env parent pairs = fold (\<lambda>(k, v) e. e(k \<mapsto> v)) pairs (child_env parent)"

definition client_connect ::
  "('c, 'w) rmcp_ops \<Rightarrow> string \<Rightarrow> string \<Rightarrow> string list \<Rightarrow> bool \<Rightarrow> path option \<Rightarrow> (string \<times> string) list
     \<Rightarrow> 'c mcp_manager \<times> 'w \<Rightarrow> (block_error + unit) \<times> 'c mcp_manager \<times> 'w" where
  "client_connect R name command args trace_context cwd env = (\<lambda>(m, w).
     (case ro_spawn R command args cwd (server_env (ro_env R w) env) w of
        (Err e, w1) \<Rightarrow> (Err (BE_Mcp (fmt [''spawn '', quoted command, '': '', e])), m, w1)
      | (Ok transport, w1) \<Rightarrow>
          (let m1 = reset_template (prepare_server name trace_context m);
               h = connection_handler name m
           in case ro_serve R transport h (mm_rpc_timeout m) w1 of
                (Rt_Expired, w2) \<Rightarrow> (Err (timed_out_after R m (fmt [''initialize '', quoted name])), m1, w2)
              | (Rt_Refused e, w2) \<Rightarrow> (Err (BE_Mcp (fmt [''initialize '', quoted name, '': '', e])), m1, w2)
              | (Rt_Answered c, w2) \<Rightarrow> (Ok (), add_server name c h m1, w2))))"

text \<open>
  \<open>connect_http_transport\<close>: \<open>None\<close> is the panic of \<open>sanitize_url\<close> on a cut inside a character, after
  the registry was written.
\<close>

definition auth_of :: "json \<Rightarrow> string option" where
  "auth_of opts = (case Option.bind (json_get opts ''auth_header'') as_str of
     Some a \<Rightarrow> if a = [] then None else Some a | None \<Rightarrow> None)"

definition connect_http_transport ::
  "('c, 'w) rmcp_ops \<Rightarrow> obs_lib \<Rightarrow> string \<Rightarrow> string \<Rightarrow> json \<Rightarrow> mcp_handler \<Rightarrow> 'c mcp_manager \<Rightarrow> 'w
     \<Rightarrow> (block_error + 'c) option \<times> 'w" where
  "connect_http_transport R lib name url opts h m w =
     (case ro_open_http R url (auth_of opts) w of
        (transport, w1) \<Rightarrow>
          (case sanitize_url lib url of
             None \<Rightarrow> (None, w1)
           | Some safe_url \<Rightarrow>
               (let what = fmt [''http connect '', quoted name, '' to '', safe_url] in
                case ro_serve R transport h (mm_rpc_timeout m) w1 of
                  (Rt_Expired, w2) \<Rightarrow> (Some (Err (timed_out_after R m what)), w2)
                | (Rt_Refused e, w2) \<Rightarrow> (Some (Err (BE_Mcp (fmt [what, '': '', e]))), w2)
                | (Rt_Answered c, w2) \<Rightarrow> (Some (Ok c), w2))))"

definition client_connect_http ::
  "('c, 'w) rmcp_ops \<Rightarrow> obs_lib \<Rightarrow> string \<Rightarrow> string \<Rightarrow> json \<Rightarrow> 'c mcp_manager \<times> 'w
     \<Rightarrow> (block_error + unit) option \<times> 'c mcp_manager \<times> 'w" where
  "client_connect_http R lib name url opts = (\<lambda>(m, w).
     (let trace_context = (case Option.bind (json_get opts ''trace_context'') as_bool of Some b \<Rightarrow> b | None \<Rightarrow> False);
          m1 = reset_template (prepare_server name trace_context m);
          h = connection_handler name m
      in case connect_http_transport R lib name url opts h m w of
           (None, w1) \<Rightarrow> (None, m1, w1)
         | (Some (Err e), w1) \<Rightarrow> (Some (Err e), m1, w1)
         | (Some (Ok c), w1) \<Rightarrow> (Some (Ok ()), add_server name c h m1, w1)))"

definition client_disconnect ::
  "('c, 'w) rmcp_ops \<Rightarrow> string \<Rightarrow> 'c mcp_manager \<times> 'w \<Rightarrow> (block_error + unit) \<times> 'c mcp_manager \<times> 'w" where
  "client_disconnect R name = (\<lambda>(m, w).
     (case mm_servers m name of
        None \<Rightarrow> (Ok (), m, w)
      | Some (c, _) \<Rightarrow>
          (let m1 = m\<lparr>mm_servers := (mm_servers m)(name := None)\<rparr> in
           case ro_cancel R c (mm_rpc_timeout m) w of
             (Rt_Answered _, w1) \<Rightarrow> (Ok (), m1, w1)
           | (Rt_Refused e, w1) \<Rightarrow> (Err (BE_Mcp (fmt [''cancel '', quoted name, '': '', e])), m1, w1)
           | (Rt_Expired, w1) \<Rightarrow> (Err (timed_out_after R m (fmt [''cancel '', quoted name])), m1, w1))))"

text \<open>\<open>names\<close> is the order a \<open>HashMap\<close> lists its keys in; the first error is the one returned.\<close>

fun disconnect_each ::
  "('c, 'w) rmcp_ops \<Rightarrow> string list \<Rightarrow> block_error option \<Rightarrow> 'c mcp_manager \<times> 'w \<Rightarrow> block_error option \<times> 'c mcp_manager \<times> 'w" where
  "disconnect_each R [] first st = (first, st)"
| "disconnect_each R (name # names) first st =
     (case client_disconnect R name st of
        (Ok _, st') \<Rightarrow> disconnect_each R names first st'
      | (Err e, st') \<Rightarrow> disconnect_each R names (case first of None \<Rightarrow> Some e | Some f \<Rightarrow> Some f) st')"

definition disconnect_all ::
  "('c, 'w) rmcp_ops \<Rightarrow> ((string \<rightharpoonup> 'c \<times> mcp_handler) \<Rightarrow> string list) \<Rightarrow> 'c mcp_manager \<times> 'w
     \<Rightarrow> (block_error + unit) \<times> 'c mcp_manager \<times> 'w" where
  "disconnect_all R key_order st =
     (case disconnect_each R (key_order (mm_servers (fst st))) None st of
        (Some e, st') \<Rightarrow> (Err e, st')
      | (None, st') \<Rightarrow> (Ok (), st'))"

end
