(* ===== verification/Mcp_Handler.thy ===== *)
theory Mcp_Handler
  imports Mcp_Client
begin

text \<open>
  What a server sends unasked and asks of its client, \<open>handler.rs\<close> of the MCP crate: six notifications,
  notice_route through the bounded channel to the callback of the server they came from, and three requests,
  answered by a handler of the handler Isle. \<open>serde_json\<close>'s text forms and the Lua VM's tables are the
  record \<open>mcp_lib\<close>; running a handler and the text of an error it raises are \<open>handler_vm\<close>. The
  fallible serialisation of a request's parameters is an argument.
\<close>

record mcp_lib =
  ml_print :: "json \<Rightarrow> string"
  ml_parse :: "string \<Rightarrow> string + json"
  ml_vm :: lua_vm

section \<open>Notifications\<close>

datatype logging_level =
    Level_Debug | Level_Info | Level_Notice | Level_Warning | Level_Error | Level_Critical | Level_Alert | Level_Emergency

datatype progress_token = Token_Number int | Token_String string

definition MCP_USER_PROGRESS_CBS :: string where
  "MCP_USER_PROGRESS_CBS = ''__mcp_user_progress_cbs''"

definition MCP_USER_LOG_CBS :: string where
  "MCP_USER_LOG_CBS = ''__mcp_user_log_cbs''"

definition MCP_USER_RESOURCE_UPDATE_CBS :: string where
  "MCP_USER_RESOURCE_UPDATE_CBS = ''__mcp_user_resource_update_cbs''"

definition MCP_USER_RESOURCES_LIST_CHANGED_CBS :: string where
  "MCP_USER_RESOURCES_LIST_CHANGED_CBS = ''__mcp_user_resources_list_changed_cbs''"

definition MCP_USER_TOOLS_LIST_CHANGED_CBS :: string where
  "MCP_USER_TOOLS_LIST_CHANGED_CBS = ''__mcp_user_tools_list_changed_cbs''"

definition MCP_USER_PROMPTS_LIST_CHANGED_CBS :: string where
  "MCP_USER_PROMPTS_LIST_CHANGED_CBS = ''__mcp_user_prompts_list_changed_cbs''"

definition NOTIFY_CHANNEL_CAPACITY :: nat where
  "NOTIFY_CHANNEL_CAPACITY = 128"

fun level_str :: "logging_level \<Rightarrow> string" where
  "level_str Level_Debug = ''debug''"
| "level_str Level_Info = ''info''"
| "level_str Level_Notice = ''info''"
| "level_str Level_Warning = ''warning''"
| "level_str Level_Error = ''error''"
| "level_str Level_Critical = ''error''"
| "level_str Level_Alert = ''error''"
| "level_str Level_Emergency = ''error''"

text \<open>Where a notification goes: nowhere, a channel, a task of its own, or a line of the log.\<close>

datatype notice_route =
    Unrouted
  | To_Channel nat notification_item
  | To_Task notification_item
  | Traced string string string string

definition hand_over :: "mcp_handler \<Rightarrow> notification_item \<Rightarrow> notice_route" where
  "hand_over h item = (case mh_notify_tx h of Some ch \<Rightarrow> To_Channel ch item | None \<Rightarrow> To_Task item)"

definition has_mark :: "handler_registry \<Rightarrow> (handler_marks \<Rightarrow> bool) \<Rightarrow> string \<Rightarrow> bool" where
  "has_mark r mark s = (case r s of Some m \<Rightarrow> mark m | None \<Rightarrow> False)"

text \<open>The five notifications that go to a callback or nowhere.\<close>

definition route_notification ::
  "mcp_lib \<Rightarrow> mcp_handler \<Rightarrow> handler_registry \<Rightarrow> (handler_marks \<Rightarrow> bool) \<Rightarrow> string \<Rightarrow> string \<Rightarrow> (string \<Rightarrow> json) \<Rightarrow> notice_route" where
  "route_notification J h r mark cbs caller ev =
     (case mh_main_isle h of
        None \<Rightarrow> Unrouted
      | Some isle \<Rightarrow>
          (case mh_server_name h of
             None \<Rightarrow> Unrouted
           | Some s \<Rightarrow>
               (if has_mark r mark s
                then hand_over h \<lparr>ni_isle = isle, ni_server = s, ni_cbs = cbs, ni_ev = ml_print J (ev s), ni_caller = caller\<rparr>
                else Unrouted)))"

fun token_str :: "progress_token \<Rightarrow> string" where
  "token_str (Token_Number n) = string_of_int n"
| "token_str (Token_String s) = s"

text \<open>\<open>Value::from(f64)\<close>.\<close>

fun json_of_float :: "lua_float \<Rightarrow> json" where
  "json_of_float (Finite x) = JNumber (Float x)"
| "json_of_float (NotFinite _) = JNull"

definition progress_ev :: "progress_token \<Rightarrow> lua_float \<Rightarrow> lua_float option \<Rightarrow> string option \<Rightarrow> string \<Rightarrow> json" where
  "progress_ev tok progress tot message s =
     JObject (insert_some ''message'' (map_option JString message)
       (insert_some ''total'' (map_option json_of_float tot)
         (map_insert ''progress'' (json_of_float progress)
           (map_insert ''token'' (JString (token_str tok))
             (map_insert ''server'' (JString s)
               (map_insert ''type'' (JString ''progress'') []))))))"

definition on_progress ::
  "mcp_lib \<Rightarrow> mcp_handler \<Rightarrow> handler_registry \<Rightarrow> progress_token \<Rightarrow> lua_float \<Rightarrow> lua_float option \<Rightarrow> string option \<Rightarrow> notice_route" where
  "on_progress J h r tok progress tot message =
     route_notification J h r hm_on_progress MCP_USER_PROGRESS_CBS ''on_progress'' (progress_ev tok progress tot message)"

definition log_ev :: "logging_level \<Rightarrow> string \<Rightarrow> string \<Rightarrow> string \<Rightarrow> json" where
  "log_ev level logger data s =
     JObject (map_insert ''data'' (JString data)
       (map_insert ''logger'' (JString logger)
         (map_insert ''level'' (JString (level_str level))
           (map_insert ''server'' (JString s)
             (map_insert ''type'' (JString ''log'') [])))))"

text \<open>Without a callback or a main Isle a log message is a line of the log.\<close>

definition on_logging_message ::
  "mcp_lib \<Rightarrow> mcp_handler \<Rightarrow> handler_registry \<Rightarrow> logging_level \<Rightarrow> string option \<Rightarrow> json \<Rightarrow> notice_route" where
  "on_logging_message J h r level logger data =
     (let logger = (case logger of Some l \<Rightarrow> l | None \<Rightarrow> []);
          data_str = ml_print J data;
          traced = Traced (level_str level) (case mh_server_name h of Some s \<Rightarrow> s | None \<Rightarrow> ''unknown'') logger data_str;
          has_lua_handler = (case mh_server_name h of Some s \<Rightarrow> has_mark r hm_on_log s | None \<Rightarrow> False)
      in if has_lua_handler
         then (case (mh_main_isle h, mh_server_name h) of
                 (Some isle, Some s) \<Rightarrow>
                   hand_over h \<lparr>ni_isle = isle, ni_server = s, ni_cbs = MCP_USER_LOG_CBS,
                                ni_ev = ml_print J (log_ev level logger data_str s), ni_caller = ''on_logging_message''\<rparr>
               | _ \<Rightarrow> traced)
         else traced)"

definition resource_ev :: "string \<Rightarrow> string \<Rightarrow> json" where
  "resource_ev uri s =
     JObject (map_insert ''uri'' (JString uri) (map_insert ''server'' (JString s) (map_insert ''type'' (JString ''resource_update'') [])))"

definition on_resource_updated :: "mcp_lib \<Rightarrow> mcp_handler \<Rightarrow> handler_registry \<Rightarrow> string \<Rightarrow> notice_route" where
  "on_resource_updated J h r uri =
     route_notification J h r hm_on_resource_updated MCP_USER_RESOURCE_UPDATE_CBS ''on_resource_updated'' (resource_ev uri)"

definition list_changed_ev :: "string \<Rightarrow> string \<Rightarrow> json" where
  "list_changed_ev ev_type s = JObject (map_insert ''server'' (JString s) (map_insert ''type'' (JString ev_type) []))"

definition on_resource_list_changed :: "mcp_lib \<Rightarrow> mcp_handler \<Rightarrow> handler_registry \<Rightarrow> notice_route" where
  "on_resource_list_changed J h r =
     route_notification J h r hm_on_resource_list_changed MCP_USER_RESOURCES_LIST_CHANGED_CBS ''on_resource_list_changed''
       (list_changed_ev ''resources_list_changed'')"

definition on_tool_list_changed :: "mcp_lib \<Rightarrow> mcp_handler \<Rightarrow> handler_registry \<Rightarrow> notice_route" where
  "on_tool_list_changed J h r =
     route_notification J h r hm_on_tool_list_changed MCP_USER_TOOLS_LIST_CHANGED_CBS ''on_tool_list_changed''
       (list_changed_ev ''tools_list_changed'')"

definition on_prompt_list_changed :: "mcp_lib \<Rightarrow> mcp_handler \<Rightarrow> handler_registry \<Rightarrow> notice_route" where
  "on_prompt_list_changed J h r =
     route_notification J h r hm_on_prompt_list_changed MCP_USER_PROMPTS_LIST_CHANGED_CBS ''on_prompt_list_changed''
       (list_changed_ev ''prompts_list_changed'')"

section \<open>The channel and the dispatch task\<close>

text \<open>\<open>try_send\<close>: a full channel drops the item.\<close>

definition try_send :: "nat \<Rightarrow> notification_item \<Rightarrow> 'c mcp_manager \<Rightarrow> bool \<times> 'c mcp_manager" where
  "try_send ch item m =
     (if length (mm_channels m ch) < NOTIFY_CHANNEL_CAPACITY
      then (True, m\<lparr>mm_channels := (mm_channels m)(ch := mm_channels m ch @ [item])\<rparr>)
      else (False, m))"

definition next_notification :: "nat \<Rightarrow> 'c mcp_manager \<Rightarrow> notification_item option \<times> 'c mcp_manager" where
  "next_notification ch m =
     (case mm_channels m ch of
        [] \<Rightarrow> (None, m)
      | item # items \<Rightarrow> (Some item, m\<lparr>mm_channels := (mm_channels m)(ch := items)\<rparr>))"

text \<open>
  The globals of the main Isle are its callback tables, a callback being known by a number. The answer is
  the call made, \<open>None\<close> when there is no callback to call.
\<close>

type_synonym callback_tables = "string \<rightharpoonup> (string \<rightharpoonup> nat)"

definition json_decode :: "mcp_lib \<Rightarrow> string \<Rightarrow> lua_error + lua" where
  "json_decode J s = (case ml_parse J s of Err e \<Rightarrow> Err (External e) | Ok v \<Rightarrow> json_to_lua (ml_vm J) v)"

definition dispatch_notify :: "mcp_lib \<Rightarrow> callback_tables \<Rightarrow> string \<Rightarrow> string \<Rightarrow> string \<Rightarrow> lua_error + (nat \<times> lua) option" where
  "dispatch_notify J globals cbs_name server_name ev_json =
     (case globals cbs_name of
        None \<Rightarrow> Ok None
      | Some cbs \<Rightarrow>
          (case cbs server_name of
             None \<Rightarrow> Ok None
           | Some cb \<Rightarrow> and_then (json_decode J ev_json) (\<lambda>ev. Ok (Some (cb, ev)))))"

definition dispatch_item :: "mcp_lib \<Rightarrow> callback_tables \<Rightarrow> notification_item \<Rightarrow> lua_error + (nat \<times> lua) option" where
  "dispatch_item J globals item = dispatch_notify J globals (ni_cbs item) (ni_server item) (ni_ev item)"

section \<open>Requests of a server\<close>

record 'w handler_vm =
  hv_run :: "nat \<Rightarrow> string list \<Rightarrow> 'w \<Rightarrow> (string + lua) \<times> 'w"
  hv_raised :: "string \<Rightarrow> string"
  hv_shown :: "lua_error \<Rightarrow> string"

datatype mcp_method = Create_Message_Method | List_Roots_Method | Elicitation_Create_Method

datatype client_error = Method_Not_Found mcp_method | Internal_Error string

definition MCP_SAMPLING_HANDLERS :: string where
  "MCP_SAMPLING_HANDLERS = ''__mcp_sampling_handlers''"

definition MCP_ROOTS_HANDLERS :: string where
  "MCP_ROOTS_HANDLERS = ''__mcp_roots_handlers''"

definition MCP_ELICITATION_HANDLERS :: string where
  "MCP_ELICITATION_HANDLERS = ''__mcp_elicitation_handlers''"

text \<open>Lua's own \<open>type\<close>, and the wrappers around the dispatchers.\<close>

fun lua_type :: "lua \<Rightarrow> string" where
  "lua_type LNil = ''nil''"
| "lua_type LNull = ''userdata''"
| "lua_type (LBool b) = ''boolean''"
| "lua_type (LInt i) = ''number''"
| "lua_type (LNum x) = ''number''"
| "lua_type (LStr s) = ''string''"
| "lua_type (LTable m es) = ''table''"
| "lua_type (LOther t) = t"

definition encode_reply :: "mcp_lib \<Rightarrow> 'w handler_vm \<Rightarrow> string \<Rightarrow> lua \<Rightarrow> string + string option" where
  "encode_reply J V caller r =
     (case r of
        LNil \<Rightarrow> Ok None
      | LTable mt es \<Rightarrow>
          (case lua_to_json (ml_vm J) r of Err e \<Rightarrow> Err (hv_shown V e) | Ok v \<Rightarrow> Ok (Some (ml_print J v)))
      | _ \<Rightarrow> Err (hv_raised V (fmt [caller, '': handler must return table or nil, got: '', lua_type r])))"

definition dispatch_json ::
  "mcp_lib \<Rightarrow> 'w handler_vm \<Rightarrow> callback_tables \<Rightarrow> string \<Rightarrow> string \<Rightarrow> string \<Rightarrow> string list \<Rightarrow> 'w \<Rightarrow> (string + string option) \<times> 'w" where
  "dispatch_json J V globals handlers caller server_name args w =
     (case Option.bind (globals handlers) (\<lambda>t. t server_name) of
        None \<Rightarrow> (Ok None, w)
      | Some f \<Rightarrow>
          (case hv_run V f (server_name # args) w of
             (Err e, w') \<Rightarrow> (Err e, w')
           | (Ok r, w') \<Rightarrow> (encode_reply J V caller r, w')))"

definition parse_reply :: "mcp_lib \<Rightarrow> string \<Rightarrow> string \<Rightarrow> client_error + json" where
  "parse_reply J handler text = map_err (\<lambda>e. Internal_Error (fmt [handler, '' handler result parse: '', e])) (ml_parse J text)"

definition str_field :: "json \<Rightarrow> string \<Rightarrow> string option" where
  "str_field v k = Option.bind (json_get v k) as_str"

text \<open>\<open>create_message\<close>.\<close>

record sampling_result =
  sr_role_user :: bool
  sr_content :: string
  sr_model :: string
  sr_stop_reason :: "string option"

definition sampling_of :: "json \<Rightarrow> sampling_result" where
  "sampling_of v =
     \<lparr>sr_role_user = ((case str_field v ''role'' of Some s \<Rightarrow> s | None \<Rightarrow> ''assistant'') = ''user''),
      sr_content = (case str_field v ''content'' of Some s \<Rightarrow> s | None \<Rightarrow> []),
      sr_model = (case str_field v ''model'' of Some s \<Rightarrow> s | None \<Rightarrow> ''unknown''),
      sr_stop_reason = str_field v ''stop_reason''\<rparr>"

definition create_message ::
  "mcp_lib \<Rightarrow> 'w handler_vm \<Rightarrow> callback_tables \<Rightarrow> mcp_handler \<Rightarrow> handler_registry \<Rightarrow> string + string \<Rightarrow> 'w
     \<Rightarrow> (client_error + sampling_result) \<times> 'w" where
  "create_message J V globals h r params w =
     (case mh_server_name h of
        None \<Rightarrow> (Err (Method_Not_Found Create_Message_Method), w)
      | Some sn \<Rightarrow>
          (if \<not> has_mark r hm_sampling sn then (Err (Method_Not_Found Create_Message_Method), w)
           else case mh_handler_isle h of
             None \<Rightarrow> (Err (Method_Not_Found Create_Message_Method), w)
           | Some isle \<Rightarrow>
               (case params of
                  Err e \<Rightarrow> (Err (Internal_Error (''create_message serialize: '' @ e)), w)
                | Ok params_json \<Rightarrow>
                    (case dispatch_json J V globals MCP_SAMPLING_HANDLERS ''create_message'' sn [params_json] w of
                       (Err e, w') \<Rightarrow> (Err (Internal_Error (''sampling handler: '' @ e)), w')
                     | (Ok None, w') \<Rightarrow> (Err (Method_Not_Found Create_Message_Method), w')
                     | (Ok (Some text), w') \<Rightarrow> (result_map sampling_of (parse_reply J ''sampling'' text), w')))))"

text \<open>\<open>list_roots\<close>: a root is its URI and its name.\<close>

definition root_of :: "json \<Rightarrow> string \<times> string option" where
  "root_of entry = ((case str_field entry ''uri'' of Some u \<Rightarrow> u | None \<Rightarrow> []), str_field entry ''name'')"

definition roots_of :: "json \<Rightarrow> client_error + (string \<times> string option) list" where
  "roots_of v =
     (case v of
        JArray entries \<Rightarrow> Ok (map root_of entries)
      | _ \<Rightarrow> Err (Internal_Error ''roots handler result parse: expected array''))"

definition list_roots ::
  "mcp_lib \<Rightarrow> 'w handler_vm \<Rightarrow> callback_tables \<Rightarrow> mcp_handler \<Rightarrow> handler_registry \<Rightarrow> 'w
     \<Rightarrow> (client_error + (string \<times> string option) list) \<times> 'w" where
  "list_roots J V globals h r w =
     (case mh_server_name h of
        None \<Rightarrow> (Err (Method_Not_Found List_Roots_Method), w)
      | Some sn \<Rightarrow>
          (if \<not> has_mark r hm_roots sn then (Err (Method_Not_Found List_Roots_Method), w)
           else case mh_handler_isle h of
             None \<Rightarrow> (Err (Method_Not_Found List_Roots_Method), w)
           | Some isle \<Rightarrow>
               (case dispatch_json J V globals MCP_ROOTS_HANDLERS ''list_roots'' sn [] w of
                  (Err e, w') \<Rightarrow> (Err (Internal_Error (''roots handler: '' @ e)), w')
                | (Ok None, w') \<Rightarrow> (Err (Method_Not_Found List_Roots_Method), w')
                | (Ok (Some text), w') \<Rightarrow> (and_then (parse_reply J ''roots'' text) roots_of, w'))))"

text \<open>\<open>create_elicitation\<close>: anything but a form is declined before the handler is looked up.\<close>

datatype elicitation_request = Form_Elicitation string "string + string" | Other_Elicitation

datatype elicit_result = Accept json | Decline | Cancel

definition elicit_of :: "json \<Rightarrow> client_error + elicit_result" where
  "elicit_of v =
     (case str_field v ''action'' of
        None \<Rightarrow> Err (Internal_Error (fmt [''elicitation handler result: missing or non-string '', quoted ''action'', '' field'']))
      | Some action \<Rightarrow>
          (let content = json_get v ''content'' in
           if action = ''accept''
           then (case content of
                   None \<Rightarrow> Err (Internal_Error ''elicitation handler: action=accept but content is nil'')
                 | Some c \<Rightarrow> Ok (Accept c))
           else if action = ''decline''
           then (if content \<noteq> None then Err (Internal_Error ''elicitation handler: action=decline but content is non-nil'')
                 else Ok Decline)
           else if action = ''cancel''
           then (if content \<noteq> None then Err (Internal_Error ''elicitation handler: action=cancel but content is non-nil'')
                 else Ok Cancel)
           else Err (Internal_Error (''elicitation handler: unknown action: '' @ action))))"

definition create_elicitation ::
  "mcp_lib \<Rightarrow> 'w handler_vm \<Rightarrow> callback_tables \<Rightarrow> mcp_handler \<Rightarrow> handler_registry \<Rightarrow> elicitation_request \<Rightarrow> 'w
     \<Rightarrow> (client_error + elicit_result) \<times> 'w" where
  "create_elicitation J V globals h r request w =
     (case request of
        Other_Elicitation \<Rightarrow> (Ok Decline, w)
      | Form_Elicitation message schema \<Rightarrow>
          (case mh_server_name h of
             None \<Rightarrow> (Err (Method_Not_Found Elicitation_Create_Method), w)
           | Some sn \<Rightarrow>
               (if \<not> has_mark r hm_elicitation sn then (Ok Decline, w)
                else case mh_handler_isle h of
                  None \<Rightarrow> (Err (Method_Not_Found Elicitation_Create_Method), w)
                | Some isle \<Rightarrow>
                    (case schema of
                       Err e \<Rightarrow> (Err (Internal_Error (''create_elicitation: schema serialize: '' @ e)), w)
                     | Ok schema_json \<Rightarrow>
                         (case dispatch_json J V globals MCP_ELICITATION_HANDLERS ''create_elicitation'' sn [message, schema_json] w of
                            (Err e, w') \<Rightarrow> (Err (Internal_Error (''elicitation handler: '' @ e)), w')
                          | (Ok None, w') \<Rightarrow> (Ok Decline, w')
                          | (Ok (Some text), w') \<Rightarrow> (and_then (parse_reply J ''elicitation'' text) elicit_of, w'))))))"

end
