(* ===== verification/Mcp_Bridge.thy ===== *)
theory Mcp_Bridge
  imports Mcp_Handler
begin

text \<open>
  \<open>bridge/mcp.rs\<close>: what a script calls under \<open>mcp\<close>. The functions that only ask take the manager and the
  world; the ones that change something take the bridge's state, the manager with the callback tables of the
  main Isle and the handler tables of the handler Isle. A table a function answers with is the list of the
  fields set on it. mlua's conversion to a string and its errors, and loading a dumped function on the other
  Isle, are the record \<open>bridge_lib\<close>. Trace lines are left out.
\<close>

record bridge_lib =
  bl_text :: "lua \<Rightarrow> lua_error + string"
  bl_no_table :: lua_error
  bl_load :: "string \<Rightarrow> string + nat"
  bl_isle_no_table :: string

record 'c mcp_bridge =
  mb_manager :: "'c mcp_manager"
  mb_main :: callback_tables
  mb_handlers :: callback_tables

type_synonym lua_fields = "(string \<times> lua) list"

definition external :: "block_error \<Rightarrow> lua_error" where
  "external e = External (display_block_error e)"

section \<open>Registration\<close>

definition ensure_table :: "string \<Rightarrow> callback_tables \<Rightarrow> callback_tables" where
  "ensure_table t g = (case g t of None \<Rightarrow> g(t \<mapsto> Map.empty) | Some _ \<Rightarrow> g)"

definition register_tables :: "callback_tables \<Rightarrow> callback_tables" where
  "register_tables g =
     ensure_table MCP_USER_PROMPTS_LIST_CHANGED_CBS (ensure_table MCP_USER_TOOLS_LIST_CHANGED_CBS
       (ensure_table MCP_USER_RESOURCES_LIST_CHANGED_CBS (ensure_table MCP_USER_RESOURCE_UPDATE_CBS
         (ensure_table MCP_USER_LOG_CBS (ensure_table MCP_USER_PROGRESS_CBS g)))))"

definition install_dispatchers :: "callback_tables \<Rightarrow> callback_tables" where
  "install_dispatchers g =
     g(MCP_SAMPLING_HANDLERS \<mapsto> Map.empty, MCP_ROOTS_HANDLERS \<mapsto> Map.empty, MCP_ELICITATION_HANDLERS \<mapsto> Map.empty)"

section \<open>Connecting\<close>

definition parse_connect_env :: "json option \<Rightarrow> lua_error + (string \<times> string) list" where
  "parse_connect_env v =
     (case v of
        None \<Rightarrow> Ok []
      | Some JNull \<Rightarrow> Ok []
      | Some (JObject m) \<Rightarrow>
          collect_results (\<lambda>(k, x).
            case as_str x of
              Some s \<Rightarrow> Ok (k, s)
            | None \<Rightarrow> Err (External (fmt [''mcp.connect: opts.env['', quoted k, ''] must be a string'']))) m
      | _ \<Rightarrow> Err (External (fmt [''mcp.connect: opts.env must be a table of string'', [CHR 0xE2, CHR 0x86, CHR 0x92], ''string''])))"

definition connect_argv :: "mcp_lib \<Rightarrow> bridge_lib \<Rightarrow> lua option \<Rightarrow> lua_error + string list" where
  "connect_argv J B args =
     (case args of
        Some (LTable mt es) \<Rightarrow>
          collect_results (\<lambda>i. bl_text B (raw_get es (LInt (int i)))) [1 ..< Suc (vm_border (ml_vm J) es)]
      | _ \<Rightarrow> Ok [])"

definition connect_opts :: "mcp_lib \<Rightarrow> lua option \<Rightarrow> lua_error + bool \<times> path option \<times> (string \<times> string) list" where
  "connect_opts J opts =
     (case opts of
        Some v \<Rightarrow>
          and_then (lua_to_json (ml_vm J) v) (\<lambda>jo.
            let trace = (case Option.bind (json_get jo ''trace_context'') as_bool of Some b \<Rightarrow> b | None \<Rightarrow> False);
                cwd = map_option path_new (str_field jo ''cwd'')
            in and_then (parse_connect_env (json_get jo ''env'')) (\<lambda>env. Ok (trace, cwd, env)))
      | None \<Rightarrow> Ok (False, None, []))"

definition lua_connect ::
  "mcp_lib \<Rightarrow> bridge_lib \<Rightarrow> ('c, 'w) rmcp_ops \<Rightarrow> path \<Rightarrow> string \<Rightarrow> string \<Rightarrow> lua option \<Rightarrow> lua option
     \<Rightarrow> 'c mcp_bridge \<times> 'w \<Rightarrow> (lua_error + unit) \<times> 'c mcp_bridge \<times> 'w" where
  "lua_connect J B R default_cwd name command args opts = (\<lambda>(b, w).
     (case connect_argv J B args of
        Err e \<Rightarrow> (Err e, b, w)
      | Ok argv \<Rightarrow>
          (case connect_opts J opts of
             Err e \<Rightarrow> (Err e, b, w)
           | Ok (trace_context, cwd_override, env) \<Rightarrow>
               (let cwd = (case cwd_override of Some d \<Rightarrow> d | None \<Rightarrow> default_cwd) in
                case client_connect R name command argv trace_context (Some cwd) env (mb_manager b, w) of
                  (r, m, w') \<Rightarrow> (map_err external r, b\<lparr>mb_manager := m\<rparr>, w')))))"

text \<open>Options that do not convert are as good as none; \<open>None\<close> is a panic.\<close>

definition lua_connect_http ::
  "mcp_lib \<Rightarrow> obs_lib \<Rightarrow> ('c, 'w) rmcp_ops \<Rightarrow> string \<Rightarrow> string \<Rightarrow> lua option
     \<Rightarrow> 'c mcp_bridge \<times> 'w \<Rightarrow> (lua_error + unit) option \<times> 'c mcp_bridge \<times> 'w" where
  "lua_connect_http J lib R name url opts = (\<lambda>(b, w).
     (let opts_json = (case opts of
            Some v \<Rightarrow> (case lua_to_json (ml_vm J) v of Ok j \<Rightarrow> j | Err _ \<Rightarrow> JObject [])
          | None \<Rightarrow> JObject [])
      in case client_connect_http R lib name url opts_json (mb_manager b, w) of
           (r, m, w') \<Rightarrow> (map_option (map_err external) r, b\<lparr>mb_manager := m\<rparr>, w')))"

definition lua_disconnect ::
  "('c, 'w) rmcp_ops \<Rightarrow> string \<Rightarrow> 'c mcp_bridge \<times> 'w \<Rightarrow> (lua_error + unit) \<times> 'c mcp_bridge \<times> 'w" where
  "lua_disconnect R name = (\<lambda>(b, w).
     (case client_disconnect R name (mb_manager b, w) of
        (r, m, w') \<Rightarrow> (map_err external r, b\<lparr>mb_manager := m\<rparr>, w')))"

section \<open>Asking\<close>

definition failed_reply :: "block_error \<Rightarrow> lua_fields" where
  "failed_reply e = [(''ok'', LBool False), (''error'', LStr (display_block_error e))]"

text \<open>The answer \<open>ok\<close>, then the fields \<open>build\<close> makes of the value, in order; a failed conversion raises.\<close>

definition reply_with :: "(json \<Rightarrow> lua_error + lua_fields) \<Rightarrow> (block_error + json) \<times> 'w \<Rightarrow> (lua_error + lua_fields) \<times> 'w" where
  "reply_with build = (\<lambda>(r, w).
     ((case r of
         Ok v \<Rightarrow> and_then (build v) (\<lambda>more. Ok ((''ok'', LBool True) # more))
       | Err e \<Rightarrow> Ok (failed_reply e)), w))"

definition value_field :: "mcp_lib \<Rightarrow> string \<Rightarrow> json \<Rightarrow> lua_error + lua_fields" where
  "value_field J k v = and_then (json_to_lua (ml_vm J) v) (\<lambda>l. Ok [(k, l)])"

definition field_or_empty :: "json \<Rightarrow> string \<Rightarrow> json" where
  "field_or_empty v k = (case json_get v k of Some x \<Rightarrow> x | None \<Rightarrow> JArray [])"

definition and_fields :: "lua_error + lua_fields \<Rightarrow> lua_error + lua_fields \<Rightarrow> lua_error + lua_fields" where
  "and_fields a b = and_then a (\<lambda>xs. and_then b (\<lambda>ys. Ok (xs @ ys)))"

definition lua_list_tools ::
  "mcp_lib \<Rightarrow> ('c, 'w) rmcp_ops \<Rightarrow> 'c mcp_manager \<Rightarrow> string \<Rightarrow> 'w \<Rightarrow> (lua_error + lua_fields) \<times> 'w" where
  "lua_list_tools J R m name w = reply_with (value_field J ''tools'') (client_list_tools R m name w)"

definition lua_list_resources ::
  "mcp_lib \<Rightarrow> ('c, 'w) rmcp_ops \<Rightarrow> 'c mcp_manager \<Rightarrow> string \<Rightarrow> 'w \<Rightarrow> (lua_error + lua_fields) \<times> 'w" where
  "lua_list_resources J R m name w = reply_with (value_field J ''resources'') (client_list_resources R m name w)"

definition lua_list_resource_templates ::
  "mcp_lib \<Rightarrow> ('c, 'w) rmcp_ops \<Rightarrow> 'c mcp_manager \<Rightarrow> string \<Rightarrow> 'w \<Rightarrow> (lua_error + lua_fields) \<times> 'w" where
  "lua_list_resource_templates J R m name w =
     reply_with (value_field J ''resource_templates'') (client_list_resource_templates R m name w)"

definition lua_read_resource ::
  "mcp_lib \<Rightarrow> ('c, 'w) rmcp_ops \<Rightarrow> 'c mcp_manager \<Rightarrow> string \<Rightarrow> string \<Rightarrow> 'w \<Rightarrow> (lua_error + lua_fields) \<times> 'w" where
  "lua_read_resource J R m name uri w =
     reply_with (\<lambda>v. value_field J ''contents'' (field_or_empty v ''contents'')) (client_read_resource R m name uri w)"

definition lua_list_prompts ::
  "mcp_lib \<Rightarrow> ('c, 'w) rmcp_ops \<Rightarrow> 'c mcp_manager \<Rightarrow> string \<Rightarrow> 'w \<Rightarrow> (lua_error + lua_fields) \<times> 'w" where
  "lua_list_prompts J R m name w = reply_with (value_field J ''prompts'') (client_list_prompts R m name w)"

text \<open>An absent argument is \<open>Null\<close>.\<close>

definition json_or_null :: "mcp_lib \<Rightarrow> lua option \<Rightarrow> lua_error + json" where
  "json_or_null J v = (case v of Some x \<Rightarrow> lua_to_json (ml_vm J) x | None \<Rightarrow> Ok JNull)"

definition prompt_fields :: "mcp_lib \<Rightarrow> json \<Rightarrow> lua_error + lua_fields" where
  "prompt_fields J v =
     and_fields (value_field J ''messages'' (field_or_empty v ''messages''))
       (Ok (case str_field v ''description'' of Some d \<Rightarrow> [(''description'', LStr d)] | None \<Rightarrow> []))"

definition lua_get_prompt ::
  "mcp_lib \<Rightarrow> ('c, 'w) rmcp_ops \<Rightarrow> 'c mcp_manager \<Rightarrow> string \<Rightarrow> string \<Rightarrow> lua option \<Rightarrow> 'w \<Rightarrow> (lua_error + lua_fields) \<times> 'w" where
  "lua_get_prompt J R m name prompt args w =
     (case json_or_null J args of
        Err e \<Rightarrow> (Err e, w)
      | Ok a \<Rightarrow> reply_with (prompt_fields J) (client_get_prompt R m name prompt a w))"

definition present_field :: "mcp_lib \<Rightarrow> string \<Rightarrow> json option \<Rightarrow> lua_error + lua_fields" where
  "present_field J k v = (case v of Some x \<Rightarrow> if is_null x then Ok [] else value_field J k x | None \<Rightarrow> Ok [])"

definition completion_fields :: "mcp_lib \<Rightarrow> json \<Rightarrow> lua_error + lua_fields" where
  "completion_fields J v =
     (let completion = (case json_get v ''completion'' of Some c \<Rightarrow> c | None \<Rightarrow> JObject []);
          has_more = (case json_get completion ''hasMore'' of Some h \<Rightarrow> Some h | None \<Rightarrow> json_get completion ''has_more'')
      in and_fields (value_field J ''values'' (field_or_empty completion ''values''))
           (and_fields (present_field J ''total'' (json_get completion ''total'')) (present_field J ''has_more'' has_more)))"

definition lua_complete ::
  "mcp_lib \<Rightarrow> ('c, 'w) rmcp_ops \<Rightarrow> 'c mcp_manager \<Rightarrow> string \<Rightarrow> lua \<Rightarrow> string \<Rightarrow> string \<Rightarrow> 'w \<Rightarrow> (lua_error + lua_fields) \<times> 'w" where
  "lua_complete J R m name ref arg_name arg_value w =
     (case lua_to_json (ml_vm J) ref of
        Err e \<Rightarrow> (Err e, w)
      | Ok r \<Rightarrow> reply_with (completion_fields J) (client_complete R m name r arg_name arg_value w))"

definition unit_reply :: "(block_error + unit) \<times> 'w \<Rightarrow> lua_fields \<times> 'w" where
  "unit_reply = (\<lambda>(r, w). (case r of Ok _ \<Rightarrow> [(''ok'', LBool True)] | Err e \<Rightarrow> failed_reply e, w))"

definition lua_subscribe_resource ::
  "('c, 'w) rmcp_ops \<Rightarrow> 'c mcp_manager \<Rightarrow> string \<Rightarrow> string \<Rightarrow> 'w \<Rightarrow> lua_fields \<times> 'w" where
  "lua_subscribe_resource R m name uri w = unit_reply (client_subscribe_resource R m name uri w)"

definition lua_unsubscribe_resource ::
  "('c, 'w) rmcp_ops \<Rightarrow> 'c mcp_manager \<Rightarrow> string \<Rightarrow> string \<Rightarrow> 'w \<Rightarrow> lua_fields \<times> 'w" where
  "lua_unsubscribe_resource R m name uri w = unit_reply (client_unsubscribe_resource R m name uri w)"

definition lua_server_info ::
  "mcp_lib \<Rightarrow> ('c, 'w) rmcp_ops \<Rightarrow> 'c mcp_manager \<Rightarrow> string \<Rightarrow> 'w \<Rightarrow> (lua_error + lua_fields) \<times> 'w" where
  "lua_server_info J R m name w = reply_with (value_field J ''server_info'') (client_server_info R m name w, w)"

text \<open>\<open>as i64\<close> of a \<open>u64\<close>.\<close>

definition i64_of_u64 :: "nat \<Rightarrow> int" where
  "i64_of_u64 n = (if n < 2 ^ 63 then int n else int n - 2 ^ 64)"

definition lua_ping :: "('c, 'w) rmcp_ops \<Rightarrow> 'c mcp_manager \<Rightarrow> string \<Rightarrow> 'w \<Rightarrow> lua_fields \<times> 'w" where
  "lua_ping R m name w =
     (case client_ping R m name w of
        (Ok latency_ms, w') \<Rightarrow> ([(''ok'', LBool True), (''latency_ms'', LInt (i64_of_u64 latency_ms))], w')
      | (Err e, w') \<Rightarrow> (failed_reply e, w'))"

definition lua_cancel :: "('c, 'w) rmcp_ops \<Rightarrow> 'c mcp_manager \<Rightarrow> string \<Rightarrow> int \<Rightarrow> 'w \<Rightarrow> 'w" where
  "lua_cancel R m name request_id w = send_cancelled R m name (Some request_id) w"

definition lua_notify_roots :: "('c, 'w) rmcp_ops \<Rightarrow> 'c mcp_manager \<Rightarrow> string \<Rightarrow> 'w \<Rightarrow> 'w" where
  "lua_notify_roots R m name w = notify_roots_list_changed R m name w"

section \<open>Calling a tool\<close>

definition env_nonempty :: "env \<Rightarrow> string \<Rightarrow> json option" where
  "env_nonempty env k = (case env_var env k of Some v \<Rightarrow> if v = [] then None else Some (JString v) | None \<Rightarrow> None)"

definition obs_object :: "env \<Rightarrow> string option \<Rightarrow> json_map" where
  "obs_object env fallback =
     insert_some ''agent_name'' (env_nonempty env ''AGENT_BLOCK_AGENT_NAME'')
       (insert_some ''agent_id''
          (case env_nonempty env ''AGENT_BLOCK_AGENT_ID'' of Some v \<Rightarrow> Some v | None \<Rightarrow> map_option JString fallback)
         (insert_some ''run_id'' (env_nonempty env ''AGENT_BLOCK_RUN_ID'')
           (insert_some ''trace_id'' (env_nonempty env ''AGENT_BLOCK_TRACE_ID'') [])))"

definition insert_obs :: "env \<Rightarrow> string option \<Rightarrow> json_map \<Rightarrow> json_map" where
  "insert_obs env fallback into =
     (if map_get into ''__ab_obs'' \<noteq> None then into
      else let obs = obs_object env fallback in
           if obs = [] then into else map_insert ''__ab_obs'' (JObject obs) into)"

fun inject_obs_context :: "env \<Rightarrow> string option \<Rightarrow> json \<Rightarrow> json" where
  "inject_obs_context env fallback (JObject obj) = JObject (insert_obs env fallback obj)"
| "inject_obs_context env fallback JNull =
     (let obj = insert_obs env fallback [] in if obj = [] then JNull else JObject obj)"
| "inject_obs_context env fallback v = v"

definition call_fields :: "mcp_lib \<Rightarrow> json \<Rightarrow> lua_error + lua_fields" where
  "call_fields J v =
     and_fields (value_field J ''content'' (field_or_empty v ''content''))
       (and_fields
         (Ok [(''is_error'', LBool (case Option.bind (json_get v ''isError'') as_bool of Some b \<Rightarrow> b | None \<Rightarrow> False))])
         (case json_get v ''structuredContent'' of Some sc \<Rightarrow> value_field J ''structured_content'' sc | None \<Rightarrow> Ok []))"

definition lua_call ::
  "mcp_lib \<Rightarrow> ('c, 'w) rmcp_ops \<Rightarrow> string option \<Rightarrow> 'c mcp_manager \<Rightarrow> string \<Rightarrow> string \<Rightarrow> lua option \<Rightarrow> 'w
     \<Rightarrow> (lua_error + lua_fields) \<times> 'w" where
  "lua_call J R fallback_agent_id m name tool arguments w =
     (case json_or_null J arguments of
        Err e \<Rightarrow> (Err e, w)
      | Ok args \<Rightarrow>
          (let args = (if trace_context_enabled (mm_registry m) name
                       then inject_obs_context (ro_env R w) fallback_agent_id args else args)
           in reply_with (call_fields J) (client_call_tool R m name tool args w)))"

section \<open>Callbacks and handlers\<close>

text \<open>A callback is stored first and marked then; without its table the call raises.\<close>

definition store_callback ::
  "bridge_lib \<Rightarrow> string \<Rightarrow> (string \<Rightarrow> handler_registry \<Rightarrow> handler_registry) \<Rightarrow> string \<Rightarrow> nat \<Rightarrow> 'c mcp_bridge
     \<Rightarrow> (lua_error + unit) \<times> 'c mcp_bridge" where
  "store_callback B cbs mark name f b =
     (case mb_main b cbs of
        None \<Rightarrow> (Err (bl_no_table B), b)
      | Some t \<Rightarrow>
          (Ok (), b\<lparr>mb_main := (mb_main b)(cbs \<mapsto> t(name \<mapsto> f)),
                     mb_manager := (mb_manager b)\<lparr>mm_registry := mark name (mm_registry (mb_manager b))\<rparr>\<rparr>))"

definition lua_on_progress :: "bridge_lib \<Rightarrow> string \<Rightarrow> nat \<Rightarrow> 'c mcp_bridge \<Rightarrow> (lua_error + unit) \<times> 'c mcp_bridge" where
  "lua_on_progress B = store_callback B MCP_USER_PROGRESS_CBS mark_on_progress"

definition lua_on_log :: "bridge_lib \<Rightarrow> string \<Rightarrow> nat \<Rightarrow> 'c mcp_bridge \<Rightarrow> (lua_error + unit) \<times> 'c mcp_bridge" where
  "lua_on_log B = store_callback B MCP_USER_LOG_CBS mark_on_log"

definition lua_on_resource_update :: "bridge_lib \<Rightarrow> string \<Rightarrow> nat \<Rightarrow> 'c mcp_bridge \<Rightarrow> (lua_error + unit) \<times> 'c mcp_bridge" where
  "lua_on_resource_update B = store_callback B MCP_USER_RESOURCE_UPDATE_CBS mark_on_resource_updated"

definition lua_on_resources_list_changed ::
  "bridge_lib \<Rightarrow> string \<Rightarrow> nat \<Rightarrow> 'c mcp_bridge \<Rightarrow> (lua_error + unit) \<times> 'c mcp_bridge" where
  "lua_on_resources_list_changed B = store_callback B MCP_USER_RESOURCES_LIST_CHANGED_CBS mark_on_resource_list_changed"

definition lua_on_tools_list_changed ::
  "bridge_lib \<Rightarrow> string \<Rightarrow> nat \<Rightarrow> 'c mcp_bridge \<Rightarrow> (lua_error + unit) \<times> 'c mcp_bridge" where
  "lua_on_tools_list_changed B = store_callback B MCP_USER_TOOLS_LIST_CHANGED_CBS mark_on_tool_list_changed"

definition lua_on_prompts_list_changed ::
  "bridge_lib \<Rightarrow> string \<Rightarrow> nat \<Rightarrow> 'c mcp_bridge \<Rightarrow> (lua_error + unit) \<times> 'c mcp_bridge" where
  "lua_on_prompts_list_changed B = store_callback B MCP_USER_PROMPTS_LIST_CHANGED_CBS mark_on_prompt_list_changed"

text \<open>
  A handler crosses to the handler Isle as bytecode: a function that is not Lua's, or that dumps to nothing,
  is refused; the mark is set once the table of the other Isle has it.
\<close>

record handler_function =
  lf_what :: string
  lf_dump :: string

definition store_handler ::
  "bridge_lib \<Rightarrow> string \<Rightarrow> string \<Rightarrow> (string \<Rightarrow> handler_registry \<Rightarrow> handler_registry) \<Rightarrow> string \<Rightarrow> handler_function
     \<Rightarrow> 'c mcp_bridge \<Rightarrow> (lua_error + unit) \<times> 'c mcp_bridge" where
  "store_handler B caller handlers mark name func b =
     (let load_failed = (\<lambda>e. External (fmt [''mcp.'', caller, '': handler isle load failed: '', e])) in
      if lf_what func \<noteq> ''Lua''
      then (Err (External (fmt [''mcp.'', caller, '': handler must be a pure Lua function (C functions and Rust-bound callbacks are not supported)''])), b)
      else if lf_dump func = []
      then (Err (External (fmt [''mcp.'', caller, '': Function::dump returned empty bytecode''])), b)
      else case bl_load B (lf_dump func) of
        Err e \<Rightarrow> (Err (load_failed e), b)
      | Ok loaded \<Rightarrow>
          (case mb_handlers b handlers of
             None \<Rightarrow> (Err (load_failed (bl_isle_no_table B)), b)
           | Some t \<Rightarrow>
               (Ok (), b\<lparr>mb_handlers := (mb_handlers b)(handlers \<mapsto> t(name \<mapsto> loaded)),
                          mb_manager := (mb_manager b)\<lparr>mm_registry := mark name (mm_registry (mb_manager b))\<rparr>\<rparr>)))"

definition lua_set_sampling_handler ::
  "bridge_lib \<Rightarrow> string \<Rightarrow> handler_function \<Rightarrow> 'c mcp_bridge \<Rightarrow> (lua_error + unit) \<times> 'c mcp_bridge" where
  "lua_set_sampling_handler B = store_handler B ''set_sampling_handler'' MCP_SAMPLING_HANDLERS mark_sampling"

definition lua_set_roots_handler ::
  "bridge_lib \<Rightarrow> string \<Rightarrow> handler_function \<Rightarrow> 'c mcp_bridge \<Rightarrow> (lua_error + unit) \<times> 'c mcp_bridge" where
  "lua_set_roots_handler B = store_handler B ''set_roots_handler'' MCP_ROOTS_HANDLERS mark_roots"

definition lua_set_elicitation_handler ::
  "bridge_lib \<Rightarrow> string \<Rightarrow> handler_function \<Rightarrow> 'c mcp_bridge \<Rightarrow> (lua_error + unit) \<times> 'c mcp_bridge" where
  "lua_set_elicitation_handler B = store_handler B ''set_elicitation_handler'' MCP_ELICITATION_HANDLERS mark_elicitation"

end
