(* ===== verification/Mcp_Machine.thy ===== *)
theory Mcp_Machine
  imports Mcp_Bridge
begin

text \<open>
  The client as a machine: scripts connect, disconnect and register, servers notify, the dispatch task takes
  one item at a time, in any order. A run keeps, beside the bridge, the connection attempts that got as far as
  the handshake, the notifications a channel accepted and the items dispatched with what became of them.
\<close>

section \<open>Notifications as data\<close>

datatype notification =
    Progress_Made progress_token lua_float "lua_float option" "string option"
  | Message_Logged logging_level "string option" json
  | Resource_Changed string
  | Resources_Listed_Anew
  | Tools_Listed_Anew
  | Prompts_Listed_Anew

fun notify :: "mcp_lib \<Rightarrow> mcp_handler \<Rightarrow> handler_registry \<Rightarrow> notification \<Rightarrow> notice_route" where
  "notify J h r (Progress_Made tok p t msg) = on_progress J h r tok p t msg"
| "notify J h r (Message_Logged level logger data) = on_logging_message J h r level logger data"
| "notify J h r (Resource_Changed uri) = on_resource_updated J h r uri"
| "notify J h r Resources_Listed_Anew = on_resource_list_changed J h r"
| "notify J h r Tools_Listed_Anew = on_tool_list_changed J h r"
| "notify J h r Prompts_Listed_Anew = on_prompt_list_changed J h r"

fun notice_mark :: "notification \<Rightarrow> handler_marks \<Rightarrow> bool" where
  "notice_mark (Progress_Made tok p t msg) = hm_on_progress"
| "notice_mark (Message_Logged level logger data) = hm_on_log"
| "notice_mark (Resource_Changed uri) = hm_on_resource_updated"
| "notice_mark Resources_Listed_Anew = hm_on_resource_list_changed"
| "notice_mark Tools_Listed_Anew = hm_on_tool_list_changed"
| "notice_mark Prompts_Listed_Anew = hm_on_prompt_list_changed"

fun notice_table :: "notification \<Rightarrow> string" where
  "notice_table (Progress_Made tok p t msg) = MCP_USER_PROGRESS_CBS"
| "notice_table (Message_Logged level logger data) = MCP_USER_LOG_CBS"
| "notice_table (Resource_Changed uri) = MCP_USER_RESOURCE_UPDATE_CBS"
| "notice_table Resources_Listed_Anew = MCP_USER_RESOURCES_LIST_CHANGED_CBS"
| "notice_table Tools_Listed_Anew = MCP_USER_TOOLS_LIST_CHANGED_CBS"
| "notice_table Prompts_Listed_Anew = MCP_USER_PROMPTS_LIST_CHANGED_CBS"

fun notice_ev :: "mcp_lib \<Rightarrow> notification \<Rightarrow> string \<Rightarrow> json" where
  "notice_ev J (Progress_Made tok p t msg) s = progress_ev tok p t msg s"
| "notice_ev J (Message_Logged level logger data) s =
     log_ev level (case logger of Some l \<Rightarrow> l | None \<Rightarrow> []) (ml_print J data) s"
| "notice_ev J (Resource_Changed uri) s = resource_ev uri s"
| "notice_ev J Resources_Listed_Anew s = list_changed_ev ''resources_list_changed'' s"
| "notice_ev J Tools_Listed_Anew s = list_changed_ev ''tools_list_changed'' s"
| "notice_ev J Prompts_Listed_Anew s = list_changed_ev ''prompts_list_changed'' s"

lemma notify_to_channel:
  assumes "notify J h r n = To_Channel ch item"
  shows "mh_notify_tx h = Some ch \<and> (\<exists>isle s. mh_main_isle h = Some isle \<and> mh_server_name h = Some s
    \<and> has_mark r (notice_mark n) s \<and> ni_server item = s \<and> ni_cbs item = notice_table n
    \<and> ni_ev item = ml_print J (notice_ev J n s))"
  using assms
  by (cases n)
     (auto simp: on_progress_def on_logging_message_def on_resource_updated_def on_resource_list_changed_def
        on_tool_list_changed_def on_prompt_list_changed_def route_notification_def hand_over_def Let_def
        split: option.splits if_splits)

lemma notify_to_task:
  assumes "notify J h r n = To_Task item"
  shows "mh_notify_tx h = None \<and> mh_main_isle h \<noteq> None"
  using assms
  by (cases n)
     (auto simp: on_progress_def on_logging_message_def on_resource_updated_def on_resource_list_changed_def
        on_tool_list_changed_def on_prompt_list_changed_def route_notification_def hand_over_def Let_def
        split: option.splits if_splits)

section \<open>Steps\<close>

record 'c client_run =
  cr_bridge :: "'c mcp_bridge"
  cr_attempts :: "(string \<times> bool) list"
  cr_accepted :: "(nat \<times> string \<times> notification \<times> notification_item) list"
  cr_dispatched :: "(nat \<times> notification_item \<times> (lua_error + (nat \<times> lua) option)) list"

definition client_start :: "nat \<Rightarrow> 'c client_run" where
  "client_start t =
     \<lparr>cr_bridge = \<lparr>mb_manager = manager_with t, mb_main = register_tables Map.empty,
                   mb_handlers = install_dispatchers (register_tables Map.empty)\<rparr>,
      cr_attempts = [], cr_accepted = [], cr_dispatched = []\<rparr>"

text \<open>Whether \<open>mcp.connect\<close> gets as far as the handshake, and the flag it asks for then.\<close>

definition handshake_flag ::
  "mcp_lib \<Rightarrow> bridge_lib \<Rightarrow> ('c, 'w) rmcp_ops \<Rightarrow> path \<Rightarrow> string \<Rightarrow> lua option \<Rightarrow> lua option \<Rightarrow> 'w \<Rightarrow> bool option" where
  "handshake_flag J B R default_cwd command args opts w =
     (case connect_argv J B args of
        Err _ \<Rightarrow> None
      | Ok argv \<Rightarrow>
          (case connect_opts J opts of
             Err _ \<Rightarrow> None
           | Ok (t, cwd, env) \<Rightarrow>
               (case fst (ro_spawn R command argv (Some (case cwd of Some d \<Rightarrow> d | None \<Rightarrow> default_cwd))
                            (server_env (ro_env R w) env) w) of
                  Err _ \<Rightarrow> None
                | Ok _ \<Rightarrow> Some t)))"

definition http_flag :: "mcp_lib \<Rightarrow> lua option \<Rightarrow> bool" where
  "http_flag J opts =
     (case opts of
        Some v \<Rightarrow>
          (case lua_to_json (ml_vm J) v of
             Ok j \<Rightarrow> (case Option.bind (json_get j ''trace_context'') as_bool of Some b \<Rightarrow> b | None \<Rightarrow> False)
           | Err _ \<Rightarrow> False)
      | None \<Rightarrow> False)"

definition callback_setters :: "bridge_lib \<Rightarrow> (string \<Rightarrow> nat \<Rightarrow> 'c mcp_bridge \<Rightarrow> (lua_error + unit) \<times> 'c mcp_bridge) list" where
  "callback_setters B =
     [lua_on_progress B, lua_on_log B, lua_on_resource_update B, lua_on_resources_list_changed B,
      lua_on_tools_list_changed B, lua_on_prompts_list_changed B]"

definition handler_setters ::
  "bridge_lib \<Rightarrow> (string \<Rightarrow> handler_function \<Rightarrow> 'c mcp_bridge \<Rightarrow> (lua_error + unit) \<times> 'c mcp_bridge) list" where
  "handler_setters B = [lua_set_sampling_handler B, lua_set_roots_handler B, lua_set_elicitation_handler B]"

definition with_manager :: "('c mcp_manager \<Rightarrow> 'c mcp_manager) \<Rightarrow> 'c mcp_bridge \<Rightarrow> 'c mcp_bridge" where
  "with_manager f b = b\<lparr>mb_manager := f (mb_manager b)\<rparr>"

definition take_notice ::
  "mcp_lib \<Rightarrow> string \<Rightarrow> mcp_handler \<Rightarrow> notification \<Rightarrow> 'c client_run \<Rightarrow> 'c client_run" where
  "take_notice J s h n c =
     (case notify J h (mm_registry (mb_manager (cr_bridge c))) n of
        To_Channel ch item \<Rightarrow>
          (case try_send ch item (mb_manager (cr_bridge c)) of
             (sent, m) \<Rightarrow>
               c\<lparr>cr_bridge := (cr_bridge c)\<lparr>mb_manager := m\<rparr>,
                 cr_accepted := cr_accepted c @ (if sent then [(ch, s, n, item)] else [])\<rparr>)
      | _ \<Rightarrow> c)"

definition dispatch_next :: "mcp_lib \<Rightarrow> nat \<Rightarrow> 'c client_run \<Rightarrow> 'c client_run" where
  "dispatch_next J ch c =
     (case next_notification ch (mb_manager (cr_bridge c)) of
        (None, m) \<Rightarrow> c
      | (Some item, m) \<Rightarrow>
          c\<lparr>cr_bridge := (cr_bridge c)\<lparr>mb_manager := m\<rparr>,
            cr_dispatched := cr_dispatched c @ [(ch, item, dispatch_item J (mb_main (cr_bridge c)) item)]\<rparr>)"

text \<open>What a channel took in and what was dispatched from it, in order.\<close>

definition accepted_on :: "nat \<Rightarrow> 'c client_run \<Rightarrow> notification_item list" where
  "accepted_on ch c = map (\<lambda>e. snd (snd (snd e))) (filter (\<lambda>e. fst e = ch) (cr_accepted c))"

definition dispatched_on :: "nat \<Rightarrow> 'c client_run \<Rightarrow> notification_item list" where
  "dispatched_on ch c = map (\<lambda>e. fst (snd e)) (filter (\<lambda>e. fst e = ch) (cr_dispatched c))"

text \<open>Asking a server, and all else a script does, changes the world and not the bridge.\<close>

inductive client_step ::
  "mcp_lib \<Rightarrow> bridge_lib \<Rightarrow> obs_lib \<Rightarrow> ('c, 'w) rmcp_ops \<Rightarrow> 'c client_run \<times> 'w \<Rightarrow> 'c client_run \<times> 'w \<Rightarrow> bool"
  for J B lib R where
  Connect:
    "lua_connect J B R cwd name command args opts (cr_bridge c, w) = (r, b, w') \<Longrightarrow>
     client_step J B lib R (c, w)
       (c\<lparr>cr_bridge := b,
          cr_attempts := cr_attempts c @ (case handshake_flag J B R cwd command args opts w of Some t \<Rightarrow> [(name, t)] | None \<Rightarrow> [])\<rparr>, w')"
| Connect_Http:
    "lua_connect_http J lib R name url opts (cr_bridge c, w) = (r, b, w') \<Longrightarrow>
     client_step J B lib R (c, w)
       (c\<lparr>cr_bridge := b, cr_attempts := cr_attempts c @ [(name, http_flag J opts)]\<rparr>, w')"
| Disconnect:
    "lua_disconnect R name (cr_bridge c, w) = (r, b, w') \<Longrightarrow> client_step J B lib R (c, w) (c\<lparr>cr_bridge := b\<rparr>, w')"
| Disconnect_All:
    "disconnect_all R key_order (mb_manager (cr_bridge c), w) = (r, m, w') \<Longrightarrow>
     client_step J B lib R (c, w) (c\<lparr>cr_bridge := with_manager (\<lambda>_. m) (cr_bridge c)\<rparr>, w')"
| Wire_Handler_Isle:
    "client_step J B lib R (c, w) (c\<lparr>cr_bridge := with_manager (set_handler_isle isle) (cr_bridge c)\<rparr>, w)"
| Wire_Main_Isle:
    "client_step J B lib R (c, w) (c\<lparr>cr_bridge := with_manager (set_main_isle isle) (cr_bridge c)\<rparr>, w)"
| Set_Callback:
    "set_cb \<in> set (callback_setters B) \<Longrightarrow> set_cb name f (cr_bridge c) = (r, b) \<Longrightarrow>
     client_step J B lib R (c, w) (c\<lparr>cr_bridge := b\<rparr>, w)"
| Set_Handler:
    "set_h \<in> set (handler_setters B) \<Longrightarrow> set_h name func (cr_bridge c) = (r, b) \<Longrightarrow>
     client_step J B lib R (c, w) (c\<lparr>cr_bridge := b\<rparr>, w)"
| Notified:
    "mm_servers (mb_manager (cr_bridge c)) s = Some (conn, h) \<Longrightarrow>
     client_step J B lib R (c, w) (take_notice J s h n c, w)"
| Dispatched: "client_step J B lib R (c, w) (dispatch_next J ch c, w)"
| Elsewhere: "client_step J B lib R (c, w) (c, w')"

inductive client_reaches ::
  "mcp_lib \<Rightarrow> bridge_lib \<Rightarrow> obs_lib \<Rightarrow> ('c, 'w) rmcp_ops \<Rightarrow> nat \<Rightarrow> 'c client_run \<times> 'w \<Rightarrow> bool"
  for J B lib R t where
  Start: "client_reaches J B lib R t (client_start t, w)"
| Step: "client_reaches J B lib R t st \<Longrightarrow> client_step J B lib R st st' \<Longrightarrow> client_reaches J B lib R t st'"

section \<open>What a step may do to the bridge\<close>

text \<open>
  Everything but a registration leaves the callback tables; a registration only adds. The manager changes in
  one of few ways.
\<close>

lemma connect_manager:
  assumes "client_connect R name command args t cwd env (m, w) = (r, m', w')"
  shows "m' = m \<or> m' = reset_template (prepare_server name t m)
    \<or> (\<exists>conn. m' = add_server name conn (connection_handler name m) (reset_template (prepare_server name t m)))"
  using assms by (auto simp: client_connect_def Let_def split: prod.splits sum.splits round_trip.splits)

lemma connect_http_manager:
  assumes "client_connect_http R lib name url opts (m, w) = (r, m', w')"
  shows "\<exists>t. t = (case Option.bind (json_get opts ''trace_context'') as_bool of Some b \<Rightarrow> b | None \<Rightarrow> False)
    \<and> (m' = reset_template (prepare_server name t m)
     \<or> (\<exists>conn. m' = add_server name conn (connection_handler name m) (reset_template (prepare_server name t m))))"
  using assms by (auto simp: client_connect_http_def Let_def split: prod.splits sum.splits option.splits)

lemma disconnect_manager:
  assumes "client_disconnect R name (m, w) = (r, m', w')"
  shows "m' = m\<lparr>mm_servers := (mm_servers m)(name := None)\<rparr>"
proof (cases "mm_servers m name")
  case None
  then have "(mm_servers m)(name := None) = mm_servers m" by (simp add: fun_upd_idem)
  with assms None show ?thesis by (simp add: client_disconnect_def)
next
  case (Some ch)
  with assms show ?thesis
    by (auto simp: client_disconnect_def Let_def split: prod.splits round_trip.splits)
qed

lemma restricted_again:
  "(m\<lparr>mm_servers := f\<rparr>)\<lparr>mm_servers := mm_servers (m\<lparr>mm_servers := f\<rparr>) |` X\<rparr> = m\<lparr>mm_servers := f |` X\<rparr>"
  by simp

lemma disconnect_each_manager:
  "disconnect_each R names first (m, w) = (r, m', w') \<Longrightarrow> m' = m\<lparr>mm_servers := mm_servers m |` (- set names)\<rparr>"
proof (induction names arbitrary: first m w)
  case Nil
  then show ?case by (simp add: restrict_map_def)
next
  case (Cons name names)
  obtain r1 m1 w1 where one: "client_disconnect R name (m, w) = (r1, m1, w1)" by (metis prod_cases3)
  from Cons.prems one obtain first' where rest: "disconnect_each R names first' (m1, w1) = (r, m', w')"
    by (auto split: sum.splits)
  have "((mm_servers m)(name := None)) |` (- set names) = mm_servers m |` (- set (name # names))"
    by (auto simp: restrict_map_def fun_eq_iff)
  then show ?case
    unfolding Cons.IH [OF rest] disconnect_manager [OF one] restricted_again by (rule arg_cong)
qed

lemma disconnect_all_manager:
  assumes "disconnect_all R key_order (m, w) = (r, m', w')"
  shows "m' = m\<lparr>mm_servers := mm_servers m |` (- set (key_order (mm_servers m)))\<rparr>"
proof -
  obtain e st where each: "disconnect_each R (key_order (mm_servers m)) None (m, w) = (e, st)" by (metis prod.collapse)
  with assms have "st = (m', w')" by (auto simp: disconnect_all_def split: option.splits)
  with each have "disconnect_each R (key_order (mm_servers m)) None (m, w) = (e, m', w')" by simp
  then show ?thesis by (rule disconnect_each_manager)
qed

end
