(* ===== verification/Mcp_Client_Properties.thy ===== *)
theory Mcp_Client_Properties
  imports Mcp_Machine
begin

text \<open>
  Two invariants of the client's machine, what a notification becomes and who is told the agent's identity;
  what a disconnection of everything leaves; and what it takes to accept an elicitation.
\<close>

section \<open>Registrations\<close>

definition has_cb :: "callback_tables \<Rightarrow> string \<Rightarrow> string \<Rightarrow> bool" where
  "has_cb g t s \<longleftrightarrow> Option.bind (g t) (\<lambda>cbs. cbs s) \<noteq> None"

lemma has_cb_upd: "has_cb (g(t \<mapsto> tb(name \<mapsto> f))) t' s \<longleftrightarrow> t' = t \<and> s = name \<or> (if t' = t then tb s \<noteq> None else has_cb g t' s)"
  by (auto simp: has_cb_def)

lemmas mark_defs =
  mark_on_progress_def mark_on_log_def mark_on_resource_updated_def mark_on_resource_list_changed_def
  mark_on_tool_list_changed_def mark_on_prompt_list_changed_def mark_sampling_def mark_roots_def mark_elicitation_def

lemmas table_names =
  MCP_USER_PROGRESS_CBS_def MCP_USER_LOG_CBS_def MCP_USER_RESOURCE_UPDATE_CBS_def
  MCP_USER_RESOURCES_LIST_CHANGED_CBS_def MCP_USER_TOOLS_LIST_CHANGED_CBS_def MCP_USER_PROMPTS_LIST_CHANGED_CBS_def

lemma has_mark_no_marks [simp]: "\<not> notice_mark n no_marks" "\<not> hm_trace_context no_marks"
  by (cases n; simp add: no_marks_def) (simp add: no_marks_def)

lemma has_mark_marks_of: "notice_mark n (marks_of r s) \<longleftrightarrow> has_mark r (notice_mark n) s"
  by (simp add: marks_of_def has_mark_def split: option.splits)

lemma trace_marks_of: "hm_trace_context (marks_of r s) \<longleftrightarrow> trace_context_enabled r s"
  by (simp add: marks_of_def trace_context_enabled_def split: option.splits)

text \<open>What the six marks do to the six flags and to the one of the trace context.\<close>

definition marks_for :: "string \<Rightarrow> (string \<Rightarrow> handler_registry \<Rightarrow> handler_registry) \<Rightarrow> bool" where
  "marks_for t mark \<longleftrightarrow>
     (\<forall>n name r s. has_mark (mark name r) (notice_mark n) s \<longrightarrow> has_mark r (notice_mark n) s \<or> s = name \<and> notice_table n = t)
   \<and> (\<forall>name r. trace_context_enabled (mark name r) = trace_context_enabled r)"

lemma marks_for_upd:
  assumes mark: "\<And>name r. mark name r = r(name \<mapsto> u (marks_of r name))"
    and flags: "\<And>n m. notice_mark n (u m) \<Longrightarrow> notice_mark n m \<or> notice_table n = t"
    and trace: "\<And>m. hm_trace_context (u m) = hm_trace_context m"
  shows "marks_for t mark"
proof -
  have "has_mark r (notice_mark n) s \<or> s = name \<and> notice_table n = t"
    if "has_mark (mark name r) (notice_mark n) s" for n name r s
  proof (cases "s = name")
    case True
    with that have "notice_mark n (u (marks_of r s))" by (simp add: mark has_mark_def)
    then have "notice_mark n (marks_of r s) \<or> notice_table n = t" by (rule flags)
    with True show ?thesis by (simp only: has_mark_marks_of) blast
  next
    case False
    with that show ?thesis by (simp add: mark has_mark_def)
  qed
  moreover have "trace_context_enabled (mark name r) s = trace_context_enabled r s" for name r s
  proof (cases "s = name")
    case True
    then have "trace_context_enabled (mark name r) s = hm_trace_context (u (marks_of r s))"
      by (simp add: mark trace_context_enabled_def)
    then show ?thesis by (simp only: trace trace_marks_of)
  qed (simp add: mark trace_context_enabled_def)
  ultimately show ?thesis by (auto simp: marks_for_def fun_eq_iff)
qed

lemma six_marks:
  "marks_for MCP_USER_PROGRESS_CBS mark_on_progress"
  "marks_for MCP_USER_LOG_CBS mark_on_log"
  "marks_for MCP_USER_RESOURCE_UPDATE_CBS mark_on_resource_updated"
  "marks_for MCP_USER_RESOURCES_LIST_CHANGED_CBS mark_on_resource_list_changed"
  "marks_for MCP_USER_TOOLS_LIST_CHANGED_CBS mark_on_tool_list_changed"
  "marks_for MCP_USER_PROMPTS_LIST_CHANGED_CBS mark_on_prompt_list_changed"
  by (rule marks_for_upd, rule mark_defs, (case_tac n; simp), simp)+

lemma three_marks:
  "marks_for t mark_sampling" "marks_for t mark_roots" "marks_for t mark_elicitation"
  by (rule marks_for_upd, rule mark_defs, (case_tac n; simp), simp)+

lemma set_callback_effect:
  assumes "set_cb \<in> set (callback_setters B)" and "set_cb name f b = (r, b')"
  obtains "b' = b"
  | t tb mark where "marks_for t mark" and "mb_main b t = Some tb"
      and "b' = b\<lparr>mb_main := (mb_main b)(t \<mapsto> tb(name \<mapsto> f)),
                  mb_manager := (mb_manager b)\<lparr>mm_registry := mark name (mm_registry (mb_manager b))\<rparr>\<rparr>"
proof -
  obtain t mark where m: "marks_for t mark" and s: "set_cb = store_callback B t mark"
    using assms(1) six_marks
    by (auto simp: callback_setters_def lua_on_progress_def lua_on_log_def lua_on_resource_update_def
        lua_on_resources_list_changed_def lua_on_tools_list_changed_def lua_on_prompts_list_changed_def)
  show ?thesis
  proof (cases "mb_main b t")
    case None
    with assms(2) s have "b' = b" by (simp add: store_callback_def)
    then show ?thesis by (rule that(1))
  next
    case (Some tb)
    with assms(2) s show ?thesis by (intro that(2) [OF m Some]) (simp add: store_callback_def)
  qed
qed

lemma set_handler_effect:
  assumes "set_h \<in> set (handler_setters B)" and "set_h name func b = (r, b')"
  obtains "b' = b"
  | t tb f mark where "\<And>t. marks_for t mark"
      and "b' = b\<lparr>mb_handlers := (mb_handlers b)(t \<mapsto> tb(name \<mapsto> f)),
                  mb_manager := (mb_manager b)\<lparr>mm_registry := mark name (mm_registry (mb_manager b))\<rparr>\<rparr>"
proof -
  obtain caller t mark where m: "\<And>t. marks_for t mark" and s: "set_h = store_handler B caller t mark"
    using assms(1) three_marks
    by (auto simp: handler_setters_def lua_set_sampling_handler_def lua_set_roots_handler_def lua_set_elicitation_handler_def)
  show ?thesis
    using assms(2) that m unfolding s store_handler_def Let_def
    by (auto split: if_splits sum.splits option.splits)
qed

lemma prepare_marks:
  "has_mark (mm_registry (prepare_server name t m)) (notice_mark n) s = has_mark (mm_registry m) (notice_mark n) s"
  "trace_context_enabled (mm_registry (prepare_server name t m)) s =
     (if s = name then t else trace_context_enabled (mm_registry m) s)"
proof -
  have "notice_mark n (x\<lparr>hm_trace_context := t\<rparr>) = notice_mark n x" for x by (cases n) simp_all
  then show "has_mark (mm_registry (prepare_server name t m)) (notice_mark n) s = has_mark (mm_registry m) (notice_mark n) s"
    by (auto simp: prepare_server_def set_trace_context_def ensure_server_def marks_of_def has_mark_def split: option.splits)
  show "trace_context_enabled (mm_registry (prepare_server name t m)) s =
     (if s = name then t else trace_context_enabled (mm_registry m) s)"
    by (simp add: prepare_server_def set_trace_context_def ensure_server_def trace_context_enabled_def)
qed

section \<open>The invariant of the manager\<close>

definition tied :: "'c mcp_manager \<Rightarrow> mcp_handler \<Rightarrow> bool" where
  "tied m h \<longleftrightarrow> (mh_main_isle h \<noteq> None \<longrightarrow> mh_notify_tx h \<noteq> None) \<and> (\<forall>ch. mh_notify_tx h = Some ch \<longrightarrow> ch < mm_next_channel m)"

definition managed :: "'c mcp_manager \<Rightarrow> bool" where
  "managed m \<longleftrightarrow> tied m (mm_handler m)
   \<and> (\<forall>s conn h. mm_servers m s = Some (conn, h) \<longrightarrow> mh_server_name h = Some s \<and> tied m h)
   \<and> (\<forall>ch. length (mm_channels m ch) \<le> NOTIFY_CHANNEL_CAPACITY \<and> (mm_next_channel m \<le> ch \<longrightarrow> mm_channels m ch = []))"

definition callable :: "callback_tables \<Rightarrow> 'c mcp_manager \<Rightarrow> bool" where
  "callable g m \<longleftrightarrow>
     (\<forall>n s. has_mark (mm_registry m) (notice_mark n) s \<longrightarrow> has_cb g (notice_table n) s)
   \<and> (\<forall>ch. \<forall>item \<in> set (mm_channels m ch). has_cb g (ni_cbs item) (ni_server item))"

text \<open>A change of the manager that keeps the channels, the Isles and the marks of every server.\<close>

lemma managed_prepare: "managed m \<Longrightarrow> managed (prepare_server name t m)"
  by (simp add: managed_def prepare_server_def tied_def)

lemma managed_reset: "managed m \<Longrightarrow> managed (reset_template m)"
  by (simp add: managed_def reset_template_def tied_def)

lemma managed_add:
  assumes "managed m" and "mh_server_name h = Some name" and "tied m h"
  shows "managed (add_server name conn h m)"
  using assms by (simp add: managed_def add_server_def tied_def)

lemma managed_connected:
  assumes "managed m"
  shows "managed (add_server name conn (connection_handler name m) (reset_template (prepare_server name t m)))"
proof (rule managed_add)
  show "managed (reset_template (prepare_server name t m))" using assms by (intro managed_reset managed_prepare)
  show "tied (reset_template (prepare_server name t m)) (connection_handler name m)"
    using assms by (simp add: managed_def tied_def connection_handler_def reset_template_def prepare_server_def)
qed (simp add: connection_handler_def)

lemma managed_restrict:
  assumes "managed m"
  shows "managed (m\<lparr>mm_servers := mm_servers m |` X\<rparr>)"
  using assms by (auto simp: managed_def tied_def restrict_map_def split: if_splits)

lemma managed_without: "managed m \<Longrightarrow> managed (m\<lparr>mm_servers := (mm_servers m)(name := None)\<rparr>)"
  by (auto simp: managed_def tied_def)

lemma managed_registry: "managed m \<Longrightarrow> managed (m\<lparr>mm_registry := r\<rparr>)"
  by (simp add: managed_def tied_def)

lemma managed_handler_isle: "managed m \<Longrightarrow> managed (set_handler_isle isle m)"
  by (simp add: managed_def tied_def set_handler_isle_def)

lemma tied_later: "tied m h \<Longrightarrow> mm_next_channel m' = Suc (mm_next_channel m) \<Longrightarrow> tied m' h"
  by (auto simp: tied_def less_Suc_eq)

lemma managed_main_isle:
  assumes "managed m"
  shows "managed (set_main_isle isle m)"
proof -
  let ?m' = "set_main_isle isle m"
  have next_ch: "mm_next_channel ?m' = Suc (mm_next_channel m)" by (simp add: set_main_isle_def start_dispatch_task_def)
  have "tied ?m' h" if "tied m h" for h using that next_ch by (rule tied_later)
  moreover have "tied ?m' (mm_handler ?m')"
    by (simp add: tied_def set_main_isle_def start_dispatch_task_def)
  ultimately show ?thesis
    using assms unfolding managed_def by (auto simp: set_main_isle_def start_dispatch_task_def)
qed

text \<open>The channel: a bounded queue that refuses rather than waits.\<close>

locale bounded_channel =
  fixes send :: "'i \<Rightarrow> 's \<Rightarrow> bool \<times> 's" and receive :: "'s \<Rightarrow> 'i option \<times> 's" and waiting :: "'s \<Rightarrow> 'i list" and cap :: nat
  assumes sending: "length (waiting s) < cap \<Longrightarrow> fst (send i s) \<and> waiting (snd (send i s)) = waiting s @ [i]"
    and full: "cap \<le> length (waiting s) \<Longrightarrow> send i s = (False, s)"
    and receiving: "waiting s = i # is \<Longrightarrow> fst (receive s) = Some i \<and> waiting (snd (receive s)) = is"
    and idle: "waiting s = [] \<Longrightarrow> receive s = (None, s)"
begin

lemma sent_iff_room: "fst (send i s) \<longleftrightarrow> length (waiting s) < cap"
  using sending [of s i] full [of s i] by (cases "length (waiting s) < cap") auto

lemma sent_at_the_end: "waiting (snd (send i s)) = waiting s @ (if fst (send i s) then [i] else [])"
  using sending [of s i] full [of s i] by (cases "length (waiting s) < cap") auto

lemma received_from_the_front: "waiting s = (case fst (receive s) of Some i \<Rightarrow> [i] | None \<Rightarrow> []) @ waiting (snd (receive s))"
  using receiving [of s] idle [of s] by (cases "waiting s") auto

lemma stays_bounded:
  assumes "length (waiting s) \<le> cap"
  shows "length (waiting (snd (send i s))) \<le> cap" "length (waiting (snd (receive s))) \<le> cap"
proof -
  show "length (waiting (snd (send i s))) \<le> cap" using assms sent_at_the_end [of i s] sent_iff_room [of i s] by auto
  show "length (waiting (snd (receive s))) \<le> cap"
    using assms arg_cong [OF received_from_the_front [of s], of length] by simp
qed

end

interpretation nc: bounded_channel "try_send ch" "next_notification ch" "\<lambda>m. mm_channels m ch" NOTIFY_CHANNEL_CAPACITY
  for ch
  by unfold_locales (simp_all add: try_send_def next_notification_def)

lemma send_only:
  "mm_servers (snd (try_send ch item m)) = mm_servers m" "mm_handler (snd (try_send ch item m)) = mm_handler m"
  "mm_registry (snd (try_send ch item m)) = mm_registry m" "mm_next_channel (snd (try_send ch item m)) = mm_next_channel m"
  "ch' \<noteq> ch \<Longrightarrow> mm_channels (snd (try_send ch item m)) ch' = mm_channels m ch'"
  by (simp_all add: try_send_def)

lemma next_only:
  "mm_servers (snd (next_notification ch m)) = mm_servers m" "mm_handler (snd (next_notification ch m)) = mm_handler m"
  "mm_registry (snd (next_notification ch m)) = mm_registry m"
  "mm_next_channel (snd (next_notification ch m)) = mm_next_channel m"
  "ch' \<noteq> ch \<Longrightarrow> mm_channels (snd (next_notification ch m)) ch' = mm_channels m ch'"
  by (simp_all add: next_notification_def split: list.splits)

lemma managed_channels:
  assumes m: "managed m"
    and same: "mm_servers m' = mm_servers m" "mm_handler m' = mm_handler m" "mm_next_channel m' = mm_next_channel m"
    and others: "\<And>ch'. ch' \<noteq> ch \<Longrightarrow> mm_channels m' ch' = mm_channels m ch'"
    and here: "length (mm_channels m' ch) \<le> NOTIFY_CHANNEL_CAPACITY" "mm_next_channel m \<le> ch \<Longrightarrow> mm_channels m' ch = []"
  shows "managed m'"
proof -
  have "tied m' h \<longleftrightarrow> tied m h" for h by (simp add: tied_def same)
  moreover have "length (mm_channels m' ch') \<le> NOTIFY_CHANNEL_CAPACITY \<and> (mm_next_channel m \<le> ch' \<longrightarrow> mm_channels m' ch' = [])" for ch'
    using m here others [of ch'] by (cases "ch' = ch") (simp_all add: managed_def)
  ultimately show ?thesis using m by (simp add: managed_def same)
qed

lemma managed_bound: "managed m \<Longrightarrow> length (mm_channels m ch) \<le> NOTIFY_CHANNEL_CAPACITY"
  by (simp add: managed_def)

lemma managed_send: "managed m \<Longrightarrow> ch < mm_next_channel m \<Longrightarrow> managed (snd (try_send ch item m))"
  by (rule managed_channels [where m = m and ch = ch]) (simp_all add: send_only nc.stays_bounded managed_bound)

lemma managed_next:
  assumes m: "managed m"
  shows "managed (snd (next_notification ch m))"
proof (rule managed_channels [OF m, where ch = ch])
  assume "mm_next_channel m \<le> ch"
  with m have "mm_channels m ch = []" by (simp add: managed_def)
  then show "mm_channels (snd (next_notification ch m)) ch = []" using nc.idle [of m ch] by simp
qed (simp_all add: next_only nc.stays_bounded managed_bound m)

section \<open>The invariant of a run\<close>

definition kept :: "mcp_lib \<Rightarrow> 'c client_run \<Rightarrow> bool" where
  "kept J c \<longleftrightarrow>
     (\<forall>ch. accepted_on ch c = dispatched_on ch c @ mm_channels (mb_manager (cr_bridge c)) ch)
   \<and> (\<forall>(ch, s, n, item) \<in> set (cr_accepted c).
        ni_server item = s \<and> ni_cbs item = notice_table n \<and> ni_ev item = ml_print J (notice_ev J n s))
   \<and> (\<forall>(ch, item, out) \<in> set (cr_dispatched c).
        \<exists>cb. out = and_then (json_decode J (ni_ev item)) (\<lambda>ev. Ok (Some (cb, ev))))"

lemma dispatch_calls:
  assumes "has_cb g (ni_cbs item) (ni_server item)"
  shows "\<exists>cb. dispatch_item J g item = and_then (json_decode J (ni_ev item)) (\<lambda>ev. Ok (Some (cb, ev)))"
  using assms by (auto simp: has_cb_def dispatch_item_def dispatch_notify_def split: option.splits)

definition sound_run :: "mcp_lib \<Rightarrow> 'c client_run \<Rightarrow> bool" where
  "sound_run J c \<longleftrightarrow>
     managed (mb_manager (cr_bridge c)) \<and> callable (mb_main (cr_bridge c)) (mb_manager (cr_bridge c)) \<and> kept J c"

lemma kept_cong:
  "mm_channels (mb_manager b) = mm_channels (mb_manager (cr_bridge c)) \<Longrightarrow> kept J c \<Longrightarrow>
     kept J (c\<lparr>cr_bridge := b, cr_attempts := as\<rparr>) \<and> kept J (c\<lparr>cr_bridge := b\<rparr>)"
  by (simp add: kept_def accepted_on_def dispatched_on_def)

lemma sound_start: "sound_run J (client_start t)"
  by (simp add: sound_run_def client_start_def managed_def tied_def manager_with_def new_handler_def callable_def kept_def accepted_on_def dispatched_on_def has_mark_def)

text \<open>Most steps leave the channels and the marks as they are.\<close>

definition gentle :: "'c mcp_manager \<Rightarrow> 'c mcp_manager \<Rightarrow> bool" where
  "gentle m m' \<longleftrightarrow>
     (managed m \<longrightarrow> managed m' \<and> mm_channels m' = mm_channels m
        \<and> (\<forall>n s. has_mark (mm_registry m') (notice_mark n) s = has_mark (mm_registry m) (notice_mark n) s))"

lemma gentle_refl: "gentle m m"
  by (simp add: gentle_def)

lemma gentle_prepared: "gentle m (reset_template (prepare_server name t m))"
  using managed_prepare [of m name t] managed_reset [of "prepare_server name t m"] prepare_marks(1) [of name t m]
  by (simp add: gentle_def reset_template_def) (simp add: prepare_server_def)

lemma gentle_connected: "gentle m (add_server name conn (connection_handler name m) (reset_template (prepare_server name t m)))"
  using managed_connected [of m name conn t] prepare_marks(1) [of name t m]
  by (simp add: gentle_def reset_template_def add_server_def) (simp add: prepare_server_def)

lemma gentle_connect:
  assumes "lua_connect J B R cwd name command args opts (b, w) = (r, b', w')"
  shows "mb_main b' = mb_main b \<and> gentle (mb_manager b) (mb_manager b')"
proof -
  consider "b' = b"
    | argv t d env r' m' where "client_connect R name command argv t d env (mb_manager b, w) = (r', m', w')"
        and "b' = b\<lparr>mb_manager := m'\<rparr>"
    using assms by (fastforce simp: lua_connect_def Let_def split: sum.splits prod.splits)
  then show ?thesis
  proof cases
    case 2
    show ?thesis
      using connect_manager [OF 2(1)] by (elim disjE exE) (simp_all add: 2(2) gentle_refl gentle_prepared gentle_connected)
  qed (simp add: gentle_refl)
qed

lemma gentle_connect_http:
  assumes "lua_connect_http J lib R name url opts (b, w) = (r, b', w')"
  shows "mb_main b' = mb_main b \<and> gentle (mb_manager b) (mb_manager b')"
proof -
  obtain oj r' m' where c: "client_connect_http R lib name url oj (mb_manager b, w) = (r', m', w')" and b': "b' = b\<lparr>mb_manager := m'\<rparr>"
    using assms by (auto simp: lua_connect_http_def Let_def split: prod.splits)
  show ?thesis
    using connect_http_manager [OF c] by (elim exE conjE disjE) (simp_all add: b' gentle_prepared gentle_connected)
qed

lemma gentle_disconnect:
  assumes "lua_disconnect R name (b, w) = (r, b', w')"
  shows "mb_main b' = mb_main b \<and> gentle (mb_manager b) (mb_manager b')"
proof -
  obtain r' m' where c: "client_disconnect R name (mb_manager b, w) = (r', m', w')" and b': "b' = b\<lparr>mb_manager := m'\<rparr>"
    using assms by (auto simp: lua_disconnect_def split: prod.splits)
  show ?thesis by (simp add: b' disconnect_manager [OF c] gentle_def managed_without)
qed

lemma gentle_disconnect_all:
  assumes "disconnect_all R key_order (m, w) = (r, m', w')"
  shows "gentle m m'"
  by (simp add: disconnect_all_manager [OF assms] gentle_def managed_restrict)

lemma gentle_handler_isle: "gentle m (set_handler_isle isle m)"
  using managed_handler_isle [of m isle] by (simp add: gentle_def) (simp add: set_handler_isle_def)

lemma gentle_main_isle: "gentle m (set_main_isle isle m)"
proof -
  have "(mm_channels m)(mm_next_channel m := []) = mm_channels m" if "managed m"
    using that by (intro fun_upd_idem) (simp add: managed_def)
  then show ?thesis
    using managed_main_isle [of m isle] by (simp add: gentle_def) (simp add: set_main_isle_def start_dispatch_task_def)
qed

lemma sound_gentle:
  assumes "sound_run J c" and "mb_main b = mb_main (cr_bridge c)" and "gentle (mb_manager (cr_bridge c)) (mb_manager b)"
  shows "sound_run J (c\<lparr>cr_bridge := b, cr_attempts := as\<rparr>)" "sound_run J (c\<lparr>cr_bridge := b\<rparr>)"
proof -
  have m: "managed (mb_manager b)" "mm_channels (mb_manager b) = mm_channels (mb_manager (cr_bridge c))"
      "\<And>n s. has_mark (mm_registry (mb_manager b)) (notice_mark n) s = has_mark (mm_registry (mb_manager (cr_bridge c))) (notice_mark n) s"
    using assms(1,3) by (simp_all add: sound_run_def gentle_def)
  then have "callable (mb_main b) (mb_manager b)" using assms(1,2) by (simp add: sound_run_def callable_def)
  with m assms(1) kept_cong [OF m(2)] show
      "sound_run J (c\<lparr>cr_bridge := b, cr_attempts := as\<rparr>)" "sound_run J (c\<lparr>cr_bridge := b\<rparr>)"
    by (simp_all add: sound_run_def)
qed

lemma has_cb_grows: "has_cb g t s \<Longrightarrow> g t0 = Some tb \<Longrightarrow> has_cb (g(t0 \<mapsto> tb(name \<mapsto> f))) t s"
  by (auto simp: has_cb_def)

text \<open>A registration: the tables grow, and what a mark adds has its callback.\<close>

lemma sound_registered:
  assumes c: "sound_run J c"
    and b: "mb_manager b = (mb_manager (cr_bridge c))\<lparr>mm_registry := r\<rparr>"
    and grows: "\<And>t s. has_cb (mb_main (cr_bridge c)) t s \<Longrightarrow> has_cb (mb_main b) t s"
    and marks: "\<And>n s. has_mark r (notice_mark n) s \<Longrightarrow>
        has_mark (mm_registry (mb_manager (cr_bridge c))) (notice_mark n) s \<or> has_cb (mb_main b) (notice_table n) s"
  shows "sound_run J (c\<lparr>cr_bridge := b\<rparr>)"
proof -
  have "callable (mb_main (cr_bridge c)) (mb_manager (cr_bridge c))" using c by (simp add: sound_run_def)
  then have "callable (mb_main b) (mb_manager b)" using grows marks by (simp add: callable_def b) blast
  moreover have "managed (mb_manager b)" using c by (simp add: sound_run_def b managed_registry)
  moreover have "kept J (c\<lparr>cr_bridge := b\<rparr>)"
  proof (rule conjunct2 [OF kept_cong])
    show "mm_channels (mb_manager b) = mm_channels (mb_manager (cr_bridge c))" by (simp add: b)
    show "kept J c" using c by (simp add: sound_run_def)
  qed
  ultimately show ?thesis by (simp add: sound_run_def)
qed

lemma sound_set_callback:
  assumes c: "sound_run J c" and set_cb: "set_cb \<in> set (callback_setters B)" "set_cb name f (cr_bridge c) = (r, b)"
  shows "sound_run J (c\<lparr>cr_bridge := b\<rparr>)"
  using set_cb
proof (rule set_callback_effect)
  assume "b = cr_bridge c"
  with c show ?thesis by simp
next
  fix t tb mark
  let ?m = "mb_manager (cr_bridge c)" and ?g = "mb_main (cr_bridge c)"
  assume mark: "marks_for t mark" and tb: "?g t = Some tb"
    and b: "b = (cr_bridge c)\<lparr>mb_main := ?g(t \<mapsto> tb(name \<mapsto> f)), mb_manager := ?m\<lparr>mm_registry := mark name (mm_registry ?m)\<rparr>\<rparr>"
  show ?thesis
  proof (rule sound_registered [OF c])
    show "mb_manager b = ?m\<lparr>mm_registry := mark name (mm_registry ?m)\<rparr>" by (simp add: b)
    show "has_cb (mb_main b) t' s" if "has_cb ?g t' s" for t' s using has_cb_grows [OF that tb] by (simp add: b)
    show "has_mark (mm_registry ?m) (notice_mark n) s \<or> has_cb (mb_main b) (notice_table n) s"
      if "has_mark (mark name (mm_registry ?m)) (notice_mark n) s" for n s
      using that mark by (auto simp: b marks_for_def has_cb_def)
  qed
qed

lemma sound_set_handler:
  assumes c: "sound_run J c" and set_h: "set_h \<in> set (handler_setters B)" "set_h name func (cr_bridge c) = (r, b)"
  shows "sound_run J (c\<lparr>cr_bridge := b\<rparr>)"
  using set_h
proof (rule set_handler_effect)
  assume "b = cr_bridge c"
  with c show ?thesis by simp
next
  fix t tb f mark
  let ?m = "mb_manager (cr_bridge c)"
  assume mark: "\<And>t. marks_for t mark"
    and b: "b = (cr_bridge c)\<lparr>mb_handlers := (mb_handlers (cr_bridge c))(t \<mapsto> tb(name \<mapsto> f)),
              mb_manager := ?m\<lparr>mm_registry := mark name (mm_registry ?m)\<rparr>\<rparr>"
  show ?thesis
  proof (rule sound_registered [OF c])
    show "mb_manager b = ?m\<lparr>mm_registry := mark name (mm_registry ?m)\<rparr>" by (simp add: b)
    show "has_cb (mb_main b) t' s" if "has_cb (mb_main (cr_bridge c)) t' s" for t' s using that by (simp add: b)
    show "has_mark (mm_registry ?m) (notice_mark n) s \<or> has_cb (mb_main b) (notice_table n) s"
      if m: "has_mark (mark name (mm_registry ?m)) (notice_mark n) s" for n s
    proof -
      obtain t0 where "notice_table n \<noteq> t0" using list.distinct(1) by blast
      with m mark [of t0] show ?thesis by (auto simp: marks_for_def)
    qed
  qed
qed

lemma sound_notice:
  assumes c: "sound_run J c" and conn: "mm_servers (mb_manager (cr_bridge c)) s = Some (conn, h)"
  shows "sound_run J (take_notice J s h n c)"
proof (cases "notify J h (mm_registry (mb_manager (cr_bridge c))) n")
  case (To_Channel ch item)
  let ?m = "mb_manager (cr_bridge c)" and ?g = "mb_main (cr_bridge c)"
  obtain sent m' where send: "try_send ch item ?m = (sent, m')" by force
  have m: "managed ?m" and calls: "callable ?g ?m" and k: "kept J c" using c by (simp_all add: sound_run_def)
  from m conn have h: "mh_server_name h = Some s" "tied ?m h" by (auto simp: managed_def)
  from notify_to_channel [OF To_Channel] h
  have tx: "mh_notify_tx h = Some ch" and item: "ni_server item = s" "ni_cbs item = notice_table n"
      "ni_ev item = ml_print J (notice_ev J n s)" "has_mark (mm_registry ?m) (notice_mark n) s" by auto
  have old: "mm_channels m' ch' = mm_channels ?m ch' @ (if ch' = ch \<and> sent then [item] else [])" for ch'
    using nc.sent_at_the_end [of ch item ?m] send_only(5) [of ch' ch item ?m] send by (cases "ch' = ch") auto
  have "ch < mm_next_channel ?m" using h(2) tx by (simp add: tied_def)
  from managed_send [OF m this, of item] have "managed m'" by (simp add: send)
  moreover have "callable ?g m'"
  proof -
    have "has_cb ?g (ni_cbs i) (ni_server i)" if "i \<in> set (mm_channels m' ch')" for i ch'
      using that calls item by (auto simp: old callable_def split: if_splits)
    then show ?thesis using calls send_only(3) [of ch item ?m] by (simp add: callable_def send)
  qed
  moreover have "kept J (take_notice J s h n c)"
    using k item by (simp add: take_notice_def To_Channel send kept_def accepted_on_def dispatched_on_def old)
  ultimately show ?thesis by (simp add: sound_run_def take_notice_def To_Channel send)
qed (simp_all add: take_notice_def c)

lemma sound_dispatch:
  assumes c: "sound_run J c"
  shows "sound_run J (dispatch_next J ch c)"
proof -
  let ?m = "mb_manager (cr_bridge c)" and ?g = "mb_main (cr_bridge c)"
  obtain got m' where receive: "next_notification ch ?m = (got, m')" by force
  have m: "managed ?m" and calls: "callable ?g ?m" and k: "kept J c" using c by (simp_all add: sound_run_def)
  show ?thesis
  proof (cases got)
    case None
    with c receive show ?thesis by (simp add: dispatch_next_def)
  next
    case (Some item)
    have this_ch: "mm_channels ?m ch = item # mm_channels m' ch"
      using nc.received_from_the_front [of ?m ch] by (simp add: receive Some)
    have queue: "mm_channels ?m ch' = (if ch' = ch then [item] else []) @ mm_channels m' ch'" for ch'
      using this_ch next_only(5) [of ch' ch ?m] receive by (cases "ch' = ch") auto
    have "managed m'" using managed_next [OF m, of ch] by (simp add: receive)
    moreover have "callable ?g m'"
      using calls next_only(3) [of ch ?m] by (auto simp: callable_def receive queue)
    moreover have called: "has_cb ?g (ni_cbs item) (ni_server item)" using calls by (auto simp: callable_def queue)
    have "kept J (dispatch_next J ch c)"
      using k dispatch_calls [OF called, of J] by (auto simp: dispatch_next_def receive Some kept_def accepted_on_def dispatched_on_def queue)
    ultimately show ?thesis by (simp add: sound_run_def dispatch_next_def receive Some)
  qed
qed

lemma step_sound:
  assumes "client_step J B lib R st st'" and "sound_run J (fst st)"
  shows "sound_run J (fst st')"
  using assms
proof (induction rule: client_step.induct)
  case (Connect cwd name command args opts c w r b w')
  show ?case using gentle_connect [OF Connect(1)] Connect(2) by (simp add: sound_gentle)
next
  case (Connect_Http name url opts c w r b w')
  show ?case using gentle_connect_http [OF Connect_Http(1)] Connect_Http(2) by (simp add: sound_gentle)
next
  case (Disconnect name c w r b w')
  show ?case using gentle_disconnect [OF Disconnect(1)] Disconnect(2) by (simp add: sound_gentle)
next
  case (Disconnect_All key_order c w r m w')
  show ?case using gentle_disconnect_all [OF Disconnect_All(1)] Disconnect_All(2) by (simp add: with_manager_def sound_gentle)
next
  case (Set_Callback set_cb name f c r b w)
  then show ?case by (simp add: sound_set_callback)
next
  case (Set_Handler set_h name func c r b w)
  then show ?case by (simp add: sound_set_handler)
next
  case (Notified c s conn h w n)
  then show ?case by (simp add: sound_notice)
qed (simp_all add: with_manager_def sound_gentle gentle_handler_isle gentle_main_isle sound_dispatch)

lemma reached_sound: "client_reaches J B lib R t st \<Longrightarrow> sound_run J (fst st)"
proof (induction rule: client_reaches.induct)
  case (Start w)
  show ?case using sound_start by simp
next
  case (Step st st')
  then show ?case by (simp add: step_sound)
qed


lemma queued_when_room:
  assumes c: "sound_run J c" and conn: "mm_servers (mb_manager (cr_bridge c)) s = Some (conn, h)"
    and isle: "mh_main_isle h = Some isle" and mark: "has_mark (mm_registry (mb_manager (cr_bridge c))) (notice_mark n) s"
  shows "\<exists>ch. mh_notify_tx h = Some ch \<and>
    (cr_accepted (take_notice J s h n c) \<noteq> cr_accepted c \<longleftrightarrow>
       length (mm_channels (mb_manager (cr_bridge c)) ch) < NOTIFY_CHANNEL_CAPACITY)"
proof -
  let ?m = "mb_manager (cr_bridge c)"
  have h: "mh_server_name h = Some s" "tied ?m h" using c conn by (auto simp: sound_run_def managed_def)
  then obtain ch where tx: "mh_notify_tx h = Some ch" using isle by (auto simp: tied_def)
  have "\<exists>item. notify J h (mm_registry ?m) n = To_Channel ch item"
    using h(1) isle mark tx
    by (cases n)
       (simp_all add: on_progress_def on_logging_message_def on_resource_updated_def on_resource_list_changed_def
          on_tool_list_changed_def on_prompt_list_changed_def route_notification_def hand_over_def Let_def)
  then obtain item where item: "notify J h (mm_registry ?m) n = To_Channel ch item" ..
  obtain sent m' where send: "try_send ch item ?m = (sent, m')" by force
  have "sent \<longleftrightarrow> length (mm_channels ?m ch) < NOTIFY_CHANNEL_CAPACITY"
    using nc.sent_iff_room [of ch item ?m] by (simp add: send)
  with tx show ?thesis by (simp add: take_notice_def item send)
qed

text \<open>
  C31: However servers emit, scripts register and the dispatch task runs, at most 128 notifications wait on a
  channel; what is dispatched from it is what it accepted, in that order and without loss; each was routed for
  the server it came from; each dispatch calls a callback with the decoded event; and a notification that has
  a callback is turned away only when its channel is full.
\<close>

theorem notifications_bounded_in_order:
  assumes reached: "client_reaches J B lib R t (c, w)"
  shows "length (mm_channels (mb_manager (cr_bridge c)) ch) \<le> NOTIFY_CHANNEL_CAPACITY
    \<and> accepted_on ch c = dispatched_on ch c @ mm_channels (mb_manager (cr_bridge c)) ch
    \<and> (\<forall>(ch, s, n, item) \<in> set (cr_accepted c).
         ni_server item = s \<and> ni_cbs item = notice_table n \<and> ni_ev item = ml_print J (notice_ev J n s))
    \<and> (\<forall>(ch, item, out) \<in> set (cr_dispatched c).
         \<exists>cb. out = and_then (json_decode J (ni_ev item)) (\<lambda>ev. Ok (Some (cb, ev))))
    \<and> (\<forall>s conn h n.
         mm_servers (mb_manager (cr_bridge c)) s = Some (conn, h) \<and> mh_main_isle h \<noteq> None
           \<and> has_mark (mm_registry (mb_manager (cr_bridge c))) (notice_mark n) s \<longrightarrow>
         (\<exists>ch. mh_notify_tx h = Some ch
            \<and> (cr_accepted (take_notice J s h n c) \<noteq> cr_accepted c \<longleftrightarrow>
                 length (mm_channels (mb_manager (cr_bridge c)) ch) < NOTIFY_CHANNEL_CAPACITY)))"
proof -
  from reached_sound [OF reached] have c: "sound_run J c" by simp
  then have k: "kept J c" by (simp add: sound_run_def)
  show ?thesis
  proof (intro conjI)
    show "length (mm_channels (mb_manager (cr_bridge c)) ch) \<le> NOTIFY_CHANNEL_CAPACITY"
      using c by (simp add: sound_run_def managed_bound)
    show "\<forall>s conn h n.
         mm_servers (mb_manager (cr_bridge c)) s = Some (conn, h) \<and> mh_main_isle h \<noteq> None
           \<and> has_mark (mm_registry (mb_manager (cr_bridge c))) (notice_mark n) s \<longrightarrow>
         (\<exists>ch. mh_notify_tx h = Some ch
            \<and> (cr_accepted (take_notice J s h n c) \<noteq> cr_accepted c \<longleftrightarrow>
                 length (mm_channels (mb_manager (cr_bridge c)) ch) < NOTIFY_CHANNEL_CAPACITY))"
      using queued_when_room [OF c] by blast
  qed (use k in \<open>simp_all add: kept_def\<close>)
qed

section \<open>Who is told the agent's identity\<close>

definition flagged :: "'c client_run \<Rightarrow> bool" where
  "flagged c \<longleftrightarrow>
     (\<forall>s. trace_context_enabled (mm_registry (mb_manager (cr_bridge c))) s \<longleftrightarrow> map_of (rev (cr_attempts c)) s = Some True)"

lemma prepared_trace:
  "trace_context_enabled (mm_registry (reset_template (prepare_server name t m))) s =
     (if s = name then t else trace_context_enabled (mm_registry m) s)"
  "trace_context_enabled (mm_registry (add_server name' conn h (reset_template (prepare_server name t m)))) s =
     (if s = name then t else trace_context_enabled (mm_registry m) s)"
  using prepare_marks(2) [of name t m s] by (simp_all add: reset_template_def add_server_def)

lemma connect_flag:
  assumes "lua_connect J B R cwd name command args opts (b, w) = (r, b', w')"
  shows "trace_context_enabled (mm_registry (mb_manager b')) s =
    (case handshake_flag J B R cwd command args opts w of
       Some t \<Rightarrow> if s = name then t else trace_context_enabled (mm_registry (mb_manager b)) s
     | None \<Rightarrow> trace_context_enabled (mm_registry (mb_manager b)) s)"
  using assms
  by (auto simp: lua_connect_def handshake_flag_def client_connect_def Let_def prepared_trace
      split: sum.splits prod.splits round_trip.splits option.splits)

lemma connect_http_flag:
  assumes "lua_connect_http J lib R name url opts (b, w) = (r, b', w')"
  shows "trace_context_enabled (mm_registry (mb_manager b')) s =
    (if s = name then http_flag J opts else trace_context_enabled (mm_registry (mb_manager b)) s)"
proof -
  define oj where "oj = (case opts of Some v \<Rightarrow> (case lua_to_json (ml_vm J) v of Ok j \<Rightarrow> j | Err _ \<Rightarrow> JObject []) | None \<Rightarrow> JObject [])"
  have flag: "http_flag J opts = (case Option.bind (json_get oj ''trace_context'') as_bool of Some b \<Rightarrow> b | None \<Rightarrow> False)"
    by (simp add: http_flag_def oj_def json_get_def split: option.splits sum.splits)
  obtain r' m' where c: "client_connect_http R lib name url oj (mb_manager b, w) = (r', m', w')" and b': "b' = b\<lparr>mb_manager := m'\<rparr>"
    using assms unfolding lua_connect_http_def oj_def by (auto simp: Let_def split: prod.splits)
  show ?thesis
    using connect_http_manager [OF c] unfolding flag by (elim exE conjE disjE) (simp_all add: b' prepared_trace)
qed

lemma flagged_same:
  assumes "flagged c" and "\<And>s. trace_context_enabled (mm_registry (mb_manager b)) s
      = trace_context_enabled (mm_registry (mb_manager (cr_bridge c))) s"
  shows "flagged (c\<lparr>cr_bridge := b\<rparr>)"
  using assms by (simp add: flagged_def)

lemma step_flagged:
  assumes "client_step J B lib R st st'" and "flagged (fst st)"
  shows "flagged (fst st')"
  using assms
proof (induction rule: client_step.induct)
  case (Connect cwd name command args opts c w r b w')
  show ?case
    using connect_flag [OF Connect(1)] Connect(2) by (auto simp: flagged_def split: option.splits)
next
  case (Connect_Http name url opts c w r b w')
  show ?case using connect_http_flag [OF Connect_Http(1)] Connect_Http(2) by (auto simp: flagged_def)
next
  case (Disconnect name c w r b w')
  then have "mm_registry (mb_manager b) = mm_registry (mb_manager (cr_bridge c))"
    by (auto simp: lua_disconnect_def client_disconnect_def Let_def split: prod.splits option.splits round_trip.splits)
  with Disconnect(2) show ?case by (simp add: flagged_same)
next
  case (Disconnect_All key_order c w r m w')
  show ?case
    using disconnect_all_manager [OF Disconnect_All(1)] Disconnect_All(2) by (simp add: flagged_same with_manager_def)
next
  case (Set_Callback set_cb name f c r b w)
  have "trace_context_enabled (mm_registry (mb_manager b)) s = trace_context_enabled (mm_registry (mb_manager (cr_bridge c))) s" for s
    using Set_Callback(1,2) by (rule set_callback_effect) (simp_all add: marks_for_def)
  with Set_Callback(3) show ?case by (simp add: flagged_same)
next
  case (Set_Handler set_h name func c r b w)
  have "trace_context_enabled (mm_registry (mb_manager b)) s = trace_context_enabled (mm_registry (mb_manager (cr_bridge c))) s" for s
    using Set_Handler(1,2) by (rule set_handler_effect) (simp_all add: marks_for_def)
  with Set_Handler(3) show ?case by (simp add: flagged_same)
next
  case (Notified c s conn h w n)
  have "mm_registry (mb_manager (cr_bridge (take_notice J s h n c))) = mm_registry (mb_manager (cr_bridge c))
      \<and> cr_attempts (take_notice J s h n c) = cr_attempts c"
    by (simp add: take_notice_def try_send_def split: notice_route.splits)
  with Notified(2) show ?case by (simp add: flagged_def)
next
  case (Dispatched c w ch)
  have "mm_registry (mb_manager (cr_bridge (dispatch_next J ch c))) = mm_registry (mb_manager (cr_bridge c))
      \<and> cr_attempts (dispatch_next J ch c) = cr_attempts c"
    by (simp add: dispatch_next_def next_notification_def split: list.splits)
  with Dispatched show ?case by (simp add: flagged_def)
qed (simp_all add: flagged_same with_manager_def set_handler_isle_def set_main_isle_def start_dispatch_task_def)

lemma reached_flagged: "client_reaches J B lib R t st \<Longrightarrow> flagged (fst st)"
proof (induction rule: client_reaches.induct)
  case (Start w)
  show ?case by (simp add: flagged_def client_start_def manager_with_def trace_context_enabled_def)
next
  case (Step st st')
  then show ?case by (simp add: step_flagged)
qed

text \<open>What the injection may add, and to what.\<close>

lemma insert_obs_only:
  "k \<noteq> ''__ab_obs'' \<Longrightarrow> map_get (insert_obs env fb m) k = map_get m k"
  "map_get m ''__ab_obs'' \<noteq> None \<Longrightarrow> insert_obs env fb m = m"
  by (simp_all add: insert_obs_def Let_def)

lemma inject_only:
  "k \<noteq> ''__ab_obs'' \<Longrightarrow> json_get (inject_obs_context env fb a) k = json_get a k"
  "json_get a ''__ab_obs'' \<noteq> None \<Longrightarrow> inject_obs_context env fb a = a"
  using insert_obs_only(1) [of k env fb "[]"]
  by (cases a; simp add: json_get_def insert_obs_only Let_def)+

text \<open>
  C32: \<open>mcp.call\<close> passes a tool the caller's own arguments unless the last connection attempt under the
  server's name asked for the trace context; then it may add the one field \<open>__ab_obs\<close>, and never over one
  the caller gave.
\<close>

theorem identity_is_asked_for:
  assumes reached: "client_reaches J B lib R t (c, w)" and args: "json_or_null J arguments = Ok a"
  shows "\<exists>a'. lua_call J R fallback (mb_manager (cr_bridge c)) s tool arguments w' =
        reply_with (call_fields J) (client_call_tool R (mb_manager (cr_bridge c)) s tool a' w')
    \<and> (map_of (rev (cr_attempts c)) s \<noteq> Some True \<longrightarrow> a' = a)
    \<and> (\<forall>k. k \<noteq> ''__ab_obs'' \<longrightarrow> json_get a' k = json_get a k)
    \<and> (json_get a ''__ab_obs'' \<noteq> None \<longrightarrow> a' = a)"
proof -
  have flag: "trace_context_enabled (mm_registry (mb_manager (cr_bridge c))) s \<longleftrightarrow> map_of (rev (cr_attempts c)) s = Some True"
    using reached_flagged [OF reached] by (simp add: flagged_def)
  define a' where "a' = (if map_of (rev (cr_attempts c)) s = Some True then inject_obs_context (ro_env R w') fallback a else a)"
  have "lua_call J R fallback (mb_manager (cr_bridge c)) s tool arguments w' =
      reply_with (call_fields J) (client_call_tool R (mb_manager (cr_bridge c)) s tool a' w')"
    unfolding lua_call_def args Let_def flag a'_def by simp
  moreover have "map_of (rev (cr_attempts c)) s \<noteq> Some True \<longrightarrow> a' = a" by (simp add: a'_def)
  moreover have "\<forall>k. k \<noteq> ''__ab_obs'' \<longrightarrow> json_get a' k = json_get a k" by (simp add: a'_def inject_only(1))
  moreover have "json_get a ''__ab_obs'' \<noteq> None \<longrightarrow> a' = a" by (simp add: a'_def inject_only(2))
  ultimately show ?thesis by (intro exI [of _ a'] conjI)
qed

section \<open>A run\<close>

definition demo_mcp_lib :: mcp_lib where
  "demo_mcp_lib =
     \<lparr>ml_print = (\<lambda>_. ''{}''), ml_parse = (\<lambda>_. Ok JNull),
      ml_vm = \<lparr>vm_border = (\<lambda>_. 0), vm_visit = id, vm_show = (\<lambda>_. ''0'')\<rparr>\<rparr>"

definition demo_bridge_lib :: bridge_lib where
  "demo_bridge_lib =
     \<lparr>bl_text = (\<lambda>_. Err NotUtf8), bl_no_table = NotUtf8, bl_load = (\<lambda>_. Ok 1), bl_isle_no_table = []\<rparr>"

definition demo_url_lib :: obs_lib where
  "demo_url_lib = \<lparr>ol_stripped = Some, ol_quote = id\<rparr>"

text \<open>The world is how the handshakes to come end.\<close>

definition demo_rmcp :: "(nat, nat round_trip list) rmcp_ops" where
  "demo_rmcp =
     \<lparr>ro_env = (\<lambda>_. Map.empty), ro_spawn = (\<lambda>_ _ _ _ w. (Ok 0, w)), ro_open_http = (\<lambda>_ _ w. (0, w)),
      ro_serve = (\<lambda>_ _ _ w. case w of [] \<Rightarrow> (Rt_Expired, []) | r # rs \<Rightarrow> (r, rs)),
      ro_request = (\<lambda>_ _ _ w. (Rt_Answered (Ok JNull), w)), ro_ping = (\<lambda>_ _ w. (Rt_Expired, 0, w)),
      ro_cancel = (\<lambda>_ _ w. (Rt_Answered (), w)), ro_notify = (\<lambda>_ _ w. w), ro_peer_info = (\<lambda>_ _. None),
      ro_debug = (\<lambda>_. ''30s'')\<rparr>"

definition demo_wired :: "nat client_run" where
  "demo_wired = (let c = client_start 30 in c\<lparr>cr_bridge := with_manager (set_main_isle 5) (cr_bridge c)\<rparr>)"

definition demo_connected :: "nat client_run" where
  "demo_connected =
     demo_wired\<lparr>cr_bridge := fst (snd (lua_connect demo_mcp_lib demo_bridge_lib demo_rmcp [] ''s'' ''x'' None None
                  (cr_bridge demo_wired, [Rt_Answered 7]))),
       cr_attempts := [(''s'', False)]\<rparr>"

definition demo_marked :: "nat client_run" where
  "demo_marked =
     demo_connected\<lparr>cr_bridge := snd (lua_on_tools_list_changed demo_bridge_lib ''s'' 9 (cr_bridge demo_connected))\<rparr>"

definition demo_noticed :: "nat client_run" where
  "demo_noticed =
     take_notice demo_mcp_lib ''s'' (connection_handler ''s'' (mb_manager (cr_bridge demo_wired))) Tools_Listed_Anew demo_marked"

lemma demo_handshake:
  "lua_connect demo_mcp_lib demo_bridge_lib demo_rmcp [] ''s'' ''x'' None None (cr_bridge demo_wired, [Rt_Answered 7]) =
     (Ok (), cr_bridge demo_connected, [])"
  "handshake_flag demo_mcp_lib demo_bridge_lib demo_rmcp [] ''x'' None None [Rt_Answered 7] = Some False"
  by (simp_all add: demo_connected_def lua_connect_def connect_argv_def connect_opts_def client_connect_def demo_rmcp_def
      handshake_flag_def map_err_def)

lemma demo_manager:
  "mm_servers (mb_manager (cr_bridge demo_connected)) ''s'' = Some (7, connection_handler ''s'' (mb_manager (cr_bridge demo_wired)))"
  "cr_attempts demo_connected = [(''s'', False)]"
  by (simp_all add: demo_connected_def lua_connect_def connect_argv_def connect_opts_def client_connect_def demo_rmcp_def
      add_server_def Let_def)

lemma demo_connected_reached: "client_reaches demo_mcp_lib demo_bridge_lib demo_url_lib demo_rmcp 30 (demo_connected, [])"
proof -
  have "client_reaches demo_mcp_lib demo_bridge_lib demo_url_lib demo_rmcp 30 (demo_wired, [Rt_Answered 7])"
    unfolding demo_wired_def Let_def by (rule client_reaches.Step [OF Start Wire_Main_Isle])
  moreover have "client_step demo_mcp_lib demo_bridge_lib demo_url_lib demo_rmcp (demo_wired, [Rt_Answered 7]) (demo_connected, [])"
    using Connect [OF demo_handshake(1), where lib = demo_url_lib] by (simp add: demo_handshake(2) demo_connected_def demo_wired_def client_start_def)
  ultimately show ?thesis by (rule client_reaches.Step)
qed

lemma demo_dispatched_reached:
  "client_reaches demo_mcp_lib demo_bridge_lib demo_url_lib demo_rmcp 30 (dispatch_next demo_mcp_lib 0 demo_noticed, [])"
proof -
  have set_cb: "lua_on_tools_list_changed demo_bridge_lib \<in> set (callback_setters demo_bridge_lib)"
    by (simp add: callback_setters_def)
  have "client_step demo_mcp_lib demo_bridge_lib demo_url_lib demo_rmcp (demo_connected, []) (demo_marked, [])"
    unfolding demo_marked_def by (rule Set_Callback [OF set_cb prod.collapse [symmetric]])
  with demo_connected_reached have "client_reaches demo_mcp_lib demo_bridge_lib demo_url_lib demo_rmcp 30 (demo_marked, [])"
    by (rule client_reaches.Step)
  moreover have "mm_servers (mb_manager (cr_bridge demo_marked)) ''s'' = Some (7, connection_handler ''s'' (mb_manager (cr_bridge demo_wired)))"
    using demo_manager(1) by (simp add: demo_marked_def lua_on_tools_list_changed_def store_callback_def split: option.splits)
  ultimately have "client_reaches demo_mcp_lib demo_bridge_lib demo_url_lib demo_rmcp 30 (demo_noticed, [])"
    unfolding demo_noticed_def by (blast intro: client_reaches.Step Notified)
  then show ?thesis by (rule client_reaches.Step [OF _ Dispatched])
qed

lemma demo_call_made:
  "cr_dispatched (dispatch_next demo_mcp_lib 0 demo_noticed) =
     [(0, \<lparr>ni_isle = 5, ni_server = ''s'', ni_cbs = MCP_USER_TOOLS_LIST_CHANGED_CBS, ni_ev = ''{}'',
           ni_caller = ''on_tool_list_changed''\<rparr>, Ok (Some (9, LNull)))]"
proof -
  have decoded: "json_to_lua (ml_vm demo_mcp_lib) JNull = Ok LNull"
    by (simp add: json_to_lua_def json_to_lua_inner.simps max_depth_def)
  let ?h = "connection_handler ''s'' (mb_manager (cr_bridge demo_wired))"
  have h: "mh_main_isle ?h = Some 5" "mh_server_name ?h = Some ''s''" "mh_notify_tx ?h = Some 0"
    by (simp_all add: connection_handler_def demo_wired_def client_start_def with_manager_def set_main_isle_def
        start_dispatch_task_def manager_with_def Let_def)
  have b: "mm_channels (mb_manager (cr_bridge demo_connected)) 0 = []"
      "mb_main (cr_bridge demo_connected) MCP_USER_TOOLS_LIST_CHANGED_CBS = Some Map.empty"
      "cr_dispatched demo_connected = []" "cr_accepted demo_connected = []"
    by (simp_all add: demo_connected_def lua_connect_def connect_argv_def connect_opts_def client_connect_def demo_rmcp_def
        add_server_def Let_def reset_template_def prepare_server_def demo_wired_def client_start_def with_manager_def
        set_main_isle_def start_dispatch_task_def manager_with_def register_tables_def ensure_table_def table_names)
  show ?thesis
    by (simp add: dispatch_next_def next_notification_def demo_noticed_def take_notice_def on_tool_list_changed_def
        route_notification_def h has_mark_def demo_marked_def lua_on_tools_list_changed_def store_callback_def b
        mark_on_tool_list_changed_def hand_over_def try_send_def NOTIFY_CHANNEL_CAPACITY_def dispatch_item_def
        dispatch_notify_def json_decode_def decoded)
       (simp add: demo_mcp_lib_def decoded [unfolded demo_mcp_lib_def mcp_lib.simps])
qed

lemma notifications_bounded_in_order_witness:
  "\<exists>c :: nat client_run. cr_dispatched c \<noteq> []
    \<and> length (mm_channels (mb_manager (cr_bridge c)) 0) \<le> NOTIFY_CHANNEL_CAPACITY
    \<and> accepted_on 0 c = dispatched_on 0 c @ mm_channels (mb_manager (cr_bridge c)) 0"
proof -
  note run = notifications_bounded_in_order [OF demo_dispatched_reached, of 0]
  show ?thesis
    by (rule exI [of _ "dispatch_next demo_mcp_lib 0 demo_noticed"]) (use run demo_call_made in simp)
qed

lemma identity_is_asked_for_witness:
  "lua_call demo_mcp_lib demo_rmcp (Some ''agent'') (mb_manager (cr_bridge demo_connected)) ''s'' ''tool'' None [] =
     reply_with (call_fields demo_mcp_lib)
       (client_call_tool demo_rmcp (mb_manager (cr_bridge demo_connected)) ''s'' ''tool'' JNull [])"
proof -
  have args: "json_or_null demo_mcp_lib None = Ok JNull" by (simp add: json_or_null_def)
  have "map_of (rev (cr_attempts demo_connected)) ''s'' \<noteq> Some True" by (simp add: demo_manager(2))
  with identity_is_asked_for [OF demo_connected_reached args, of "Some ''agent''" "''s''" "''tool''" "[]"] show ?thesis
    by auto
qed

text \<open>
  A connection attempt that fails leaves the connection of that name as it was, but not its flag: a server
  connected without the trace context is sent the identity after a failed attempt that asked for it.
\<close>

lemma failed_reconnect_asks_for_the_old:
  assumes failed: "client_connect R name command args True cwd env (m, w) = (Err (BE_Timeout e), m', w')"
  shows "mm_servers m' = mm_servers m \<and> trace_context_enabled (mm_registry m') name"
  using failed
  by (auto simp: client_connect_def Let_def timed_out_after_def reset_template_def prepare_server_def
      set_trace_context_def trace_context_enabled_def split: sum.splits prod.splits round_trip.splits)

end
