(* ===== verification/Mcp_Request_Properties.thy ===== *)
theory Mcp_Request_Properties
  imports Mcp_Client_Properties
begin

text \<open>
  Single operations of the client: how a tool call can end, what leaving every server does, and what a
  server's request for input takes to be accepted.
\<close>

section \<open>Calls\<close>

definition sendable :: "json \<Rightarrow> json_map option option" where
  "sendable v = (case v of JObject m \<Rightarrow> Some (Some m) | JNull \<Rightarrow> Some None | _ \<Rightarrow> None)"

lemma request_arguments_sendable:
  "request_arguments what v =
     (case sendable v of
        Some a \<Rightarrow> Ok a
      | None \<Rightarrow> Err (BE_Mcp (fmt [what, '' must be a JSON object (got '', argument_kind v, '')''])))"
  by (cases v) (simp_all add: sendable_def)

text \<open>
  A tool call ends in one of six ways: refused for its arguments or for want of a server, with nothing
  sent; or after one request to the server of that name, by what became of it, a timeout being the only
  \<open>Timeout\<close> and the tool's own failure no error. Nothing follows the request on the wire, a cancellation
  neither.
\<close>

lemma tool_call_outcomes:
  "client_call_tool R m name tool v w =
     (case sendable v of
        None \<Rightarrow> (Err (BE_Mcp (fmt [''call_tool '', quoted tool, '' on '', quoted name, '': arguments must be a JSON object (got '',
                   argument_kind v, '')''])), w)
      | Some a \<Rightarrow>
          (case map_option fst (mm_servers m name) of
             None \<Rightarrow> (Err (no_server name), w)
           | Some c \<Rightarrow>
               (case ro_request R c (Call_Tool tool a) (mm_rpc_timeout m) w of
                  (ans, w') \<Rightarrow>
                    ((case ans of
                        Rt_Expired \<Rightarrow> Err (BE_Timeout (fmt [''call_tool '', quoted tool, '' on '', quoted name, '' timed out after '',
                                       ro_debug R (mm_rpc_timeout m)]))
                      | Rt_Refused e \<Rightarrow> Err (BE_Mcp (fmt [''call_tool '', quoted tool, '' on '', quoted name, '': '', e]))
                      | Rt_Answered (Err e) \<Rightarrow> Err (BE_Mcp (fmt [''serialize call_tool result: '', e]))
                      | Rt_Answered (Ok value) \<Rightarrow> Ok value), w'))))"
proof (cases "sendable v")
  case None
  then show ?thesis by (simp add: client_call_tool_def request_arguments_sendable fmt_def Let_def)
next
  case (Some a)
  show ?thesis
  proof (cases "mm_servers m name")
    case None
    with Some show ?thesis by (simp add: client_call_tool_def request_arguments_sendable Let_def)
  next
    case conn: (Some ch)
    obtain c h where ch: "ch = (c, h)" by force
    obtain ans w' where req: "ro_request R c (Call_Tool tool a) (mm_rpc_timeout m) w = (ans, w')" by force
    show ?thesis
    proof (cases ans)
      case (Rt_Answered r)
      with Some conn ch req show ?thesis
        by (cases r) (simp_all add: client_call_tool_def request_arguments_sendable serialized_def fmt_def Let_def)
    qed (use Some conn ch req in
      \<open>simp_all add: client_call_tool_def request_arguments_sendable timed_out_after_def send_cancelled_def fmt_def Let_def\<close>)
  qed
qed

section \<open>Leaving every server\<close>

text \<open>The disconnects one by one, with what each came to.\<close>

fun outcomes :: "('c, 'w) rmcp_ops \<Rightarrow> string list \<Rightarrow> 'c mcp_manager \<times> 'w \<Rightarrow> (block_error + unit) list \<times> 'c mcp_manager \<times> 'w" where
  "outcomes R [] st = ([], st)"
| "outcomes R (name # names) st =
     (case client_disconnect R name st of
        (r, st') \<Rightarrow> (case outcomes R names st' of (rs, st'') \<Rightarrow> (r # rs, st'')))"

fun first_error :: "(block_error + unit) list \<Rightarrow> block_error option" where
  "first_error [] = None"
| "first_error (Inl e # rs) = Some e"
| "first_error (Inr u # rs) = first_error rs"

lemma disconnect_each_outcomes:
  "disconnect_each R names first st =
     (case outcomes R names st of (rs, st') \<Rightarrow> (case first of Some e \<Rightarrow> Some e | None \<Rightarrow> first_error rs, st'))"
proof (induction names arbitrary: first st)
  case (Cons name names)
  obtain r st1 where one: "client_disconnect R name st = (r, st1)" by (metis prod.collapse)
  show ?case by (cases r; simp add: one Cons.IH split: prod.splits option.splits)
qed (simp split: option.splits)

lemma outcomes_length: "length (fst (outcomes R names st)) = length names"
proof (induction names arbitrary: st)
  case (Cons name names)
  then show ?case by (auto split: prod.splits) (metis fst_conv)
qed simp

text \<open>
  Leaving every server tries each of them once, whatever the others came to: none is connected
  afterwards, the rest of the manager is as it was, and the answer is the first error in the order tried, or
  success when there was none.
\<close>

lemma disconnect_all_leaves_none:
  assumes keys: "set (key_order (mm_servers m)) = dom (mm_servers m)"
    and run: "disconnect_all R key_order (m, w) = (r, m', w')"
  shows "m' = m\<lparr>mm_servers := Map.empty\<rparr>
    \<and> (\<exists>rs. outcomes R (key_order (mm_servers m)) (m, w) = (rs, m', w')
          \<and> length rs = length (key_order (mm_servers m))
          \<and> r = (case first_error rs of Some e \<Rightarrow> Err e | None \<Rightarrow> Ok ()))"
proof
  have "mm_servers m |` (- dom (mm_servers m)) = Map.empty" by (auto simp: restrict_map_def fun_eq_iff)
  with disconnect_all_manager [OF run] keys show "m' = m\<lparr>mm_servers := Map.empty\<rparr>" by simp
  obtain rs st where rs: "outcomes R (key_order (mm_servers m)) (m, w) = (rs, st)" by (metis prod.collapse)
  with run have "st = (m', w') \<and> r = (case first_error rs of Some e \<Rightarrow> Err e | None \<Rightarrow> Ok ())"
    by (auto simp: disconnect_all_def disconnect_each_outcomes split: option.splits)
  with rs outcomes_length [of R "key_order (mm_servers m)" "(m, w)"]
  show "\<exists>rs. outcomes R (key_order (mm_servers m)) (m, w) = (rs, m', w')
          \<and> length rs = length (key_order (mm_servers m))
          \<and> r = (case first_error rs of Some e \<Rightarrow> Err e | None \<Rightarrow> Ok ())" by auto
qed

lemma disconnect_all_leaves_none_witness:
  "\<exists>m'. disconnect_all demo_rmcp (\<lambda>_. [''s'']) (add_server ''s'' 7 new_handler (manager_with 30), []) = (Ok (), m', [])
     \<and> m' = (add_server ''s'' 7 new_handler (manager_with 30))\<lparr>mm_servers := Map.empty\<rparr>"
proof -
  let ?m = "add_server ''s'' 7 new_handler (manager_with 30) :: nat mcp_manager"
  have run: "disconnect_all demo_rmcp (\<lambda>_. [''s'']) (?m, []) = (Ok (), ?m\<lparr>mm_servers := (mm_servers ?m)(''s'' := None)\<rparr>, [])"
    by (simp add: disconnect_all_def client_disconnect_def demo_rmcp_def add_server_def Let_def)
  have keys: "set [''s''] = dom (mm_servers ?m)" by (simp add: add_server_def manager_with_def)
  show ?thesis using disconnect_all_leaves_none [of "\<lambda>_. [''s'']", OF keys run] run by auto
qed

section \<open>Requests of a server\<close>

lemma elicit_of_accept:
  "elicit_of v = Ok (Accept content) \<longleftrightarrow> str_field v ''action'' = Some ''accept'' \<and> json_get v ''content'' = Some content"
  by (auto simp: elicit_of_def Let_def split: option.splits if_splits)

text \<open>When the wrapper answers a text: the handler of that server ran and gave a table.\<close>

lemma dispatch_json_Some:
  "dispatch_json J V globals handlers caller s args w = (Ok (Some reply_text), w') \<longleftrightarrow>
     (\<exists>f mt es v. Option.bind (globals handlers) (\<lambda>t. t s) = Some f
        \<and> hv_run V f (s # args) w = (Ok (LTable mt es), w')
        \<and> lua_to_json (ml_vm J) (LTable mt es) = Ok v \<and> reply_text = ml_print J v)"
  by (auto simp: dispatch_json_def encode_reply_def split: option.splits sum.splits prod.splits lua.splits)

text \<open>
  C33: A server's request for input is accepted exactly when it is a form, the server's name has a handler
  that is marked and stored, the handler ran and gave a table, and that table, sent as JSON, says \<open>accept\<close>
  with a content.
\<close>

theorem accepted_only_by_the_handler:
  "create_elicitation J V globals h r request w = (Ok (Accept content), w') \<longleftrightarrow>
     (\<exists>message schema s isle f mt es j v.
        request = Form_Elicitation message (Ok schema) \<and> mh_server_name h = Some s \<and> has_mark r hm_elicitation s
      \<and> mh_handler_isle h = Some isle
      \<and> Option.bind (globals MCP_ELICITATION_HANDLERS) (\<lambda>t. t s) = Some f
      \<and> hv_run V f [s, message, schema] w = (Ok (LTable mt es), w')
      \<and> lua_to_json (ml_vm J) (LTable mt es) = Ok j \<and> ml_parse J (ml_print J j) = Ok v
      \<and> str_field v ''action'' = Some ''accept'' \<and> json_get v ''content'' = Some content)"
  (is "?lhs \<longleftrightarrow> ?rhs")
proof
  assume ?lhs
  then obtain message schema s isle body_text where
      outer: "request = Form_Elicitation message (Ok schema)" "mh_server_name h = Some s" "has_mark r hm_elicitation s"
        "mh_handler_isle h = Some isle"
      and ran: "dispatch_json J V globals MCP_ELICITATION_HANDLERS ''create_elicitation'' s [message, schema] w = (Ok (Some body_text), w')"
      and ans: "and_then (parse_reply J ''elicitation'' body_text) elicit_of = Ok (Accept content)"
    by (auto simp: create_elicitation_def split: elicitation_request.splits option.splits if_splits sum.splits prod.splits)
  from ran obtain f mt es j where
      "Option.bind (globals MCP_ELICITATION_HANDLERS) (\<lambda>t. t s) = Some f"
      "hv_run V f [s, message, schema] w = (Ok (LTable mt es), w')"
      "lua_to_json (ml_vm J) (LTable mt es) = Ok j" "body_text = ml_print J j"
    unfolding dispatch_json_Some by blast
  moreover from ans obtain v where "ml_parse J body_text = Ok v" "elicit_of v = Ok (Accept content)"
    by (auto simp: parse_reply_def map_err_def and_then_def split: sum.splits)
  ultimately show ?rhs using outer unfolding elicit_of_accept by blast
next
  assume ?rhs
  then obtain message schema s isle f mt es j v where
      outer: "request = Form_Elicitation message (Ok schema)" "mh_server_name h = Some s" "has_mark r hm_elicitation s"
        "mh_handler_isle h = Some isle"
      and inner: "Option.bind (globals MCP_ELICITATION_HANDLERS) (\<lambda>t. t s) = Some f"
        "hv_run V f [s, message, schema] w = (Ok (LTable mt es), w')"
        "lua_to_json (ml_vm J) (LTable mt es) = Ok j" "ml_parse J (ml_print J j) = Ok v"
      and says: "elicit_of v = Ok (Accept content)"
    unfolding elicit_of_accept by blast
  from inner have "dispatch_json J V globals MCP_ELICITATION_HANDLERS ''create_elicitation'' s [message, schema] w
      = (Ok (Some (ml_print J j)), w')"
    unfolding dispatch_json_Some by blast
  with outer inner(4) says show ?lhs
    by (simp add: create_elicitation_def parse_reply_def map_err_def and_then_def)
qed

text \<open>
  A handler of roots that has none to give answers an empty table, which is an object on its way through JSON
  and refused; and a tool call that timed out leaves the server at work, no cancellation is sent.
\<close>

lemma no_roots_refused:
  assumes h: "mh_server_name h = Some s" "has_mark r hm_roots s" "mh_handler_isle h = Some isle"
    and f: "Option.bind (globals MCP_ROOTS_HANDLERS) (\<lambda>t. t s) = Some f"
    and ran: "hv_run V f [s] w = (Ok (LTable NoMeta []), w')"
    and empty: "vm_border (ml_vm J) [] = 0" and parsed: "ml_parse J (ml_print J (JObject [])) = Ok (JObject [])"
  shows "list_roots J V globals h r w = (Err (Internal_Error ''roots handler result parse: expected array''), w')"
proof -
  have "lua_to_json (ml_vm J) (LTable NoMeta []) = Ok (JObject [])"
    by (simp add: lua_to_json_def lua_to_json_inner.simps max_depth_def empty is_tagged_array_def)
  then have "dispatch_json J V globals MCP_ROOTS_HANDLERS ''list_roots'' s [] w = (Ok (Some (ml_print J (JObject []))), w')"
    using f ran unfolding dispatch_json_Some by blast
  with h parsed show ?thesis by (simp add: list_roots_def parse_reply_def map_err_def and_then_def roots_of_def)
qed

lemma timed_out_call_not_cancelled:
  assumes "mm_servers m name = Some (c, h)" and "ro_request R c (Call_Tool tool None) (mm_rpc_timeout m) w = (Rt_Expired, w')"
  shows "\<exists>e. client_call_tool R m name tool JNull w = (Err (BE_Timeout e), w')"
  using assms by (simp add: client_call_tool_def Let_def timed_out_after_def send_cancelled_def)

end
