(* ===== verification/Ts.thy ===== *)
theory Ts
  imports Mcp_Bridge
begin

text \<open>
  \<open>bridge/ts.rs\<close>: time series. A call reads its arguments on the VM's thread, builds the text of one
  statement and what is bound to it, and decodes the rows. mlua's conversions, \<open>serde_json\<close>'s text forms and
  the texts of the errors the bridge passes on are the record \<open>ts_lib\<close>; SQLite behind its connection
  thread is \<open>ts_ops\<close>: the outer failure of an answer is the thread's, the inner one the statement's.
\<close>

record ts_lib =
  tl_vm :: lua_vm
  tl_text :: "lua \<Rightarrow> lua_error + string"
  tl_i64 :: "lua \<Rightarrow> int option"
  tl_print :: "json \<Rightarrow> string"
  tl_parse :: "string \<Rightarrow> string + json"
  tl_shown :: "lua_error \<Rightarrow> string"
  tl_int_error :: "string \<Rightarrow> string"

datatype ts_param = Bind_Text string | Bind_Int int

datatype sql_value = Sql_Null | Sql_Integer int | Sql_Real string | Sql_Text string | Sql_Blob

datatype ts_stage = Preparing_Statement | Executing_Statement | Reading_Row

record 'w ts_ops =
  to_now :: "'w \<Rightarrow> nat"
  to_insert :: "string \<Rightarrow> int \<Rightarrow> string option \<Rightarrow> string \<Rightarrow> 'w \<Rightarrow> (string + (string + unit)) \<times> 'w"
  to_select :: "string \<Rightarrow> ts_param list \<Rightarrow> 'w \<Rightarrow> (string + ((ts_stage \<times> string) + sql_value list list)) \<times> 'w"
  to_column :: "sql_value \<Rightarrow> string"

section \<open>Tags\<close>

definition tag_char :: "char \<Rightarrow> bool" where
  "tag_char c \<longleftrightarrow> is_ascii_alphabetic c \<or> is_ascii_digit c \<or> c = CHR ''_''"

definition validate_tag_key :: "string \<Rightarrow> lua_error + unit" where
  "validate_tag_key key =
     (if list_all tag_char key then Ok () else Err (External ''ts tag key must be [a-zA-Z0-9_]+''))"

text \<open>An error of the conversion that is wrapped once more.\<close>

definition rewrapped :: "ts_lib \<Rightarrow> lua_error + 'a \<Rightarrow> lua_error + 'a" where
  "rewrapped T r = map_err (\<lambda>e. External (tl_shown T e)) r"

definition tag_text :: "ts_lib \<Rightarrow> json \<Rightarrow> string" where
  "tag_text T v = (case v of JString s \<Rightarrow> s | _ \<Rightarrow> tl_print T v)"

fun collect_tag_filter :: "ts_lib \<Rightarrow> (lua \<times> lua) list \<Rightarrow> lua_error + (string \<times> string) list" where
  "collect_tag_filter T [] = Ok []"
| "collect_tag_filter T ((k, v) # es) =
     and_then (tl_text T k) (\<lambda>key.
     and_then (validate_tag_key key) (\<lambda>_.
     and_then (rewrapped T (lua_to_json (tl_vm T) v)) (\<lambda>j.
     and_then (collect_tag_filter T es) (\<lambda>more. Ok ((key, tag_text T j) # more)))))"

fun check_tag_keys :: "ts_lib \<Rightarrow> (lua \<times> lua) list \<Rightarrow> lua_error + unit" where
  "check_tag_keys T [] = Ok ()"
| "check_tag_keys T ((k, v) # es) =
     and_then (tl_text T k) (\<lambda>key. and_then (validate_tag_key key) (\<lambda>_. check_tag_keys T es))"

section \<open>The statement\<close>

definition tag_clauses :: "string list \<Rightarrow> string" where
  "tag_clauses keys = concat (map (\<lambda>k. fmt ['' AND json_extract(tags, '', quoted (''$.'' @ k), '') = ?'']) keys)"

definition where_clause :: "string list \<Rightarrow> string" where
  "where_clause keys = ''WHERE series = ? AND ts >= ? AND ts <= ?'' @ tag_clauses keys"

definition limit_clause :: "int option \<Rightarrow> int option \<Rightarrow> string" where
  "limit_clause limit offs =
     (case (limit, offs) of
        (Some l, Some k) \<Rightarrow> fmt ['' LIMIT '', string_of_int l, '' OFFSET '', string_of_int k]
      | (Some l, None) \<Rightarrow> '' LIMIT '' @ string_of_int l
      | (None, Some k) \<Rightarrow> '' LIMIT -1 OFFSET '' @ string_of_int k
      | (None, None) \<Rightarrow> [])"

definition agg_expr :: "string \<Rightarrow> string option" where
  "agg_expr agg =
     (if agg = ''count'' then Some ''COUNT(*)''
      else if agg = ''sum'' then Some ''SUM(CAST(value AS REAL))''
      else if agg = ''avg'' then Some ''AVG(CAST(value AS REAL))''
      else if agg = ''last'' then Some ''last''
      else None)"

definition build_query_sql :: "string option \<Rightarrow> int option \<Rightarrow> string list \<Rightarrow> int option \<Rightarrow> int option \<Rightarrow> string + string" where
  "build_query_sql agg bucket_ms keys limit offs =
     (case agg of
        None \<Rightarrow> Ok (fmt [''SELECT ts, value, tags FROM ts '', where_clause keys, '' ORDER BY ts, rowid'', limit_clause limit offs])
      | Some name \<Rightarrow>
          (case agg_expr name of
             None \<Rightarrow> Err (''unknown agg: '' @ name)
           | Some expr \<Rightarrow>
               (case bucket_ms of
                  None \<Rightarrow>
                    (if name = ''last''
                     then Ok (fmt [''SELECT value, tags, ts FROM ts '', where_clause keys, '' ORDER BY ts DESC, rowid DESC LIMIT 1''])
                     else Ok (fmt [''SELECT '', expr, '' FROM ts '', where_clause keys]))
                | Some bms \<Rightarrow>
                    Ok (fmt [''SELECT (ts / '', string_of_int bms, '') * '', string_of_int bms, '' AS bucket_ts, '',
                             (if name = ''last'' then ''MAX(ts)'' else expr), '' AS agg_value FROM ts '', where_clause keys,
                             '' GROUP BY bucket_ts ORDER BY bucket_ts'', limit_clause limit offs]))))"

section \<open>Appending\<close>

definition encode_tags :: "ts_lib \<Rightarrow> (lua_meta \<times> (lua \<times> lua) list) option \<Rightarrow> lua_error + string option" where
  "encode_tags T tags =
     (case tags of
        None \<Rightarrow> Ok None
      | Some (mt, es) \<Rightarrow>
          and_then (check_tag_keys T es) (\<lambda>_.
          and_then (rewrapped T (lua_to_json (tl_vm T) (LTable mt es))) (\<lambda>j. Ok (Some (tl_print T j)))))"

definition ts_append ::
  "ts_lib \<Rightarrow> 'w ts_ops \<Rightarrow> string \<Rightarrow> lua \<Rightarrow> (lua_meta \<times> (lua \<times> lua) list) option \<Rightarrow> int option \<Rightarrow> 'w \<Rightarrow> (lua_error + lua) \<times> 'w" where
  "ts_append T D series v tags at w =
     (let ts_ms = (case at of Some t \<Rightarrow> t | None \<Rightarrow> i64_of_u64 (to_now D w mod 2 ^ 64)) in
      case rewrapped T (lua_to_json (tl_vm T) v) of
        Err e \<Rightarrow> (Err e, w)
      | Ok v_json \<Rightarrow>
          (case encode_tags T tags of
             Err e \<Rightarrow> (Err e, w)
           | Ok tags_str \<Rightarrow>
               (case to_insert D series ts_ms tags_str (tl_print T v_json) w of
                  (Err e, w') \<Rightarrow> (Err (External (''ts task: '' @ e)), w')
                | (Ok (Err e), w') \<Rightarrow> (Err (External (''ts append: '' @ e)), w')
                | (Ok (Ok _), w') \<Rightarrow> (Ok LNil, w'))))"

section \<open>Rows\<close>

text \<open>\<open>str::parse::<i64>\<close>.\<close>

definition parse_i64 :: "string \<Rightarrow> int option" where
  "parse_i64 s =
     (let negative = starts_with ''-'' s;
          ds = (if negative \<or> starts_with ''+'' s then drop 1 s else s);
          n = (if negative then - int (digits_value ds) else int (digits_value ds))
      in if ds \<noteq> [] \<and> list_all is_ascii_digit ds \<and> is_i64 n then Some n else None)"

definition column_text :: "sql_value \<Rightarrow> string option" where
  "column_text v =
     (case v of
        Sql_Null \<Rightarrow> None
      | Sql_Integer n \<Rightarrow> Some (string_of_int n)
      | Sql_Real s \<Rightarrow> Some s
      | Sql_Text s \<Rightarrow> Some s
      | Sql_Blob \<Rightarrow> None)"

definition decode_value_col :: "ts_lib \<Rightarrow> string option \<Rightarrow> lua_error + lua" where
  "decode_value_col T raw =
     (case raw of
        None \<Rightarrow> Ok LNil
      | Some s \<Rightarrow> and_then (map_err External (tl_parse T s)) (json_to_lua (tl_vm T)))"

definition decode_tags_col :: "ts_lib \<Rightarrow> string option \<Rightarrow> lua_error + lua" where
  "decode_tags_col = decode_value_col"

definition decode_int_col :: "ts_lib \<Rightarrow> string option \<Rightarrow> lua_error + lua" where
  "decode_int_col T raw =
     (case raw of
        None \<Rightarrow> Ok LNil
      | Some s \<Rightarrow> (case parse_i64 s of Some n \<Rightarrow> Ok (LInt n) | None \<Rightarrow> Err (External (tl_int_error T s))))"

definition column :: "string option list \<Rightarrow> nat \<Rightarrow> string option" where
  "column row i = (if i < length row then row ! i else None)"

definition row_field :: "string \<Rightarrow> lua_error + lua \<Rightarrow> lua_error + lua_fields" where
  "row_field k v = and_then v (\<lambda>l. Ok [(k, l)])"

definition decode_row :: "ts_lib \<Rightarrow> string option \<Rightarrow> int option \<Rightarrow> string option list \<Rightarrow> lua_error + lua_fields" where
  "decode_row T agg bucket_ms row =
     (if agg = Some ''last'' \<and> bucket_ms = None
      then and_fields (row_field ''value'' (decode_value_col T (column row 0)))
             (and_fields (row_field ''tags'' (decode_tags_col T (column row 1))) (row_field ''ts'' (decode_int_col T (column row 2))))
      else if agg \<noteq> None \<and> bucket_ms = None
      then row_field ''value'' (decode_value_col T (column row 0))
      else if agg \<noteq> None
      then and_fields (row_field ''bucket_ts'' (decode_int_col T (column row 0))) (row_field ''value'' (decode_value_col T (column row 1)))
      else and_fields (row_field ''ts'' (decode_int_col T (column row 0)))
             (and_fields (row_field ''value'' (decode_value_col T (column row 1))) (row_field ''tags'' (decode_tags_col T (column row 2)))))"

section \<open>Asking\<close>

text \<open>An option that does not convert is as good as absent.\<close>

definition i64_opt :: "ts_lib \<Rightarrow> (string \<Rightarrow> lua) option \<Rightarrow> string \<Rightarrow> int option" where
  "i64_opt T opts k = Option.bind opts (\<lambda>t. tl_i64 T (t k))"

definition text_opt :: "ts_lib \<Rightarrow> (string \<Rightarrow> lua) option \<Rightarrow> string \<Rightarrow> string option" where
  "text_opt T opts k =
     Option.bind opts (\<lambda>t. if t k = LNil then None else case tl_text T (t k) of Ok s \<Rightarrow> Some s | Err _ \<Rightarrow> None)"

definition table_opt :: "(string \<Rightarrow> lua) option \<Rightarrow> string \<Rightarrow> (lua \<times> lua) list option" where
  "table_opt opts k = Option.bind opts (\<lambda>t. case t k of LTable mt es \<Rightarrow> Some es | _ \<Rightarrow> None)"

definition check_query :: "string option \<Rightarrow> int option \<Rightarrow> int option \<Rightarrow> int option \<Rightarrow> lua_error + unit" where
  "check_query agg bucket_ms limit offs =
     (if (case bucket_ms of Some b \<Rightarrow> b \<le> 0 | None \<Rightarrow> False) then Err (External ''ts bucket_ms must be positive'')
      else if bucket_ms \<noteq> None \<and> agg = None then Err (External ''ts bucket_ms requires agg'')
      else if (case limit of Some l \<Rightarrow> l < 0 | None \<Rightarrow> False) then Err (External ''ts opts.limit must be >= 0'')
      else if (case offs of Some k \<Rightarrow> k < 0 | None \<Rightarrow> False) then Err (External ''ts opts.offset must be >= 0'')
      else Ok ())"

definition stage_text :: "ts_stage \<Rightarrow> string" where
  "stage_text stage = (case stage of Preparing_Statement \<Rightarrow> ''prepare'' | Executing_Statement \<Rightarrow> ''exec'' | Reading_Row \<Rightarrow> ''row'')"

definition filter_of :: "ts_lib \<Rightarrow> (lua \<times> lua) list option \<Rightarrow> lua_error + (string \<times> string) list" where
  "filter_of T tags = (case tags of None \<Rightarrow> Ok [] | Some es \<Rightarrow> collect_tag_filter T es)"

definition ts_params :: "string \<Rightarrow> int \<Rightarrow> int \<Rightarrow> (string \<times> string) list \<Rightarrow> ts_param list" where
  "ts_params series from_ts to_ts tag_filter =
     [Bind_Text series, Bind_Int from_ts, Bind_Int to_ts] @ map (\<lambda>kv. Bind_Text (snd kv)) tag_filter"

definition run_query ::
  "ts_lib \<Rightarrow> 'w ts_ops \<Rightarrow> string option \<Rightarrow> int option \<Rightarrow> string \<Rightarrow> ts_param list \<Rightarrow> 'w \<Rightarrow> (lua_error + lua_fields list) \<times> 'w" where
  "run_query T D agg bucket_ms sql params w =
     (case to_select D sql params w of
        (Err e, w') \<Rightarrow> (Err (External (''ts task: '' @ e)), w')
      | (Ok (Err (stage, e)), w') \<Rightarrow> (Err (External (fmt [''ts query '', stage_text stage, '': '', e])), w')
      | (Ok (Ok rows), w') \<Rightarrow> (collect_results (\<lambda>row. decode_row T agg bucket_ms (map column_text row)) rows, w'))"

definition ts_query ::
  "ts_lib \<Rightarrow> 'w ts_ops \<Rightarrow> string \<Rightarrow> (string \<Rightarrow> lua) option \<Rightarrow> 'w \<Rightarrow> (lua_error + lua_fields list) \<times> 'w" where
  "ts_query T D series opts w =
     (let from_ts = (case i64_opt T opts ''from'' of Some n \<Rightarrow> n | None \<Rightarrow> i64_min);
          to_ts = (case i64_opt T opts ''to'' of Some n \<Rightarrow> n | None \<Rightarrow> i64_max);
          agg = text_opt T opts ''agg'';
          bucket_ms = i64_opt T opts ''bucket_ms'';
          limit = i64_opt T opts ''limit'';
          offs = i64_opt T opts ''offset''
      in case and_then (check_query agg bucket_ms limit offs) (\<lambda>_.
                and_then (filter_of T (table_opt opts ''tags'')) (\<lambda>tag_filter.
                and_then (map_err External (build_query_sql agg bucket_ms (map fst tag_filter) limit offs)) (\<lambda>sql.
                Ok (sql, tag_filter)))) of
           Err e \<Rightarrow> (Err e, w)
         | Ok (sql, tag_filter) \<Rightarrow> run_query T D agg bucket_ms sql (ts_params series from_ts to_ts tag_filter) w)"

section \<open>The latest\<close>

definition last_sql :: "string list \<Rightarrow> string" where
  "last_sql keys =
     fmt [''SELECT ts, value, tags FROM ts WHERE series = ? AND ts >= ? AND ts <= ?'', tag_clauses keys,
          '' ORDER BY ts DESC, rowid DESC LIMIT 1'']"

definition last_stage_text :: "ts_stage \<Rightarrow> string" where
  "last_stage_text stage = (case stage of Preparing_Statement \<Rightarrow> ''prepare'' | Executing_Statement \<Rightarrow> ''query'' | Reading_Row \<Rightarrow> ''row'')"

text \<open>The typed columns of the row; \<open>to_column\<close> is rusqlite's text of a column of another type.\<close>

definition last_columns :: "'w ts_ops \<Rightarrow> sql_value list \<Rightarrow> string + int \<times> string \<times> string option" where
  "last_columns D row =
     (let col = (\<lambda>i. if i < length row then row ! i else Sql_Null) in
      case col 0 of
        Sql_Integer ts_val \<Rightarrow>
          (case col 1 of
             Sql_Text value_str \<Rightarrow>
               (case col 2 of
                  Sql_Text s \<Rightarrow> Ok (ts_val, value_str, Some s)
                | Sql_Null \<Rightarrow> Ok (ts_val, value_str, None)
                | v \<Rightarrow> Err (''ts last tags col: '' @ to_column D v))
           | v \<Rightarrow> Err (''ts last value col: '' @ to_column D v))
      | v \<Rightarrow> Err (''ts last ts col: '' @ to_column D v))"

definition decode_last :: "ts_lib \<Rightarrow> int \<times> string \<times> string option \<Rightarrow> lua_error + lua_fields" where
  "decode_last T = (\<lambda>(ts_val, value_str, tags_str).
     and_fields (Ok [(''ts'', LInt ts_val)])
       (and_fields (row_field ''value'' (decode_value_col T (Some value_str))) (row_field ''tags'' (decode_tags_col T tags_str))))"

definition ts_last ::
  "ts_lib \<Rightarrow> 'w ts_ops \<Rightarrow> string \<Rightarrow> (lua \<times> lua) list option \<Rightarrow> 'w \<Rightarrow> (lua_error + lua_fields option) \<times> 'w" where
  "ts_last T D series tags w =
     (case filter_of T tags of
        Err e \<Rightarrow> (Err e, w)
      | Ok tag_filter \<Rightarrow>
          (case to_select D (last_sql (map fst tag_filter)) (ts_params series i64_min i64_max tag_filter) w of
             (Err e, w') \<Rightarrow> (Err (External (''ts task: '' @ e)), w')
           | (Ok (Err (stage, e)), w') \<Rightarrow> (Err (External (fmt [''ts last '', last_stage_text stage, '': '', e])), w')
           | (Ok (Ok []), w') \<Rightarrow> (Ok None, w')
           | (Ok (Ok (row # rows)), w') \<Rightarrow>
               (case last_columns D row of
                  Err e \<Rightarrow> (Err (External e), w')
                | Ok cols \<Rightarrow> (result_map Some (decode_last T cols), w'))))"

end
