(* ===== verification/Ts_Properties.thy ===== *)
theory Ts_Properties
  imports Ts
begin

text \<open>
  Nothing a caller passes reaches the text of a statement but tag keys and numbers, every placeholder is
  bound, and what was appended last is the latest point, its value as JSON carries it.
\<close>

section \<open>Counting in the text of a statement\<close>

abbreviation bind_marks :: "string \<Rightarrow> nat" where
  "bind_marks s \<equiv> count_list s (CHR ''?'')"

abbreviation quotes :: "string \<Rightarrow> nat" where
  "quotes s \<equiv> count_list s (CHR 0x27)"

lemma count_fmt: "count_list (fmt ps) c = sum_list (map (\<lambda>p. count_list p c) ps)"
  by (induction ps) (simp_all add: fmt_def)

lemma digits_plain: "bind_marks (string_of_int i) = 0" "quotes (string_of_int i) = 0"
proof -
  have "c \<notin> set (string_of_int i)" if "\<not> is_ascii_digit c" "c \<noteq> CHR ''-''" for c
    using that digits_are_digits by (auto simp: string_of_int_def list_all_iff)
  then have "CHR ''?'' \<notin> set (string_of_int i)" "CHR 0x27 \<notin> set (string_of_int i)"
    by (simp_all add: is_ascii_digit_def)
  then show "bind_marks (string_of_int i) = 0" "quotes (string_of_int i) = 0" by simp_all
qed

lemma key_plain:
  assumes "list_all tag_char k"
  shows "bind_marks k = 0" "quotes k = 0"
proof -
  have "CHR ''?'' \<notin> set k" "CHR 0x27 \<notin> set k"
    using assms by (auto simp: list_all_iff tag_char_def is_ascii_alphabetic_def is_ascii_digit_def)
  then show "bind_marks k = 0" "quotes k = 0" by simp_all
qed

lemma tag_clauses_count:
  assumes "list_all (list_all tag_char) keys"
  shows "bind_marks (tag_clauses keys) = length keys" "quotes (tag_clauses keys) = 2 * length keys"
  using assms by (induction keys) (simp_all add: tag_clauses_def count_fmt quoted_def key_plain)

lemma where_clause_count:
  assumes "list_all (list_all tag_char) keys"
  shows "bind_marks (where_clause keys) = 3 + length keys" "quotes (where_clause keys) = 2 * length keys"
  using tag_clauses_count [OF assms] by (simp_all add: where_clause_def)

lemma limit_clause_count: "bind_marks (limit_clause l k) = 0" "quotes (limit_clause l k) = 0"
  by (simp_all add: limit_clause_def count_fmt digits_plain split: option.splits)

lemma agg_expr_count:
  "agg_expr name = Some e \<Longrightarrow> bind_marks e = 0" "agg_expr name = Some e \<Longrightarrow> quotes e = 0"
  by (auto simp: agg_expr_def split: if_splits)

lemma query_sql_count:
  assumes keys: "list_all (list_all tag_char) keys" and sql: "build_query_sql agg bucket keys l k = Ok sql"
  shows "bind_marks sql = 3 + length keys \<and> quotes sql = 2 * length keys"
  using sql where_clause_count [OF keys]
  by (auto simp: build_query_sql_def count_fmt digits_plain limit_clause_count agg_expr_count split: option.splits if_splits)

lemma last_sql_count:
  assumes "list_all (list_all tag_char) keys"
  shows "bind_marks (last_sql keys) = 3 + length keys \<and> quotes (last_sql keys) = 2 * length keys"
  using tag_clauses_count [OF assms] by (simp add: last_sql_def count_fmt)

lemma collected_keys:
  "collect_tag_filter T es = Ok kvs \<Longrightarrow> list_all (list_all tag_char) (map fst kvs)"
proof (induction T es arbitrary: kvs rule: collect_tag_filter.induct)
  case (2 T k v es)
  then show ?case
    by (auto simp: and_then_def validate_tag_key_def split: sum.splits if_splits)
qed simp

lemma filter_keys: "filter_of T tags = Ok kvs \<Longrightarrow> list_all (list_all tag_char) (map fst kvs)"
  by (auto simp: filter_of_def collected_keys split: option.splits)

lemma length_params [simp]: "length (ts_params series a b kvs) = 3 + length kvs"
  by (simp add: ts_params_def)

text \<open>A database that notes what it is asked, in order: the text of each statement and what is bound to it.\<close>

type_synonym asked = "(string \<times> ts_param list) list"

definition noting :: "'w ts_ops \<Rightarrow> ('w \<times> asked) ts_ops" where
  "noting D =
     \<lparr>to_now = (\<lambda>(w, l). to_now D w),
      to_insert = (\<lambda>series t tags v (w, l). case to_insert D series t tags v w of (r, w') \<Rightarrow> (r, w', l)),
      to_select = (\<lambda>sql ps (w, l). case to_select D sql ps w of (r, w') \<Rightarrow> (r, w', l @ [(sql, ps)])),
      to_column = to_column D\<rparr>"

text \<open>What a query asks for, before it asks.\<close>

definition ts_asking :: "ts_lib \<Rightarrow> (string \<Rightarrow> lua) option \<Rightarrow> lua_error + string \<times> (string \<times> string) list" where
  "ts_asking T opts =
     (let agg = text_opt T opts ''agg''; bucket = i64_opt T opts ''bucket_ms'';
          limit = i64_opt T opts ''limit''; offs = i64_opt T opts ''offset''
      in and_then (check_query agg bucket limit offs) (\<lambda>_.
         and_then (filter_of T (table_opt opts ''tags'')) (\<lambda>tag_filter.
         and_then (map_err External (build_query_sql agg bucket (map fst tag_filter) limit offs)) (\<lambda>sql. Ok (sql, tag_filter)))))"

lemma ts_query_asks:
  "ts_query T D series opts w =
     (case ts_asking T opts of
        Err e \<Rightarrow> (Err e, w)
      | Ok (sql, kvs) \<Rightarrow>
          run_query T D (text_opt T opts ''agg'') (i64_opt T opts ''bucket_ms'') sql
            (ts_params series (case i64_opt T opts ''from'' of Some n \<Rightarrow> n | None \<Rightarrow> i64_min)
              (case i64_opt T opts ''to'' of Some n \<Rightarrow> n | None \<Rightarrow> i64_max) kvs) w)"
  by (simp add: ts_query_def ts_asking_def Let_def)

lemma ts_asking_Ok:
  assumes "ts_asking T opts = Ok (sql, kvs)"
  shows "filter_of T (table_opt opts ''tags'') = Ok kvs"
    and "build_query_sql (text_opt T opts ''agg'') (i64_opt T opts ''bucket_ms'') (map fst kvs)
      (i64_opt T opts ''limit'') (i64_opt T opts ''offset'') = Ok sql"
  using assms by (auto simp: ts_asking_def Let_def and_then_Ok_iff map_err_def split: sum.splits)

lemma run_query_asks_once: "snd (snd (run_query T (noting D) agg bucket sql ps (w, l))) = l @ [(sql, ps)]"
  by (simp add: run_query_def noting_def split: prod.split sum.split)

lemma ts_last_asks_once:
  "filter_of T tags = Ok kvs \<Longrightarrow>
   snd (snd (ts_last T (noting D) series tags (w, l))) = l @ [(last_sql (map fst kvs), ts_params series i64_min i64_max kvs)]"
  by (simp add: ts_last_def noting_def split: prod.split sum.split list.split)

text \<open>
  C34: A query asks the database nothing, and then it is an error that touched nothing, or exactly one
  statement. The text of that statement is made of the aggregate, the numbers and the tag keys, and is the
  same for every series; the keys are letters, digits and underscores, so that the only quotes in the text
  are the two around each key's path; and bound to it are the series, the two times and the tag values, in
  this order, one for each of its placeholders. The same holds of \<open>last\<close>.
\<close>

theorem ts_statement_bound:
  "(case ts_query T (noting D) series opts (w, []) of
      (r, w', asked) \<Rightarrow>
        map fst asked = map fst (snd (snd (ts_query T (noting D) series' opts (w, []))))
      \<and> (asked = [] \<and> isl r \<and> w' = w
        \<or> (\<exists>sql kvs. filter_of T (table_opt opts ''tags'') = Ok kvs
            \<and> build_query_sql (text_opt T opts ''agg'') (i64_opt T opts ''bucket_ms'') (map fst kvs)
                (i64_opt T opts ''limit'') (i64_opt T opts ''offset'') = Ok sql
            \<and> asked = [(sql, [Bind_Text series,
                 Bind_Int (case i64_opt T opts ''from'' of Some n \<Rightarrow> n | None \<Rightarrow> i64_min),
                 Bind_Int (case i64_opt T opts ''to'' of Some n \<Rightarrow> n | None \<Rightarrow> i64_max)] @ map (\<lambda>kv. Bind_Text (snd kv)) kvs)]
            \<and> list_all (list_all tag_char) (map fst kvs)
            \<and> bind_marks sql = 3 + length kvs \<and> quotes sql = 2 * length kvs)))
   \<and> (case ts_last T (noting D) series tags (w, []) of
      (r, w', asked) \<Rightarrow>
        map fst asked = map fst (snd (snd (ts_last T (noting D) series' tags (w, []))))
      \<and> (asked = [] \<and> isl r \<and> w' = w
        \<or> (\<exists>sql kvs. filter_of T tags = Ok kvs
            \<and> asked = [(sql, [Bind_Text series, Bind_Int i64_min, Bind_Int i64_max] @ map (\<lambda>kv. Bind_Text (snd kv)) kvs)]
            \<and> list_all (list_all tag_char) (map fst kvs)
            \<and> bind_marks sql = 3 + length kvs \<and> quotes sql = 2 * length kvs)))"
proof (rule conjI)
  show "case ts_query T (noting D) series opts (w, []) of
      (r, w', asked) \<Rightarrow>
        map fst asked = map fst (snd (snd (ts_query T (noting D) series' opts (w, []))))
      \<and> (asked = [] \<and> isl r \<and> w' = w
        \<or> (\<exists>sql kvs. filter_of T (table_opt opts ''tags'') = Ok kvs
            \<and> build_query_sql (text_opt T opts ''agg'') (i64_opt T opts ''bucket_ms'') (map fst kvs)
                (i64_opt T opts ''limit'') (i64_opt T opts ''offset'') = Ok sql
            \<and> asked = [(sql, [Bind_Text series,
                 Bind_Int (case i64_opt T opts ''from'' of Some n \<Rightarrow> n | None \<Rightarrow> i64_min),
                 Bind_Int (case i64_opt T opts ''to'' of Some n \<Rightarrow> n | None \<Rightarrow> i64_max)] @ map (\<lambda>kv. Bind_Text (snd kv)) kvs)]
            \<and> list_all (list_all tag_char) (map fst kvs)
            \<and> bind_marks sql = 3 + length kvs \<and> quotes sql = 2 * length kvs))"
  proof (cases "ts_asking T opts")
    case (Inl e)
    then show ?thesis by (simp add: ts_query_asks)
  next
    case (Inr asking)
    obtain sql kvs where asking: "asking = (sql, kvs)" by (cases asking)
    note ok = ts_asking_Ok [OF Inr [unfolded asking]]
    have keys: "list_all (list_all tag_char) (map fst kvs)" using ok(1) by (rule filter_keys)
    let ?run = "\<lambda>series. ts_query T (noting D) series opts (w, [])"
    have asks: "snd (snd (?run series)) = [(sql, ts_params series (case i64_opt T opts ''from'' of Some n \<Rightarrow> n | None \<Rightarrow> i64_min)
        (case i64_opt T opts ''to'' of Some n \<Rightarrow> n | None \<Rightarrow> i64_max) kvs)]" for series
      by (simp add: ts_query_asks Inr asking run_query_asks_once)
    obtain r w' asked where run: "?run series = (r, w', asked)" by (metis prod_cases3)
    have asked: "asked = [(sql, [Bind_Text series,
                 Bind_Int (case i64_opt T opts ''from'' of Some n \<Rightarrow> n | None \<Rightarrow> i64_min),
                 Bind_Int (case i64_opt T opts ''to'' of Some n \<Rightarrow> n | None \<Rightarrow> i64_max)] @ map (\<lambda>kv. Bind_Text (snd kv)) kvs)]"
      using asks [of series] run by (simp add: ts_params_def)
    then have "map fst asked = map fst (snd (snd (?run series')))" by (simp add: asks)
    moreover have "bind_marks sql = 3 + length kvs \<and> quotes sql = 2 * length kvs"
      using query_sql_count [OF keys ok(2)] by simp
    ultimately show ?thesis unfolding run prod.case using asked ok keys by (intro conjI disjI2 exI [of _ sql] exI [of _ kvs]) auto
  qed
next
  show "case ts_last T (noting D) series tags (w, []) of
      (r, w', asked) \<Rightarrow>
        map fst asked = map fst (snd (snd (ts_last T (noting D) series' tags (w, []))))
      \<and> (asked = [] \<and> isl r \<and> w' = w
        \<or> (\<exists>sql kvs. filter_of T tags = Ok kvs
            \<and> asked = [(sql, [Bind_Text series, Bind_Int i64_min, Bind_Int i64_max] @ map (\<lambda>kv. Bind_Text (snd kv)) kvs)]
            \<and> list_all (list_all tag_char) (map fst kvs)
            \<and> bind_marks sql = 3 + length kvs \<and> quotes sql = 2 * length kvs))"
  proof (cases "filter_of T tags")
    case (Inl e)
    then show ?thesis by (simp add: ts_last_def)
  next
    case (Inr kvs)
    then have keys: "list_all (list_all tag_char) (map fst kvs)" by (rule filter_keys)
    note asks = ts_last_asks_once [OF Inr]
    obtain r w' asked where run: "ts_last T (noting D) series tags (w, []) = (r, w', asked)" by (metis prod_cases3)
    have asked: "asked = [(last_sql (map fst kvs), [Bind_Text series, Bind_Int i64_min, Bind_Int i64_max] @ map (\<lambda>kv. Bind_Text (snd kv)) kvs)]"
      using asks [of D series w "[]"] run by (simp add: ts_params_def)
    then have "map fst asked = map fst (snd (snd (ts_last T (noting D) series' tags (w, []))))" by (simp add: asks)
    moreover have "bind_marks (last_sql (map fst kvs)) = 3 + length kvs \<and> quotes (last_sql (map fst kvs)) = 2 * length kvs"
      using last_sql_count [OF keys] by simp
    ultimately show ?thesis unfolding run prod.case using asked Inr keys
      by (intro conjI disjI2 exI [of _ "last_sql (map fst kvs)"] exI [of _ kvs]) auto
  qed
qed

text \<open>
  The key of a tag is letters, digits and underscores, and may be empty.
\<close>

lemma empty_tag_key_passes: "validate_tag_key [] = Ok ()"
  by (simp add: validate_tag_key_def)

text \<open>
  A tag given as a number is compared as its text, and \<open>json_extract\<close> answers a number for a tag
  stored as one.
\<close>

lemma number_compared_as_text:
  assumes "tl_text T k = Ok key" and "list_all tag_char key" and "lua_to_json (tl_vm T) v = Ok j" and "\<forall>s. j \<noteq> JString s"
  shows "result_map (ts_params series a b) (collect_tag_filter T [(k, v)]) =
    Ok [Bind_Text series, Bind_Int a, Bind_Int b, Bind_Text (tl_print T j)]"
  using assms by (cases j) (simp_all add: validate_tag_key_def rewrapped_def map_err_def tag_text_def ts_params_def result_map_def)

section \<open>What was appended last is the latest point\<close>

type_synonym ts_row = "string \<times> int \<times> string option \<times> string"

text \<open>The row of a series with the greatest time, the one inserted last among equals.\<close>

definition later :: "ts_row option \<Rightarrow> ts_row \<Rightarrow> ts_row option" where
  "later best row = (case best of None \<Rightarrow> Some row | Some b \<Rightarrow> if fst (snd b) \<le> fst (snd row) then Some row else Some b)"

definition latest_row :: "string \<Rightarrow> ts_row list \<Rightarrow> ts_row option" where
  "latest_row series rows = foldl later None (filter (\<lambda>r. fst r = series) rows)"

definition last_answer :: "ts_row option \<Rightarrow> sql_value list list" where
  "last_answer row =
     (case row of
        None \<Rightarrow> []
      | Some (series, t, tags, v) \<Rightarrow> [[Sql_Integer t, Sql_Text v, (case tags of None \<Rightarrow> Sql_Null | Some s \<Rightarrow> Sql_Text s)]])"

lemma appended_row:
  assumes put: "ts_append T D series v tags (Some t) w = (Ok l, w')"
    and inserting: "\<And>tags_str text u w'. to_insert D series t tags_str text w = (Ok (Ok u), w') \<Longrightarrow> rows w' = rows w @ [(series, t, tags_str, text)]"
  shows "\<exists>j tags_str. lua_to_json (tl_vm T) v = Ok j \<and> encode_tags T tags = Ok tags_str
    \<and> rows w' = rows w @ [(series, t, tags_str, tl_print T j)]"
proof (cases "lua_to_json (tl_vm T) v")
  case (Inl e)
  with put show ?thesis by (simp add: ts_append_def rewrapped_def map_err_def)
next
  case (Inr j)
  note j = this
  show ?thesis
  proof (cases "encode_tags T tags")
    case (Inl e)
    with put j show ?thesis by (simp add: ts_append_def rewrapped_def map_err_def)
  next
    case (Inr tags_str)
    obtain r w1 where ins: "to_insert D series t tags_str (tl_print T j) w = (r, w1)" by (metis prod.collapse)
    have "r = Ok (Ok ()) \<and> w1 = w'"
    proof (cases r)
      case (Inr r')
      with put j ins \<open>encode_tags T tags = Ok tags_str\<close> show ?thesis
        by (cases r') (simp_all add: ts_append_def rewrapped_def map_err_def)
    qed (use put j ins Inr in \<open>simp add: ts_append_def rewrapped_def map_err_def\<close>)
    with ins have "rows w' = rows w @ [(series, t, tags_str, tl_print T j)]" by (simp add: inserting)
    with j Inr show ?thesis by blast
  qed
qed

lemma later_in: "foldl later best xs = Some r \<Longrightarrow> r \<in> set xs \<or> best = Some r"
proof (induction xs arbitrary: best)
  case (Cons x xs)
  from Cons.IH [of "later best x"] Cons.prems show ?case by (auto simp: later_def split: option.splits if_splits)
qed simp

lemma latest_appended:
  assumes "\<forall>r \<in> set rs. fst r = series \<longrightarrow> fst (snd r) \<le> t"
  shows "latest_row series (rs @ [(series, t, tags, v)]) = Some (series, t, tags, v)"
proof (cases "foldl later None (filter (\<lambda>r. fst r = series) rs)")
  case None
  then show ?thesis by (simp add: latest_row_def later_def)
next
  case (Some r)
  with later_in [OF Some] assms show ?thesis by (simp add: latest_row_def later_def)
qed

text \<open>
  A point appended at a time no earlier than any of its series is what \<open>last\<close> answers, its value as JSON
  carries it, over any database whose insert adds the row and whose \<open>last\<close> statement selects the latest.
\<close>

lemma appended_is_last:
  assumes put: "ts_append T D series v None (Some t) w = (Ok l, w')"
    and inserting: "\<And>tags_str text u w'. to_insert D series t tags_str text w = (Ok (Ok u), w') \<Longrightarrow> rows w' = rows w @ [(series, t, tags_str, text)]"
    and selecting: "fst (to_select D (last_sql []) (ts_params series i64_min i64_max []) w')
      = Ok (Ok (last_answer (latest_row series (rows w'))))"
    and newest: "\<forall>r \<in> set (rows w). fst r = series \<longrightarrow> fst (snd r) \<le> t"
    and text_back: "\<And>j. lua_to_json (tl_vm T) v = Ok j \<Longrightarrow> tl_parse T (tl_print T j) = Ok j"
  shows "\<exists>j. lua_to_json (tl_vm T) v = Ok j \<and>
    fst (ts_last T D series None w') =
      and_then (json_to_lua (tl_vm T) j) (\<lambda>v'. Ok (Some [(''ts'', LInt t), (''value'', v'), (''tags'', LNil)]))"
proof -
  obtain j where j: "lua_to_json (tl_vm T) v = Ok j" and rs: "rows w' = rows w @ [(series, t, None, tl_print T j)]"
    using appended_row [where rows = rows, OF put inserting] by (auto simp: encode_tags_def)
  have read: "tl_parse T (tl_print T j) = Ok j" by (rule text_back [OF j])
  obtain a w2 where sel: "to_select D (last_sql []) (ts_params series i64_min i64_max []) w' = (a, w2)" by (metis prod.collapse)
  have a: "a = Ok (Ok [[Sql_Integer t, Sql_Text (tl_print T j), Sql_Null]])"
    using selecting sel latest_appended [OF newest, of None "tl_print T j"] by (simp add: rs last_answer_def)
  have "fst (ts_last T D series None w') =
      and_then (json_to_lua (tl_vm T) j) (\<lambda>v'. Ok (Some [(''ts'', LInt t), (''value'', v'), (''tags'', LNil)]))"
    by (cases "json_to_lua (tl_vm T) j")
       (simp_all add: ts_last_def filter_of_def sel a last_columns_def Let_def decode_last_def row_field_def
          and_fields_def decode_value_col_def decode_tags_col_def read map_err_def result_map_def)
  with j show ?thesis by blast
qed

end
