(* ===== verification/Http_Client.thy ===== *)
theory Http_Client
  imports Ts
begin

text \<open>
  \<open>bridge/http.rs\<close>: \<open>http.request\<close> and the reading of Server-Sent Events. mlua's conversions are the record
  \<open>client_lib\<close>; reqwest, the environment and the scripts' callbacks are \<open>http_ops\<close>. A response's body is the
  chunks in which it arrives, up to its end or the error that ends it. Trace lines are left out.
\<close>

record client_lib =
  hl_ts :: ts_lib
  hl_u64 :: "lua \<Rightarrow> nat option"
  hl_bool :: "lua \<Rightarrow> bool option"
  hl_function :: "lua \<Rightarrow> nat option"
  hl_no_table :: "lua \<Rightarrow> lua_error"

record client_request =
  cr_method :: string
  cr_url :: string
  cr_timeout :: nat
  cr_headers :: "(string \<times> string) list"
  cr_body :: "string option"

datatype send_failure = Send_Timeout string | Send_Connect string | Send_Other string

record http_response =
  hr_status :: nat
  hr_headers :: "(string \<times> string option) list"
  hr_chunks :: "(string + string) list"

record 'w http_ops =
  hc_env :: "'w \<Rightarrow> env"
  hc_method :: "string \<Rightarrow> string + string"
  hc_send :: "client_request \<Rightarrow> 'w \<Rightarrow> (send_failure + http_response) \<times> 'w"
  hc_callback :: "nat \<Rightarrow> string \<Rightarrow> 'w \<Rightarrow> (lua_error + unit) \<times> 'w"

text \<open>The fields of the table a call answers with.\<close>

record http_result =
  hx_status :: nat
  hx_headers :: "string \<rightharpoonup> string"
  hx_body :: "string option"

definition DEFAULT_TIMEOUT_SECS :: nat where
  "DEFAULT_TIMEOUT_SECS = 120"

definition MAX_BODY_SIZE :: nat where
  "MAX_BODY_SIZE = 10 * 1024 * 1024"

section \<open>The request\<close>

text \<open>What is not a table of strings raises; what is not there is no header.\<close>

definition explicit_headers :: "client_lib \<Rightarrow> (string \<Rightarrow> lua) option \<Rightarrow> lua_error + (string \<times> string) list" where
  "explicit_headers L opts =
     (case opts of
        None \<Rightarrow> Ok []
      | Some t \<Rightarrow>
          (case t ''headers'' of
             LNil \<Rightarrow> Ok []
           | LTable mt es \<Rightarrow>
               collect_results (\<lambda>(k, v).
                 and_then (tl_text (hl_ts L) k) (\<lambda>k. and_then (tl_text (hl_ts L) v) (\<lambda>v. Ok (k, v)))) es
           | v \<Rightarrow> Err (hl_no_table L v)))"

definition trace_headers :: "env \<Rightarrow> string option \<Rightarrow> (string \<times> string option) list" where
  "trace_headers env fallback_agent_id =
     [(''x-trace-id'', env_var env ''AGENT_BLOCK_TRACE_ID''),
      (''x-run-id'', env_var env ''AGENT_BLOCK_RUN_ID''),
      (''x-agent-id'',
         (case env_var env ''AGENT_BLOCK_AGENT_ID'' of Some v \<Rightarrow> Some v | None \<Rightarrow> fallback_agent_id)),
      (''x-agent-name'', env_var env ''AGENT_BLOCK_AGENT_NAME'')]"

fun added_headers :: "string set \<Rightarrow> (string \<times> string option) list \<Rightarrow> (string \<times> string) list" where
  "added_headers explicit [] = []"
| "added_headers explicit ((name, val_opt) # hs) =
     (if name \<in> explicit then added_headers explicit hs
      else case val_opt of
             Some v \<Rightarrow> if v = [] then added_headers explicit hs else (name, v) # added_headers explicit hs
           | None \<Rightarrow> added_headers explicit hs)"

definition with_trace_headers :: "env \<Rightarrow> string option \<Rightarrow> (string \<times> string) list \<Rightarrow> (string \<times> string) list" where
  "with_trace_headers env fallback_agent_id hs =
     hs @ added_headers (set (map (\<lambda>h. to_ascii_lowercase (fst h)) hs)) (trace_headers env fallback_agent_id)"

definition opt_field :: "(lua \<Rightarrow> 'a option) \<Rightarrow> (string \<Rightarrow> lua) option \<Rightarrow> string \<Rightarrow> 'a option" where
  "opt_field conv opts k = Option.bind opts (\<lambda>t. if t k = LNil then None else conv (t k))"

definition build_request ::
  "client_lib \<Rightarrow> 'w http_ops \<Rightarrow> string option \<Rightarrow> string \<Rightarrow> (string \<Rightarrow> lua) option \<Rightarrow> 'w \<Rightarrow> lua_error + client_request" where
  "build_request L H fallback_agent_id url opts w =
     (let text_method = (case text_opt (hl_ts L) opts ''method'' of Some m \<Rightarrow> m | None \<Rightarrow> ''GET'');
          timeout_secs = (case opt_field (hl_u64 L) opts ''timeout'' of Some n \<Rightarrow> n | None \<Rightarrow> DEFAULT_TIMEOUT_SECS)
      in and_then (map_err (\<lambda>e. External (fmt [''invalid HTTP method '', CHR 0x27 # text_method, CHR 0x27 # '': '', e]))
                     (hc_method H text_method)) (\<lambda>reqwest_method.
         and_then (explicit_headers L opts) (\<lambda>hs.
         Ok \<lparr>cr_method = reqwest_method, cr_url = url, cr_timeout = timeout_secs,
             cr_headers = with_trace_headers (hc_env H w) fallback_agent_id hs,
             cr_body = text_opt (hl_ts L) opts ''body''\<rparr>)))"

definition send_error :: "nat \<Rightarrow> send_failure \<Rightarrow> lua_error" where
  "send_error timeout_secs f =
     External (case f of
        Send_Timeout e \<Rightarrow> fmt [''http timeout after '', string_of_nat timeout_secs, ''s: '', e]
      | Send_Connect e \<Rightarrow> ''http connection error: '' @ e
      | Send_Other e \<Rightarrow> ''http request error: '' @ e)"

section \<open>Server-Sent Events\<close>

text \<open>\<open>find("\n\n")\<close>, with the text before and after it.\<close>

fun split_event :: "string \<Rightarrow> (string \<times> string) option" where
  "split_event (c # d # cs) =
     (if c = CHR 0x0A \<and> d = CHR 0x0A then Some ([], cs)
      else map_option (\<lambda>(b, r). (c # b, r)) (split_event (d # cs)))"
| "split_event _ = None"

lemma split_event_Some: "split_event s = Some (b, r) \<Longrightarrow> s = b @ [CHR 0x0A, CHR 0x0A] @ r"
  by (induction s arbitrary: b rule: split_event.induct) (auto split: if_splits)

definition sse_data :: "string \<Rightarrow> string option" where
  "sse_data line =
     (if starts_with ''data: '' line then Some (trim (drop 6 line))
      else if starts_with ''data:'' line then Some (trim (drop 5 line))
      else None)"

type_synonym 'w on_data = "(string \<Rightarrow> 'w \<Rightarrow> (lua_error + unit) \<times> 'w) option"

definition hand_on :: "'w on_data \<Rightarrow> string \<Rightarrow> 'w \<Rightarrow> (lua_error + unit) \<times> 'w" where
  "hand_on cb v w = (case cb of Some f \<Rightarrow> f v w | None \<Rightarrow> (Ok (), w))"

text \<open>\<open>Ok True\<close>: the sentinel ended the stream.\<close>

fun sse_lines :: "'w on_data \<Rightarrow> string list \<Rightarrow> 'w \<Rightarrow> (lua_error + bool) \<times> 'w" where
  "sse_lines cb [] w = (Ok False, w)"
| "sse_lines cb (line # ls) w =
     (case sse_data line of
        None \<Rightarrow> sse_lines cb ls w
      | Some d \<Rightarrow>
          if d = ''[DONE]'' then (Ok True, w)
          else case hand_on cb d w of
                 (Err e, w') \<Rightarrow> (Err e, w')
               | (Ok _, w') \<Rightarrow> sse_lines cb ls w')"

text \<open>\<open>Ok None\<close>: the sentinel ended the stream; otherwise the buffer's rest.\<close>

function sse_buffer :: "'w on_data \<Rightarrow> string \<Rightarrow> 'w \<Rightarrow> (lua_error + string option) \<times> 'w" where
  "sse_buffer cb buffer w =
     (case split_event buffer of
        None \<Rightarrow> (Ok (Some buffer), w)
      | Some (event_block, rest) \<Rightarrow>
          (case sse_lines cb (str_lines event_block) w of
             (Err e, w') \<Rightarrow> (Err e, w')
           | (Ok True, w') \<Rightarrow> (Ok None, w')
           | (Ok False, w') \<Rightarrow> sse_buffer cb rest w'))"
  by pat_completeness auto
termination
  by (relation "measure (\<lambda>(cb, buffer, w). length buffer)") (auto dest: split_event_Some)

declare sse_buffer.simps [simp del]

fun read_sse :: "'w on_data \<Rightarrow> string \<Rightarrow> (string + string) list \<Rightarrow> 'w \<Rightarrow> (lua_error + unit) \<times> 'w" where
  "read_sse cb buffer [] w = (Ok (), w)"
| "read_sse cb buffer (Err e # cs) w = (Err (External (''http stream read error: '' @ e)), w)"
| "read_sse cb buffer (Ok chunk # cs) w =
     (case sse_buffer cb (buffer @ from_utf8_lossy chunk) w of
        (Err e, w') \<Rightarrow> (Err e, w')
      | (Ok None, w') \<Rightarrow> (Ok (), w')
      | (Ok (Some rest), w') \<Rightarrow> read_sse cb rest cs w')"

section \<open>The call\<close>

text \<open>A header whose value is not visible ASCII is left out; of several under one name the last is kept.\<close>

definition response_headers :: "(string \<times> string option) list \<Rightarrow> string \<rightharpoonup> string" where
  "response_headers hs =
     foldl (\<lambda>t (k, v). case v of Some s \<Rightarrow> t(k \<mapsto> s) | None \<Rightarrow> t) Map.empty hs"

definition body_bytes :: "(string + string) list \<Rightarrow> lua_error + string" where
  "body_bytes cs = map_err (\<lambda>e. External (''http read body error: '' @ e)) (result_map concat (collect_results id cs))"

definition read_body :: "http_response \<Rightarrow> lua_error + string" where
  "read_body resp =
     and_then (body_bytes (hr_chunks resp)) (\<lambda>bytes.
       if length bytes > MAX_BODY_SIZE
       then Err (External (fmt [''response body too large: '', string_of_nat (length bytes), '' bytes (max '',
              string_of_nat MAX_BODY_SIZE, '')'']))
       else Ok (from_utf8_lossy bytes))"

definition http_call ::
  "client_lib \<Rightarrow> 'w http_ops \<Rightarrow> string option \<Rightarrow> string \<Rightarrow> (string \<Rightarrow> lua) option \<Rightarrow> 'w \<Rightarrow> (lua_error + http_result) \<times> 'w" where
  "http_call L H fallback_agent_id url opts w =
     (let stream_mode = (case opt_field (hl_bool L) opts ''stream'' of Some b \<Rightarrow> b | None \<Rightarrow> False);
          on_data = (if stream_mode then map_option (hc_callback H) (opt_field (hl_function L) opts ''on_data'') else None)
      in case build_request L H fallback_agent_id url opts w of
           Err e \<Rightarrow> (Err e, w)
         | Ok req \<Rightarrow>
             (case hc_send H req w of
                (Err f, w1) \<Rightarrow> (Err (send_error (cr_timeout req) f), w1)
              | (Ok resp, w1) \<Rightarrow>
                  (let res = \<lparr>hx_status = hr_status resp, hx_headers = response_headers (hr_headers resp), hx_body = None\<rparr> in
                   if stream_mode
                   then (case read_sse on_data [] (hr_chunks resp) w1 of
                           (Err e, w2) \<Rightarrow> (Err e, w2)
                         | (Ok _, w2) \<Rightarrow> (Ok res, w2))
                   else (result_map (\<lambda>b. res\<lparr>hx_body := Some b\<rparr>) (read_body resp), w1))))"

end
