(* ===== verification/Http_Properties.thy ===== *)
theory Http_Properties
  imports Http_Client
begin

text \<open>
  A stream hands on the events of its text, whatever the chunks it comes in; a caller's headers stand
  against the trace context's.
\<close>

section \<open>The events of a text\<close>

text \<open>The blocks of a text that a blank line ends, and what comes after the last.\<close>

function complete_blocks :: "string \<Rightarrow> string list" where
  "complete_blocks t = (case split_event t of None \<Rightarrow> [] | Some (b, r) \<Rightarrow> b # complete_blocks r)"
  by pat_completeness auto
termination by (relation "measure length") (auto dest: split_event_Some)

function left_over :: "string \<Rightarrow> string" where
  "left_over t = (case split_event t of None \<Rightarrow> t | Some (b, r) \<Rightarrow> left_over r)"
  by pat_completeness auto
termination by (relation "measure length") (auto dest: split_event_Some)

declare complete_blocks.simps [simp del] left_over.simps [simp del]

definition block_values :: "string \<Rightarrow> string list" where
  "block_values b = List.map_filter sse_data (str_lines b)"

definition sse_values :: "string \<Rightarrow> string list" where
  "sse_values t = concat (map block_values (complete_blocks t))"

fun deliver :: "'w on_data \<Rightarrow> string list \<Rightarrow> 'w \<Rightarrow> (lua_error + unit) \<times> 'w" where
  "deliver cb [] w = (Ok (), w)"
| "deliver cb (v # vs) w =
     (case cb of
        None \<Rightarrow> deliver cb vs w
      | Some f \<Rightarrow> (case f v w of (Err e, w') \<Rightarrow> (Err e, w') | (Ok _, w') \<Rightarrow> deliver cb vs w'))"

lemma deliver_hand_on:
  "deliver cb (v # vs) w = (case hand_on cb v w of (Err e, w') \<Rightarrow> (Err e, w') | (Ok _, w') \<Rightarrow> deliver cb vs w')"
  by (simp add: hand_on_def split: option.split)

declare deliver.simps(2) [simp del] deliver_hand_on [simp]

abbreviation DONE :: string where "DONE \<equiv> ''[DONE]''"

abbreviation until_done :: "string list \<Rightarrow> string list" where
  "until_done vs \<equiv> takeWhile (\<lambda>v. v \<noteq> DONE) vs"

lemma until_done_append: "until_done (xs @ ys) = (if DONE \<in> set xs then until_done xs else xs @ until_done ys)"
  by (induction xs) auto

lemma until_done_all: "DONE \<notin> set xs \<Longrightarrow> until_done xs = xs"
  by (induction xs) auto

lemma blocks_step:
  "split_event t = None \<Longrightarrow> complete_blocks t = [] \<and> left_over t = t"
  "split_event t = Some (b, r) \<Longrightarrow> complete_blocks t = b # complete_blocks r \<and> left_over t = left_over r"
  by (simp_all add: complete_blocks.simps [of t] left_over.simps [of t])

lemma blocks_rejoin: "concat (map (\<lambda>b. b @ [CHR 0x0A, CHR 0x0A]) (complete_blocks t)) @ left_over t = t"
proof (induction t rule: complete_blocks.induct)
  case (1 t)
  show ?case
  proof (cases "split_event t")
    case (Some br)
    obtain b r where "br = (b, r)" by force
    with Some have t: "t = b @ [CHR 0x0A, CHR 0x0A] @ r"
      using \<open>br = (b, r)\<close> by (intro split_event_Some) simp
    have "concat (map (\<lambda>b. b @ [CHR 0x0A, CHR 0x0A]) (complete_blocks r)) @ left_over r = r"
      using 1 Some \<open>br = (b, r)\<close> by simp
    then show ?thesis using Some \<open>br = (b, r)\<close> by (simp add: blocks_step(2)) (simp add: t)
  qed (simp add: blocks_step(1))
qed

lemma split_event_append: "split_event a = Some (b, r) \<Longrightarrow> split_event (a @ t) = Some (b, r @ t)"
  by (induction a arbitrary: b rule: split_event.induct) (auto split: if_splits)

lemma left_over_none: "split_event (left_over t) = None"
  by (induction t rule: left_over.induct) (subst left_over.simps, simp split: option.splits)

lemma complete_blocks_append: "complete_blocks (a @ t) = complete_blocks a @ complete_blocks (left_over a @ t)"
proof (induction a rule: complete_blocks.induct)
  case (1 a)
  show ?case
  proof (cases "split_event a")
    case (Some br)
    obtain b r where "br = (b, r)" by force
    with Some 1 show ?thesis by (simp add: blocks_step(2) split_event_append [of a b r t])
  qed (simp add: blocks_step(1))
qed

lemma sse_values_append: "sse_values (a @ t) = sse_values a @ sse_values (left_over a @ t)"
  by (simp add: sse_values_def complete_blocks_append [of a t])

section \<open>Reading\<close>

lemma deliver_append:
  "deliver cb (xs @ ys) w = (case deliver cb xs w of (Err e, w') \<Rightarrow> (Err e, w') | (Ok _, w') \<Rightarrow> deliver cb ys w')"
  by (induction xs arbitrary: w) (auto split: prod.splits sum.splits)

lemma sse_lines_deliver:
  "sse_lines cb ls w =
     (case deliver cb (until_done (List.map_filter sse_data ls)) w of
        (Err e, w') \<Rightarrow> (Err e, w')
      | (Ok _, w') \<Rightarrow> (Ok (DONE \<in> set (List.map_filter sse_data ls)), w'))"
  by (induction ls arbitrary: w) (auto simp: map_filter_simps split: option.splits prod.splits sum.splits)

lemma sse_buffer_deliver:
  "sse_buffer cb t w =
     (case deliver cb (until_done (sse_values t)) w of
        (Err e, w') \<Rightarrow> (Err e, w')
      | (Ok _, w') \<Rightarrow> (Ok (if DONE \<in> set (sse_values t) then None else Some (left_over t)), w'))"
proof (induction t arbitrary: w rule: complete_blocks.induct)
  case (1 t)
  show ?case
  proof (cases "split_event t")
    case None
    then show ?thesis by (simp add: sse_buffer.simps [of cb t] sse_values_def blocks_step(1))
  next
    case (Some br)
    obtain b r where br: "br = (b, r)" by force
    have vs: "sse_values t = block_values b @ sse_values r"
      using Some br by (simp add: sse_values_def blocks_step(2))
    have left: "left_over t = left_over r" using Some br by (simp add: blocks_step(2))
    have here: "sse_buffer cb t w =
        (case deliver cb (until_done (block_values b)) w of
           (Err e, w') \<Rightarrow> (Err e, w')
         | (Ok _, w') \<Rightarrow> if DONE \<in> set (block_values b) then (Ok None, w') else sse_buffer cb r w')"
      using Some br
      by (simp add: sse_buffer.simps [of cb t] sse_lines_deliver block_values_def split: prod.splits sum.splits bool.splits)
    show ?thesis
    proof (cases "DONE \<in> set (block_values b)")
      case True
      then show ?thesis by (simp add: here vs until_done_append split: prod.splits sum.splits)
    next
      case False
      then show ?thesis
        using "1.IH" [OF Some br [symmetric]] by (simp add: here vs left until_done_append until_done_all deliver_append split: prod.splits sum.splits)
    qed
  qed
qed

definition stream_end :: "string option \<Rightarrow> lua_error + unit" where
  "stream_end failure =
     (case failure of None \<Rightarrow> Ok () | Some e \<Rightarrow> Err (External (''http stream read error: '' @ e)))"

lemma read_sse_deliver:
  assumes "split_event buffer = None"
  shows "read_sse cb buffer (map Ok chunks @ (case failure of None \<Rightarrow> [] | Some e \<Rightarrow> [Err e])) w =
    (let vs = sse_values (buffer @ concat (map from_utf8_lossy chunks)) in
     case deliver cb (until_done vs) w of
       (Err e, w') \<Rightarrow> (Err e, w')
     | (Ok _, w') \<Rightarrow> (if DONE \<in> set vs then Ok () else stream_end failure, w'))"
  using assms
proof (induction chunks arbitrary: buffer w)
  case Nil
  then show ?case by (simp add: sse_values_def blocks_step(1) stream_end_def split: option.splits)
next
  case (Cons c cs)
  let ?t = "buffer @ from_utf8_lossy c"
  let ?more = "concat (map from_utf8_lossy cs)"
  have vs: "sse_values (buffer @ concat (map from_utf8_lossy (c # cs))) = sse_values ?t @ sse_values (left_over ?t @ ?more)"
    using sse_values_append [of ?t ?more] by simp
  show ?case
  proof (cases "DONE \<in> set (sse_values ?t)")
    case True
    then show ?thesis unfolding vs by (simp add: sse_buffer_deliver until_done_append Let_def split: prod.splits sum.splits)
  next
    case False
    then show ?thesis
      using Cons.IH [OF left_over_none] unfolding vs
      by (simp add: sse_buffer_deliver until_done_append until_done_all deliver_append Let_def split: prod.splits sum.splits)
  qed
qed

section \<open>A text written out of events\<close>

text \<open>
  The other way round, without the reader: a stream is blocks of lines, each block ended by a blank line.
  The value of a line is what stands after its \<open>data:\<close>, without the blanks around it; the other lines have
  none. The lines are ended by a line feed alone, and only the first of a block may be empty.
\<close>

datatype sse_line = Data_Line string | Other_Line string

fun line_text :: "sse_line \<Rightarrow> string" where
  "line_text (Data_Line v) = ''data:'' @ v"
| "line_text (Other_Line l) = l"

fun line_values :: "sse_line \<Rightarrow> string list" where
  "line_values (Data_Line v) = [trim v]"
| "line_values (Other_Line l) = []"

definition line_ok :: "sse_line \<Rightarrow> bool" where
  "line_ok l \<longleftrightarrow> set (line_text l) \<inter> {CHR 0x0A, CHR 0x0D} = {}
     \<and> (case l of Other_Line t \<Rightarrow> \<not> starts_with ''data:'' t | Data_Line v \<Rightarrow> True)"

definition block_ok :: "sse_line list \<Rightarrow> bool" where
  "block_ok ls \<longleftrightarrow> ls \<noteq> [] \<and> list_all line_ok ls \<and> list_all (\<lambda>l. line_text l \<noteq> []) (tl ls)"

definition block_text :: "sse_line list \<Rightarrow> string" where
  "block_text ls = join_with [CHR 0x0A] (map line_text ls) @ [CHR 0x0A, CHR 0x0A]"

definition event_values :: "sse_line list list \<Rightarrow> string list" where
  "event_values bs = concat (map (\<lambda>ls. concat (map line_values ls)) bs)"

definition unended :: "string \<Rightarrow> bool" where
  "unended t \<longleftrightarrow> (\<nexists>a b. t = a @ [CHR 0x0A, CHR 0x0A] @ b)"

lemma unended_split: "unended t \<Longrightarrow> split_event t = None"
proof (cases "split_event t")
  case (Some br)
  then have "t = fst br @ [CHR 0x0A, CHR 0x0A] @ snd br" by (cases br) (auto dest: split_event_Some)
  then show "unended t \<Longrightarrow> ?thesis" unfolding unended_def by blast
qed simp

text \<open>Lines that can be joined and cut again.\<close>

definition joinable :: "string list \<Rightarrow> bool" where
  "joinable ss \<longleftrightarrow> ss \<noteq> [] \<and> list_all (\<lambda>s. CHR 0x0A \<notin> set s) ss \<and> list_all (\<lambda>s. s \<noteq> []) (tl ss)"

lemma joinable_Cons: "joinable (s # v # ss) \<Longrightarrow> CHR 0x0A \<notin> set s \<and> v \<noteq> [] \<and> joinable (v # ss)"
  by (auto simp: joinable_def)

lemma split_event_Cons:
  "c \<noteq> CHR 0x0A \<Longrightarrow> split_event (c # u) = map_option (\<lambda>(b, r). (c # b, r)) (split_event u)"
  by (cases u) simp_all

lemma split_event_line:
  "CHR 0x0A \<notin> set s \<Longrightarrow> split_event (s @ t) = map_option (\<lambda>(b, r). (s @ b, r)) (split_event t)"
  by (induction s) (auto simp: split_event_Cons option.map_comp comp_def split_def option.map_ident)

lemma split_event_joined:
  "joinable ss \<Longrightarrow> split_event (join_with [CHR 0x0A] ss @ [CHR 0x0A, CHR 0x0A] @ r) = Some (join_with [CHR 0x0A] ss, r)"
proof (induction "[CHR 0x0A]" ss rule: join_with.induct)
  case (2 s)
  then show ?case using split_event_line [of s "[CHR 0x0A, CHR 0x0A] @ r"] by (simp add: joinable_def)
next
  case (3 s v ss)
  note parts = joinable_Cons [OF "3.prems"]
  obtain d v' where v: "v = d # v'" using parts by (cases v) auto
  obtain u where u: "join_with [CHR 0x0A] (v # ss) = d # u" by (cases ss) (simp_all add: v)
  have "d \<noteq> CHR 0x0A" using parts v by (auto simp: joinable_def)
  moreover note "3.hyps" [OF parts [THEN conjunct2, THEN conjunct2]]
  ultimately have "split_event (CHR 0x0A # join_with [CHR 0x0A] (v # ss) @ [CHR 0x0A, CHR 0x0A] @ r)
      = Some (CHR 0x0A # join_with [CHR 0x0A] (v # ss), r)"
    unfolding u by simp
  then show ?case
    using parts split_event_line [of s "CHR 0x0A # join_with [CHR 0x0A] (v # ss) @ [CHR 0x0A, CHR 0x0A] @ r"] by simp
qed (simp add: joinable_def)

lemma split_lines_cut: "CHR 0x0A \<notin> set a \<Longrightarrow> split_lines (a @ CHR 0x0A # t) = a # split_lines t"
  by (induction a) auto

lemma split_lines_whole: "CHR 0x0A \<notin> set a \<Longrightarrow> a \<noteq> [] \<Longrightarrow> split_lines a = [a]"
  by (induction a rule: induct_list012) auto

lemma split_lines_joined:
  "joinable ss \<Longrightarrow> ss \<noteq> [[]] \<Longrightarrow> split_lines (join_with [CHR 0x0A] ss) = ss"
proof (induction "[CHR 0x0A]" ss rule: join_with.induct)
  case (3 s v ss)
  note parts = joinable_Cons [OF "3.prems"(1)]
  then have "split_lines (join_with [CHR 0x0A] (v # ss)) = v # ss" by (intro "3.hyps") auto
  with parts split_lines_cut [of s "join_with [CHR 0x0A] (v # ss)"] show ?case by simp
qed (auto simp: joinable_def split_lines_whole)

lemma str_lines_plain:
  assumes "list_all (\<lambda>l. CHR 0x0D \<notin> set l) (split_lines s)"
  shows "str_lines s = split_lines s"
proof -
  have "strip_cr l = l" if "CHR 0x0D \<notin> set l" for l
  proof (cases "l = []")
    case False
    from last_in_set [OF this] that have "last l \<noteq> CHR 0x0D" by metis
    then show ?thesis by (simp add: strip_cr_def)
  qed (simp add: strip_cr_def)
  then have same: "map strip_cr ls = ls" if "list_all (\<lambda>l. CHR 0x0D \<notin> set l) ls" for ls
    using that by (induction ls) auto
  have "map strip_cr (butlast (split_lines s)) @ [last (split_lines s)] = split_lines s" if "s \<noteq> []"
  proof -
    have "split_lines s \<noteq> []" using that by (cases s) (auto split: list.split)
    moreover have "list_all (\<lambda>l. CHR 0x0D \<notin> set l) (butlast (split_lines s))"
      using assms by (auto simp: list_all_iff dest: in_set_butlastD)
    ultimately show ?thesis by (simp add: same)
  qed
  with same [OF assms] show ?thesis by (simp add: str_lines_def Let_def)
qed

lemma trim_blank: "trim (CHR '' '' # v) = trim v"
proof -
  have "find (\<lambda>p. p \<noteq> [] \<and> starts_with p (CHR '' '' # v)) white_space = Some '' ''"
    by (simp add: white_space_def)
  then have "trim_start (CHR '' '' # v) = trim_start v"
    by (simp add: trim_start_def strip_all.simps [of white_space "CHR '' '' # v"])
  then show ?thesis by (simp add: trim_def)
qed

lemma sse_data_line: "line_ok l \<Longrightarrow> sse_data (line_text l) = (case l of Data_Line v \<Rightarrow> Some (trim v) | Other_Line t \<Rightarrow> None)"
proof (cases l)
  case (Data_Line v)
  then show ?thesis by (cases v) (auto simp: sse_data_def trim_blank)
next
  case (Other_Line t)
  assume "line_ok l"
  with Other_Line have "\<not> starts_with ''data:'' t" by (simp add: line_ok_def)
  moreover from this have "\<not> starts_with ''data: '' t" by (auto simp: starts_with_iff)
  ultimately show ?thesis using Other_Line by (simp add: sse_data_def)
qed

lemma lines_values:
  "list_all line_ok ls \<Longrightarrow> List.map_filter sse_data (map line_text ls) = concat (map line_values ls)"
proof (induction ls)
  case (Cons l ls)
  then have "line_ok l" by simp
  note here = sse_data_line [OF this]
  from Cons show ?case by (cases l) (use here in \<open>simp_all add: map_filter_simps del: line_text.simps\<close>)
qed simp

lemma block_joinable: "block_ok ls \<Longrightarrow> joinable (map line_text ls)"
  by (cases ls) (auto simp: block_ok_def joinable_def line_ok_def list_all_iff)

lemma block_values_joined:
  assumes "block_ok ls"
  shows "block_values (join_with [CHR 0x0A] (map line_text ls)) = concat (map line_values ls)"
proof (cases "map line_text ls = [[]]")
  case True
  then obtain l where "ls = [l]" "line_text l = []" by auto
  then show ?thesis by (cases l) (simp_all add: block_values_def str_lines_def)
next
  case False
  note cut = split_lines_joined [OF block_joinable [OF assms] False]
  have "list_all (\<lambda>s. CHR 0x0D \<notin> set s) (map line_text ls)"
    using assms by (auto simp: block_ok_def line_ok_def list_all_iff)
  then have "str_lines (join_with [CHR 0x0A] (map line_text ls)) = map line_text ls"
    using str_lines_plain [of "join_with [CHR 0x0A] (map line_text ls)"] by (simp add: cut)
  with assms show ?thesis by (simp add: block_values_def lines_values block_ok_def)
qed

lemma sse_values_written:
  assumes "list_all block_ok bs" and "unended rest"
  shows "sse_values (concat (map block_text bs) @ rest) = event_values bs"
  using assms(1)
proof (induction bs)
  case Nil
  then show ?case using assms(2) by (simp add: sse_values_def event_values_def blocks_step(1) unended_split)
next
  case (Cons b bs)
  let ?r = "concat (map block_text bs) @ rest"
  have "split_event (block_text b @ ?r) = Some (join_with [CHR 0x0A] (map line_text b), ?r)"
    using split_event_joined [OF block_joinable, of b ?r] Cons.prems by (simp add: block_text_def)
  then have "sse_values (block_text b @ ?r) = block_values (join_with [CHR 0x0A] (map line_text b)) @ sse_values ?r"
    by (simp add: sse_values_def blocks_step(2))
  with Cons show ?case by (simp add: event_values_def block_values_joined)
qed

text \<open>
  C35: A streamed answer whose text is blocks of lines, each line ended by a line feed alone and each block
  by a blank line, and perhaps one more that has not ended, hands the script's callback exactly the values
  of the data lines of the ended blocks, in order, up to the sentinel or to the first call that raises,
  wherever between its characters the text was cut into chunks; it fails when such a call raises, or when
  the connection broke before the sentinel.
\<close>

theorem stream_hands_on_its_events:
  assumes "list_all block_ok bs" and "unended rest"
    and "concat chunks = concat (map block_text bs) @ rest" and "list_all valid_utf8 chunks"
  shows "read_sse cb [] (map Ok chunks @ (case failure of None \<Rightarrow> [] | Some e \<Rightarrow> [Err e])) w =
     (case deliver cb (until_done (event_values bs)) w of
       (Err e, w') \<Rightarrow> (Err e, w')
     | (Ok _, w') \<Rightarrow>
         (if DONE \<in> set (event_values bs) then Ok ()
          else case failure of None \<Rightarrow> Ok () | Some e \<Rightarrow> Err (External (''http stream read error: '' @ e)), w'))"
proof -
  have "map from_utf8_lossy chunks = chunks"
    using assms(4) by (induction chunks) (simp_all add: lossy_valid_id)
  then have "sse_values (concat (map from_utf8_lossy chunks)) = event_values bs"
    using sse_values_written [OF assms(1,2)] assms(3) by simp
  then show ?thesis
    using read_sse_deliver [of "[]" cb chunks failure w]
    by (simp only: split_event.simps append_Nil Let_def stream_end_def simp_thms)
qed

text \<open>Three chunks, cut within a line and within the end of a block; the callback keeps what it is called with.\<close>

definition demo_blocks :: "sse_line list list" where
  "demo_blocks = [[Other_Line ''event: x'', Data_Line '' hello'', Data_Line ''there''], [Data_Line ''[DONE]''], [Data_Line ''late'']]"

definition demo_chunks :: "string list" where
  "demo_chunks = [''event: x'' @ CHR 0x0A # ''data: he'', ''llo'' @ CHR 0x0A # ''data:there'' @ [CHR 0x0A],
     CHR 0x0A # ''data:[DONE]'' @ [CHR 0x0A, CHR 0x0A] @ ''data:late'' @ [CHR 0x0A, CHR 0x0A]]"

theorem stream_hands_on_its_events_witness:
  "read_sse (Some (\<lambda>v w. (Ok (), w @ [v]))) [] (map Ok demo_chunks @ [Err ''reset'']) [] = (Ok (), [''hello'', ''there''])"
proof -
  have ok: "list_all block_ok demo_blocks"
    by (simp add: demo_blocks_def block_ok_def line_ok_def)
  have rest: "unended []" by (simp add: unended_def)
  have same: "concat demo_chunks = concat (map block_text demo_blocks) @ []"
    by (simp add: demo_chunks_def demo_blocks_def block_text_def)
  have utf8: "list_all valid_utf8 demo_chunks" by code_simp
  have "event_values demo_blocks = [''hello'', ''there'', ''[DONE]'', ''late'']" by code_simp
  with stream_hands_on_its_events [OF ok rest same utf8, of "Some (\<lambda>v w. (Ok (), w @ [v]))" "Some ''reset''" "[]"]
  show ?thesis by (simp add: hand_on_def)
qed

section \<open>What a stream loses\<close>

text \<open>A text whose lines end in a carriage return and a line feed has no blank line, and no event.\<close>

lemma split_event_crlf: "list_all (\<lambda>l. CHR 0x0A \<notin> set l) ls \<Longrightarrow> split_event (concat (map (\<lambda>l. l @ [CHR 0x0D, CHR 0x0A]) ls)) = None"
proof -
  have line: "split_event (l @ [CHR 0x0D, CHR 0x0A] @ t) = map_option (\<lambda>(b, r). (l @ [CHR 0x0D, CHR 0x0A] @ b, r)) (split_event t)"
    if "CHR 0x0A \<notin> set l" "t = [] \<or> hd t \<noteq> CHR 0x0A" for l t
  proof -
    have "split_event (CHR 0x0D # CHR 0x0A # t) = map_option (\<lambda>(b, r). ([CHR 0x0D, CHR 0x0A] @ b, r)) (split_event t)"
      using that(2) by (cases t) (simp_all add: option.map_comp comp_def split_def)
    then show ?thesis using that(1)
    proof (induction l)
      case (Cons c l)
      then show ?case by (cases l) (auto simp: option.map_comp comp_def split_def)
    qed simp
  qed
  assume "list_all (\<lambda>l. CHR 0x0A \<notin> set l) ls"
  then show ?thesis
  proof (induction ls)
    case (Cons l ls)
    have "hd (concat (map (\<lambda>l. l @ [CHR 0x0D, CHR 0x0A]) ls)) \<noteq> CHR 0x0A \<or> ls = []"
      using Cons.prems by (cases ls; cases "hd ls") auto
    with Cons line [of l "concat (map (\<lambda>l. l @ [CHR 0x0D, CHR 0x0A]) ls)"] show ?case by auto
  qed simp
qed

lemma crlf_stream_hands_on_nothing:
  "list_all (\<lambda>l. CHR 0x0A \<notin> set l) ls \<Longrightarrow> sse_values (concat (map (\<lambda>l. l @ [CHR 0x0D, CHR 0x0A]) ls)) = []"
  by (simp add: sse_values_def blocks_step(1) split_event_crlf)

text \<open>A character whose bytes come in two chunks is lost, each half becoming replacement characters.\<close>

lemma cut_character_is_lost:
  "valid_utf8 [CHR 0xC3, CHR 0xA9]"
  "concat (map from_utf8_lossy [[CHR 0xC3], [CHR 0xA9]]) = replacement_character @ replacement_character"
  by (code_simp, code_simp)

section \<open>The headers of a request\<close>

text \<open>
  What the caller sets is sent as it is; a trace header is added exactly when it has a text and the caller
  set none of its name, whatever the case of its letters.
\<close>

lemma added_headers_set:
  "set (added_headers explicit hs) = {(n, v). (n, Some v) \<in> set hs \<and> n \<notin> explicit \<and> v \<noteq> []}"
  by (induction explicit hs rule: added_headers.induct) (auto split: option.splits)

lemma callers_headers_stand:
  assumes "build_request L H fallback url opts w = Ok req"
  shows "\<exists>hs added. explicit_headers L opts = Ok hs \<and> cr_headers req = hs @ added
    \<and> (\<forall>n v. (n, v) \<in> set added \<longleftrightarrow>
         (n, Some v) \<in> set (trace_headers (hc_env H w) fallback) \<and> v \<noteq> []
         \<and> (\<forall>h \<in> set hs. to_ascii_lowercase (fst h) \<noteq> n))"
  using assms
  by (auto simp: build_request_def Let_def and_then_Ok_iff with_trace_headers_def added_headers_set)

text \<open>An agent id that is set and empty hides the process's own, which the other bridges then send.\<close>

lemma empty_id_hides_the_process:
  assumes "env_var env ''AGENT_BLOCK_AGENT_ID'' = Some []"
  shows "(''x-agent-id'', v) \<notin> set (with_trace_headers env (Some agent) [])"
    and "map_get (obs_object env (Some agent)) ''agent_id'' = Some (JString agent)"
proof -
  show "(''x-agent-id'', v) \<notin> set (with_trace_headers env (Some agent) [])"
    unfolding with_trace_headers_def set_append added_headers_set using assms by (simp add: trace_headers_def)
  show "map_get (obs_object env (Some agent)) ''agent_id'' = Some (JString agent)"
    using assms by (simp add: obs_object_def env_nonempty_def insert_some_def split: option.splits)
qed

end
