(* ===== verification/Tools.thy ===== *)
theory Tools
  imports Http_Client
begin

text \<open>
  \<open>bridge/mod.rs\<close> and \<open>bridge/tool.rs\<close>: the bridges a VM is given, how the Lua half of one is found and
  put onto its table, and the registry of tools. Loading and running Lua is the record \<open>loader\<close>; tables are
  read through a heap that the installation does not change. Trace lines are left out.
\<close>

section \<open>Errors of a request to an Isle\<close>

record lua_failure =
  lf_message :: string
  lf_kind :: string
  lf_traceback :: "string option"

datatype exec_error = Isle_Lua lua_failure | Isle_Cancelled | Isle_Other string

definition isle_err :: "string \<Rightarrow> ('e \<Rightarrow> exec_error) \<Rightarrow> 'e \<Rightarrow> exec_error" where
  "isle_err ctx from e =
     (case from e of
        Isle_Lua failure \<Rightarrow> Isle_Lua (failure\<lparr>lf_message := fmt [ctx, '': '', lf_message failure]\<rparr>)
      | err \<Rightarrow> err)"

section \<open>What is registered, and in which order\<close>

datatype bridge =
  Bus_Api | Bus_Dispatcher | Mcp_Dispatcher | Mesh_Api bool | Sh_Api | Tool_Api | Fs_Api
| Log_Api | Mcp_Api | Http_Api | Llm_Api | Knl_Api | Kv_Api | Sql_Api | Ts_Api | Task_Api

definition non_bus_bridges :: "bool \<Rightarrow> bool \<Rightarrow> bool \<Rightarrow> bridge list" where
  "non_bus_bridges mesh sqlite is_handler_side =
     (if mesh then [Mesh_Api is_handler_side] else [])
     @ [Sh_Api, Tool_Api, Fs_Api, Log_Api, Mcp_Api, Http_Api, Llm_Api, Knl_Api]
     @ (if sqlite then [Kv_Api, Sql_Api, Ts_Api] else []) @ [Task_Api]"

definition all_bridges :: "bool \<Rightarrow> bool \<Rightarrow> bridge list" where
  "all_bridges mesh sqlite = Bus_Api # non_bus_bridges mesh sqlite False"

definition handler_side_bridges :: "bool \<Rightarrow> bool \<Rightarrow> bridge list" where
  "handler_side_bridges mesh sqlite = Bus_Dispatcher # Mcp_Dispatcher # non_bus_bridges mesh sqlite True"

text \<open>Each is registered after the last one was; the first that fails ends it.\<close>

fun register_each :: "(bridge \<Rightarrow> 'w \<Rightarrow> (lua_error + unit) \<times> 'w) \<Rightarrow> bridge list \<Rightarrow> 'w \<Rightarrow> (lua_error + unit) \<times> 'w" where
  "register_each reg [] w = (Ok (), w)"
| "register_each reg (b # bs) w =
     (case reg b w of (Err e, w') \<Rightarrow> (Err e, w') | (Ok _, w') \<Rightarrow> register_each reg bs w')"

section \<open>Installing the Lua half of a bridge\<close>

datatype module_value = Module_Table nat | Module_Bool bool | Module_Nil | Module_Other string

datatype table_field = Field_Function nat | Field_Other

text \<open>A table: its own fields, and the table its metatable's \<open>__index\<close> is, when it is one.\<close>

record lua_table =
  lt_fields :: "(lua \<times> table_field) list"
  lt_index :: "nat option"

type_synonym lua_functions = "lua \<rightharpoonup> nat"

fun install_level :: "(lua \<times> table_field) list \<Rightarrow> lua set \<times> lua_functions \<Rightarrow> lua set \<times> lua_functions" where
  "install_level [] st = st"
| "install_level ((name, v) # fs) (seen, target) =
     (if name \<in> seen then install_level fs (seen, target)
      else install_level fs
        (insert name seen, case v of Field_Function f \<Rightarrow> target(name \<mapsto> f) | Field_Other \<Rightarrow> target))"

text \<open>\<open>None\<close>: the walk does not come to an end.\<close>

partial_function (option) install_from ::
  "(nat \<Rightarrow> lua_table) \<Rightarrow> nat option \<Rightarrow> lua set \<times> lua_functions \<Rightarrow> lua_functions option" where
  "install_from H level st =
     (case level of
        None \<Rightarrow> Some (snd st)
      | Some t \<Rightarrow> install_from H (lt_index (H t)) (install_level (lt_fields (H t)) st))"

record 'w loader =
  ld_require :: "string \<Rightarrow> 'w \<Rightarrow> (string + module_value) \<times> 'w"
  ld_preload_host_types :: "'w \<Rightarrow> (lua_error + unit) \<times> 'w"
  ld_eval :: "string \<Rightarrow> string \<Rightarrow> 'w \<Rightarrow> (lua_error + module_value) \<times> 'w"
  ld_tables :: "'w \<Rightarrow> nat \<Rightarrow> lua_table"

definition found_type :: "module_value \<Rightarrow> string" where
  "found_type v =
     (case v of
        Module_Nil \<Rightarrow> ''nil''
      | Module_Bool b \<Rightarrow> ''a boolean''
      | Module_Table t \<Rightarrow> ''table''
      | Module_Other what \<Rightarrow> what)"

definition not_found_text :: "string \<Rightarrow> string" where
  "not_found_text name = fmt [''module '', CHR 0x27 # name, CHR 0x27 # '' not found'']"

text \<open>What the probe answers: the module, or the sentinel \<open>false\<close>.\<close>

definition probe_module :: "'w loader \<Rightarrow> string \<Rightarrow> 'w \<Rightarrow> (lua_error + module_value) \<times> 'w" where
  "probe_module L name w =
     (case ld_require L name w of
        (Ok m, w') \<Rightarrow> (Ok m, w')
      | (Err e, w') \<Rightarrow>
          (if str_contains (not_found_text name) e then Ok (Module_Bool False) else Err (External e), w'))"

definition module_of :: "'w loader \<Rightarrow> string \<Rightarrow> string \<Rightarrow> 'w \<Rightarrow> (lua_error + module_value) \<times> 'w" where
  "module_of L name embedded w =
     (case probe_module L name w of
        (Ok (Module_Bool False), w1) \<Rightarrow>
          (case ld_preload_host_types L w1 of
             (Err e, w2) \<Rightarrow> (Err e, w2)
           | (Ok _, w2) \<Rightarrow> ld_eval L embedded name w2)
      | (r, w1) \<Rightarrow> (r, w1))"

definition no_library_error :: "string \<Rightarrow> module_value \<Rightarrow> lua_error" where
  "no_library_error name v =
     External (fmt [''the `'', name, ''` module answered '', found_type v, '' '', [CHR 0xE2, CHR 0x80, CHR 0x94],
       '' a tool module is a library: it must end with `return M`, the table holding its functions. '',
       ''`agent-block vendor --force '', name, ''` rewrites the copy from the current embedded source.''])"

text \<open>The answer with the functions of \<open>std.<key>\<close> afterwards; \<open>None\<close> when it does not return.\<close>

definition load_tools_module ::
  "'w loader \<Rightarrow> string \<Rightarrow> string \<Rightarrow> lua_functions \<times> 'w \<Rightarrow> ((lua_error + unit) \<times> lua_functions \<times> 'w) option" where
  "load_tools_module L name embedded = (\<lambda>(target, w).
     (case module_of L name embedded w of
        (Err e, w') \<Rightarrow> Some (Err e, target, w')
      | (Ok (Module_Table t), w') \<Rightarrow>
          map_option (\<lambda>target'. (Ok (), target', w')) (install_from (ld_tables L w') (Some t) ({}, target))
      | (Ok v, w') \<Rightarrow> Some (Err (no_library_error name v), target, w')))"

section \<open>The registry of tools\<close>

record tool_entry =
  te_name :: string
  te_schema :: lua
  te_handler :: nat
  te_group :: "string option"

type_synonym tool_registry = "string \<rightharpoonup> tool_entry"

text \<open>The names in the order the VM visits them, and the errors of its conversions.\<close>

record tool_lib =
  to_lib :: ts_lib
  to_visit :: "tool_registry \<Rightarrow> string list"
  to_no_table :: "lua \<Rightarrow> lua_error"

definition group_of :: "tool_lib \<Rightarrow> (string \<Rightarrow> lua) option \<Rightarrow> string option" where
  "group_of T meta = text_opt (to_lib T) meta ''group''"

definition tool_register ::
  "tool_lib \<Rightarrow> string \<Rightarrow> lua \<Rightarrow> nat \<Rightarrow> (string \<Rightarrow> lua) option \<Rightarrow> tool_registry \<Rightarrow> tool_registry" where
  "tool_register T name schema handler meta r =
     r(name \<mapsto> \<lparr>te_name = name, te_schema = schema, te_handler = handler, te_group = group_of T meta\<rparr>)"

definition tool_call ::
  "(nat \<Rightarrow> lua \<Rightarrow> 'w \<Rightarrow> (lua_error + lua) \<times> 'w) \<Rightarrow> tool_registry \<Rightarrow> string \<Rightarrow> lua \<Rightarrow> 'w \<Rightarrow> (lua_error + lua) \<times> 'w" where
  "tool_call run r name input w =
     (case r name of
        None \<Rightarrow> (Err (External (''tool not found: '' @ name)), w)
      | Some e \<Rightarrow> run (te_handler e) input w)"

definition tool_list :: "tool_lib \<Rightarrow> tool_registry \<Rightarrow> string list" where
  "tool_list T r = to_visit T r"

record tool_definition =
  td_name :: string
  td_description :: string
  td_input_schema :: lua
  td_group :: "string option"

definition tool_definition_of :: "tool_lib \<Rightarrow> tool_entry \<Rightarrow> lua_error + tool_definition" where
  "tool_definition_of T e =
     (case te_schema e of
        LTable mt es \<Rightarrow>
          and_then (tl_text (to_lib T) (raw_get es (LStr ''description''))) (\<lambda>description.
            Ok \<lparr>td_name = te_name e, td_description = description,
                td_input_schema = raw_get es (LStr ''input_schema''), td_group = te_group e\<rparr>)
      | v \<Rightarrow> Err (to_no_table T v))"

definition tool_schemas :: "tool_lib \<Rightarrow> tool_registry \<Rightarrow> lua_error + tool_definition list" where
  "tool_schemas T r = collect_results (\<lambda>name. tool_definition_of T (the (r name))) (to_visit T r)"

end
