(* ===== verification/Tools_Properties.thy ===== *)
theory Tools_Properties
  imports Tools
begin

text \<open>
  What a bridge's Lua half puts onto its table: the nearest function along the \<open>__index\<close> chain under
  each name, when the chain ends; and when the registry of tools can be shown to a model.
\<close>

section \<open>The walk along \<open>__index\<close>\<close>

primrec level_after :: "(nat \<Rightarrow> lua_table) \<Rightarrow> nat \<Rightarrow> nat option \<Rightarrow> nat option" where
  "level_after H 0 level = level"
| "level_after H (Suc n) level = level_after H n (Option.bind level (\<lambda>t. lt_index (H t)))"

primrec levels :: "(nat \<Rightarrow> lua_table) \<Rightarrow> nat \<Rightarrow> nat option \<Rightarrow> nat list" where
  "levels H 0 level = []"
| "levels H (Suc n) level = (case level of None \<Rightarrow> [] | Some t \<Rightarrow> t # levels H n (lt_index (H t)))"

primrec nearest :: "(nat \<Rightarrow> lua_table) \<Rightarrow> nat list \<Rightarrow> lua \<Rightarrow> table_field option" where
  "nearest H [] name = None"
| "nearest H (t # ts) name =
     (case map_of (lt_fields (H t)) name of Some v \<Rightarrow> Some v | None \<Rightarrow> nearest H ts name)"

definition installed :: "(nat \<Rightarrow> lua_table) \<Rightarrow> nat list \<Rightarrow> lua_functions \<Rightarrow> lua_functions" where
  "installed H ts target = (\<lambda>name. case nearest H ts name of Some (Field_Function f) \<Rightarrow> Some f | _ \<Rightarrow> target name)"

lemma install_level_effect:
  "install_level fs (seen, target) =
     (seen \<union> dom (map_of fs),
      \<lambda>name. if name \<in> seen then target name
             else case map_of fs name of Some (Field_Function f) \<Rightarrow> Some f | _ \<Rightarrow> target name)"
proof (induction fs arbitrary: seen target)
  case (Cons p fs)
  obtain name v where "p = (name, v)" by force
  with Cons show ?case
    by (cases v) (auto simp: fun_eq_iff insert_absorb split: option.splits table_field.splits if_splits)
qed (simp add: fun_eq_iff)

lemma level_after_None [simp]: "level_after H n None = None"
  by (induction n) simp_all

lemma install_from_ends:
  "level_after H n level = None \<Longrightarrow>
   install_from H level (seen, target) =
     Some (\<lambda>name. if name \<in> seen then target name
                  else case nearest H (levels H n level) name of Some (Field_Function f) \<Rightarrow> Some f | _ \<Rightarrow> target name)"
proof (induction n arbitrary: level seen target)
  case 0
  then show ?case by (simp add: install_from.simps [of H None] fun_eq_iff)
next
  case (Suc n)
  show ?case
  proof (cases level)
    case None
    then show ?thesis by (simp add: install_from.simps [of H None] fun_eq_iff)
  next
    case (Some t)
    with Suc show ?thesis
      by (simp add: install_from.simps [of H "Some t"] install_level_effect)
         (auto simp: fun_eq_iff domIff split: option.splits table_field.splits)
  qed
qed

lemma install_from_Some:
  assumes "install_from H level st = Some t"
  shows "\<exists>n. level_after H n level = None"
proof (rule install_from.raw_induct [of "\<lambda>H level st t. \<exists>n. level_after H n level = None", OF _ assms])
  fix walk H level st t
  assume IH: "\<And>H level st t. walk H level st = Some t \<Longrightarrow> \<exists>n. level_after H n level = None"
    and run: "(case level of None \<Rightarrow> Some (snd st)
      | Some l \<Rightarrow> walk H (lt_index (H l)) (install_level (lt_fields (H l)) st)) = Some t"
  show "\<exists>n. level_after H n level = None"
  proof (cases level)
    case None
    then have "level_after H 0 level = None" by simp
    then show ?thesis by blast
  next
    case (Some l)
    with run obtain n where "level_after H n (lt_index (H l)) = None" by (auto dest: IH)
    with Some have "level_after H (Suc n) level = None" by simp
    then show ?thesis by blast
  qed
qed

lemma install_from_None: "\<forall>n. level_after H n level \<noteq> None \<Longrightarrow> install_from H level st = None"
  by (metis install_from_Some not_None_eq)

text \<open>The message \<open>require\<close> has for a name that resolves nowhere, anywhere in an error's text.\<close>

definition says_not_found :: "string \<Rightarrow> string \<Rightarrow> bool" where
  "says_not_found name e \<longleftrightarrow>
     (\<exists>pre post. e = pre @ ''module '' @ [CHR 0x27] @ name @ [CHR 0x27] @ '' not found'' @ post)"

lemma str_contains_iff: "str_contains pat s \<longleftrightarrow> (\<exists>pre post. s = pre @ pat @ post)"
proof (induction s)
  case Nil
  show ?case by (auto simp: starts_with_iff)
next
  case (Cons c cs)
  have "(\<exists>pre post. c # cs = pre @ pat @ post) \<longleftrightarrow>
      (\<exists>post. c # cs = pat @ post) \<or> (\<exists>pre post. cs = pre @ pat @ post)"
    by (metis Cons_eq_append_conv append_Cons append_Nil)
  with Cons show ?case by (simp add: starts_with_iff)
qed

lemma says_not_found_contains: "str_contains (not_found_text name) e \<longleftrightarrow> says_not_found name e"
proof -
  have same: "not_found_text name @ post = ''module '' @ [CHR 0x27] @ name @ [CHR 0x27] @ '' not found'' @ post" for post
    by (simp add: not_found_text_def fmt_def)
  show ?thesis unfolding str_contains_iff says_not_found_def same ..
qed

text \<open>
  C36: The Lua half of a bridge is the module \<open>require\<close> finds. The embedded source runs, once the
  declaration module it begins with is answered for, only when \<open>require\<close> answers that there is no module of
  the name, or \<open>false\<close>; every other error of \<open>require\<close>, as of a copy that does not parse, is raised as it
  is and runs nothing. When the module is a table whose \<open>__index\<close> chain ends, the bridge's table
  gets under each name the nearest function of the chain, a nearer field that is none hiding a farther
  function, and keeps the rest; when the chain does not end, the installation does not return. Anything
  else is an error that leaves the bridge's table as it was.
\<close>

theorem tool_module_installed:
  "(case ld_require L name w of
      (Ok m, w1) \<Rightarrow>
        (if m = Module_Bool False
         then module_of L name embedded w =
           (case ld_preload_host_types L w1 of (Err e, w2) \<Rightarrow> (Err e, w2) | (Ok _, w2) \<Rightarrow> ld_eval L embedded name w2)
         else module_of L name embedded w = (Ok m, w1))
    | (Err e, w1) \<Rightarrow>
        (if says_not_found name e
         then module_of L name embedded w =
           (case ld_preload_host_types L w1 of (Err e, w2) \<Rightarrow> (Err e, w2) | (Ok _, w2) \<Rightarrow> ld_eval L embedded name w2)
         else module_of L name embedded w = (Err (External e), w1)
           \<and> load_tools_module L name embedded (target, w) = Some (Err (External e), target, w1)))
   \<and> (case module_of L name embedded w of
        (Err e, w') \<Rightarrow> load_tools_module L name embedded (target, w) = Some (Err e, target, w')
      | (Ok v, w') \<Rightarrow>
          (if \<exists>t. v = Module_Table t
           then \<forall>t. v = Module_Table t \<longrightarrow>
             (\<forall>n. level_after (ld_tables L w') n (Some t) = None \<longrightarrow>
                load_tools_module L name embedded (target, w) =
                  Some (Ok (), installed (ld_tables L w') (levels (ld_tables L w') n (Some t)) target, w'))
             \<and> ((\<forall>n. level_after (ld_tables L w') n (Some t) \<noteq> None) \<longrightarrow> load_tools_module L name embedded (target, w) = None)
           else load_tools_module L name embedded (target, w) = Some (Err (no_library_error name v), target, w')))"
proof (rule conjI)
  have probe: "probe_module L name w =
     (case ld_require L name w of
        (Ok m, w') \<Rightarrow> (Ok m, w')
      | (Err e, w') \<Rightarrow> (if says_not_found name e then Ok (Module_Bool False) else Err (External e), w'))"
    unfolding probe_module_def says_not_found_contains ..
  show "case ld_require L name w of
      (Ok m, w1) \<Rightarrow>
        (if m = Module_Bool False
         then module_of L name embedded w =
           (case ld_preload_host_types L w1 of (Err e, w2) \<Rightarrow> (Err e, w2) | (Ok _, w2) \<Rightarrow> ld_eval L embedded name w2)
         else module_of L name embedded w = (Ok m, w1))
    | (Err e, w1) \<Rightarrow>
        (if says_not_found name e
         then module_of L name embedded w =
           (case ld_preload_host_types L w1 of (Err e, w2) \<Rightarrow> (Err e, w2) | (Ok _, w2) \<Rightarrow> ld_eval L embedded name w2)
         else module_of L name embedded w = (Err (External e), w1)
           \<and> load_tools_module L name embedded (target, w) = Some (Err (External e), target, w1))"
    by (auto simp: module_of_def load_tools_module_def probe split: prod.splits sum.splits module_value.splits bool.splits)
qed (auto simp: load_tools_module_def install_from_ends install_from_None installed_def
      split: prod.splits sum.splits module_value.splits bool.splits)

text \<open>The wrapper the source's comment shows, over the copy it delegates to.\<close>

definition demo_tables :: "nat \<Rightarrow> lua_table" where
  "demo_tables t =
     (if t = 0 then \<lparr>lt_fields = [(LStr ''tool_specs'', Field_Function 7)], lt_index = Some 1\<rparr>
      else \<lparr>lt_fields = [(LStr ''tool_specs'', Field_Function 1), (LStr ''register_tools'', Field_Function 2), (LStr ''shapes'', Field_Other)],
            lt_index = None\<rparr>)"

definition demo_loader :: "unit loader" where
  "demo_loader = \<lparr>ld_require = \<lambda>_ w. (Ok (Module_Table 0), w), ld_preload_host_types = \<lambda>w. (Ok (), w),
     ld_eval = \<lambda>_ _ w. (Ok Module_Nil, w), ld_tables = \<lambda>_. demo_tables\<rparr>"

text \<open>A project's copy that does not parse, and a VM that knows no such module.\<close>

definition broken_loader :: "unit loader" where
  "broken_loader = demo_loader\<lparr>ld_require := \<lambda>_ w. (Err ''lib/fs_tools/init.lua:3: unexpected symbol'', w)\<rparr>"

definition bare_loader :: "unit loader" where
  "bare_loader = demo_loader\<lparr>
     ld_require := \<lambda>_ w. (Err (''module '' @ [CHR 0x27] @ ''fs_tools'' @ [CHR 0x27] @ '' not found:''), w),
     ld_eval := \<lambda>_ _ w. (Ok (Module_Table 1), w)\<rparr>"

theorem tool_module_installed_witness:
  "load_tools_module demo_loader ''fs_tools'' [] (Map.empty, ()) =
     Some (Ok (), [LStr ''register_tools'' \<mapsto> 2, LStr ''tool_specs'' \<mapsto> 7], ())
   \<and> load_tools_module broken_loader ''fs_tools'' [] (Map.empty, ()) =
     Some (Err (External ''lib/fs_tools/init.lua:3: unexpected symbol''), Map.empty, ())
   \<and> module_of bare_loader ''fs_tools'' [] () = (Ok (Module_Table 1), ())"
proof (intro conjI)
  note law = tool_module_installed [where name = "''fs_tools''" and w = "()" and embedded = "[]" and target = "Map.empty"]
  have found: "module_of demo_loader ''fs_tools'' [] () = (Ok (Module_Table 0), ())"
    using law [where L = demo_loader, THEN conjunct1] by (simp add: demo_loader_def)
  have tables: "ld_tables demo_loader () = demo_tables" by (simp add: demo_loader_def)
  have "level_after demo_tables 2 (Some 0) = None" by (simp add: demo_tables_def numeral_2_eq_2)
  moreover have "installed demo_tables (levels demo_tables 2 (Some 0)) Map.empty = [LStr ''register_tools'' \<mapsto> 2, LStr ''tool_specs'' \<mapsto> 7]"
    by (simp add: installed_def demo_tables_def numeral_2_eq_2 fun_eq_iff)
  ultimately show "load_tools_module demo_loader ''fs_tools'' [] (Map.empty, ()) =
     Some (Ok (), [LStr ''register_tools'' \<mapsto> 2, LStr ''tool_specs'' \<mapsto> 7], ())"
    using law [where L = demo_loader, THEN conjunct2] found tables by simp
next
  have "\<not> str_contains (not_found_text ''fs_tools'') ''lib/fs_tools/init.lua:3: unexpected symbol''" by code_simp
  then have "\<not> says_not_found ''fs_tools'' ''lib/fs_tools/init.lua:3: unexpected symbol''" unfolding says_not_found_contains .
  then show "load_tools_module broken_loader ''fs_tools'' [] (Map.empty, ()) =
     Some (Err (External ''lib/fs_tools/init.lua:3: unexpected symbol''), Map.empty, ())"
    using tool_module_installed [where name = "''fs_tools''" and w = "()" and embedded = "[]" and target = "Map.empty"
        and L = broken_loader, THEN conjunct1]
    by (simp add: broken_loader_def)
next
  have "says_not_found ''fs_tools'' (''module '' @ [CHR 0x27] @ ''fs_tools'' @ [CHR 0x27] @ '' not found:'')"
    unfolding says_not_found_def by (intro exI [of _ "[]"] exI [of _ "'':''"]) simp
  then show "module_of bare_loader ''fs_tools'' [] () = (Ok (Module_Table 1), ())"
    using tool_module_installed [where name = "''fs_tools''" and w = "()" and embedded = "[]" and target = "Map.empty"
        and L = bare_loader, THEN conjunct1]
    by (simp add: bare_loader_def demo_loader_def)
qed

section \<open>What the installation gets wrong\<close>

text \<open>A module that is its own \<open>__index\<close>, as a class written in Lua often is, is walked for ever.\<close>

lemma own_index_never_ends:
  assumes "lt_index (H t) = Some t"
  shows "install_from H (Some t) st = None"
proof -
  have "level_after H n (Some t) = Some t" for n by (induction n) (simp_all add: assms)
  then show ?thesis by (simp add: install_from_None)
qed

text \<open>A copy that answers \<open>false\<close> is taken for one that is not there.\<close>

lemma false_copy_runs_the_embedded:
  assumes "ld_require L name w = (Ok (Module_Bool False), w1)" and "ld_preload_host_types L w1 = (Ok (), w2)"
  shows "module_of L name embedded w = ld_eval L embedded name w2"
  by (simp add: module_of_def probe_module_def assms)

section \<open>The registry\<close>

lemma registered_tool_is_called:
  "tool_call run (tool_register T name schema handler meta r) name input w = run handler input w"
  by (simp add: tool_call_def tool_register_def)

lemma collect_results_one_Err: "x \<in> set xs \<Longrightarrow> f x = Err e \<Longrightarrow> \<exists>e. collect_results f xs = Err e"
proof (induction xs)
  case (Cons y ys)
  then show ?case by (cases "f y"; cases "collect_results f ys") auto
qed simp

text \<open>One tool whose schema has no text for a description keeps every tool from being shown.\<close>

lemma one_bad_schema_hides_all:
  assumes "r name = Some e" and "set (to_visit T r) = dom r" and "\<forall>mt es. te_schema e \<noteq> LTable mt es"
  shows "\<exists>err. tool_schemas T r = Err err"
proof -
  have "tool_definition_of T (the (r name)) = Err (to_no_table T (te_schema e))"
    using assms by (auto simp: tool_definition_of_def split: lua.splits)
  moreover have "name \<in> set (to_visit T r)" using assms by auto
  ultimately show ?thesis unfolding tool_schemas_def by (rule collect_results_one_Err [rotated])
qed

end
