(* ===== verification/Mesh.thy ===== *)
theory Mesh
  imports Tools Bridge_Bus
begin

text \<open>
  \<open>bridge/mesh.rs\<close>: the functions of the \<open>mesh\<close> table, with and without a mesh, on the main Isle and on the
  handler Isle. The mesh agent is the record \<open>mesh_ops\<close>: its identity, and a request that waits so many
  seconds for its answer. The \<open>task\<close> and \<open>llm\<close> adapters are beside it. Trace lines are left out.
\<close>

record 'w mesh_ops =
  mo_env :: "'w \<Rightarrow> env"
  mo_agent_id :: string
  mo_request :: "string \<Rightarrow> json \<Rightarrow> nat \<Rightarrow> 'w \<Rightarrow> (string + json) \<times> 'w"

definition mesh_names :: "bool \<Rightarrow> string list" where
  "mesh_names is_handler_side =
     (if is_handler_side then [''send'', ''request'', ''agent_id''] else [''send'', ''request'', ''on'', ''agent_id''])"

definition mesh_not_connected :: "string \<Rightarrow> lua_error" where
  "mesh_not_connected n = External (fmt [''mesh.'', n, '': mesh not connected (no --relay specified)''])"

text \<open>The same code as that of the \<open>mcp\<close> table, which the file repeats.\<close>

definition mesh_payload :: "env \<Rightarrow> string option \<Rightarrow> json \<Rightarrow> json" where
  "mesh_payload env fallback_agent_id payload_json = inject_obs_context env fallback_agent_id payload_json"

text \<open>No agent: no mesh.\<close>

definition mesh_send :: "lua_vm \<Rightarrow> 'w mesh_ops option \<Rightarrow> string \<Rightarrow> lua \<Rightarrow> 'w \<Rightarrow> (lua_error + unit) \<times> 'w" where
  "mesh_send V agent target payload w =
     (case agent of
        None \<Rightarrow> (Err (mesh_not_connected ''send''), w)
      | Some A \<Rightarrow>
          (case lua_to_json V payload of
             Err e \<Rightarrow> (Err e, w)
           | Ok payload_json \<Rightarrow>
               (case mo_request A target (mesh_payload (mo_env A w) (Some (mo_agent_id A)) payload_json) 10 w of
                  (Err e, w') \<Rightarrow> (Err (External e), w')
                | (Ok _, w') \<Rightarrow> (Ok (), w'))))"

definition mesh_request :: "lua_vm \<Rightarrow> 'w mesh_ops option \<Rightarrow> string \<Rightarrow> lua \<Rightarrow> 'w \<Rightarrow> (lua_error + lua) \<times> 'w" where
  "mesh_request V agent target payload w =
     (case agent of
        None \<Rightarrow> (Err (mesh_not_connected ''request''), w)
      | Some A \<Rightarrow>
          (case lua_to_json V payload of
             Err e \<Rightarrow> (Err e, w)
           | Ok payload_json \<Rightarrow>
               (case mo_request A target (mesh_payload (mo_env A w) (Some (mo_agent_id A)) payload_json) 30 w of
                  (Err e, w') \<Rightarrow> (Err (External e), w')
                | (Ok resp, w') \<Rightarrow> (json_to_lua V resp, w'))))"

definition mesh_agent_id :: "'w mesh_ops option \<Rightarrow> lua_error + string" where
  "mesh_agent_id agent = (case agent of None \<Rightarrow> Err (mesh_not_connected ''agent_id'') | Some A \<Rightarrow> Ok (mo_agent_id A))"

definition mesh_on ::
  "lua_lib \<Rightarrow> 'w mesh_ops option \<Rightarrow> lua_function \<Rightarrow> bus_host \<Rightarrow> (lua_error + unit) \<times> bus_host" where
  "mesh_on L agent func b =
     (case agent of
        None \<Rightarrow> (Err (mesh_not_connected ''on''), b)
      | Some A \<Rightarrow> (case lua_on L ''mesh'' func b of (r, b') \<Rightarrow> (map_err External r, b')))"

section \<open>Tasks\<close>

datatype task_driver = Coroutine_Driver | Async_Fn_Driver

definition parse_driver_env :: "env \<Rightarrow> task_driver" where
  "parse_driver_env env = (if env_var env ''AGENT_BLOCK_TASK_DRIVER'' = Some ''coroutine'' then Coroutine_Driver else Async_Fn_Driver)"

section \<open>Answers of a model\<close>

definition llm_extract_json :: "lua_vm \<Rightarrow> (string \<Rightarrow> string + json) \<Rightarrow> string \<Rightarrow> lua_error + lua" where
  "llm_extract_json V extract text = and_then (map_err External (extract text)) (json_to_lua V)"

section \<open>What a message carries\<close>

text \<open>
  What is sent in place of an object without \<open>__ab_obs\<close>, or of nil, differs from it in that field alone,
  which names the agent of this process when the environment names none; any other value is sent as it is.
\<close>

lemma mesh_payload_identity:
  assumes "env_nonempty env ''AGENT_BLOCK_AGENT_ID'' = None" and "v = JNull \<and> m = [] \<or> v = JObject m" and "map_get m ''__ab_obs'' = None"
  shows "\<exists>obs. mesh_payload env (Some agent) v = JObject (map_insert ''__ab_obs'' (JObject obs) m)
    \<and> map_get obs ''agent_id'' = Some (JString agent)"
proof -
  have id: "map_get (obs_object env (Some agent)) ''agent_id'' = Some (JString agent)"
    using assms(1) by (simp add: obs_object_def insert_some_def split: option.splits)
  then have "obs_object env (Some agent) \<noteq> []" by auto
  then have "insert_obs env (Some agent) m = map_insert ''__ab_obs'' (JObject (obs_object env (Some agent))) m"
    using assms(3) by (simp add: insert_obs_def)
  moreover have "map_insert ''__ab_obs'' (JObject (obs_object env (Some agent))) m \<noteq> []"
    by (metis map_get_Nil map_get_insert option.distinct(1))
  ultimately show ?thesis using id assms(2) by (auto simp: mesh_payload_def)
qed

lemma mesh_payload_elsewhere:
  "mesh_payload env fallback (JString s) = JString s" "mesh_payload env fallback (JArray vs) = JArray vs"
  by (simp_all add: mesh_payload_def)

end
