(* ===== verification/Isle_Init.thy ===== *)
theory Isle_Init
  imports Host_Run
begin

text \<open>
  \<open>build_isle_init\<close> of \<open>host.rs\<close>: what a VM holds before any bridge is registered, and the chain of
  resolvers \<open>require\<close> asks. The batteries, the Teal checker, the resolvers of a directory and the embedded
  sources are the record \<open>init_ops\<close>. A global named \<open>package\<close> is not among the caller's. Trace lines are
  left out.
\<close>

section \<open>What is embedded\<close>

definition EMBEDDED_BLOCKS :: "string list" where
  "EMBEDDED_BLOCKS = [''agent'', ''coding'']"

definition EMBEDDED_LIBS :: "string list" where
  "EMBEDDED_LIBS =
     [''session'', ''llm_proto'', ''llm_proto.openai'', ''llm_proto.anthropic'', ''lshape'', ''lshape.t'', ''lshape.check'',
      ''lshape.reflect'', ''lshape.luacats'', ''mcp_tools'', ''host_types'', ''knl'', ''knl.shapes'', ''knl_adapter'',
      ''policy'', ''policy.shared'', ''policy.room'', ''policy.tools'', ''policy.carry'', ''policy.loop'',
      ''policy.compact'', ''policy.checkpoint'', ''supervisor'', ''job'', ''fs_tools'', ''ts_tools'', ''sql_tools'', ''kv_tools'']"

definition EMBEDDED_ALIAS_PREFIX :: string where
  "EMBEDDED_ALIAS_PREFIX = ''embedded.''"

definition embedded_names :: "string list" where
  "embedded_names = EMBEDDED_BLOCKS @ EMBEDDED_LIBS"

section \<open>The VM and what is outside\<close>

datatype resolver = Memory_Resolver "string \<rightharpoonup> string" | Teal_Resolver path | Fs_Resolver path

datatype preloaded = Own_Preload | Requires_Alias string

record vm_state =
  vm_globals :: "string \<rightharpoonup> lua"
  vm_package_path :: string
  vm_preload :: "string \<rightharpoonup> preloaded"
  vm_registry :: "resolver list option"

record 'w init_ops =
  io_env :: "'w \<Rightarrow> env"
  io_vm :: lua_vm
  io_shown :: "lua_error \<Rightarrow> string"
  io_source :: "string \<Rightarrow> string"
  io_knl_types :: string
  io_declarations :: "(string \<times> string) list"
  io_version :: string
  io_digest :: "string \<Rightarrow> nat list"
  io_temp_dir :: "'w \<Rightarrow> path"
  io_order :: "(string \<rightharpoonup> json) \<Rightarrow> (string \<times> json) list"
  io_batteries :: "vm_state \<Rightarrow> lua_error + vm_state"
  io_overrides :: "vm_state \<Rightarrow> lua_error + vm_state"
  io_new_checker :: "'w \<Rightarrow> (string + unit) \<times> 'w"
  io_attach :: "'w \<Rightarrow> (string + unit) \<times> 'w"
  io_write_if_changed :: "path \<Rightarrow> string \<Rightarrow> 'w \<Rightarrow> (string + unit) \<times> 'w"
  io_add_path :: "path \<Rightarrow> 'w \<Rightarrow> (string + unit) \<times> 'w"
  io_find_config :: "path \<Rightarrow> 'w \<Rightarrow> (string + (path \<times> string) option) \<times> 'w"
  io_apply_config :: "path \<Rightarrow> string \<Rightarrow> 'w \<Rightarrow> (string + unit) \<times> 'w"
  io_add_search_paths :: "path list \<Rightarrow> 'w \<Rightarrow> (string + unit) \<times> 'w"
  io_opens_teal :: "path \<Rightarrow> 'w \<Rightarrow> bool"
  io_opens_fs :: "path \<Rightarrow> 'w \<Rightarrow> bool"
  io_teal :: "path \<Rightarrow> string \<Rightarrow> 'w \<Rightarrow> (string + string) option"
  io_fs :: "path \<Rightarrow> string \<Rightarrow> 'w \<Rightarrow> (string + string) option"
  io_install :: "'w \<Rightarrow> (string + unit) \<times> 'w"

type_synonym ('a, 'w) init_stage = "'w \<Rightarrow> (lua_error + 'a) \<times> 'w"

definition init_then :: "('a, 'w) init_stage \<Rightarrow> ('a \<Rightarrow> ('b, 'w) init_stage) \<Rightarrow> ('b, 'w) init_stage" where
  "init_then m f = (\<lambda>w. case m w of (Err e, w') \<Rightarrow> (Err e, w') | (Ok a, w') \<Rightarrow> f a w')"

definition init_result :: "lua_error + 'a \<Rightarrow> ('a, 'w) init_stage" where
  "init_result r = (\<lambda>w. (r, w))"

text \<open>A step whose error is told under a heading.\<close>

definition told :: "string \<Rightarrow> ('w \<Rightarrow> (string + 'a) \<times> 'w) \<Rightarrow> ('a, 'w) init_stage" where
  "told heading m = (\<lambda>w. case m w of (r, w') \<Rightarrow> (map_err (\<lambda>e. External (fmt [heading, '': '', e])) r, w'))"

section \<open>Globals and the search path\<close>

definition set_given :: "string \<Rightarrow> string option \<Rightarrow> vm_state \<Rightarrow> vm_state" where
  "set_given k v vm = (case v of Some s \<Rightarrow> vm\<lparr>vm_globals := (vm_globals vm)(k \<mapsto> LStr s)\<rparr> | None \<Rightarrow> vm)"

fun set_globals :: "'w init_ops \<Rightarrow> (string \<times> json) list \<Rightarrow> vm_state \<Rightarrow> lua_error + vm_state" where
  "set_globals IO [] vm = Ok vm"
| "set_globals IO ((name, v) # gs) vm =
     (case json_to_lua (io_vm IO) v of
        Err e \<Rightarrow> Err (External (fmt [''extra_globals['', name, '']: '', io_shown IO e]))
      | Ok l \<Rightarrow> set_globals IO gs (vm\<lparr>vm_globals := (vm_globals vm)(name \<mapsto> l)\<rparr>))"

definition new_package_path :: "'w disk \<Rightarrow> string \<Rightarrow> path list \<Rightarrow> string \<Rightarrow> string" where
  "new_package_path D script_dir roots current_path =
     fmt [script_dir, ''/?.lua;'', script_dir, ''/?/init.lua;'', package_path_prefix D roots, current_path]"

section \<open>The checker\<close>

definition digest_key :: "nat list \<Rightarrow> string" where
  "digest_key digest = concat (map (\<lambda>b. [hex_digit (b div 16), hex_digit (b mod 16)]) (take 8 digest))"

definition declarations_dir :: "'w init_ops \<Rightarrow> 'w \<Rightarrow> path" where
  "declarations_dir IO w =
     join_path (io_temp_dir IO w)
       (fmt [''agent-block-dts-'', io_version IO, ''-'',
             digest_key (io_digest IO (concat (map (\<lambda>(name, d). name @ [CHR 0x00] @ d @ [CHR 0x00]) (io_declarations IO))))])"

fun write_declarations :: "'w init_ops \<Rightarrow> path \<Rightarrow> (string \<times> string) list \<Rightarrow> 'w \<Rightarrow> (string + unit) \<times> 'w" where
  "write_declarations IO dir [] w = (Ok (), w)"
| "write_declarations IO dir ((name, d) # ds) w =
     (case io_write_if_changed IO (join_path dir name) d w of
        (Err e, w') \<Rightarrow> (Err e, w')
      | (Ok _, w') \<Rightarrow> write_declarations IO dir ds w')"

definition teal_declarations_dir :: "'w init_ops \<Rightarrow> 'w \<Rightarrow> (string + path) \<times> 'w" where
  "teal_declarations_dir IO w =
     (let dir = declarations_dir IO w in
      case write_declarations IO dir (io_declarations IO) w of (r, w') \<Rightarrow> (result_map (\<lambda>_. dir) r, w'))"

definition apply_project_config :: "'w disk \<Rightarrow> 'w init_ops \<Rightarrow> path \<Rightarrow> (unit, 'w) init_stage" where
  "apply_project_config D IO project_root =
     init_then (told ''reading the project's htl.toml'' (io_find_config IO project_root)) (\<lambda>found.
       case found of
         None \<Rightarrow> init_result (Ok ())
       | Some (cfg_path, cfg) \<Rightarrow>
           told (fmt [''applying '', dk_display D cfg_path])
             (io_apply_config IO (if cfg_path = [] then project_root else butlast cfg_path) cfg))"

definition checker_stage :: "'w disk \<Rightarrow> 'w init_ops \<Rightarrow> path \<Rightarrow> path list \<Rightarrow> (unit, 'w) init_stage" where
  "checker_stage D IO project_root fs_roots =
     init_then (told ''building the Teal checker'' (io_new_checker IO)) (\<lambda>_.
     init_then (told ''attaching the Teal runtime to the VM'' (io_attach IO)) (\<lambda>_.
     init_then (told ''writing the Teal declarations'' (teal_declarations_dir IO)) (\<lambda>dts_dir.
     init_then (told ''Teal checker declarations path'' (io_add_path IO dts_dir)) (\<lambda>_.
     init_then (apply_project_config D IO project_root) (\<lambda>_.
     told ''Teal checker search path'' (io_add_search_paths IO fs_roots))))))"

section \<open>The chain of resolvers\<close>

definition memory_of :: "'w init_ops \<Rightarrow> string \<Rightarrow> string \<rightharpoonup> string" where
  "memory_of IO prefix =
     (foldl (\<lambda>m name. m(prefix @ name \<mapsto> io_source IO name)) Map.empty embedded_names)(prefix @ ''knl_types'' \<mapsto> io_knl_types IO)"

definition tier_resolvers :: "'w init_ops \<Rightarrow> path \<Rightarrow> 'w \<Rightarrow> resolver list" where
  "tier_resolvers IO root w =
     (if io_opens_teal IO root w then [Teal_Resolver root] else []) @ (if io_opens_fs IO root w then [Fs_Resolver root] else [])"

definition require_registry :: "'w init_ops \<Rightarrow> path list \<Rightarrow> 'w \<Rightarrow> resolver list" where
  "require_registry IO fs_roots w =
     Memory_Resolver (memory_of IO EMBEDDED_ALIAS_PREFIX)
     # concat (map (\<lambda>root. tier_resolvers IO root w) fs_roots)
     @ [Memory_Resolver (memory_of IO [])]"

text \<open>What a resolver says of a name: nothing, its error, or the source; the first that says anything decides.\<close>

definition resolve_in :: "'w init_ops \<Rightarrow> resolver \<Rightarrow> string \<Rightarrow> 'w \<Rightarrow> (string + string) option" where
  "resolve_in IO r name w =
     (case r of
        Memory_Resolver m \<Rightarrow> map_option Ok (m name)
      | Teal_Resolver root \<Rightarrow> io_teal IO root name w
      | Fs_Resolver root \<Rightarrow> io_fs IO root name w)"

definition registry_resolve :: "'w init_ops \<Rightarrow> resolver list \<Rightarrow> string \<Rightarrow> 'w \<Rightarrow> (string + string) option" where
  "registry_resolve IO rs name w = find_map (\<lambda>r. resolve_in IO r name w) rs"

fun preload_names :: "string list \<Rightarrow> (string \<rightharpoonup> preloaded) \<Rightarrow> string \<rightharpoonup> preloaded" where
  "preload_names [] p = p"
| "preload_names (name # names) p =
     preload_names names (if p name \<noteq> None then p else p(name \<mapsto> Requires_Alias (EMBEDDED_ALIAS_PREFIX @ name)))"

section \<open>The whole closure\<close>

definition build_isle_init :: "'w disk \<Rightarrow> 'w init_ops \<Rightarrow> isle_init \<Rightarrow> vm_state \<Rightarrow> (vm_state, 'w) init_stage" where
  "build_isle_init D IO given vm w =
     (let roots = lib_roots D (io_env IO w) (ii_project_root given) w;
          fs_roots = path_new (ii_script_dir given) # roots;
          named = set_given ''_CONTEXT'' (ii_context given)
                    (set_given ''_PROMPT'' (ii_prompt given) (set_given ''_SCRIPT_NAME'' (Some (ii_script_name given)) vm))
      in init_then (init_result (and_then (io_batteries IO named) (\<lambda>v.
                     and_then (io_overrides IO v) (set_globals IO (io_order IO (ii_globals given)))))) (\<lambda>vm1.
         init_then (checker_stage D IO (ii_project_root given) fs_roots) (\<lambda>_ w1.
         (let vm2 = vm1\<lparr>vm_package_path := new_package_path D (ii_script_dir given) roots (vm_package_path vm1),
                        vm_preload := preload_names (embedded_names @ [''knl_types'']) (vm_preload vm1),
                        vm_registry := Some (require_registry IO fs_roots w1)\<rparr>
          in init_then (told ''require registry install failed'' (io_install IO)) (\<lambda>_. init_result (Ok vm2)) w1))) w)"

definition spawn_handler_isle :: "'w disk \<Rightarrow> 'w init_ops \<Rightarrow> (lua_error \<Rightarrow> string) \<Rightarrow> isle_init \<Rightarrow> vm_state \<Rightarrow> 'w \<Rightarrow> (block_error + vm_state) \<times> 'w" where
  "spawn_handler_isle D IO show_err given vm w =
     (case build_isle_init D IO given vm w of
        (r, w') \<Rightarrow> (map_err (\<lambda>e. BE_Runtime (''handler isle spawn failed: '' @ show_err e)) r, w'))"

end
