(* ===== verification/Isle_Properties.thy ===== *)
theory Isle_Properties
  imports Isle_Init
begin

text \<open>
  What \<open>require\<close> answers in a VM the host built: the escape to the embedded sources, then the tiers of the
  file system in order, then the embedded sources under their own names.
\<close>

section \<open>Embedded sources\<close>

lemma foldl_memory:
  "foldl (\<lambda>m n. m(prefix @ n \<mapsto> src n)) m0 names k =
     (if \<exists>n \<in> set names. k = prefix @ n then Some (src (drop (length prefix) k)) else m0 k)"
  by (induction names arbitrary: m0) auto

definition embedded_source :: "'w init_ops \<Rightarrow> string \<Rightarrow> string option" where
  "embedded_source IO name =
     (if name = ''knl_types'' then Some (io_knl_types IO)
      else if name \<in> set embedded_names then Some (io_source IO name) else None)"

lemma memory_of_alias: "memory_of IO prefix (prefix @ name) = embedded_source IO name"
  by (auto simp: memory_of_def embedded_source_def foldl_memory)

lemma memory_of_other: "\<forall>n. k \<noteq> prefix @ n \<Longrightarrow> memory_of IO prefix k = None"
  by (auto simp: memory_of_def foldl_memory)

lemma memory_of_name: "memory_of IO [] name = embedded_source IO name"
  using memory_of_alias [of IO "[]" name] by simp

section \<open>The tiers\<close>

text \<open>What the directory \<open>root\<close> has for a name, its Teal before its Lua, if it could be opened at \<open>w0\<close>.\<close>

definition tier_answer :: "'w init_ops \<Rightarrow> 'w \<Rightarrow> string \<Rightarrow> 'w \<Rightarrow> path \<Rightarrow> (string + string) option" where
  "tier_answer IO w0 name w root =
     (case (if io_opens_teal IO root w0 then io_teal IO root name w else None) of
        Some r \<Rightarrow> Some r
      | None \<Rightarrow> if io_opens_fs IO root w0 then io_fs IO root name w else None)"

lemma find_map_append:
  "find_map f (xs @ ys) = (case find_map f xs of Some y \<Rightarrow> Some y | None \<Rightarrow> find_map f ys)"
  by (induction xs) (auto split: option.splits)

lemma tier_resolvers_answer:
  "find_map (\<lambda>r. resolve_in IO r name w) (tier_resolvers IO root w0) = tier_answer IO w0 name w root"
  by (auto simp: tier_resolvers_def tier_answer_def resolve_in_def split: option.splits)

lemma tiers_answer:
  "find_map (\<lambda>r. resolve_in IO r name w) (concat (map (\<lambda>root. tier_resolvers IO root w0) roots)) =
     find_map (tier_answer IO w0 name w) roots"
  by (induction roots) (simp_all add: find_map_append tier_resolvers_answer split: option.splits)

lemma registry_answer:
  "registry_resolve IO (require_registry IO roots w0) name w =
     (case memory_of IO EMBEDDED_ALIAS_PREFIX name of
        Some src \<Rightarrow> Some (Ok src)
      | None \<Rightarrow>
          (case find_map (tier_answer IO w0 name w) roots of
             Some r \<Rightarrow> Some r
           | None \<Rightarrow> map_option Ok (embedded_source IO name)))"
  by (simp add: registry_resolve_def require_registry_def resolve_in_def [of IO "Memory_Resolver m" for m] find_map_append
        tiers_answer memory_of_name split: option.splits)

lemma init_then_Ok:
  "init_then m f w = (Ok b, w'') \<longleftrightarrow> (\<exists>a w'. m w = (Ok a, w') \<and> f a w' = (Ok b, w''))"
  by (auto simp: init_then_def split: prod.splits sum.splits)

text \<open>
  C37: In a VM the host built, \<open>require\<close> of \<open>embedded.<name>\<close> answers the embedded source whatever is on disk.
  Any other name is what the nearest directory says of it, its error included and its Teal before its Lua:
  the script's, then the project's vendored modules, its own, and those of the base directory, as far as they
  are there; a name no directory knows is the embedded source of that name, or none.
\<close>

theorem require_resolves_by_tier:
  assumes "build_isle_init D IO given vm w = (Ok vm', w')"
  shows "\<exists>registry w0. vm_registry vm' = Some registry
    \<and> (\<forall>name now. registry_resolve IO registry (''embedded.'' @ name) now =
         (case embedded_source IO name of
            Some src \<Rightarrow> Some (Ok src)
          | None \<Rightarrow> find_map (tier_answer IO w0 (''embedded.'' @ name) now)
              (path_new (ii_script_dir given) # lib_roots D (io_env IO w) (ii_project_root given) w)))
    \<and> (\<forall>name now. (\<forall>n. name \<noteq> ''embedded.'' @ n) \<longrightarrow>
         registry_resolve IO registry name now =
           (case find_map (tier_answer IO w0 name now)
              (path_new (ii_script_dir given) # lib_roots D (io_env IO w) (ii_project_root given) w) of
              Some r \<Rightarrow> Some r
            | None \<Rightarrow> map_option Ok (embedded_source IO name)))"
proof -
  let ?roots = "path_new (ii_script_dir given) # lib_roots D (io_env IO w) (ii_project_root given) w"
  obtain w0 where reg: "vm_registry vm' = Some (require_registry IO ?roots w0)"
    using assms by (auto simp: build_isle_init_def Let_def init_then_Ok init_result_def)
  have dotted: "embedded_source IO (''embedded.'' @ name) = None" for name
    by (simp add: embedded_source_def embedded_names_def EMBEDDED_BLOCKS_def EMBEDDED_LIBS_def)
  have escaped: "memory_of IO EMBEDDED_ALIAS_PREFIX (''embedded.'' @ name) = embedded_source IO name" for name
    using memory_of_alias [of IO EMBEDDED_ALIAS_PREFIX name] by (simp add: EMBEDDED_ALIAS_PREFIX_def)
  have escape: "registry_resolve IO (require_registry IO ?roots w0) (''embedded.'' @ name) now =
      (case embedded_source IO name of
         Some src \<Rightarrow> Some (Ok src)
       | None \<Rightarrow> find_map (tier_answer IO w0 (''embedded.'' @ name) now) ?roots)" for name now
    unfolding registry_answer escaped dotted by (simp split: option.splits)
  have tiered: "registry_resolve IO (require_registry IO ?roots w0) name now =
      (case find_map (tier_answer IO w0 name now) ?roots of
         Some r \<Rightarrow> Some r
       | None \<Rightarrow> map_option Ok (embedded_source IO name))" if "\<forall>n. name \<noteq> ''embedded.'' @ n" for name now
    using that unfolding registry_answer by (simp add: memory_of_other EMBEDDED_ALIAS_PREFIX_def)
  show ?thesis by (intro exI [of _ "require_registry IO ?roots w0"] exI [of _ w0] conjI allI impI reg escape)
       (rule tiered, assumption)
qed

text \<open>A project that vendored \<open>policy\<close> and wrote an \<open>embedded.policy\<close> of its own.\<close>

definition demo_disk :: "unit disk" where
  "demo_disk =
     \<lparr>dk_exists = \<lambda>_ _. True, dk_is_file = \<lambda>_ _. False, dk_is_dir = \<lambda>p _. p = path_new ''/p/.agent-block/lib'',
      dk_read_dir = \<lambda>_ _. Ok [], dk_read_text = \<lambda>_ _. Ok [], dk_create_dir_all = \<lambda>_ w. (Ok (), w),
      dk_write = \<lambda>_ _ w. (Ok (), w), dk_make_private = \<lambda>_ w. (Ok (), w), dk_display = \<lambda>_. ''/p''\<rparr>"

definition demo_init :: "unit init_ops" where
  "demo_init =
     \<lparr>io_env = \<lambda>_. Map.empty, io_vm = \<lparr>vm_border = \<lambda>_. 0, vm_visit = id, vm_show = \<lambda>_. []\<rparr>, io_shown = \<lambda>_. [],
      io_source = \<lambda>n. ''source of '' @ n, io_knl_types = ''types'', io_declarations = [], io_version = ''1'',
      io_digest = \<lambda>_. [], io_temp_dir = \<lambda>_. [RootDir], io_order = \<lambda>_. [], io_batteries = Ok, io_overrides = Ok,
      io_new_checker = \<lambda>w. (Ok (), w), io_attach = \<lambda>w. (Ok (), w), io_write_if_changed = \<lambda>_ _ w. (Ok (), w),
      io_add_path = \<lambda>_ w. (Ok (), w), io_find_config = \<lambda>_ w. (Ok None, w), io_apply_config = \<lambda>_ _ w. (Ok (), w),
      io_add_search_paths = \<lambda>_ w. (Ok (), w), io_opens_teal = \<lambda>_ _. True, io_opens_fs = \<lambda>_ _. True,
      io_teal = \<lambda>_ _ _. None,
      io_fs = \<lambda>root n _. if root = path_new ''/p/.agent-block/lib'' \<and> n \<in> {''policy'', ''embedded.policy''} then Some (Ok ''copy'') else None,
      io_install = \<lambda>w. (Ok (), w)\<rparr>"

definition demo_given :: isle_init where
  "demo_given = \<lparr>ii_script_name = ''s'', ii_script_dir = ''/p'', ii_project_root = path_new ''/p'', ii_prompt = None,
     ii_context = None, ii_globals = Map.empty\<rparr>"

definition demo_blank :: vm_state where
  "demo_blank = \<lparr>vm_globals = Map.empty, vm_package_path = [], vm_preload = Map.empty, vm_registry = None\<rparr>"

lemma demo_roots:
  "lib_roots demo_disk Map.empty (path_new ''/p'') () = [path_new ''/p/.agent-block/lib'']"
  "path_new ''/p'' \<noteq> path_new ''/p/.agent-block/lib''"
proof -
  obtain e where "base_dir Map.empty = Err e" by (simp add: base_dir_def env_var_def)
  then show "lib_roots demo_disk Map.empty (path_new ''/p'') () = [path_new ''/p/.agent-block/lib'']"
    by (simp add: lib_roots_def demo_disk_def PROJECT_DIR_def join_path_def path_new_def components_of_def)
  show "path_new ''/p'' \<noteq> path_new ''/p/.agent-block/lib''" by (simp add: path_new_def components_of_def)
qed

lemma require_resolves_by_tier_witness:
  "\<exists>vm' registry. build_isle_init demo_disk demo_init demo_given demo_blank () = (Ok vm', ()) \<and> vm_registry vm' = Some registry
    \<and> registry_resolve demo_init registry ''policy'' () = Some (Ok ''copy'')
    \<and> registry_resolve demo_init registry ''embedded.policy'' () = Some (Ok ''source of policy'')
    \<and> registry_resolve demo_init registry ''session'' () = Some (Ok ''source of session'')
    \<and> registry_resolve demo_init registry ''nothing'' () = None"
proof -
  obtain vm' where built: "build_isle_init demo_disk demo_init demo_given demo_blank () = (Ok vm', ())"
    by (simp add: build_isle_init_def Let_def init_then_def init_result_def told_def checker_stage_def apply_project_config_def
        teal_declarations_dir_def demo_init_def demo_given_def)
  have roots: "lib_roots demo_disk (io_env demo_init ()) (ii_project_root demo_given) () = [path_new ''/p/.agent-block/lib'']"
    using demo_roots by (simp add: demo_init_def demo_given_def)
  have tiers: "find_map (tier_answer demo_init w0 name now) [path_new ''/p'', path_new ''/p/.agent-block/lib''] =
      (if name \<in> {''policy'', ''embedded.policy''} then Some (Ok ''copy'') else None)" for w0 name now
    using demo_roots(2) by (simp add: tier_answer_def demo_init_def)
  have sources: "embedded_source demo_init ''policy'' = Some ''source of policy''" "embedded_source demo_init ''session'' = Some ''source of session''"
      "embedded_source demo_init ''nothing'' = None"
    by (simp_all add: embedded_source_def embedded_names_def EMBEDDED_BLOCKS_def EMBEDDED_LIBS_def demo_init_def)
  from require_resolves_by_tier [OF built, unfolded roots] obtain registry w0
    where reg: "vm_registry vm' = Some registry"
      and escape: "\<forall>name now. registry_resolve demo_init registry (''embedded.'' @ name) now =
         (case embedded_source demo_init name of
            Some src \<Rightarrow> Some (Ok src)
          | None \<Rightarrow> find_map (tier_answer demo_init w0 (''embedded.'' @ name) now)
              [path_new (ii_script_dir demo_given), path_new ''/p/.agent-block/lib''])"
      and tiered: "\<forall>name now. (\<forall>n. name \<noteq> ''embedded.'' @ n) \<longrightarrow>
         registry_resolve demo_init registry name now =
           (case find_map (tier_answer demo_init w0 name now) [path_new (ii_script_dir demo_given), path_new ''/p/.agent-block/lib''] of
              Some r \<Rightarrow> Some r
            | None \<Rightarrow> map_option Ok (embedded_source demo_init name))"
    by blast
  have dir: "ii_script_dir demo_given = ''/p''" by (simp add: demo_given_def)
  have "registry_resolve demo_init registry ''embedded.policy'' () = Some (Ok ''source of policy'')"
    using escape [rule_format, of "''policy''" "()"] sources by simp
  moreover have "registry_resolve demo_init registry name () =
      (if name \<in> {''policy'', ''embedded.policy''} then Some (Ok ''copy'') else map_option Ok (embedded_source demo_init name))"
    if "\<forall>n. name \<noteq> ''embedded.'' @ n" for name
    using tiered [THEN spec, THEN spec, THEN mp, OF that, of "()"] by (simp only: dir tiers) simp
  ultimately show ?thesis using built reg sources by (intro exI [of _ vm'] exI [of _ registry]) simp
qed

end
