(* ===== verification/Knl_Types.thy ===== *)
theory Knl_Types
  imports Bridge_Knl Strings
begin

text \<open>
  The Teal declaration \<open>bridge/knl.rs\<close> writes of its argument and return types (\<open>mod teal\<close>,
  \<open>teal_module_source\<close>) and what it does to the rendering of a schema for run time (\<open>named_scalar\<close>,
  \<open>close_shape\<close>). The schema of each type, which \<open>schema_bridge\<close> derives, and the rendering are arguments.
\<close>

datatype schema =
  S_String | S_Number | S_Integer | S_Boolean | S_Null | S_Any
| S_Array schema
| S_Record schema schema
| S_Tuple "schema list"
| S_Ref string
| S_Union "schema list"
| S_Object "(string \<times> schema) list"
| S_Enum "string list"

datatype strict = Strict_Open | Strict_Closed

section \<open>The text of a type\<close>

fun is_table :: "schema \<Rightarrow> bool" where
  "is_table (S_Array s) = True"
| "is_table (S_Object fs) = True"
| "is_table (S_Tuple ss) = True"
| "is_table (S_Record k v) = True"
| "is_table (S_Ref n) = True"
| "is_table _ = False"

fun nameless :: "schema \<Rightarrow> bool" where
  "nameless (S_Object fs) = True"
| "nameless (S_Enum vs) = True"
| "nameless _ = False"

definition push_new :: "string list \<Rightarrow> string \<Rightarrow> string list" where
  "push_new parts part = (if part \<in> set parts then parts else parts @ [part])"

fun type_text :: "schema \<Rightarrow> string" where
  "type_text S_String = ''string''"
| "type_text S_Number = ''number''"
| "type_text S_Integer = ''integer''"
| "type_text S_Boolean = ''boolean''"
| "type_text S_Null = ''nil''"
| "type_text S_Any = ''any''"
| "type_text (S_Array item) = fmt [[CHR 0x7B], type_text item, [CHR 0x7D]]"
| "type_text (S_Record key value) = fmt [[CHR 0x7B], type_text key, '':'', type_text value, [CHR 0x7D]]"
| "type_text (S_Tuple items) = fmt [[CHR 0x7B], join_with '', '' (map type_text items), [CHR 0x7D]]"
| "type_text (S_Ref name) = name"
| "type_text (S_Union variants) =
     (if length (filter is_table variants) > 1 then ''any''
      else let parts = foldl push_new [] (map (\<lambda>v. if nameless v then ''any'' else type_text v) variants)
           in if ''any'' \<in> set parts then ''any'' else join_with '' | '' parts)"
| "type_text (S_Object fs) = ''any''"
| "type_text (S_Enum values) = ''any''"

section \<open>The declaration of a type\<close>

definition teal_keywords :: "string list" where
  "teal_keywords =
     [''and'', ''break'', ''do'', ''else'', ''elseif'', ''end'', ''false'', ''for'', ''function'', ''goto'', ''if'', ''in'',
      ''local'', ''nil'', ''not'', ''or'', ''repeat'', ''return'', ''then'', ''true'', ''until'', ''while'', ''record'',
      ''enum'', ''type'', ''global'', ''interface'', ''where'', ''is'', ''as'']"

definition teal_key :: "string \<Rightarrow> string" where
  "teal_key name =
     (if name \<noteq> [] \<and> \<not> is_ascii_digit (hd name)
         \<and> list_all (\<lambda>c. is_ascii_alphabetic c \<or> is_ascii_digit c \<or> c = CHR ''_'') name
         \<and> name \<notin> set teal_keywords
      then name else fmt [''['', debug_string name, '']''])"

definition ascii_upper :: "char \<Rightarrow> char" where
  "ascii_upper c = (if CHR ''a'' \<le> c \<and> c \<le> CHR ''z'' then char_of (of_char c - 32 :: nat) else c)"

definition pascal :: "string \<Rightarrow> string" where
  "pascal name =
     concat (map (\<lambda>part. case part of [] \<Rightarrow> [] | c # cs \<Rightarrow> ascii_upper c # cs)
       (filter (\<lambda>part. part \<noteq> []) (split_on (CHR ''_'') name)))"

definition pad :: "nat \<Rightarrow> string" where
  "pad depth = concat (replicate depth ''    '')"

abbreviation nl :: string where "nl \<equiv> [CHR 0x0A]"

function (sequential) teal_declaration :: "string \<Rightarrow> schema \<Rightarrow> nat \<Rightarrow> string"
  and field_lines :: "string \<times> schema \<Rightarrow> nat \<Rightarrow> string" where
  "teal_declaration name (S_Object fs) depth =
     fmt [pad depth, ''record '', name, nl, concat (map (\<lambda>f. field_lines f (Suc depth)) fs), pad depth, ''end'', nl]"
| "teal_declaration name (S_Enum values) depth =
     fmt [pad depth, ''enum '', name, nl,
          concat (map (\<lambda>v. fmt [pad depth, ''    '', debug_string v, nl]) values), pad depth, ''end'', nl]"
| "teal_declaration name s depth = fmt [pad depth, ''type '', name, '' = '', type_text s, nl]"
| "field_lines (fname, s) depth =
     (case s of
        S_Array item \<Rightarrow>
          (if nameless item
           then let nested = pascal fname @ ''Entry'' in
                fmt [teal_declaration nested item depth, pad depth, teal_key fname, '': '', [CHR 0x7B], nested, [CHR 0x7D], nl]
           else fmt [pad depth, teal_key fname, '': '', type_text s, nl])
      | _ \<Rightarrow>
          (if nameless s
           then let nested = pascal fname in
                fmt [teal_declaration nested s depth, pad depth, teal_key fname, '': '', nested, nl]
           else fmt [pad depth, teal_key fname, '': '', type_text s, nl]))"
  by pat_completeness auto
termination
proof (relation "measure (case_sum (\<lambda>(name, s, depth). 2 * size s) (\<lambda>((fname, s), depth). 2 * size s + 1))", goal_cases)
  case (2 name fs depth f)
  obtain fname s where f: "f = (fname, s)" by force
  with 2 obtain ys zs where "fs = ys @ (fname, s) # zs" by (auto dest: split_list)
  then show ?case by (simp add: f)
qed auto

section \<open>The module\<close>

definition teal_head :: string where
  "teal_head = fmt
     [''--- knl_types '', [CHR 0xE2, CHR 0x80, CHR 0x94], '' the kernel'', [CHR 0x27], ''s syscall types, for the checker.'', nl,
      ''---'', nl,
      ''--- Generated by agent-block-core from the argument and return types of'', nl,
      ''--- `bridge/knl.rs` (schema-bridge -> Teal), the same types `knl_types`'', nl,
      ''--- (the lshape module) declares for run time. Not hand-written: a test'', nl,
      ''--- holds this file to the generator, and the host hands the checker its'', nl,
      ''--- own render at start, so there is nothing here to edit.'', nl,
      ''local record knl_types'', nl]"

definition build_teal_module_source :: "(string \<times> schema \<times> strict) list \<Rightarrow> string" where
  "build_teal_module_source declared =
     fmt [teal_head, concat (map (\<lambda>(name, s, _). teal_declaration name s 1) declared), ''end'', nl, ''return knl_types'', nl]"

definition named_scalar :: "string \<Rightarrow> string \<Rightarrow> string" where
  "named_scalar name body =
     (if starts_with ''T.'' body \<and> drop 2 body \<noteq> [] \<and> list_all (\<lambda>c. CHR ''a'' \<le> c \<and> c \<le> CHR ''z'') (drop 2 body)
      then fmt [body, '':describe('', debug_string name, '')''] else body)"

text \<open>\<open>None\<close> is a panic.\<close>

definition close_shape :: "string \<Rightarrow> string option" where
  "close_shape body =
     (if 2 \<le> length body \<and> drop (length body - 2) body = [CHR 0x7D, CHR '')'']
      then Some (fmt [take (length body - 2) body, [CHR 0x7D], '', '', [CHR 0x7B], '' open = false '', [CHR 0x7D], '')''])
      else None)"

definition lshape_head :: string where
  "lshape_head = fmt
     [''-- Generated by agent-block-core from the argument and return types of'', nl,
      ''-- `bridge/knl.rs` (schema-bridge -> lshape): what the host embeds as'', nl,
      ''-- `knl_types`, built at its start. The copy in the tree is for the'', nl,
      ''-- runners that have no host, and a test holds it to the generator, so'', nl,
      ''-- there is nothing here to edit.'', nl,
      ''local T = require('', [CHR 0x22], ''lshape'', [CHR 0x22], '').t'', nl, nl, ''local M = '', [CHR 0x7B, CHR 0x7D], nl, nl]"

fun lshape_entries :: "(schema \<Rightarrow> string option) \<Rightarrow> (string \<times> schema \<times> strict) list \<Rightarrow> string option" where
  "lshape_entries to_lshape [] = Some []"
| "lshape_entries to_lshape ((name, s, strict) # ds) =
     Option.bind (to_lshape s) (\<lambda>body.
     Option.bind (case strict of Strict_Open \<Rightarrow> Some body | Strict_Closed \<Rightarrow> close_shape body) (\<lambda>body.
     map_option (\<lambda>more. fmt [''M.'', name, '' = '', named_scalar name body, nl, nl, more]) (lshape_entries to_lshape ds)))"

definition build_lshape_module_source :: "(schema \<Rightarrow> string option) \<Rightarrow> (string \<times> schema \<times> strict) list \<Rightarrow> string option" where
  "build_lshape_module_source to_lshape declared =
     map_option (\<lambda>es. fmt [lshape_head, es, ''return M'', nl]) (lshape_entries to_lshape declared)"

section \<open>What the checker takes\<close>

text \<open>
  Teal refuses a union of two tables. The text of a union of types that are no unions themselves is \<open>any\<close>
  or has at most one of them in it.
\<close>

lemma set_push_new: "set (foldl push_new parts ps) = set parts \<union> set ps"
  by (induction ps arbitrary: parts) (auto simp: push_new_def)

lemma union_has_one_table:
  assumes "type_text (S_Union variants) \<noteq> ''any''"
  shows "length (filter is_table variants) \<le> 1 \<and> list_all (\<lambda>v. \<not> nameless v) variants
    \<and> type_text (S_Union variants) = join_with '' | '' (foldl push_new [] (map type_text variants))"
proof -
  have named: "list_all (\<lambda>v. \<not> nameless v) variants"
    using assms by (auto simp: set_push_new list_all_iff Let_def split: if_splits)
  then have texts: "map (\<lambda>v. if nameless v then ''any'' else type_text v) variants = map type_text variants"
    by (induction variants) simp_all
  have few: "\<not> length (filter is_table variants) > 1" using assms by (auto split: if_splits)
  have "type_text (S_Union variants) =
      join_with '' | '' (foldl push_new [] (map (\<lambda>v. if nameless v then ''any'' else type_text v) variants))"
    using few assms by (simp add: Let_def split: if_splits)
  then have "type_text (S_Union variants) = join_with '' | '' (foldl push_new [] (map type_text variants))"
    unfolding texts .
  with few named show ?thesis by linarith
qed

text \<open>A union in a union is counted as no table, whatever is in it.\<close>

lemma nested_union_slips_through:
  "type_text (S_Union [S_Union [S_Array S_String, S_Null], S_Array S_Integer]) = ''{string} | nil | {integer}''"
  by (simp add: push_new_def fmt_def)

end
