(* ===== verification/Spec2Isabelle.thy ===== *)
theory Spec2Isabelle
  imports Session_Machine Host_Properties Bridge_Properties
    Source_Properties Bus_Registration Lua_Json_Properties Obs Sandbox
    Fs_Properties Cli_Knl_Properties Block_Properties Host_Run_Properties
    Cli_Properties Vendor_Properties Sh_Properties Mcp_Request_Properties Ts_Properties
    Http_Properties Tools_Properties Mesh Isle_Properties Knl_Types
begin

text \<open>
  \<^bold>\<open>The kernel of agent-block and its Lua surface.\<close>

  agent-block runs agent scripts (Lua) on a host. What a script did is kept as an event log: a
  \<^emph>\<open>session\<close> is one stream of a log (a database), everything a session knows about itself
  (its owner, its budget, whether it has ended) is a fold over its stream, and every decision that
  depends on the log (may this amount be reserved, may this child be opened) is made inside the
  transaction that writes its outcome. This library models that kernel,
  \<open>src/crates/agent-block-core/src/knl/\<close>, the bridge a script reaches it through,
  \<open>src/crates/agent-block-core/src/bridge/knl.rs\<close>, and proves what the two promise.

  \<^bold>\<open>The theories, bottom up.\<close>

  \<^item> \<open>Prelude\<close>: results, text, the machine integers, finite floats, list facts. \<open>Json\<close>: the part
    of \<open>serde_json\<close> the kernel computes with.
  \<^item> \<open>Knl_Error\<close> (\<open>knl/mod.rs\<close>): the eight error classes. \<open>Event\<close> (\<open>knl/event.rs\<close>): the envelope,
    its validator, the stamps. \<open>Upcast\<close> (\<open>knl/event_store.rs\<close>, versions): the shapes an event was
    stored in and the chain that brings it forward. \<open>Budget\<close> (\<open>knl/budget.rs\<close>, \<open>knl/scope.rs\<close>): the
    ledger as a fold, grants, scopes. \<open>History\<close> (\<open>knl/history.rs\<close>, \<open>knl/projection.rs\<close>): the
    in-memory stream and the tail view. \<open>Query\<close> (\<open>knl/query.rs\<close>): the scanner that finds the
    parameters of a statement and binds them.
  \<^item> \<open>Event_Store\<close>: the trait \<open>EventStore\<close> as a record of operations, the upcasting seam
    \<open>CurrentStore\<close> over it, and the contract of a store as the locale \<open>lawful_store\<close>: \<open>view\<close> gives
    the streams a world holds; a write validates first, takes the next numbers and lands whole or
    leaves no trace; a decision sees the stream as it is when its event lands.
  \<^item> \<open>Session_Events\<close>, \<open>Session\<close> (\<open>knl/session.rs\<close>): the events the kernel writes, the handle and
    every operation on it. \<open>Session_Laws\<close>, \<open>Session_Lifecycle\<close>: what each operation does, proved
    once inside \<open>lawful_store\<close>.
  \<^item> \<open>Sqlite_Store\<close> (\<open>knl/sqlite_store.rs\<close>): the adapter onto the eventsdb crates, which are
    outside the repository and a record of functions here. \<open>Eventsdb\<close>: the laws those crates
    document, as the locale \<open>eventsdb_laws\<close>, and the sublocale that the adapter then is a
    \<open>lawful_store\<close>. \<open>Reference_Log\<close>: a log kept as lists that satisfies the laws, so the
    hypotheses can hold and the witnesses can run.
  \<^item> \<open>Logs\<close> (\<open>knl/logs.rs\<close>): the open logs of a host, the work of an open, the import of an earlier
    release's table, shutdown. \<open>Legacy\<close>: the import's laws (locales \<open>legacy_laws\<close>,
    \<open>legacy_live\<close>) and its correctness.
  \<^item> \<open>Knl_Types\<close> (\<open>bridge/knl.rs\<close>): the declarations generated from the argument and return types.
  \<^item> \<open>Bridge_Knl\<close> (\<open>bridge/knl.rs\<close>): error attribution and its reader, the session userdata and its
    methods, options, \<open>knl.open\<close> and \<open>knl.resume\<close>. \<open>Reference_Host\<close>: a concrete host for witnesses.
  \<^item> \<open>Session_Properties\<close>, \<open>Tree_Properties\<close>, \<open>Session_Machine\<close>, \<open>Host_Properties\<close>,
    \<open>Bridge_Properties\<close>: the properties. \<open>Session_Machine\<close> runs any number of handles on any
    streams, one operation after another in any order, with every operation's own interruptions.

  Beside the kernel, the parts of the host a script's work goes through:

  \<^item> \<open>Strings\<close>: UTF-8, white space and cutting, as \<open>str\<close> has them. \<open>Config\<close>
    (\<open>bridge/config.rs\<close>): paths and knobs read from the environment.
  \<^item> \<open>Bus\<close> (\<open>bus/event.rs\<close>, \<open>bus/dispatcher.rs\<close>): events, acknowledgements, the handler table and
    the dispatcher loop, a step relation beside the steps of its sources. \<open>Bus_Properties\<close>: its
    invariant by rule induction, and that it drains its queue.
  \<^item> \<open>Sources\<close> (\<open>bus/http_source.rs\<close>, the mesh relay of \<open>host.rs\<close>): what turns requests into
    events. \<open>Source_Properties\<close>: who gets through, and what a caller hears through the bus.
  \<^item> \<open>Bridge_Bus\<close> (\<open>bridge/bus.rs\<close>, \<open>setup_event_bus\<close> of \<open>host.rs\<close>): a script's and the host's
    registrations and \<open>bus.serve\<close>. \<open>Bus_Registration\<close>: they refine one table of targets.
  \<^item> \<open>Lua_Json\<close>, \<open>Lua_Json_Properties\<close> (\<open>lua_json.rs\<close> of the MCP crate): values across the Lua
    boundary, and that they come back. \<open>Obs\<close> (\<open>obs.rs\<close> of the types crate): log lines and what
    they hide. \<open>Sandbox\<close> (\<open>sandbox.rs\<close>): the execution boundary, fail-closed.

  \<^item> \<open>Fs_Edit\<close>, \<open>Fs_Properties\<close> (\<open>bridge/fs.rs\<close>): batched edits of a file, rollback, inspect.
  \<^item> \<open>Sh\<close>, \<open>Sh_Properties\<close> (\<open>bridge/sh.rs\<close>): commands and their process groups, the registry a machine
    of commands that begin, end, are dropped and are killed.
  \<^item> \<open>Ts\<close>, \<open>Ts_Properties\<close> (\<open>bridge/ts.rs\<close>): time series, from a script's arguments to the
    statement, what is bound to it and the rows; that nothing else reaches its text.
  \<^item> \<open>Http_Client\<close>, \<open>Http_Properties\<close> (\<open>bridge/http.rs\<close>): requests with their trace headers, and streams
    whose events do not depend on the chunks. \<open>Tools\<close>, \<open>Tools_Properties\<close> (\<open>bridge/mod.rs\<close>,
    \<open>bridge/tool.rs\<close>): the Lua halves of bridges, walked along \<open>__index\<close>, and the registry of tools.
    \<open>Isle_Init\<close>, \<open>Isle_Properties\<close> (\<open>host.rs\<close>): what a VM holds at first and what \<open>require\<close> answers.
    \<open>Mesh\<close> (\<open>bridge/mesh.rs\<close>, \<open>bridge/task/mod.rs\<close>, \<open>bridge/llm.rs\<close>).
  \<^item> \<open>Host_Config\<close>, \<open>Host_Run\<close>, \<open>Host_Run_Properties\<close> (\<open>host.rs\<close>): what a run is given, the run
    as stages with early return, and its teardown, told by the journal of the locale \<open>journal_host\<close>.

  \<^item> \<open>Mcp_Client\<close>, \<open>Mcp_Handler\<close>, \<open>Mcp_Bridge\<close> (\<open>lib.rs\<close>, \<open>http.rs\<close> and \<open>handler.rs\<close> of the MCP crate,
    \<open>bridge/mcp.rs\<close>): the manager of MCP servers, what a server sends and asks, and the table scripts
    call. \<open>Mcp_Machine\<close>: scripts, servers and the dispatch task in any order.
    \<open>Mcp_Client_Properties\<close>, \<open>Mcp_Request_Properties\<close>: the bounded channel (the locale
    \<open>bounded_channel\<close>), the opt-in of the trace context, calls and answers.

  The command line:

  \<^item> \<open>Blocks\<close>, \<open>Block_Properties\<close> (\<open>agent-block/src/blocks.rs\<close> and the tiers of \<open>host.rs\<close>): the
    registry of callable blocks, over the file system as the record \<open>disk\<close>.
  \<^item> \<open>Cli_Knl\<close>, \<open>Cli_Knl_Properties\<close> (\<open>agent-block/src/knl.rs\<close>): reading a log from another process.
  \<^item> \<open>Disk\<close>: what the commands rely on of a file system, as the locale \<open>disk_laws\<close>. \<open>Serve\<close>,
    \<open>Serve_Properties\<close> (\<open>agent-block/src/serve/mod.rs\<close>): declarations, token and run of the manager.
  \<^item> \<open>Vendor\<close>, \<open>Vendor_Properties\<close> (\<open>vendor.rs\<close>, \<open>embedded.rs\<close>): copying embedded modules out.
  \<^item> \<open>Mcp_Jobs\<close>, \<open>Mcp_Serve\<close>, \<open>Mcp_Properties\<close> (\<open>mcp_serve/\<close>, the routes of \<open>serve/serve.lua\<close>): the
    blocks and the job manager's verbs as tools and resources.
  \<^item> \<open>Cli\<close>, \<open>Cli_Properties\<close> (\<open>main.rs\<close>): the start, the subcommands over all of the above, and the
    inputs of one run.

  \<^bold>\<open>State and operations.\<close> The world \<open>'w\<close> is whatever the log lives in; an operation takes the
  handle and the world and returns its answer with both. A call with several store accesses takes
  an argument \<open>env\<close>: \<open>env k\<close> is what other handles did before its access number \<open>k\<close>, and the
  theorems hold for every \<open>env\<close> that only adds to streams (\<open>only_adds\<close>). What the code draws
  from outside (minted ids, the clock, the rendering of JSON, the answers of the Lua deserializer)
  is an argument. A decision's captured cells are the record \<open>cells\<close>.

  \<^bold>\<open>What is shown.\<close> The ledger: a reservation is granted exactly when the log's balance covers it;
  under every interleaving reservations never exceed grants; opening a child moves units and
  creates none. The log: streams only grow and stay densely numbered; the SQLite adapter keeps the
  store contract. The handle: caching never shows a stale balance; opening and resuming round-trip;
  an end is final. The edges: the validator is exactly its specification; the upcaster chain
  terminates in the current shape; no value reaches the text of a query; the bridge's errors come
  back as they were raised. The host: one log per database, and the migration brings every row
  over or changes nothing, and always succeeds on a well-numbered table. The bus: one event at a
  time, in order, each answered with its own answer; nothing unwelcome becomes an event;
  registrations mean what they say until the bus is served. The MCP client: notifications wait in
  bounded order for the callback of their own server; the agent's identity is asked for. The small
  bridges: a stream's events do not depend on its chunks; no value reaches the text of a time-series
  statement; \<open>require\<close> answers by tier, and \<open>embedded.\<close> always answers the embedded source. The values: JSON in range crosses Lua
  and back unchanged.

  \<^bold>\<open>Bounds.\<close> \<open>i64\<close> and \<open>u64\<close> are \<open>int\<close> and \<open>nat\<close> with saturation and casts written out; a
  limit of \<open>None\<close> is \<open>usize::MAX\<close>. \<open>debug_assert!\<close> is read as in a release build. No definition
  needs fuel: a loop of the modelled code recurses on its data, but for two that need not end: the
  dispatcher's is a step relation, and the walk along \<open>__index\<close> (\<open>Tools\<close>) a partial function whose
  value is \<open>None\<close> when it does not. A panic is a value (\<open>None\<close>, \<open>SetupPanic\<close>).

  \<^bold>\<open>Not modelled.\<close> Threads, locks and the executor (a method holds its session's lock for the whole
  call, so calls of one handle are sequential; the mutex of the bus is never poisoned); timers and
  signals; SQLite and eventsdb themselves; mlua, axum, Landlock. The
  components of the manifest list the parts of the repository that are left out and why.
\<close>

end
